(* ===== verification/Prelude.thy ===== *)
theory Prelude
  imports Main "HOL-Library.List_Lexorder" "HOL-Library.Char_ord"
begin

text \<open>
  What every other theory of the development shares: the Go values the sources use
  (byte strings, 64-bit integers, \<^verbatim>\<open>time.Time\<close> instants and their RFC 3339
  text), the errors of the stores, the database environment a store call runs in,
  and SQL tables as lists of rows with their statements.

  Conventions.
  A Go \<^verbatim>\<open>string\<close> or \<^verbatim>\<open>[]byte\<close> is a list of 8-bit characters, so
  \<^verbatim>\<open>len\<close> is \<open>length\<close>.
  An instant is the number of nanoseconds since Go's zero time (1 January of year 1,
  UTC), so the zero \<^verbatim>\<open>time.Time\<close> is \<open>0\<close> and \<^verbatim>\<open>UTC()\<close>, which
  changes the location and not the instant, is the identity.
  A store operation takes the environment (the context, whether the store is
  closed, which database calls fail) and the tables, and returns the new tables
  with the Go result; a transaction that is not committed leaves the tables as
  they were, which is what \<^verbatim>\<open>defer tx.Rollback()\<close> asks of SQLite.
\<close>

named_theorems table_simps \<open>rewriting of table statements\<close>
named_theorems valid_defs \<open>definitions of the argument checks\<close>

section \<open>Machine integers\<close>

text \<open>Go's \<^verbatim>\<open>int64\<close> arithmetic wraps around.\<close>

definition int64 :: "int \<Rightarrow> int" where
  "int64 x = (x + 2 ^ 63) mod 2 ^ 64 - 2 ^ 63"

lemma int64_id [simp]: "- (2 ^ 63) \<le> x \<Longrightarrow> x < 2 ^ 63 \<Longrightarrow> int64 x = x"
  by (simp add: int64_def)

lemma int64_lower: "- (2 ^ 63) \<le> int64 x"
  by (simp add: int64_def)

lemma int64_upper: "int64 x < 2 ^ 63"
  by (simp add: int64_def)

abbreviation max_js_sequence :: int where
  "max_js_sequence \<equiv> 9007199254740991"

section \<open>Byte strings\<close>

type_synonym bytes = string

definition contains_nul :: "string \<Rightarrow> bool" where
  "contains_nul s = (CHR 0x00 \<in> set s)"

text \<open>
  SQLite's \<^verbatim>\<open>length(X)\<close> on a TEXT value counts characters up to the first NUL:
  a byte of 0xC0 or more starts a character and takes the continuation bytes that
  follow it.
\<close>

definition is_continuation :: "char \<Rightarrow> bool" where
  "is_continuation c = (128 \<le> (of_char c :: nat) \<and> (of_char c :: nat) < 192)"

function sql_length :: "string \<Rightarrow> nat" where
  "sql_length [] = 0"
| "sql_length (c # cs) =
     (if c = CHR 0x00 then 0
      else if 192 \<le> (of_char c :: nat) then Suc (sql_length (dropWhile is_continuation cs))
      else Suc (sql_length cs))"
  by pat_completeness auto
termination
  by (relation "measure length") (auto simp: le_imp_less_Suc length_dropWhile_le)

lemma sql_length_le: "sql_length s \<le> length s"
proof (induction s rule: sql_length.induct)
  case (2 c cs)
  have "length (dropWhile is_continuation cs) \<le> length cs"
    by (rule length_dropWhile_le)
  with 2 show ?case by auto
qed simp

lemma sql_length_pos: "s \<noteq> [] \<Longrightarrow> \<not> contains_nul s \<Longrightarrow> 1 \<le> sql_length s"
  by (cases s) (auto simp: contains_nul_def)

section \<open>Instants and durations\<close>

type_synonym gotime = int
type_synonym duration = int

definition IsZero :: "gotime \<Rightarrow> bool" where
  "IsZero t = (t = 0)"

abbreviation After :: "gotime \<Rightarrow> gotime \<Rightarrow> bool" where
  "After t u \<equiv> u < t"

abbreviation Before :: "gotime \<Rightarrow> gotime \<Rightarrow> bool" where
  "Before t u \<equiv> t < u"

text \<open>\<^verbatim>\<open>Time.Sub\<close> saturates at the ends of the \<^verbatim>\<open>int64\<close> range.\<close>

definition time_Sub :: "gotime \<Rightarrow> gotime \<Rightarrow> duration" where
  "time_Sub t u = max (- (2 ^ 63)) (min (2 ^ 63 - 1) (t - u))"

abbreviation nanos_per_second :: int where
  "nanos_per_second \<equiv> 1000000000"

abbreviation seconds :: "int \<Rightarrow> duration" where
  "seconds n \<equiv> n * nanos_per_second"

lemma time_Sub_le_iff [simp]:
  "0 \<le> d \<Longrightarrow> d < 2 ^ 63 - 1 \<Longrightarrow> time_Sub t u \<le> d \<longleftrightarrow> t - u \<le> d"
  by (auto simp: time_Sub_def)

lemma time_Sub_pos_iff [simp]: "0 < time_Sub t u \<longleftrightarrow> u < t"
  by (auto simp: time_Sub_def)

section \<open>RFC 3339 text\<close>

text \<open>
  \<^verbatim>\<open>timestamp\<close> formats an instant with \<^verbatim>\<open>time.RFC3339Nano\<close> in UTC.
  The text is a date and time of fixed width down to the second, which the model
  keeps as the number of whole seconds (for the years 0 to 9999 its lexicographic
  order is the order of the seconds), and a suffix of variable width: \<open>Z\<close>, or a
  point, the fraction without its trailing zeros, and \<open>Z\<close>.
\<close>

type_synonym rfc3339 = "int \<times> string"

definition digit :: "nat \<Rightarrow> char" where
  "digit d = char_of (48 + d)"

definition digit_value :: "char \<Rightarrow> nat" where
  "digit_value c = of_char c - 48"

definition is_digit :: "char \<Rightarrow> bool" where
  "is_digit c = (48 \<le> (of_char c :: nat) \<and> (of_char c :: nat) \<le> 57)"

fun digits :: "nat \<Rightarrow> nat \<Rightarrow> string" where
  "digits 0 n = []"
| "digits (Suc k) n = digits k (n div 10) @ [digit (n mod 10)]"

definition digits_value :: "string \<Rightarrow> nat" where
  "digits_value ds = foldl (\<lambda>a c. 10 * a + digit_value c) 0 ds"

definition trim_zeros :: "string \<Rightarrow> string" where
  "trim_zeros ds = rev (dropWhile (\<lambda>c. c = CHR ''0'') (rev ds))"

definition frac_suffix :: "nat \<Rightarrow> string" where
  "frac_suffix n = (if n = 0 then ''Z'' else CHR ''.'' # trim_zeros (digits 9 n) @ ''Z'')"

definition parse_suffix :: "string \<Rightarrow> nat option" where
  "parse_suffix s =
     (if s = ''Z'' then Some 0
      else case s of
        [] \<Rightarrow> None
      | c # r \<Rightarrow>
          (if c = CHR ''.'' \<and> 2 \<le> length r \<and> last r = CHR ''Z'' \<and> list_all is_digit (butlast r)
           then Some (digits_value (take 9 (butlast r @ replicate 9 CHR ''0''))) else None))"

definition timestamp :: "gotime \<Rightarrow> rfc3339" where
  "timestamp t = (t div nanos_per_second, frac_suffix (nat (t mod nanos_per_second)))"

definition parse_rfc3339 :: "rfc3339 \<Rightarrow> gotime option" where
  "parse_rfc3339 x = map_option (\<lambda>n. fst x * nanos_per_second + int n) (parse_suffix (snd x))"

text \<open>SQLite compares TEXT columns byte by byte.\<close>

definition text_less :: "rfc3339 \<Rightarrow> rfc3339 \<Rightarrow> bool" where
  "text_less x y = (fst x < fst y \<or> fst x = fst y \<and> snd x < snd y)"

definition text_less_eq :: "rfc3339 \<Rightarrow> rfc3339 \<Rightarrow> bool" where
  "text_less_eq x y = (x = y \<or> text_less x y)"

lemma of_char_digit [simp]: "d < 10 \<Longrightarrow> (of_char (digit d) :: nat) = 48 + d"
  by (simp add: digit_def of_char_of)

lemma digit_value_digit [simp]: "d < 10 \<Longrightarrow> digit_value (digit d) = d"
  by (simp add: digit_value_def)

lemma is_digit_digit [simp]: "d < 10 \<Longrightarrow> is_digit (digit d)"
  by (simp add: is_digit_def)

lemma length_digits [simp]: "length (digits k n) = k"
  by (induction k arbitrary: n) auto

lemma digits_all_digit: "list_all is_digit (digits k n)"
  by (induction k arbitrary: n) auto

lemma digits_value_snoc [simp]: "digits_value (ds @ [c]) = 10 * digits_value ds + digit_value c"
  by (simp add: digits_value_def)

lemma digits_value_Nil [simp]: "digits_value [] = 0"
  by (simp add: digits_value_def)

lemma digits_value_digits: "n < 10 ^ k \<Longrightarrow> digits_value (digits k n) = n"
proof (induction k arbitrary: n)
  case (Suc k)
  have "n div 10 < 10 ^ k" using Suc.prems by (auto simp: div_less_iff_less_mult)
  from Suc.IH [OF this] show ?case by simp
qed simp

lemma trim_zeros_pad:
  obtains k where "ds = trim_zeros ds @ replicate k CHR ''0''"
    and "k + length (trim_zeros ds) = length ds"
proof -
  let ?P = "\<lambda>c. c = CHR ''0''"
  let ?z = "takeWhile ?P (rev ds)"
  have z: "?z = replicate (length ?z) CHR ''0''"
    by (rule replicate_length_same [symmetric]) (auto dest: set_takeWhileD)
  have "rev ds = ?z @ dropWhile ?P (rev ds)" by simp
  then have "ds = trim_zeros ds @ rev ?z"
    unfolding trim_zeros_def by (metis rev_append rev_rev_ident)
  then have ds: "ds = trim_zeros ds @ replicate (length ?z) CHR ''0''"
    using z by (metis rev_replicate)
  then have "length ds = length (trim_zeros ds) + length ?z"
    by (metis length_append length_replicate)
  with ds show ?thesis by (intro that) auto
qed

lemma take_trim_zeros:
  assumes "length ds = n"
  shows "take n (trim_zeros ds @ replicate n CHR ''0'') = ds"
proof -
  obtain k where ds: "ds = trim_zeros ds @ replicate k CHR ''0''"
    and k: "k + length (trim_zeros ds) = length ds" by (rule trim_zeros_pad)
  have "take n (trim_zeros ds @ replicate n CHR ''0'') =
      trim_zeros ds @ replicate k CHR ''0''"
    using k assms by (auto simp: min_def)
  with ds show ?thesis by simp
qed

lemma digits_zero_iff: "digits k n = replicate k CHR ''0'' \<longleftrightarrow> n mod 10 ^ k = 0"
proof (induction k arbitrary: n)
  case (Suc k)
  have zero: "digit d = CHR ''0'' \<longleftrightarrow> d = 0" if "d < 10" for d
  proof
    assume "digit d = CHR ''0''"
    then have "(of_char (digit d) :: nat) = of_char CHR ''0''" by simp
    with that show "d = 0" by simp
  next
    assume "d = 0"
    then have "(of_char (digit d) :: nat) = of_char CHR ''0''" by simp
    then show "digit d = CHR ''0''" by (simp only: of_char_eq_iff)
  qed
  have "digits (Suc k) n = replicate (Suc k) CHR ''0'' \<longleftrightarrow>
      n div 10 mod 10 ^ k = 0 \<and> n mod 10 = 0"
    using Suc.IH [of "n div 10"] zero [of "n mod 10"]
    by (auto simp: replicate_append_same [symmetric])
  also have "\<dots> \<longleftrightarrow> n mod 10 ^ Suc k = 0"
    by (simp add: mod_mult2_eq)
  finally show ?case .
qed simp

lemma trim_zeros_Nil: "trim_zeros ds = [] \<Longrightarrow> ds = replicate (length ds) CHR ''0''"
  by (rule trim_zeros_pad [of ds]) auto

lemma set_trim_zeros: "set (trim_zeros ds) \<subseteq> set ds"
  by (auto simp: trim_zeros_def dest: set_dropWhileD)

lemma parse_frac_suffix [simp]:
  assumes "n < 1000000000"
  shows "parse_suffix (frac_suffix n) = Some n"
proof (cases "n = 0")
  case False
  let ?ds = "trim_zeros (digits 9 n)"
  have ne: "?ds \<noteq> []"
  proof
    assume "?ds = []"
    then have "digits 9 n = replicate 9 CHR ''0''"
      using trim_zeros_Nil by fastforce
    then have "n mod 10 ^ 9 = 0" using digits_zero_iff by blast
    with assms False show False by simp
  qed
  have all: "list_all is_digit ?ds"
    using digits_all_digit [of 9 n] set_trim_zeros [of "digits 9 n"]
    by (auto simp: list_all_iff)
  have len: "2 \<le> length (?ds @ ''Z'')" using ne by (cases ?ds) auto
  have "take 9 (?ds @ replicate 9 CHR ''0'') = digits 9 n"
    by (rule take_trim_zeros) simp
  with assms have "digits_value (take 9 (?ds @ replicate 9 CHR ''0'')) = n"
    using digits_value_digits [of n 9] by simp
  with ne all len False show ?thesis
    by (simp add: parse_suffix_def frac_suffix_def butlast_append)
qed (simp add: frac_suffix_def parse_suffix_def)

lemma parse_timestamp [simp]: "parse_rfc3339 (timestamp t) = Some t"
  by (simp add: parse_rfc3339_def timestamp_def)

lemma timestamp_inject [simp]: "timestamp t = timestamp u \<longleftrightarrow> t = u"
  using parse_timestamp by (metis option.inject)

end
