(* ===== verification/Sql_Table.thy ===== *)
theory Sql_Table
  imports Prelude
begin

text \<open>
  The part of \<^verbatim>\<open>database/sql\<close> and SQLite that the stores rely on. A table is
  the list of its rows in insertion order; a statement is a function on that list.
  The environment of a store call says what the surroundings do: the state of the
  Go context at the start and after a failed write, whether the store has been closed, and which of the database calls of
  the operation (numbered in program order) return a driver error.

  \<open>store_guard\<close> is the prologue every exported store method starts with:
  \<^verbatim>\<open>requireContext\<close>, the argument check, then \<^verbatim>\<open>s.database()\<close>.

  The locale \<open>keyed_table\<close> is the interface the component theories use: rows with
  a primary key, and what a lookup returns after an insert, an update or a delete.
\<close>

section \<open>Errors and the environment of a store call\<close>

datatype store_error =
    ErrInvalid | ErrNotFound | ErrConflict | ErrExpired | ErrUnauthorized
  | ErrFutureSchema | ErrCorrupt | ErrClosed | ErrBootstrapCompleted
  | ErrReplayDetected | ErrTrustKeyNotFound
  | CtxCanceled | CtxDeadlineExceeded
  | Internal string | Plain string | DriverError

record env =
  ctx_err :: "store_error option"
  ctx_late :: "store_error option"
  store_dead :: bool
  call_fails :: "nat \<Rightarrow> bool"

definition live_env :: env where
  "live_env = \<lparr>ctx_err = None, ctx_late = None, store_dead = False, call_fails = (\<lambda>_. False)\<rparr>"

definition requireContext :: "env \<Rightarrow> store_error option" where
  "requireContext e = ctx_err e"

definition database :: "env \<Rightarrow> store_error option" where
  "database e = (if store_dead e then Some ErrClosed else None)"

definition store_guard :: "env \<Rightarrow> bool \<Rightarrow> store_error option" where
  "store_guard e valid =
     (case requireContext e of
        Some x \<Rightarrow> Some x
      | None \<Rightarrow> if \<not> valid then Some ErrInvalid else database e)"

text \<open>The surroundings of a store method that another one calls after its first \<open>n\<close> database
  calls: the context may have ended meanwhile.\<close>

definition later :: "nat \<Rightarrow> env \<Rightarrow> env" where
  "later n e = e\<lparr>ctx_err := (case ctx_err e of Some x \<Rightarrow> Some x | None \<Rightarrow> ctx_late e),
     call_fails := (\<lambda>k. call_fails e (n + k))\<rparr>"

lemma later_live [simp]: "later n live_env = live_env"
  by (simp add: later_def live_env_def)

lemma store_guard_live [simp]: "store_guard live_env v = (if v then None else Some ErrInvalid)"
  by (simp add: store_guard_def live_env_def requireContext_def database_def)

lemma call_fails_live [simp]: "\<not> call_fails live_env n"
  by (simp add: live_env_def)

text \<open>
  How a failed write is reported (\<^verbatim>\<open>pairingWriteError\<close>,
  \<^verbatim>\<open>mapInsertError\<close>): a context that ended meanwhile first, a constraint
  violation as a conflict, any other driver error as an internal error.
\<close>

definition write_error :: "env \<Rightarrow> string \<Rightarrow> bool \<Rightarrow> store_error" where
  "write_error e operation is_constraint =
     (case ctx_late e of
        Some x \<Rightarrow> x
      | None \<Rightarrow> if is_constraint then ErrConflict else Internal operation)"

lemma write_error_live [simp]:
  "write_error live_env op c = (if c then ErrConflict else Internal op)"
  by (simp add: write_error_def live_env_def)

lemma ctx_err_live [simp]: "ctx_err live_env = None"
  by (simp add: live_env_def)

lemma store_guard_NoneD: "store_guard e v = None \<Longrightarrow> v"
  by (auto simp: store_guard_def split: option.splits if_splits)

text \<open>\<^verbatim>\<open>CHECK (length(column) BETWEEN lo AND hi)\<close> on a TEXT column.\<close>

definition length_between :: "nat \<Rightarrow> int \<Rightarrow> string \<Rightarrow> bool" where
  "length_between lo hi s = (lo \<le> sql_length s \<and> int (sql_length s) \<le> hi)"

lemma length_between_bound:
  "s \<noteq> [] \<Longrightarrow> \<not> contains_nul s \<Longrightarrow> int (length s) \<le> n \<Longrightarrow> length_between 1 n s"
  using sql_length_pos [of s] sql_length_le [of s] by (simp add: length_between_def)

section \<open>Operations that change nothing when they fail\<close>

text \<open>
  \<open>atomic err db x\<close>: if the outcome \<open>x\<close> (new tables and result) reports an error
  then the tables are \<open>db\<close> still. The introduction rules follow the branches of an
  operation.
\<close>

definition atomic :: "('a \<Rightarrow> bool) \<Rightarrow> 's \<Rightarrow> 's \<times> 'a \<Rightarrow> bool" where
  "atomic err db x = (err (snd x) \<longrightarrow> fst x = db)"

named_theorems atomic_intros \<open>branch rules of \<open>atomic\<close>\<close>

lemma atomic_if [atomic_intros]: "atomic err db a \<Longrightarrow> atomic err db b \<Longrightarrow> atomic err db (if c then a else b)"
  by simp

lemma atomic_option [atomic_intros]:
  "atomic err db a \<Longrightarrow> (\<And>x. atomic err db (f x)) \<Longrightarrow> atomic err db (case y of None \<Rightarrow> a | Some x \<Rightarrow> f x)"
  by (simp split: option.split)

lemma atomic_sum [atomic_intros]:
  "(\<And>x. atomic err db (f x)) \<Longrightarrow> (\<And>x. atomic err db (g x)) \<Longrightarrow>
    atomic err db (case y of Inl x \<Rightarrow> f x | Inr x \<Rightarrow> g x)"
  by (simp split: sum.split)

lemma atomic_prod [atomic_intros]:
  "(\<And>a b. atomic err db (f a b)) \<Longrightarrow> atomic err db (case p of (a, b) \<Rightarrow> f a b)"
  by (simp split: prod.split)

lemma atomic_Let [atomic_intros]: "(\<And>x. atomic err db (f x)) \<Longrightarrow> atomic err db (Let v f)"
  by (simp add: Let_def)

lemma atomic_same [atomic_intros]: "atomic err db (db, r)"
  by (simp add: atomic_def)

lemma atomic_ok [atomic_intros]: "\<not> err r \<Longrightarrow> atomic err db (db', r)"
  by (simp add: atomic_def)

text \<open>
  \<open>preserves f db x\<close>: the outcome \<open>x\<close> has the same \<open>f\<close> (a table, a view of it) as \<open>db\<close>.
\<close>

definition preserves :: "('s \<Rightarrow> 'v) \<Rightarrow> 's \<Rightarrow> 's \<times> 'a \<Rightarrow> bool" where
  "preserves f db x = (f (fst x) = f db)"

named_theorems preserves_intros \<open>branch rules of \<open>preserves\<close>\<close>

lemma preserves_if [preserves_intros]:
  "preserves f db a \<Longrightarrow> preserves f db b \<Longrightarrow> preserves f db (if c then a else b)"
  by simp

lemma preserves_option [preserves_intros]:
  "preserves f db a \<Longrightarrow> (\<And>x. y = Some x \<Longrightarrow> preserves f db (g x)) \<Longrightarrow>
    preserves f db (case y of None \<Rightarrow> a | Some x \<Rightarrow> g x)"
  by (simp split: option.split)

lemma preserves_sum [preserves_intros]:
  "(\<And>x. y = Inl x \<Longrightarrow> preserves f db (g x)) \<Longrightarrow> (\<And>x. y = Inr x \<Longrightarrow> preserves f db (h x)) \<Longrightarrow>
    preserves f db (case y of Inl x \<Rightarrow> g x | Inr x \<Rightarrow> h x)"
  by (simp split: sum.split)

lemma preserves_prod [preserves_intros]:
  "(\<And>a b. preserves f db (g a b)) \<Longrightarrow> preserves f db (case p of (a, b) \<Rightarrow> g a b)"
  by (simp split: prod.split)

lemma preserves_Let [preserves_intros]: "(\<And>x. x = v \<Longrightarrow> preserves f db (g x)) \<Longrightarrow> preserves f db (Let v g)"
  by (simp add: Let_def)

lemma preserves_same [preserves_intros]: "preserves f db (db, r)"
  by (simp add: preserves_def)

lemma preserves_change [preserves_intros]: "f db' = f db \<Longrightarrow> preserves f db (db', r)"
  by (simp add: preserves_def)

lemma preservesD: "preserves f db x \<Longrightarrow> f (fst x) = f db"
  by (simp add: preserves_def)

text \<open>
  The end of a transaction: \<open>Inr\<close> carries the tables to commit (and the result), \<open>Inl\<close>
  the error the method returns after the deferred rollback.
\<close>

definition transact :: "'s \<Rightarrow> store_error + 's \<Rightarrow> 's \<times> store_error option" where
  "transact db r = (case r of Inl x \<Rightarrow> (db, Some x) | Inr db' \<Rightarrow> (db', None))"

definition transact_val :: "'s \<Rightarrow> store_error + 's \<times> 'a \<Rightarrow> 's \<times> (store_error + 'a)" where
  "transact_val db r = (case r of Inl x \<Rightarrow> (db, Inl x) | Inr (db', v) \<Rightarrow> (db', Inr v))"

lemma transact_simps [simp]:
  "transact db (Inl x) = (db, Some x)" "transact db (Inr db') = (db', None)"
  "transact_val db (Inl x) = (db, Inl x)" "transact_val db (Inr (db', v)) = (db', Inr v)"
  by (simp_all add: transact_def transact_val_def)

lemma transact_None_iff: "transact db r = (db', None) \<longleftrightarrow> r = Inr db'"
  by (auto simp: transact_def split: sum.splits)

lemma transact_error: "snd (transact db r) = Some x \<Longrightarrow> fst (transact db r) = db"
  by (auto simp: transact_def split: sum.splits)

lemma transact_SomeD: "transact db r = (db', Some x) \<Longrightarrow> db' = db"
  by (auto simp: transact_def split: sum.splits)

lemma transact_val_InlD: "transact_val db r = (db', Inl x) \<Longrightarrow> db' = db"
  by (auto simp: transact_val_def split: sum.splits)

lemma transact_val_Inr_iff: "transact_val db r = (db', Inr v) \<longleftrightarrow> r = Inr (db', v)"
  by (auto simp: transact_val_def split: sum.splits)

lemma transact_cases:
  obtains (failed) x where "transact db r = (db, Some x)" | (committed) db' where "r = Inr db'" "transact db r = (db', None)"
  by (cases r) (auto simp: transact_def)

text \<open>The error tests of the three shapes of Go results.\<close>

definition failed_rec :: "'a \<times> store_error option \<Rightarrow> bool" where
  "failed_rec r = (snd r \<noteq> None)"

definition failed_err :: "store_error option \<Rightarrow> bool" where
  "failed_err r = (r \<noteq> None)"

definition failed_sum :: "store_error + 'a \<Rightarrow> bool" where
  "failed_sum r = isl r"

lemma failed_simps [simp]:
  "failed_rec (r, x) \<longleftrightarrow> x \<noteq> None" "failed_err x \<longleftrightarrow> x \<noteq> None"
  "failed_sum (Inl y)" "\<not> failed_sum (Inr z)"
  by (simp_all add: failed_rec_def failed_err_def failed_sum_def)

section \<open>Statements\<close>

type_synonym 'r table = "'r list"

definition sql_exists :: "('r \<Rightarrow> bool) \<Rightarrow> 'r table \<Rightarrow> bool" where
  "sql_exists P t = list_ex P t"

definition sql_count :: "('r \<Rightarrow> bool) \<Rightarrow> 'r table \<Rightarrow> nat" where
  "sql_count P t = length (filter P t)"

definition sql_row :: "('r \<Rightarrow> bool) \<Rightarrow> 'r table \<Rightarrow> 'r option" where
  "sql_row P t = find P t"

definition sql_update :: "('r \<Rightarrow> bool) \<Rightarrow> ('r \<Rightarrow> 'r) \<Rightarrow> 'r table \<Rightarrow> 'r table" where
  "sql_update P f t = map (\<lambda>r. if P r then f r else r) t"

definition sql_delete :: "('r \<Rightarrow> bool) \<Rightarrow> 'r table \<Rightarrow> 'r table" where
  "sql_delete P t = filter (\<lambda>r. \<not> P r) t"

definition sql_insert :: "'r \<Rightarrow> 'r table \<Rightarrow> 'r table" where
  "sql_insert r t = t @ [r]"

text \<open>\<^verbatim>\<open>INSERT ... ON CONFLICT(key) DO UPDATE\<close>: the row with the key is
  updated, or the new row is added.\<close>

definition sql_upsert :: "('r \<Rightarrow> 'k) \<Rightarrow> 'r \<Rightarrow> ('r \<Rightarrow> 'r) \<Rightarrow> 'r table \<Rightarrow> 'r table" where
  "sql_upsert key r f t =
     (if sql_exists (\<lambda>x. key x = key r) t then sql_update (\<lambda>x. key x = key r) f t
      else sql_insert r t)"

definition unique_key :: "('r \<Rightarrow> 'k) \<Rightarrow> 'r table \<Rightarrow> bool" where
  "unique_key key t = distinct (map key t)"

text \<open>\<^verbatim>\<open>ORDER BY\<close>: a stable insertion sort by a strict order on the columns.\<close>

fun insort_by :: "('r \<Rightarrow> 'r \<Rightarrow> bool) \<Rightarrow> 'r \<Rightarrow> 'r list \<Rightarrow> 'r list" where
  "insort_by lt x [] = [x]"
| "insort_by lt x (y # ys) = (if lt y x then y # insort_by lt x ys else x # y # ys)"

definition order_by :: "('r \<Rightarrow> 'r \<Rightarrow> bool) \<Rightarrow> 'r list \<Rightarrow> 'r list" where
  "order_by lt xs = foldr (insort_by lt) xs []"

lemma set_insort_by [simp]: "set (insort_by lt x ys) = insert x (set ys)"
  by (induction ys) auto

lemma set_order_by [simp]: "set (order_by lt xs) = set xs"
  by (induction xs) (auto simp: order_by_def)

lemma length_insort_by [simp]: "length (insort_by lt x ys) = Suc (length ys)"
  by (induction ys) auto

lemma length_order_by [simp]: "length (order_by lt xs) = length xs"
  by (induction xs) (auto simp: order_by_def)

lemma mset_order_by_distinct: "distinct (map f xs) \<Longrightarrow> distinct (map f (order_by lt xs))"
proof (induction xs)
  case (Cons x xs)
  have "set (map f (insort_by lt x ys)) = insert (f x) (set (map f ys))" for ys by auto
  moreover have "distinct (map f (insort_by lt x ys))"
    if "f x \<notin> f ` set ys" "distinct (map f ys)" for ys
    using that by (induction ys) auto
  ultimately show ?case using Cons by (auto simp: order_by_def simp del: set_map)
      (metis image_eqI order_by_def set_map set_order_by)
qed (simp add: order_by_def)

lemma insort_by_head: "(\<And>y. y \<in> set ys \<Longrightarrow> \<not> lt y x) \<Longrightarrow> insort_by lt x ys = x # ys"
  by (cases ys) auto

lemma order_by_sorted: "sorted_wrt (\<lambda>a b. \<not> lt b a) xs \<Longrightarrow> order_by lt xs = xs"
  by (induction xs) (auto simp: order_by_def insort_by_head)

lemma sql_exists_iff [table_simps]: "sql_exists P t \<longleftrightarrow> (\<exists>r \<in> set t. P r)"
  by (simp add: sql_exists_def list_ex_iff)

lemma sql_row_None [table_simps]: "sql_row P t = None \<longleftrightarrow> \<not> sql_exists P t"
  by (auto simp: sql_row_def sql_exists_iff find_None_iff)

lemma sql_row_SomeD: "sql_row P t = Some r \<Longrightarrow> r \<in> set t \<and> P r"
  by (auto simp: sql_row_def find_Some_iff)

lemma sql_row_ex: "sql_exists P t \<Longrightarrow> \<exists>r. sql_row P t = Some r"
  by (metis not_Some_eq sql_row_None)

lemma sql_row_Nil [table_simps]: "sql_row P [] = None"
  by (simp add: sql_row_def)

lemma sql_row_insert [table_simps]:
  "sql_row P (sql_insert r t) =
     (case sql_row P t of Some x \<Rightarrow> Some x | None \<Rightarrow> if P r then Some r else None)"
  by (induction t) (auto simp: sql_row_def sql_insert_def)

lemma sql_exists_insert [table_simps]: "sql_exists P (sql_insert r t) \<longleftrightarrow> P r \<or> sql_exists P t"
  by (auto simp: sql_exists_def sql_insert_def)

lemma set_sql_insert [table_simps]: "set (sql_insert r t) = insert r (set t)"
  by (auto simp: sql_insert_def)

lemma set_sql_update [table_simps]: "set (sql_update P f t) = (\<lambda>r. if P r then f r else r) ` set t"
  by (auto simp: sql_update_def)

lemma set_sql_delete [table_simps]: "set (sql_delete P t) = {r \<in> set t. \<not> P r}"
  by (auto simp: sql_delete_def)

lemma sql_update_none: "\<not> sql_exists P t \<Longrightarrow> sql_update P f t = t"
  by (auto simp: sql_update_def sql_exists_iff intro: map_idI)

lemma map_sql_update:
  "(\<And>r. r \<in> set t \<Longrightarrow> P r \<Longrightarrow> g (f r) = g r) \<Longrightarrow> map g (sql_update P f t) = map g t"
  by (auto simp: sql_update_def)

lemma unique_sql_update:
  "(\<And>r. r \<in> set t \<Longrightarrow> P r \<Longrightarrow> key (f r) = key r) \<Longrightarrow> unique_key key t \<Longrightarrow> unique_key key (sql_update P f t)"
  by (simp add: unique_key_def map_sql_update)

lemma unique_sql_insert:
  "unique_key key (sql_insert r t) \<longleftrightarrow> unique_key key t \<and> \<not> sql_exists (\<lambda>x. key x = key r) t"
  by (auto simp: unique_key_def sql_insert_def sql_exists_iff) (metis image_eqI)

lemma unique_sql_delete: "unique_key key t \<Longrightarrow> unique_key key (sql_delete P t)"
  by (auto simp: unique_key_def sql_delete_def distinct_map_filter)

lemma unique_key_Nil [simp]: "unique_key key []"
  by (simp add: unique_key_def)

lemma sql_count_le: "sql_count P t \<le> length t"
  by (simp add: sql_count_def)

lemma sql_count_update_none:
  "\<not> sql_exists Q t \<Longrightarrow> sql_count P (sql_update Q f t) = sql_count P t"
  by (simp add: sql_update_none)

text \<open>An UPDATE on a table with CHECK constraints: the statement fails as a whole when a row it
  changes would violate them.\<close>

definition sql_update_checked :: "('r \<Rightarrow> bool) \<Rightarrow> ('r \<Rightarrow> bool) \<Rightarrow> ('r \<Rightarrow> 'r) \<Rightarrow> 'r table \<Rightarrow> 'r table option" where
  "sql_update_checked ok P f t =
     (if list_all (\<lambda>r. P r \<longrightarrow> ok (f r)) t then Some (sql_update P f t) else None)"

lemma sql_update_checked_SomeD: "sql_update_checked ok P f t = Some t' \<Longrightarrow> t' = sql_update P f t"
  by (simp add: sql_update_checked_def split: if_splits)

text \<open>The loop over the rows of a query: the first row that does not scan ends it.\<close>

fun scan_list :: "('r \<Rightarrow> store_error + 'v) \<Rightarrow> 'r list \<Rightarrow> store_error + 'v list" where
  "scan_list f [] = Inr []"
| "scan_list f (r # rs) =
     (case f r of
        Inl x \<Rightarrow> Inl x
      | Inr v \<Rightarrow> (case scan_list f rs of Inl x \<Rightarrow> Inl x | Inr vs \<Rightarrow> Inr (v # vs)))"

lemma scan_list_set:
  "scan_list f rs = Inr vs \<Longrightarrow> (v \<in> set vs \<longleftrightarrow> (\<exists>r \<in> set rs. f r = Inr v))"
  by (induction rs arbitrary: vs) (auto split: sum.splits)

lemma scan_list_map: "scan_list f rs = Inr vs \<Longrightarrow> (\<And>r v. f r = Inr v \<Longrightarrow> g v = h r) \<Longrightarrow> map g vs = map h rs"
  by (induction rs arbitrary: vs) (auto split: sum.splits)

text \<open>The row of a WHERE clause that selects exactly one: \<open>None\<close> when there is none or when there
  are several.\<close>

definition sole_row :: "('r \<Rightarrow> bool) \<Rightarrow> 'r table \<Rightarrow> 'r option" where
  "sole_row P t = (case filter P t of [r] \<Rightarrow> Some r | _ \<Rightarrow> None)"

lemma sole_row_iff: "sole_row P t = Some r \<longleftrightarrow> filter P t = [r]"
  by (auto simp: sole_row_def split: list.splits)

lemma sole_row_in: "sole_row P t = Some r \<Longrightarrow> r \<in> set t \<and> P r"
  unfolding sole_row_iff by (drule arg_cong [of _ _ set]) auto

lemma sole_row_eq: "sole_row P t = Some r \<Longrightarrow> x \<in> set t \<Longrightarrow> P x \<Longrightarrow> x = r"
  unfolding sole_row_iff by (drule arg_cong [of _ _ set]) auto

lemma sole_row_update:
  assumes "\<And>x. x \<in> set t \<Longrightarrow> Q x \<Longrightarrow> P (f x) = P x"
  shows "sole_row P (sql_update Q f t) = map_option (\<lambda>r. if Q r then f r else r) (sole_row P t)"
proof -
  have "filter P (sql_update Q f t) = map (\<lambda>r. if Q r then f r else r) (filter P t)"
    using assms by (induction t) (auto simp: sql_update_def)
  then show ?thesis by (auto simp: sole_row_def split: list.splits)
qed

lemma sole_row_insert_other: "\<not> P r \<Longrightarrow> sole_row P (sql_insert r t) = sole_row P t"
  by (simp add: sole_row_def sql_insert_def)

lemma sole_row_insert_new: "\<not> sql_exists P t \<Longrightarrow> P r \<Longrightarrow> sole_row P (sql_insert r t) = Some r"
  by (simp add: sole_row_def sql_insert_def sql_exists_iff)

section \<open>Tables with a primary key\<close>

text \<open>
  The contract of a table whose rows carry a primary key: the column update the
  client writes never touches the key. Lookups by key then behave like a finite map.
\<close>

locale keyed_table =
  fixes key :: "'r \<Rightarrow> 'k"
    and upd :: "'a \<Rightarrow> 'r \<Rightarrow> 'r"
  assumes key_upd: "key (upd a r) = key r"
begin

lemma row_update_where:
  "sql_row (\<lambda>r. key r = k) (sql_update P (upd a) t) =
     map_option (\<lambda>r. if P r then upd a r else r) (sql_row (\<lambda>r. key r = k) t)"
  by (induction t) (auto simp: sql_row_def sql_update_def key_upd)

lemma row_update:
  "sql_row (\<lambda>r. key r = k) (sql_update (\<lambda>r. key r = k') (upd a) t) =
     (if k = k' then map_option (upd a) (sql_row (\<lambda>r. key r = k) t)
      else sql_row (\<lambda>r. key r = k) t)"
  by (induction t) (auto simp: sql_row_def sql_update_def key_upd)

lemma unique_update: "unique_key key t \<Longrightarrow> unique_key key (sql_update P (upd a) t)"
  by (rule unique_sql_update) (simp_all add: key_upd)

lemma unique_upsert: "unique_key key t \<Longrightarrow> unique_key key (sql_upsert key r (upd a) t)"
  by (auto simp: sql_upsert_def unique_update unique_sql_insert)

lemma row_upsert:
  "sql_row (\<lambda>x. key x = k) (sql_upsert key r (upd a) t) =
     (if k = key r then
        Some (case sql_row (\<lambda>x. key x = k) t of Some x \<Rightarrow> upd a x | None \<Rightarrow> r)
      else sql_row (\<lambda>x. key x = k) t)"
proof (cases "sql_exists (\<lambda>x. key x = key r) t")
  case True
  then obtain x where "sql_row (\<lambda>x. key x = key r) t = Some x" using sql_row_ex by blast
  with True show ?thesis by (simp add: sql_upsert_def row_update)
next
  case False
  then have "sql_row (\<lambda>x. key x = key r) t = None" by (simp add: sql_row_None)
  with False show ?thesis
    by (auto simp: sql_upsert_def sql_row_insert split: option.splits)
qed

lemma row_unique:
  assumes "unique_key key t" "r \<in> set t"
  shows "sql_row (\<lambda>x. key x = key r) t = Some r"
  using assms by (induction t) (auto simp: sql_row_def unique_key_def)

end

end
