(* ===== verification/Server_Schema.thy ===== *)
theory Server_Schema
  imports Sql_Table
begin

text \<open>
  The tables of the Server database after its nine migrations
  (\<^verbatim>\<open>internal/server/store/migrations.go\<close>): one record per table row, and for
  each table the test SQLite makes before it accepts a new row (CHECK constraints,
  primary keys, UNIQUE columns and foreign keys). A nullable column is an option.
  A status column with a CHECK on its values is a datatype with those values.
\<close>

section \<open>Rows\<close>

datatype entity_status = Active | Revoked
datatype owner_status = OwnerActive | OwnerDisabled

record owner_row =
  ow_id :: string
  ow_status :: owner_status
  ow_created_at :: rfc3339
  ow_trust_revision :: int

record node_row =
  nd_id :: string
  nd_owner_id :: string
  nd_public_key :: bytes
  nd_name :: string
  nd_os :: string
  nd_version :: string
  nd_status :: entity_status
  nd_created_at :: rfc3339
  nd_last_seen_at :: "rfc3339 option"

record node_credential_row =
  nc_node_id :: string
  nc_credential_hash :: "bytes option"
  nc_status :: entity_status
  nc_created_at :: rfc3339
  nc_rotated_at :: "rfc3339 option"
  nc_revoked_at :: "rfc3339 option"

record control_client_row =
  cc_id :: string
  cc_owner_id :: string
  cc_public_key :: bytes
  cc_name :: string
  cc_status :: entity_status
  cc_created_at :: rfc3339
  cc_revoked_at :: "rfc3339 option"
  cc_key_id :: string
  cc_last_seen_at :: "rfc3339 option"

datatype bootstrap_state = BootstrapPending | BootstrapCompleted

record bootstrap_row =
  bs_status :: bootstrap_state
  bs_secret_hash :: "bytes option"
  bs_claim_digest :: "bytes option"
  bs_owner_id :: "string option"
  bs_node_id :: "string option"
  bs_issued_at :: rfc3339
  bs_claimed_at :: "rfc3339 option"
  bs_retry_until :: "rfc3339 option"

datatype pairing_status = PPending | PClaimed | PApproved | PDeclined | PExpired

record pairing_row =
  pr_id :: string
  pr_owner_id :: string
  pr_node_id :: string
  pr_code_hash :: bytes
  pr_challenge :: bytes
  pr_status :: pairing_status
  pr_expires_at :: rfc3339
  pr_client_id :: "string option"
  pr_key_id :: "string option"
  pr_public_key :: "bytes option"
  pr_client_name :: "string option"
  pr_created_at :: rfc3339
  pr_claimed_at :: "rfc3339 option"
  pr_resolved_at :: "rfc3339 option"
  pr_proof :: "bytes option"

record enrollment_row =
  en_id :: string
  en_owner_id :: string
  en_issuer_node_id :: string
  en_code_hash :: bytes
  en_status :: pairing_status
  en_expires_at :: rfc3339
  en_candidate_node_id :: "string option"
  en_public_key :: "bytes option"
  en_credential_hash :: "bytes option"
  en_name :: "string option"
  en_os :: "string option"
  en_version :: "string option"
  en_created_at :: rfc3339
  en_claimed_at :: "rfc3339 option"
  en_resolved_at :: "rfc3339 option"
  en_proof :: "bytes option"

record lease_row =
  lr_owner_id :: string
  lr_node_id :: string
  lr_workspace_id :: string
  lr_thread_id :: string
  lr_lease_id :: "string option"
  lr_holder_client_id :: "string option"
  lr_epoch :: int
  lr_acquired_at :: "rfc3339 option"
  lr_expires_at :: "rfc3339 option"
  lr_updated_at :: "rfc3339 option"

record notification_row =
  nr_id :: string
  nr_owner_id :: string
  nr_node_id :: string
  nr_workspace_id :: "string option"
  nr_thread_id :: "string option"
  nr_turn_id :: "string option"
  nr_type :: string
  nr_summary :: string
  nr_source_sequence :: int
  nr_dedup_key :: string
  nr_created_at :: rfc3339
  nr_read_at :: "rfc3339 option"

record security_row =
  se_owner_id :: string
  se_control_pairing_enabled :: bool
  se_node_enrollment_enabled :: bool
  se_revision :: int
  se_updated_at :: rfc3339
  se_updated_by :: string

record replay_message_row =
  rm_owner_id :: string
  rm_node_id :: string
  rm_client_id :: string
  rm_key_id :: string
  rm_message_id :: string
  rm_retain_until :: int
  rm_accepted_at :: rfc3339

record replay_nonce_row =
  rn_owner_id :: string
  rn_node_id :: string
  rn_client_id :: string
  rn_key_id :: string
  rn_nonce :: string
  rn_retain_until :: int

record signer_sequence_row =
  ss_owner_id :: string
  ss_node_id :: string
  ss_client_id :: string
  ss_key_id :: string
  ss_highest_sequence :: int
  ss_updated_at :: rfc3339

datatype invitation_status = IPending | IUsed | ICancelled | IExpired

record invitation_row =
  iv_id :: string
  iv_owner_id :: "string option"
  iv_secret_hash :: bytes
  iv_code_hash :: bytes
  iv_display_name :: string
  iv_status :: invitation_status
  iv_created_by :: string
  iv_created_at :: rfc3339
  iv_expires_at :: rfc3339
  iv_used_at :: "rfc3339 option"
  iv_node_id :: "string option"

datatype audit_result = Succeeded | Rejected | Failed

record audit_row =
  au_id :: string
  au_owner_id :: string
  au_actor_client_id :: string
  au_action :: string
  au_resource_type :: string
  au_resource_ref :: string
  au_result :: audit_result
  au_error_code :: "string option"
  au_correlation_id :: string
  au_created_at :: rfc3339

record server_db =
  owners :: "owner_row table"
  nodes :: "node_row table"
  node_credentials :: "node_credential_row table"
  control_clients :: "control_client_row table"
  bootstrap :: "bootstrap_row option"
  pairings :: "pairing_row table"
  node_enrollments :: "enrollment_row table"
  control_leases :: "lease_row table"
  notifications :: "notification_row table"
  server_security_settings :: "security_row table"
  admin_audit_logs :: "audit_row table"
  server_replay_messages :: "replay_message_row table"
  server_replay_nonces :: "replay_nonce_row table"
  server_signer_sequences :: "signer_sequence_row table"
  node_invitations :: "invitation_row table"

definition empty_db :: server_db where
  "empty_db = \<lparr>owners = [], nodes = [], node_credentials = [], control_clients = [],
     bootstrap = None, pairings = [], node_enrollments = [], control_leases = [],
     notifications = [], server_security_settings = [], admin_audit_logs = [], server_replay_messages = [],
     server_replay_nonces = [], server_signer_sequences = [], node_invitations = []\<rparr>"

section \<open>Constraints\<close>

definition owner_exists :: "server_db \<Rightarrow> string \<Rightarrow> bool" where
  "owner_exists db i = sql_exists (\<lambda>r. ow_id r = i) (owners db)"

definition node_exists :: "server_db \<Rightarrow> string \<Rightarrow> bool" where
  "node_exists db i = sql_exists (\<lambda>r. nd_id r = i) (nodes db)"

text \<open>The column \<^verbatim>\<open>singleton\<close> is UNIQUE and always 1: at most one owner row.\<close>

definition owners_insert_ok :: "server_db \<Rightarrow> owner_row \<Rightarrow> bool" where
  "owners_insert_ok db r =
     (length_between 1 128 (ow_id r) \<and> 0 \<le> ow_trust_revision r \<and> owners db = [])"

definition nodes_insert_ok :: "server_db \<Rightarrow> node_row \<Rightarrow> bool" where
  "nodes_insert_ok db r =
     (length_between 1 128 (nd_id r) \<and> length (nd_public_key r) = 32 \<and>
      length_between 1 128 (nd_name r) \<and> nd_os r \<in> {''windows'', ''linux'', ''darwin''} \<and>
      length_between 1 64 (nd_version r) \<and>
      \<not> sql_exists (\<lambda>x. nd_id x = nd_id r) (nodes db) \<and>
      \<not> sql_exists (\<lambda>x. nd_public_key x = nd_public_key r) (nodes db) \<and>
      owner_exists db (nd_owner_id r))"

definition node_credentials_check :: "node_credential_row \<Rightarrow> bool" where
  "node_credentials_check r = (nc_credential_hash r = None)"

definition node_credentials_insert_ok :: "server_db \<Rightarrow> node_credential_row \<Rightarrow> bool" where
  "node_credentials_insert_ok db r =
     (node_credentials_check r \<and>
      \<not> sql_exists (\<lambda>x. nc_node_id x = nc_node_id r) (node_credentials db) \<and>
      node_exists db (nc_node_id r))"

definition control_clients_check :: "control_client_row \<Rightarrow> bool" where
  "control_clients_check r =
     (length_between 1 128 (cc_id r) \<and> length (cc_public_key r) = 32 \<and>
      length_between 1 128 (cc_name r) \<and> length_between 1 128 (cc_key_id r))"

text \<open>The insert of \<^verbatim>\<open>ResolvePairing\<close> has \<^verbatim>\<open>ON CONFLICT(id) DO NOTHING\<close>, so the
  primary key is tested apart from the other constraints.\<close>

definition control_clients_insert_ok :: "server_db \<Rightarrow> control_client_row \<Rightarrow> bool" where
  "control_clients_insert_ok db r =
     (control_clients_check r \<and>
      \<not> sql_exists (\<lambda>x. cc_public_key x = cc_public_key r) (control_clients db) \<and>
      owner_exists db (cc_owner_id r))"

definition pairings_check :: "pairing_row \<Rightarrow> bool" where
  "pairings_check r =
     (length_between 1 128 (pr_id r) \<and> length (pr_code_hash r) = 32 \<and> length (pr_challenge r) = 32 \<and>
      (case pr_public_key r of None \<Rightarrow> True | Some k \<Rightarrow> length k = 32) \<and>
      (case pr_proof r of None \<Rightarrow> True | Some p \<Rightarrow> length p = 64) \<and>
      (case pr_status r of
         PPending \<Rightarrow> pr_client_id r = None \<and> pr_key_id r = None \<and> pr_public_key r = None \<and>
           pr_client_name r = None \<and> pr_claimed_at r = None \<and> pr_resolved_at r = None \<and> pr_proof r = None
       | PClaimed \<Rightarrow> pr_client_id r \<noteq> None \<and> pr_key_id r \<noteq> None \<and> pr_public_key r \<noteq> None \<and>
           pr_client_name r \<noteq> None \<and> pr_claimed_at r \<noteq> None \<and> pr_resolved_at r = None \<and> pr_proof r = None
       | PExpired \<Rightarrow> pr_resolved_at r \<noteq> None
       | _ \<Rightarrow> pr_client_id r \<noteq> None \<and> pr_key_id r \<noteq> None \<and> pr_public_key r \<noteq> None \<and>
           pr_client_name r \<noteq> None \<and> pr_claimed_at r \<noteq> None \<and> pr_resolved_at r \<noteq> None \<and> pr_proof r \<noteq> None))"

definition pairings_insert_ok :: "server_db \<Rightarrow> pairing_row \<Rightarrow> bool" where
  "pairings_insert_ok db r =
     (pairings_check r \<and>
      \<not> sql_exists (\<lambda>x. pr_id x = pr_id r) (pairings db) \<and>
      \<not> sql_exists (\<lambda>x. pr_code_hash x = pr_code_hash r) (pairings db) \<and>
      owner_exists db (pr_owner_id r) \<and> node_exists db (pr_node_id r))"

definition enrollments_check :: "enrollment_row \<Rightarrow> bool" where
  "enrollments_check r =
     (length_between 1 128 (en_id r) \<and> length (en_code_hash r) = 32 \<and>
      (case en_public_key r of None \<Rightarrow> True | Some k \<Rightarrow> length k = 32) \<and>
      (case en_credential_hash r of None \<Rightarrow> True | Some k \<Rightarrow> length k = 32) \<and>
      (case en_os r of None \<Rightarrow> True | Some o' \<Rightarrow> o' \<in> {''windows'', ''linux'', ''darwin''}) \<and>
      (case en_proof r of None \<Rightarrow> True | Some p \<Rightarrow> length p = 64) \<and>
      (case en_status r of
         PPending \<Rightarrow> en_candidate_node_id r = None \<and> en_public_key r = None \<and> en_credential_hash r = None \<and>
           en_name r = None \<and> en_os r = None \<and> en_version r = None \<and> en_claimed_at r = None \<and>
           en_resolved_at r = None \<and> en_proof r = None
       | PClaimed \<Rightarrow> en_candidate_node_id r \<noteq> None \<and> en_public_key r \<noteq> None \<and> en_credential_hash r \<noteq> None \<and>
           en_name r \<noteq> None \<and> en_os r \<noteq> None \<and> en_version r \<noteq> None \<and> en_claimed_at r \<noteq> None \<and>
           en_resolved_at r = None \<and> en_proof r = None
       | PExpired \<Rightarrow> en_resolved_at r \<noteq> None
       | _ \<Rightarrow> en_candidate_node_id r \<noteq> None \<and> en_public_key r \<noteq> None \<and> en_credential_hash r \<noteq> None \<and>
           en_name r \<noteq> None \<and> en_os r \<noteq> None \<and> en_version r \<noteq> None \<and> en_claimed_at r \<noteq> None \<and>
           en_resolved_at r \<noteq> None \<and> en_proof r \<noteq> None))"

definition enrollments_insert_ok :: "server_db \<Rightarrow> enrollment_row \<Rightarrow> bool" where
  "enrollments_insert_ok db r =
     (enrollments_check r \<and>
      \<not> sql_exists (\<lambda>x. en_id x = en_id r) (node_enrollments db) \<and>
      \<not> sql_exists (\<lambda>x. en_code_hash x = en_code_hash r) (node_enrollments db) \<and>
      owner_exists db (en_owner_id r) \<and> node_exists db (en_issuer_node_id r))"

definition lease_key_of :: "lease_row \<Rightarrow> string \<times> string \<times> string \<times> string" where
  "lease_key_of r = (lr_owner_id r, lr_node_id r, lr_workspace_id r, lr_thread_id r)"

definition control_leases_check :: "lease_row \<Rightarrow> bool" where
  "control_leases_check r =
     (0 \<le> lr_epoch r \<and> lr_updated_at r \<noteq> None \<and>
      (lr_lease_id r = None \<and> lr_holder_client_id r = None \<and> lr_acquired_at r = None \<and> lr_expires_at r = None \<or>
       lr_lease_id r \<noteq> None \<and> lr_holder_client_id r \<noteq> None \<and> lr_acquired_at r \<noteq> None \<and> lr_expires_at r \<noteq> None))"

definition control_leases_insert_ok :: "server_db \<Rightarrow> lease_row \<Rightarrow> bool" where
  "control_leases_insert_ok db r =
     (control_leases_check r \<and>
      \<not> sql_exists (\<lambda>x. lease_key_of x = lease_key_of r) (control_leases db) \<and>
      owner_exists db (lr_owner_id r))"

definition notifications_check :: "notification_row \<Rightarrow> bool" where
  "notifications_check r =
     (length_between 1 128 (nr_id r) \<and> length_between 1 128 (nr_node_id r) \<and>
      nr_type r \<in> {''task.completed'', ''task.failed'', ''approval.required'', ''node.offline'', ''node.online''} \<and>
      length_between 1 512 (nr_summary r) \<and> 0 \<le> nr_source_sequence r \<and>
      length_between 1 256 (nr_dedup_key r))"

definition notifications_insert_ok :: "server_db \<Rightarrow> notification_row \<Rightarrow> bool" where
  "notifications_insert_ok db r =
     (notifications_check r \<and> \<not> sql_exists (\<lambda>x. nr_id x = nr_id r) (notifications db) \<and> owner_exists db (nr_owner_id r))"

definition security_check :: "security_row \<Rightarrow> bool" where
  "security_check r = (1 \<le> se_revision r \<and> se_revision r < 2 ^ 63 \<and> length_between 1 128 (se_updated_by r))"

definition audit_check :: "audit_row \<Rightarrow> bool" where
  "audit_check r =
     (length_between 1 128 (au_id r) \<and> length_between 1 128 (au_actor_client_id r) \<and> length_between 1 96 (au_action r) \<and>
      length_between 1 64 (au_resource_type r) \<and> length_between 1 256 (au_resource_ref r) \<and>
      (case au_error_code r of None \<Rightarrow> True | Some c \<Rightarrow> length_between 1 96 c) \<and>
      length_between 1 128 (au_correlation_id r))"

definition audit_insert_ok :: "server_db \<Rightarrow> audit_row \<Rightarrow> bool" where
  "audit_insert_ok db r =
     (audit_check r \<and> \<not> sql_exists (\<lambda>x. au_id x = au_id r) (admin_audit_logs db) \<and> owner_exists db (au_owner_id r))"

text \<open>Incrementing an INTEGER column beyond the 64-bit range gives a REAL value, which a STRICT table
  refuses.\<close>

definition owners_check :: "owner_row \<Rightarrow> bool" where
  "owners_check r = (0 \<le> ow_trust_revision r \<and> ow_trust_revision r < 2 ^ 63)"

definition replay_key_of :: "replay_message_row \<Rightarrow> string \<times> string \<times> string \<times> string \<times> string" where
  "replay_key_of r = (rm_owner_id r, rm_node_id r, rm_client_id r, rm_key_id r, rm_message_id r)"

definition nonce_key_of :: "replay_nonce_row \<Rightarrow> string \<times> string \<times> string \<times> string \<times> string" where
  "nonce_key_of r = (rn_owner_id r, rn_node_id r, rn_client_id r, rn_key_id r, rn_nonce r)"

definition signer_key_of :: "signer_sequence_row \<Rightarrow> string \<times> string \<times> string \<times> string" where
  "signer_key_of r = (ss_owner_id r, ss_node_id r, ss_client_id r, ss_key_id r)"

definition replay_messages_insert_ok :: "server_db \<Rightarrow> replay_message_row \<Rightarrow> bool" where
  "replay_messages_insert_ok db r =
     (length_between 1 128 (rm_node_id r) \<and> length_between 1 128 (rm_client_id r) \<and>
      length_between 1 128 (rm_key_id r) \<and> length_between 1 128 (rm_message_id r) \<and>
      \<not> sql_exists (\<lambda>x. replay_key_of x = replay_key_of r) (server_replay_messages db) \<and>
      owner_exists db (rm_owner_id r))"

definition replay_nonces_insert_ok :: "server_db \<Rightarrow> replay_nonce_row \<Rightarrow> bool" where
  "replay_nonces_insert_ok db r =
     (length_between 1 128 (rn_node_id r) \<and> length_between 1 128 (rn_client_id r) \<and>
      length_between 1 128 (rn_key_id r) \<and> length_between 1 128 (rn_nonce r) \<and>
      \<not> sql_exists (\<lambda>x. nonce_key_of x = nonce_key_of r) (server_replay_nonces db) \<and>
      owner_exists db (rn_owner_id r))"

definition signer_sequences_check :: "signer_sequence_row \<Rightarrow> bool" where
  "signer_sequences_check r =
     (length_between 1 128 (ss_node_id r) \<and> length_between 1 128 (ss_client_id r) \<and>
      length_between 1 128 (ss_key_id r) \<and> 1 \<le> ss_highest_sequence r)"

definition signer_sequences_upsert_ok :: "server_db \<Rightarrow> signer_sequence_row \<Rightarrow> bool" where
  "signer_sequences_upsert_ok db r = (signer_sequences_check r \<and> owner_exists db (ss_owner_id r))"

definition invitations_check :: "invitation_row \<Rightarrow> bool" where
  "invitations_check r =
     (length_between 1 128 (iv_id r) \<and> length (iv_secret_hash r) = 32 \<and> length (iv_code_hash r) = 32 \<and>
      length_between 1 128 (iv_display_name r) \<and> length_between 1 128 (iv_created_by r) \<and>
      (iv_status r = IPending \<longrightarrow> iv_used_at r = None \<and> iv_node_id r = None))"

definition invitations_insert_ok :: "server_db \<Rightarrow> invitation_row \<Rightarrow> bool" where
  "invitations_insert_ok db r =
     (invitations_check r \<and>
      \<not> sql_exists (\<lambda>x. iv_id x = iv_id r) (node_invitations db) \<and>
      \<not> sql_exists (\<lambda>x. iv_secret_hash x = iv_secret_hash r) (node_invitations db) \<and>
      \<not> sql_exists (\<lambda>x. iv_code_hash x = iv_code_hash r) (node_invitations db) \<and>
      (case iv_owner_id r of None \<Rightarrow> True | Some ow \<Rightarrow> owner_exists db ow))"

end
