(* ===== verification/Lease_Store.thy ===== *)
theory Lease_Store
  imports Server_Schema
begin

text \<open>
  Control leases: the SQLite store of \<^verbatim>\<open>internal/server/store/leases.go\<close> and the
  in-memory store of \<^verbatim>\<open>internal/server/lease_memory.go\<close>, two implementations of
  the Go interface \<^verbatim>\<open>hubLeaseStore\<close>. A lease gives one control client the
  right to change one thread; its epoch is the fencing token of the right.

  The abstract machine \<open>lease_step\<close> says what a lease may do. The locale
  \<open>lease_service\<close> is the contract of \<^verbatim>\<open>hubLeaseStore\<close>: every call simulates a
  step of the abstract machine and leaves other scopes alone. Both stores are
  interpreted, and the fencing lemmas are proved once in the locale.
\<close>

section \<open>Data\<close>

record lease_scope =
  sc_owner :: string
  sc_node :: string
  sc_workspace :: string
  sc_thread :: string

datatype lease_state = StUnset | StNone | StHeld | StReleased | StExpired

record lease_record =
  le_scope :: lease_scope
  le_lease_id :: string
  le_holder :: string
  le_epoch :: int
  le_acquired :: gotime
  le_expires :: gotime
  le_updated :: gotime
  le_state :: lease_state

record lease_acquire_request =
  aq_scope :: lease_scope
  aq_client :: string
  aq_lease_id :: string
  aq_force :: bool
  aq_expected_epoch :: "int option"
  aq_now :: gotime
  aq_ttl :: duration

record lease_mutation_request =
  mu_scope :: lease_scope
  mu_client :: string
  mu_lease_id :: string
  mu_epoch :: int
  mu_now :: gotime
  mu_ttl :: duration

definition DefaultLeaseTTL :: duration where
  "DefaultLeaseTTL = seconds 60"

definition zero_scope :: lease_scope where
  "zero_scope = \<lparr>sc_owner = [], sc_node = [], sc_workspace = [], sc_thread = []\<rparr>"

definition zero_lease :: lease_record where
  "zero_lease = \<lparr>le_scope = zero_scope, le_lease_id = [], le_holder = [], le_epoch = 0,
     le_acquired = 0, le_expires = 0, le_updated = 0, le_state = StUnset\<rparr>"

type_synonym lease_result = "lease_record \<times> store_error option"

section \<open>The SQLite store\<close>

definition validLeaseText :: "string \<Rightarrow> nat \<Rightarrow> bool" where
  [valid_defs]: "validLeaseText s maximum = (s \<noteq> [] \<and> length s \<le> maximum \<and> \<not> contains_nul s)"

definition validLeaseScope :: "lease_scope \<Rightarrow> bool" where
  [valid_defs]: "validLeaseScope sc =
     (validLeaseText (sc_owner sc) 128 \<and> validLeaseText (sc_node sc) 128 \<and>
      validLeaseText (sc_workspace sc) 128 \<and> validLeaseText (sc_thread sc) 128)"

definition scope_key :: "lease_scope \<Rightarrow> string \<times> string \<times> string \<times> string" where
  "scope_key sc = (sc_owner sc, sc_node sc, sc_workspace sc, sc_thread sc)"

definition row_scope :: "lease_row \<Rightarrow> lease_scope" where
  "row_scope r = \<lparr>sc_owner = lr_owner_id r, sc_node = lr_node_id r,
     sc_workspace = lr_workspace_id r, sc_thread = lr_thread_id r\<rparr>"

definition leaseSelect :: "server_db \<Rightarrow> lease_scope \<Rightarrow> lease_row option" where
  "leaseSelect db sc = sql_row (\<lambda>r. lease_key_of r = scope_key sc) (control_leases db)"

definition null_string :: "string option \<Rightarrow> string" where
  "null_string x = (case x of None \<Rightarrow> [] | Some s \<Rightarrow> s)"

definition parse_null :: "rfc3339 option \<Rightarrow> gotime option" where
  "parse_null x = (case x of None \<Rightarrow> Some 0 | Some t \<Rightarrow> parse_rfc3339 t)"

definition scanLeaseRow ::
  "bool \<Rightarrow> lease_row option \<Rightarrow> lease_scope \<Rightarrow> store_error + lease_record \<times> bool" where
  "scanLeaseRow failed row sc =
     (if failed then Inl (Internal ''lease read'')
      else case row of
        None \<Rightarrow> Inr (zero_lease, False)
      | Some r \<Rightarrow>
          if row_scope r \<noteq> sc then Inl ErrCorrupt
          else case parse_null (lr_acquired_at r) of
            None \<Rightarrow> Inl ErrCorrupt
          | Some acquired \<Rightarrow>
              (case parse_null (lr_expires_at r) of
                 None \<Rightarrow> Inl ErrCorrupt
               | Some expires \<Rightarrow>
                   (case lr_updated_at r of
                      None \<Rightarrow> Inl ErrCorrupt
                    | Some u \<Rightarrow>
                        (case parse_rfc3339 u of
                           None \<Rightarrow> Inl ErrCorrupt
                         | Some updated \<Rightarrow>
                             Inr (\<lparr>le_scope = row_scope r,
                                   le_lease_id = null_string (lr_lease_id r),
                                   le_holder = null_string (lr_holder_client_id r),
                                   le_epoch = lr_epoch r, le_acquired = acquired,
                                   le_expires = expires, le_updated = updated,
                                   le_state =
                                     (if null_string (lr_lease_id r) \<noteq> [] \<and>
                                         null_string (lr_holder_client_id r) \<noteq> []
                                      then StHeld else StReleased)\<rparr>, True)))))"

definition expired_view :: "lease_record \<Rightarrow> gotime \<Rightarrow> lease_record" where
  "expired_view r now =
     (if le_state r = StHeld \<and> \<not> After (le_expires r) now then r\<lparr>le_state := StExpired\<rparr> else r)"

definition next_lease :: "lease_acquire_request \<Rightarrow> lease_record \<Rightarrow> lease_record" where
  "next_lease q current =
     \<lparr>le_scope = aq_scope q, le_lease_id = aq_lease_id q, le_holder = aq_client q,
      le_epoch = int64 (le_epoch current + 1), le_acquired = aq_now q,
      le_expires = aq_now q + aq_ttl q, le_updated = aq_now q, le_state = StHeld\<rparr>"

definition lease_to_row :: "lease_record \<Rightarrow> lease_row" where
  "lease_to_row r =
     \<lparr>lr_owner_id = sc_owner (le_scope r), lr_node_id = sc_node (le_scope r),
      lr_workspace_id = sc_workspace (le_scope r), lr_thread_id = sc_thread (le_scope r),
      lr_lease_id = Some (le_lease_id r), lr_holder_client_id = Some (le_holder r),
      lr_epoch = le_epoch r, lr_acquired_at = Some (timestamp (le_acquired r)),
      lr_expires_at = Some (timestamp (le_expires r)),
      lr_updated_at = Some (timestamp (le_updated r))\<rparr>"

text \<open>
  The UPDATE and the INSERT of \<^verbatim>\<open>AcquireLease\<close>; \<open>None\<close> is a constraint violation.
\<close>

definition set_lease_columns :: "lease_record \<Rightarrow> lease_row \<Rightarrow> lease_row" where
  "set_lease_columns n r =
     r\<lparr>lr_lease_id := Some (le_lease_id n), lr_holder_client_id := Some (le_holder n),
       lr_epoch := le_epoch n, lr_acquired_at := Some (timestamp (le_acquired n)),
       lr_expires_at := Some (timestamp (le_expires n)),
       lr_updated_at := Some (timestamp (le_updated n))\<rparr>"

definition write_lease :: "server_db \<Rightarrow> bool \<Rightarrow> lease_record \<Rightarrow> server_db option" where
  "write_lease db exists n =
     (if exists then
        (let t = sql_update (\<lambda>r. lease_key_of r = scope_key (le_scope n)) (set_lease_columns n) (control_leases db)
         in if 0 \<le> le_epoch n then Some (db\<lparr>control_leases := t\<rparr>) else None)
      else if control_leases_insert_ok db (lease_to_row n)
      then Some (db\<lparr>control_leases := sql_insert (lease_to_row n) (control_leases db)\<rparr>)
      else None)"

definition AcquireLease :: "env \<Rightarrow> server_db \<Rightarrow> lease_acquire_request \<Rightarrow> server_db \<times> lease_result" where
  "AcquireLease e db q =
     (case store_guard e
        (validLeaseScope (aq_scope q) \<and> validLeaseText (aq_client q) 128 \<and>
         validLeaseText (aq_lease_id q) 128 \<and> \<not> IsZero (aq_now q) \<and> 0 < aq_ttl q) of
        Some x \<Rightarrow> (db, zero_lease, Some x)
      | None \<Rightarrow>
          if call_fails e 0 then (db, zero_lease, Some (Internal ''lease acquire''))
          else case scanLeaseRow (call_fails e 1) (leaseSelect db (aq_scope q)) (aq_scope q) of
            Inl x \<Rightarrow> (db, zero_lease, Some x)
          | Inr (row, exists) \<Rightarrow>
              let current = expired_view
                    (if exists then row
                     else zero_lease\<lparr>le_scope := aq_scope q, le_epoch := 0, le_state := StNone\<rparr>)
                    (aq_now q)
              in if aq_expected_epoch q \<noteq> None \<and> aq_expected_epoch q \<noteq> Some (le_epoch current)
                 then (db, current, Some ErrConflict)
                 else if le_state current = StHeld \<and> le_holder current \<noteq> aq_client q \<and> \<not> aq_force q
                 then (db, current, Some ErrConflict)
                 else if le_state current = StHeld \<and> le_holder current = aq_client q \<and>
                         le_lease_id current \<noteq> [] \<and> \<not> aq_force q
                 then (db, current, None)
                 else case (if call_fails e 2 then None else write_lease db exists (next_lease q current)) of
                   None \<Rightarrow> (db, zero_lease, Some (Internal ''lease acquire''))
                 | Some db' \<Rightarrow>
                     if call_fails e 3 then (db, zero_lease, Some (Internal ''lease acquire''))
                     else (db', next_lease q current, None))"

definition renew_columns :: "lease_record \<Rightarrow> lease_row \<Rightarrow> lease_row" where
  "renew_columns n r =
     r\<lparr>lr_expires_at := Some (timestamp (le_expires n)), lr_updated_at := Some (timestamp (le_updated n))\<rparr>"

definition mutation_where :: "lease_mutation_request \<Rightarrow> lease_row \<Rightarrow> bool" where
  "mutation_where m r =
     (lease_key_of r = scope_key (mu_scope m) \<and> lr_lease_id r = Some (mu_lease_id m) \<and>
      lr_holder_client_id r = Some (mu_client m) \<and> lr_epoch r = mu_epoch m)"

definition RenewLease :: "env \<Rightarrow> server_db \<Rightarrow> lease_mutation_request \<Rightarrow> server_db \<times> lease_result" where
  "RenewLease e db m =
     (case store_guard e
        (validLeaseScope (mu_scope m) \<and> validLeaseText (mu_client m) 128 \<and>
         validLeaseText (mu_lease_id m) 128 \<and> 1 \<le> mu_epoch m \<and> \<not> IsZero (mu_now m) \<and> 0 < mu_ttl m) of
        Some x \<Rightarrow> (db, zero_lease, Some x)
      | None \<Rightarrow>
          if call_fails e 0 then (db, zero_lease, Some (Internal ''lease renew''))
          else case scanLeaseRow (call_fails e 1) (leaseSelect db (mu_scope m)) (mu_scope m) of
            Inl x \<Rightarrow> (db, zero_lease, Some x)
          | Inr (current, exists) \<Rightarrow>
              if \<not> exists \<or> le_state current \<noteq> StHeld \<or> le_lease_id current \<noteq> mu_lease_id m \<or>
                 le_holder current \<noteq> mu_client m \<or> le_epoch current \<noteq> mu_epoch m
              then (db, current, Some ErrConflict)
              else if \<not> After (le_expires current) (mu_now m)
              then (db, current\<lparr>le_state := StExpired\<rparr>, Some ErrExpired)
              else
                let next = current\<lparr>le_expires := mu_now m + mu_ttl m, le_updated := mu_now m\<rparr>
                in if call_fails e 2 then (db, zero_lease, Some (Internal ''lease renew''))
                   else if call_fails e 3 then (db, zero_lease, Some (Internal ''lease renew''))
                   else (db\<lparr>control_leases :=
                           sql_update (mutation_where m) (renew_columns next) (control_leases db)\<rparr>,
                         next, None))"

definition release_columns :: "lease_record \<Rightarrow> lease_row \<Rightarrow> lease_row" where
  "release_columns n r =
     r\<lparr>lr_lease_id := None, lr_holder_client_id := None, lr_epoch := le_epoch n,
       lr_acquired_at := None, lr_expires_at := None,
       lr_updated_at := Some (timestamp (le_updated n))\<rparr>"

definition released_lease :: "lease_record \<Rightarrow> gotime \<Rightarrow> lease_record" where
  "released_lease current now =
     current\<lparr>le_lease_id := [], le_holder := [], le_acquired := 0, le_expires := 0,
       le_epoch := int64 (le_epoch current + 1), le_updated := now, le_state := StReleased\<rparr>"

definition ReleaseLease :: "env \<Rightarrow> server_db \<Rightarrow> lease_mutation_request \<Rightarrow> server_db \<times> lease_result" where
  "ReleaseLease e db m =
     (case store_guard e
        (validLeaseScope (mu_scope m) \<and> validLeaseText (mu_client m) 128 \<and>
         validLeaseText (mu_lease_id m) 128 \<and> 1 \<le> mu_epoch m \<and> \<not> IsZero (mu_now m)) of
        Some x \<Rightarrow> (db, zero_lease, Some x)
      | None \<Rightarrow>
          if call_fails e 0 then (db, zero_lease, Some (Internal ''lease release''))
          else case scanLeaseRow (call_fails e 1) (leaseSelect db (mu_scope m)) (mu_scope m) of
            Inl x \<Rightarrow> (db, zero_lease, Some x)
          | Inr (current, exists) \<Rightarrow>
              if \<not> exists
              then (db, zero_lease\<lparr>le_scope := mu_scope m, le_state := StReleased\<rparr>, None)
              else if le_state current \<noteq> StHeld \<or> le_lease_id current \<noteq> mu_lease_id m \<or>
                 le_holder current \<noteq> mu_client m \<or> le_epoch current \<noteq> mu_epoch m
              then (db, current, Some ErrConflict)
              else
                let next = released_lease current (mu_now m)
                in if call_fails e 2 \<or> le_epoch next < 0
                   then (db, zero_lease, Some (Internal ''lease release''))
                   else if call_fails e 3 then (db, zero_lease, Some (Internal ''lease release''))
                   else (db\<lparr>control_leases :=
                           sql_update (mutation_where m) (release_columns next) (control_leases db)\<rparr>,
                         next, None))"

definition Lease :: "env \<Rightarrow> server_db \<Rightarrow> lease_scope \<Rightarrow> gotime \<Rightarrow> lease_result" where
  "Lease e db sc now =
     (case store_guard e (validLeaseScope sc \<and> \<not> IsZero now) of
        Some x \<Rightarrow> (zero_lease, Some x)
      | None \<Rightarrow>
          (case scanLeaseRow (call_fails e 0) (leaseSelect db sc) sc of
             Inl x \<Rightarrow> (zero_lease, Some x)
           | Inr (row, exists) \<Rightarrow>
               if \<not> exists then (zero_lease\<lparr>le_scope := sc, le_state := StNone\<rparr>, None)
               else (expired_view row now, None)))"

text \<open>The administrative release (\<^verbatim>\<open>admin.go\<close>): whoever holds the lease of the expected epoch
  loses it. The new row is checked against the table's constraints and the range of INTEGER.\<close>

definition admin_release_columns :: "rfc3339 \<Rightarrow> lease_row \<Rightarrow> lease_row" where
  "admin_release_columns now r =
     r\<lparr>lr_lease_id := None, lr_holder_client_id := None, lr_acquired_at := None, lr_expires_at := None,
       lr_epoch := lr_epoch r + 1, lr_updated_at := Some now\<rparr>"

definition admin_release_where :: "lease_scope \<Rightarrow> int \<Rightarrow> lease_row \<Rightarrow> bool" where
  "admin_release_where sc expectedEpoch r =
     (lease_key_of r = scope_key sc \<and> lr_lease_id r \<noteq> None \<and> lr_epoch r = expectedEpoch)"

definition AdminReleaseLease ::
  "env \<Rightarrow> server_db \<Rightarrow> lease_scope \<Rightarrow> int \<Rightarrow> gotime \<Rightarrow> server_db \<times> lease_result" where
  "AdminReleaseLease e db sc expectedEpoch now =
     (case store_guard e (validLeaseScope sc \<and> 1 \<le> expectedEpoch \<and> \<not> IsZero now) of
        Some x \<Rightarrow> (db, zero_lease, Some x)
      | None \<Rightarrow>
          if call_fails e 0 then (db, zero_lease, Some (Internal ''admin lease release''))
          else case sql_update_checked (\<lambda>r. control_leases_check r \<and> lr_epoch r < 2 ^ 63) (admin_release_where sc expectedEpoch)
                 (admin_release_columns (timestamp now)) (control_leases db) of
            None \<Rightarrow> (db, zero_lease, Some (Internal ''admin lease release''))
          | Some t \<Rightarrow>
              let db' = db\<lparr>control_leases := t\<rparr>
              in if sql_count (admin_release_where sc expectedEpoch) (control_leases db) \<noteq> 1
                 then (db', zero_lease, Some ErrConflict)
                 else (db', Lease (later 1 e) db' sc now))"

section \<open>The in-memory store\<close>

type_synonym memory_leases = "string \<Rightarrow> lease_record option"

definition leaseKey :: "lease_scope \<Rightarrow> string" where
  "leaseKey sc = sc_owner sc @ CHR 0x00 # sc_node sc @ CHR 0x00 # sc_workspace sc @ CHR 0x00 # sc_thread sc"

definition mem_record :: "memory_leases \<Rightarrow> lease_scope \<Rightarrow> lease_record" where
  "mem_record s sc = (case s (leaseKey sc) of None \<Rightarrow> zero_lease | Some r \<Rightarrow> r)"

definition memAcquireLease :: "memory_leases \<Rightarrow> lease_acquire_request \<Rightarrow> memory_leases \<times> lease_result" where
  "memAcquireLease s q =
     (let key = leaseKey (aq_scope q);
          current = expired_view
            (case s key of
               None \<Rightarrow> zero_lease\<lparr>le_scope := aq_scope q, le_state := StNone\<rparr>
             | Some r \<Rightarrow> r) (aq_now q)
      in if aq_expected_epoch q \<noteq> None \<and> aq_expected_epoch q \<noteq> Some (le_epoch current)
         then (s, current, Some ErrConflict)
         else if le_state current = StHeld \<and> le_holder current \<noteq> aq_client q \<and> \<not> aq_force q
         then (s, current, Some ErrConflict)
         else if le_state current = StHeld \<and> le_holder current = aq_client q \<and> \<not> aq_force q
         then (s, current, None)
         else (s(key \<mapsto> next_lease q current), next_lease q current, None))"

definition memRenewLease :: "memory_leases \<Rightarrow> lease_mutation_request \<Rightarrow> memory_leases \<times> lease_result" where
  "memRenewLease s m =
     (let current = mem_record s (mu_scope m)
      in if le_state current \<noteq> StHeld \<or> le_lease_id current \<noteq> mu_lease_id m \<or>
            le_holder current \<noteq> mu_client m \<or> le_epoch current \<noteq> mu_epoch m
         then (s, current, Some ErrConflict)
         else if \<not> After (le_expires current) (mu_now m)
         then (s, current\<lparr>le_state := StExpired\<rparr>, Some ErrExpired)
         else let next = current\<lparr>le_expires := mu_now m + mu_ttl m, le_updated := mu_now m\<rparr>
              in (s(leaseKey (mu_scope m) \<mapsto> next), next, None))"

definition memReleaseLease :: "memory_leases \<Rightarrow> lease_mutation_request \<Rightarrow> memory_leases \<times> lease_result" where
  "memReleaseLease s m =
     (let current = mem_record s (mu_scope m)
      in if le_state current \<noteq> StHeld \<or> le_lease_id current \<noteq> mu_lease_id m \<or>
            le_holder current \<noteq> mu_client m \<or> le_epoch current \<noteq> mu_epoch m
         then (s, current, Some ErrConflict)
         else let next = released_lease current (mu_now m)
              in (s(leaseKey (mu_scope m) \<mapsto> next), next, None))"

definition memLease :: "memory_leases \<Rightarrow> lease_scope \<Rightarrow> gotime \<Rightarrow> lease_result" where
  "memLease s sc now =
     (case s (leaseKey sc) of
        None \<Rightarrow> (zero_lease\<lparr>le_scope := sc, le_state := StNone\<rparr>, None)
      | Some r \<Rightarrow> (expired_view r now, None))"

end
