(* ===== verification/Lease_Contract.thy ===== *)
theory Lease_Contract
  imports Lease_Store
begin

text \<open>
  The contract of the lease stores. \<open>lease_step\<close> is the abstract life of one lease:
  a fencing epoch and the client that holds it, if any. The locale
  \<open>lease_service\<close> states what \<^verbatim>\<open>hubLeaseStore\<close> promises its client, the Hub:
  each call is a step of the abstract machine on its own scope and nothing on any
  other, and \<^verbatim>\<open>Lease\<close> reports the abstract state. Proved from the contract: epochs
  only grow, an admitted proof names the one current holder, and a proof of an
  older epoch is refused for ever.
\<close>

section \<open>The abstract lease\<close>

datatype holding = Free | HeldBy (holder: string) (lease_id: string) (expires: gotime)

record abstract_lease =
  al_epoch :: int
  al_holding :: holding

datatype lease_call =
    Acquire lease_acquire_request
  | Renew lease_mutation_request
  | Release lease_mutation_request
  | AdminRelease lease_scope int gotime

fun call_scope :: "lease_call \<Rightarrow> lease_scope" where
  "call_scope (Acquire q) = aq_scope q"
| "call_scope (Renew m) = mu_scope m"
| "call_scope (Release m) = mu_scope m"
| "call_scope (AdminRelease sc n now) = sc"

definition available :: "abstract_lease \<Rightarrow> lease_acquire_request \<Rightarrow> bool" where
  "available a q =
     ((aq_expected_epoch q = None \<or> aq_expected_epoch q = Some (al_epoch a)) \<and>
      (case al_holding a of Free \<Rightarrow> True | HeldBy h i x \<Rightarrow> x \<le> aq_now q \<or> aq_force q))"

definition held_as :: "abstract_lease \<Rightarrow> lease_mutation_request \<Rightarrow> bool" where
  "held_as a m =
     (case al_holding a of
        Free \<Rightarrow> False
      | HeldBy h i x \<Rightarrow> h = mu_client m \<and> i = mu_lease_id m \<and> al_epoch a = mu_epoch m)"

inductive lease_step :: "abstract_lease \<Rightarrow> lease_call \<Rightarrow> abstract_lease \<Rightarrow> bool" where
  unchanged: "lease_step a c a"
| acquired: "available a q \<Longrightarrow>
    lease_step a (Acquire q)
      \<lparr>al_epoch = al_epoch a + 1, al_holding = HeldBy (aq_client q) (aq_lease_id q) (aq_now q + aq_ttl q)\<rparr>"
| renewed: "held_as a m \<Longrightarrow> mu_now m < expires (al_holding a) \<Longrightarrow>
    lease_step a (Renew m)
      (a\<lparr>al_holding := HeldBy (mu_client m) (mu_lease_id m) (mu_now m + mu_ttl m)\<rparr>)"
| released: "held_as a m \<Longrightarrow>
    lease_step a (Release m) \<lparr>al_epoch = al_epoch a + 1, al_holding = Free\<rparr>"
| revoked: "al_holding a \<noteq> Free \<Longrightarrow> al_epoch a = n \<Longrightarrow>
    lease_step a (AdminRelease sc n now) \<lparr>al_epoch = al_epoch a + 1, al_holding = Free\<rparr>"

inductive_cases lease_step_acquireE: "lease_step a (Acquire q) b"
inductive_cases lease_step_renewE: "lease_step a (Renew m) b"
inductive_cases lease_step_releaseE: "lease_step a (Release m) b"

text \<open>The proof a control carries is admitted when it names the live holding.\<close>

definition admits :: "abstract_lease \<Rightarrow> gotime \<Rightarrow> string \<Rightarrow> string \<Rightarrow> int \<Rightarrow> bool" where
  "admits a now client lease epoch =
     (al_epoch a = epoch \<and>
      (case al_holding a of Free \<Rightarrow> False | HeldBy h i x \<Rightarrow> h = client \<and> i = lease \<and> now < x))"

lemma lease_step_epoch: "lease_step a c b \<Longrightarrow> al_epoch a \<le> al_epoch b"
  by (induction rule: lease_step.induct) auto

text \<open>Within one epoch the holder and the lease identifier never change.\<close>

definition same_holding :: "abstract_lease \<Rightarrow> abstract_lease \<Rightarrow> bool" where
  "same_holding a b =
     (case (al_holding a, al_holding b) of
        (Free, Free) \<Rightarrow> True
      | (HeldBy h i x, HeldBy h' i' x') \<Rightarrow> h = h' \<and> i = i'
      | _ \<Rightarrow> False)"

lemma same_holding_refl [simp]: "same_holding a a"
  by (simp add: same_holding_def split: holding.splits)

lemma same_holding_trans: "same_holding a b \<Longrightarrow> same_holding b c \<Longrightarrow> same_holding a c"
  by (auto simp: same_holding_def split: holding.splits)

lemma lease_step_same_epoch:
  "lease_step a c b \<Longrightarrow> al_epoch b = al_epoch a \<Longrightarrow> same_holding a b"
proof (induction rule: lease_step.induct)
  case (renewed a m)
  then show ?case by (auto simp: same_holding_def held_as_def split: holding.splits)
qed auto

text \<open>Any number of steps, with the calls that made them.\<close>

inductive lease_steps :: "abstract_lease \<Rightarrow> abstract_lease \<Rightarrow> bool" where
  refl: "lease_steps a a"
| more: "lease_step a c b \<Longrightarrow> lease_steps b d \<Longrightarrow> lease_steps a d"

lemma lease_steps_epoch: "lease_steps a b \<Longrightarrow> al_epoch a \<le> al_epoch b"
  by (induction rule: lease_steps.induct) (auto dest: lease_step_epoch)

lemma lease_steps_same_epoch:
  "lease_steps a b \<Longrightarrow> al_epoch b = al_epoch a \<Longrightarrow> same_holding a b"
proof (induction rule: lease_steps.induct)
  case (more a c b d)
  from more.hyps have "al_epoch a \<le> al_epoch b" "al_epoch b \<le> al_epoch d"
    by (auto dest: lease_step_epoch lease_steps_epoch)
  with more have "same_holding a b" "same_holding b d"
    by (auto dest: lease_step_same_epoch)
  then show ?case by (rule same_holding_trans)
qed simp

lemma admits_unique:
  "admits a now c i n \<Longrightarrow> admits a now' c' i' n' \<Longrightarrow> c = c' \<and> i = i' \<and> n = n'"
  by (auto simp: admits_def split: holding.splits)

lemma admits_later:
  assumes "lease_steps a b" "admits a now c i n" "admits b now' c' i' n'"
  shows "n \<le> n' \<and> (n' = n \<longrightarrow> c' = c \<and> i' = i)"
  using lease_steps_epoch [OF assms(1)] lease_steps_same_epoch [OF assms(1)] assms(2,3)
  by (auto simp: admits_def same_holding_def split: holding.splits)

section \<open>The contract of a lease store\<close>

text \<open>
  \<open>call\<close> performs one operation (a value of \<open>'c\<close> names it, \<open>oper\<close> is the operation
  and its request), \<open>view\<close> is \<^verbatim>\<open>Lease\<close>. \<open>room\<close> says that the
  64-bit epoch of a scope can still be incremented, \<open>good\<close> which scopes are kept
  apart by the store's keys.
\<close>

locale lease_service =
  fixes call :: "'c \<Rightarrow> 's \<Rightarrow> 's \<times> lease_result"
    and oper :: "'c \<Rightarrow> lease_call"
    and view :: "'s \<Rightarrow> lease_scope \<Rightarrow> gotime \<Rightarrow> lease_record"
    and abs :: "'s \<Rightarrow> lease_scope \<Rightarrow> abstract_lease"
    and inv :: "'s \<Rightarrow> bool"
    and good :: "lease_scope \<Rightarrow> bool"
    and room :: "'s \<Rightarrow> lease_scope \<Rightarrow> bool"
  assumes call_inv: "inv s \<Longrightarrow> inv (fst (call c s))"
    and call_step: "inv s \<Longrightarrow> room s (call_scope (oper c)) \<Longrightarrow>
      lease_step (abs s (call_scope (oper c))) (oper c) (abs (fst (call c s)) (call_scope (oper c)))"
    and call_frame: "inv s \<Longrightarrow> good sc \<Longrightarrow> good (call_scope (oper c)) \<Longrightarrow> sc \<noteq> call_scope (oper c) \<Longrightarrow>
      abs (fst (call c s)) sc = abs s sc"
    and view_abs: "inv s \<Longrightarrow> good sc \<Longrightarrow> \<not> IsZero now \<Longrightarrow>
      (le_state (view s sc now) = StHeld \<and> le_lease_id (view s sc now) = i \<and>
       le_epoch (view s sc now) = n \<and> le_holder (view s sc now) = h) \<longleftrightarrow>
      admits (abs s sc) now h i n"

fun run_calls :: "('c \<Rightarrow> 's \<Rightarrow> 's \<times> lease_result) \<Rightarrow> 's \<Rightarrow> 'c list \<Rightarrow> 's" where
  "run_calls call s [] = s"
| "run_calls call s (c # cs) = run_calls call (fst (call c s)) cs"

fun roomy :: "('c \<Rightarrow> 's \<Rightarrow> 's \<times> lease_result) \<Rightarrow> ('c \<Rightarrow> 's \<Rightarrow> bool) \<Rightarrow> 's \<Rightarrow> 'c list \<Rightarrow> bool" where
  "roomy call rm s [] = True"
| "roomy call rm s (c # cs) = (rm c s \<and> roomy call rm (fst (call c s)) cs)"

definition proof_admitted :: "('s \<Rightarrow> lease_scope \<Rightarrow> gotime \<Rightarrow> lease_record) \<Rightarrow> 's \<Rightarrow> lease_scope \<Rightarrow>
    gotime \<Rightarrow> string \<Rightarrow> string \<Rightarrow> int \<Rightarrow> bool" where
  "proof_admitted view s sc now client lease epoch =
     (le_state (view s sc now) = StHeld \<and> le_lease_id (view s sc now) = lease \<and>
      le_epoch (view s sc now) = epoch \<and> le_holder (view s sc now) = client)"

context lease_service
begin

lemma run_inv: "inv s \<Longrightarrow> inv (run_calls call s cs)"
  by (induction cs arbitrary: s) (auto intro: call_inv)

lemma run_steps:
  assumes "inv s" "good sc" "\<forall>c \<in> set cs. good (call_scope (oper c))" "roomy call (\<lambda>c s. room s (call_scope (oper c))) s cs"
  shows "lease_steps (abs s sc) (abs (run_calls call s cs) sc)"
  using assms
proof (induction cs arbitrary: s)
  case Nil
  show ?case by (simp add: lease_steps.refl)
next
  case (Cons c cs)
  let ?s' = "fst (call c s)"
  have rest: "lease_steps (abs ?s' sc) (abs (run_calls call ?s' cs) sc)"
    using Cons by (intro Cons.IH) (auto intro: call_inv)
  have "lease_step (abs s sc) (oper c) (abs ?s' sc)"
  proof (cases "sc = call_scope (oper c)")
    case True
    then show ?thesis using Cons.prems call_step by auto
  next
    case False
    then have "abs ?s' sc = abs s sc" using Cons.prems call_frame by auto
    then show ?thesis by (simp add: lease_step.unchanged)
  qed
  with rest show ?case by (auto intro: lease_steps.more)
qed

lemma proof_admitted_abs:
  "inv s \<Longrightarrow> good sc \<Longrightarrow> \<not> IsZero now \<Longrightarrow>
    proof_admitted view s sc now h i n \<longleftrightarrow> admits (abs s sc) now h i n"
  unfolding proof_admitted_def by (rule view_abs)

lemma fencing:
  assumes "inv s" "good sc" "\<forall>c \<in> set cs. good (call_scope (oper c))" "roomy call (\<lambda>c s. room s (call_scope (oper c))) s cs"
    and "\<not> IsZero now" "\<not> IsZero now'"
    and "proof_admitted view s sc now h i n"
    and "proof_admitted view (run_calls call s cs) sc now' h' i' n'"
  shows "n \<le> n' \<and> (n' = n \<longrightarrow> h' = h \<and> i' = i)"
proof -
  have a: "admits (abs s sc) now h i n"
    using assms proof_admitted_abs by blast
  have b: "admits (abs (run_calls call s cs) sc) now' h' i' n'"
    using assms proof_admitted_abs run_inv by blast
  show ?thesis by (rule admits_later [OF run_steps [OF assms(1-4)] a b])
qed

lemma one_holder:
  assumes "inv s" "good sc" "\<not> IsZero now" "\<not> IsZero now'"
    and "proof_admitted view s sc now h i n" "proof_admitted view s sc now' h' i' n'"
  shows "h = h' \<and> i = i' \<and> n = n'"
  using assms by (metis proof_admitted_abs admits_unique)

end

section \<open>The in-memory store meets the contract\<close>

datatype mem_lease_call =
    MAcquire lease_acquire_request
  | MRenew lease_mutation_request
  | MRelease lease_mutation_request

fun mem_oper :: "mem_lease_call \<Rightarrow> lease_call" where
  "mem_oper (MAcquire q) = Acquire q"
| "mem_oper (MRenew m) = Renew m"
| "mem_oper (MRelease m) = Release m"

fun mem_call :: "mem_lease_call \<Rightarrow> memory_leases \<Rightarrow> memory_leases \<times> lease_result" where
  "mem_call (MAcquire q) s = memAcquireLease s q"
| "mem_call (MRenew m) s = memRenewLease s m"
| "mem_call (MRelease m) s = memReleaseLease s m"

definition mem_view :: "memory_leases \<Rightarrow> lease_scope \<Rightarrow> gotime \<Rightarrow> lease_record" where
  "mem_view s sc now = fst (memLease s sc now)"

definition abs_record :: "lease_record \<Rightarrow> abstract_lease" where
  "abs_record r =
     \<lparr>al_epoch = le_epoch r,
      al_holding = (if le_state r = StHeld then HeldBy (le_holder r) (le_lease_id r) (le_expires r) else Free)\<rparr>"

definition abs_mem :: "memory_leases \<Rightarrow> lease_scope \<Rightarrow> abstract_lease" where
  "abs_mem s sc = (case s (leaseKey sc) of None \<Rightarrow> \<lparr>al_epoch = 0, al_holding = Free\<rparr> | Some r \<Rightarrow> abs_record r)"

definition nul_free :: "lease_scope \<Rightarrow> bool" where
  "nul_free sc =
     (\<not> contains_nul (sc_owner sc) \<and> \<not> contains_nul (sc_node sc) \<and>
      \<not> contains_nul (sc_workspace sc) \<and> \<not> contains_nul (sc_thread sc))"

definition epoch_room :: "memory_leases \<Rightarrow> lease_scope \<Rightarrow> bool" where
  "epoch_room s sc = (- (2 ^ 63) \<le> al_epoch (abs_mem s sc) \<and> al_epoch (abs_mem s sc) < 2 ^ 63 - 1)"

lemma split_at_unique:
  "a @ z # b = a' @ z # b' \<Longrightarrow> z \<notin> set a \<Longrightarrow> z \<notin> set a' \<Longrightarrow> a = a' \<and> b = b'"
proof (induction a arbitrary: a')
  case Nil
  then show ?case by (cases a') auto
next
  case (Cons x a)
  then show ?case by (cases a') auto
qed

lemma leaseKey_inj:
  assumes "nul_free sc" "nul_free sc'" "leaseKey sc = leaseKey sc'"
  shows "sc = sc'"
proof -
  have "sc_owner sc = sc_owner sc' \<and>
      sc_node sc @ CHR 0x00 # sc_workspace sc @ CHR 0x00 # sc_thread sc =
      sc_node sc' @ CHR 0x00 # sc_workspace sc' @ CHR 0x00 # sc_thread sc'"
    using assms by (intro split_at_unique) (auto simp: leaseKey_def nul_free_def contains_nul_def)
  moreover from this have "sc_node sc = sc_node sc' \<and>
      sc_workspace sc @ CHR 0x00 # sc_thread sc = sc_workspace sc' @ CHR 0x00 # sc_thread sc'"
    using assms by (intro split_at_unique) (auto simp: nul_free_def contains_nul_def)
  moreover from this have "sc_workspace sc = sc_workspace sc' \<and> sc_thread sc = sc_thread sc'"
    using assms by (intro split_at_unique) (auto simp: nul_free_def contains_nul_def)
  ultimately show ?thesis by simp
qed

lemma mem_call_frame:
  assumes "leaseKey sc \<noteq> leaseKey (call_scope (mem_oper c))"
  shows "fst (mem_call c s) (leaseKey sc) = s (leaseKey sc)"
  using assms
  by (cases c) (auto simp: memAcquireLease_def memRenewLease_def memReleaseLease_def Let_def)

lemma mem_acquire_step:
  assumes "epoch_room s (aq_scope q)"
  shows "lease_step (abs_mem s (aq_scope q)) (Acquire q) (abs_mem (fst (memAcquireLease s q)) (aq_scope q))"
proof (cases "fst (memAcquireLease s q) = s")
  case True
  then show ?thesis by (simp add: lease_step.unchanged)
next
  case False
  let ?a = "abs_mem s (aq_scope q)"
  have "available ?a q"
    using False
    by (auto simp: memAcquireLease_def Let_def available_def abs_mem_def abs_record_def
        expired_view_def zero_lease_def split: option.splits if_splits)
  then have "lease_step ?a (Acquire q)
      \<lparr>al_epoch = al_epoch ?a + 1, al_holding = HeldBy (aq_client q) (aq_lease_id q) (aq_now q + aq_ttl q)\<rparr>"
    by (rule lease_step.acquired)
  moreover have "abs_mem (fst (memAcquireLease s q)) (aq_scope q) =
      \<lparr>al_epoch = al_epoch ?a + 1, al_holding = HeldBy (aq_client q) (aq_lease_id q) (aq_now q + aq_ttl q)\<rparr>"
    using False assms
    by (auto simp: memAcquireLease_def Let_def abs_mem_def abs_record_def next_lease_def epoch_room_def
        expired_view_def zero_lease_def split: option.splits if_splits)
  ultimately show ?thesis by simp
qed

lemma mem_renew_step:
  "lease_step (abs_mem s (mu_scope m)) (Renew m) (abs_mem (fst (memRenewLease s m)) (mu_scope m))"
proof (cases "fst (memRenewLease s m) = s")
  case False
  let ?a = "abs_mem s (mu_scope m)"
  have "held_as ?a m" and "mu_now m < expires (al_holding ?a)"
    using False
    by (auto simp: memRenewLease_def Let_def held_as_def abs_mem_def abs_record_def mem_record_def
        zero_lease_def split: option.splits if_splits)
  then have "lease_step ?a (Renew m)
      (?a\<lparr>al_holding := HeldBy (mu_client m) (mu_lease_id m) (mu_now m + mu_ttl m)\<rparr>)"
    by (rule lease_step.renewed)
  moreover have "abs_mem (fst (memRenewLease s m)) (mu_scope m) =
      ?a\<lparr>al_holding := HeldBy (mu_client m) (mu_lease_id m) (mu_now m + mu_ttl m)\<rparr>"
    using False
    by (auto simp: memRenewLease_def Let_def abs_mem_def abs_record_def mem_record_def
        zero_lease_def split: option.splits if_splits)
  ultimately show ?thesis by simp
qed (simp add: lease_step.unchanged)

lemma mem_release_step:
  assumes "epoch_room s (mu_scope m)"
  shows "lease_step (abs_mem s (mu_scope m)) (Release m) (abs_mem (fst (memReleaseLease s m)) (mu_scope m))"
proof (cases "fst (memReleaseLease s m) = s")
  case False
  let ?a = "abs_mem s (mu_scope m)"
  have "held_as ?a m"
    using False
    by (auto simp: memReleaseLease_def Let_def held_as_def abs_mem_def abs_record_def mem_record_def
        zero_lease_def split: option.splits if_splits)
  then have "lease_step ?a (Release m) \<lparr>al_epoch = al_epoch ?a + 1, al_holding = Free\<rparr>"
    by (rule lease_step.released)
  moreover have "abs_mem (fst (memReleaseLease s m)) (mu_scope m) =
      \<lparr>al_epoch = al_epoch ?a + 1, al_holding = Free\<rparr>"
    using False assms
    by (auto simp: memReleaseLease_def Let_def abs_mem_def abs_record_def mem_record_def epoch_room_def
        released_lease_def zero_lease_def split: option.splits if_splits)
  ultimately show ?thesis by simp
qed (simp add: lease_step.unchanged)

lemma mem_view_abs:
  "(le_state (mem_view s sc now) = StHeld \<and> le_lease_id (mem_view s sc now) = i \<and>
    le_epoch (mem_view s sc now) = n \<and> le_holder (mem_view s sc now) = h) \<longleftrightarrow>
   admits (abs_mem s sc) now h i n"
  by (auto simp: mem_view_def memLease_def admits_def abs_mem_def abs_record_def expired_view_def
      zero_lease_def split: option.splits if_splits)

interpretation mem_lease: lease_service mem_call mem_oper mem_view abs_mem "\<lambda>_. True" nul_free epoch_room
proof unfold_locales
  fix s c
  assume "epoch_room s (call_scope (mem_oper c))"
  then show "lease_step (abs_mem s (call_scope (mem_oper c))) (mem_oper c) (abs_mem (fst (mem_call c s)) (call_scope (mem_oper c)))"
    by (cases c) (auto intro: mem_acquire_step mem_renew_step mem_release_step)
next
  fix s sc c
  assume "nul_free sc" "nul_free (call_scope (mem_oper c))" "sc \<noteq> call_scope (mem_oper c)"
  then have "leaseKey sc \<noteq> leaseKey (call_scope (mem_oper c))" using leaseKey_inj by blast
  then show "abs_mem (fst (mem_call c s)) sc = abs_mem s sc"
    by (simp add: abs_mem_def mem_call_frame)
qed (simp_all add: mem_view_abs)

section \<open>The SQLite store meets the contract\<close>

definition lease_row_ok :: "lease_row \<Rightarrow> bool" where
  "lease_row_ok r =
     (control_leases_check r \<and> lr_epoch r < 2 ^ 63 \<and>
      parse_null (lr_acquired_at r) \<noteq> None \<and> parse_null (lr_expires_at r) \<noteq> None \<and>
      parse_null (lr_updated_at r) \<noteq> None \<and>
      lr_lease_id r \<noteq> Some [] \<and> lr_holder_client_id r \<noteq> Some [])"

definition lease_table_inv :: "server_db \<Rightarrow> bool" where
  "lease_table_inv db =
     (unique_key lease_key_of (control_leases db) \<and> list_all lease_row_ok (control_leases db))"

definition abs_row :: "lease_row \<Rightarrow> abstract_lease" where
  "abs_row r =
     \<lparr>al_epoch = lr_epoch r,
      al_holding =
        (case lr_lease_id r of
           None \<Rightarrow> Free
         | Some i \<Rightarrow> HeldBy (null_string (lr_holder_client_id r)) i (the (parse_null (lr_expires_at r))))\<rparr>"

definition abs_sql :: "server_db \<Rightarrow> lease_scope \<Rightarrow> abstract_lease" where
  "abs_sql db sc = (case leaseSelect db sc of None \<Rightarrow> \<lparr>al_epoch = 0, al_holding = Free\<rparr> | Some r \<Rightarrow> abs_row r)"

text \<open>A call of the SQLite store carries its environment: each may meet other faults.\<close>

fun sql_call :: "env \<times> lease_call \<Rightarrow> server_db \<Rightarrow> server_db \<times> lease_result" where
  "sql_call (e, Acquire q) db = AcquireLease e db q"
| "sql_call (e, Renew m) db = RenewLease e db m"
| "sql_call (e, Release m) db = ReleaseLease e db m"
| "sql_call (e, AdminRelease sc n now) db = AdminReleaseLease e db sc n now"

definition sql_view :: "server_db \<Rightarrow> lease_scope \<Rightarrow> gotime \<Rightarrow> lease_record" where
  "sql_view db sc now = fst (Lease live_env db sc now)"

text \<open>The record a well-formed row scans to.\<close>

definition row_record :: "lease_row \<Rightarrow> lease_record" where
  "row_record r =
     \<lparr>le_scope = row_scope r, le_lease_id = null_string (lr_lease_id r),
      le_holder = null_string (lr_holder_client_id r), le_epoch = lr_epoch r,
      le_acquired = the (parse_null (lr_acquired_at r)), le_expires = the (parse_null (lr_expires_at r)),
      le_updated = the (parse_null (lr_updated_at r)),
      le_state = (if lr_lease_id r = None then StReleased else StHeld)\<rparr>"

lemma leaseSelect_SomeD:
  assumes "leaseSelect db sc = Some r"
  shows "r \<in> set (control_leases db)" and "lease_key_of r = scope_key sc" and "row_scope r = sc"
proof -
  from sql_row_SomeD [OF assms [unfolded leaseSelect_def]]
  show r: "r \<in> set (control_leases db)" and k: "lease_key_of r = scope_key sc" by auto
  from k show "row_scope r = sc"
    by (cases sc) (auto simp: lease_key_of_def scope_key_def row_scope_def)
qed

lemma row_ok_scan:
  assumes "lease_row_ok r"
  shows "scanLeaseRow False (Some r) (row_scope r) = Inr (row_record r, True)"
proof -
  obtain u where u: "lr_updated_at r = Some u" "parse_rfc3339 u \<noteq> None"
    using assms by (auto simp: lease_row_ok_def control_leases_check_def parse_null_def split: option.splits)
  show ?thesis
    using assms u
    by (auto simp: scanLeaseRow_def row_record_def lease_row_ok_def control_leases_check_def
        null_string_def parse_null_def split: option.splits)
qed

lemma scan_select:
  assumes "lease_table_inv db" "scanLeaseRow f (leaseSelect db sc) sc = Inr (rec, ex)"
  shows "\<not> f" and "ex = (leaseSelect db sc \<noteq> None)"
    and "rec = (case leaseSelect db sc of None \<Rightarrow> zero_lease | Some r \<Rightarrow> row_record r)"
proof -
  show "\<not> f" using assms by (auto simp: scanLeaseRow_def)
  moreover have "lease_row_ok r" if "leaseSelect db sc = Some r" for r
    using assms(1) leaseSelect_SomeD(1) [OF that] by (auto simp: lease_table_inv_def list_all_iff)
  ultimately show "ex = (leaseSelect db sc \<noteq> None)"
    and "rec = (case leaseSelect db sc of None \<Rightarrow> zero_lease | Some r \<Rightarrow> row_record r)"
    using assms row_ok_scan leaseSelect_SomeD(3) [of db sc]
    by (cases "leaseSelect db sc"; force simp: scanLeaseRow_def [of _ None])+
qed

lemma abs_row_record: "lease_row_ok r \<Longrightarrow> abs_row r = abs_record (row_record r)"
  by (auto simp: abs_row_def abs_record_def row_record_def null_string_def split: option.splits)

lemma select_row_ok: "lease_table_inv db \<Longrightarrow> leaseSelect db sc = Some r \<Longrightarrow> lease_row_ok r"
  by (auto simp: lease_table_inv_def list_all_iff dest: leaseSelect_SomeD(1))

lemma abs_sql_row:
  "lease_table_inv db \<Longrightarrow> leaseSelect db sc = Some r \<Longrightarrow> abs_sql db sc = abs_record (row_record r)"
  by (simp add: abs_sql_def abs_row_record select_row_ok)

text \<open>None of the UPDATE statements touches the primary key.\<close>

interpretation acquire_table: keyed_table lease_key_of set_lease_columns
  by unfold_locales (simp add: lease_key_of_def set_lease_columns_def)

interpretation renew_table: keyed_table lease_key_of renew_columns
  by unfold_locales (simp add: lease_key_of_def renew_columns_def)

interpretation admin_release_table: keyed_table lease_key_of admin_release_columns
  by unfold_locales (simp add: lease_key_of_def admin_release_columns_def)

interpretation release_table: keyed_table lease_key_of release_columns
  by unfold_locales (simp add: lease_key_of_def release_columns_def)

lemma scope_key_inject [simp]: "scope_key a = scope_key b \<longleftrightarrow> a = b"
  by (cases a; cases b) (auto simp: scope_key_def)

lemma lease_key_of_to_row [simp]: "lease_key_of (lease_to_row n) = scope_key (le_scope n)"
  by (simp add: lease_key_of_def lease_to_row_def scope_key_def)

lemma write_lease_correct:
  assumes inv: "lease_table_inv db" and w: "write_lease db ex n = Some db'"
    and ex: "ex = (leaseSelect db (le_scope n) \<noteq> None)"
    and n: "le_lease_id n \<noteq> []" "le_holder n \<noteq> []" "le_epoch n < 2 ^ 63"
  shows "lease_table_inv db'" and "0 \<le> le_epoch n"
    and "abs_sql db' sc = (if sc = le_scope n
           then \<lparr>al_epoch = le_epoch n, al_holding = HeldBy (le_holder n) (le_lease_id n) (le_expires n)\<rparr>
           else abs_sql db sc)"
proof -
  let ?t = "control_leases db" and ?k = "scope_key (le_scope n)"
  have ok: "lease_row_ok (set_lease_columns n r)" if "0 \<le> le_epoch n" for r
    using n that by (simp add: lease_row_ok_def control_leases_check_def set_lease_columns_def parse_null_def)
  have ok': "lease_row_ok (lease_to_row n)" if "0 \<le> le_epoch n"
    using n that by (simp add: lease_row_ok_def control_leases_check_def lease_to_row_def parse_null_def)
  show pos: "0 \<le> le_epoch n"
    using w by (auto simp: write_lease_def Let_def control_leases_insert_ok_def control_leases_check_def
        lease_to_row_def split: if_splits)
  show "lease_table_inv db'"
    using w inv ok [OF pos] ok' [OF pos] acquire_table.unique_update [of ?t]
    by (auto simp: write_lease_def Let_def lease_table_inv_def list_all_iff control_leases_insert_ok_def
        table_simps unique_sql_insert split: if_splits)
  show "abs_sql db' sc = (if sc = le_scope n
           then \<lparr>al_epoch = le_epoch n, al_holding = HeldBy (le_holder n) (le_lease_id n) (le_expires n)\<rparr>
           else abs_sql db sc)"
  proof (cases ex)
    case True
    then have "db' = db\<lparr>control_leases := sql_update (\<lambda>r. lease_key_of r = ?k) (set_lease_columns n) ?t\<rparr>"
      using w by (simp add: write_lease_def Let_def split: if_splits)
    with True ex show ?thesis
      by (auto simp: abs_sql_def leaseSelect_def acquire_table.row_update abs_row_def
          set_lease_columns_def null_string_def parse_null_def split: option.splits)
  next
    case False
    then have "db' = db\<lparr>control_leases := sql_insert (lease_to_row n) ?t\<rparr>"
      using w by (simp add: write_lease_def split: if_splits)
    with False ex show ?thesis
      by (auto simp: abs_sql_def leaseSelect_def sql_row_insert abs_row_def lease_to_row_def
          null_string_def parse_null_def lease_key_of_def scope_key_def split: option.splits)
  qed
qed

definition current_lease :: "server_db \<Rightarrow> lease_acquire_request \<Rightarrow> lease_record" where
  "current_lease db q =
     expired_view
       (case leaseSelect db (aq_scope q) of
          None \<Rightarrow> zero_lease\<lparr>le_scope := aq_scope q, le_epoch := 0, le_state := StNone\<rparr>
        | Some r \<Rightarrow> row_record r) (aq_now q)"

text \<open>
  A call that reports an error has changed nothing; one that succeeds either finds
  its own live lease or has written the next lease over the current one.
\<close>

lemma acquire_atomic: "atomic failed_rec db (AcquireLease e db q)"
  unfolding AcquireLease_def by (intro atomic_intros) simp

lemma renew_atomic: "atomic failed_rec db (RenewLease e db m)"
  unfolding RenewLease_def by (intro atomic_intros) simp

lemma release_atomic: "atomic failed_rec db (ReleaseLease e db m)"
  unfolding ReleaseLease_def by (intro atomic_intros) simp

lemma acquire_success:
  assumes "lease_table_inv db" "snd (snd (AcquireLease e db q)) = None"
  shows "validLeaseScope (aq_scope q)" and "aq_client q \<noteq> []" and "aq_lease_id q \<noteq> []"
    and "aq_expected_epoch q = None \<or> aq_expected_epoch q = Some (le_epoch (current_lease db q))"
    and "(fst (AcquireLease e db q) = db \<and> fst (snd (AcquireLease e db q)) = current_lease db q \<and>
          le_state (current_lease db q) = StHeld \<and> le_holder (current_lease db q) = aq_client q) \<or>
         (write_lease db (leaseSelect db (aq_scope q) \<noteq> None) (next_lease q (current_lease db q)) =
            Some (fst (AcquireLease e db q)) \<and>
          fst (snd (AcquireLease e db q)) = next_lease q (current_lease db q) \<and>
          (le_state (current_lease db q) = StHeld \<longrightarrow> aq_force q \<or> le_lease_id (current_lease db q) = []))"
proof -
  have g: "store_guard e (validLeaseScope (aq_scope q) \<and> validLeaseText (aq_client q) 128 \<and>
         validLeaseText (aq_lease_id q) 128 \<and> \<not> IsZero (aq_now q) \<and> 0 < aq_ttl q) = None"
    using assms(2) by (auto simp: AcquireLease_def split: option.splits)
  then show "validLeaseScope (aq_scope q)" "aq_client q \<noteq> []" "aq_lease_id q \<noteq> []"
    by (auto dest!: store_guard_NoneD simp: validLeaseText_def)
  have f0: "\<not> call_fails e 0" using assms(2) g by (auto simp: AcquireLease_def)
  obtain rec ex where sc: "scanLeaseRow (call_fails e 1) (leaseSelect db (aq_scope q)) (aq_scope q) = Inr (rec, ex)"
    using assms(2) g f0 by (auto simp: AcquireLease_def split: sum.splits)
  note sel = scan_select [OF assms(1) sc]
  have cur: "expired_view (if ex then rec
      else zero_lease\<lparr>le_scope := aq_scope q, le_epoch := 0, le_state := StNone\<rparr>) (aq_now q) = current_lease db q"
    using sel by (auto simp: current_lease_def split: option.splits)
  have eq: "AcquireLease e db q =
     (let current = current_lease db q
      in if aq_expected_epoch q \<noteq> None \<and> aq_expected_epoch q \<noteq> Some (le_epoch current)
         then (db, current, Some ErrConflict)
         else if le_state current = StHeld \<and> le_holder current \<noteq> aq_client q \<and> \<not> aq_force q
         then (db, current, Some ErrConflict)
         else if le_state current = StHeld \<and> le_holder current = aq_client q \<and>
                 le_lease_id current \<noteq> [] \<and> \<not> aq_force q
         then (db, current, None)
         else case (if call_fails e 2 then None else write_lease db ex (next_lease q current)) of
           None \<Rightarrow> (db, zero_lease, Some (Internal ''lease acquire''))
         | Some db' \<Rightarrow>
             if call_fails e 3 then (db, zero_lease, Some (Internal ''lease acquire''))
             else (db', next_lease q current, None))"
    unfolding AcquireLease_def cur [symmetric] using g sc f0 by simp
  note ex = sel(2)
  show "aq_expected_epoch q = None \<or> aq_expected_epoch q = Some (le_epoch (current_lease db q))"
    using assms(2) unfolding eq Let_def by (auto split: if_splits)
  show "(fst (AcquireLease e db q) = db \<and> fst (snd (AcquireLease e db q)) = current_lease db q \<and>
          le_state (current_lease db q) = StHeld \<and> le_holder (current_lease db q) = aq_client q) \<or>
         (write_lease db (leaseSelect db (aq_scope q) \<noteq> None) (next_lease q (current_lease db q)) =
            Some (fst (AcquireLease e db q)) \<and>
          fst (snd (AcquireLease e db q)) = next_lease q (current_lease db q) \<and>
          (le_state (current_lease db q) = StHeld \<longrightarrow> aq_force q \<or> le_lease_id (current_lease db q) = []))"
    using assms(2) unfolding eq ex Let_def by (auto split: if_splits option.splits)
qed

lemma acquire_write:
  assumes "lease_table_inv db" "fst (AcquireLease e db q) \<noteq> db"
  shows "write_lease db (leaseSelect db (aq_scope q) \<noteq> None) (next_lease q (current_lease db q)) =
      Some (fst (AcquireLease e db q))"
    and "aq_expected_epoch q = None \<or> aq_expected_epoch q = Some (le_epoch (current_lease db q))"
    and "le_state (current_lease db q) = StHeld \<Longrightarrow> aq_force q \<or> le_lease_id (current_lease db q) = []"
    and "aq_client q \<noteq> []" and "aq_lease_id q \<noteq> []"
proof -
  have "snd (snd (AcquireLease e db q)) = None"
    using assms(2) acquire_atomic [of db e q] by (auto simp: atomic_def failed_rec_def)
  note ok = acquire_success [OF assms(1) this]
  from ok(2-4) show "aq_client q \<noteq> []" "aq_lease_id q \<noteq> []"
    "aq_expected_epoch q = None \<or> aq_expected_epoch q = Some (le_epoch (current_lease db q))" by simp_all
  from ok(5) assms(2) show "write_lease db (leaseSelect db (aq_scope q) \<noteq> None) (next_lease q (current_lease db q)) =
      Some (fst (AcquireLease e db q))"
    and "le_state (current_lease db q) = StHeld \<Longrightarrow> aq_force q \<or> le_lease_id (current_lease db q) = []"
    by auto
qed

lemma row_held_id: "lease_row_ok r \<Longrightarrow> le_state (row_record r) = StHeld \<Longrightarrow> le_lease_id (row_record r) \<noteq> []"
  by (auto simp: row_record_def lease_row_ok_def null_string_def split: option.splits if_splits)

lemma next_lease_sel [simp]:
  "le_scope (next_lease q c) = aq_scope q" "le_lease_id (next_lease q c) = aq_lease_id q"
  "le_holder (next_lease q c) = aq_client q" "le_epoch (next_lease q c) = int64 (le_epoch c + 1)"
  "le_expires (next_lease q c) = aq_now q + aq_ttl q"
  by (simp_all add: next_lease_def)

lemma current_lease_epoch:
  assumes "lease_table_inv db"
  shows "le_epoch (current_lease db q) = al_epoch (abs_sql db (aq_scope q))"
    and "0 \<le> al_epoch (abs_sql db (aq_scope q))" and "al_epoch (abs_sql db (aq_scope q)) < 2 ^ 63"
  using select_row_ok [OF assms, of "aq_scope q"]
  by (auto simp: current_lease_def expired_view_def abs_sql_def abs_row_def row_record_def zero_lease_def
      lease_row_ok_def control_leases_check_def split: option.splits)

lemma int64_Suc_nonneg: "0 \<le> x \<Longrightarrow> x < 2 ^ 63 \<Longrightarrow> 0 \<le> int64 (x + 1) \<Longrightarrow> int64 (x + 1) = x + 1"
proof (cases "x + 1 < 2 ^ 63")
  case False
  assume "x < 2 ^ 63" "0 \<le> int64 (x + 1)"
  with False have "x = 2 ^ 63 - 1" by simp
  then have "int64 (x + 1) = - (2 ^ 63)" by (simp add: int64_def)
  with \<open>0 \<le> int64 (x + 1)\<close> show ?thesis by simp
qed simp

lemma sql_acquire_sim:
  assumes inv: "lease_table_inv db"
  shows "lease_table_inv (fst (AcquireLease e db q))"
    and "lease_step (abs_sql db (aq_scope q)) (Acquire q) (abs_sql (fst (AcquireLease e db q)) (aq_scope q))"
    and "sc \<noteq> aq_scope q \<Longrightarrow> abs_sql (fst (AcquireLease e db q)) sc = abs_sql db sc"
proof -
  let ?db' = "fst (AcquireLease e db q)" and ?c = "current_lease db q" and ?a = "abs_sql db (aq_scope q)"
  have "lease_table_inv ?db' \<and> lease_step ?a (Acquire q) (abs_sql ?db' (aq_scope q)) \<and>
      (sc \<noteq> aq_scope q \<longrightarrow> abs_sql ?db' sc = abs_sql db sc)"
  proof (cases "?db' = db")
    case True
    with inv show ?thesis by (simp add: lease_step.unchanged)
  next
    case False
    note w = acquire_write [OF inv False]
    note wc = write_lease_correct [OF inv w(1), simplified, OF w(5,4) int64_upper [simplified]]
    have ep: "int64 (le_epoch ?c + 1) = al_epoch ?a + 1"
      using wc(2) current_lease_epoch [OF inv, of q] int64_Suc_nonneg by auto
    have "available ?a q"
      using w(2,3) current_lease_epoch(1) [OF inv, of q] select_row_ok [OF inv, of "aq_scope q"] row_held_id
      by (fastforce simp: available_def abs_sql_def abs_row_def current_lease_def expired_view_def
          row_record_def split: option.splits if_splits)
    then have "lease_step ?a (Acquire q)
        \<lparr>al_epoch = al_epoch ?a + 1, al_holding = HeldBy (aq_client q) (aq_lease_id q) (aq_now q + aq_ttl q)\<rparr>"
      by (rule lease_step.acquired)
    with wc(1,3) ep show ?thesis by auto
  qed
  then show "lease_table_inv ?db'" "lease_step ?a (Acquire q) (abs_sql ?db' (aq_scope q))"
    "sc \<noteq> aq_scope q \<Longrightarrow> abs_sql ?db' sc = abs_sql db sc" by auto
qed

text \<open>Renewal and release share the check that the caller holds the lease.\<close>

lemma mutation_current:
  assumes "lease_table_inv db" "scanLeaseRow f (leaseSelect db (mu_scope m)) (mu_scope m) = Inr (rec, ex)"
    and "ex" "le_state rec = StHeld" "le_lease_id rec = mu_lease_id m" "le_holder rec = mu_client m"
    and "le_epoch rec = mu_epoch m"
  obtains r where "leaseSelect db (mu_scope m) = Some r" "rec = row_record r" "lease_row_ok r"
    "mutation_where m r" "held_as (abs_sql db (mu_scope m)) m"
    "al_holding (abs_sql db (mu_scope m)) = HeldBy (mu_client m) (mu_lease_id m) (le_expires rec)"
proof -
  note sel = scan_select [OF assms(1,2)]
  from sel(2) \<open>ex\<close> obtain r where r: "leaseSelect db (mu_scope m) = Some r" by auto
  have ok: "lease_row_ok r" by (rule select_row_ok [OF assms(1) r])
  have rec: "rec = row_record r" using sel(3) r by simp
  have w: "mutation_where m r"
    using assms(4-7) rec ok leaseSelect_SomeD(2) [OF r]
    by (auto simp: mutation_where_def row_record_def null_string_def lease_row_ok_def control_leases_check_def
        split: option.splits if_splits)
  have h: "al_holding (abs_sql db (mu_scope m)) = HeldBy (mu_client m) (mu_lease_id m) (le_expires rec)"
    using abs_sql_row [OF assms(1) r] assms(4-6) rec by (simp add: abs_record_def)
  moreover have "held_as (abs_sql db (mu_scope m)) m"
    using h abs_sql_row [OF assms(1) r] assms(7) rec by (simp add: held_as_def abs_record_def)
  ultimately show ?thesis using that r rec ok w by blast
qed

lemma renew_write:
  assumes "fst (RenewLease e db m) \<noteq> db"
  obtains rec ex where
    "scanLeaseRow (call_fails e 1) (leaseSelect db (mu_scope m)) (mu_scope m) = Inr (rec, ex)"
    "ex" "le_state rec = StHeld" "le_lease_id rec = mu_lease_id m" "le_holder rec = mu_client m"
    "le_epoch rec = mu_epoch m" "mu_now m < le_expires rec"
    "fst (RenewLease e db m) = db\<lparr>control_leases := sql_update (mutation_where m)
      (renew_columns (rec\<lparr>le_expires := mu_now m + mu_ttl m, le_updated := mu_now m\<rparr>)) (control_leases db)\<rparr>"
proof -
  have g: "store_guard e (validLeaseScope (mu_scope m) \<and> validLeaseText (mu_client m) 128 \<and>
      validLeaseText (mu_lease_id m) 128 \<and> 1 \<le> mu_epoch m \<and> \<not> IsZero (mu_now m) \<and> 0 < mu_ttl m) = None"
    using assms by (auto simp: RenewLease_def split: option.splits)
  have f0: "\<not> call_fails e 0" using assms g by (auto simp: RenewLease_def)
  obtain rec ex where sc: "scanLeaseRow (call_fails e 1) (leaseSelect db (mu_scope m)) (mu_scope m) = Inr (rec, ex)"
    using assms g f0 by (auto simp: RenewLease_def split: sum.splits)
  note eq = RenewLease_def [of e db m, unfolded g sc, simplified f0, simplified]
  have c: "ex" "le_state rec = StHeld" "le_lease_id rec = mu_lease_id m" "le_holder rec = mu_client m"
    "le_epoch rec = mu_epoch m" "mu_now m < le_expires rec" "\<not> call_fails e 2" "\<not> call_fails e 3"
    using assms unfolding eq Let_def by (simp_all split: if_splits)
  from sc c(1-6) show ?thesis by (rule that) (simp add: eq Let_def c)
qed

lemma release_write:
  assumes "fst (ReleaseLease e db m) \<noteq> db"
  obtains rec ex where
    "scanLeaseRow (call_fails e 1) (leaseSelect db (mu_scope m)) (mu_scope m) = Inr (rec, ex)"
    "ex" "le_state rec = StHeld" "le_lease_id rec = mu_lease_id m" "le_holder rec = mu_client m"
    "le_epoch rec = mu_epoch m" "0 \<le> le_epoch (released_lease rec (mu_now m))"
    "fst (ReleaseLease e db m) = db\<lparr>control_leases := sql_update (mutation_where m)
      (release_columns (released_lease rec (mu_now m))) (control_leases db)\<rparr>"
proof -
  have g: "store_guard e (validLeaseScope (mu_scope m) \<and> validLeaseText (mu_client m) 128 \<and>
      validLeaseText (mu_lease_id m) 128 \<and> 1 \<le> mu_epoch m \<and> \<not> IsZero (mu_now m)) = None"
    using assms by (auto simp: ReleaseLease_def split: option.splits)
  have f0: "\<not> call_fails e 0" using assms g by (auto simp: ReleaseLease_def)
  obtain rec ex where sc: "scanLeaseRow (call_fails e 1) (leaseSelect db (mu_scope m)) (mu_scope m) = Inr (rec, ex)"
    using assms g f0 by (auto simp: ReleaseLease_def split: sum.splits)
  note eq = ReleaseLease_def [of e db m, unfolded g sc, simplified f0, simplified]
  have c: "ex" "le_state rec = StHeld" "le_lease_id rec = mu_lease_id m" "le_holder rec = mu_client m"
    "le_epoch rec = mu_epoch m" "0 \<le> le_epoch (released_lease rec (mu_now m))"
    "\<not> call_fails e 2" "\<not> call_fails e 3"
    using assms unfolding eq Let_def by (simp_all split: if_splits)
  from sc c(1-6) show ?thesis by (rule that) (simp add: eq Let_def c(1-5,7,8) leD [OF c(6)])
qed

lemma sql_renew_sim:
  assumes inv: "lease_table_inv db"
  shows "lease_table_inv (fst (RenewLease e db m)) \<and>
    lease_step (abs_sql db (mu_scope m)) (Renew m) (abs_sql (fst (RenewLease e db m)) (mu_scope m)) \<and>
    (sc \<noteq> mu_scope m \<longrightarrow> abs_sql (fst (RenewLease e db m)) sc = abs_sql db sc)"
proof (cases "fst (RenewLease e db m) = db")
  case True
  with inv show ?thesis by (simp add: lease_step.unchanged)
next
  case False
  let ?a = "abs_sql db (mu_scope m)"
  obtain rec ex where sc: "scanLeaseRow (call_fails e 1) (leaseSelect db (mu_scope m)) (mu_scope m) = Inr (rec, ex)"
    and c: "ex" "le_state rec = StHeld" "le_lease_id rec = mu_lease_id m" "le_holder rec = mu_client m"
      "le_epoch rec = mu_epoch m" and live: "mu_now m < le_expires rec"
    and db': "fst (RenewLease e db m) = db\<lparr>control_leases := sql_update (mutation_where m)
        (renew_columns (rec\<lparr>le_expires := mu_now m + mu_ttl m, le_updated := mu_now m\<rparr>)) (control_leases db)\<rparr>"
    by (rule renew_write [OF False])
  let ?n = "rec\<lparr>le_expires := mu_now m + mu_ttl m, le_updated := mu_now m\<rparr>"
  let ?db' = "db\<lparr>control_leases := sql_update (mutation_where m) (renew_columns ?n) (control_leases db)\<rparr>"
  obtain r where r: "leaseSelect db (mu_scope m) = Some r" and ok: "lease_row_ok r" and w: "mutation_where m r"
    and h: "held_as ?a m" and hd: "al_holding ?a = HeldBy (mu_client m) (mu_lease_id m) (le_expires rec)"
    by (rule mutation_current [OF inv sc c])
  have sel: "leaseSelect ?db' k = map_option (\<lambda>r. if mutation_where m r then renew_columns ?n r else r) (leaseSelect db k)"
    for k by (simp add: leaseSelect_def renew_table.row_update_where)
  have "lease_row_ok (renew_columns ?n x)" if "lease_row_ok x" "mutation_where m x" for x
    using that by (auto simp: lease_row_ok_def control_leases_check_def renew_columns_def parse_null_def mutation_where_def)
  then have inv': "lease_table_inv ?db'"
    using inv by (auto simp: lease_table_inv_def list_all_iff renew_table.unique_update table_simps)
  have "lease_step ?a (Renew m) (?a\<lparr>al_holding := HeldBy (mu_client m) (mu_lease_id m) (mu_now m + mu_ttl m)\<rparr>)"
    using h hd live by (intro lease_step.renewed) simp_all
  moreover have "abs_sql ?db' (mu_scope m) = ?a\<lparr>al_holding := HeldBy (mu_client m) (mu_lease_id m) (mu_now m + mu_ttl m)\<rparr>"
    using sel [of "mu_scope m"] r w
    by (auto simp: abs_sql_def abs_row_def renew_columns_def mutation_where_def null_string_def parse_null_def
        split: option.splits)
  moreover have "abs_sql ?db' sc = abs_sql db sc" if "sc \<noteq> mu_scope m"
    using sel [of sc] that leaseSelect_SomeD(2) [of db sc]
    by (cases "leaseSelect db sc") (auto simp: abs_sql_def mutation_where_def)
  ultimately show ?thesis using inv' unfolding db' by auto
qed

lemma sql_release_sim:
  assumes inv: "lease_table_inv db"
  shows "lease_table_inv (fst (ReleaseLease e db m)) \<and>
    lease_step (abs_sql db (mu_scope m)) (Release m) (abs_sql (fst (ReleaseLease e db m)) (mu_scope m)) \<and>
    (sc \<noteq> mu_scope m \<longrightarrow> abs_sql (fst (ReleaseLease e db m)) sc = abs_sql db sc)"
proof (cases "fst (ReleaseLease e db m) = db")
  case True
  with inv show ?thesis by (simp add: lease_step.unchanged)
next
  case False
  let ?a = "abs_sql db (mu_scope m)"
  obtain rec ex where sc: "scanLeaseRow (call_fails e 1) (leaseSelect db (mu_scope m)) (mu_scope m) = Inr (rec, ex)"
    and c: "ex" "le_state rec = StHeld" "le_lease_id rec = mu_lease_id m" "le_holder rec = mu_client m"
      "le_epoch rec = mu_epoch m" and ep: "0 \<le> le_epoch (released_lease rec (mu_now m))"
    and db': "fst (ReleaseLease e db m) = db\<lparr>control_leases := sql_update (mutation_where m)
        (release_columns (released_lease rec (mu_now m))) (control_leases db)\<rparr>"
    by (rule release_write [OF False])
  let ?n = "released_lease rec (mu_now m)"
  let ?db' = "db\<lparr>control_leases := sql_update (mutation_where m) (release_columns ?n) (control_leases db)\<rparr>"
  obtain r where r: "leaseSelect db (mu_scope m) = Some r" and rec: "rec = row_record r" and ok: "lease_row_ok r"
    and w: "mutation_where m r" and h: "held_as ?a m"
    by (rule mutation_current [OF inv sc c])
  have sel: "leaseSelect ?db' k = map_option (\<lambda>r. if mutation_where m r then release_columns ?n r else r) (leaseSelect db k)"
    for k by (simp add: leaseSelect_def release_table.row_update_where)
  have n: "le_epoch ?n = le_epoch rec + 1"
    using ep ok rec int64_Suc_nonneg
    by (auto simp: released_lease_def row_record_def lease_row_ok_def control_leases_check_def)
  have "le_epoch ?n < 2 ^ 63" using int64_upper by (simp add: released_lease_def)
  then have "lease_row_ok (release_columns ?n x)" for x
    using ep by (auto simp: lease_row_ok_def control_leases_check_def release_columns_def parse_null_def)
  then have inv': "lease_table_inv ?db'"
    using inv by (auto simp: lease_table_inv_def list_all_iff release_table.unique_update table_simps)
  have "abs_sql ?db' (mu_scope m) = \<lparr>al_epoch = al_epoch ?a + 1, al_holding = Free\<rparr>"
    using sel [of "mu_scope m"] r w n rec
    by (auto simp: abs_sql_def abs_row_def release_columns_def row_record_def)
  moreover have "lease_step ?a (Release m) \<lparr>al_epoch = al_epoch ?a + 1, al_holding = Free\<rparr>"
    using h by (rule lease_step.released)
  moreover have "abs_sql ?db' sc = abs_sql db sc" if "sc \<noteq> mu_scope m"
    using sel [of sc] that leaseSelect_SomeD(2) [of db sc]
    by (cases "leaseSelect db sc") (auto simp: abs_sql_def mutation_where_def)
  ultimately show ?thesis using inv' unfolding db' by auto
qed

lemma sql_admin_release_sim:
  assumes inv: "lease_table_inv db"
  shows "lease_table_inv (fst (AdminReleaseLease e db k n now)) \<and>
    lease_step (abs_sql db k) (AdminRelease k n now) (abs_sql (fst (AdminReleaseLease e db k n now)) k) \<and>
    (sc \<noteq> k \<longrightarrow> abs_sql (fst (AdminReleaseLease e db k n now)) sc = abs_sql db sc)"
proof (cases "fst (AdminReleaseLease e db k n now) = db")
  case True
  with inv show ?thesis by (simp add: lease_step.unchanged)
next
  case False
  let ?w = "admin_release_where k n" and ?u = "admin_release_columns (timestamp now)"
  let ?t = "sql_update ?w ?u (control_leases db)" and ?ok = "\<lambda>r. control_leases_check r \<and> lr_epoch r < 2 ^ 63"
  let ?db' = "db\<lparr>control_leases := ?t\<rparr>"
  have checked: "\<And>r. r \<in> set (control_leases db) \<Longrightarrow> ?w r \<Longrightarrow> ?ok (?u r)" and db': "fst (AdminReleaseLease e db k n now) = ?db'"
    using False
    by (auto simp: AdminReleaseLease_def Let_def sql_update_checked_def list_all_iff split: option.splits if_splits)
  have sel: "leaseSelect ?db' c = map_option (\<lambda>r. if ?w r then ?u r else r) (leaseSelect db c)" for c
    by (simp add: leaseSelect_def admin_release_table.row_update_where)
  have "lease_row_ok (?u r)" if "r \<in> set (control_leases db)" "?w r" for r
    using checked [OF that] by (auto simp: lease_row_ok_def admin_release_columns_def parse_null_def)
  then have inv': "lease_table_inv ?db'"
    using inv by (auto simp: lease_table_inv_def list_all_iff admin_release_table.unique_update table_simps)
  have "lease_step (abs_sql db k) (AdminRelease k n now) (abs_sql ?db' k)"
  proof (cases "leaseSelect db k")
    case None
    then show ?thesis using sel [of k] by (simp add: abs_sql_def lease_step.unchanged)
  next
    case (Some r)
    show ?thesis
    proof (cases "?w r")
      case True
      then have a: "al_holding (abs_sql db k) \<noteq> Free" "al_epoch (abs_sql db k) = n"
        using Some by (auto simp: abs_sql_def abs_row_def admin_release_where_def)
      have "abs_sql ?db' k = \<lparr>al_epoch = al_epoch (abs_sql db k) + 1, al_holding = Free\<rparr>"
        using sel [of k] Some True by (simp add: abs_sql_def abs_row_def admin_release_columns_def)
      then show ?thesis using lease_step.revoked [OF a] by simp
    next
      case False
      then show ?thesis using sel [of k] Some by (simp add: abs_sql_def lease_step.unchanged)
    qed
  qed
  moreover have "abs_sql ?db' sc = abs_sql db sc" if "sc \<noteq> k"
    using sel [of sc] that leaseSelect_SomeD(2) [of db sc]
    by (cases "leaseSelect db sc") (auto simp: abs_sql_def admin_release_where_def)
  ultimately show ?thesis using inv' unfolding db' by auto
qed

lemma sql_view_abs:
  assumes "lease_table_inv db" "validLeaseScope sc" "\<not> IsZero now"
  shows "(le_state (sql_view db sc now) = StHeld \<and> le_lease_id (sql_view db sc now) = i \<and>
      le_epoch (sql_view db sc now) = n \<and> le_holder (sql_view db sc now) = h) \<longleftrightarrow>
    admits (abs_sql db sc) now h i n"
proof (cases "leaseSelect db sc")
  case None
  then show ?thesis
    using assms by (simp add: sql_view_def Lease_def scanLeaseRow_def abs_sql_def admits_def zero_lease_def)
next
  case (Some r)
  have "scanLeaseRow False (Some r) sc = Inr (row_record r, True)"
    using row_ok_scan [OF select_row_ok [OF assms(1) Some]] leaseSelect_SomeD(3) [OF Some] by simp
  then have "sql_view db sc now = expired_view (row_record r) now"
    using assms Some by (simp add: sql_view_def Lease_def)
  then show ?thesis
    by (auto simp: abs_sql_row [OF assms(1) Some] admits_def abs_record_def expired_view_def split: if_splits)
qed

lemma sql_call_sim:
  assumes "lease_table_inv db"
  shows "lease_table_inv (fst (sql_call (e, c) db))"
    and "lease_step (abs_sql db (call_scope c)) c (abs_sql (fst (sql_call (e, c) db)) (call_scope c))"
    and "sc \<noteq> call_scope c \<Longrightarrow> abs_sql (fst (sql_call (e, c) db)) sc = abs_sql db sc"
  using assms by (cases c; simp add: sql_acquire_sim sql_renew_sim sql_release_sim sql_admin_release_sim)+

interpretation sql_lease: lease_service sql_call snd sql_view abs_sql lease_table_inv validLeaseScope "\<lambda>_ _. True"
  by unfold_locales (auto simp: sql_call_sim sql_view_abs)

lemma roomy_True: "roomy call (\<lambda>_ _. True) s cs"
  by (induction cs arbitrary: s) auto

section \<open>Properties of the lease stores\<close>

text \<open>Shared by the witnesses: an owner, a scope, and two rival clients.\<close>

definition demo_db :: server_db where
  "demo_db = empty_db\<lparr>owners := [\<lparr>ow_id = ''o'', ow_status = OwnerActive, ow_created_at = (1, ''Z''),
     ow_trust_revision = 0\<rparr>]\<rparr>"

definition demo_scope :: lease_scope where
  "demo_scope = \<lparr>sc_owner = ''o'', sc_node = ''n'', sc_workspace = ''w'', sc_thread = ''t''\<rparr>"

definition demo_acquire :: "string \<Rightarrow> bool \<Rightarrow> gotime \<Rightarrow> lease_acquire_request" where
  "demo_acquire c f now = \<lparr>aq_scope = demo_scope, aq_client = c, aq_lease_id = c @ ''L'', aq_force = f,
     aq_expected_epoch = None, aq_now = now, aq_ttl = DefaultLeaseTTL\<rparr>"

definition demo_held :: server_db where
  "demo_held = fst (AcquireLease live_env demo_db (demo_acquire ''a'' False (seconds 100)))"

definition demo_takeover :: "(env \<times> lease_call) list" where
  "demo_takeover = [(live_env, Acquire (demo_acquire ''b'' True (seconds 110)))]"

lemma demo_held_inv: "lease_table_inv demo_held"
  by code_simp

lemma demo_held_admitted: "proof_admitted sql_view demo_held demo_scope (seconds 101) ''a'' ''aL'' 1"
  by code_simp

lemma demo_taken_admitted:
  "proof_admitted sql_view (run_calls sql_call demo_held demo_takeover) demo_scope (seconds 111) ''b'' ''bL'' 2"
  by code_simp

lemma demo_scopes:
  "validLeaseScope demo_scope" "\<forall>c \<in> set demo_takeover. validLeaseScope (call_scope (snd c))"
  by code_simp+

text \<open>Fencing by epochs. If a lease proof (client, lease identifier, epoch) is
  admitted by the SQLite store, and after any sequence of acquire, renew and release
  calls by any clients, administrative releases included, with any database faults, another proof is admitted for the
  same thread, then the second epoch is not smaller, and an equal epoch means the same
  holder and the same lease. A holder that was superseded is therefore refused for ever.\<close>

theorem lease_fencing:
  assumes "lease_table_inv db" "validLeaseScope sc" "\<forall>c \<in> set cs. validLeaseScope (call_scope (snd c))"
    and "\<not> IsZero now" "\<not> IsZero now'"
    and "proof_admitted sql_view db sc now h i n"
    and "proof_admitted sql_view (run_calls sql_call db cs) sc now' h' i' n'"
  shows "n \<le> n' \<and> (n' = n \<longrightarrow> h' = h \<and> i' = i)"
  by (rule sql_lease.fencing [OF assms(1-3) roomy_True assms(4-7)])

theorem lease_fencing_witness:
  "proof_admitted sql_view demo_held demo_scope (seconds 101) ''a'' ''aL'' 1 \<and>
   proof_admitted sql_view (run_calls sql_call demo_held demo_takeover) demo_scope (seconds 111) ''b'' ''bL'' 2 \<and>
   (1::int) \<le> 2"
  using demo_held_admitted demo_taken_admitted
    lease_fencing [OF demo_held_inv demo_scopes _ _ demo_held_admitted demo_taken_admitted]
  by (simp add: IsZero_def)

text \<open>Property C28: refinement. Every call of the SQLite lease store keeps the table invariant,
  is a step of the abstract lease on its own thread, and leaves the lease of every other
  thread as it was, whatever the context and the database do.\<close>

theorem sql_lease_refines:
  assumes "lease_table_inv db"
  shows "lease_table_inv (fst (sql_call (e, c) db)) \<and>
    lease_step (abs_sql db (call_scope c)) c (abs_sql (fst (sql_call (e, c) db)) (call_scope c)) \<and>
    (\<forall>sc. sc \<noteq> call_scope c \<longrightarrow> abs_sql (fst (sql_call (e, c) db)) sc = abs_sql db sc)"
  using sql_call_sim [OF assms] by blast

theorem sql_lease_refines_witness:
  "lease_table_inv (fst (sql_call (live_env, Acquire (demo_acquire ''b'' True (seconds 110))) demo_held))"
  using sql_lease_refines [OF demo_held_inv] by blast

text \<open>Property C29: refinement. The in-memory lease store simulates the same abstract lease
  while the 64-bit epoch has room, and keeps threads apart whose identifiers hold no NUL
  byte (its map is keyed by the identifiers joined with NUL).\<close>

theorem mem_lease_refines:
  assumes "epoch_room s (call_scope (mem_oper c))"
  shows "lease_step (abs_mem s (call_scope (mem_oper c))) (mem_oper c) (abs_mem (fst (mem_call c s)) (call_scope (mem_oper c))) \<and>
    (\<forall>sc. nul_free sc \<and> nul_free (call_scope (mem_oper c)) \<and> sc \<noteq> call_scope (mem_oper c) \<longrightarrow>
      abs_mem (fst (mem_call c s)) sc = abs_mem s sc)"
  using mem_lease.call_step [of s c] mem_lease.call_frame assms by blast

theorem mem_lease_refines_witness:
  "epoch_room Map.empty demo_scope \<and>
   lease_step (abs_mem Map.empty demo_scope) (Acquire (demo_acquire ''a'' False (seconds 100)))
     (abs_mem (fst (mem_call (MAcquire (demo_acquire ''a'' False (seconds 100))) Map.empty)) demo_scope)"
proof -
  have r: "epoch_room Map.empty demo_scope" by (simp add: epoch_room_def abs_mem_def)
  have sc: "call_scope (mem_oper (MAcquire (demo_acquire ''a'' False (seconds 100)))) = demo_scope"
    by (simp add: demo_acquire_def)
  from mem_lease_refines [of Map.empty "MAcquire (demo_acquire ''a'' False (seconds 100))", unfolded sc, OF r] r
  show ?thesis by simp
qed

text \<open>Atomicity. Acquiring, renewing or releasing a lease in the SQLite store, when it
  reports any error, whether a refused request, a failed statement or a failed commit, leaves the database
  unchanged.\<close>

theorem lease_error_unchanged:
  "atomic failed_rec db (AcquireLease e db q) \<and> atomic failed_rec db (RenewLease e db m) \<and>
   atomic failed_rec db (ReleaseLease e db m)"
  by (simp add: acquire_atomic renew_atomic release_atomic)

text \<open>A successful acquisition is effective. The lease that
  \<^verbatim>\<open>AcquireLease\<close> returns belongs to the caller, and the proof made from it is
  admitted at every later instant before it expires.\<close>

theorem acquire_admits:
  assumes "lease_table_inv db" "AcquireLease e db q = (db', r, None)"
    and "aq_now q \<le> t" "t < le_expires r" "\<not> IsZero t"
  shows "proof_admitted sql_view db' (aq_scope q) t (aq_client q) (le_lease_id r) (le_epoch r)"
proof -
  let ?c = "current_lease db q"
  have "snd (snd (AcquireLease e db q)) = None" using assms(2) by simp
  note ok = acquire_success [OF assms(1) this]
  have inv: "lease_table_inv db'" using sql_acquire_sim(1) [OF assms(1), of e q] assms(2) by simp
  from ok(5) have "admits (abs_sql db' (aq_scope q)) t (aq_client q) (le_lease_id r) (le_epoch r)"
  proof
    assume c: "fst (AcquireLease e db q) = db \<and> fst (snd (AcquireLease e db q)) = ?c \<and>
      le_state ?c = StHeld \<and> le_holder ?c = aq_client q"
    then obtain row where row: "leaseSelect db (aq_scope q) = Some row"
      by (auto simp: current_lease_def expired_view_def split: option.splits if_splits)
    with c assms show ?thesis
      by (auto simp: abs_sql_row [OF assms(1) row] admits_def abs_record_def current_lease_def expired_view_def
          split: if_splits)
  next
    assume w: "write_lease db (leaseSelect db (aq_scope q) \<noteq> None) (next_lease q ?c) =
        Some (fst (AcquireLease e db q)) \<and> fst (snd (AcquireLease e db q)) = next_lease q ?c \<and>
      (le_state ?c = StHeld \<longrightarrow> aq_force q \<or> le_lease_id ?c = [])"
    then have "write_lease db (leaseSelect db (aq_scope q) \<noteq> None) (next_lease q ?c) = Some db'"
      using assms(2) by simp
    note wc = write_lease_correct [OF assms(1) this, simplified, OF ok(3,2) int64_upper [simplified]]
    from w assms(2) have "r = next_lease q ?c" by simp
    with wc(3) [of "aq_scope q"] assms(4) show ?thesis by (simp add: admits_def)
  qed
  then show ?thesis using sql_lease.proof_admitted_abs [OF inv ok(1) assms(5)] by simp
qed

theorem acquire_admits_witness:
  "AcquireLease live_env demo_db (demo_acquire ''a'' False (seconds 100)) =
     (demo_held, fst (snd (AcquireLease live_env demo_db (demo_acquire ''a'' False (seconds 100)))), None) \<and>
   proof_admitted sql_view demo_held demo_scope (seconds 159) ''a''
     (le_lease_id (fst (snd (AcquireLease live_env demo_db (demo_acquire ''a'' False (seconds 100))))))
     (le_epoch (fst (snd (AcquireLease live_env demo_db (demo_acquire ''a'' False (seconds 100))))))"
proof -
  let ?q = "demo_acquire ''a'' False (seconds 100)"
  let ?r = "fst (snd (AcquireLease live_env demo_db ?q))"
  have inv: "lease_table_inv demo_db" by code_simp
  have "snd (snd (AcquireLease live_env demo_db ?q)) = None" by code_simp
  then have eq: "AcquireLease live_env demo_db ?q = (demo_held, ?r, None)"
    by (simp add: demo_held_def prod_eq_iff)
  have t: "aq_now ?q \<le> seconds 159" "\<not> IsZero (seconds 159)" "aq_scope ?q = demo_scope" "aq_client ?q = ''a''"
    by (simp_all add: demo_acquire_def IsZero_def)
  have "seconds 159 < le_expires ?r" by code_simp
  from acquire_admits [OF inv eq t(1) this t(2)] eq show ?thesis unfolding t by blast
qed

text \<open>Property C30: no takeover without force. While a lease is held and not expired, an
  acquisition by another client that does not ask for force is refused with a conflict, and
  the refusal reports the current holder; the database is unchanged.\<close>

theorem acquire_refused:
  assumes "lease_table_inv db" "admits (abs_sql db (aq_scope q)) (aq_now q) h i n"
    and "h \<noteq> aq_client q" "\<not> aq_force q" "AcquireLease live_env db q = (db', r, err)"
    and "validLeaseScope (aq_scope q)" "validLeaseText (aq_client q) 128" "validLeaseText (aq_lease_id q) 128"
    and "\<not> IsZero (aq_now q)" "0 < aq_ttl q"
  shows "db' = db \<and> err = Some ErrConflict \<and> le_holder r = h \<and> le_epoch r = n"
proof -
  obtain row where row: "leaseSelect db (aq_scope q) = Some row"
    using assms(2) by (auto simp: abs_sql_def admits_def split: option.splits)
  have "scanLeaseRow False (Some row) (aq_scope q) = Inr (row_record row, True)"
    using row_ok_scan [OF select_row_ok [OF assms(1) row]] leaseSelect_SomeD(3) [OF row] by simp
  moreover have "le_state (row_record row) = StHeld" "le_holder (row_record row) = h"
    "le_epoch (row_record row) = n" "aq_now q < le_expires (row_record row)"
    using assms(2) by (auto simp: abs_sql_row [OF assms(1) row] admits_def abs_record_def split: if_splits)
  ultimately show ?thesis
    using assms(3-10) row by (auto simp: AcquireLease_def expired_view_def Let_def split: if_splits)
qed

theorem acquire_refused_witness:
  "fst (AcquireLease live_env demo_held (demo_acquire ''b'' False (seconds 110))) = demo_held \<and>
   snd (snd (AcquireLease live_env demo_held (demo_acquire ''b'' False (seconds 110)))) = Some ErrConflict"
proof -
  let ?q = "demo_acquire ''b'' False (seconds 110)"
  have q: "aq_scope ?q = demo_scope" "aq_client ?q = ''b''" "aq_now ?q = seconds 110" "\<not> aq_force ?q"
    "validLeaseText (aq_client ?q) 128" "validLeaseText (aq_lease_id ?q) 128" "0 < aq_ttl ?q"
    by code_simp+
  have adm: "admits (abs_sql demo_held (aq_scope ?q)) (aq_now ?q) ''a'' ''aL'' 1"
    by code_simp
  obtain db r x where eq: "AcquireLease live_env demo_held ?q = (db, r, x)" by (metis prod_cases3)
  have "validLeaseScope (aq_scope ?q)" "''a'' \<noteq> aq_client ?q" "\<not> IsZero (aq_now ?q)"
    using demo_scopes(1) by (simp_all add: demo_acquire_def IsZero_def)
  from acquire_refused [OF demo_held_inv adm this(2) q(4) eq this(1) q(5,6) this(3) q(7)] eq
  show ?thesis by simp
qed

end
