(* ===== verification/Go_Text.thy ===== *)
theory Go_Text
  imports Prelude
begin

text \<open>
  What the sources use of \<^verbatim>\<open>unicode/utf8\<close>, \<^verbatim>\<open>unicode\<close> and
  \<^verbatim>\<open>strings\<close>: the decoding of a byte string into runes as \<^verbatim>\<open>range\<close> and
  \<^verbatim>\<open>utf8.ValidString\<close> see it, the classes \<^verbatim>\<open>IsControl\<close> and
  \<^verbatim>\<open>IsSpace\<close>, and the text checks of the node store. An undecodable byte is
  \<open>None\<close> (Go yields U+FFFD with width 1 there).
\<close>

section \<open>UTF-8\<close>

definition byte :: "char \<Rightarrow> int" where
  "byte c = of_char c"

lemma byte_int: "byte c = int (of_char c)"
  by (simp only: byte_def of_nat_of_char)

lemma byte_bounds: "0 \<le> byte c" "byte c < 256" "\<not> byte c < 0"
  using nat_of_char_less_256 [of c] by (simp_all add: byte_int)

definition in_range :: "int \<Rightarrow> int \<Rightarrow> char \<Rightarrow> bool" where
  "in_range lo hi c = (lo \<le> byte c \<and> byte c \<le> hi)"

text \<open>\<open>decode_rune c cs\<close> reads the rune that starts with byte \<open>c\<close>: the rune, or
  \<open>None\<close>, and how many of the following bytes it takes.\<close>

definition decode_rune :: "char \<Rightarrow> string \<Rightarrow> int option \<times> nat" where
  "decode_rune c cs =
     (let b = byte c in
      if b < 128 then (Some b, 0)
      else if 194 \<le> b \<and> b \<le> 223 then
        (case cs of
           c1 # _ \<Rightarrow> if in_range 128 191 c1 then (Some ((b - 192) * 64 + (byte c1 - 128)), 1) else (None, 0)
         | _ \<Rightarrow> (None, 0))
      else if 224 \<le> b \<and> b \<le> 239 then
        (case cs of
           c1 # c2 # _ \<Rightarrow>
             if in_range (if b = 224 then 160 else 128) (if b = 237 then 159 else 191) c1 \<and> in_range 128 191 c2
             then (Some ((b - 224) * 4096 + (byte c1 - 128) * 64 + (byte c2 - 128)), 2) else (None, 0)
         | _ \<Rightarrow> (None, 0))
      else if 240 \<le> b \<and> b \<le> 244 then
        (case cs of
           c1 # c2 # c3 # _ \<Rightarrow>
             if in_range (if b = 240 then 144 else 128) (if b = 244 then 143 else 191) c1 \<and>
                in_range 128 191 c2 \<and> in_range 128 191 c3
             then (Some ((b - 240) * 262144 + (byte c1 - 128) * 4096 + (byte c2 - 128) * 64 + (byte c3 - 128)), 3)
             else (None, 0)
         | _ \<Rightarrow> (None, 0))
      else (None, 0))"

function runes :: "string \<Rightarrow> int option list" where
  "runes [] = []"
| "runes (c # cs) = fst (decode_rune c cs) # runes (drop (snd (decode_rune c cs)) cs)"
  by pat_completeness auto
termination
  by (relation "measure length") auto

definition ValidString :: "string \<Rightarrow> bool" where
  "ValidString s = (None \<notin> set (runes s))"

definition IsControl :: "int \<Rightarrow> bool" where
  "IsControl r = (r \<le> 31 \<or> 127 \<le> r \<and> r \<le> 159)"

definition IsSpace :: "int \<Rightarrow> bool" where
  "IsSpace r =
     (9 \<le> r \<and> r \<le> 13 \<or> r = 32 \<or> r = 133 \<or> r = 160 \<or> r = 5760 \<or> 8192 \<le> r \<and> r \<le> 8202 \<or>
      r = 8232 \<or> r = 8233 \<or> r = 8239 \<or> r = 8287 \<or> r = 12288)"

fun rune_is :: "(int \<Rightarrow> bool) \<Rightarrow> int option \<Rightarrow> bool" where
  "rune_is P (Some r) = P r"
| "rune_is P None = P 65533"

text \<open>\<^verbatim>\<open>strings.TrimSpace(s) == ""\<close> and \<^verbatim>\<open>strings.TrimSpace(s) == s\<close>.\<close>

definition blank :: "string \<Rightarrow> bool" where
  "blank s = list_all (rune_is IsSpace) (runes s)"

definition trimmed :: "string \<Rightarrow> bool" where
  "trimmed s = (s = [] \<or> \<not> rune_is IsSpace (hd (runes s)) \<and> \<not> rune_is IsSpace (last (runes s)))"

definition has_control :: "string \<Rightarrow> bool" where
  "has_control s = list_ex (rune_is IsControl) (runes s)"

lemma blank_Nil [simp]: "blank []"
  by (simp add: blank_def)

text \<open>A byte below 128 is a rune of its own.\<close>

lemma byte_ascii: "\<not> digit7 c \<Longrightarrow> byte c < 128"
  by (cases c) (simp add: byte_def)

lemma runes_code [code]:
  "runes [] = []"
  "runes (c # cs) =
     (if digit7 c then fst (decode_rune c cs) # runes (drop (snd (decode_rune c cs)) cs) else Some (byte c) # runes cs)"
  by (simp_all add: decode_rune_def byte_ascii)

lemma runes_eq_Nil [simp]: "runes s = [] \<longleftrightarrow> s = []"
  by (cases s) auto

lemma length_runes: "length (runes s) \<le> length s"
proof (induction s rule: runes.induct)
  case (2 c cs)
  then show ?case by (simp add: le_diff_conv)
qed simp

lemma in_range_high:
  "in_range 128 hi c \<Longrightarrow> 128 \<le> byte c" "in_range 144 hi c \<Longrightarrow> 128 \<le> byte c"
  "in_range 160 hi c \<Longrightarrow> 128 \<le> byte c"
  by (simp_all add: in_range_def)

lemma decode_rune_skips: "x \<in> set (take (snd (decode_rune c cs)) cs) \<Longrightarrow> 128 \<le> byte x"
  unfolding decode_rune_def Let_def
  by (cases cs; cases "tl cs"; cases "tl (tl cs)"; clarsimp split: if_split_asm; auto dest: in_range_high)

lemma decode_rune_NUL [simp]: "decode_rune CHR 0x00 cs = (Some 0, 0)"
  by (simp add: decode_rune_def byte_def)

lemma runes_NUL: "CHR 0x00 \<in> set s \<Longrightarrow> Some 0 \<in> set (runes s)"
proof (induction s rule: runes.induct)
  case (2 c cs)
  let ?n = "snd (decode_rune c cs)"
  have "CHR 0x00 \<in> set (drop ?n cs)" if "CHR 0x00 \<in> set cs"
  proof -
    have "CHR 0x00 \<in> set (take ?n cs) \<union> set (drop ?n cs)"
      using that by (metis append_take_drop_id set_append)
    moreover have "CHR 0x00 \<notin> set (take ?n cs)"
      using decode_rune_skips [of "CHR 0x00" c cs] by (auto simp: byte_def)
    ultimately show ?thesis by blast
  qed
  with 2 show ?case by auto
qed simp

section \<open>Text arguments of the node store\<close>

definition validWorkspaceText :: "string \<Rightarrow> int \<Rightarrow> bool" where
  "validWorkspaceText value maxBytes =
     (\<not> (\<not> ValidString value \<or> blank value \<or> maxBytes < int (length value)) \<and> \<not> has_control value)"

lemma no_control_no_nul: "\<not> has_control s \<Longrightarrow> \<not> contains_nul s"
  using runes_NUL [of s] by (force simp: has_control_def contains_nul_def list_ex_iff IsControl_def)

lemma validWorkspaceTextD:
  assumes "validWorkspaceText s n"
  shows "s \<noteq> []" "int (length s) \<le> n" "\<not> contains_nul s"
  using assms no_control_no_nul [of s] by (auto simp: validWorkspaceText_def)

lemma validWorkspaceText_sql:
  assumes "validWorkspaceText s n"
  shows "1 \<le> sql_length s \<and> int (sql_length s) \<le> n"
  using validWorkspaceTextD [OF assms] sql_length_pos [of s] sql_length_le [of s] by auto

end
