(* ===== verification/Node_Schema.thy ===== *)
theory Node_Schema
  imports Sql_Table Go_Text
begin

text \<open>
  The tables of the Node database after its eight migrations
  (\<^verbatim>\<open>internal/node/store/migrations.go\<close>): one record per row and, for each table
  the node store writes, the constraints SQLite enforces on a new or updated row.
  Status columns are TEXT, as the Go records hold them.
\<close>

section \<open>Rows\<close>

record identity_row =
  id_algorithm :: string
  id_public_key :: bytes
  id_private_key_ref :: string
  id_owner_id :: "string option"
  id_node_id :: "string option"
  id_created_at :: rfc3339
  id_updated_at :: rfc3339

record trusted_client_row =
  tc_owner_id :: string
  tc_node_id :: string
  tc_client_id :: string
  tc_key_id :: string
  tc_public_key :: bytes
  tc_status :: string
  tc_created_at :: rfc3339
  tc_revoked_at :: "rfc3339 option"

record node_message_row =
  nm_owner_id :: string
  nm_node_id :: string
  nm_message_id :: string
  nm_accepted_at :: rfc3339

record node_nonce_row =
  nn_owner_id :: string
  nn_node_id :: string
  nn_client_id :: string
  nn_key_id :: string
  nn_nonce :: string
  nn_retain_until :: int

record node_sequence_row =
  ns_owner_id :: string
  ns_node_id :: string
  ns_client_id :: string
  ns_key_id :: string
  ns_highest_sequence :: int
  ns_updated_at :: rfc3339

record outbox_row =
  ob_id :: int
  ob_message_id :: string
  ob_stream_id :: string
  ob_sequence :: int
  ob_frame :: bytes
  ob_created_at :: rfc3339
  ob_acknowledged_at :: "rfc3339 option"

record workspace_row =
  ws_id :: string
  ws_display_name :: string
  ws_canonical_path :: string
  ws_filesystem_root :: string
  ws_file_identity :: string
  ws_adapter :: string
  ws_permission_profile :: string
  ws_allow_network :: int
  ws_updated_at :: rfc3339

record runtime_thread_row =
  rt_agent_instance_id :: string
  rt_adapter :: string
  rt_thread_id :: string
  rt_workspace_id :: string
  rt_ownership :: string
  rt_state :: string
  rt_active_turn_id :: "string option"
  rt_updated_at :: rfc3339

record event_stream_row =
  es_owner_id :: string
  es_node_id :: string
  es_stream_id :: string
  es_latest_sequence :: int
  es_total_bytes :: int
  es_updated_at :: rfc3339

record event_log_row =
  ev_owner_id :: string
  ev_node_id :: string
  ev_stream_id :: string
  ev_sequence :: int
  ev_message_id :: string
  ev_event_type :: string
  ev_workspace_id :: "string option"
  ev_thread_id :: "string option"
  ev_turn_id :: "string option"
  ev_item_id :: "string option"
  ev_frame :: bytes
  ev_frame_bytes :: int
  ev_created_at :: rfc3339

record event_cursor_row =
  ec_owner_id :: string
  ec_node_id :: string
  ec_stream_id :: string
  ec_acknowledged_sequence :: int
  ec_updated_at :: rfc3339

record snapshot_row =
  sn_thread_id :: string
  sn_workspace_id :: string
  sn_status :: string
  sn_latest_sequence :: int
  sn_payload :: bytes
  sn_updated_at :: rfc3339

record approval_row =
  ap_approval_id :: string
  ap_workspace_id :: string
  ap_thread_id :: string
  ap_turn_id :: string
  ap_item_id :: string
  ap_status :: string
  ap_operation_digest :: "string option"
  ap_payload :: bytes
  ap_expires_at :: "rfc3339 option"
  ap_updated_at :: rfc3339

record control_row =
  cr_message_id :: string
  cr_request_digest :: bytes
  cr_control_type :: string
  cr_workspace_id :: "string option"
  cr_thread_id :: "string option"
  cr_turn_id :: "string option"
  cr_item_id :: "string option"
  cr_state :: string
  cr_error_code :: "string option"
  cr_result_stream_id :: "string option"
  cr_result_sequence :: "int option"
  cr_created_at :: rfc3339
  cr_updated_at :: rfc3339

record trust_manifest_row =
  tm_owner_id :: string
  tm_node_id :: string
  tm_revision :: int
  tm_updated_at :: rfc3339

record config_change_row =
  cf_id :: string
  cf_base_revision :: string
  cf_changes :: bytes
  cf_state :: string
  cf_created_at :: rfc3339
  cf_updated_at :: rfc3339
  cf_error_code :: "string option"

record agent_installation_row =
  ai_adapter_type :: string
  ai_installation_state :: string
  ai_version :: string
  ai_compatibility :: string
  ai_process_state :: string
  ai_process_count :: int
  ai_detected_at :: rfc3339

record agent_instance_row =
  ag_instance_id :: string
  ag_adapter_type :: string
  ag_display_name :: string
  ag_enabled :: int
  ag_is_default :: int
  ag_runtime_mode :: string
  ag_config_revision :: string
  ag_updated_at :: rfc3339

record endpoint_row =
  ep_endpoint_id :: string
  ep_instance_id :: string
  ep_mode :: string
  ep_ownership :: string
  ep_updated_at :: rfc3339

record workspace_agent_row =
  wa_workspace_id :: string
  wa_instance_id :: string
  wa_is_default :: int
  wa_updated_at :: rfc3339

record task_binding_row =
  tb_task_id :: string
  tb_instance_id :: string
  tb_endpoint_id :: string
  tb_workspace_id :: string
  tb_native_session_id :: string
  tb_ownership :: string
  tb_state :: string
  tb_active_run_id :: "string option"
  tb_legacy_native_id_exposed :: int
  tb_updated_at :: rfc3339

record node_db =
  identity_table :: "identity_row option"
  trusted_clients :: "trusted_client_row table"
  replay_messages :: "node_message_row table"
  replay_nonces :: "node_nonce_row table"
  signer_sequences :: "node_sequence_row table"
  outbox :: "outbox_row table"
  outbox_autoincrement :: int
  workspaces :: "workspace_row table"
  runtime_threads :: "runtime_thread_row table"
  event_streams :: "event_stream_row table"
  event_log :: "event_log_row table"
  event_cursors :: "event_cursor_row table"
  thread_snapshots :: "snapshot_row table"
  approval_state :: "approval_row table"
  control_requests :: "control_row table"
  trust_manifests :: "trust_manifest_row table"
  config_changes :: "config_change_row table"
  agent_installations :: "agent_installation_row table"
  agent_instances :: "agent_instance_row table"
  runtime_endpoints :: "endpoint_row table"
  workspace_agents :: "workspace_agent_row table"
  task_bindings :: "task_binding_row table"

text \<open>A database just migrated: migration 8 inserts the default Codex instance and its
  endpoint; \<open>t\<close> is the \<^verbatim>\<open>CURRENT_TIMESTAMP\<close> of that moment.\<close>

definition empty_node_db :: "rfc3339 \<Rightarrow> node_db" where
  "empty_node_db t = \<lparr>identity_table = None, trusted_clients = [], replay_messages = [], replay_nonces = [],
     signer_sequences = [], outbox = [], outbox_autoincrement = 0, workspaces = [], runtime_threads = [],
     event_streams = [], event_log = [], event_cursors = [], thread_snapshots = [], approval_state = [],
     control_requests = [], trust_manifests = [], config_changes = [], agent_installations = [],
     agent_instances = [\<lparr>ag_instance_id = ''codex-default'', ag_adapter_type = ''codex'',
       ag_display_name = ''Codex'', ag_enabled = 1, ag_is_default = 1, ag_runtime_mode = ''managed'',
       ag_config_revision = ''legacy-v1'', ag_updated_at = t\<rparr>],
     runtime_endpoints = [\<lparr>ep_endpoint_id = ''codex-default-managed'', ep_instance_id = ''codex-default'',
       ep_mode = ''managed'', ep_ownership = ''node'', ep_updated_at = t\<rparr>],
     workspace_agents = [], task_bindings = []\<rparr>"

section \<open>Helpers the store files share\<close>

definition nullText :: "string \<Rightarrow> string option" where
  "nullText value = (if value = [] then None else Some value)"

definition nullTime :: "gotime \<Rightarrow> rfc3339 option" where
  "nullTime value = (if IsZero value then None else Some (timestamp value))"

definition nullableSequence :: "int \<Rightarrow> int option" where
  "nullableSequence value = (if value = 0 then None else Some value)"

text \<open>\<^verbatim>\<open>sql.NullString.String\<close> and \<^verbatim>\<open>sql.NullInt64.Int64\<close>.\<close>

definition nstring :: "string option \<Rightarrow> string" where
  "nstring x = (case x of None \<Rightarrow> [] | Some s \<Rightarrow> s)"

definition nint :: "int option \<Rightarrow> int" where
  "nint x = (case x of None \<Rightarrow> 0 | Some s \<Rightarrow> s)"

definition boolInteger :: "bool \<Rightarrow> int" where
  "boolInteger value = (if value then 1 else 0)"

lemma nstring_nullText [simp]: "nstring (nullText s) = s"
  by (simp add: nstring_def nullText_def)

lemma nint_nullable [simp]: "nint (nullableSequence n) = n"
  by (simp add: nint_def nullableSequence_def)

lemma boolInteger_inj [simp]: "(boolInteger b = 1) = b"
  by (simp add: boolInteger_def)

lemma text_between: "validWorkspaceText s n \<Longrightarrow> length_between (Suc 0) n s"
  by (drule validWorkspaceText_sql) (simp add: length_between_def)

section \<open>Constraints\<close>

definition trusted_clients_check :: "trusted_client_row \<Rightarrow> bool" where
  "trusted_clients_check r =
     (length (tc_public_key r) = 32 \<and> (tc_status r = ''active'' \<or> tc_status r = ''revoked''))"

definition trusted_key_of :: "trusted_client_row \<Rightarrow> string \<times> string \<times> string \<times> string" where
  "trusted_key_of r = (tc_owner_id r, tc_node_id r, tc_client_id r, tc_key_id r)"

definition node_message_key :: "node_message_row \<Rightarrow> string \<times> string \<times> string" where
  "node_message_key r = (nm_owner_id r, nm_node_id r, nm_message_id r)"

definition node_nonce_key :: "node_nonce_row \<Rightarrow> string \<times> string \<times> string \<times> string \<times> string" where
  "node_nonce_key r = (nn_owner_id r, nn_node_id r, nn_client_id r, nn_key_id r, nn_nonce r)"

definition node_sequence_key :: "node_sequence_row \<Rightarrow> string \<times> string \<times> string \<times> string" where
  "node_sequence_key r = (ns_owner_id r, ns_node_id r, ns_client_id r, ns_key_id r)"

definition node_sequences_check :: "node_sequence_row \<Rightarrow> bool" where
  "node_sequences_check r = (0 \<le> ns_highest_sequence r \<and> ns_highest_sequence r \<le> max_js_sequence)"

definition outbox_check :: "outbox_row \<Rightarrow> bool" where
  "outbox_check r =
     (length_between 1 128 (ob_message_id r) \<and> length_between 1 128 (ob_stream_id r) \<and>
      0 \<le> ob_sequence r \<and> ob_sequence r \<le> max_js_sequence \<and> int (length (ob_frame r)) \<le> 1048576)"

definition outbox_slot_free :: "node_db \<Rightarrow> outbox_row \<Rightarrow> bool" where
  "outbox_slot_free db r =
     (\<not> sql_exists (\<lambda>x. ob_stream_id x = ob_stream_id r \<and> ob_sequence x = ob_sequence r) (outbox db))"

definition outbox_insert_ok :: "node_db \<Rightarrow> outbox_row \<Rightarrow> bool" where
  "outbox_insert_ok db r =
     (outbox_check r \<and> \<not> sql_exists (\<lambda>x. ob_message_id x = ob_message_id r) (outbox db) \<and> outbox_slot_free db r)"

definition stream_key :: "event_stream_row \<Rightarrow> string \<times> string \<times> string" where
  "stream_key r = (es_owner_id r, es_node_id r, es_stream_id r)"

definition event_key :: "event_log_row \<Rightarrow> string \<times> string \<times> string" where
  "event_key r = (ev_owner_id r, ev_node_id r, ev_stream_id r)"

definition cursor_key :: "event_cursor_row \<Rightarrow> string \<times> string \<times> string" where
  "cursor_key r = (ec_owner_id r, ec_node_id r, ec_stream_id r)"

definition event_streams_check :: "event_stream_row \<Rightarrow> bool" where
  "event_streams_check r =
     (length_between 1 128 (es_owner_id r) \<and> length_between 1 128 (es_node_id r) \<and>
      length_between 1 128 (es_stream_id r) \<and> 0 \<le> es_latest_sequence r \<and>
      es_latest_sequence r \<le> max_js_sequence \<and> 0 \<le> es_total_bytes r)"

definition stream_exists :: "node_db \<Rightarrow> string \<times> string \<times> string \<Rightarrow> bool" where
  "stream_exists db k = sql_exists (\<lambda>r. stream_key r = k) (event_streams db)"

definition event_log_check :: "event_log_row \<Rightarrow> bool" where
  "event_log_check r =
     (1 \<le> ev_sequence r \<and> ev_sequence r \<le> max_js_sequence \<and> length_between 1 128 (ev_message_id r) \<and>
      length_between 1 128 (ev_event_type r) \<and> int (length (ev_frame r)) \<le> 1048576 \<and>
      ev_frame_bytes r = int (length (ev_frame r)))"

definition event_log_insert_ok :: "node_db \<Rightarrow> event_log_row \<Rightarrow> bool" where
  "event_log_insert_ok db r =
     (event_log_check r \<and>
      \<not> sql_exists (\<lambda>x. ev_message_id x = ev_message_id r) (event_log db) \<and>
      \<not> sql_exists (\<lambda>x. event_key x = event_key r \<and> ev_sequence x = ev_sequence r) (event_log db) \<and>
      stream_exists db (event_key r))"

definition event_cursors_check :: "event_cursor_row \<Rightarrow> bool" where
  "event_cursors_check r = (0 \<le> ec_acknowledged_sequence r \<and> ec_acknowledged_sequence r \<le> max_js_sequence)"

definition snapshots_check :: "snapshot_row \<Rightarrow> bool" where
  "snapshots_check r =
     (length_between 1 128 (sn_thread_id r) \<and> length_between 1 128 (sn_workspace_id r) \<and>
      length_between 1 64 (sn_status r) \<and> 0 \<le> sn_latest_sequence r \<and>
      sn_latest_sequence r \<le> max_js_sequence \<and> int (length (sn_payload r)) \<le> 786432)"

definition approvals_check :: "approval_row \<Rightarrow> bool" where
  "approvals_check r =
     (length_between 1 128 (ap_approval_id r) \<and> length_between 1 128 (ap_workspace_id r) \<and>
      length_between 1 128 (ap_thread_id r) \<and> length_between 1 128 (ap_turn_id r) \<and>
      length_between 1 128 (ap_item_id r) \<and>
      ap_status r \<in> {''pending'', ''processing'', ''accepted'', ''declined'', ''resolved'', ''expired'', ''ambiguous''} \<and>
      (case ap_operation_digest r of None \<Rightarrow> True | Some d \<Rightarrow> sql_length d = 43) \<and>
      int (length (ap_payload r)) \<le> 786432)"

definition controls_check :: "control_row \<Rightarrow> bool" where
  "controls_check r =
     (length_between 1 128 (cr_message_id r) \<and> length (cr_request_digest r) = 32 \<and>
      length_between 1 128 (cr_control_type r) \<and>
      cr_state r \<in> {''received'', ''validated'', ''dispatching'', ''confirmed'', ''rejected'', ''ambiguous''})"

definition manifests_check :: "trust_manifest_row \<Rightarrow> bool" where
  "manifests_check r =
     (length_between 1 128 (tm_owner_id r) \<and> length_between 1 128 (tm_node_id r) \<and> 0 \<le> tm_revision r)"

definition manifest_key :: "trust_manifest_row \<Rightarrow> string \<times> string" where
  "manifest_key r = (tm_owner_id r, tm_node_id r)"

definition workspaces_check :: "workspace_row \<Rightarrow> bool" where
  "workspaces_check r =
     (length_between 1 128 (ws_id r) \<and> length_between 1 128 (ws_display_name r) \<and>
      length_between 1 32767 (ws_canonical_path r) \<and> length_between 1 32767 (ws_filesystem_root r) \<and>
      length_between 1 256 (ws_file_identity r) \<and> ws_adapter r = ''codex'' \<and>
      ws_permission_profile r \<in> {''read-only'', ''workspace-write''} \<and> ws_allow_network r \<in> {0, 1})"

definition runtime_threads_check :: "runtime_thread_row \<Rightarrow> bool" where
  "runtime_threads_check r =
     (length_between 1 128 (rt_agent_instance_id r) \<and> rt_adapter r = ''codex'' \<and>
      length_between 1 256 (rt_thread_id r) \<and> length_between 1 128 (rt_workspace_id r) \<and>
      rt_ownership r \<in> {''created'', ''resumed''} \<and>
      rt_state r \<in> {''idle'', ''starting'', ''active'', ''needs_reconcile''} \<and>
      (case rt_active_turn_id r of None \<Rightarrow> True | Some t \<Rightarrow> length_between 1 128 t) \<and>
      (rt_state r = ''active'' \<and> rt_active_turn_id r \<noteq> None \<or> rt_state r \<noteq> ''active''))"

definition runtime_thread_key :: "runtime_thread_row \<Rightarrow> string \<times> string" where
  "runtime_thread_key r = (rt_agent_instance_id r, rt_thread_id r)"

definition config_changes_check :: "config_change_row \<Rightarrow> bool" where
  "config_changes_check r =
     (length_between 1 128 (cf_id r) \<and> length_between 1 128 (cf_base_revision r) \<and>
      2 \<le> length (cf_changes r) \<and> int (length (cf_changes r)) \<le> 262144 \<and>
      cf_state r \<in> {''pending'', ''approved'', ''rejected''})"

end
