(* ===== verification/Replay_Store.thy ===== *)
theory Replay_Store
  imports Lease_Contract Node_Schema
begin

text \<open>
  Replay protection of signed control envelopes. The protocol package declares the
  interface \<^verbatim>\<open>ReplayStore\<close> (\<^verbatim>\<open>internal/protocol/v1/stores.go\<close>) with an
  in-memory implementation; the Server store (\<^verbatim>\<open>internal/server/store/replay.go\<close>)
  and the Node store (\<^verbatim>\<open>internal/node/store/trust_replay.go\<close>) implement it on
  SQLite. The two databases forget messages or nonces after a while; what they never
  forget is the highest sequence a signer has used.

  The locale \<open>replay_store\<close> states the contract over that highest sequence; its
  client lemmas say that no history of calls, faults and prunings accepts a record
  twice. All three implementations are interpreted.
\<close>

section \<open>Data and the in-memory store\<close>

record replay_record =
  re_owner :: string
  re_node :: string
  re_message :: string
  re_client :: string
  re_key :: string
  re_nonce :: string
  re_sequence :: int
  re_retain :: gotime

type_synonym signer = "string \<times> string \<times> string \<times> string"

definition signer_of :: "replay_record \<Rightarrow> signer" where
  "signer_of r = (re_owner r, re_node r, re_client r, re_key r)"

definition UnixNano :: "gotime \<Rightarrow> int" where
  "UnixNano t = int64 (t - seconds 62135596800)"

record memory_replay =
  mr_messages :: "string \<times> string \<times> string \<Rightarrow> unit option"
  mr_nonces :: "string \<times> string \<times> string \<times> string \<times> string \<Rightarrow> gotime option"
  mr_sequences :: "signer \<Rightarrow> int option"

definition NewMemoryReplayStore :: memory_replay where
  "NewMemoryReplayStore =
     \<lparr>mr_messages = (\<lambda>_. None), mr_nonces = (\<lambda>_. None), mr_sequences = (\<lambda>_. None)\<rparr>"

definition memCheckAndRecord ::
  "env \<Rightarrow> memory_replay \<Rightarrow> replay_record \<Rightarrow> memory_replay \<times> store_error option" where
  "memCheckAndRecord e s r =
     (if ctx_err e \<noteq> None then (s, Some (Plain ''replay check canceled''))
      else if re_owner r = [] \<or> re_node r = [] \<or> re_message r = [] \<or> re_client r = [] \<or>
              re_key r = [] \<or> re_nonce r = [] \<or> re_sequence r < 0 \<or> IsZero (re_retain r)
      then (s, Some (Plain ''invalid replay record''))
      else
        let messageKey = (re_owner r, re_node r, re_message r);
            nonceKey = (re_owner r, re_node r, re_client r, re_key r, re_nonce r);
            sequenceKey = signer_of r
        in if mr_messages s messageKey \<noteq> None then (s, Some ErrReplayDetected)
           else if mr_nonces s nonceKey \<noteq> None then (s, Some ErrReplayDetected)
           else if (case mr_sequences s sequenceKey of None \<Rightarrow> False | Some highest \<Rightarrow> re_sequence r \<le> highest)
           then (s, Some ErrReplayDetected)
           else (s\<lparr>mr_messages := (mr_messages s)(messageKey \<mapsto> ()),
                   mr_nonces := (mr_nonces s)(nonceKey \<mapsto> re_retain r),
                   mr_sequences := (mr_sequences s)(sequenceKey \<mapsto> re_sequence r)\<rparr>, None))"

section \<open>The Server store\<close>

definition short_text :: "string \<Rightarrow> bool" where
  "short_text s = (s \<noteq> [] \<and> length s \<le> 128)"

definition validServerReplayRecord :: "replay_record \<Rightarrow> bool" where
  "validServerReplayRecord r =
     (short_text (re_owner r) \<and> short_text (re_node r) \<and> short_text (re_client r) \<and> short_text (re_key r) \<and>
      short_text (re_message r) \<and> short_text (re_nonce r) \<and>
      1 \<le> re_sequence r \<and> re_sequence r \<le> max_js_sequence \<and> \<not> IsZero (re_retain r))"

definition replay_message :: "gotime \<Rightarrow> replay_record \<Rightarrow> replay_message_row" where
  "replay_message now r =
     \<lparr>rm_owner_id = re_owner r, rm_node_id = re_node r, rm_client_id = re_client r, rm_key_id = re_key r,
      rm_message_id = re_message r, rm_retain_until = UnixNano (re_retain r), rm_accepted_at = timestamp now\<rparr>"

definition replay_nonce :: "replay_record \<Rightarrow> replay_nonce_row" where
  "replay_nonce r =
     \<lparr>rn_owner_id = re_owner r, rn_node_id = re_node r, rn_client_id = re_client r, rn_key_id = re_key r,
      rn_nonce = re_nonce r, rn_retain_until = UnixNano (re_retain r)\<rparr>"

definition replay_sequence :: "gotime \<Rightarrow> replay_record \<Rightarrow> signer_sequence_row" where
  "replay_sequence now r =
     \<lparr>ss_owner_id = re_owner r, ss_node_id = re_node r, ss_client_id = re_client r, ss_key_id = re_key r,
      ss_highest_sequence = re_sequence r, ss_updated_at = timestamp now\<rparr>"

definition set_sequence :: "int \<times> rfc3339 \<Rightarrow> signer_sequence_row \<Rightarrow> signer_sequence_row" where
  "set_sequence a r = r\<lparr>ss_highest_sequence := fst a, ss_updated_at := snd a\<rparr>"

definition server_highest :: "server_db \<Rightarrow> signer \<Rightarrow> int option" where
  "server_highest db k = map_option ss_highest_sequence (sql_row (\<lambda>x. signer_key_of x = k) (server_signer_sequences db))"

definition prune_replay :: "gotime \<Rightarrow> server_db \<Rightarrow> server_db" where
  "prune_replay now db =
     db\<lparr>server_replay_messages := sql_delete (\<lambda>x. rm_retain_until x < UnixNano now) (server_replay_messages db),
        server_replay_nonces := sql_delete (\<lambda>x. rn_retain_until x < UnixNano now) (server_replay_nonces db)\<rparr>"

definition record_replay :: "gotime \<Rightarrow> replay_record \<Rightarrow> server_db \<Rightarrow> server_db" where
  "record_replay now r db =
     db\<lparr>server_replay_messages := sql_insert (replay_message now r) (server_replay_messages db),
        server_replay_nonces := sql_insert (replay_nonce r) (server_replay_nonces db),
        server_signer_sequences := sql_upsert signer_key_of (replay_sequence now r)
          (set_sequence (re_sequence r, timestamp now)) (server_signer_sequences db)\<rparr>"

definition serverCheckAndRecord ::
  "env \<Rightarrow> gotime \<Rightarrow> server_db \<Rightarrow> replay_record \<Rightarrow> server_db \<times> store_error option" where
  "serverCheckAndRecord e now db0 r =
     (case store_guard e (validServerReplayRecord r) of
        Some x \<Rightarrow> (db0, Some x)
      | None \<Rightarrow> transact db0
          (if call_fails e 0 then Inl (Internal ''replay transaction'')
           else if call_fails e 1 then Inl (Internal ''replay prune'')
           else if call_fails e 2 then Inl (Internal ''replay prune'')
           else
             let db = prune_replay now db0
             in if call_fails e 3 then Inl (Internal ''replay check'')
                else if sql_exists (\<lambda>x. replay_key_of x = replay_key_of (replay_message now r)) (server_replay_messages db)
                then Inl ErrReplayDetected
                else if call_fails e 4 then Inl (Internal ''replay check'')
                else if sql_exists (\<lambda>x. nonce_key_of x = nonce_key_of (replay_nonce r)) (server_replay_nonces db)
                then Inl ErrReplayDetected
                else if call_fails e 5 then Inl (Internal ''replay check'')
                else if (case server_highest db (signer_of r) of None \<Rightarrow> False | Some h \<Rightarrow> re_sequence r \<le> h)
                then Inl ErrReplayDetected
                else if call_fails e 6 \<or> \<not> replay_messages_insert_ok db (replay_message now r) then Inl ErrReplayDetected
                else if call_fails e 7 \<or> \<not> replay_nonces_insert_ok db (replay_nonce r) then Inl ErrReplayDetected
                else if call_fails e 8 \<or> \<not> signer_sequences_upsert_ok db (replay_sequence now r)
                then Inl (Internal ''replay record'')
                else if call_fails e 9 then Inl (Internal ''replay record'')
                else Inr (record_replay now r db)))"

section \<open>The Node store\<close>

record key_ref =
  kr_owner :: string
  kr_node :: string
  kr_client :: string
  kr_key :: string

definition validKeyRef :: "key_ref \<Rightarrow> bool" where
  "validKeyRef ref =
     (short_text (kr_owner ref) \<and> short_text (kr_node ref) \<and> short_text (kr_client ref) \<and> short_text (kr_key ref))"

definition validReplayRecord :: "replay_record \<Rightarrow> bool" where
  "validReplayRecord r =
     (validKeyRef \<lparr>kr_owner = re_owner r, kr_node = re_node r, kr_client = re_client r, kr_key = re_key r\<rparr> \<and>
      short_text (re_message r) \<and> short_text (re_nonce r) \<and> 0 \<le> re_sequence r \<and>
      re_sequence r \<le> max_js_sequence \<and> \<not> IsZero (re_retain r))"

definition node_message :: "gotime \<Rightarrow> replay_record \<Rightarrow> node_message_row" where
  "node_message now r =
     \<lparr>nm_owner_id = re_owner r, nm_node_id = re_node r, nm_message_id = re_message r, nm_accepted_at = timestamp now\<rparr>"

definition node_nonce :: "replay_record \<Rightarrow> node_nonce_row" where
  "node_nonce r =
     \<lparr>nn_owner_id = re_owner r, nn_node_id = re_node r, nn_client_id = re_client r, nn_key_id = re_key r,
      nn_nonce = re_nonce r, nn_retain_until = UnixNano (re_retain r)\<rparr>"

definition node_sequence :: "gotime \<Rightarrow> replay_record \<Rightarrow> node_sequence_row" where
  "node_sequence now r =
     \<lparr>ns_owner_id = re_owner r, ns_node_id = re_node r, ns_client_id = re_client r, ns_key_id = re_key r,
      ns_highest_sequence = re_sequence r, ns_updated_at = timestamp now\<rparr>"

definition set_node_sequence :: "int \<times> rfc3339 \<Rightarrow> node_sequence_row \<Rightarrow> node_sequence_row" where
  "set_node_sequence a r = r\<lparr>ns_highest_sequence := fst a, ns_updated_at := snd a\<rparr>"

definition node_highest :: "node_db \<Rightarrow> signer \<Rightarrow> int option" where
  "node_highest db k = map_option ns_highest_sequence (sql_row (\<lambda>x. node_sequence_key x = k) (signer_sequences db))"

definition record_node_replay :: "gotime \<Rightarrow> replay_record \<Rightarrow> node_db \<Rightarrow> node_db" where
  "record_node_replay now r db =
     db\<lparr>replay_messages := sql_insert (node_message now r) (replay_messages db),
        replay_nonces := sql_insert (node_nonce r) (replay_nonces db),
        signer_sequences := sql_upsert node_sequence_key (node_sequence now r)
          (set_node_sequence (re_sequence r, timestamp now)) (signer_sequences db)\<rparr>"

definition nodeCheckAndRecord ::
  "env \<Rightarrow> gotime \<Rightarrow> node_db \<Rightarrow> replay_record \<Rightarrow> node_db \<times> store_error option" where
  "nodeCheckAndRecord e now db r =
     (case store_guard e (validReplayRecord r) of
        Some x \<Rightarrow> (db, Some x)
      | None \<Rightarrow> transact db
          (if call_fails e 0 then Inl (Internal ''replay transaction'')
           else if call_fails e 1 then Inl (Internal ''replay check'')
           else if sql_exists (\<lambda>x. node_message_key x = node_message_key (node_message now r)) (replay_messages db)
           then Inl ErrReplayDetected
           else if call_fails e 2 then Inl (Internal ''replay check'')
           else if sql_exists (\<lambda>x. node_nonce_key x = node_nonce_key (node_nonce r)) (replay_nonces db)
           then Inl ErrReplayDetected
           else if call_fails e 3 then Inl (Internal ''replay check'')
           else if (case node_highest db (signer_of r) of None \<Rightarrow> False | Some h \<Rightarrow> re_sequence r \<le> h)
           then Inl ErrReplayDetected
           else if call_fails e 4 then Inl ErrReplayDetected
           else if call_fails e 5 then Inl ErrReplayDetected
           else if call_fails e 6 \<or> \<not> node_sequences_check (node_sequence now r) then Inl (Internal ''replay record'')
           else if call_fails e 7 then Inl (Internal ''replay record'')
           else Inr (record_node_replay now r db)))"

definition PruneExpiredNonces :: "env \<Rightarrow> node_db \<Rightarrow> gotime \<Rightarrow> node_db \<times> (store_error + int)" where
  "PruneExpiredNonces e db before =
     (case store_guard e True of
        Some x \<Rightarrow> (db, Inl x)
      | None \<Rightarrow>
          if call_fails e 0 then (db, Inl (Internal ''nonce pruning''))
          else
            let stale = (\<lambda>x. nn_retain_until x < UnixNano before);
                db' = db\<lparr>replay_nonces := sql_delete stale (replay_nonces db)\<rparr>
            in if call_fails e 1 then (db', Inl (Internal ''nonce pruning''))
               else (db', Inr (int (sql_count stale (replay_nonces db)))))"

section \<open>The contract\<close>

text \<open>
  \<open>check\<close> is \<^verbatim>\<open>CheckAndRecord\<close>, its first argument the surroundings of the
  call; \<open>other\<close> stands for the operations of the store that may run in between;
  \<open>highest\<close> reads the highest sequence of a signer.
\<close>

datatype ('e, 'o) replay_step = Check 'e replay_record | Other 'o

locale replay_store =
  fixes check :: "'e \<Rightarrow> 's \<Rightarrow> replay_record \<Rightarrow> 's \<times> store_error option"
    and other :: "'o \<Rightarrow> 's \<Rightarrow> 's"
    and highest :: "'s \<Rightarrow> signer \<Rightarrow> int option"
  assumes accept_higher: "check e s r = (s', None) \<Longrightarrow> highest s (signer_of r) = Some h \<Longrightarrow> h < re_sequence r"
    and accept_highest: "check e s r = (s', None) \<Longrightarrow> highest s' = (highest s)(signer_of r \<mapsto> re_sequence r)"
    and reject_same: "check e s r = (s', Some x) \<Longrightarrow> s' = s"
    and other_highest: "highest (other a s) = highest s"

text \<open>The records a history accepts, in order.\<close>

fun replay_run :: "('e \<Rightarrow> 's \<Rightarrow> replay_record \<Rightarrow> 's \<times> store_error option) \<Rightarrow> ('o \<Rightarrow> 's \<Rightarrow> 's) \<Rightarrow>
    's \<Rightarrow> ('e, 'o) replay_step list \<Rightarrow> 's \<times> replay_record list" where
  "replay_run chk oth s [] = (s, [])"
| "replay_run chk oth s (Other a # steps) = replay_run chk oth (oth a s) steps"
| "replay_run chk oth s (Check e r # steps) =
     (case chk e s r of
        (s', None) \<Rightarrow> (fst (replay_run chk oth s' steps), r # snd (replay_run chk oth s' steps))
      | (s', Some _) \<Rightarrow> replay_run chk oth s' steps)"

definition above :: "int option \<Rightarrow> int \<Rightarrow> bool" where
  "above h n = (case h of None \<Rightarrow> True | Some m \<Rightarrow> m < n)"

context replay_store
begin

lemma accepted_above:
  "r \<in> set (snd (replay_run check other s steps)) \<Longrightarrow> above (highest s (signer_of r)) (re_sequence r)"
proof (induction steps arbitrary: s)
  case (Cons step steps)
  show ?case
  proof (cases step)
    case (Other a)
    with Cons.IH [of "other a s"] Cons.prems show ?thesis by (simp add: other_highest)
  next
    case (Check e q)
    obtain s' x where chk: "check e s q = (s', x)" by (cases "check e s q")
    show ?thesis
    proof (cases x)
      case None
      with chk have acc: "check e s q = (s', None)" by simp
      from Cons.prems Check acc consider "r = q" | "r \<in> set (snd (replay_run check other s' steps))" by auto
      then show ?thesis
      proof cases
        case 1
        then show ?thesis using accept_higher [OF acc] by (auto simp: above_def split: option.split)
      next
        case 2
        then have "above (highest s' (signer_of r)) (re_sequence r)" by (rule Cons.IH)
        then show ?thesis
          using accept_higher [OF acc] accept_highest [OF acc]
          by (auto simp: above_def fun_upd_apply split: option.splits if_splits)
      qed
    next
      case (Some y)
      then have "s' = s" using chk reject_same by blast
      with Cons Check chk Some show ?thesis by simp
    qed
  qed
qed simp

lemma accepted_increasing:
  "sorted_wrt (\<lambda>a b. signer_of a = signer_of b \<longrightarrow> re_sequence a < re_sequence b)
     (snd (replay_run check other s steps))"
proof (induction steps arbitrary: s)
  case (Cons step steps)
  show ?case
  proof (cases step)
    case (Check e q)
    obtain s' x where chk: "check e s q = (s', x)" by (cases "check e s q")
    have "signer_of q = signer_of b \<longrightarrow> re_sequence q < re_sequence b"
      if "x = None" "b \<in> set (snd (replay_run check other s' steps))" for b
      using accepted_above [OF that(2)] accept_highest [of e s q s'] that(1) chk by (auto simp: above_def)
    then show ?thesis using Cons.IH [of s'] Check chk by (cases x) auto
  qed (simp add: Cons.IH)
qed simp

lemma never_accepted_twice: "distinct (map (\<lambda>r. (signer_of r, re_sequence r)) (snd (replay_run check other s steps)))"
proof -
  have "sorted_wrt (\<lambda>a b. signer_of a = signer_of b \<longrightarrow> re_sequence a < re_sequence b) rs \<Longrightarrow>
      distinct (map (\<lambda>r. (signer_of r, re_sequence r)) rs)" for rs
    by (induction rs) fastforce+
  then show ?thesis using accepted_increasing by blast
qed

lemma replay_refused:
  assumes "check e s r = (s1, None)" "check e' (fst (replay_run check other s1 steps)) r = (s2, x)"
  shows "x \<noteq> None"
proof
  assume "x = None"
  define all where "all = Check e r # steps @ [Check e' r]"
  have run: "snd (replay_run check other s' (steps @ [Check e' r])) = snd (replay_run check other s' steps) @ [r]"
    if "check e' (fst (replay_run check other s' steps)) r = (s2, None)" for s'
    using that
  proof (induction steps arbitrary: s')
    case (Cons step steps)
    then show ?case by (cases step) (auto split: prod.splits option.splits)
  qed simp
  have "snd (replay_run check other s all) = r # snd (replay_run check other s1 steps) @ [r]"
    unfolding all_def using assms \<open>x = None\<close> run [of s1] by simp
  with never_accepted_twice [of s all] show False by simp
qed

end

section \<open>The three stores meet the contract\<close>

interpretation mem_replay: replay_store memCheckAndRecord "\<lambda>(_ :: unit) s. s" mr_sequences
  by unfold_locales (auto simp: memCheckAndRecord_def Let_def split: if_splits option.splits)

interpretation server_sequences: keyed_table signer_key_of set_sequence
  by unfold_locales (simp add: signer_key_of_def set_sequence_def)

interpretation node_sequences: keyed_table node_sequence_key set_node_sequence
  by unfold_locales (simp add: node_sequence_key_def set_node_sequence_def)

lemma signer_key_sequence [simp]: "signer_key_of (replay_sequence now r) = signer_of r"
  "node_sequence_key (node_sequence now r) = signer_of r"
  "ss_highest_sequence (replay_sequence now r) = re_sequence r"
  "ns_highest_sequence (node_sequence now r) = re_sequence r"
  by (simp_all add: signer_key_of_def replay_sequence_def node_sequence_key_def node_sequence_def signer_of_def)

lemma server_highest_record:
  "server_highest (record_replay now r db) = (server_highest db)(signer_of r \<mapsto> re_sequence r)"
  by (rule ext)
    (auto simp: server_highest_def record_replay_def server_sequences.row_upsert set_sequence_def split: option.splits)

lemma node_highest_record:
  "node_highest (record_node_replay now r db) = (node_highest db)(signer_of r \<mapsto> re_sequence r)"
  by (rule ext)
    (auto simp: node_highest_def record_node_replay_def node_sequences.row_upsert
      set_node_sequence_def split: option.splits)

lemma server_highest_prune [simp]: "server_highest (prune_replay now db) = server_highest db"
  by (rule ext) (simp add: server_highest_def prune_replay_def)

lemma server_check_accept:
  assumes "serverCheckAndRecord e now db r = (db', None)"
  shows "db' = record_replay now r (prune_replay now db) \<and> above (server_highest db (signer_of r)) (re_sequence r)"
  using assms
  by (auto simp: serverCheckAndRecord_def transact_None_iff Let_def above_def split: option.splits if_splits)

lemma server_check_reject: "serverCheckAndRecord e now db r = (db', Some x) \<Longrightarrow> db' = db"
  by (auto simp: serverCheckAndRecord_def dest: transact_SomeD split: option.splits)

lemma node_check_accept:
  assumes "nodeCheckAndRecord e now db r = (db', None)"
  shows "db' = record_node_replay now r db \<and> above (node_highest db (signer_of r)) (re_sequence r)"
  using assms
  by (auto simp: nodeCheckAndRecord_def transact_None_iff above_def split: option.splits if_splits)

lemma node_check_reject: "nodeCheckAndRecord e now db r = (db', Some x) \<Longrightarrow> db' = db"
  by (auto simp: nodeCheckAndRecord_def dest: transact_SomeD split: option.splits)

lemma prune_nonces_highest: "node_highest (fst (PruneExpiredNonces e db before)) = node_highest db"
  by (rule ext) (auto simp: PruneExpiredNonces_def node_highest_def Let_def split: option.splits)

lemma write_lease_sequences:
  "write_lease db ex n = Some db' \<Longrightarrow> server_signer_sequences db' = server_signer_sequences db"
  by (auto simp: write_lease_def Let_def split: if_splits)

lemma lease_call_sequences: "preserves server_signer_sequences db (sql_call (e, c) db)"
proof (cases c)
  case (Acquire q)
  show ?thesis unfolding Acquire sql_call.simps AcquireLease_def
    by (intro preserves_intros) (auto simp: preserves_def dest: write_lease_sequences split: option.splits if_splits)
next
  case (Renew m)
  show ?thesis unfolding Renew sql_call.simps RenewLease_def by (intro preserves_intros) simp
next
  case (Release m)
  show ?thesis unfolding Release sql_call.simps ReleaseLease_def by (intro preserves_intros) simp
next
  case (AdminRelease sc n now)
  show ?thesis unfolding AdminRelease sql_call.simps AdminReleaseLease_def by (intro preserves_intros) simp_all
qed

interpretation server_replay: replay_store "\<lambda>(e, now). serverCheckAndRecord e now"
    "\<lambda>c db. fst (sql_call c db)" server_highest
proof unfold_locales
  fix c :: "env \<times> lease_call" and s :: server_db
  show "server_highest (fst (sql_call c s)) = server_highest s"
    by (cases c) (auto simp: server_highest_def preservesD [OF lease_call_sequences])
qed (auto simp: above_def server_highest_record dest!: server_check_accept server_check_reject)

interpretation node_replay: replay_store "\<lambda>(e, now). nodeCheckAndRecord e now"
    "\<lambda>(e, before) db. fst (PruneExpiredNonces e db before)" node_highest
  by unfold_locales
    (auto simp: above_def node_highest_record prune_nonces_highest dest!: node_check_accept node_check_reject)

section \<open>Properties\<close>

definition demo_record :: "string \<Rightarrow> int \<Rightarrow> replay_record" where
  "demo_record m n = \<lparr>re_owner = ''o'', re_node = ''n'', re_message = m, re_client = ''c'', re_key = ''k'',
     re_nonce = m, re_sequence = n, re_retain = seconds 63000000060\<rparr>"

definition demo_replay_db :: server_db where
  "demo_replay_db = fst (serverCheckAndRecord live_env (seconds 63000000000) demo_db (demo_record ''m1'' 7))"

definition demo_node_replay_db :: node_db where
  "demo_node_replay_db = fst (nodeCheckAndRecord live_env (seconds 63000000000) (empty_node_db (timestamp 1)) (demo_record ''m1'' 7))"

text \<open>No replay on the Server. Once the Server store has accepted a signed record,
  the same record is refused for ever: whatever further records are checked and leases changed in
  between, at whatever times, with whatever database faults, and although messages and nonces are
  pruned after their retention.\<close>

theorem server_replay_refused:
  assumes "serverCheckAndRecord e now db r = (db1, None)"
    and "serverCheckAndRecord e' now'
      (fst (replay_run (\<lambda>(e, now). serverCheckAndRecord e now) (\<lambda>c db. fst (sql_call c db)) db1 steps)) r = (db2, x)"
  shows "x \<noteq> None"
  using server_replay.replay_refused [of "(e, now)" db r db1 "(e', now')" steps db2 x] assms by simp

theorem server_replay_refused_witness:
  "snd (serverCheckAndRecord live_env (seconds 63000000000) demo_db (demo_record ''m1'' 7)) = None \<and>
   snd (serverCheckAndRecord live_env (seconds 63000000900)
     (fst (replay_run (\<lambda>(e, now). serverCheckAndRecord e now) (\<lambda>c db. fst (sql_call c db)) demo_replay_db
       [Check (live_env, seconds 63000000800) (demo_record ''m2'' 8)])) (demo_record ''m1'' 7)) \<noteq> None"
proof -
  let ?run = "fst (replay_run (\<lambda>(e, now). serverCheckAndRecord e now) (\<lambda>c db. fst (sql_call c db)) demo_replay_db
       [Check (live_env, seconds 63000000800) (demo_record ''m2'' 8)])"
  have "snd (serverCheckAndRecord live_env (seconds 63000000000) demo_db (demo_record ''m1'' 7)) = None" by code_simp
  then have first: "serverCheckAndRecord live_env (seconds 63000000000) demo_db (demo_record ''m1'' 7) = (demo_replay_db, None)"
    by (simp add: demo_replay_db_def prod_eq_iff)
  obtain d x where "serverCheckAndRecord live_env (seconds 63000000900) ?run (demo_record ''m1'' 7) = (d, x)"
    by fastforce
  with server_replay_refused [OF first this] first show ?thesis by simp
qed

text \<open>No replay on the Node. The same holds of the Node store, whatever records are
  checked and whichever expired nonces are pruned in between.\<close>

theorem node_replay_refused:
  assumes "nodeCheckAndRecord e now db r = (db1, None)"
    and "nodeCheckAndRecord e' now'
      (fst (replay_run (\<lambda>(e, now). nodeCheckAndRecord e now)
        (\<lambda>(e, before) db. fst (PruneExpiredNonces e db before)) db1 steps)) r = (db2, x)"
  shows "x \<noteq> None"
  using node_replay.replay_refused [of "(e, now)" db r db1 "(e', now')" steps db2 x] assms by simp

theorem node_replay_refused_witness:
  "snd (nodeCheckAndRecord live_env (seconds 63000000000) (empty_node_db (timestamp 1)) (demo_record ''m1'' 7)) = None \<and>
   snd (nodeCheckAndRecord live_env (seconds 63000000900)
     (fst (replay_run (\<lambda>(e, now). nodeCheckAndRecord e now) (\<lambda>(e, before) db. fst (PruneExpiredNonces e db before))
       demo_node_replay_db [Other (live_env, seconds 63000000800)])) (demo_record ''m1'' 7)) \<noteq> None"
proof -
  let ?run = "fst (replay_run (\<lambda>(e, now). nodeCheckAndRecord e now) (\<lambda>(e, before) db. fst (PruneExpiredNonces e db before))
       demo_node_replay_db [Other (live_env, seconds 63000000800)])"
  have "snd (nodeCheckAndRecord live_env (seconds 63000000000) (empty_node_db (timestamp 1)) (demo_record ''m1'' 7)) = None"
    by code_simp
  then have first: "nodeCheckAndRecord live_env (seconds 63000000000) (empty_node_db (timestamp 1)) (demo_record ''m1'' 7) =
      (demo_node_replay_db, None)"
    by (simp add: demo_node_replay_db_def prod_eq_iff)
  obtain d x where "nodeCheckAndRecord live_env (seconds 63000000900) ?run (demo_record ''m1'' 7) = (d, x)"
    by fastforce
  with node_replay_refused [OF first this] first show ?thesis by simp
qed

text \<open>The sequences of each signer that the in-memory store accepts are strictly
  increasing over any history of calls.\<close>

theorem mem_replay_increasing:
  "sorted_wrt (\<lambda>a b. signer_of a = signer_of b \<longrightarrow> re_sequence a < re_sequence b)
     (snd (replay_run memCheckAndRecord (\<lambda>(_ :: unit) s. s) s steps))"
  by (rule mem_replay.accepted_increasing)

theorem mem_replay_increasing_witness:
  "\<exists>a b. snd (replay_run memCheckAndRecord (\<lambda>(_ :: unit) s. s) NewMemoryReplayStore
       [Check live_env (demo_record ''m1'' 7), Check live_env (demo_record ''m2'' 7),
        Check live_env (demo_record ''m3'' 8)]) = [a, b] \<and>
     signer_of a = signer_of b \<and> re_sequence a < re_sequence b"
proof -
  let ?steps = "[Check live_env (demo_record ''m1'' 7), Check live_env (demo_record ''m2'' 7),
        Check live_env (demo_record ''m3'' 8)]"
  have run: "snd (replay_run memCheckAndRecord (\<lambda>(_ :: unit) s. s) NewMemoryReplayStore ?steps) =
      [demo_record ''m1'' 7, demo_record ''m3'' 8]" by code_simp
  have "signer_of (demo_record ''m1'' 7) = signer_of (demo_record ''m3'' 8)" by code_simp
  with mem_replay_increasing [of NewMemoryReplayStore ?steps, unfolded run]
  have "signer_of (demo_record ''m1'' 7) = signer_of (demo_record ''m3'' 8) \<and>
      re_sequence (demo_record ''m1'' 7) < re_sequence (demo_record ''m3'' 8)" by simp
  with run show ?thesis by blast
qed

definition replay_fresh :: "gotime \<Rightarrow> server_db \<Rightarrow> replay_record \<Rightarrow> bool" where
  "replay_fresh now db r =
     ((\<forall>x \<in> set (server_replay_messages db).
         replay_key_of x = (re_owner r, re_node r, re_client r, re_key r, re_message r) \<longrightarrow> rm_retain_until x < UnixNano now) \<and>
      (\<forall>x \<in> set (server_replay_nonces db).
         nonce_key_of x = (re_owner r, re_node r, re_client r, re_key r, re_nonce r) \<longrightarrow> rn_retain_until x < UnixNano now) \<and>
      above (server_highest db (signer_of r)) (re_sequence r))"

lemma replay_keys [simp]:
  "replay_key_of (replay_message now r) = (re_owner r, re_node r, re_client r, re_key r, re_message r)"
  "nonce_key_of (replay_nonce r) = (re_owner r, re_node r, re_client r, re_key r, re_nonce r)"
  by (simp_all add: replay_key_of_def replay_message_def nonce_key_of_def replay_nonce_def)

definition replay_text_ok :: "replay_record \<Rightarrow> bool" where
  "replay_text_ok r = list_all (\<lambda>s. \<not> contains_nul s) [re_owner r, re_node r, re_client r, re_key r, re_message r, re_nonce r]"

text \<open>A fresh record is accepted. When nothing fails, a valid record of a known owner
  is accepted by the Server exactly when its message and nonce have no retained row and its sequence is above
  the highest of the signer.\<close>

theorem server_replay_accepts:
  assumes "validServerReplayRecord r" "replay_text_ok r" "owner_exists db (re_owner r)"
  shows "snd (serverCheckAndRecord live_env now db r) = None \<longleftrightarrow> replay_fresh now db r"
proof -
  let ?db = "prune_replay now db"
  have own: "owner_exists ?db o' = owner_exists db o'" for o'
    by (simp add: owner_exists_def prune_replay_def)
  have len: "length_between 1 128 (re_node r)" "length_between 1 128 (re_client r)" "length_between 1 128 (re_key r)"
    "length_between 1 128 (re_message r)" "length_between 1 128 (re_nonce r)"
    using assms(1,2)
    by (auto simp: validServerReplayRecord_def replay_text_ok_def short_text_def intro!: length_between_bound [unfolded One_nat_def])
  have messages: "replay_messages_insert_ok ?db (replay_message now r) \<longleftrightarrow>
      \<not> sql_exists (\<lambda>x. replay_key_of x = replay_key_of (replay_message now r)) (server_replay_messages ?db)"
    using len assms(3) own by (simp add: replay_messages_insert_ok_def) (simp add: replay_message_def)
  have nonces: "replay_nonces_insert_ok ?db (replay_nonce r) \<longleftrightarrow>
      \<not> sql_exists (\<lambda>x. nonce_key_of x = nonce_key_of (replay_nonce r)) (server_replay_nonces ?db)"
    using len assms(3) own by (simp add: replay_nonces_insert_ok_def) (simp add: replay_nonce_def)
  have upsert: "signer_sequences_upsert_ok ?db (replay_sequence now r)"
    using len assms own
    by (simp add: signer_sequences_upsert_ok_def signer_sequences_check_def replay_sequence_def validServerReplayRecord_def)
  have pruned: "sql_exists (\<lambda>x. replay_key_of x = replay_key_of (replay_message now r)) (server_replay_messages ?db) \<longleftrightarrow>
      \<not> (\<forall>x \<in> set (server_replay_messages db).
         replay_key_of x = replay_key_of (replay_message now r) \<longrightarrow> rm_retain_until x < UnixNano now)"
    "sql_exists (\<lambda>x. nonce_key_of x = nonce_key_of (replay_nonce r)) (server_replay_nonces ?db) \<longleftrightarrow>
      \<not> (\<forall>x \<in> set (server_replay_nonces db).
         nonce_key_of x = nonce_key_of (replay_nonce r) \<longrightarrow> rn_retain_until x < UnixNano now)"
    by (auto simp: prune_replay_def sql_exists_iff set_sql_delete)
  show ?thesis
    unfolding serverCheckAndRecord_def Let_def messages nonces
    using assms(1) upsert pruned
    by (auto simp: replay_fresh_def above_def split: option.splits)
qed

theorem server_replay_accepts_witness:
  "snd (serverCheckAndRecord live_env (seconds 63000000000) demo_db (demo_record ''m1'' 7)) = None \<and>
   replay_fresh (seconds 63000000000) demo_db (demo_record ''m1'' 7)"
proof -
  have h: "validServerReplayRecord (demo_record ''m1'' 7)" "replay_text_ok (demo_record ''m1'' 7)"
    "owner_exists demo_db (re_owner (demo_record ''m1'' 7))"
    "replay_fresh (seconds 63000000000) demo_db (demo_record ''m1'' 7)"
    by code_simp+
  with server_replay_accepts [OF h(1-3)] show ?thesis by blast
qed

end
