(* ===== verification/Trust_Store.thy ===== *)
theory Trust_Store
  imports Replay_Store
begin

text \<open>
  Which control clients a Node obeys: \<^verbatim>\<open>MemoryTrustStore\<close> of
  \<^verbatim>\<open>internal/protocol/v1/stores.go\<close> and the SQLite store of
  \<^verbatim>\<open>internal/node/store/trust_replay.go\<close>, where an Owner-level manifest with a
  revision number replaces the trusted keys of one owner and node.

  The locale \<open>trust_service\<close> is what the protocol verifier needs of a trust store: a
  lookup that answers as an abstract map of keys says, and a revocation that is final
  until the key is set again.
\<close>

section \<open>Data\<close>

abbreviation TrustStatusActive :: string where "TrustStatusActive \<equiv> ''active''"
abbreviation TrustStatusRevoked :: string where "TrustStatusRevoked \<equiv> ''revoked''"

record trusted_key =
  tk_public_key :: bytes
  tk_status :: string

record trusted_client =
  tr_owner :: string
  tr_node :: string
  tr_client :: string
  tr_key :: string
  tr_public_key :: bytes
  tr_status :: string

record trust_manifest =
  mf_owner :: string
  mf_node :: string
  mf_revision :: int
  mf_clients :: "trusted_client list"

definition ref_key :: "key_ref \<Rightarrow> string \<times> string \<times> string \<times> string" where
  "ref_key ref = (kr_owner ref, kr_node ref, kr_client ref, kr_key ref)"

definition client_ref :: "trusted_client \<Rightarrow> key_ref" where
  "client_ref c = \<lparr>kr_owner = tr_owner c, kr_node = tr_node c, kr_client = tr_client c, kr_key = tr_key c\<rparr>"

definition known_status :: "string \<Rightarrow> bool" where
  "known_status s = (s = TrustStatusActive \<or> s = TrustStatusRevoked)"

section \<open>The in-memory store\<close>

type_synonym memory_trust = "key_ref \<Rightarrow> trusted_key option"

definition memValidKeyRef :: "key_ref \<Rightarrow> bool" where
  "memValidKeyRef ref = (kr_owner ref \<noteq> [] \<and> kr_node ref \<noteq> [] \<and> kr_client ref \<noteq> [] \<and> kr_key ref \<noteq> [])"

definition memSet :: "memory_trust \<Rightarrow> key_ref \<Rightarrow> trusted_key \<Rightarrow> memory_trust \<times> store_error option" where
  "memSet s ref key =
     (if \<not> memValidKeyRef ref \<or> length (tk_public_key key) \<noteq> 32 \<or> \<not> known_status (tk_status key)
      then (s, Some (Plain ''invalid control trust key''))
      else (s(ref \<mapsto> key), None))"

definition memRevoke :: "memory_trust \<Rightarrow> key_ref \<Rightarrow> memory_trust \<times> store_error option" where
  "memRevoke s ref =
     (case s ref of
        None \<Rightarrow> (s, Some ErrTrustKeyNotFound)
      | Some key \<Rightarrow> (s(ref \<mapsto> key\<lparr>tk_status := TrustStatusRevoked\<rparr>), None))"

definition memLookupControlKey :: "env \<Rightarrow> memory_trust \<Rightarrow> key_ref \<Rightarrow> store_error + trusted_key" where
  "memLookupControlKey e s ref =
     (if ctx_err e \<noteq> None then Inl (Plain ''trust lookup canceled'')
      else case s ref of None \<Rightarrow> Inl ErrTrustKeyNotFound | Some key \<Rightarrow> Inr key)"

section \<open>The Node store\<close>

text \<open>The columns the upsert overwrites; \<^verbatim>\<open>created_at\<close> of an existing row stays.\<close>

definition set_trusted :: "bytes \<times> string \<times> rfc3339 option \<Rightarrow> trusted_client_row \<Rightarrow> trusted_client_row" where
  "set_trusted a r = r\<lparr>tc_public_key := fst a, tc_status := fst (snd a), tc_revoked_at := snd (snd a)\<rparr>"

definition revoked_time :: "string \<Rightarrow> rfc3339 \<Rightarrow> rfc3339 option" where
  "revoked_time status now = (if status = TrustStatusRevoked then Some now else None)"

definition trusted_row :: "key_ref \<Rightarrow> trusted_key \<Rightarrow> rfc3339 \<Rightarrow> trusted_client_row" where
  "trusted_row ref key now =
     \<lparr>tc_owner_id = kr_owner ref, tc_node_id = kr_node ref, tc_client_id = kr_client ref, tc_key_id = kr_key ref,
      tc_public_key = tk_public_key key, tc_status = tk_status key, tc_created_at = now,
      tc_revoked_at = revoked_time (tk_status key) now\<rparr>"

definition upsert_trusted :: "key_ref \<Rightarrow> trusted_key \<Rightarrow> rfc3339 \<Rightarrow> trusted_client_row table \<Rightarrow> trusted_client_row table" where
  "upsert_trusted ref key now t =
     sql_upsert trusted_key_of (trusted_row ref key now)
       (set_trusted (tk_public_key key, tk_status key, revoked_time (tk_status key) now)) t"

definition client_key :: "trusted_client \<Rightarrow> trusted_key" where
  "client_key c = \<lparr>tk_public_key = tr_public_key c, tk_status = tr_status c\<rparr>"

definition valid_manifest_client :: "trust_manifest \<Rightarrow> trusted_client \<Rightarrow> bool" where
  "valid_manifest_client m c =
     (\<not> (tr_owner c \<noteq> mf_owner m \<or> tr_node c \<noteq> mf_node m \<or> \<not> validKeyRef (client_ref c) \<or>
         length (tr_public_key c) \<noteq> 32 \<or> \<not> known_status (tr_status c)))"

definition valid_manifest :: "trust_manifest \<Rightarrow> bool" where
  "valid_manifest m =
     (\<not> (mf_owner m = [] \<or> mf_node m = [] \<or> 128 < length (mf_owner m) \<or> 128 < length (mf_node m) \<or> mf_revision m < 0) \<and>
      list_all (valid_manifest_client m) (mf_clients m))"

text \<open>The loop over the clients; \<open>n\<close> numbers its database calls.\<close>

fun apply_clients ::
  "env \<Rightarrow> nat \<Rightarrow> rfc3339 \<Rightarrow> trusted_client list \<Rightarrow> trusted_client_row table \<Rightarrow> store_error + trusted_client_row table" where
  "apply_clients e n now [] t = Inr t"
| "apply_clients e n now (c # cs) t =
     (if call_fails e n \<or> \<not> trusted_clients_check (trusted_row (client_ref c) (client_key c) now)
      then Inl (Internal ''trust manifest'')
      else apply_clients e (Suc n) now cs (upsert_trusted (client_ref c) (client_key c) now t))"

definition manifest_revision :: "node_db \<Rightarrow> string \<Rightarrow> string \<Rightarrow> int option" where
  "manifest_revision db ow nd = map_option tm_revision (sql_row (\<lambda>r. manifest_key r = (ow, nd)) (trust_manifests db))"

definition revoke_active :: "string \<Rightarrow> string \<Rightarrow> rfc3339 \<Rightarrow> trusted_client_row table \<Rightarrow> trusted_client_row table" where
  "revoke_active ow nd now t =
     sql_update (\<lambda>r. tc_owner_id r = ow \<and> tc_node_id r = nd \<and> tc_status r = TrustStatusActive)
       (\<lambda>r. r\<lparr>tc_status := TrustStatusRevoked, tc_revoked_at := Some now\<rparr>) t"

definition manifest_row :: "trust_manifest \<Rightarrow> rfc3339 \<Rightarrow> trust_manifest_row" where
  "manifest_row m now = \<lparr>tm_owner_id = mf_owner m, tm_node_id = mf_node m, tm_revision = mf_revision m, tm_updated_at = now\<rparr>"

definition set_manifest :: "int \<times> rfc3339 \<Rightarrow> trust_manifest_row \<Rightarrow> trust_manifest_row" where
  "set_manifest a r = r\<lparr>tm_revision := fst a, tm_updated_at := snd a\<rparr>"

text \<open>The body of \<^verbatim>\<open>ReconcileTrustManifest\<close> once the revision is known to be newer.\<close>

definition apply_manifest :: "env \<Rightarrow> gotime \<Rightarrow> node_db \<Rightarrow> trust_manifest \<Rightarrow> store_error + node_db" where
  "apply_manifest e clock db m =
     (let now = timestamp clock
      in if call_fails e 2 then Inl (Internal ''trust manifest'')
         else case apply_clients e 3 now (mf_clients m)
                (revoke_active (mf_owner m) (mf_node m) now (trusted_clients db)) of
           Inl x \<Rightarrow> Inl x
         | Inr t \<Rightarrow>
             if call_fails e (3 + length (mf_clients m)) \<or> \<not> manifests_check (manifest_row m now)
             then Inl (Internal ''trust manifest'')
             else if call_fails e (4 + length (mf_clients m)) then Inl DriverError
             else Inr (db\<lparr>trusted_clients := t,
                          trust_manifests := sql_upsert manifest_key (manifest_row m now)
                            (set_manifest (mf_revision m, now)) (trust_manifests db)\<rparr>))"

definition ReconcileTrustManifest ::
  "env \<Rightarrow> gotime \<Rightarrow> node_db \<Rightarrow> trust_manifest \<Rightarrow> node_db \<times> store_error option" where
  "ReconcileTrustManifest e clock db m =
     (case store_guard e (valid_manifest m) of
        Some x \<Rightarrow> (db, Some x)
      | None \<Rightarrow> transact db
          (if call_fails e 0 then Inl (Internal ''trust manifest'')
           else if call_fails e 1 then Inl (Internal ''trust manifest'')
           else case manifest_revision db (mf_owner m) (mf_node m) of
             None \<Rightarrow> apply_manifest e clock db m
           | Some current \<Rightarrow>
               if mf_revision m < current then Inl ErrConflict
               else if mf_revision m = current then (if call_fails e 2 then Inl DriverError else Inr db)
               else apply_manifest e clock db m))"

definition row_client :: "trusted_client_row \<Rightarrow> trusted_client" where
  "row_client r = \<lparr>tr_owner = tc_owner_id r, tr_node = tc_node_id r, tr_client = tc_client_id r, tr_key = tc_key_id r,
     tr_public_key = tc_public_key r, tr_status = tc_status r\<rparr>"

definition by_client :: "trusted_client_row \<Rightarrow> trusted_client_row \<Rightarrow> bool" where
  "by_client a b = (tc_client_id a < tc_client_id b \<or> tc_client_id a = tc_client_id b \<and> tc_key_id a < tc_key_id b)"

text \<open>Call 1 is \<^verbatim>\<open>rows.Scan\<close> or \<^verbatim>\<open>rows.Err\<close> failing during the iteration.\<close>

definition TrustedClients :: "env \<Rightarrow> node_db \<Rightarrow> string \<Rightarrow> string \<Rightarrow> store_error + trusted_client list" where
  "TrustedClients e db ow nd =
     (case store_guard e (\<not> (ow = [] \<or> nd = [] \<or> 128 < length ow \<or> 128 < length nd)) of
        Some x \<Rightarrow> Inl x
      | None \<Rightarrow>
          if call_fails e 0 then Inl (Internal ''trusted clients read'')
          else if call_fails e 1 then Inl (Internal ''trusted clients read'')
          else Inr (map row_client (order_by by_client
                 (filter (\<lambda>r. tc_owner_id r = ow \<and> tc_node_id r = nd) (trusted_clients db)))))"

definition PutTrustedKey ::
  "env \<Rightarrow> gotime \<Rightarrow> node_db \<Rightarrow> key_ref \<Rightarrow> trusted_key \<Rightarrow> node_db \<times> store_error option" where
  "PutTrustedKey e clock db ref key =
     (case store_guard e (\<not> (\<not> validKeyRef ref \<or> length (tk_public_key key) \<noteq> 32 \<or> \<not> known_status (tk_status key))) of
        Some x \<Rightarrow> (db, Some x)
      | None \<Rightarrow>
          if call_fails e 0 \<or> \<not> trusted_clients_check (trusted_row ref key (timestamp clock))
          then (db, Some (Internal ''trusted key write''))
          else (db\<lparr>trusted_clients := upsert_trusted ref key (timestamp clock) (trusted_clients db)\<rparr>, None))"

definition RevokeTrustedKey :: "env \<Rightarrow> gotime \<Rightarrow> node_db \<Rightarrow> key_ref \<Rightarrow> node_db \<times> store_error option" where
  "RevokeTrustedKey e clock db ref =
     (case store_guard e (validKeyRef ref) of
        Some x \<Rightarrow> (db, Some x)
      | None \<Rightarrow>
          if call_fails e 0 then (db, Some (Internal ''trusted key revoke''))
          else if \<not> sql_exists (\<lambda>r. trusted_key_of r = ref_key ref) (trusted_clients db)
          then (db, Some ErrTrustKeyNotFound)
          else (db\<lparr>trusted_clients := sql_update (\<lambda>r. trusted_key_of r = ref_key ref)
                  (\<lambda>r. r\<lparr>tc_status := TrustStatusRevoked, tc_revoked_at := Some (timestamp clock)\<rparr>)
                  (trusted_clients db)\<rparr>, None))"

definition LookupControlKey :: "env \<Rightarrow> node_db \<Rightarrow> key_ref \<Rightarrow> store_error + trusted_key" where
  "LookupControlKey e db ref =
     (case store_guard e (validKeyRef ref) of
        Some x \<Rightarrow> Inl x
      | None \<Rightarrow>
          if call_fails e 0 then Inl (Internal ''trusted key read'')
          else case sql_row (\<lambda>r. trusted_key_of r = ref_key ref) (trusted_clients db) of
            None \<Rightarrow> Inl ErrTrustKeyNotFound
          | Some r \<Rightarrow>
              if length (tc_public_key r) \<noteq> 32 then Inl (Internal ''trusted key read'')
              else Inr \<lparr>tk_public_key = tc_public_key r, tk_status = tc_status r\<rparr>)"

section \<open>What a trust store promises\<close>

text \<open>
  \<open>keys\<close> is the abstract map from references to keys; \<open>put\<close>, \<open>revoke\<close> and \<open>lookup\<close> are
  the store's operations in surroundings \<open>'e\<close>.
\<close>

locale trust_service =
  fixes put :: "'e \<Rightarrow> 's \<Rightarrow> key_ref \<Rightarrow> trusted_key \<Rightarrow> 's \<times> store_error option"
    and revoke :: "'e \<Rightarrow> 's \<Rightarrow> key_ref \<Rightarrow> 's \<times> store_error option"
    and lookup :: "'e \<Rightarrow> 's \<Rightarrow> key_ref \<Rightarrow> store_error + trusted_key"
    and keys :: "'s \<Rightarrow> key_ref \<Rightarrow> trusted_key option"
  assumes put_ok: "put e s ref key = (s', None) \<Longrightarrow> keys s' = (keys s)(ref \<mapsto> key)"
    and put_err: "put e s ref key = (s', Some x) \<Longrightarrow> s' = s"
    and revoke_ok: "revoke e s ref = (s', None) \<Longrightarrow>
      \<exists>key. keys s ref = Some key \<and> keys s' = (keys s)(ref \<mapsto> key\<lparr>tk_status := TrustStatusRevoked\<rparr>)"
    and revoke_err: "revoke e s ref = (s', Some x) \<Longrightarrow> s' = s"
    and lookup_ok: "lookup e s ref = Inr key \<Longrightarrow> keys s ref = Some key"

datatype 'e trust_call = Put 'e key_ref trusted_key | Revoke 'e key_ref

fun trust_run :: "('e \<Rightarrow> 's \<Rightarrow> key_ref \<Rightarrow> trusted_key \<Rightarrow> 's \<times> store_error option) \<Rightarrow>
    ('e \<Rightarrow> 's \<Rightarrow> key_ref \<Rightarrow> 's \<times> store_error option) \<Rightarrow> 's \<Rightarrow> 'e trust_call list \<Rightarrow> 's" where
  "trust_run put rvk s [] = s"
| "trust_run put rvk s (Put e ref key # cs) = trust_run put rvk (fst (put e s ref key)) cs"
| "trust_run put rvk s (Revoke e ref # cs) = trust_run put rvk (fst (rvk e s ref)) cs"

fun puts_to :: "key_ref \<Rightarrow> 'e trust_call \<Rightarrow> bool" where
  "puts_to ref (Put e ref' key) = (ref' = ref)"
| "puts_to ref (Revoke e ref') = False"

definition revoked_or_absent :: "trusted_key option \<Rightarrow> bool" where
  "revoked_or_absent k = (case k of None \<Rightarrow> True | Some key \<Rightarrow> tk_status key = TrustStatusRevoked)"

context trust_service
begin

lemma call_keeps_revoked:
  assumes "revoked_or_absent (keys s ref)"
  shows "revoked_or_absent (keys (fst (revoke e s ref')) ref)"
    and "ref' \<noteq> ref \<Longrightarrow> revoked_or_absent (keys (fst (put e s ref' key)) ref)"
proof -
  show "revoked_or_absent (keys (fst (revoke e s ref')) ref)"
  proof (cases "revoke e s ref'")
    case (Pair s' x)
    show ?thesis
    proof (cases x)
      case None
      then obtain key where "keys s ref' = Some key"
        "keys s' = (keys s)(ref' \<mapsto> key\<lparr>tk_status := TrustStatusRevoked\<rparr>)"
        using Pair revoke_ok by blast
      then show ?thesis using Pair assms by (auto simp: revoked_or_absent_def)
    qed (use Pair assms revoke_err [of e s ref' s'] in auto)
  qed
  show "revoked_or_absent (keys (fst (put e s ref' key)) ref)" if "ref' \<noteq> ref"
  proof (cases "put e s ref' key")
    case (Pair s' x)
    then show ?thesis using that assms put_ok [of e s ref' key s'] put_err [of e s ref' key s'] by (cases x) auto
  qed
qed

lemma run_keeps_revoked:
  assumes "revoked_or_absent (keys s ref)" "\<not> list_ex (puts_to ref) cs"
  shows "revoked_or_absent (keys (trust_run put revoke s cs) ref)"
  using assms
proof (induction cs arbitrary: s)
  case (Cons c cs)
  then show ?case by (cases c) (auto intro: call_keeps_revoked)
qed simp

lemma revoked_stays_revoked:
  assumes "revoke e s ref = (s1, None)" "\<not> list_ex (puts_to ref) cs"
    and "lookup e' (trust_run put revoke s1 cs) ref = Inr key"
  shows "tk_status key = TrustStatusRevoked"
proof -
  have "revoked_or_absent (keys s1 ref)" using revoke_ok [OF assms(1)] by (auto simp: revoked_or_absent_def)
  from run_keeps_revoked [OF this assms(2)] lookup_ok [OF assms(3)] show ?thesis by (simp add: revoked_or_absent_def)
qed

end

interpretation mem_trust: trust_service "\<lambda>(_ :: env). memSet" "\<lambda>_. memRevoke" memLookupControlKey "\<lambda>s. s"
  by unfold_locales
    (auto simp: memSet_def memRevoke_def memLookupControlKey_def split: if_splits option.splits)

section \<open>The Node store as a map of keys\<close>

definition row_key :: "trusted_client_row \<Rightarrow> trusted_key" where
  "row_key r = \<lparr>tk_public_key = tc_public_key r, tk_status = tc_status r\<rparr>"

definition table_keys :: "trusted_client_row table \<Rightarrow> key_ref \<Rightarrow> trusted_key option" where
  "table_keys t ref = map_option row_key (sql_row (\<lambda>r. trusted_key_of r = ref_key ref) t)"

definition node_keys :: "node_db \<Rightarrow> key_ref \<Rightarrow> trusted_key option" where
  "node_keys db = table_keys (trusted_clients db)"

interpretation trusted_table: keyed_table trusted_key_of set_trusted
  by unfold_locales (simp add: trusted_key_of_def set_trusted_def)

interpretation revoked_table: keyed_table trusted_key_of
    "\<lambda>now r. r\<lparr>tc_status := TrustStatusRevoked, tc_revoked_at := Some now\<rparr>"
  by unfold_locales (simp add: trusted_key_of_def)

interpretation manifest_table: keyed_table manifest_key set_manifest
  by unfold_locales (simp add: manifest_key_def set_manifest_def)

lemma ref_key_inject [simp]: "ref_key a = ref_key b \<longleftrightarrow> a = b"
  by (auto simp: ref_key_def)

lemma trusted_row_simps [simp]:
  "trusted_key_of (trusted_row ref key now) = ref_key ref" "row_key (trusted_row ref key now) = key"
  by (simp_all add: trusted_key_of_def trusted_row_def ref_key_def row_key_def)

lemma row_key_set [simp]:
  "row_key (set_trusted (p, st, z) r) = \<lparr>tk_public_key = p, tk_status = st\<rparr>"
  "row_key (r\<lparr>tc_status := st, tc_revoked_at := z\<rparr>) = (row_key r)\<lparr>tk_status := st\<rparr>"
  by (simp_all add: row_key_def set_trusted_def)

lemma table_keys_upsert: "table_keys (upsert_trusted ref key now t) = (table_keys t)(ref \<mapsto> key)"
  by (rule ext) (auto simp: table_keys_def upsert_trusted_def trusted_table.row_upsert split: option.splits)

interpretation node_trust: trust_service "\<lambda>(e, clock). PutTrustedKey e clock" "\<lambda>(e, clock). RevokeTrustedKey e clock"
    "\<lambda>(e, clock). LookupControlKey e" node_keys
proof unfold_locales
  fix e :: "env \<times> gotime" and s s' ref
  assume "(case e of (e, clock) \<Rightarrow> RevokeTrustedKey e clock) s ref = (s', None)"
  then show "\<exists>key. node_keys s ref = Some key \<and> node_keys s' = (node_keys s)(ref \<mapsto> key\<lparr>tk_status := TrustStatusRevoked\<rparr>)"
    by (cases e) (auto simp: RevokeTrustedKey_def node_keys_def table_keys_def fun_eq_iff revoked_table.row_update
        split: option.splits if_splits dest!: sql_row_ex)
qed (auto simp: PutTrustedKey_def RevokeTrustedKey_def LookupControlKey_def node_keys_def table_keys_upsert
    split: option.splits if_splits, auto simp: table_keys_def row_key_def)

section \<open>Manifests\<close>

lemma table_keys_revoke:
  "table_keys (revoke_active ow nd now t) ref =
     map_option (\<lambda>k. if kr_owner ref = ow \<and> kr_node ref = nd \<and> tk_status k = TrustStatusActive
       then k\<lparr>tk_status := TrustStatusRevoked\<rparr> else k) (table_keys t ref)"
proof -
  have hit: "trusted_key_of r = ref_key ref \<Longrightarrow> tc_owner_id r = kr_owner ref \<and> tc_node_id r = kr_node ref" for r
    by (simp add: trusted_key_of_def ref_key_def)
  show ?thesis
    unfolding revoke_active_def table_keys_def revoked_table.row_update_where
    by (cases "sql_row (\<lambda>r. trusted_key_of r = ref_key ref) t")
      (auto simp: row_key_def dest!: sql_row_SomeD hit)
qed

definition manifest_keys :: "trusted_client list \<Rightarrow> key_ref \<Rightarrow> trusted_key option" where
  "manifest_keys cs = map_of (rev (map (\<lambda>c. (client_ref c, client_key c)) cs))"

lemma apply_clients_keys:
  "apply_clients e n now cs t = Inr t' \<Longrightarrow> table_keys t' = table_keys t ++ manifest_keys cs"
proof (induction e n now cs t rule: apply_clients.induct)
  case (2 e n now c cs t)
  then have "table_keys t' = table_keys (upsert_trusted (client_ref c) (client_key c) now t) ++ manifest_keys cs"
    by (auto split: if_splits)
  then have "table_keys t' = (table_keys t)(client_ref c \<mapsto> client_key c) ++ manifest_keys cs"
    unfolding table_keys_upsert .
  then show ?case by (auto simp: manifest_keys_def map_add_def fun_eq_iff split: option.splits)
qed (simp add: manifest_keys_def)

lemma apply_manifest_keys:
  assumes "apply_manifest e clock db m = Inr db'"
  shows "node_keys db' = (\<lambda>ref. map_option (\<lambda>k. if kr_owner ref = mf_owner m \<and> kr_node ref = mf_node m \<and>
      tk_status k = TrustStatusActive then k\<lparr>tk_status := TrustStatusRevoked\<rparr> else k) (node_keys db ref))
    ++ manifest_keys (mf_clients m)"
    and "manifest_revision db' ow nd =
      (if ow = mf_owner m \<and> nd = mf_node m then Some (mf_revision m) else manifest_revision db ow nd)"
proof -
  from assms obtain t where t: "apply_clients e 3 (timestamp clock) (mf_clients m)
      (revoke_active (mf_owner m) (mf_node m) (timestamp clock) (trusted_clients db)) = Inr t"
    and db': "db' = db\<lparr>trusted_clients := t, trust_manifests := sql_upsert manifest_key (manifest_row m (timestamp clock))
        (set_manifest (mf_revision m, timestamp clock)) (trust_manifests db)\<rparr>"
    by (auto simp: apply_manifest_def Let_def split: if_splits sum.splits)
  have mrow: "manifest_key (manifest_row m now) = (mf_owner m, mf_node m)" "tm_revision (manifest_row m now) = mf_revision m"
    for now by (simp_all add: manifest_row_def manifest_key_def)
  have "node_keys db' = table_keys t" unfolding db' node_keys_def by simp
  also have "\<dots> = table_keys (revoke_active (mf_owner m) (mf_node m) (timestamp clock) (trusted_clients db))
      ++ manifest_keys (mf_clients m)"
    by (rule apply_clients_keys [OF t])
  finally show "node_keys db' = (\<lambda>ref. map_option (\<lambda>k. if kr_owner ref = mf_owner m \<and> kr_node ref = mf_node m \<and>
      tk_status k = TrustStatusActive then k\<lparr>tk_status := TrustStatusRevoked\<rparr> else k) (node_keys db ref))
    ++ manifest_keys (mf_clients m)"
    by (simp add: node_keys_def table_keys_revoke [abs_def])
  show "manifest_revision db' ow nd =
      (if ow = mf_owner m \<and> nd = mf_node m then Some (mf_revision m) else manifest_revision db ow nd)"
    unfolding db' manifest_revision_def
    by (auto simp: manifest_table.row_upsert mrow set_manifest_def split: option.splits)
qed

lemma manifest_keys_scope:
  assumes "valid_manifest m" "manifest_keys (mf_clients m) ref = Some k"
  shows "kr_owner ref = mf_owner m \<and> kr_node ref = mf_node m"
proof -
  from assms(2) obtain c where "c \<in> set (mf_clients m)" "ref = client_ref c"
    unfolding manifest_keys_def by (auto dest!: map_of_SomeD)
  then show ?thesis using assms(1)
    by (auto simp: valid_manifest_def valid_manifest_client_def list_all_iff client_ref_def)
qed

lemma reconcile_cases:
  assumes "ReconcileTrustManifest e clock db m = (db', x)"
  obtains (unchanged) "db' = db"
  | (applied) "valid_manifest m" "x = None" "apply_manifest e clock db m = Inr db'"
      "\<And>n. manifest_revision db (mf_owner m) (mf_node m) = Some n \<Longrightarrow> n < mf_revision m"
proof (cases "store_guard e (valid_manifest m)")
  case None
  then have v: "valid_manifest m" by (rule store_guard_NoneD)
  show ?thesis
  proof (cases x)
    case (Some y)
    with assms None have "db' = db" by (auto simp: ReconcileTrustManifest_def dest: transact_SomeD)
    then show ?thesis by (rule unchanged)
  next
    case N: None
    show ?thesis
    proof (cases "db' = db")
      case False
      with assms None N have "apply_manifest e clock db m = Inr db'"
        "\<And>n. manifest_revision db (mf_owner m) (mf_node m) = Some n \<Longrightarrow> n < mf_revision m"
        by (auto simp: ReconcileTrustManifest_def transact_None_iff split: option.splits if_splits)
      with v N show ?thesis by (rule applied)
    qed (rule unchanged)
  qed
next
  case (Some y)
  with assms show ?thesis by (intro unchanged) (simp add: ReconcileTrustManifest_def)
qed

fun reconcile_run :: "node_db \<Rightarrow> (env \<times> gotime \<times> trust_manifest) list \<Rightarrow> node_db" where
  "reconcile_run db [] = db"
| "reconcile_run db ((e, clock, m) # ms) = reconcile_run (fst (ReconcileTrustManifest e clock db m)) ms"

definition revision_of :: "node_db \<Rightarrow> key_ref \<Rightarrow> int option" where
  "revision_of db ref = manifest_revision db (kr_owner ref) (kr_node ref)"

definition revision_le :: "int option \<Rightarrow> int option \<Rightarrow> bool" where
  "revision_le a b = (case a of None \<Rightarrow> True | Some n \<Rightarrow> (case b of None \<Rightarrow> False | Some k \<Rightarrow> n \<le> k))"

lemma revision_le_simps [simp]: "revision_le a a" "revision_le None b"
  by (simp_all add: revision_le_def split: option.split)

lemma revision_le_trans: "revision_le a b \<Longrightarrow> revision_le b c \<Longrightarrow> revision_le a c"
  by (auto simp: revision_le_def split: option.splits)

lemma revision_le_antisym: "revision_le a b \<Longrightarrow> revision_le b a \<Longrightarrow> a = b"
  by (auto simp: revision_le_def split: option.splits)

lemma reconcile_step:
  assumes "ReconcileTrustManifest e clock db m = (db', x)"
  shows "revision_le (revision_of db ref) (revision_of db' ref) \<and>
    (revision_of db' ref = revision_of db ref \<longrightarrow> node_keys db' ref = node_keys db ref)"
  using assms
proof (cases rule: reconcile_cases)
  case applied
  note upd = apply_manifest_keys [OF applied(3)]
  show ?thesis
  proof (cases "kr_owner ref = mf_owner m \<and> kr_node ref = mf_node m")
    case True
    then have r: "revision_of db' ref = Some (mf_revision m)" by (simp add: revision_of_def upd(2))
    have "revision_of db ref = Some n \<Longrightarrow> n < mf_revision m" for n
      using applied(4) True by (simp add: revision_of_def)
    with r show ?thesis by (auto simp: revision_le_def split: option.splits)
  next
    case False
    then have "manifest_keys (mf_clients m) ref = None"
      using manifest_keys_scope [OF applied(1)] by (metis not_None_eq)
    with False have "node_keys db' ref = node_keys db ref"
      by (cases "node_keys db ref") (auto simp: upd(1) map_add_def)
    with False show ?thesis by (auto simp: revision_of_def upd(2))
  qed
qed simp

lemma reconcile_run_fenced:
  "revision_le (revision_of db ref) (revision_of (reconcile_run db ms) ref) \<and>
   (revision_of (reconcile_run db ms) ref = revision_of db ref \<longrightarrow>
    node_keys (reconcile_run db ms) ref = node_keys db ref)"
proof (induction ms arbitrary: db)
  case (Cons c ms)
  obtain e clock m where c: "c = (e, clock, m)" by (cases c)
  obtain db1 x where r: "ReconcileTrustManifest e clock db m = (db1, x)" by fastforce
  have a: "revision_le (revision_of db ref) (revision_of db1 ref)"
    "revision_of db1 ref = revision_of db ref \<Longrightarrow> node_keys db1 ref = node_keys db ref"
    using reconcile_step [OF r] by auto
  have b: "revision_le (revision_of db1 ref) (revision_of (reconcile_run db1 ms) ref)"
    "revision_of (reconcile_run db1 ms) ref = revision_of db1 ref \<Longrightarrow>
      node_keys (reconcile_run db1 ms) ref = node_keys db1 ref"
    using Cons.IH [of db1] by auto
  have "revision_of (reconcile_run db1 ms) ref = revision_of db ref \<Longrightarrow> revision_of db1 ref = revision_of db ref"
    using a(1) b(1) revision_le_antisym by metis
  with a b c r revision_le_trans [OF a(1) b(1)] show ?case by auto
qed simp

section \<open>Properties\<close>

definition demo_client :: "string \<Rightarrow> string \<Rightarrow> trusted_client" where
  "demo_client c st = \<lparr>tr_owner = ''o'', tr_node = ''n'', tr_client = c, tr_key = ''k'',
     tr_public_key = replicate 32 CHR ''p'', tr_status = st\<rparr>"

definition demo_manifest :: "int \<Rightarrow> trusted_client list \<Rightarrow> trust_manifest" where
  "demo_manifest n cs = \<lparr>mf_owner = ''o'', mf_node = ''n'', mf_revision = n, mf_clients = cs\<rparr>"

definition demo_ref :: "string \<Rightarrow> key_ref" where
  "demo_ref c = client_ref (demo_client c TrustStatusActive)"

definition demo_trust_db :: node_db where
  "demo_trust_db = fst (ReconcileTrustManifest live_env (seconds 63000000000) (empty_node_db (timestamp 1))
     (demo_manifest 3 [demo_client ''a'' TrustStatusActive, demo_client ''b'' TrustStatusActive]))"

definition demo_trust_db2 :: node_db where
  "demo_trust_db2 = fst (ReconcileTrustManifest live_env (seconds 63000000010) demo_trust_db
     (demo_manifest 4 [demo_client ''b'' TrustStatusActive]))"

text \<open>Property C17: older revisions can never restore revoked keys. Over any sequence of trust
  manifests, with any faults, the revision stored for an owner and node never decreases, and as long
  as it is the same the key of every client is the same: a key that is revoked at a revision can
  become active again only under a greater one.\<close>

theorem manifest_never_restores:
  assumes "node_keys db ref = Some k" "tk_status k \<noteq> TrustStatusActive"
    and "node_keys (reconcile_run db ms) ref = Some k'" "tk_status k' = TrustStatusActive"
  shows "revision_le (revision_of db ref) (revision_of (reconcile_run db ms) ref) \<and>
    revision_of (reconcile_run db ms) ref \<noteq> revision_of db ref"
  using reconcile_run_fenced [of db ref ms] assms by auto

theorem manifest_never_restores_witness:
  "revision_of demo_trust_db2 (demo_ref ''a'') = Some 4 \<and>
   revision_of (reconcile_run demo_trust_db2
     [(live_env, seconds 63000000020, demo_manifest 3 [demo_client ''a'' TrustStatusActive]),
      (live_env, seconds 63000000030, demo_manifest 5 [demo_client ''a'' TrustStatusActive])]) (demo_ref ''a'') \<noteq> Some 4"
proof -
  let ?ms = "[(live_env, seconds 63000000020, demo_manifest 3 [demo_client ''a'' TrustStatusActive]),
      (live_env, seconds 63000000030, demo_manifest 5 [demo_client ''a'' TrustStatusActive])]"
  have "node_keys demo_trust_db2 (demo_ref ''a'') = Some (client_key (demo_client ''a'' TrustStatusRevoked))"
    "node_keys (reconcile_run demo_trust_db2 ?ms) (demo_ref ''a'') = Some (client_key (demo_client ''a'' TrustStatusActive))"
    "tk_status (client_key (demo_client ''a'' TrustStatusRevoked)) \<noteq> TrustStatusActive"
    "tk_status (client_key (demo_client ''a'' TrustStatusActive)) = TrustStatusActive"
    by code_simp+
  from manifest_never_restores [OF this(1,3,2,4)]
  have "revision_of (reconcile_run demo_trust_db2 ?ms) (demo_ref ''a'') \<noteq> revision_of demo_trust_db2 (demo_ref ''a'')"
    by blast
  moreover have "revision_of demo_trust_db2 (demo_ref ''a'') = Some 4" by code_simp
  ultimately show ?thesis by simp
qed

text \<open>Property C35: a manifest is applied exactly. After a newer manifest is applied, a control key of
  its owner and node is active exactly when the manifest's last entry for it says so, with the
  public key of that entry; keys of other owners and nodes are as before.\<close>

theorem manifest_applied_exactly:
  assumes "ReconcileTrustManifest e clock db m = (db', None)"
    and "\<And>n. manifest_revision db (mf_owner m) (mf_node m) = Some n \<Longrightarrow> n < mf_revision m"
  shows "(kr_owner ref = mf_owner m \<and> kr_node ref = mf_node m \<longrightarrow>
      (node_keys db' ref = Some k \<and> tk_status k = TrustStatusActive \<longleftrightarrow>
       manifest_keys (mf_clients m) ref = Some k \<and> tk_status k = TrustStatusActive)) \<and>
    (\<not> (kr_owner ref = mf_owner m \<and> kr_node ref = mf_node m) \<longrightarrow> node_keys db' ref = node_keys db ref)"
proof -
  have g: "store_guard e (valid_manifest m) = None"
    using assms(1) by (auto simp: ReconcileTrustManifest_def split: option.splits)
  then have "apply_manifest e clock db m = Inr db'" and v: "valid_manifest m"
    using assms store_guard_NoneD [OF g]
    by (auto simp: ReconcileTrustManifest_def transact_None_iff split: option.splits if_splits)
  then have keys: "node_keys db' ref = (case manifest_keys (mf_clients m) ref of Some k \<Rightarrow> Some k
      | None \<Rightarrow> map_option (\<lambda>k. if kr_owner ref = mf_owner m \<and> kr_node ref = mf_node m \<and>
          tk_status k = TrustStatusActive then k\<lparr>tk_status := TrustStatusRevoked\<rparr> else k) (node_keys db ref))"
    by (simp add: apply_manifest_keys(1) map_add_def)
  show ?thesis
  proof (cases "kr_owner ref = mf_owner m \<and> kr_node ref = mf_node m")
    case True
    then show ?thesis unfolding keys by (auto split: option.splits if_splits)
  next
    case False
    then have "manifest_keys (mf_clients m) ref = None" using manifest_keys_scope [OF v] by (metis not_None_eq)
    with False show ?thesis unfolding keys by (cases "node_keys db ref") auto
  qed
qed

theorem manifest_applied_exactly_witness:
  "node_keys demo_trust_db2 (demo_ref ''a'') \<noteq> Some (client_key (demo_client ''a'' TrustStatusActive))"
proof -
  let ?m = "demo_manifest 4 [demo_client ''b'' TrustStatusActive]"
  have "snd (ReconcileTrustManifest live_env (seconds 63000000010) demo_trust_db ?m) = None" by code_simp
  then have eq: "ReconcileTrustManifest live_env (seconds 63000000010) demo_trust_db ?m = (demo_trust_db2, None)"
    by (simp add: demo_trust_db2_def prod_eq_iff)
  have rev: "manifest_revision demo_trust_db (mf_owner ?m) (mf_node ?m) = Some 3" "mf_revision ?m = 4" by code_simp+
  have facts: "kr_owner (demo_ref ''a'') = mf_owner ?m" "kr_node (demo_ref ''a'') = mf_node ?m"
    "manifest_keys (mf_clients ?m) (demo_ref ''a'') = None"
    "tk_status (client_key (demo_client ''a'' TrustStatusActive)) = TrustStatusActive"
    by code_simp+
  have "n < mf_revision ?m" if "manifest_revision demo_trust_db (mf_owner ?m) (mf_node ?m) = Some n" for n
    using that rev by simp
  from manifest_applied_exactly [OF eq this, of "demo_ref ''a''" "client_key (demo_client ''a'' TrustStatusActive)"] facts
  show ?thesis by auto
qed

text \<open>A revoked control key stays revoked. After \<^verbatim>\<open>RevokeTrustedKey\<close> succeeds, a
  lookup of the key never reports it active again, whatever other keys are put or revoked, until
  the key itself is put again.\<close>

theorem revoked_key_stays_revoked:
  assumes "RevokeTrustedKey e clock db ref = (db1, None)" "\<not> list_ex (puts_to ref) cs"
    and "LookupControlKey e' (trust_run (\<lambda>(e, clock). PutTrustedKey e clock) (\<lambda>(e, clock). RevokeTrustedKey e clock) db1 cs) ref = Inr key"
  shows "tk_status key = TrustStatusRevoked"
  using node_trust.revoked_stays_revoked [of "(e, clock)" db ref db1 cs "(e', 0)" key] assms by simp

theorem revoked_key_stays_revoked_witness:
  "tk_status (projr (LookupControlKey live_env (trust_run (\<lambda>(e, clock). PutTrustedKey e clock) (\<lambda>(e, clock). RevokeTrustedKey e clock)
     (fst (RevokeTrustedKey live_env (seconds 63000000010) demo_trust_db (demo_ref ''a'')))
     [Put (live_env, seconds 63000000020) (demo_ref ''c'') (client_key (demo_client ''c'' TrustStatusActive))])
     (demo_ref ''a''))) = TrustStatusRevoked"
proof -
  let ?db = "fst (RevokeTrustedKey live_env (seconds 63000000010) demo_trust_db (demo_ref ''a''))"
  let ?cs = "[Put (live_env, seconds 63000000020) (demo_ref ''c'') (client_key (demo_client ''c'' TrustStatusActive))]"
  let ?r = "LookupControlKey live_env (trust_run (\<lambda>(e, clock). PutTrustedKey e clock)
    (\<lambda>(e, clock). RevokeTrustedKey e clock) ?db ?cs) (demo_ref ''a'')"
  have "snd (RevokeTrustedKey live_env (seconds 63000000010) demo_trust_db (demo_ref ''a'')) = None" by code_simp
  then have eq: "RevokeTrustedKey live_env (seconds 63000000010) demo_trust_db (demo_ref ''a'') = (?db, None)"
    by (simp add: prod_eq_iff)
  have "\<not> isl ?r" by code_simp
  then have r: "?r = Inr (projr ?r)" by (cases ?r) auto
  have "\<not> list_ex (puts_to (demo_ref ''a'')) ?cs"
    by (simp add: demo_ref_def demo_client_def client_ref_def)
  from revoked_key_stays_revoked [OF eq this r] show ?thesis .
qed

end
