(* ===== verification/Event_Store.thy ===== *)
theory Event_Store
  imports Node_Schema
begin

text \<open>
  The durable event log of a Node: \<^verbatim>\<open>internal/node/store/events.go\<close>,
  \<^verbatim>\<open>outbox.go\<close> and \<^verbatim>\<open>controls.go\<close>. Appending an event allocates the next
  sequence of its stream, calls the frame builder inside the transaction, writes the
  event, its outbox frame and, for the result of a control request, the terminal state
  of the request, then prunes old events. The frame builder is a parameter.

  The invariant \<open>event_inv\<close> says that the retained events of a stream are a gapless run of
  sequences that ends at the latest one, and that the stored byte count is exact.
\<close>

section \<open>Data\<close>

abbreviation MaxEventFrameBytes :: int where "MaxEventFrameBytes \<equiv> 1048576"
abbreviation MaxSnapshotBytes :: int where "MaxSnapshotBytes \<equiv> 786432"
abbreviation MaxReplayRecords :: int where "MaxReplayRecords \<equiv> 1000"

record event_binding =
  eb_owner :: string
  eb_node :: string
  eb_stream :: string

record event_target =
  et_workspace :: string
  et_thread :: string
  et_turn :: string
  et_item :: string

record event_retention =
  ret_max_age :: duration
  ret_max_bytes :: int

record event_record =
  er_binding :: event_binding
  er_target :: event_target
  er_sequence :: int
  er_message_id :: string
  er_type :: string
  er_frame :: bytes
  er_created_at :: gotime

record event_head =
  eh_earliest :: int
  eh_latest :: int
  eh_total_bytes :: int

record control_event_mutation =
  cm_message_id :: string
  cm_state :: string
  cm_error_code :: string

text \<open>\<^verbatim>\<open>EventFrameBuilder\<close>: \<open>None\<close> is an error.\<close>

type_synonym frame_builder = "int \<Rightarrow> (string \<times> bytes) option"

definition zero_head :: event_head where
  "zero_head = \<lparr>eh_earliest = 0, eh_latest = 0, eh_total_bytes = 0\<rparr>"

definition binding_key :: "event_binding \<Rightarrow> string \<times> string \<times> string" where
  "binding_key b = (eb_owner b, eb_node b, eb_stream b)"

definition validEventBinding :: "event_binding \<Rightarrow> bool" where
  "validEventBinding b =
     (validWorkspaceText (eb_owner b) 128 \<and> validWorkspaceText (eb_node b) 128 \<and> validWorkspaceText (eb_stream b) 128)"

definition validOptionalEventTarget :: "event_target \<Rightarrow> bool" where
  "validOptionalEventTarget t =
     ((et_workspace t = [] \<or> validWorkspaceText (et_workspace t) 128) \<and>
      (et_thread t = [] \<or> validWorkspaceText (et_thread t) 128) \<and>
      (et_turn t = [] \<or> validWorkspaceText (et_turn t) 128) \<and>
      (et_item t = [] \<or> validWorkspaceText (et_item t) 128))"

section \<open>Control requests\<close>

abbreviation ControlReceived :: string where "ControlReceived \<equiv> ''received''"
abbreviation ControlValidated :: string where "ControlValidated \<equiv> ''validated''"
abbreviation ControlDispatching :: string where "ControlDispatching \<equiv> ''dispatching''"
abbreviation ControlConfirmed :: string where "ControlConfirmed \<equiv> ''confirmed''"
abbreviation ControlRejected :: string where "ControlRejected \<equiv> ''rejected''"
abbreviation ControlAmbiguous :: string where "ControlAmbiguous \<equiv> ''ambiguous''"

record control_record =
  ct_message_id :: string
  ct_request_digest :: bytes
  ct_type :: string
  ct_target :: event_target
  ct_state :: string
  ct_error_code :: string
  ct_result_stream_id :: string
  ct_result_sequence :: int
  ct_created_at :: gotime
  ct_updated_at :: gotime

definition validControlState :: "string \<Rightarrow> bool" where
  "validControlState s =
     (s = ControlReceived \<or> s = ControlValidated \<or> s = ControlDispatching \<or> s = ControlConfirmed \<or>
      s = ControlRejected \<or> s = ControlAmbiguous)"

definition isTerminalControlState :: "string \<Rightarrow> bool" where
  "isTerminalControlState s = (s = ControlConfirmed \<or> s = ControlRejected \<or> s = ControlAmbiguous)"

definition allowedControlTransition :: "string \<Rightarrow> string \<Rightarrow> bool" where
  "allowedControlTransition current next =
     (if isTerminalControlState current then False
      else if current = ControlReceived then next = ControlValidated \<or> next = ControlRejected
      else if current = ControlValidated then next = ControlDispatching \<or> next = ControlRejected
      else if current = ControlDispatching then isTerminalControlState next
      else False)"

definition validControlRecord :: "control_record \<Rightarrow> bool" where
  "validControlRecord r =
     (validWorkspaceText (ct_message_id r) 128 \<and> length (ct_request_digest r) = 32 \<and>
      validWorkspaceText (ct_type r) 128 \<and> validOptionalEventTarget (ct_target r) \<and> validControlState (ct_state r))"

definition scanControl :: "bool \<Rightarrow> control_row option \<Rightarrow> store_error + control_record" where
  "scanControl failed row =
     (if failed then Inl (Internal ''control read'')
      else case row of
        None \<Rightarrow> Inl ErrNotFound
      | Some r \<Rightarrow>
          (case parse_rfc3339 (cr_created_at r) of
             None \<Rightarrow> Inl ErrCorrupt
           | Some created \<Rightarrow>
               (case parse_rfc3339 (cr_updated_at r) of
                  None \<Rightarrow> Inl ErrCorrupt
                | Some updated \<Rightarrow>
                    Inr \<lparr>ct_message_id = cr_message_id r, ct_request_digest = cr_request_digest r,
                         ct_type = cr_control_type r,
                         ct_target = \<lparr>et_workspace = nstring (cr_workspace_id r), et_thread = nstring (cr_thread_id r),
                           et_turn = nstring (cr_turn_id r), et_item = nstring (cr_item_id r)\<rparr>,
                         ct_state = cr_state r, ct_error_code = nstring (cr_error_code r),
                         ct_result_stream_id = nstring (cr_result_stream_id r),
                         ct_result_sequence = nint (cr_result_sequence r),
                         ct_created_at = created, ct_updated_at = updated\<rparr>)))"

definition control_select :: "node_db \<Rightarrow> string \<Rightarrow> control_row option" where
  "control_select db i = sql_row (\<lambda>r. cr_message_id r = i) (control_requests db)"

definition Control :: "env \<Rightarrow> node_db \<Rightarrow> string \<Rightarrow> store_error + control_record" where
  "Control e db messageID =
     (case store_guard e (validWorkspaceText messageID 128) of
        Some x \<Rightarrow> Inl x
      | None \<Rightarrow> scanControl (call_fails e 0) (control_select db messageID))"

definition control_row_of :: "control_record \<Rightarrow> gotime \<Rightarrow> control_row" where
  "control_row_of r now =
     \<lparr>cr_message_id = ct_message_id r, cr_request_digest = ct_request_digest r, cr_control_type = ct_type r,
      cr_workspace_id = nullText (et_workspace (ct_target r)), cr_thread_id = nullText (et_thread (ct_target r)),
      cr_turn_id = nullText (et_turn (ct_target r)), cr_item_id = nullText (et_item (ct_target r)),
      cr_state = ct_state r, cr_error_code = None, cr_result_stream_id = None, cr_result_sequence = None,
      cr_created_at = timestamp now, cr_updated_at = timestamp now\<rparr>"

definition CreateControl ::
  "env \<Rightarrow> gotime \<Rightarrow> node_db \<Rightarrow> control_record \<Rightarrow> node_db \<times> (store_error + control_record)" where
  "CreateControl e clock db r =
     (case store_guard e (\<not> (\<not> validControlRecord r \<or> ct_state r \<noteq> ControlReceived \<and> ct_state r \<noteq> ControlValidated)) of
        Some x \<Rightarrow> (db, Inl x)
      | None \<Rightarrow>
          let now = (if IsZero (ct_created_at r) then clock else ct_created_at r);
              row = control_row_of r now
          in if call_fails e 0 \<or> \<not> controls_check row then (db, Inl (Internal ''control create''))
             else
               let db' = (if sql_exists (\<lambda>x. cr_message_id x = ct_message_id r) (control_requests db) then db
                          else db\<lparr>control_requests := sql_insert row (control_requests db)\<rparr>)
               in (case Control (later 1 e) db' (ct_message_id r) of
                     Inl x \<Rightarrow> (db', Inl x)
                   | Inr existing \<Rightarrow>
                       if ct_request_digest existing \<noteq> ct_request_digest r \<or> ct_type existing \<noteq> ct_type r \<or>
                          ct_target existing \<noteq> ct_target r
                       then (db', Inl ErrConflict)
                       else (db', Inr existing)))"

definition set_control :: "string \<times> string \<times> string \<times> int \<times> gotime \<Rightarrow> control_row \<Rightarrow> control_row" where
  "set_control a r = (case a of (nextState, errorCode, resultStreamID, resultSequence, now) \<Rightarrow>
     r\<lparr>cr_state := nextState, cr_error_code := nullText errorCode, cr_result_stream_id := nullText resultStreamID,
       cr_result_sequence := nullableSequence resultSequence, cr_updated_at := timestamp now\<rparr>)"

definition TransitionControl ::
  "env \<Rightarrow> gotime \<Rightarrow> node_db \<Rightarrow> string \<Rightarrow> string \<Rightarrow> string \<Rightarrow> string \<Rightarrow> int \<Rightarrow> node_db \<times> (store_error + control_record)" where
  "TransitionControl e clock db messageID nextState errorCode resultStreamID resultSequence =
     (case store_guard e (\<not> (\<not> validWorkspaceText messageID 128 \<or> \<not> validControlState nextState \<or> 128 < length errorCode \<or>
             128 < length resultStreamID \<or> resultSequence < 0 \<or> max_js_sequence < resultSequence)) of
        Some x \<Rightarrow> (db, Inl x)
      | None \<Rightarrow>
          if call_fails e 0 then (db, Inl (Internal ''control transition''))
          else case scanControl (call_fails e 1) (control_select db messageID) of
            Inl x \<Rightarrow> (db, Inl x)
          | Inr current \<Rightarrow>
              if ct_state current = nextState
              then (db, if call_fails e 2 then Inl DriverError else Inr current)
              else if \<not> allowedControlTransition (ct_state current) nextState then (db, Inl ErrConflict)
              else if isTerminalControlState nextState \<and> (resultStreamID = [] \<or> resultSequence < 1) then (db, Inl ErrInvalid)
              else if call_fails e 2 then (db, Inl (Internal ''control transition''))
              else if call_fails e 3 then (db, Inl (Internal ''control transition''))
              else
                let db' = db\<lparr>control_requests := sql_update (\<lambda>r. cr_message_id r = messageID)
                      (set_control (nextState, errorCode, resultStreamID, resultSequence, clock)) (control_requests db)\<rparr>
                in (db', Control (later 4 e) db' messageID))"

section \<open>Appending events\<close>

definition stream_rows :: "string \<times> string \<times> string \<Rightarrow> event_log_row table \<Rightarrow> event_log_row list" where
  "stream_rows k log = filter (\<lambda>r. event_key r = k) log"

definition by_sequence :: "event_log_row \<Rightarrow> event_log_row \<Rightarrow> bool" where
  "by_sequence a b = (ev_sequence a < ev_sequence b)"

definition first_event :: "string \<times> string \<times> string \<Rightarrow> event_log_row table \<Rightarrow> event_log_row option" where
  "first_event k log = (case order_by by_sequence (stream_rows k log) of [] \<Rightarrow> None | r # _ \<Rightarrow> Some r)"

lemma first_event_in: "first_event k log = Some r \<Longrightarrow> r \<in> set log \<and> event_key r = k"
proof -
  assume "first_event k log = Some r"
  then have "r \<in> set (order_by by_sequence (stream_rows k log))"
    by (cases "order_by by_sequence (stream_rows k log)") (simp_all add: first_event_def)
  then show ?thesis by (simp add: stream_rows_def)
qed

definition drop_event :: "event_log_row \<Rightarrow> event_log_row table \<Rightarrow> event_log_row table" where
  "drop_event r log = sql_delete (\<lambda>x. event_key x = event_key r \<and> ev_sequence x = ev_sequence r) log"

lemma drop_event_shorter: "first_event k log = Some r \<Longrightarrow> length (drop_event r log) < length log"
  unfolding drop_event_def sql_delete_def
  by (rule length_filter_less [of r]) (auto dest: first_event_in)

text \<open>The loop of \<^verbatim>\<open>pruneEvents\<close> on the log, the outbox and the running total; \<open>n\<close>
  numbers its database calls. Each round deletes a row of the log.\<close>

function pruneEvents :: "env \<Rightarrow> nat \<Rightarrow> string \<times> string \<times> string \<Rightarrow> gotime \<Rightarrow> int \<Rightarrow>
    event_log_row table \<Rightarrow> outbox_row table \<Rightarrow> int \<Rightarrow> store_error + event_log_row table \<times> outbox_row table \<times> int" where
  "pruneEvents e n k cutoff maxBytes log ob tot =
     (if call_fails e n then Inl (Internal ''event retention'')
      else case first_event k log of
        None \<Rightarrow> Inr (log, ob, tot)
      | Some r \<Rightarrow>
          (case parse_rfc3339 (ev_created_at r) of
             None \<Rightarrow> Inl ErrCorrupt
           | Some created \<Rightarrow>
               if \<not> Before created cutoff \<and> tot \<le> maxBytes then Inr (log, ob, tot)
               else if call_fails e (n + 1) then Inl (Internal ''event retention'')
               else if call_fails e (n + 2) then Inl (Internal ''event retention'')
               else pruneEvents e (n + 3) k cutoff maxBytes (drop_event r log)
                      (sql_delete (\<lambda>x. ob_message_id x = ev_message_id r) ob) (int64 (tot - ev_frame_bytes r))))"
  by pat_completeness auto
termination
  by (relation "measure (\<lambda>(e, n, k, c, m, log, ob, tot). length log)") (auto dest: drop_event_shorter)

declare pruneEvents.simps [simp del]

definition new_stream :: "event_binding \<Rightarrow> rfc3339 \<Rightarrow> event_stream_row" where
  "new_stream b now = \<lparr>es_owner_id = eb_owner b, es_node_id = eb_node b, es_stream_id = eb_stream b,
     es_latest_sequence = 0, es_total_bytes = 0, es_updated_at = now\<rparr>"

definition ensure_stream :: "event_binding \<Rightarrow> rfc3339 \<Rightarrow> event_stream_row table \<Rightarrow> event_stream_row table" where
  "ensure_stream b now t =
     (if sql_exists (\<lambda>r. stream_key r = binding_key b) t then t else sql_insert (new_stream b now) t)"

definition event_row :: "event_binding \<Rightarrow> event_target \<Rightarrow> int \<Rightarrow> string \<Rightarrow> string \<Rightarrow> bytes \<Rightarrow> rfc3339 \<Rightarrow> event_log_row" where
  "event_row b t sequence messageID eventType frame now =
     \<lparr>ev_owner_id = eb_owner b, ev_node_id = eb_node b, ev_stream_id = eb_stream b, ev_sequence = sequence,
      ev_message_id = messageID, ev_event_type = eventType, ev_workspace_id = nullText (et_workspace t),
      ev_thread_id = nullText (et_thread t), ev_turn_id = nullText (et_turn t), ev_item_id = nullText (et_item t),
      ev_frame = frame, ev_frame_bytes = int (length frame), ev_created_at = now\<rparr>"

definition outbox_entry :: "node_db \<Rightarrow> string \<Rightarrow> string \<Rightarrow> int \<Rightarrow> bytes \<Rightarrow> rfc3339 \<Rightarrow> outbox_row" where
  "outbox_entry db messageID stream sequence frame now =
     \<lparr>ob_id = outbox_autoincrement db + 1, ob_message_id = messageID, ob_stream_id = stream, ob_sequence = sequence,
      ob_frame = frame, ob_created_at = now, ob_acknowledged_at = None\<rparr>"

definition set_stream :: "int \<times> int \<times> rfc3339 \<Rightarrow> event_stream_row \<Rightarrow> event_stream_row" where
  "set_stream a r = (case a of (sequence, tot, now) \<Rightarrow>
     r\<lparr>es_latest_sequence := sequence, es_total_bytes := tot, es_updated_at := now\<rparr>)"

definition set_total :: "int \<Rightarrow> event_stream_row \<Rightarrow> event_stream_row" where
  "set_total tot r = r\<lparr>es_total_bytes := tot\<rparr>"

definition update_stream :: "string \<times> string \<times> string \<Rightarrow> (event_stream_row \<Rightarrow> event_stream_row) \<Rightarrow> event_stream_row table \<Rightarrow> event_stream_row table" where
  "update_stream k f t = sql_update (\<lambda>r. stream_key r = k) f t"

text \<open>The transition of the control request inside the transaction: \<open>Inr\<close> the new table.\<close>

definition mutate_control ::
  "env \<Rightarrow> control_event_mutation option \<Rightarrow> string \<Rightarrow> int \<Rightarrow> gotime \<Rightarrow> control_row table \<Rightarrow> store_error + control_row table" where
  "mutate_control e mutation stream sequence now t =
     (case mutation of
        None \<Rightarrow> Inr t
      | Some m \<Rightarrow>
          (let here = (\<lambda>r. cr_message_id r = cm_message_id m \<and> cr_state r = ControlDispatching)
           in if call_fails e 6 then Inl (Internal ''control result append'')
              else if sql_count here t \<noteq> 1 then Inl ErrConflict
              else Inr (sql_update here (set_control (cm_state m, cm_error_code m, stream, sequence, now)) t)))"

definition stored_event :: "event_binding \<Rightarrow> event_target \<Rightarrow> int \<Rightarrow> string \<Rightarrow> string \<Rightarrow> bytes \<Rightarrow> gotime \<Rightarrow> event_record" where
  "stored_event b t sequence messageID eventType frame createdAt =
     \<lparr>er_binding = b, er_target = t, er_sequence = sequence, er_message_id = messageID, er_type = eventType,
      er_frame = frame, er_created_at = createdAt\<rparr>"

text \<open>The writes of \<^verbatim>\<open>appendEvent\<close> after the builder has returned the frame.\<close>

definition write_event ::
  "env \<Rightarrow> node_db \<Rightarrow> event_binding \<Rightarrow> event_target \<Rightarrow> string \<Rightarrow> gotime \<Rightarrow> event_retention \<Rightarrow>
   control_event_mutation option \<Rightarrow> int \<Rightarrow> int \<Rightarrow> string \<Rightarrow> bytes \<Rightarrow> store_error + node_db \<times> event_record" where
  "write_event e db b target eventType createdAt retention mutation sequence tot messageID frame =
     (let now = timestamp createdAt;
          row = event_row b target sequence messageID eventType frame now;
          ob = outbox_entry db messageID (eb_stream b) sequence frame now;
          total1 = int64 (tot + int (length frame))
      in if call_fails e 3 \<or> \<not> event_log_insert_ok db row then Inl ErrConflict
         else if call_fails e 4 \<or> \<not> outbox_insert_ok db ob then Inl ErrConflict
         else if call_fails e 5 \<or> total1 < 0 then Inl (Internal ''event append'')
         else case mutate_control e mutation (eb_stream b) sequence createdAt (control_requests db) of
           Inl x \<Rightarrow> Inl x
         | Inr controls \<Rightarrow>
             (case pruneEvents e 9 (binding_key b) (createdAt - ret_max_age retention) (ret_max_bytes retention)
                     (sql_insert row (event_log db)) (sql_insert ob (outbox db)) total1 of
                Inl x \<Rightarrow> Inl x
              | Inr (log', outbox', total2) \<Rightarrow>
                  if call_fails e 7 \<or> total2 < 0 then Inl (Internal ''event append'')
                  else if call_fails e 8 then Inl (Internal ''event append'')
                  else Inr (db\<lparr>event_log := log', outbox := outbox', outbox_autoincrement := ob_id ob,
                               control_requests := controls,
                               event_streams := update_stream (binding_key b) (set_total total2)
                                 (update_stream (binding_key b) (set_stream (sequence, total1, now)) (event_streams db))\<rparr>,
                            stored_event b target sequence messageID eventType frame createdAt)))"

definition appendEvent ::
  "env \<Rightarrow> gotime \<Rightarrow> node_db \<Rightarrow> event_binding \<Rightarrow> event_target \<Rightarrow> string \<Rightarrow> gotime \<Rightarrow> event_retention \<Rightarrow>
   control_event_mutation option \<Rightarrow> frame_builder option \<Rightarrow> node_db \<times> (store_error + event_record)" where
  "appendEvent e clock db b target eventType createdAt0 retention mutation build =
     (case store_guard e (\<not> (\<not> validEventBinding b \<or> \<not> validOptionalEventTarget target \<or>
             \<not> validWorkspaceText eventType 128 \<or> build = None \<or> ret_max_age retention \<le> 0 \<or>
             ret_max_bytes retention < MaxEventFrameBytes)) of
        Some x \<Rightarrow> (db, Inl x)
      | None \<Rightarrow> transact_val db
          (let createdAt = (if IsZero createdAt0 then clock else createdAt0);
               now = timestamp createdAt
           in if call_fails e 0 then Inl (Internal ''event append'')
              else if call_fails e 1 \<or> \<not> event_streams_check (new_stream b now) then Inl (Internal ''event append'')
              else
                let db1 = db\<lparr>event_streams := ensure_stream b now (event_streams db)\<rparr>
                in case (if call_fails e 2 then None
                         else sql_row (\<lambda>r. stream_key r = binding_key b) (event_streams db1)) of
                  None \<Rightarrow> Inl (Internal ''event append'')
                | Some st \<Rightarrow>
                    if max_js_sequence \<le> es_latest_sequence st then Inl ErrConflict
                    else
                      let sequence = es_latest_sequence st + 1
                      in (case the build sequence of
                            None \<Rightarrow> Inl ErrInvalid
                          | Some (messageID, frame) \<Rightarrow>
                              if \<not> validWorkspaceText messageID 128 \<or> MaxEventFrameBytes < int (length frame)
                              then Inl ErrInvalid
                              else write_event e db1 b target eventType createdAt retention mutation
                                     sequence (es_total_bytes st) messageID frame)))"

definition AppendEvent where
  "AppendEvent e clock db b target eventType createdAt retention build =
     appendEvent e clock db b target eventType createdAt retention None build"

definition AppendControlEvent ::
  "env \<Rightarrow> gotime \<Rightarrow> node_db \<Rightarrow> event_binding \<Rightarrow> event_target \<Rightarrow> string \<Rightarrow> gotime \<Rightarrow> event_retention \<Rightarrow>
   control_event_mutation \<Rightarrow> frame_builder option \<Rightarrow> node_db \<times> (store_error + event_record)" where
  "AppendControlEvent e clock db b target eventType createdAt retention mutation build =
     (if \<not> validWorkspaceText (cm_message_id mutation) 128 \<or> \<not> isTerminalControlState (cm_state mutation) \<or>
         128 < length (cm_error_code mutation)
      then (db, Inl ErrInvalid)
      else appendEvent e clock db b target eventType createdAt retention (Some mutation) build)"

section \<open>Reading and acknowledging\<close>

definition readEventHead :: "bool \<Rightarrow> node_db \<Rightarrow> event_binding \<Rightarrow> store_error + event_head" where
  "readEventHead failed db b =
     (if failed then Inl (Internal ''event head'')
      else case sql_row (\<lambda>r. stream_key r = binding_key b) (event_streams db) of
        None \<Rightarrow> Inr zero_head
      | Some st \<Rightarrow>
          Inr \<lparr>eh_earliest = (case map ev_sequence (stream_rows (binding_key b) (event_log db)) of
                 [] \<Rightarrow> 0 | s # ss \<Rightarrow> foldl min s ss),
               eh_latest = es_latest_sequence st, eh_total_bytes = es_total_bytes st\<rparr>)"

definition EventHead :: "env \<Rightarrow> node_db \<Rightarrow> event_binding \<Rightarrow> store_error + event_head" where
  "EventHead e db b =
     (case store_guard e (validEventBinding b) of
        Some x \<Rightarrow> Inl x
      | None \<Rightarrow> readEventHead (call_fails e 0) db b)"

definition row_event :: "event_binding \<Rightarrow> event_log_row \<Rightarrow> event_record option" where
  "row_event b r =
     map_option (\<lambda>created. stored_event b
         \<lparr>et_workspace = nstring (ev_workspace_id r), et_thread = nstring (ev_thread_id r),
          et_turn = nstring (ev_turn_id r), et_item = nstring (ev_item_id r)\<rparr>
         (ev_sequence r) (ev_message_id r) (ev_event_type r) (ev_frame r) created)
       (parse_rfc3339 (ev_created_at r))"

text \<open>Scanning result rows one by one; the first that cannot be read ends the call.\<close>

fun scan_rows :: "('r \<Rightarrow> 'v option) \<Rightarrow> 'r list \<Rightarrow> store_error + 'v list" where
  "scan_rows f [] = Inr []"
| "scan_rows f (r # rs) =
     (case f r of
        None \<Rightarrow> Inl ErrCorrupt
      | Some v \<Rightarrow> (case scan_rows f rs of Inl x \<Rightarrow> Inl x | Inr vs \<Rightarrow> Inr (v # vs)))"

definition ReplayEvents ::
  "env \<Rightarrow> node_db \<Rightarrow> event_binding \<Rightarrow> int \<Rightarrow> int \<Rightarrow> store_error + event_record list \<times> event_head" where
  "ReplayEvents e db b afterSequence limit =
     (case store_guard e (\<not> (\<not> validEventBinding b \<or> afterSequence < 0 \<or> max_js_sequence < afterSequence \<or>
             limit < 1 \<or> MaxReplayRecords < limit)) of
        Some x \<Rightarrow> Inl x
      | None \<Rightarrow>
          (case readEventHead (call_fails e 0) db b of
             Inl x \<Rightarrow> Inl x
           | Inr head \<Rightarrow>
               if eh_latest head < afterSequence then Inl ErrConflict
               else if call_fails e 1 \<or> call_fails e 2 then Inl (Internal ''event replay'')
               else case scan_rows (row_event b)
                      (take (nat limit) (order_by by_sequence
                        (filter (\<lambda>r. afterSequence < ev_sequence r) (stream_rows (binding_key b) (event_log db))))) of
                 Inl x \<Rightarrow> Inl x
               | Inr records \<Rightarrow> Inr (records, head)))"

definition new_cursor :: "event_binding \<Rightarrow> int \<Rightarrow> rfc3339 \<Rightarrow> event_cursor_row" where
  "new_cursor b sequence now = \<lparr>ec_owner_id = eb_owner b, ec_node_id = eb_node b, ec_stream_id = eb_stream b,
     ec_acknowledged_sequence = sequence, ec_updated_at = now\<rparr>"

definition set_cursor :: "int \<times> rfc3339 \<Rightarrow> event_cursor_row \<Rightarrow> event_cursor_row" where
  "set_cursor a r = r\<lparr>ec_acknowledged_sequence := fst a, ec_updated_at := snd a\<rparr>"

definition acknowledge_row :: "rfc3339 \<Rightarrow> outbox_row \<Rightarrow> outbox_row" where
  "acknowledge_row now r =
     r\<lparr>ob_acknowledged_at := (case ob_acknowledged_at r of Some t \<Rightarrow> Some t | None \<Rightarrow> Some now)\<rparr>"

definition event_cursor :: "node_db \<Rightarrow> event_binding \<Rightarrow> int option" where
  "event_cursor db b = map_option ec_acknowledged_sequence (sql_row (\<lambda>r. cursor_key r = binding_key b) (event_cursors db))"

text \<open>\<open>clock1\<close> and \<open>clock2\<close> are the two readings of the clock.\<close>

definition AcknowledgeEvents ::
  "env \<Rightarrow> gotime \<Rightarrow> gotime \<Rightarrow> node_db \<Rightarrow> event_binding \<Rightarrow> int \<Rightarrow> node_db \<times> store_error option" where
  "AcknowledgeEvents e clock1 clock2 db b sequence =
     (case store_guard e (\<not> (\<not> validEventBinding b \<or> sequence < 0 \<or> max_js_sequence < sequence)) of
        Some x \<Rightarrow> (db, Some x)
      | None \<Rightarrow> transact db
          (if call_fails e 0 then Inl (Internal ''event acknowledge'')
           else case readEventHead (call_fails e 1) db b of
             Inl x \<Rightarrow> Inl x
           | Inr head \<Rightarrow>
               if eh_latest head < sequence then Inl ErrConflict
               else if call_fails e 2 then Inl (Internal ''event acknowledge'')
               else if sequence < nint (event_cursor db b) then Inl ErrConflict
               else if call_fails e 3 \<or> \<not> event_cursors_check (new_cursor b sequence (timestamp clock1)) \<or>
                       \<not> stream_exists db (binding_key b)
               then Inl (Internal ''event acknowledge'')
               else if call_fails e 4 then Inl (Internal ''event acknowledge'')
               else if call_fails e 5 then Inl (Internal ''event acknowledge'')
               else Inr (db\<lparr>event_cursors := sql_upsert cursor_key (new_cursor b sequence (timestamp clock1))
                              (set_cursor (sequence, timestamp clock1)) (event_cursors db),
                            outbox := sql_update (\<lambda>r. ob_stream_id r = eb_stream b \<and> ob_sequence r \<le> sequence)
                              (acknowledge_row (timestamp clock2)) (outbox db)\<rparr>)))"

section \<open>Snapshots\<close>

record snapshot_record =
  sp_workspace :: string
  sp_thread :: string
  sp_status :: string
  sp_latest_sequence :: int
  sp_payload :: bytes
  sp_updated_at :: gotime

definition snapshot_to_row :: "snapshot_record \<Rightarrow> gotime \<Rightarrow> snapshot_row" where
  "snapshot_to_row r when =
     \<lparr>sn_thread_id = sp_thread r, sn_workspace_id = sp_workspace r, sn_status = sp_status r,
      sn_latest_sequence = sp_latest_sequence r, sn_payload = sp_payload r, sn_updated_at = timestamp when\<rparr>"

definition set_snapshot :: "snapshot_row \<Rightarrow> snapshot_row \<Rightarrow> snapshot_row" where
  "set_snapshot n r =
     r\<lparr>sn_workspace_id := sn_workspace_id n, sn_status := sn_status n, sn_latest_sequence := sn_latest_sequence n,
       sn_payload := sn_payload n, sn_updated_at := sn_updated_at n\<rparr>"

definition validSnapshot :: "snapshot_record \<Rightarrow> bool" where
  "validSnapshot r =
     (\<not> (\<not> validWorkspaceText (sp_workspace r) 128 \<or> \<not> validWorkspaceText (sp_thread r) 128 \<or>
         \<not> validWorkspaceText (sp_status r) 64 \<or> sp_latest_sequence r < 0 \<or> max_js_sequence < sp_latest_sequence r \<or>
         sp_payload r = [] \<or> MaxSnapshotBytes < int (length (sp_payload r))))"

definition SaveSnapshot :: "env \<Rightarrow> gotime \<Rightarrow> node_db \<Rightarrow> snapshot_record \<Rightarrow> node_db \<times> store_error option" where
  "SaveSnapshot e clock db r =
     (case store_guard e (validSnapshot r) of
        Some x \<Rightarrow> (db, Some x)
      | None \<Rightarrow>
          let when = (if IsZero (sp_updated_at r) then clock else sp_updated_at r);
              row = snapshot_to_row r when
          in if call_fails e 0 \<or> \<not> snapshots_check row then (db, Some (Internal ''snapshot save''))
             else (db\<lparr>thread_snapshots := sql_upsert sn_thread_id row (set_snapshot row) (thread_snapshots db)\<rparr>, None))"

definition Snapshot :: "env \<Rightarrow> node_db \<Rightarrow> string \<Rightarrow> store_error + snapshot_record" where
  "Snapshot e db threadID =
     (case store_guard e (validWorkspaceText threadID 128) of
        Some x \<Rightarrow> Inl x
      | None \<Rightarrow>
          if call_fails e 0 then Inl (Internal ''snapshot read'')
          else case sql_row (\<lambda>r. sn_thread_id r = threadID) (thread_snapshots db) of
            None \<Rightarrow> Inl ErrNotFound
          | Some r \<Rightarrow>
              (case parse_rfc3339 (sn_updated_at r) of
                 None \<Rightarrow> Inl ErrCorrupt
               | Some updated \<Rightarrow>
                   Inr \<lparr>sp_workspace = sn_workspace_id r, sp_thread = sn_thread_id r, sp_status = sn_status r,
                        sp_latest_sequence = sn_latest_sequence r, sp_payload = sn_payload r, sp_updated_at = updated\<rparr>))"

section \<open>Outbox\<close>

record outbox_record =
  or_message_id :: string
  or_stream_id :: string
  or_sequence :: int
  or_frame :: bytes
  or_created_at :: gotime
  or_acknowledged_at :: gotime

definition validOutbox :: "outbox_record \<Rightarrow> bool" where
  "validOutbox r =
     (or_message_id r \<noteq> [] \<and> length (or_message_id r) \<le> 128 \<and> or_stream_id r \<noteq> [] \<and> length (or_stream_id r) \<le> 128 \<and>
      0 \<le> or_sequence r \<and> or_sequence r \<le> max_js_sequence \<and> int (length (or_frame r)) \<le> 1048576)"

text \<open>The INSERT with \<^verbatim>\<open>ON CONFLICT(message_id) DO NOTHING\<close>: \<open>None\<close> is a violation of
  another constraint.\<close>

definition outbox_put :: "node_db \<Rightarrow> outbox_row \<Rightarrow> node_db option" where
  "outbox_put db row =
     (if \<not> outbox_check row then None
      else if sql_exists (\<lambda>x. ob_message_id x = ob_message_id row) (outbox db) then Some db
      else if \<not> outbox_slot_free db row then None
      else Some (db\<lparr>outbox := sql_insert row (outbox db), outbox_autoincrement := ob_id row\<rparr>))"

definition Enqueue :: "env \<Rightarrow> gotime \<Rightarrow> node_db \<Rightarrow> outbox_record \<Rightarrow> node_db \<times> store_error option" where
  "Enqueue e clock db r =
     (case store_guard e (validOutbox r) of
        Some x \<Rightarrow> (db, Some x)
      | None \<Rightarrow>
          let created = (if IsZero (or_created_at r) then clock else or_created_at r)
          in case (if call_fails e 0 then None
                   else outbox_put db (outbox_entry db (or_message_id r) (or_stream_id r) (or_sequence r) (or_frame r) (timestamp created))) of
            None \<Rightarrow> (db, Some ErrConflict)
          | Some db' \<Rightarrow>
              (case (if call_fails e 1 then None else sql_row (\<lambda>x. ob_message_id x = or_message_id r) (outbox db')) of
                 None \<Rightarrow> (db', Some (Internal ''outbox read''))
               | Some existing \<Rightarrow>
                   if ob_stream_id existing \<noteq> or_stream_id r \<or> ob_sequence existing \<noteq> or_sequence r \<or>
                      ob_frame existing \<noteq> or_frame r
                   then (db', Some ErrConflict) else (db', None)))"

definition row_outbox :: "outbox_row \<Rightarrow> outbox_record option" where
  "row_outbox r =
     map_option (\<lambda>created. \<lparr>or_message_id = ob_message_id r, or_stream_id = ob_stream_id r, or_sequence = ob_sequence r,
        or_frame = ob_frame r, or_created_at = created, or_acknowledged_at = 0\<rparr>) (parse_rfc3339 (ob_created_at r))"

definition Pending :: "env \<Rightarrow> node_db \<Rightarrow> int \<Rightarrow> store_error + outbox_record list" where
  "Pending e db limit =
     (case store_guard e (\<not> (limit < 1 \<or> 1000 < limit)) of
        Some x \<Rightarrow> Inl x
      | None \<Rightarrow>
          if call_fails e 0 \<or> call_fails e 1 then Inl (Internal ''outbox list'')
          else scan_rows row_outbox (take (nat limit) (order_by (\<lambda>a b. ob_id a < ob_id b)
                 (filter (\<lambda>r. ob_acknowledged_at r = None) (outbox db)))))"

definition Acknowledge :: "env \<Rightarrow> gotime \<Rightarrow> node_db \<Rightarrow> string \<Rightarrow> node_db \<times> store_error option" where
  "Acknowledge e clock db messageID =
     (case store_guard e (\<not> (messageID = [] \<or> 128 < length messageID)) of
        Some x \<Rightarrow> (db, Some x)
      | None \<Rightarrow>
          if call_fails e 0 then (db, Some (Internal ''outbox acknowledge''))
          else
            let db' = db\<lparr>outbox := sql_update (\<lambda>r. ob_message_id r = messageID) (acknowledge_row (timestamp clock)) (outbox db)\<rparr>
            in if call_fails e 1 then (db', Some (Internal ''outbox acknowledge''))
               else if sql_count (\<lambda>r. ob_message_id r = messageID) (outbox db) = 0 then (db', Some ErrNotFound)
               else (db', None))"

definition OutboxRecord :: "env \<Rightarrow> node_db \<Rightarrow> string \<Rightarrow> store_error + outbox_record" where
  "OutboxRecord e db messageID =
     (case store_guard e (\<not> (messageID = [] \<or> 128 < length messageID)) of
        Some x \<Rightarrow> Inl x
      | None \<Rightarrow>
          if call_fails e 0 then Inl (Internal ''outbox read'')
          else case sql_row (\<lambda>r. ob_message_id r = messageID) (outbox db) of
            None \<Rightarrow> Inl ErrNotFound
          | Some r \<Rightarrow>
              (case row_outbox r of
                 None \<Rightarrow> Inl ErrCorrupt
               | Some record \<Rightarrow>
                   (case ob_acknowledged_at r of
                      None \<Rightarrow> Inr record
                    | Some t \<Rightarrow>
                        (case parse_rfc3339 t of
                           None \<Rightarrow> Inl ErrCorrupt
                         | Some acknowledged \<Rightarrow> Inr (record\<lparr>or_acknowledged_at := acknowledged\<rparr>)))))"

end
