(* ===== verification/State_Machine.thy ===== *)
theory State_Machine
  imports Main
begin

text \<open>
  Rows that are state machines: a control request, an approval, a pairing. The store's
  operations may change the row of a key only along a step relation on rows. The locale
  gives what a client of such a row relies on: histories follow the relation, a row
  without a successor is final, and a set of rows closed under the relation is never left.
\<close>

definition run_steps_of :: "('c \<Rightarrow> 's \<Rightarrow> 's) \<Rightarrow> 's \<Rightarrow> 'c list \<Rightarrow> 's" where
  "run_steps_of step s cs = foldl (\<lambda>s c. step c s) s cs"

lemma run_steps_of_simps [simp]:
  "run_steps_of step s [] = s" "run_steps_of step s (c # cs) = run_steps_of step (step c s) cs"
  by (simp_all add: run_steps_of_def)

text \<open>Two points of one history: the later state is reached from the earlier one.\<close>

lemma run_steps_of_take:
  assumes "p \<le> q"
  shows "run_steps_of step s (take q cs) = run_steps_of step (run_steps_of step s (take p cs)) (drop p (take q cs))"
proof -
  have "take q cs = take p cs @ drop p (take q cs)"
    using assms append_take_drop_id [of p "take q cs"] by (simp add: min_def)
  then show ?thesis by (metis foldl_append run_steps_of_def)
qed

text \<open>\<open>view\<close> finds the row of a key, \<open>step\<close> performs a call, \<open>moves\<close> is the step relation on
  rows and \<open>overwrites c k\<close> marks the calls that may replace the row of \<open>k\<close> outright.\<close>

locale row_machine =
  fixes view :: "'s \<Rightarrow> 'k \<Rightarrow> 'r option"
    and step :: "'c \<Rightarrow> 's \<Rightarrow> 's"
    and moves :: "'r \<Rightarrow> 'r \<Rightarrow> bool"
    and overwrites :: "'c \<Rightarrow> 'k \<Rightarrow> bool"
  assumes step_moves: "view s k = Some r \<Longrightarrow> \<not> overwrites c k \<Longrightarrow>
    \<exists>r'. view (step c s) k = Some r' \<and> (r' = r \<or> moves r r')"
begin

lemma run_moves:
  assumes "view s k = Some r" "\<not> list_ex (\<lambda>c. overwrites c k) cs"
  shows "\<exists>r'. view (run_steps_of step s cs) k = Some r' \<and> moves\<^sup>*\<^sup>* r r'"
  using assms
proof (induction cs arbitrary: s r)
  case (Cons c cs)
  then obtain r1 where r1: "view (step c s) k = Some r1" "r1 = r \<or> moves r r1"
    using step_moves [of s k r c] by auto
  with Cons obtain r2 where "view (run_steps_of step (step c s) cs) k = Some r2" "moves\<^sup>*\<^sup>* r1 r2" by auto
  with r1(2) show ?case by (auto intro: converse_rtranclp_into_rtranclp)
qed simp

lemma closed_stays:
  assumes "view s k = Some r" "Q r" "\<And>r r'. Q r \<Longrightarrow> moves r r' \<Longrightarrow> Q r'"
    and "\<not> list_ex (\<lambda>c. overwrites c k) cs"
  shows "\<exists>r'. view (run_steps_of step s cs) k = Some r' \<and> Q r'"
proof -
  obtain r' where r': "view (run_steps_of step s cs) k = Some r'" "moves\<^sup>*\<^sup>* r r'"
    using run_moves [OF assms(1,4)] by blast
  from r'(2) assms(2) have "Q r'" by (induction rule: rtranclp_induct) (auto intro: assms(3))
  with r'(1) show ?thesis by blast
qed

lemma final_stays:
  assumes "view s k = Some r" "\<And>r'. \<not> moves r r'" "\<not> list_ex (\<lambda>c. overwrites c k) cs"
  shows "view (run_steps_of step s cs) k = Some r"
  using closed_stays [of s k r "\<lambda>x. x = r" cs] assms by blast

lemma fact_kept:
  assumes "view s k = Some r" "\<And>r r'. moves r r' \<Longrightarrow> f r' = f r" "\<not> list_ex (\<lambda>c. overwrites c k) cs"
  shows "\<exists>r'. view (run_steps_of step s cs) k = Some r' \<and> f r' = f r"
proof (rule closed_stays [OF assms(1) _ _ assms(3)])
  show "f r2 = f r" if "f r1 = f r" "moves r1 r2" for r1 r2 using assms(2) [OF that(2)] that(1) by simp
qed simp

end

end
