(* ===== verification/Event_Contract.thy ===== *)
theory Event_Contract
  imports Event_Store State_Machine
begin

text \<open>
  What the event log promises: sequences are allocated one after the other, the retained
  events of a stream are a gapless run that ends at the latest sequence, the byte count of
  a stream is exact and within the retention bound after every append, the event just
  appended is always retained, and replaying from a sequence returns the retained events
  after it without a gap. Also: control requests only move along the allowed transitions,
  and a terminal one never changes again.
\<close>

section \<open>The invariant of the log\<close>

definition gapless :: "event_log_row list \<Rightarrow> int \<Rightarrow> bool" where
  "gapless rows hi = (map ev_sequence rows = [hi + 1 - int (length rows)..hi] \<and> int (length rows) \<le> hi)"

definition log_bytes :: "event_log_row list \<Rightarrow> int" where
  "log_bytes rows = sum_list (map ev_frame_bytes rows)"

definition log_row_ok :: "event_log_row \<Rightarrow> bool" where
  "log_row_ok r = (ev_frame_bytes r = int (length (ev_frame r)) \<and> parse_rfc3339 (ev_created_at r) \<noteq> None)"

definition stream_ok :: "event_log_row table \<Rightarrow> event_stream_row \<Rightarrow> bool" where
  "stream_ok log st =
     (gapless (stream_rows (stream_key st) log) (es_latest_sequence st) \<and>
      (stream_rows (stream_key st) log = [] \<longrightarrow> es_latest_sequence st = 0) \<and>
      log_bytes (stream_rows (stream_key st) log) = es_total_bytes st \<and> es_total_bytes st \<le> 2 ^ 62)"

definition event_inv :: "node_db \<Rightarrow> bool" where
  "event_inv db =
     (unique_key stream_key (event_streams db) \<and>
      list_all (stream_ok (event_log db)) (event_streams db) \<and>
      list_all log_row_ok (event_log db) \<and>
      list_all (\<lambda>r. stream_exists db (event_key r)) (event_log db))"

lemma gapless_snoc: "gapless rows hi \<Longrightarrow> ev_sequence r = hi + 1 \<Longrightarrow> gapless (rows @ [r]) (hi + 1)"
  by (auto simp: gapless_def upto_rec2 algebra_simps)

lemma gapless_Cons: "gapless (r # rows) hi \<Longrightarrow> gapless rows hi"
  by (auto simp: gapless_def upto_rec1 [of "hi - int (length rows)"] algebra_simps)

lemma gapless_drop: "gapless rows hi \<Longrightarrow> gapless (drop n rows) hi"
proof (induction n arbitrary: rows)
  case (Suc n)
  then show ?case by (cases rows) (auto dest: gapless_Cons)
qed simp

lemma gapless_hd: "gapless (r # rows) hi \<Longrightarrow> ev_sequence r = hi - int (length rows)"
  by (auto simp: gapless_def upto_rec1 [of "hi - int (length rows)"])

lemma gapless_sorted: "gapless rows hi \<Longrightarrow> sorted_wrt (\<lambda>a b. ev_sequence a < ev_sequence b) rows"
proof -
  assume "gapless rows hi"
  then have "sorted_wrt (<) (map ev_sequence rows)" by (simp add: gapless_def)
  then show ?thesis by (simp add: sorted_wrt_map)
qed

lemma gapless_order: "gapless rows hi \<Longrightarrow> order_by by_sequence rows = rows"
  by (rule order_by_sorted, drule gapless_sorted)
    (auto simp: by_sequence_def elim: sorted_wrt_mono_rel [rotated])

lemma gapless_first: "gapless (stream_rows k log) hi \<Longrightarrow> stream_rows k log = r # rest \<Longrightarrow> first_event k log = Some r"
  by (drule gapless_order) (simp add: first_event_def)

lemma first_event_Nil: "stream_rows k log = [] \<Longrightarrow> first_event k log = None"
  by (simp add: first_event_def order_by_def)

lemma stream_rows_insert:
  "stream_rows k (sql_insert r log) = stream_rows k log @ (if event_key r = k then [r] else [])"
  by (simp add: stream_rows_def sql_insert_def)

lemma stream_rows_drop_other: "event_key r \<noteq> k \<Longrightarrow> stream_rows k (drop_event r log) = stream_rows k log"
  by (auto simp: stream_rows_def drop_event_def sql_delete_def intro: filter_cong)

lemma stream_rows_drop_first:
  assumes "gapless (stream_rows k log) hi" "stream_rows k log = r # rest"
  shows "stream_rows k (drop_event r log) = rest"
proof -
  have k: "event_key r = k" using assms(2) by (auto simp: stream_rows_def filter_eq_Cons_iff)
  have "stream_rows k (drop_event r log) = filter (\<lambda>x. ev_sequence x \<noteq> ev_sequence r) (stream_rows k log)"
    using k by (auto simp: stream_rows_def drop_event_def sql_delete_def intro: filter_cong)
  also have "\<dots> = rest"
    using gapless_sorted [OF assms(1)] unfolding assms(2) by (auto simp: filter_id_conv)
  finally show ?thesis .
qed

section \<open>Pruning\<close>

text \<open>What the loop returns: the events before some point are gone with their outbox frames,
  the last one is kept, and the byte count is that of the rest.\<close>

definition pruned_to :: "string \<times> string \<times> string \<Rightarrow> int \<Rightarrow> event_log_row table \<Rightarrow> event_log_row table \<Rightarrow> int \<Rightarrow> bool" where
  "pruned_to k maxBytes log log' tot' =
     ((\<exists>n. n < length (stream_rows k log) \<and> stream_rows k log' = drop n (stream_rows k log)) \<and>
      (\<forall>k'. k' \<noteq> k \<longrightarrow> stream_rows k' log' = stream_rows k' log) \<and>
      set log' \<subseteq> set log \<and> tot' = log_bytes (stream_rows k log') \<and> tot' \<le> maxBytes)"

definition newest_kept :: "gotime \<Rightarrow> int \<Rightarrow> event_log_row list \<Rightarrow> bool" where
  "newest_kept cutoff maxBytes rows =
     (rows \<noteq> [] \<and> ev_frame_bytes (last rows) \<le> maxBytes \<and>
      (\<exists>c. parse_rfc3339 (ev_created_at (last rows)) = Some c \<and> cutoff \<le> c))"

lemma log_bytes_Cons [simp]: "log_bytes (r # rs) = ev_frame_bytes r + log_bytes rs"
  by (simp add: log_bytes_def)

lemma log_bytes_Nil [simp]: "log_bytes [] = 0"
  by (simp add: log_bytes_def)

lemma log_bytes_snoc: "log_bytes (rs @ [r]) = log_bytes rs + ev_frame_bytes r"
  by (simp add: log_bytes_def)

lemma log_bytes_nonneg: "list_all log_row_ok rs \<Longrightarrow> 0 \<le> log_bytes rs"
  by (induction rs) (auto simp: log_row_ok_def)

lemma pruneEvents_ok:
  assumes "gapless (stream_rows k log) hi" "newest_kept cutoff maxBytes (stream_rows k log)"
    and "list_all log_row_ok (stream_rows k log)" "tot = log_bytes (stream_rows k log)" "tot < 2 ^ 63"
  shows "(pruneEvents e n k cutoff maxBytes log ob tot = Inr (log', ob', tot') \<longrightarrow> pruned_to k maxBytes log log' tot') \<and>
    ((\<forall>i. \<not> call_fails e i) \<longrightarrow> \<not> isl (pruneEvents e n k cutoff maxBytes log ob tot))"
  using assms
proof (induction e n k cutoff maxBytes log ob tot rule: pruneEvents.induct)
  case (1 e n k cutoff maxBytes log ob tot)
  obtain r rest where rows: "stream_rows k log = r # rest"
    using 1(3) by (auto simp: newest_kept_def neq_Nil_conv)
  have first: "first_event k log = Some r" by (rule gapless_first [OF 1(2) rows])
  obtain c where c: "parse_rfc3339 (ev_created_at r) = Some c"
    using 1(4) rows by (auto simp: log_row_ok_def)
  have keep: "pruned_to k maxBytes log log tot" if "tot \<le> maxBytes"
    using that 1(5) rows by (auto simp: pruned_to_def intro: exI [of _ 0])
  show ?case
  proof (cases "cutoff \<le> c \<and> tot \<le> maxBytes")
    case True
    then show ?thesis
      using keep by (subst (1 2) pruneEvents.simps) (auto simp: first c)
  next
    case False
    let ?log = "drop_event r log"
    have ne: "rest \<noteq> []"
      using False 1(3,5) rows c by (auto simp: newest_kept_def)
    have rows': "stream_rows k ?log = rest" by (rule stream_rows_drop_first [OF 1(2) rows])
    have nn: "0 \<le> log_bytes rest" "0 \<le> ev_frame_bytes r"
      using 1(4) rows log_bytes_nonneg [of rest] by (auto simp: log_row_ok_def [of r])
    have tot': "int64 (tot - ev_frame_bytes r) = log_bytes rest"
      using 1(5,6) rows nn by simp
    have key: "event_key r = k" using first first_event_in by blast
    have up: "pruned_to k maxBytes log log' tot'" if "pruned_to k maxBytes ?log log' tot'" for log' tot'
    proof -
      from that obtain m where m: "m < length rest" "stream_rows k log' = drop m rest"
        by (auto simp: pruned_to_def rows')
      then have "Suc m < length (stream_rows k log)" "stream_rows k log' = drop (Suc m) (stream_rows k log)"
        using rows by auto
      moreover have "set ?log \<subseteq> set log" by (auto simp: drop_event_def set_sql_delete)
      moreover have "\<forall>k'. k' \<noteq> k \<longrightarrow> stream_rows k' ?log = stream_rows k' log"
        using key stream_rows_drop_other by metis
      ultimately show ?thesis using that unfolding pruned_to_def by (metis subset_trans)
    qed
    show ?thesis
    proof (cases "call_fails e n \<or> call_fails e (n + 1) \<or> call_fails e (n + 2)")
      case True
      then show ?thesis using False by (subst (1 2) pruneEvents.simps) (auto simp: first c)
    next
      case ok: False
      have step: "pruneEvents e n k cutoff maxBytes log ob tot =
          pruneEvents e (n + 3) k cutoff maxBytes ?log (sql_delete (\<lambda>x. ob_message_id x = ev_message_id r) ob) (log_bytes rest)"
        using ok False tot' by (subst pruneEvents.simps) (auto simp: first c)
      have "newest_kept cutoff maxBytes (stream_rows k ?log)" "gapless (stream_rows k ?log) hi"
        "list_all log_row_ok (stream_rows k ?log)" "log_bytes rest < 2 ^ 63"
        using 1(2-6) ne nn rows rows' by (auto simp: newest_kept_def dest: gapless_Cons)
      then have "(pruneEvents e (n + 3) k cutoff maxBytes ?log (sql_delete (\<lambda>x. ob_message_id x = ev_message_id r) ob) (log_bytes rest) = Inr (log', ob', tot') \<longrightarrow>
            pruned_to k maxBytes ?log log' tot') \<and>
          ((\<forall>i. \<not> call_fails e i) \<longrightarrow>
            \<not> isl (pruneEvents e (n + 3) k cutoff maxBytes ?log (sql_delete (\<lambda>x. ob_message_id x = ev_message_id r) ob) (log_bytes rest)))"
        using 1(1) [OF _ first c, unfolded tot'] ok False rows' by auto
      then show ?thesis unfolding step using up by blast
    qed
  qed
qed

section \<open>Appending\<close>

interpretation stream_write: keyed_table stream_key set_stream
  by unfold_locales (auto simp: stream_key_def set_stream_def)

interpretation stream_total: keyed_table stream_key set_total
  by unfold_locales (auto simp: stream_key_def set_total_def)

definition latest_sequence :: "node_db \<Rightarrow> event_binding \<Rightarrow> int" where
  "latest_sequence db b =
     (case sql_row (\<lambda>r. stream_key r = binding_key b) (event_streams db) of None \<Rightarrow> 0 | Some st \<Rightarrow> es_latest_sequence st)"

lemma stream_key_new [simp]: "stream_key (new_stream b now) = binding_key b"
  by (simp add: stream_key_def new_stream_def binding_key_def)

lemma event_key_row [simp]: "event_key (event_row b t n m ty f now) = binding_key b"
  by (simp add: event_key_def event_row_def binding_key_def)

lemma event_inv_no_stream:
  assumes "event_inv db" "\<not> stream_exists db k"
  shows "stream_rows k (event_log db) = []"
  using assms by (auto simp: event_inv_def stream_rows_def list_all_iff filter_empty_conv)

lemma ensure_stream_inv:
  assumes "event_inv db"
  shows "event_inv (db\<lparr>event_streams := ensure_stream b now (event_streams db)\<rparr>)"
proof (cases "stream_exists db (binding_key b)")
  case True
  then have "ensure_stream b now (event_streams db) = event_streams db"
    by (simp add: ensure_stream_def stream_exists_def)
  then show ?thesis using assms by (simp add: event_inv_def stream_exists_def)
next
  case False
  have "stream_ok (event_log db) (new_stream b now)"
    using event_inv_no_stream [OF assms False]
    by (simp add: stream_ok_def gapless_def) (simp add: new_stream_def)
  moreover have "unique_key stream_key (sql_insert (new_stream b now) (event_streams db))"
    using False assms by (simp add: unique_sql_insert event_inv_def stream_exists_def)
  ultimately show ?thesis using False assms
    by (auto simp: event_inv_def ensure_stream_def stream_exists_def set_sql_insert sql_exists_insert list_all_iff)
qed

lemma stream_ok_new: "stream_rows (binding_key b) log = [] \<Longrightarrow> stream_ok log (new_stream b now)"
  by (simp add: stream_ok_def gapless_def) (simp add: new_stream_def)

lemma ensure_stream_latest:
  "latest_sequence (db\<lparr>event_streams := ensure_stream b now (event_streams db)\<rparr>) b = latest_sequence db b"
proof (cases "sql_row (\<lambda>r. stream_key r = binding_key b) (event_streams db)")
  case None
  then have "\<not> sql_exists (\<lambda>r. stream_key r = binding_key b) (event_streams db)" using sql_row_None by blast
  with None show ?thesis
    by (simp add: latest_sequence_def ensure_stream_def sql_row_insert) (simp add: new_stream_def)
next
  case (Some st)
  then have "sql_exists (\<lambda>r. stream_key r = binding_key b) (event_streams db)"
    using sql_row_None by (metis option.distinct(1))
  then show ?thesis by (simp add: latest_sequence_def ensure_stream_def)
qed

text \<open>The log after the row of the new event has been added.\<close>

lemma newest_appended:
  assumes "0 < ret_max_age ret" "MaxEventFrameBytes \<le> ret_max_bytes ret" "int (length frame) \<le> MaxEventFrameBytes"
  shows "newest_kept (createdAt - ret_max_age ret) (ret_max_bytes ret)
    (rows @ [event_row b t n m ty frame (timestamp createdAt)])"
  using assms by (simp add: newest_kept_def event_row_def)

lemma event_row_ok: "log_row_ok (event_row b t n m ty frame (timestamp createdAt))"
  by (simp add: log_row_ok_def event_row_def)

definition append_post :: "node_db \<Rightarrow> event_binding \<Rightarrow> event_retention \<Rightarrow> node_db \<Rightarrow> event_record \<Rightarrow> bool" where
  "append_post db b ret db' r =
     (er_sequence r = latest_sequence db b + 1 \<and> latest_sequence db' b = er_sequence r \<and>
      (let rows = stream_rows (binding_key b) (event_log db') in
         rows \<noteq> [] \<and> ev_sequence (last rows) = er_sequence r \<and> ev_message_id (last rows) = er_message_id r \<and>
         ev_frame (last rows) = er_frame r \<and> log_bytes rows \<le> ret_max_bytes ret) \<and>
      (\<forall>k. k \<noteq> binding_key b \<longrightarrow> stream_rows k (event_log db') = stream_rows k (event_log db)))"

lemma write_event_ok:
  assumes inv: "event_inv db" and st: "sql_row (\<lambda>r. stream_key r = binding_key b) (event_streams db) = Some st"
    and ret: "0 < ret_max_age ret" "MaxEventFrameBytes \<le> ret_max_bytes ret" "ret_max_bytes ret \<le> 2 ^ 62"
    and frame: "int (length frame) \<le> MaxEventFrameBytes"
    and w: "write_event e db b target ty createdAt ret mut (es_latest_sequence st + 1) (es_total_bytes st) mid frame = Inr (db', r)"
  shows "event_inv db' \<and> append_post db b ret db' r"
proof -
  let ?k = "binding_key b"
  let ?row = "event_row b target (es_latest_sequence st + 1) mid ty frame (timestamp createdAt)"
  let ?log = "sql_insert ?row (event_log db)"
  let ?tot = "es_total_bytes st + int (length frame)"
  have mem: "st \<in> set (event_streams db)" "stream_key st = ?k" using sql_row_SomeD [OF st] by auto
  have sok: "gapless (stream_rows ?k (event_log db)) (es_latest_sequence st)"
    "log_bytes (stream_rows ?k (event_log db)) = es_total_bytes st" "es_total_bytes st \<le> 2 ^ 62"
    using inv mem by (auto simp: event_inv_def list_all_iff stream_ok_def)
  have here: "stream_exists db ?k" using mem by (auto simp: stream_exists_def sql_exists_iff)
  have rowsok: "list_all log_row_ok (event_log db)" using inv by (simp add: event_inv_def)
  have rows: "stream_rows ?k ?log = stream_rows ?k (event_log db) @ [?row]" by (simp add: stream_rows_insert)
  have nn: "0 \<le> es_total_bytes st"
    using sok(2) log_bytes_nonneg [of "stream_rows ?k (event_log db)"] rowsok by (simp add: stream_rows_def list_all_iff)
  have tot: "int64 ?tot = ?tot" using nn sok(3) frame by simp
  have prune: "pruned_to ?k (ret_max_bytes ret) ?log log' tot'"
    if "pruneEvents e 9 ?k (createdAt - ret_max_age ret) (ret_max_bytes ret) ?log ob ?tot = Inr (log', ob', tot')" for ob log' ob' tot'
  proof -
    have "gapless (stream_rows ?k ?log) (es_latest_sequence st + 1)"
      unfolding rows by (rule gapless_snoc [OF sok(1)]) (simp add: event_row_def)
    moreover have "newest_kept (createdAt - ret_max_age ret) (ret_max_bytes ret) (stream_rows ?k ?log)"
      unfolding rows by (rule newest_appended [OF ret(1,2) frame])
    moreover have "list_all log_row_ok (stream_rows ?k ?log)"
      using rowsok event_row_ok unfolding rows by (auto simp: stream_rows_def list_all_iff)
    moreover have "?tot = log_bytes (stream_rows ?k ?log)"
      unfolding rows log_bytes_snoc sok(2) by (simp add: event_row_def)
    moreover have "?tot < 2 ^ 63" using sok(3) frame by simp
    ultimately show ?thesis using pruneEvents_ok that by blast
  qed
  obtain log' ob' tot' controls where
    pr: "pruneEvents e 9 ?k (createdAt - ret_max_age ret) (ret_max_bytes ret) ?log
      (sql_insert (outbox_entry db mid (eb_stream b) (es_latest_sequence st + 1) frame (timestamp createdAt)) (outbox db)) ?tot =
      Inr (log', ob', tot')" and
    db': "db' = db\<lparr>event_log := log', outbox := ob', outbox_autoincrement := outbox_autoincrement db + 1,
      control_requests := controls,
      event_streams := update_stream ?k (set_total tot')
        (update_stream ?k (set_stream (es_latest_sequence st + 1, ?tot, timestamp createdAt)) (event_streams db))\<rparr>" and
    r: "r = stored_event b target (es_latest_sequence st + 1) mid ty frame createdAt"
    using w unfolding write_event_def Let_def tot
    by (auto split: if_splits sum.splits) (auto simp: outbox_entry_def)
  from prune [OF pr] obtain n where n: "n < length (stream_rows ?k ?log)" "stream_rows ?k log' = drop n (stream_rows ?k ?log)"
    and other: "\<And>k. k \<noteq> ?k \<Longrightarrow> stream_rows k log' = stream_rows k (event_log db)"
    and sub: "set log' \<subseteq> insert ?row (set (event_log db))" and tot': "tot' = log_bytes (stream_rows ?k log')" "tot' \<le> ret_max_bytes ret"
    by (auto simp: pruned_to_def stream_rows_insert set_sql_insert)
  let ?f = "\<lambda>x. if stream_key x = ?k then set_total tot' (set_stream (es_latest_sequence st + 1, ?tot, timestamp createdAt) x) else x"
  have streams: "event_streams db' = map ?f (event_streams db)"
    unfolding db' update_stream_def sql_update_def by (auto simp: stream_write.key_upd)
  have keyf: "stream_key (?f x) = stream_key x" for x by (simp add: stream_write.key_upd stream_total.key_upd)
  have ex: "stream_exists db' k = stream_exists db k" for k
    unfolding stream_exists_def streams sql_exists_def by (simp only: list_ex_iff set_map bex_simps keyf)
  have gap: "gapless (stream_rows ?k log') (es_latest_sequence st + 1)"
    unfolding n(2) rows by (intro gapless_drop gapless_snoc [OF sok(1)]) (simp add: event_row_def)
  have ok': "stream_ok log' (?f x)" if "x \<in> set (event_streams db)" for x
  proof (cases "stream_key x = ?k")
    case True
    then have lat: "es_latest_sequence (?f x) = es_latest_sequence st + 1" "es_total_bytes (?f x) = tot'"
      by (simp_all add: set_total_def set_stream_def)
    then show ?thesis
      unfolding stream_ok_def keyf using True gap tot' ret(3) n by simp
  next
    case False
    then show ?thesis using inv that other by (auto simp: event_inv_def stream_ok_def list_all_iff)
  qed
  have "event_inv db'"
    unfolding event_inv_def ex
  proof (intro conjI)
    show "unique_key stream_key (event_streams db')"
      using inv unfolding streams by (simp add: event_inv_def unique_key_def comp_def keyf)
    show "list_all (stream_ok (event_log db')) (event_streams db')"
    proof -
      have "event_log db' = log'" by (simp add: db')
      then show ?thesis unfolding streams list_all_iff set_map ball_simps using ok' by simp
    qed
    show "list_all log_row_ok (event_log db')"
      using sub rowsok event_row_ok by (auto simp: db' list_all_iff)
    show "list_all (\<lambda>r. stream_exists db (event_key r)) (event_log db')"
      using sub inv here by (auto simp: db' list_all_iff event_inv_def dest!: subsetD)
  qed
  moreover have "append_post db b ret db' r"
  proof -
    have "last (stream_rows ?k log') = ?row" "stream_rows ?k log' \<noteq> []"
      unfolding n(2) using n(1) rows by (auto simp: last_drop)
    moreover have "latest_sequence db' b = es_latest_sequence st + 1"
      unfolding latest_sequence_def db' update_stream_def
      by (simp add: stream_total.row_update stream_write.row_update st) (simp add: set_total_def set_stream_def)
    moreover have "latest_sequence db b = es_latest_sequence st" by (simp add: latest_sequence_def st)
    ultimately show ?thesis
      using other tot' unfolding append_post_def r Let_def
      by (simp add: db' stored_event_def) (simp add: event_row_def)
  qed
  ultimately show ?thesis by blast
qed

lemma append_cases:
  assumes "appendEvent e clock db b target ty createdAt ret mut build = (db', Inr r)"
  obtains st mid frame at db1 where
    "at = (if IsZero createdAt then clock else createdAt)"
    "db1 = db\<lparr>event_streams := ensure_stream b (timestamp at) (event_streams db)\<rparr>"
    "0 < ret_max_age ret" "MaxEventFrameBytes \<le> ret_max_bytes ret"
    "sql_row (\<lambda>r. stream_key r = binding_key b) (event_streams db1) = Some st"
    "int (length frame) \<le> MaxEventFrameBytes"
    "write_event e db1 b target ty at ret mut (es_latest_sequence st + 1) (es_total_bytes st) mid frame = Inr (db', r)"
proof -
  have g: "store_guard e (\<not> (\<not> validEventBinding b \<or> \<not> validOptionalEventTarget target \<or>
      \<not> validWorkspaceText ty 128 \<or> build = None \<or> ret_max_age ret \<le> 0 \<or> ret_max_bytes ret < MaxEventFrameBytes)) = None"
    using assms by (auto simp: appendEvent_def split: option.splits)
  have v: "0 < ret_max_age ret" "MaxEventFrameBytes \<le> ret_max_bytes ret" using store_guard_NoneD [OF g] by auto
  let ?at = "if IsZero createdAt then clock else createdAt"
  let ?db1 = "db\<lparr>event_streams := ensure_stream b (timestamp ?at) (event_streams db)\<rparr>"
  from assms g obtain st mid frame where
    st: "sql_row (\<lambda>r. stream_key r = binding_key b) (event_streams ?db1) = Some st"
    and frame: "int (length frame) \<le> MaxEventFrameBytes"
    and w: "write_event e ?db1 b target ty ?at ret mut (es_latest_sequence st + 1) (es_total_bytes st) mid frame = Inr (db', r)"
    by (auto simp: appendEvent_def transact_val_Inr_iff Let_def not_less split: if_splits option.splits)
  show ?thesis by (rule that [OF refl refl v st frame w])
qed

lemma append_event_ok:
  assumes inv: "event_inv db" and ret: "ret_max_bytes ret \<le> 2 ^ 62"
    and app: "appendEvent e clock db b target ty createdAt ret mut build = (db', Inr r)"
  shows "event_inv db' \<and> append_post db b ret db' r"
  using app
proof (rule append_cases)
  fix st mid frame at db1
  assume db1: "db1 = db\<lparr>event_streams := ensure_stream b (timestamp at) (event_streams db)\<rparr>"
    and v: "0 < ret_max_age ret" "MaxEventFrameBytes \<le> ret_max_bytes ret"
    and st: "sql_row (\<lambda>r. stream_key r = binding_key b) (event_streams db1) = Some st"
    and frame: "int (length frame) \<le> MaxEventFrameBytes"
    and w: "write_event e db1 b target ty at ret mut (es_latest_sequence st + 1) (es_total_bytes st) mid frame = Inr (db', r)"
  have "event_inv db1" unfolding db1 by (rule ensure_stream_inv [OF inv])
  from write_event_ok [OF this st v ret frame w]
  show ?thesis by (simp add: db1 append_post_def ensure_stream_latest Let_def)
qed

section \<open>Replaying\<close>

lemma filter_upto_greater: "filter (\<lambda>x. a < x) [lo..hi] = [max (a + 1) lo..hi]"
proof (induction lo hi rule: upto.induct)
  case (1 lo hi)
  show ?case
  proof (cases "lo \<le> hi")
    case True
    then have "[lo..hi] = lo # [lo + 1..hi]" by (simp add: upto_rec1)
    then show ?thesis using 1 True by (auto simp: max_def upto_rec1)
  qed (auto simp: max_def)
qed

lemma scan_rows_all: "list_all (\<lambda>r. f r \<noteq> None) rs \<Longrightarrow> scan_rows f rs = Inr (map (the \<circ> f) rs)"
  by (induction rs) auto

lemma foldl_min_ge: "(\<And>y. y \<in> set ys \<Longrightarrow> (x :: int) \<le> y) \<Longrightarrow> foldl min x ys = x"
  by (induction ys) (auto simp: min_def)

lemma gapless_earliest:
  assumes "gapless rows hi" "rows \<noteq> []"
  shows "(case map ev_sequence rows of [] \<Rightarrow> 0 | s # ss \<Rightarrow> foldl min s ss) = hi + 1 - int (length rows)"
proof -
  obtain r rs where rows: "rows = r # rs" using assms(2) by (cases rows) auto
  have "ev_sequence r \<le> y" if "y \<in> set (map ev_sequence rs)" for y
    using gapless_sorted [OF assms(1)] that rows by (auto intro: less_imp_le)
  then have "foldl min (ev_sequence r) (map ev_sequence rs) = ev_sequence r" by (rule foldl_min_ge)
  then show ?thesis using gapless_hd assms(1) rows by force
qed

lemma no_stream: "sql_row (\<lambda>r. stream_key r = k) (event_streams db) = None \<Longrightarrow> \<not> stream_exists db k"
  by (simp add: stream_exists_def sql_row_None)

lemma inv_gapless:
  assumes "event_inv db"
  shows "gapless (stream_rows (binding_key b) (event_log db)) (latest_sequence db b)" (is ?gap)
    and "stream_rows (binding_key b) (event_log db) = [] \<longrightarrow> latest_sequence db b = 0" (is ?empty)
proof -
  have "?gap \<and> ?empty"
  proof (cases "sql_row (\<lambda>r. stream_key r = binding_key b) (event_streams db)")
    case None
    then have "stream_rows (binding_key b) (event_log db) = []"
      by (intro event_inv_no_stream [OF assms]) (simp add: no_stream)
    with None show ?thesis by (simp add: gapless_def latest_sequence_def)
  next
    case (Some st)
    then have "stream_ok (event_log db) st" "stream_key st = binding_key b"
      using assms sql_row_SomeD [OF Some] by (auto simp: event_inv_def list_all_iff)
    with Some show ?thesis by (simp add: stream_ok_def latest_sequence_def)
  qed
  then show ?gap ?empty by blast+
qed

definition replayed :: "node_db \<Rightarrow> event_binding \<Rightarrow> int \<Rightarrow> int \<Rightarrow> event_record list \<Rightarrow> event_head \<Rightarrow> bool" where
  "replayed db b after limit records head =
     (eh_latest head = latest_sequence db b \<and>
      map er_sequence records = take (nat limit) [max (after + 1) (eh_earliest head)..eh_latest head] \<and>
      list_all (\<lambda>r. list_ex (\<lambda>x. row_event b x = Some r) (stream_rows (binding_key b) (event_log db))) records)"

lemma row_event_sequence: "row_event b r = Some x \<Longrightarrow> er_sequence x = ev_sequence r"
  by (auto simp: row_event_def stored_event_def)

lemma replay_events_ok:
  assumes inv: "event_inv db" and b: "validEventBinding b"
    and after: "0 \<le> after" "after \<le> latest_sequence db b" "after \<le> max_js_sequence"
    and limit: "1 \<le> limit" "limit \<le> MaxReplayRecords"
  shows "\<exists>records head. ReplayEvents live_env db b after limit = Inr (records, head) \<and> replayed db b after limit records head"
proof -
  let ?k = "binding_key b" let ?rows = "stream_rows ?k (event_log db)"
  let ?sel = "filter (\<lambda>r. after < ev_sequence r) ?rows"
  let ?lo = "if ?rows = [] then 0 else latest_sequence db b + 1 - int (length ?rows)"
  have rowsok: "list_all log_row_ok ?rows"
    using inv by (auto simp: event_inv_def stream_rows_def list_all_iff)
  note gap = inv_gapless [OF inv, of b]
  have empty: "?rows = [] \<Longrightarrow> latest_sequence db b = 0" using gap(2) by blast
  obtain head where head: "readEventHead False db b = Inr head" "eh_latest head = latest_sequence db b" "eh_earliest head = ?lo"
  proof (cases "sql_row (\<lambda>r. stream_key r = ?k) (event_streams db)")
    case None
    then have "?rows = []" by (intro event_inv_no_stream [OF inv]) (simp add: no_stream)
    with None that show ?thesis by (simp add: readEventHead_def zero_head_def latest_sequence_def)
  next
    case (Some st)
    with that gapless_earliest [OF gap(1)] show ?thesis
      by (cases "?rows = []") (simp_all add: readEventHead_def latest_sequence_def)
  qed
  have ord: "order_by by_sequence ?sel = ?sel"
    using gapless_sorted [OF gap(1)]
    by (intro order_by_sorted sorted_wrt_filter) (auto simp: by_sequence_def elim: sorted_wrt_mono_rel [rotated])
  have "map ev_sequence ?sel = filter (\<lambda>x. after < x) (map ev_sequence ?rows)" by (simp add: filter_map comp_def)
  also have "\<dots> = [max (after + 1) ?lo..latest_sequence db b]"
    using gap(1) empty after by (cases "?rows = []") (simp_all add: gapless_def filter_upto_greater)
  finally have seqs: "map ev_sequence ?sel = [max (after + 1) ?lo..latest_sequence db b]" .
  let ?out = "take (nat limit) ?sel"
  have parses: "row_event b r \<noteq> None" if "r \<in> set ?out" for r
    using that rowsok by (auto simp: row_event_def log_row_ok_def list_all_iff dest!: in_set_takeD)
  then have scan: "scan_rows (row_event b) ?out = Inr (map (the \<circ> row_event b) ?out)"
    by (intro scan_rows_all) (simp add: list_all_iff)
  have "ReplayEvents live_env db b after limit = Inr (map (the \<circ> row_event b) ?out, head)"
    using b after limit by (simp add: ReplayEvents_def head(1,2) ord scan)
  moreover have "replayed db b after limit (map (the \<circ> row_event b) ?out) head"
    unfolding replayed_def
  proof (intro conjI)
    show "eh_latest head = latest_sequence db b" by (rule head(2))
    have "map er_sequence (map (the \<circ> row_event b) ?out) = map ev_sequence ?out"
      using parses row_event_sequence by fastforce
    also have "\<dots> = take (nat limit) [max (after + 1) (eh_earliest head)..eh_latest head]"
      unfolding take_map [symmetric] seqs head by simp
    finally show "map er_sequence (map (the \<circ> row_event b) ?out) = take (nat limit) [max (after + 1) (eh_earliest head)..eh_latest head]" .
    show "list_all (\<lambda>r. list_ex (\<lambda>x. row_event b x = Some r) ?rows) (map (the \<circ> row_event b) ?out)"
      using parses by (fastforce simp: list_all_iff list_ex_iff dest: in_set_takeD)
  qed
  ultimately show ?thesis by blast
qed

section \<open>Control requests\<close>

interpretation control_table: keyed_table cr_message_id set_control
  by unfold_locales (auto simp: set_control_def)

lemma append_error_same: "appendEvent e clock db b t ty at ret mut build = (db', Inl x) \<Longrightarrow> db' = db"
  by (auto simp: appendEvent_def dest: transact_val_InlD split: option.splits)

lemma write_event_controls:
  "write_event e db b t ty at ret mut n tot mid frame = Inr (db', r) \<Longrightarrow>
    mutate_control e mut (eb_stream b) n at (control_requests db) = Inr (control_requests db') \<and> er_sequence r = n"
  by (auto simp: write_event_def Let_def stored_event_def split: if_splits sum.splits)

lemma append_controls:
  assumes "appendEvent e clock db b t ty at ret mut build = (db', Inr r)"
  shows "mutate_control e mut (eb_stream b) (er_sequence r) (if IsZero at then clock else at) (control_requests db) =
    Inr (control_requests db')"
  using assms
proof (rule append_cases)
  fix st mid frame a db1
  assume a: "a = (if IsZero at then clock else at)"
    and db1: "db1 = db\<lparr>event_streams := ensure_stream b (timestamp a) (event_streams db)\<rparr>"
    and w: "write_event e db1 b t ty a ret mut (es_latest_sequence st + 1) (es_total_bytes st) mid frame = Inr (db', r)"
  have "control_requests db1 = control_requests db" by (simp add: db1)
  with write_event_controls [OF w] show ?thesis unfolding a by simp
qed

lemma mutate_control_row:
  assumes "mutate_control e mut stream n now t = Inr t'"
  shows "sql_row (\<lambda>r. cr_message_id r = i) t' =
    map_option (\<lambda>r. case mut of None \<Rightarrow> r | Some m \<Rightarrow>
       if i = cm_message_id m \<and> cr_state r = ControlDispatching
       then set_control (cm_state m, cm_error_code m, stream, n, now) r else r)
      (sql_row (\<lambda>r. cr_message_id r = i) t)"
proof (cases mut)
  case None
  with assms show ?thesis by (simp add: mutate_control_def option.map_ident)
next
  case (Some m)
  with assms have "t' = sql_update (\<lambda>r. cr_message_id r = cm_message_id m \<and> cr_state r = ControlDispatching)
      (set_control (cm_state m, cm_error_code m, stream, n, now)) t"
    by (auto simp: mutate_control_def Let_def split: if_splits)
  then have row: "sql_row (\<lambda>r. cr_message_id r = i) t' = map_option
      (\<lambda>r. if cr_message_id r = cm_message_id m \<and> cr_state r = ControlDispatching
        then set_control (cm_state m, cm_error_code m, stream, n, now) r else r) (sql_row (\<lambda>r. cr_message_id r = i) t)"
    by (simp only: control_table.row_update_where)
  show ?thesis
  proof (cases "sql_row (\<lambda>r. cr_message_id r = i) t")
    case (Some r)
    then have "cr_message_id r = i" using sql_row_SomeD [OF Some] by simp
    with Some row \<open>mut = Some m\<close> show ?thesis by simp
  qed (use row in simp)
qed

text \<open>The calls that touch control requests, and a history of them.\<close>

datatype control_call =
    CCreate env gotime control_record
  | CTransition env gotime string string string string int
  | CAppend env gotime event_binding event_target string gotime event_retention frame_builder
  | CResult env gotime event_binding event_target string gotime event_retention control_event_mutation frame_builder

fun control_do :: "control_call \<Rightarrow> node_db \<Rightarrow> node_db" where
  "control_do (CCreate e clock r) db = fst (CreateControl e clock db r)"
| "control_do (CTransition e clock i next code stream n) db = fst (TransitionControl e clock db i next code stream n)"
| "control_do (CAppend e clock b t ty at ret build) db = fst (AppendEvent e clock db b t ty at ret (Some build))"
| "control_do (CResult e clock b t ty at ret m build) db = fst (AppendControlEvent e clock db b t ty at ret m (Some build))"

definition control_run :: "node_db \<Rightarrow> control_call list \<Rightarrow> node_db" where
  "control_run = run_steps_of control_do"

definition same_request :: "control_row \<Rightarrow> control_row \<Rightarrow> bool" where
  "same_request a b =
     (cr_message_id a = cr_message_id b \<and> cr_request_digest a = cr_request_digest b \<and> cr_control_type a = cr_control_type b \<and>
      cr_workspace_id a = cr_workspace_id b \<and> cr_thread_id a = cr_thread_id b \<and> cr_turn_id a = cr_turn_id b \<and>
      cr_item_id a = cr_item_id b \<and> cr_created_at a = cr_created_at b)"

definition control_moves :: "control_row \<Rightarrow> control_row \<Rightarrow> bool" where
  "control_moves a b = (same_request a b \<and> allowedControlTransition (cr_state a) (cr_state b))"

lemma same_request_set [simp]: "same_request r (set_control a r)"
  by (cases a) (simp add: same_request_def set_control_def)

lemma cr_state_set [simp]: "cr_state (set_control (s, a) r) = s"
  by (cases a) (simp add: set_control_def)

lemma control_append_moves:
  assumes "control_select db i = Some r" "appendEvent e clock db b t ty at ret mut build = (db', res)"
    and "\<And>m. mut = Some m \<Longrightarrow> isTerminalControlState (cm_state m)"
  shows "\<exists>r'. control_select db' i = Some r' \<and> (r' = r \<or> control_moves r r')"
proof (cases res)
  case (Inl x)
  then have "db' = db" using assms(2) append_error_same by blast
  with assms(1) show ?thesis by (simp add: control_moves_def)
next
  case (Inr rec)
  with assms(2) have "mutate_control e mut (eb_stream b) (er_sequence rec) (if IsZero at then clock else at) (control_requests db) =
      Inr (control_requests db')" by (intro append_controls) simp
  from mutate_control_row [OF this, of i] assms(1,3) show ?thesis
    by (auto simp: control_select_def control_moves_def allowedControlTransition_def isTerminalControlState_def
        split: option.splits)
qed

lemma transition_changes:
  assumes "fst (TransitionControl e clock db i nxt code stream n) \<noteq> db"
  shows "fst (TransitionControl e clock db i nxt code stream n) = db\<lparr>control_requests := sql_update (\<lambda>r. cr_message_id r = i)
      (set_control (nxt, code, stream, n, clock)) (control_requests db)\<rparr>"
    and "\<exists>cur. scanControl (call_fails e 1) (control_select db i) = Inr cur \<and> allowedControlTransition (ct_state cur) nxt"
proof -
  let ?v = "\<not> (\<not> validWorkspaceText i 128 \<or> \<not> validControlState nxt \<or> 128 < length code \<or>
             128 < length stream \<or> n < 0 \<or> max_js_sequence < n)"
  have g: "store_guard e ?v = None"
    using assms unfolding TransitionControl_def by (cases "store_guard e ?v") simp_all
  obtain cur where cur: "scanControl (call_fails e 1) (control_select db i) = Inr cur"
    using assms unfolding TransitionControl_def g
    by (cases "scanControl (call_fails e 1) (control_select db i)") (simp_all split: if_splits)
  define db' where "db' = db\<lparr>control_requests := sql_update (\<lambda>r. cr_message_id r = i)
      (set_control (nxt, code, stream, n, clock)) (control_requests db)\<rparr>"
  have "fst (TransitionControl e clock db i nxt code stream n) =
      (if call_fails e 0 \<or> ct_state cur = nxt \<or> \<not> allowedControlTransition (ct_state cur) nxt \<or>
          isTerminalControlState nxt \<and> (stream = [] \<or> n < 1) \<or> call_fails e 2 \<or> call_fails e 3 then db else db')"
    unfolding TransitionControl_def g cur db'_def by (auto simp: Let_def)
  with assms have "allowedControlTransition (ct_state cur) nxt \<and>
      fst (TransitionControl e clock db i nxt code stream n) = db'" by (metis (full_types))
  with cur show "fst (TransitionControl e clock db i nxt code stream n) = db\<lparr>control_requests := sql_update (\<lambda>r. cr_message_id r = i)
      (set_control (nxt, code, stream, n, clock)) (control_requests db)\<rparr>"
    "\<exists>cur. scanControl (call_fails e 1) (control_select db i) = Inr cur \<and> allowedControlTransition (ct_state cur) nxt"
    unfolding db'_def by blast+
qed

lemma control_do_moves:
  assumes "control_select db i = Some r"
  shows "\<exists>r'. control_select (control_do c db) i = Some r' \<and> (r' = r \<or> control_moves r r')"
proof (cases c)
  case (CCreate e clock q)
  have "preserves (\<lambda>db. control_select db i) db (CreateControl e clock db q)"
    unfolding CreateControl_def
    by (intro preserves_intros) (auto simp: preserves_def control_select_def sql_row_insert assms [unfolded control_select_def])
  then show ?thesis using assms CCreate by (simp add: preserves_def control_moves_def)
next
  case (CTransition e clock j nxt code stream n)
  show ?thesis
  proof (cases "control_do c db = db")
    case True
    then show ?thesis using assms by (simp add: control_moves_def)
  next
    case False
    note upd = transition_changes [OF False [unfolded CTransition control_do.simps], folded control_do.simps, folded CTransition]
    from upd(2) obtain s where s: "control_select db j = Some s" "allowedControlTransition (cr_state s) nxt"
      by (auto simp: scanControl_def split: if_splits option.splits)
    show ?thesis
      using assms s unfolding upd(1)
      by (cases "i = j") (auto simp: control_select_def control_table.row_update control_moves_def)
  qed
next
  case (CAppend e clock b t ty at ret build)
  then show ?thesis
    using control_append_moves [OF assms, of e clock b t ty at ret None "Some build"]
    by (cases "appendEvent e clock db b t ty at ret None (Some build)") (simp add: AppendEvent_def)
next
  case (CResult e clock b t ty at ret m build)
  then show ?thesis
    using control_append_moves [OF assms, of e clock b t ty at ret "Some m" "Some build"] assms
    by (cases "appendEvent e clock db b t ty at ret (Some m) (Some build)")
      (auto simp: AppendControlEvent_def control_moves_def)
qed

lemma terminal_stuck: "isTerminalControlState s \<Longrightarrow> \<not> allowedControlTransition s s'"
  by (simp add: allowedControlTransition_def)

interpretation control_machine: row_machine control_select control_do control_moves "\<lambda>_ _. False"
  by unfold_locales (use control_do_moves in blast)

lemma control_moves_reach:
  "control_moves\<^sup>*\<^sup>* a b \<Longrightarrow> same_request a b \<and> allowedControlTransition\<^sup>*\<^sup>* (cr_state a) (cr_state b)"
proof (induction rule: rtranclp_induct)
  case base
  then show ?case by (simp add: same_request_def)
next
  case (step b c)
  then show ?case by (auto simp: control_moves_def same_request_def intro: rtranclp.rtrancl_into_rtrancl)
qed

lemma control_run_moves:
  assumes "control_select db i = Some r"
  shows "\<exists>r'. control_select (control_run db cs) i = Some r' \<and> same_request r r' \<and>
    allowedControlTransition\<^sup>*\<^sup>* (cr_state r) (cr_state r') \<and> (isTerminalControlState (cr_state r) \<longrightarrow> r' = r)"
proof (cases "isTerminalControlState (cr_state r)")
  case True
  then have "control_select (control_run db cs) i = Some r"
    unfolding control_run_def
    by (intro control_machine.final_stays assms) (auto simp: control_moves_def terminal_stuck list_ex_iff)
  then show ?thesis by (simp add: same_request_def)
next
  case False
  with control_machine.run_moves [OF assms, of cs] control_moves_reach show ?thesis
    by (fastforce simp: control_run_def list_ex_iff)
qed

text \<open>The request whose result is appended.\<close>

lemma append_control_row:
  assumes "AppendControlEvent e clock db b target ty createdAt ret m build = (db', Inr r)"
    and keys: "unique_key cr_message_id (control_requests db)"
  shows "isTerminalControlState (cm_state m) \<and>
    (\<exists>c c'. control_select db (cm_message_id m) = Some c \<and> cr_state c = ControlDispatching \<and>
      control_select db' (cm_message_id m) = Some c' \<and> same_request c c' \<and> cr_state c' = cm_state m \<and>
      cr_error_code c' = nullText (cm_error_code m) \<and> cr_result_stream_id c' = nullText (eb_stream b) \<and>
      cr_result_sequence c' = nullableSequence (er_sequence r) \<and> (\<exists>t. cr_updated_at c' = timestamp t))"
proof -
  have app: "appendEvent e clock db b target ty createdAt ret (Some m) build = (db', Inr r)"
    and final: "isTerminalControlState (cm_state m)"
    using assms(1) by (auto simp: AppendControlEvent_def split: if_splits)
  let ?now = "if IsZero createdAt then clock else createdAt"
  note mc = append_controls [OF app]
  from mc have "sql_count (\<lambda>r. cr_message_id r = cm_message_id m \<and> cr_state r = ControlDispatching) (control_requests db) = 1"
    by (auto simp: mutate_control_def Let_def split: if_splits)
  then have "filter (\<lambda>r. cr_message_id r = cm_message_id m \<and> cr_state r = ControlDispatching) (control_requests db) \<noteq> []"
    by (auto simp: sql_count_def)
  then obtain c where c: "c \<in> set (control_requests db)" "cr_message_id c = cm_message_id m" "cr_state c = ControlDispatching"
    by (auto simp: filter_empty_conv)
  have sel: "control_select db (cm_message_id m) = Some c"
    unfolding control_select_def using control_table.row_unique [OF keys c(1)] c(2) by simp
  have "control_select db' (cm_message_id m) =
      Some (set_control (cm_state m, cm_error_code m, eb_stream b, er_sequence r, ?now) c)"
    using mutate_control_row [OF mc, of "cm_message_id m"] sel c(3) by (simp add: control_select_def)
  with final sel c(3) show ?thesis by (auto simp: set_control_def same_request_def)
qed

section \<open>When an append succeeds\<close>

lemma valid_binding_sql:
  assumes "validEventBinding b"
  shows "length_between 1 128 (eb_owner b)" "length_between 1 128 (eb_node b)" "length_between 1 128 (eb_stream b)"
  using assms by (simp_all add: validEventBinding_def text_between)

definition append_ready :: "node_db \<Rightarrow> event_binding \<Rightarrow> string \<Rightarrow> bytes \<Rightarrow> bool" where
  "append_ready db b mid frame =
     (validWorkspaceText mid 128 \<and> int (length frame) \<le> MaxEventFrameBytes \<and> latest_sequence db b < max_js_sequence \<and>
      \<not> sql_exists (\<lambda>x. ev_message_id x = mid) (event_log db) \<and> \<not> sql_exists (\<lambda>x. ob_message_id x = mid) (outbox db) \<and>
      \<not> sql_exists (\<lambda>x. ob_stream_id x = eb_stream b \<and> ob_sequence x = latest_sequence db b + 1) (outbox db))"

lemma gapless_bound: "gapless rows hi \<Longrightarrow> r \<in> set rows \<Longrightarrow> ev_sequence r \<le> hi"
proof -
  assume g: "gapless rows hi" and "r \<in> set rows"
  then have "ev_sequence r \<in> set (map ev_sequence rows)" by simp
  also have "map ev_sequence rows = [hi + 1 - int (length rows)..hi]" using g by (simp add: gapless_def)
  finally show ?thesis by simp
qed

lemma write_event_succeeds:
  assumes inv: "event_inv db" and st: "sql_row (\<lambda>r. stream_key r = binding_key b) (event_streams db) = Some st"
    and b: "validEventBinding b" and ty: "validWorkspaceText ty 128" and ready: "append_ready db b mid frame"
    and ret: "0 < ret_max_age ret" "MaxEventFrameBytes \<le> ret_max_bytes ret"
  shows "\<exists>db' r. write_event live_env db b t ty at ret None (es_latest_sequence st + 1) (es_total_bytes st) mid frame = Inr (db', r) \<and>
    er_message_id r = mid"
proof -
  let ?k = "binding_key b" let ?n = "es_latest_sequence st + 1"
  let ?row = "event_row b t ?n mid ty frame (timestamp at)"
  let ?ob = "outbox_entry db mid (eb_stream b) ?n frame (timestamp at)"
  let ?log = "sql_insert ?row (event_log db)" let ?tot = "es_total_bytes st + int (length frame)"
  have mem: "st \<in> set (event_streams db)" "stream_key st = ?k" using sql_row_SomeD [OF st] by auto
  have lat: "latest_sequence db b = es_latest_sequence st" by (simp add: latest_sequence_def st)
  have sok: "gapless (stream_rows ?k (event_log db)) (es_latest_sequence st)"
    "log_bytes (stream_rows ?k (event_log db)) = es_total_bytes st" "es_total_bytes st \<le> 2 ^ 62"
    using inv mem by (auto simp: event_inv_def list_all_iff stream_ok_def)
  have rowsok: "list_all log_row_ok (stream_rows ?k ?log)"
    using inv event_row_ok by (auto simp: event_inv_def stream_rows_insert list_all_iff) (simp add: stream_rows_def)
  have nn: "0 \<le> es_total_bytes st"
    using sok(2) log_bytes_nonneg [of "stream_rows ?k (event_log db)"] rowsok by (simp add: stream_rows_insert)
  have tot: "int64 ?tot = ?tot" "0 \<le> ?tot" "?tot < 2 ^ 63"
    using nn sok(3) ready by (simp_all add: append_ready_def)
  have rows: "stream_rows ?k ?log = stream_rows ?k (event_log db) @ [?row]" by (simp add: stream_rows_insert)
  have "\<not> sql_exists (\<lambda>x. event_key x = ?k \<and> ev_sequence x = ?n) (event_log db)"
    using gapless_bound [OF sok(1)] by (force simp: sql_exists_iff stream_rows_def)
  moreover have "stream_exists db ?k" using mem by (auto simp: stream_exists_def sql_exists_iff)
  moreover have "0 \<le> es_latest_sequence st" using sok(1) by (auto simp: gapless_def intro: order_trans [of 0 "int n" for n])
  ultimately have log_ok: "event_log_insert_ok db ?row"
    using ready ty unfolding event_log_insert_ok_def event_key_row append_ready_def lat
    by (auto simp: event_log_check_def event_row_def text_between)
  have ob_ok: "outbox_insert_ok db ?ob"
    using ready valid_binding_sql [OF b] \<open>0 \<le> es_latest_sequence st\<close> unfolding append_ready_def lat
    by (auto simp: outbox_insert_ok_def outbox_slot_free_def outbox_check_def outbox_entry_def text_between)
  have gap: "gapless (stream_rows ?k ?log) ?n"
    unfolding rows by (rule gapless_snoc [OF sok(1)]) (simp add: event_row_def)
  have new: "newest_kept (at - ret_max_age ret) (ret_max_bytes ret) (stream_rows ?k ?log)"
    unfolding rows using ready by (intro newest_appended ret) (simp add: append_ready_def)
  have bytes: "?tot = log_bytes (stream_rows ?k ?log)"
    unfolding rows log_bytes_snoc sok(2) by (simp add: event_row_def)
  note pr = pruneEvents_ok [OF gap new rowsok bytes tot(3), of live_env 9 "sql_insert ?ob (outbox db)"]
  obtain log' ob' tot' where p: "pruneEvents live_env 9 ?k (at - ret_max_age ret) (ret_max_bytes ret) ?log
      (sql_insert ?ob (outbox db)) ?tot = Inr (log', ob', tot')"
    using pr by (metis call_fails_live isl_def prod_cases3 sum.exhaust_sel)
  then have "pruned_to ?k (ret_max_bytes ret) ?log log' tot'" using pr by blast
  then have "0 \<le> tot'" using rowsok
    by (auto simp: pruned_to_def list_all_iff dest!: in_set_dropD intro!: log_bytes_nonneg)
  with log_ok ob_ok tot p show ?thesis
    by (simp add: write_event_def Let_def mutate_control_def stored_event_def)
qed

lemma ensure_stream_row:
  "\<exists>st. sql_row (\<lambda>r. stream_key r = binding_key b) (ensure_stream b now t) = Some st"
  by (rule sql_row_ex) (simp add: ensure_stream_def sql_exists_insert)

lemma append_event_succeeds:
  assumes inv: "event_inv db" and b: "validEventBinding b" and t: "validOptionalEventTarget t"
    and ty: "validWorkspaceText ty 128" and ret: "0 < ret_max_age ret" "MaxEventFrameBytes \<le> ret_max_bytes ret"
    and build: "build (latest_sequence db b + 1) = Some (mid, frame)" and ready: "append_ready db b mid frame"
  shows "\<exists>db' r. AppendEvent live_env clock db b t ty at ret (Some build) = (db', Inr r) \<and> er_message_id r = mid"
proof -
  let ?at = "if IsZero at then clock else at"
  let ?db1 = "db\<lparr>event_streams := ensure_stream b (timestamp ?at) (event_streams db)\<rparr>"
  obtain st where st: "sql_row (\<lambda>r. stream_key r = binding_key b) (event_streams ?db1) = Some st"
    using ensure_stream_row [of b "timestamp ?at" "event_streams db"] by auto
  have lat: "latest_sequence db b = es_latest_sequence st"
    using st ensure_stream_latest [where db = db and b = b and now = "timestamp ?at"] by (simp add: latest_sequence_def)
  have ready1: "append_ready ?db1 b mid frame"
    using ready by (simp add: append_ready_def ensure_stream_latest)
  obtain db' r where w: "write_event live_env ?db1 b t ty ?at ret None (es_latest_sequence st + 1) (es_total_bytes st) mid frame = Inr (db', r)"
    "er_message_id r = mid"
    using write_event_succeeds [OF ensure_stream_inv [OF inv] st b ty ready1 ret] by blast
  have "event_streams_check (new_stream b (timestamp ?at))"
    using valid_binding_sql [OF b] by (simp add: event_streams_check_def new_stream_def)
  moreover have "es_latest_sequence st < max_js_sequence" "validWorkspaceText mid 128" "\<not> MaxEventFrameBytes < int (length frame)"
    using ready lat by (simp_all add: append_ready_def)
  ultimately have "AppendEvent live_env clock db b t ty at ret (Some build) = (db', Inr r)"
    using b t ty ret w(1) build [unfolded lat] st
    unfolding AppendEvent_def appendEvent_def Let_def by (simp add: not_less)
  with w(2) show ?thesis by blast
qed

interpretation cursor_table: keyed_table cursor_key set_cursor
  by unfold_locales (simp add: cursor_key_def set_cursor_def)

lemma cursor_key_new [simp]: "cursor_key (new_cursor b n now) = binding_key b"
  "ec_acknowledged_sequence (new_cursor b n now) = n"
  by (simp_all add: cursor_key_def new_cursor_def binding_key_def)

section \<open>Properties\<close>

definition demo_binding :: event_binding where
  "demo_binding = \<lparr>eb_owner = ''o'', eb_node = ''n'', eb_stream = ''node''\<rparr>"

definition demo_target :: event_target where
  "demo_target = \<lparr>et_workspace = ''w'', et_thread = ''t'', et_turn = [], et_item = []\<rparr>"

definition demo_retention :: event_retention where
  "demo_retention = \<lparr>ret_max_age = seconds 60, ret_max_bytes = 1048576\<rparr>"

definition demo_build :: "string \<Rightarrow> frame_builder" where
  "demo_build m n = Some (m, ''frame'')"

definition demo_append :: "string \<Rightarrow> gotime \<Rightarrow> node_db \<Rightarrow> node_db" where
  "demo_append m at db =
     fst (AppendEvent live_env 1 db demo_binding demo_target ''task.updated'' at demo_retention (Some (demo_build m)))"

text \<open>Two events, the second so late that the first has been pruned, and a third.\<close>

definition demo_events :: node_db where
  "demo_events = demo_append ''m3'' (seconds 63000000110)
     (demo_append ''m2'' (seconds 63000000100) (demo_append ''m1'' (seconds 63000000000) (empty_node_db (timestamp 1))))"

definition demo_control :: "string \<Rightarrow> control_record" where
  "demo_control i = \<lparr>ct_message_id = i, ct_request_digest = replicate 32 CHR ''d'', ct_type = ''task.start'',
     ct_target = demo_target, ct_state = ControlReceived, ct_error_code = [], ct_result_stream_id = [],
     ct_result_sequence = 0, ct_created_at = seconds 63000000000, ct_updated_at = 0\<rparr>"

definition demo_dispatching :: node_db where
  "demo_dispatching = control_run (empty_node_db (timestamp 1))
     [CCreate live_env 1 (demo_control ''c1''),
      CTransition live_env (seconds 63000000001) ''c1'' ControlValidated [] [] 0,
      CTransition live_env (seconds 63000000002) ''c1'' ControlDispatching [] [] 0]"

definition demo_mutation :: control_event_mutation where
  "demo_mutation = \<lparr>cm_message_id = ''c1'', cm_state = ControlConfirmed, cm_error_code = []\<rparr>"

definition demo_confirmed :: node_db where
  "demo_confirmed = fst (AppendControlEvent live_env 1 demo_dispatching demo_binding demo_target ''control.result''
     (seconds 63000000003) demo_retention demo_mutation (Some (demo_build ''r1'')))"

text \<open>Property C19: appending keeps the log gapless. When an append succeeds, whatever faults the
  environment allows, the event gets the sequence after the latest one of its stream, is the last
  retained event of the stream with the frame that was built for that sequence, the retained
  sequences of every stream are still a gapless run up to its latest one with an exact byte count,
  the stream is within the byte limit, and other streams keep their events.\<close>

theorem append_keeps_gapless:
  assumes "event_inv db" "ret_max_bytes ret \<le> 2 ^ 62"
    and "appendEvent e clock db b target ty createdAt ret mut build = (db', Inr r)"
  shows "event_inv db' \<and> append_post db b ret db' r"
  by (rule append_event_ok [OF assms])

theorem append_keeps_gapless_witness:
  "event_inv demo_events \<and> event_inv (demo_append ''m4'' (seconds 63000000120) demo_events)"
proof -
  let ?a = "appendEvent live_env 1 demo_events demo_binding demo_target ''task.updated'' (seconds 63000000120)
    demo_retention None (Some (demo_build ''m4''))"
  have inv: "event_inv demo_events" by code_simp
  have "\<not> isl (snd ?a)" by code_simp
  then have eq: "?a = (fst ?a, Inr (projr (snd ?a)))" by (simp add: prod_eq_iff)
  have "ret_max_bytes demo_retention \<le> 2 ^ 62" by (simp add: demo_retention_def)
  from append_keeps_gapless [OF inv this eq] inv show ?thesis by (simp add: demo_append_def AppendEvent_def)
qed

text \<open>An append succeeds. When nothing fails, the arguments are valid, the frame builder
  returns a frame within the limit for the next sequence under a message id that is in neither the log
  nor the outbox, and the outbox has no frame for that sequence, the event is appended.\<close>

theorem append_succeeds:
  assumes "event_inv db" "validEventBinding b" "validOptionalEventTarget t" "validWorkspaceText ty 128"
    and "0 < ret_max_age ret" "MaxEventFrameBytes \<le> ret_max_bytes ret"
    and "build (latest_sequence db b + 1) = Some (mid, frame)" "append_ready db b mid frame"
  shows "\<exists>db' r. AppendEvent live_env clock db b t ty at ret (Some build) = (db', Inr r) \<and> er_message_id r = mid"
  using assms by (rule append_event_succeeds [where build = build])

theorem append_succeeds_witness:
  "\<exists>db' r. AppendEvent live_env 1 demo_events demo_binding demo_target ''task.updated'' (seconds 63000000120) demo_retention
     (Some (demo_build ''m4'')) = (db', Inr r) \<and> er_message_id r = ''m4''"
proof (rule append_succeeds)
  show "event_inv demo_events" "validEventBinding demo_binding" "validOptionalEventTarget demo_target"
    "validWorkspaceText ''task.updated'' 128" "0 < ret_max_age demo_retention"
    "MaxEventFrameBytes \<le> ret_max_bytes demo_retention" "append_ready demo_events demo_binding ''m4'' ''frame''"
    "demo_build ''m4'' (latest_sequence demo_events demo_binding + 1) = Some (''m4'', ''frame'')"
    by code_simp+
qed

text \<open>Property C20: replay has no gaps. From a log in which the invariant holds, replaying after any
  sequence up to the latest one succeeds and returns, in order and without a gap, the first
  \<open>limit\<close> retained events after that sequence, together with the head of the stream.\<close>

theorem replay_without_gaps:
  assumes "event_inv db" "validEventBinding b" "0 \<le> after" "after \<le> latest_sequence db b" "after \<le> max_js_sequence"
    and "1 \<le> limit" "limit \<le> MaxReplayRecords"
  shows "\<exists>records head. ReplayEvents live_env db b after limit = Inr (records, head) \<and> replayed db b after limit records head"
  by (rule replay_events_ok [OF assms])

theorem replay_without_gaps_witness:
  "\<exists>records head. ReplayEvents live_env demo_events demo_binding 0 10 = Inr (records, head) \<and>
     replayed demo_events demo_binding 0 10 records head"
proof (rule replay_without_gaps)
  show "event_inv demo_events" "validEventBinding demo_binding" "0 \<le> latest_sequence demo_events demo_binding" by code_simp+
qed simp_all

text \<open>Property C22: the life of a control request. Over any sequence of creations, transitions, event
  appends and result appends, with any faults, a recorded request keeps its digest, type, target and
  creation time, its state only moves along the allowed transitions, and once it is confirmed,
  rejected or ambiguous the whole record, its result included, never changes again.\<close>

theorem control_lifecycle:
  assumes "control_select db i = Some r"
  shows "\<exists>r'. control_select (control_run db cs) i = Some r' \<and> same_request r r' \<and>
    allowedControlTransition\<^sup>*\<^sup>* (cr_state r) (cr_state r') \<and> (isTerminalControlState (cr_state r) \<longrightarrow> r' = r)"
  by (rule control_run_moves [OF assms])

theorem control_lifecycle_witness:
  "\<exists>r'. control_select (control_run demo_confirmed
     [CTransition live_env (seconds 63000000009) ''c1'' ControlRejected [] ''node'' 1]) ''c1'' = Some r' \<and>
   cr_state r' = ControlConfirmed"
proof -
  let ?r = "the (control_select demo_confirmed ''c1'')"
  have "control_select demo_confirmed ''c1'' \<noteq> None" "cr_state ?r = ControlConfirmed" by code_simp+
  then have r: "control_select demo_confirmed ''c1'' = Some ?r" "isTerminalControlState (cr_state ?r)"
    by (auto simp: isTerminalControlState_def)
  from control_lifecycle [OF r(1), of "[CTransition live_env (seconds 63000000009) ''c1'' ControlRejected [] ''node'' 1]"]
    r(2) \<open>cr_state ?r = ControlConfirmed\<close> show ?thesis by auto
qed

text \<open>The result of a control request is committed with its event. When
  \<^verbatim>\<open>AppendControlEvent\<close> succeeds, the request was being dispatched, and now has the
  terminal state and error code of the mutation and names the stream and the sequence of exactly the
  event that was appended.\<close>

theorem control_result_committed:
  assumes "AppendControlEvent e clock db b target ty createdAt ret m build = (db', Inr r)"
    and "unique_key cr_message_id (control_requests db)"
  shows "isTerminalControlState (cm_state m) \<and>
    (\<exists>c c'. control_select db (cm_message_id m) = Some c \<and> cr_state c = ControlDispatching \<and>
      control_select db' (cm_message_id m) = Some c' \<and> same_request c c' \<and> cr_state c' = cm_state m \<and>
      cr_error_code c' = nullText (cm_error_code m) \<and> cr_result_stream_id c' = nullText (eb_stream b) \<and>
      cr_result_sequence c' = nullableSequence (er_sequence r))"
  using append_control_row [OF assms] by blast

theorem control_result_committed_witness:
  "\<exists>c'. control_select demo_confirmed ''c1'' = Some c' \<and> cr_state c' = ControlConfirmed \<and> cr_result_sequence c' = Some 1"
proof -
  let ?a = "AppendControlEvent live_env 1 demo_dispatching demo_binding demo_target ''control.result''
     (seconds 63000000003) demo_retention demo_mutation (Some (demo_build ''r1''))"
  have "\<not> isl (snd ?a)" by code_simp
  then have eq: "?a = (demo_confirmed, Inr (projr (snd ?a)))" by (simp add: demo_confirmed_def prod_eq_iff)
  have "unique_key cr_message_id (control_requests demo_dispatching)" "er_sequence (projr (snd ?a)) = 1" by code_simp+
  with control_result_committed [OF eq this(1)] show ?thesis
    by (auto simp: demo_mutation_def nullableSequence_def)
qed

text \<open>Acknowledgement moves forward only. When \<^verbatim>\<open>AcknowledgeEvents\<close> succeeds
  the cursor of the stream is the acknowledged sequence, which is at most the latest sequence and not
  below the cursor before; when it fails nothing has changed.\<close>

theorem acknowledge_forward:
  assumes "AcknowledgeEvents e c1 c2 db b n = (db', x)"
  shows "(x = None \<longrightarrow> event_cursor db' b = Some n \<and> nint (event_cursor db b) \<le> n \<and> n \<le> latest_sequence db b) \<and>
    (x \<noteq> None \<longrightarrow> db' = db)"
proof (cases x)
  case (Some y)
  with assms show ?thesis by (auto simp: AcknowledgeEvents_def dest: transact_SomeD split: option.splits)
next
  case None
  then have g: "store_guard e (\<not> (\<not> validEventBinding b \<or> n < 0 \<or> max_js_sequence < n)) = None"
    using assms by (auto simp: AcknowledgeEvents_def split: option.splits)
  have lat: "eh_latest head = latest_sequence db b" if "readEventHead f db b = Inr head" for f head
    using that by (auto simp: readEventHead_def latest_sequence_def zero_head_def split: if_splits option.splits)
  from None assms g obtain head where head: "readEventHead (call_fails e 1) db b = Inr head" "\<not> eh_latest head < n"
    and cur: "\<not> n < nint (event_cursor db b)"
    and db': "db' = db\<lparr>event_cursors := sql_upsert cursor_key (new_cursor b n (timestamp c1))
        (set_cursor (n, timestamp c1)) (event_cursors db),
      outbox := sql_update (\<lambda>r. ob_stream_id r = eb_stream b \<and> ob_sequence r \<le> n) (acknowledge_row (timestamp c2)) (outbox db)\<rparr>"
    by (auto simp: AcknowledgeEvents_def transact_None_iff split: if_splits sum.splits)
  have "event_cursor db' b = Some n"
    unfolding db' event_cursor_def by (simp add: cursor_table.row_upsert set_cursor_def split: option.split)
  with None cur head lat [OF head(1)] show ?thesis by simp
qed

theorem acknowledge_forward_witness:
  "event_cursor (fst (AcknowledgeEvents live_env 1 1 demo_events demo_binding 2)) demo_binding = Some 2"
proof -
  let ?a = "AcknowledgeEvents live_env 1 1 demo_events demo_binding 2"
  have "snd ?a = None" by code_simp
  then have "?a = (fst ?a, None)" by (simp add: prod_eq_iff)
  from acknowledge_forward [OF this] show ?thesis by simp
qed

end
