(* ===== verification/Node_Records.thy ===== *)
theory Node_Records
  imports Event_Store
begin

text \<open>
  The other records of the Node database: approvals (\<^verbatim>\<open>approvals.go\<close>), the node
  identity (\<^verbatim>\<open>identity.go\<close>) and pending configuration changes
  (\<^verbatim>\<open>config_changes.go\<close>), all under \<^verbatim>\<open>internal/node/store\<close>.
\<close>

section \<open>Approvals\<close>

abbreviation ApprovalPending :: string where "ApprovalPending \<equiv> ''pending''"
abbreviation ApprovalProcessing :: string where "ApprovalProcessing \<equiv> ''processing''"
abbreviation ApprovalExpired :: string where "ApprovalExpired \<equiv> ''expired''"
abbreviation ApprovalAmbiguous :: string where "ApprovalAmbiguous \<equiv> ''ambiguous''"

record approval_record =
  av_approval_id :: string
  av_workspace :: string
  av_thread :: string
  av_turn :: string
  av_item :: string
  av_status :: string
  av_operation_digest :: string
  av_payload :: bytes
  av_expires_at :: gotime
  av_updated_at :: gotime

record approval_claim =
  cl_approval_id :: string
  cl_workspace :: string
  cl_thread :: string
  cl_turn :: string
  cl_item :: string
  cl_operation_digest :: string
  cl_decision :: string
  cl_now :: gotime

definition zero_approval :: approval_record where
  "zero_approval = \<lparr>av_approval_id = [], av_workspace = [], av_thread = [], av_turn = [], av_item = [], av_status = [],
     av_operation_digest = [], av_payload = [], av_expires_at = 0, av_updated_at = 0\<rparr>"

definition validApprovalRecord :: "approval_record \<Rightarrow> bool" where
  "validApprovalRecord r =
     (if \<not> validWorkspaceText (av_approval_id r) 128 \<or> \<not> validWorkspaceText (av_workspace r) 128 \<or>
         \<not> validWorkspaceText (av_thread r) 128 \<or> \<not> validWorkspaceText (av_turn r) 128 \<or>
         \<not> validWorkspaceText (av_item r) 128 \<or> av_payload r = [] \<or> MaxSnapshotBytes < int (length (av_payload r))
      then False
      else if av_operation_digest r \<noteq> [] \<and> length (av_operation_digest r) \<noteq> 43 then False
      else av_status r \<in> {''pending'', ''processing'', ''accepted'', ''declined'', ''resolved'', ''expired'', ''ambiguous''})"

definition validApprovalClaim :: "approval_claim \<Rightarrow> bool" where
  "validApprovalClaim c =
     (validWorkspaceText (cl_approval_id c) 128 \<and> validWorkspaceText (cl_workspace c) 128 \<and>
      validWorkspaceText (cl_thread c) 128 \<and> validWorkspaceText (cl_turn c) 128 \<and> validWorkspaceText (cl_item c) 128 \<and>
      length (cl_operation_digest c) = 43 \<and>
      (cl_decision c = ''accept'' \<or> cl_decision c = ''decline'' \<or> cl_decision c = ''answer'') \<and> \<not> IsZero (cl_now c))"

definition approval_to_row :: "approval_record \<Rightarrow> gotime \<Rightarrow> approval_row" where
  "approval_to_row r when =
     \<lparr>ap_approval_id = av_approval_id r, ap_workspace_id = av_workspace r, ap_thread_id = av_thread r,
      ap_turn_id = av_turn r, ap_item_id = av_item r, ap_status = av_status r,
      ap_operation_digest = nullText (av_operation_digest r), ap_payload = av_payload r,
      ap_expires_at = nullTime (av_expires_at r), ap_updated_at = timestamp when\<rparr>"

definition overwrite_approval :: "approval_row \<Rightarrow> approval_row \<Rightarrow> approval_row" where
  "overwrite_approval n r =
     r\<lparr>ap_status := ap_status n, ap_operation_digest := ap_operation_digest n, ap_payload := ap_payload n,
       ap_expires_at := ap_expires_at n, ap_updated_at := ap_updated_at n\<rparr>"

definition SaveApproval :: "env \<Rightarrow> gotime \<Rightarrow> node_db \<Rightarrow> approval_record \<Rightarrow> node_db \<times> store_error option" where
  "SaveApproval e clock db r =
     (case store_guard e (validApprovalRecord r) of
        Some x \<Rightarrow> (db, Some x)
      | None \<Rightarrow>
          let row = approval_to_row r (if IsZero (av_updated_at r) then clock else av_updated_at r)
          in if call_fails e 0 \<or> \<not> approvals_check row then (db, Some (Internal ''approval save''))
             else (db\<lparr>approval_state := sql_upsert ap_approval_id row (overwrite_approval row) (approval_state db)\<rparr>, None))"

definition scanApproval :: "bool \<Rightarrow> approval_row option \<Rightarrow> store_error + approval_record" where
  "scanApproval failed row =
     (if failed then Inl (Internal ''approval read'')
      else case row of
        None \<Rightarrow> Inl ErrNotFound
      | Some r \<Rightarrow>
          (case (case ap_expires_at r of None \<Rightarrow> Some 0 | Some t \<Rightarrow> parse_rfc3339 t) of
             None \<Rightarrow> Inl ErrCorrupt
           | Some expires \<Rightarrow>
               (case parse_rfc3339 (ap_updated_at r) of
                  None \<Rightarrow> Inl ErrCorrupt
                | Some updated \<Rightarrow>
                    Inr \<lparr>av_approval_id = ap_approval_id r, av_workspace = ap_workspace_id r, av_thread = ap_thread_id r,
                         av_turn = ap_turn_id r, av_item = ap_item_id r, av_status = ap_status r,
                         av_operation_digest = nstring (ap_operation_digest r), av_payload = ap_payload r,
                         av_expires_at = expires, av_updated_at = updated\<rparr>)))"

definition approval_select :: "node_db \<Rightarrow> string \<Rightarrow> approval_row option" where
  "approval_select db i = sql_row (\<lambda>r. ap_approval_id r = i) (approval_state db)"

definition Approval :: "env \<Rightarrow> node_db \<Rightarrow> string \<Rightarrow> store_error + approval_record" where
  "Approval e db approvalID =
     (case store_guard e (validWorkspaceText approvalID 128) of
        Some x \<Rightarrow> Inl x
      | None \<Rightarrow> scanApproval (call_fails e 0) (approval_select db approvalID))"

definition set_approval :: "string \<times> rfc3339 \<Rightarrow> approval_row \<Rightarrow> approval_row" where
  "set_approval a r = r\<lparr>ap_status := fst a, ap_updated_at := snd a\<rparr>"

definition move_approval :: "string \<Rightarrow> string \<Rightarrow> string \<Rightarrow> rfc3339 \<Rightarrow> node_db \<Rightarrow> node_db" where
  "move_approval i from to now db =
     db\<lparr>approval_state := sql_update (\<lambda>r. ap_approval_id r = i \<and> ap_status r = from) (set_approval (to, now)) (approval_state db)\<rparr>"

definition ClaimApproval :: "env \<Rightarrow> node_db \<Rightarrow> approval_claim \<Rightarrow> node_db \<times> approval_record \<times> store_error option" where
  "ClaimApproval e db c =
     (case store_guard e (validApprovalClaim c) of
        Some x \<Rightarrow> (db, zero_approval, Some x)
      | None \<Rightarrow>
          if call_fails e 0 then (db, zero_approval, Some (Internal ''approval claim''))
          else case scanApproval (call_fails e 1) (approval_select db (cl_approval_id c)) of
            Inl x \<Rightarrow> (db, zero_approval, Some x)
          | Inr record \<Rightarrow>
              if av_status record \<noteq> ApprovalPending \<or> av_operation_digest record \<noteq> cl_operation_digest c \<or>
                 av_workspace record \<noteq> cl_workspace c \<or> av_thread record \<noteq> cl_thread c \<or> av_turn record \<noteq> cl_turn c \<or>
                 av_item record \<noteq> cl_item c
              then (db, record, Some ErrConflict)
              else if \<not> IsZero (av_expires_at record) \<and> \<not> After (av_expires_at record) (cl_now c) then
                (if call_fails e 2 then (db, zero_approval, Some (Internal ''approval expire''))
                 else if call_fails e 3 then (db, zero_approval, Some (Internal ''approval expire''))
                 else (move_approval (cl_approval_id c) ApprovalPending ApprovalExpired (timestamp (cl_now c)) db,
                       record\<lparr>av_status := ApprovalExpired, av_updated_at := cl_now c\<rparr>, Some ErrExpired))
              else if call_fails e 2 then (db, zero_approval, Some (Internal ''approval claim''))
              else if call_fails e 3 then (db, zero_approval, Some (Internal ''approval claim''))
              else (move_approval (cl_approval_id c) ApprovalPending ApprovalProcessing (timestamp (cl_now c)) db,
                    record\<lparr>av_status := ApprovalProcessing, av_updated_at := cl_now c\<rparr>, None))"

definition MarkApprovalAmbiguous :: "env \<Rightarrow> gotime \<Rightarrow> node_db \<Rightarrow> string \<Rightarrow> node_db \<times> store_error option" where
  "MarkApprovalAmbiguous e clock db approvalID =
     (case store_guard e (validWorkspaceText approvalID 128) of
        Some x \<Rightarrow> (db, Some x)
      | None \<Rightarrow>
          if call_fails e 0 then (db, Some (Internal ''approval reconcile''))
          else (move_approval approvalID ApprovalProcessing ApprovalAmbiguous (timestamp clock) db, None))"

definition by_update :: "approval_row \<Rightarrow> approval_row \<Rightarrow> bool" where
  "by_update a b =
     (text_less (ap_updated_at a) (ap_updated_at b) \<or>
      ap_updated_at a = ap_updated_at b \<and> ap_approval_id a < ap_approval_id b)"

fun scan_approvals :: "approval_row list \<Rightarrow> store_error + approval_record list" where
  "scan_approvals [] = Inr []"
| "scan_approvals (r # rs) =
     (case scanApproval False (Some r) of
        Inl x \<Rightarrow> Inl x
      | Inr v \<Rightarrow> (case scan_approvals rs of Inl x \<Rightarrow> Inl x | Inr vs \<Rightarrow> Inr (v # vs)))"

definition PendingApprovals :: "env \<Rightarrow> node_db \<Rightarrow> string \<Rightarrow> store_error + approval_record list" where
  "PendingApprovals e db threadID =
     (case store_guard e (validWorkspaceText threadID 128) of
        Some x \<Rightarrow> Inl x
      | None \<Rightarrow>
          if call_fails e 0 then Inl (Internal ''approval list'')
          else case scan_approvals (order_by by_update
                  (filter (\<lambda>r. ap_thread_id r = threadID \<and> ap_status r = ApprovalPending) (approval_state db))) of
            Inl x \<Rightarrow> Inl x
          | Inr result \<Rightarrow> if call_fails e 1 then Inl (Internal ''approval list'') else Inr result)"

definition MarkThreadApprovalsAmbiguous :: "env \<Rightarrow> gotime \<Rightarrow> node_db \<Rightarrow> string \<Rightarrow> node_db \<times> store_error option" where
  "MarkThreadApprovalsAmbiguous e clock db threadID =
     (case store_guard e (validWorkspaceText threadID 128) of
        Some x \<Rightarrow> (db, Some x)
      | None \<Rightarrow>
          if call_fails e 0 then (db, Some (Internal ''approval reconcile''))
          else (db\<lparr>approval_state := sql_update
                  (\<lambda>r. ap_thread_id r = threadID \<and> (ap_status r = ApprovalPending \<or> ap_status r = ApprovalProcessing))
                  (set_approval (ApprovalAmbiguous, timestamp clock)) (approval_state db)\<rparr>, None))"

section \<open>Identity\<close>

record identity_record =
  idr_algorithm :: string
  idr_public_key :: bytes
  idr_private_key_ref :: string
  idr_owner :: string
  idr_node :: string
  idr_created_at :: gotime
  idr_updated_at :: gotime

definition validIdentityRecord :: "identity_record \<Rightarrow> bool" where
  "validIdentityRecord r =
     (idr_algorithm r = ''ed25519'' \<and> length (idr_public_key r) = 32 \<and> idr_private_key_ref r \<noteq> [] \<and>
      length (idr_private_key_ref r) \<le> 512 \<and> \<not> IsZero (idr_created_at r) \<and> \<not> IsZero (idr_updated_at r))"

text \<open>\<^verbatim>\<open>scanIdentity\<close>: \<open>Inl None\<close> is \<^verbatim>\<open>sql.ErrNoRows\<close>, \<open>Inl (Some x)\<close> another
  error.\<close>

definition scanIdentity :: "bool \<Rightarrow> identity_row option \<Rightarrow> store_error option + identity_record" where
  "scanIdentity failed row =
     (if failed then Inl (Some DriverError)
      else case row of
        None \<Rightarrow> Inl None
      | Some r \<Rightarrow>
          (case (parse_rfc3339 (id_created_at r), parse_rfc3339 (id_updated_at r)) of
             (Some created, Some updated) \<Rightarrow>
               (let record = \<lparr>idr_algorithm = id_algorithm r, idr_public_key = id_public_key r,
                      idr_private_key_ref = id_private_key_ref r, idr_owner = nstring (id_owner_id r),
                      idr_node = nstring (id_node_id r), idr_created_at = created, idr_updated_at = updated\<rparr>
                in if validIdentityRecord record then Inr record else Inl (Some ErrCorrupt))
           | _ \<Rightarrow> Inl (Some ErrCorrupt)))"

definition Identity :: "env \<Rightarrow> node_db \<Rightarrow> store_error + identity_record" where
  "Identity e db =
     (case store_guard e True of
        Some x \<Rightarrow> Inl x
      | None \<Rightarrow>
          (case scanIdentity (call_fails e 0) (identity_table db) of
             Inl None \<Rightarrow> Inl ErrNotFound
           | Inl (Some _) \<Rightarrow> Inl (Internal ''identity read'')
           | Inr record \<Rightarrow> Inr record))"

definition new_identity :: "identity_record \<Rightarrow> identity_row" where
  "new_identity r =
     \<lparr>id_algorithm = idr_algorithm r, id_public_key = idr_public_key r, id_private_key_ref = idr_private_key_ref r,
      id_owner_id = None, id_node_id = None, id_created_at = timestamp (idr_created_at r), id_updated_at = timestamp (idr_updated_at r)\<rparr>"

definition identity_check :: "identity_row \<Rightarrow> bool" where
  "identity_check r =
     (id_algorithm r = ''ed25519'' \<and> length (id_public_key r) = 32 \<and> length_between 1 512 (id_private_key_ref r) \<and>
      (id_owner_id r = None \<and> id_node_id r = None \<or> id_owner_id r \<noteq> None \<and> id_node_id r \<noteq> None))"

text \<open>
  \<open>factory\<close> creates the key pair: a record or an error. The result says
  whether the record was created and whether the key of a factory that succeeded was
  rolled back; \<open>clone\<close> copies the record.
\<close>

record identity_outcome =
  io_result :: "store_error + identity_record \<times> bool"
  io_rolled_back :: bool

definition LoadOrCreateIdentity ::
  "env \<Rightarrow> node_db \<Rightarrow> (store_error + identity_record) option \<Rightarrow> node_db \<times> identity_outcome" where
  "LoadOrCreateIdentity e db factory =
     (case store_guard e (factory \<noteq> None) of
        Some x \<Rightarrow> (db, \<lparr>io_result = Inl x, io_rolled_back = False\<rparr>)
      | None \<Rightarrow>
          let fail = (\<lambda>x. (db, \<lparr>io_result = Inl x, io_rolled_back = False\<rparr>));
              undo = (\<lambda>x. (db, \<lparr>io_result = Inl x, io_rolled_back = True\<rparr>))
          in if call_fails e 0 then fail (Internal ''identity initialization'')
             else if call_fails e 1 then fail (Internal ''identity initialization'')
             else case scanIdentity (call_fails e 2) (identity_table db) of
               Inr existing \<Rightarrow>
                 if call_fails e 3 then fail (Internal ''identity initialization'')
                 else (db, \<lparr>io_result = Inr (existing, False), io_rolled_back = False\<rparr>)
             | Inl (Some _) \<Rightarrow> fail (Internal ''identity initialization'')
             | Inl None \<Rightarrow>
                 (case the factory of
                    Inl x \<Rightarrow> fail x
                  | Inr record \<Rightarrow>
                      if \<not> validIdentityRecord record then undo ErrInvalid
                      else if call_fails e 3 \<or> \<not> identity_check (new_identity record) then undo (Internal ''identity initialization'')
                      else if call_fails e 4 then undo (Internal ''identity initialization'')
                      else (db\<lparr>identity_table := Some (new_identity record)\<rparr>,
                            \<lparr>io_result = Inr (record, True), io_rolled_back = False\<rparr>)))"

definition BindIdentity :: "env \<Rightarrow> gotime \<Rightarrow> node_db \<Rightarrow> string \<Rightarrow> string \<Rightarrow> node_db \<times> store_error option" where
  "BindIdentity e clock db ownerID nodeID =
     (case store_guard e (\<not> (ownerID = [] \<or> nodeID = [] \<or> 128 < length ownerID \<or> 128 < length nodeID)) of
        Some x \<Rightarrow> (db, Some x)
      | None \<Rightarrow>
          if call_fails e 0 then (db, Some (Internal ''identity binding''))
          else
            let hit = (\<lambda>r. id_owner_id r = None \<or> id_owner_id r = Some ownerID \<and> id_node_id r = Some nodeID);
                rows = (case identity_table db of None \<Rightarrow> 0 | Some r \<Rightarrow> if hit r then 1 else (0 :: nat));
                db' = db\<lparr>identity_table := map_option
                    (\<lambda>r. if hit r then r\<lparr>id_owner_id := Some ownerID, id_node_id := Some nodeID, id_updated_at := timestamp clock\<rparr>
                          else r) (identity_table db)\<rparr>
            in if call_fails e 1 then (db', Some (Internal ''identity binding''))
               else if rows = 1 then (db', None)
               else if call_fails e 2 then (db', Some (Internal ''identity binding''))
               else if identity_table db' = None then (db', Some ErrNotFound)
               else (db', Some ErrConflict))"

section \<open>Configuration changes\<close>

abbreviation ConfigChangePending :: string where "ConfigChangePending \<equiv> ''pending''"
abbreviation ConfigChangeApproved :: string where "ConfigChangeApproved \<equiv> ''approved''"
abbreviation ConfigChangeRejected :: string where "ConfigChangeRejected \<equiv> ''rejected''"

record config_change_record =
  ch_id :: string
  ch_base_revision :: string
  ch_changes :: bytes
  ch_state :: string
  ch_created_at :: gotime
  ch_updated_at :: gotime
  ch_error_code :: string

definition scanConfigChange :: "bool \<Rightarrow> config_change_row option \<Rightarrow> store_error + config_change_record" where
  "scanConfigChange failed row =
     (if failed then Inl (Internal ''config change read'')
      else case row of
        None \<Rightarrow> Inl ErrNotFound
      | Some r \<Rightarrow>
          (case (parse_rfc3339 (cf_created_at r), parse_rfc3339 (cf_updated_at r)) of
             (Some created, Some updated) \<Rightarrow>
               Inr \<lparr>ch_id = cf_id r, ch_base_revision = cf_base_revision r, ch_changes = cf_changes r, ch_state = cf_state r,
                    ch_created_at = created, ch_updated_at = updated, ch_error_code = nstring (cf_error_code r)\<rparr>
           | _ \<Rightarrow> Inl ErrCorrupt))"

definition config_select :: "node_db \<Rightarrow> string \<Rightarrow> config_change_row option" where
  "config_select db i = sql_row (\<lambda>r. cf_id r = i) (config_changes db)"

definition ConfigChange :: "env \<Rightarrow> node_db \<Rightarrow> string \<Rightarrow> store_error + config_change_record" where
  "ConfigChange e db i =
     (case store_guard e (validWorkspaceText i 128) of
        Some x \<Rightarrow> Inl x
      | None \<Rightarrow> scanConfigChange (call_fails e 0) (config_select db i))"

definition config_row :: "config_change_record \<Rightarrow> gotime \<Rightarrow> config_change_row" where
  "config_row r now =
     \<lparr>cf_id = ch_id r, cf_base_revision = ch_base_revision r, cf_changes = ch_changes r, cf_state = ch_state r,
      cf_created_at = timestamp now, cf_updated_at = timestamp now, cf_error_code = None\<rparr>"

definition CreateConfigChange ::
  "env \<Rightarrow> gotime \<Rightarrow> node_db \<Rightarrow> config_change_record \<Rightarrow> node_db \<times> (store_error + config_change_record)" where
  "CreateConfigChange e clock db r =
     (case store_guard e (\<not> (\<not> validWorkspaceText (ch_id r) 128 \<or> \<not> validWorkspaceText (ch_base_revision r) 128 \<or>
             int (length (ch_changes r)) < 2 \<or> 262144 < int (length (ch_changes r)) \<or> ch_state r \<noteq> ConfigChangePending)) of
        Some x \<Rightarrow> (db, Inl x)
      | None \<Rightarrow>
          let row = config_row r (if IsZero (ch_created_at r) then clock else ch_created_at r)
          in if call_fails e 0 \<or> \<not> config_changes_check row \<or> sql_exists (\<lambda>x. cf_id x = ch_id r) (config_changes db)
             then (db, Inl (Internal ''config change create''))
             else let db' = db\<lparr>config_changes := sql_insert row (config_changes db)\<rparr>
                  in (db', ConfigChange (later 1 e) db' (ch_id r)))"

definition by_creation :: "config_change_row \<Rightarrow> config_change_row \<Rightarrow> bool" where
  "by_creation a b =
     (text_less (cf_created_at a) (cf_created_at b) \<or> cf_created_at a = cf_created_at b \<and> cf_id a < cf_id b)"

fun scan_changes :: "config_change_row list \<Rightarrow> store_error + config_change_record list" where
  "scan_changes [] = Inr []"
| "scan_changes (r # rs) =
     (case scanConfigChange False (Some r) of
        Inl x \<Rightarrow> Inl x
      | Inr v \<Rightarrow> (case scan_changes rs of Inl x \<Rightarrow> Inl x | Inr vs \<Rightarrow> Inr (v # vs)))"

definition ConfigChanges :: "env \<Rightarrow> node_db \<Rightarrow> string \<Rightarrow> store_error + config_change_record list" where
  "ConfigChanges e db state =
     (case store_guard e (\<not> (state \<noteq> [] \<and> state \<noteq> ConfigChangePending \<and> state \<noteq> ConfigChangeApproved \<and> state \<noteq> ConfigChangeRejected)) of
        Some x \<Rightarrow> Inl x
      | None \<Rightarrow>
          if call_fails e 0 then Inl (Internal ''config changes list'')
          else case scan_changes (order_by by_creation (filter (\<lambda>r. state = [] \<or> cf_state r = state) (config_changes db))) of
            Inl x \<Rightarrow> Inl x
          | Inr result \<Rightarrow> if call_fails e 1 then Inl (Internal ''config changes list'') else Inr result)"

definition set_config :: "string \<times> string \<times> rfc3339 \<Rightarrow> config_change_row \<Rightarrow> config_change_row" where
  "set_config a r = r\<lparr>cf_state := fst a, cf_error_code := nullText (fst (snd a)), cf_updated_at := snd (snd a)\<rparr>"

definition TransitionConfigChange ::
  "env \<Rightarrow> gotime \<Rightarrow> node_db \<Rightarrow> string \<Rightarrow> string \<Rightarrow> string \<Rightarrow> node_db \<times> (store_error + config_change_record)" where
  "TransitionConfigChange e clock db i nextState errorCode =
     (case store_guard e (\<not> (\<not> validWorkspaceText i 128 \<or>
             nextState \<noteq> ConfigChangeApproved \<and> nextState \<noteq> ConfigChangeRejected \<or> 128 < length errorCode)) of
        Some x \<Rightarrow> (db, Inl x)
      | None \<Rightarrow>
          if call_fails e 0 then (db, Inl (Internal ''config change transition''))
          else
            let here = (\<lambda>r. cf_id r = i \<and> cf_state r = ConfigChangePending);
                db' = db\<lparr>config_changes := sql_update here (set_config (nextState, errorCode, timestamp clock)) (config_changes db)\<rparr>
            in if call_fails e 1 \<or> sql_count here (config_changes db) \<noteq> 1 then (db', Inl ErrConflict)
               else (db', ConfigChange (later 2 e) db' i))"

end
