(* ===== verification/Node_Records_Contract.thy ===== *)
theory Node_Records_Contract
  imports Node_Records State_Machine
begin

text \<open>
  Approvals, configuration changes and the node identity as state machines: instances of
  \<open>row_machine\<close>, and the properties that rest on them.
\<close>

section \<open>Approvals\<close>

datatype approval_call =
    ASave env gotime approval_record
  | AClaim env approval_claim
  | AMark env gotime string
  | AMarkThread env gotime string

fun approval_do :: "approval_call \<Rightarrow> node_db \<Rightarrow> node_db" where
  "approval_do (ASave e clock r) db = fst (SaveApproval e clock db r)"
| "approval_do (AClaim e c) db = fst (ClaimApproval e db c)"
| "approval_do (AMark e clock i) db = fst (MarkApprovalAmbiguous e clock db i)"
| "approval_do (AMarkThread e clock t) db = fst (MarkThreadApprovalsAmbiguous e clock db t)"

fun approval_saves :: "approval_call \<Rightarrow> string \<Rightarrow> bool" where
  "approval_saves (ASave e clock r) i = (av_approval_id r = i)"
| "approval_saves _ i = False"

definition approval_transition :: "string \<Rightarrow> string \<Rightarrow> bool" where
  "approval_transition a b =
     (a = ApprovalPending \<and> b \<in> {ApprovalProcessing, ApprovalExpired, ApprovalAmbiguous} \<or>
      a = ApprovalProcessing \<and> b = ApprovalAmbiguous)"

definition approval_moves :: "approval_row \<Rightarrow> approval_row \<Rightarrow> bool" where
  "approval_moves r r' =
     (approval_transition (ap_status r) (ap_status r') \<and> (\<exists>t. r' = set_approval (ap_status r', t) r))"

interpretation approval_table: keyed_table ap_approval_id set_approval
  by unfold_locales (simp add: set_approval_def)

interpretation approval_saved: keyed_table ap_approval_id overwrite_approval
  by unfold_locales (simp add: overwrite_approval_def)

lemma approval_moves_set: "approval_transition (ap_status r) s \<Longrightarrow> approval_moves r (set_approval (s, t) r)"
  unfolding approval_moves_def by (intro conjI exI [of _ t]) (simp_all add: set_approval_def)

lemma approval_update_moves:
  assumes "sql_row (\<lambda>r. ap_approval_id r = i) t = Some r"
    and "\<And>r. P r \<Longrightarrow> approval_transition (ap_status r) s"
  shows "\<exists>r'. sql_row (\<lambda>r. ap_approval_id r = i) (sql_update P (set_approval (s, u)) t) = Some r' \<and> (r' = r \<or> approval_moves r r')"
  using assms by (auto simp: approval_table.row_update_where intro: approval_moves_set)

lemma move_approval_moves:
  assumes "approval_select db i = Some r" "approval_transition a b"
  shows "\<exists>r'. approval_select (move_approval j a b now db) i = Some r' \<and> (r' = r \<or> approval_moves r r')"
  using approval_update_moves [OF assms(1) [unfolded approval_select_def], of "\<lambda>r. ap_approval_id r = j \<and> ap_status r = a" b now] assms(2)
  by (simp add: approval_select_def move_approval_def)

lemma claim_outcome:
  "fst (ClaimApproval e db c) \<in> {db, move_approval (cl_approval_id c) ApprovalPending ApprovalExpired (timestamp (cl_now c)) db,
     move_approval (cl_approval_id c) ApprovalPending ApprovalProcessing (timestamp (cl_now c)) db}"
  unfolding ClaimApproval_def by (simp split: option.split sum.split)

lemma approval_do_moves:
  assumes "approval_select db i = Some r" "\<not> approval_saves c i"
  shows "\<exists>r'. approval_select (approval_do c db) i = Some r' \<and> (r' = r \<or> approval_moves r r')"
proof (cases c)
  case (ASave e clock q)
  have "preserves (\<lambda>db. approval_select db i) db (SaveApproval e clock db q)"
    unfolding SaveApproval_def using assms(2) ASave
    by (intro preserves_intros)
      (auto simp: approval_select_def approval_saved.row_upsert approval_to_row_def)
  then show ?thesis using assms ASave by (simp add: preserves_def)
next
  case (AClaim e q)
  then show ?thesis
    using claim_outcome [of e db q] assms
      move_approval_moves [OF assms(1), of ApprovalPending ApprovalExpired "cl_approval_id q" "timestamp (cl_now q)"]
      move_approval_moves [OF assms(1), of ApprovalPending ApprovalProcessing "cl_approval_id q" "timestamp (cl_now q)"]
    by (auto simp: approval_transition_def)
next
  case (AMark e clock j)
  then show ?thesis
    using assms move_approval_moves [OF assms(1), of ApprovalProcessing ApprovalAmbiguous]
    by (simp add: MarkApprovalAmbiguous_def approval_transition_def split: option.split)
next
  case (AMarkThread e clock t)
  have "\<exists>r'. sql_row (\<lambda>r. ap_approval_id r = i) (sql_update
      (\<lambda>r. ap_thread_id r = t \<and> (ap_status r = ApprovalPending \<or> ap_status r = ApprovalProcessing))
      (set_approval (ApprovalAmbiguous, timestamp clock)) (approval_state db)) = Some r' \<and> (r' = r \<or> approval_moves r r')"
    using assms(1) by (intro approval_update_moves) (auto simp: approval_select_def approval_transition_def)
  then show ?thesis
    using assms AMarkThread by (simp add: MarkThreadApprovalsAmbiguous_def approval_select_def split: option.split)
qed

interpretation approval_machine: row_machine approval_select approval_do approval_moves approval_saves
  by unfold_locales (use approval_do_moves in blast)

lemma claim_success:
  assumes "ClaimApproval e db c = (db', r, None)"
  shows "\<exists>row. approval_select db (cl_approval_id c) = Some row \<and> ap_status row = ApprovalPending \<and>
    nstring (ap_operation_digest row) = cl_operation_digest c \<and>
    db' = move_approval (cl_approval_id c) ApprovalPending ApprovalProcessing (timestamp (cl_now c)) db"
proof -
  have g: "store_guard e (validApprovalClaim c) = None"
    using assms unfolding ClaimApproval_def by (cases "store_guard e (validApprovalClaim c)") auto
  obtain rec where rec: "scanApproval (call_fails e 1) (approval_select db (cl_approval_id c)) = Inr rec"
    using assms unfolding ClaimApproval_def g
    by (cases "scanApproval (call_fails e 1) (approval_select db (cl_approval_id c))") (auto split: if_splits)
  obtain row where row: "approval_select db (cl_approval_id c) = Some row" "ap_status row = av_status rec"
    "nstring (ap_operation_digest row) = av_operation_digest rec"
    using rec by (auto simp: scanApproval_def split: if_splits option.splits)
  have "av_status rec = ApprovalPending \<and> av_operation_digest rec = cl_operation_digest c \<and>
    db' = move_approval (cl_approval_id c) ApprovalPending ApprovalProcessing (timestamp (cl_now c)) db"
    using assms unfolding ClaimApproval_def g rec by (simp split: if_splits)
  with row show ?thesis by auto
qed

lemma claim_unpending:
  assumes "ClaimApproval e db c = (db', r, None)"
  shows "\<exists>row. approval_select db' (cl_approval_id c) = Some row \<and> ap_status row \<noteq> ApprovalPending"
  using claim_success [OF assms]
  by (auto simp: approval_select_def move_approval_def approval_table.row_update_where set_approval_def
      dest: sql_row_SomeD)

section \<open>Configuration changes\<close>

datatype config_call =
    FCreate env gotime config_change_record
  | FTransition env gotime string string string

fun config_do :: "config_call \<Rightarrow> node_db \<Rightarrow> node_db" where
  "config_do (FCreate e clock r) db = fst (CreateConfigChange e clock db r)"
| "config_do (FTransition e clock i next code) db = fst (TransitionConfigChange e clock db i next code)"

definition config_moves :: "config_change_row \<Rightarrow> config_change_row \<Rightarrow> bool" where
  "config_moves r r' =
     (cf_state r = ConfigChangePending \<and> cf_state r' \<in> {ConfigChangeApproved, ConfigChangeRejected} \<and>
      cf_id r' = cf_id r \<and> cf_base_revision r' = cf_base_revision r \<and> cf_changes r' = cf_changes r \<and>
      cf_created_at r' = cf_created_at r)"

interpretation config_table: keyed_table cf_id set_config
  by unfold_locales (simp add: set_config_def)

lemma transition_config_outcome:
  "fst (TransitionConfigChange e clock db i next code) = db \<or>
   next \<in> {ConfigChangeApproved, ConfigChangeRejected} \<and>
   fst (TransitionConfigChange e clock db i next code) =
     db\<lparr>config_changes := sql_update (\<lambda>r. cf_id r = i \<and> cf_state r = ConfigChangePending)
       (set_config (next, code, timestamp clock)) (config_changes db)\<rparr>"
proof (cases "store_guard e (\<not> (\<not> validWorkspaceText i 128 \<or>
    next \<noteq> ConfigChangeApproved \<and> next \<noteq> ConfigChangeRejected \<or> 128 < length code))")
  case None
  from store_guard_NoneD [OF None] show ?thesis
    unfolding TransitionConfigChange_def None by (auto simp: Let_def)
qed (simp add: TransitionConfigChange_def)

lemma config_do_moves:
  assumes "config_select db i = Some r"
  shows "\<exists>r'. config_select (config_do c db) i = Some r' \<and> (r' = r \<or> config_moves r r')"
proof (cases c)
  case (FCreate e clock q)
  have "preserves (\<lambda>db. config_select db i) db (CreateConfigChange e clock db q)"
    unfolding CreateConfigChange_def
    by (intro preserves_intros) (use assms in \<open>auto simp: config_select_def sql_row_insert\<close>)
  then show ?thesis using assms FCreate by (simp add: preserves_def)
next
  case (FTransition e clock j nxt code)
  have "config_moves r (set_config (nxt, code, timestamp clock) r)"
    if "cf_state r = ConfigChangePending" "nxt \<in> {ConfigChangeApproved, ConfigChangeRejected}"
    using that by (auto simp: config_moves_def set_config_def)
  with transition_config_outcome [of e clock db j nxt code] assms FTransition show ?thesis
    by (auto simp: config_select_def config_table.row_update_where)
qed

interpretation config_machine: row_machine config_select config_do config_moves "\<lambda>_ _. False"
  by unfold_locales (use config_do_moves in blast)

section \<open>Identity\<close>

datatype identity_call =
    ILoad env "store_error + identity_record"
  | IBind env gotime string string

fun identity_do :: "identity_call \<Rightarrow> node_db \<Rightarrow> node_db" where
  "identity_do (ILoad e f) db = fst (LoadOrCreateIdentity e db (Some f))"
| "identity_do (IBind e clock ow nd) db = fst (BindIdentity e clock db ow nd)"

definition identity_view :: "node_db \<Rightarrow> unit \<Rightarrow> identity_row option" where
  "identity_view db u = identity_table db"

definition identity_moves :: "identity_row \<Rightarrow> identity_row \<Rightarrow> bool" where
  "identity_moves r r' =
     (id_algorithm r' = id_algorithm r \<and> id_public_key r' = id_public_key r \<and> id_private_key_ref r' = id_private_key_ref r \<and>
      id_created_at r' = id_created_at r \<and>
      (id_owner_id r \<noteq> None \<longrightarrow> id_owner_id r' = id_owner_id r \<and> id_node_id r' = id_node_id r))"

lemma load_identity_kept:
  assumes "identity_table db = Some r"
  shows "identity_table (fst (LoadOrCreateIdentity e db f)) = Some r"
proof -
  have "scanIdentity b (Some r) \<noteq> Inl None" for b
    by (auto simp: scanIdentity_def Let_def split: option.splits)
  then show ?thesis
    unfolding LoadOrCreateIdentity_def using assms by (auto simp: Let_def split: option.split sum.split)
qed

lemma identity_do_moves:
  assumes "identity_view db u = Some r"
  shows "\<exists>r'. identity_view (identity_do c db) u = Some r' \<and> (r' = r \<or> identity_moves r r')"
proof (cases c)
  case (ILoad e f)
  then show ?thesis using load_identity_kept assms by (simp add: identity_view_def)
next
  case (IBind e clock ow nd)
  then show ?thesis using assms
    by (auto simp: identity_view_def BindIdentity_def Let_def identity_moves_def split: option.split)
qed

interpretation identity_machine: row_machine identity_view identity_do identity_moves "\<lambda>_ _. False"
  by unfold_locales (use identity_do_moves in blast)

section \<open>Properties\<close>

definition demo_approval :: approval_record where
  "demo_approval = \<lparr>av_approval_id = ''ap'', av_workspace = ''w'', av_thread = ''t'', av_turn = ''u'', av_item = ''i'',
     av_status = ApprovalPending, av_operation_digest = replicate 43 CHR ''x'', av_payload = ''{}'',
     av_expires_at = seconds 63000000100, av_updated_at = seconds 63000000000\<rparr>"

definition demo_claim :: "string \<Rightarrow> gotime \<Rightarrow> approval_claim" where
  "demo_claim d now = \<lparr>cl_approval_id = ''ap'', cl_workspace = ''w'', cl_thread = ''t'', cl_turn = ''u'', cl_item = ''i'',
     cl_operation_digest = replicate 43 CHR ''x'', cl_decision = d, cl_now = now\<rparr>"

definition demo_approval_db :: node_db where
  "demo_approval_db = fst (SaveApproval live_env 1 (empty_node_db (timestamp 1)) demo_approval)"

definition demo_claimed_db :: node_db where
  "demo_claimed_db = fst (ClaimApproval live_env demo_approval_db (demo_claim ''accept'' (seconds 63000000010)))"

definition demo_change :: config_change_record where
  "demo_change = \<lparr>ch_id = ''cc'', ch_base_revision = ''r1'', ch_changes = ''{}'', ch_state = ConfigChangePending,
     ch_created_at = seconds 63000000000, ch_updated_at = 0, ch_error_code = []\<rparr>"

definition demo_rejected_db :: node_db where
  "demo_rejected_db = run_steps_of config_do (empty_node_db (timestamp 1))
     [FCreate live_env 1 demo_change, FTransition live_env (seconds 63000000005) ''cc'' ConfigChangeRejected ''owner'']"

definition demo_identity :: identity_record where
  "demo_identity = \<lparr>idr_algorithm = ''ed25519'', idr_public_key = replicate 32 CHR ''k'', idr_private_key_ref = ''ref'',
     idr_owner = [], idr_node = [], idr_created_at = seconds 63000000000, idr_updated_at = seconds 63000000000\<rparr>"

definition demo_bound_db :: node_db where
  "demo_bound_db = run_steps_of identity_do (empty_node_db (timestamp 1))
     [ILoad live_env (Inr demo_identity), IBind live_env (seconds 63000000001) ''o'' ''n'']"

text \<open>Property C23: an approval is claimed at most once. After a claim of an approval has succeeded, no
  claim of it succeeds again, whatever claims, reconciliations and saves of other approvals come in
  between, in whatever order and with whatever faults: a retried browser decision is never executed
  a second time.\<close>

theorem approval_claimed_once:
  assumes "ClaimApproval e db c = (db1, r, None)"
    and "\<not> list_ex (\<lambda>k. approval_saves k (cl_approval_id c)) cs"
    and "cl_approval_id c' = cl_approval_id c"
    and "ClaimApproval e' (run_steps_of approval_do db1 cs) c' = (db2, r', x)"
  shows "x \<noteq> None"
proof
  assume "x = None"
  obtain row where row: "approval_select db1 (cl_approval_id c) = Some row" "ap_status row \<noteq> ApprovalPending"
    using claim_unpending [OF assms(1)] by blast
  have "\<exists>r'. approval_select (run_steps_of approval_do db1 cs) (cl_approval_id c) = Some r' \<and> ap_status r' \<noteq> ApprovalPending"
    by (rule approval_machine.closed_stays [where Q = "\<lambda>r. ap_status r \<noteq> ApprovalPending", OF row(1) _ _ assms(2)])
      (use row(2) in \<open>auto simp: approval_moves_def approval_transition_def\<close>)
  moreover obtain row' where "approval_select (run_steps_of approval_do db1 cs) (cl_approval_id c) = Some row'"
    "ap_status row' = ApprovalPending"
    using claim_success assms(3,4) \<open>x = None\<close> by metis
  ultimately show False by simp
qed

theorem approval_claimed_once_witness:
  "snd (snd (ClaimApproval live_env (run_steps_of approval_do demo_claimed_db [AMark live_env (seconds 63000000020) ''ap''])
     (demo_claim ''accept'' (seconds 63000000030)))) \<noteq> None"
proof -
  let ?c = "demo_claim ''accept'' (seconds 63000000010)" and ?d = "demo_claim ''accept'' (seconds 63000000030)"
  let ?db = "run_steps_of approval_do demo_claimed_db [AMark live_env (seconds 63000000020) ''ap'']"
  have "snd (snd (ClaimApproval live_env demo_approval_db ?c)) = None" by code_simp
  then have first: "ClaimApproval live_env demo_approval_db ?c =
      (demo_claimed_db, fst (snd (ClaimApproval live_env demo_approval_db ?c)), None)"
    by (simp add: demo_claimed_db_def prod_eq_iff)
  obtain a b x where second: "ClaimApproval live_env ?db ?d = (a, b, x)" by (metis prod_cases3)
  have "cl_approval_id ?d = cl_approval_id ?c" "\<not> list_ex (\<lambda>k. approval_saves k (cl_approval_id ?c)) [AMark live_env (seconds 63000000020) ''ap'']"
    by (simp_all add: demo_claim_def)
  from approval_claimed_once [OF first this(2,1) second] second show ?thesis by simp
qed

text \<open>A decided configuration change is final. Once a change has been approved or rejected,
  no sequence of creations and transitions changes it, and while it is pending its base revision and
  its contents never change.\<close>

theorem config_change_final:
  assumes "config_select db i = Some r"
  shows "\<exists>r'. config_select (run_steps_of config_do db cs) i = Some r' \<and> cf_base_revision r' = cf_base_revision r \<and>
    cf_changes r' = cf_changes r \<and> (cf_state r \<noteq> ConfigChangePending \<longrightarrow> r' = r)"
proof (cases "cf_state r = ConfigChangePending")
  case True
  have "\<exists>r'. config_select (run_steps_of config_do db cs) i = Some r' \<and>
      (cf_base_revision r', cf_changes r') = (cf_base_revision r, cf_changes r)"
    by (rule config_machine.fact_kept [OF assms]) (auto simp: config_moves_def list_ex_iff)
  with True show ?thesis by auto
next
  case False
  then have "config_select (run_steps_of config_do db cs) i = Some r"
    by (intro config_machine.final_stays assms) (auto simp: config_moves_def list_ex_iff)
  then show ?thesis by simp
qed

theorem config_change_final_witness:
  "\<exists>r'. config_select (run_steps_of config_do demo_rejected_db
     [FTransition live_env (seconds 63000000009) ''cc'' ConfigChangeApproved []]) ''cc'' = Some r' \<and>
   cf_state r' = ConfigChangeRejected"
proof -
  let ?r = "the (config_select demo_rejected_db ''cc'')"
  have "config_select demo_rejected_db ''cc'' \<noteq> None" and st: "cf_state ?r = ConfigChangeRejected" by code_simp+
  then have "config_select demo_rejected_db ''cc'' = Some ?r" by auto
  from config_change_final [OF this, of "[FTransition live_env (seconds 63000000009) ''cc'' ConfigChangeApproved []]"] st
  show ?thesis by auto
qed

text \<open>Property C36: a bound node keeps its identity. Once the identity has an owner and a node id, no
  sequence of identity loads and bindings, with any faults and any key factory, changes the key, its
  reference, the owner or the node.\<close>

theorem identity_bound_final:
  assumes "identity_table db = Some r" "id_owner_id r \<noteq> None"
  shows "\<exists>r'. identity_table (run_steps_of identity_do db cs) = Some r' \<and> id_public_key r' = id_public_key r \<and>
    id_private_key_ref r' = id_private_key_ref r \<and> id_owner_id r' = id_owner_id r \<and> id_node_id r' = id_node_id r"
proof -
  have "\<exists>r'. identity_view (run_steps_of identity_do db cs) () = Some r' \<and>
      (id_owner_id r' \<noteq> None \<and> id_public_key r' = id_public_key r \<and>
       id_private_key_ref r' = id_private_key_ref r \<and> id_owner_id r' = id_owner_id r \<and> id_node_id r' = id_node_id r)"
  proof (rule identity_machine.closed_stays)
    show "identity_view db () = Some r" using assms(1) by (simp add: identity_view_def)
  qed (use assms(2) in \<open>auto simp: identity_moves_def list_ex_iff\<close>)
  then show ?thesis by (auto simp: identity_view_def)
qed

theorem identity_bound_final_witness:
  "\<exists>r'. identity_table (run_steps_of identity_do demo_bound_db [IBind live_env (seconds 63000000009) ''other'' ''n2'']) = Some r' \<and>
   id_owner_id r' = Some ''o'' \<and> id_node_id r' = Some ''n''"
proof -
  let ?r = "the (identity_table demo_bound_db)"
  have "identity_table demo_bound_db \<noteq> None" and b: "id_owner_id ?r = Some ''o''" "id_node_id ?r = Some ''n''" by code_simp+
  then have "identity_table demo_bound_db = Some ?r" "id_owner_id ?r \<noteq> None" by auto
  from identity_bound_final [OF this, of "[IBind live_env (seconds 63000000009) ''other'' ''n2'']"] b show ?thesis by auto
qed

text \<open>A key pair is kept exactly when its identity is stored. When the key factory has
  produced a record and the database had no identity, \<^verbatim>\<open>LoadOrCreateIdentity\<close> either
  stores that record and keeps the key, or reports an error, leaves the database unchanged and rolls
  the key back exactly when the factory had been called.\<close>

theorem identity_key_kept_iff_stored:
  assumes "identity_table db = None"
  shows "let (db', out) = LoadOrCreateIdentity e db (Some (Inr r)) in
    (io_result out = Inr (r, True) \<and> \<not> io_rolled_back out \<and> db' = db\<lparr>identity_table := Some (new_identity r)\<rparr>) \<or>
    (isl (io_result out) \<and> db' = db \<and>
     (io_rolled_back out \<longleftrightarrow> store_guard e True = None \<and> \<not> call_fails e 0 \<and> \<not> call_fails e 1 \<and> \<not> call_fails e 2))"
  unfolding LoadOrCreateIdentity_def using assms
  by (auto simp: Let_def scanIdentity_def split: option.split)

theorem identity_key_kept_iff_stored_witness:
  "let (db', out) = LoadOrCreateIdentity live_env (empty_node_db (timestamp 1)) (Some (Inr demo_identity)) in
    (io_result out = Inr (demo_identity, True) \<and> \<not> io_rolled_back out \<and>
     db' = (empty_node_db (timestamp 1))\<lparr>identity_table := Some (new_identity demo_identity)\<rparr>) \<or>
    (isl (io_result out) \<and> db' = empty_node_db (timestamp 1) \<and>
     (io_rolled_back out \<longleftrightarrow> store_guard live_env True = None \<and> \<not> call_fails live_env 0 \<and> \<not> call_fails live_env 1 \<and> \<not> call_fails live_env 2))"
  by (rule identity_key_kept_iff_stored) (simp add: empty_node_db_def)

end
