(* ===== verification/Node_Resources.thy ===== *)
theory Node_Resources
  imports Event_Store
begin

text \<open>
  Workspaces (\<^verbatim>\<open>workspace.go\<close>), runtime threads (\<^verbatim>\<open>runtime.go\<close>) and agent
  resources (\<^verbatim>\<open>agent_resources.go\<close>) of the Node database, under
  \<^verbatim>\<open>internal/node/store\<close>. Deleting a workspace cascades to its agent links and task
  bindings. The table \<^verbatim>\<open>runtime_threads\<close> has the columns of migration 8, so
  \<^verbatim>\<open>runtimeThreadsUseInstances\<close> is false only when its query fails (call 0 of the
  operations below); the statements of the older schema then run on the new table.
\<close>

section \<open>Workspaces\<close>

record workspace_record =
  wr_id :: string
  wr_display_name :: string
  wr_canonical_path :: string
  wr_filesystem_root :: string
  wr_file_identity :: string
  wr_adapter :: string
  wr_permission_profile :: string
  wr_allow_network :: bool

definition validWorkspaceRecord :: "workspace_record \<Rightarrow> bool" where
  "validWorkspaceRecord r =
     (\<not> (\<not> validWorkspaceText (wr_id r) 128 \<or> \<not> validWorkspaceText (wr_display_name r) 128 \<or>
         \<not> validWorkspaceText (wr_canonical_path r) 32767 \<or> \<not> validWorkspaceText (wr_filesystem_root r) 32767 \<or>
         \<not> validWorkspaceText (wr_file_identity r) 256 \<or> wr_adapter r \<noteq> ''codex'' \<or>
         wr_permission_profile r \<noteq> ''read-only'' \<and> wr_permission_profile r \<noteq> ''workspace-write''))"

text \<open>\<open>None\<close> is a nil slice.\<close>

definition validWorkspaceRecords :: "workspace_record list option \<Rightarrow> bool" where
  "validWorkspaceRecords records =
     (case records of
        None \<Rightarrow> False
      | Some rs \<Rightarrow> list_all validWorkspaceRecord rs \<and> distinct (map wr_id rs) \<and> distinct (map wr_file_identity rs))"

definition workspace_to_row :: "workspace_record \<Rightarrow> rfc3339 \<Rightarrow> workspace_row" where
  "workspace_to_row r now =
     \<lparr>ws_id = wr_id r, ws_display_name = wr_display_name r, ws_canonical_path = wr_canonical_path r,
      ws_filesystem_root = wr_filesystem_root r, ws_file_identity = wr_file_identity r, ws_adapter = wr_adapter r,
      ws_permission_profile = wr_permission_profile r, ws_allow_network = boolInteger (wr_allow_network r), ws_updated_at = now\<rparr>"

definition upsert_workspace :: "workspace_row \<Rightarrow> workspace_row table \<Rightarrow> workspace_row table option" where
  "upsert_workspace row t =
     (if \<not> workspaces_check row \<or> sql_exists (\<lambda>x. ws_file_identity x = ws_file_identity row \<and> ws_id x \<noteq> ws_id row) t
      then None
      else Some (sql_upsert ws_id row (\<lambda>_. row) t))"

fun upsert_workspaces :: "env \<Rightarrow> nat \<Rightarrow> rfc3339 \<Rightarrow> workspace_record list \<Rightarrow> workspace_row table \<Rightarrow> store_error + workspace_row table" where
  "upsert_workspaces e n now [] t = Inr t"
| "upsert_workspaces e n now (r # rs) t =
     (case (if call_fails e n then None else upsert_workspace (workspace_to_row r now) t) of
        None \<Rightarrow> Inl (Internal ''workspace replace'')
      | Some t' \<Rightarrow> upsert_workspaces e (Suc n) now rs t')"

text \<open>\<^verbatim>\<open>DELETE FROM workspaces WHERE id NOT IN (...)\<close> with its cascade.\<close>

definition delete_workspaces :: "string list \<Rightarrow> node_db \<Rightarrow> node_db" where
  "delete_workspaces keep db =
     db\<lparr>workspaces := sql_delete (\<lambda>r. ws_id r \<notin> set keep) (workspaces db),
        workspace_agents := sql_delete (\<lambda>r. wa_workspace_id r \<notin> set keep) (workspace_agents db),
        task_bindings := sql_delete (\<lambda>r. tb_workspace_id r \<notin> set keep) (task_bindings db)\<rparr>"

definition ReplaceWorkspaces :: "env \<Rightarrow> gotime \<Rightarrow> node_db \<Rightarrow> workspace_record list option \<Rightarrow> node_db \<times> store_error option" where
  "ReplaceWorkspaces e clock db records =
     (case store_guard e (validWorkspaceRecords records) of
        Some x \<Rightarrow> (db, Some x)
      | None \<Rightarrow> transact db
          (let rs = the records
           in if call_fails e 0 then Inl (Internal ''workspace transaction'')
              else if call_fails e 1 then Inl (Internal ''workspace replace'')
              else
                let db1 = delete_workspaces (map wr_id rs) db
                in case upsert_workspaces e 4 (timestamp clock) rs (workspaces db1) of
                  Inl x \<Rightarrow> Inl x
                | Inr t \<Rightarrow>
                    if call_fails e 2 then Inl (Internal ''workspace runtime cleanup'')
                    else if call_fails e 3 then Inl (Internal ''workspace replace'')
                    else Inr (db1\<lparr>workspaces := t,
                                 runtime_threads := sql_delete (\<lambda>r. \<not> sql_exists (\<lambda>w. ws_id w = rt_workspace_id r) t)
                                   (runtime_threads db1)\<rparr>)))"

definition scanWorkspace :: "workspace_row \<Rightarrow> workspace_record" where
  "scanWorkspace r =
     \<lparr>wr_id = ws_id r, wr_display_name = ws_display_name r, wr_canonical_path = ws_canonical_path r,
      wr_filesystem_root = ws_filesystem_root r, wr_file_identity = ws_file_identity r, wr_adapter = ws_adapter r,
      wr_permission_profile = ws_permission_profile r, wr_allow_network = (ws_allow_network r = 1)\<rparr>"

definition Workspace :: "env \<Rightarrow> node_db \<Rightarrow> string \<Rightarrow> store_error + workspace_record" where
  "Workspace e db i =
     (case store_guard e (validWorkspaceText i 128) of
        Some x \<Rightarrow> Inl x
      | None \<Rightarrow>
          if call_fails e 0 then Inl (Internal ''workspace read'')
          else case sql_row (\<lambda>r. ws_id r = i) (workspaces db) of
            None \<Rightarrow> Inl ErrNotFound
          | Some r \<Rightarrow> Inr (scanWorkspace r))"

definition Workspaces :: "env \<Rightarrow> node_db \<Rightarrow> store_error + workspace_record list" where
  "Workspaces e db =
     (case store_guard e True of
        Some x \<Rightarrow> Inl x
      | None \<Rightarrow>
          if call_fails e 0 \<or> call_fails e 1 then Inl (Internal ''workspace list'')
          else Inr (map scanWorkspace (order_by (\<lambda>a b. ws_id a < ws_id b) (workspaces db))))"

section \<open>Runtime threads\<close>

abbreviation RuntimeThreadIdle :: string where "RuntimeThreadIdle \<equiv> ''idle''"
abbreviation RuntimeThreadStarting :: string where "RuntimeThreadStarting \<equiv> ''starting''"
abbreviation RuntimeThreadActive :: string where "RuntimeThreadActive \<equiv> ''active''"
abbreviation RuntimeThreadNeedsReconcile :: string where "RuntimeThreadNeedsReconcile \<equiv> ''needs_reconcile''"
abbreviation default_instance :: string where "default_instance \<equiv> ''codex-default''"

record runtime_thread_record =
  rr_agent_instance_id :: string
  rr_adapter :: string
  rr_thread :: string
  rr_workspace :: string
  rr_ownership :: string
  rr_state :: string
  rr_active_turn_id :: string

definition validRuntimeThread :: "runtime_thread_record \<Rightarrow> bool" where
  "validRuntimeThread r =
     (if \<not> validWorkspaceText (rr_agent_instance_id r) 128 \<or> rr_adapter r \<noteq> ''codex'' \<or> \<not> validWorkspaceText (rr_thread r) 256 \<or>
         \<not> validWorkspaceText (rr_workspace r) 128 \<or> rr_ownership r \<noteq> ''created'' \<and> rr_ownership r \<noteq> ''resumed''
      then False
      else if rr_state r = RuntimeThreadIdle \<or> rr_state r = RuntimeThreadStarting \<or> rr_state r = RuntimeThreadNeedsReconcile
      then rr_active_turn_id r = [] \<or> rr_state r = RuntimeThreadNeedsReconcile \<and> validWorkspaceText (rr_active_turn_id r) 128
      else if rr_state r = RuntimeThreadActive then validWorkspaceText (rr_active_turn_id r) 128
      else False)"

definition runtime_to_row :: "runtime_thread_record \<Rightarrow> rfc3339 \<Rightarrow> runtime_thread_row" where
  "runtime_to_row r now =
     \<lparr>rt_agent_instance_id = rr_agent_instance_id r, rt_adapter = rr_adapter r, rt_thread_id = rr_thread r,
      rt_workspace_id = rr_workspace r, rt_ownership = rr_ownership r, rt_state = rr_state r,
      rt_active_turn_id = nullText (rr_active_turn_id r), rt_updated_at = now\<rparr>"

text \<open>The statement of the older schema names a conflict target that the new table does not
  have, so it fails.\<close>

definition SaveRuntimeThread :: "env \<Rightarrow> gotime \<Rightarrow> node_db \<Rightarrow> runtime_thread_record \<Rightarrow> node_db \<times> store_error option" where
  "SaveRuntimeThread e clock db r0 =
     (case requireContext e of
        Some x \<Rightarrow> (db, Some x)
      | None \<Rightarrow>
          let r = (if rr_agent_instance_id r0 = [] then r0\<lparr>rr_agent_instance_id := default_instance\<rparr> else r0)
          in (case store_guard e (validRuntimeThread r) of
                Some x \<Rightarrow> (db, Some x)
              | None \<Rightarrow>
                  let row = runtime_to_row r (timestamp clock)
                  in if call_fails e 0 then (db, Some (Internal ''runtime thread save''))
                     else if call_fails e 1 \<or> \<not> runtime_threads_check row then (db, Some (Internal ''runtime thread save''))
                     else (db\<lparr>runtime_threads := sql_upsert runtime_thread_key row (\<lambda>_. row) (runtime_threads db)\<rparr>, None)))"

definition scanRuntimeThread :: "runtime_thread_row \<Rightarrow> runtime_thread_record" where
  "scanRuntimeThread r =
     \<lparr>rr_agent_instance_id = rt_agent_instance_id r, rr_adapter = rt_adapter r, rr_thread = rt_thread_id r,
      rr_workspace = rt_workspace_id r, rr_ownership = rt_ownership r, rr_state = rt_state r,
      rr_active_turn_id = nstring (rt_active_turn_id r)\<rparr>"

definition scanLegacyRuntimeThread :: "string \<Rightarrow> runtime_thread_row \<Rightarrow> runtime_thread_record" where
  "scanLegacyRuntimeThread instanceID r = (scanRuntimeThread r)\<lparr>rr_agent_instance_id := instanceID\<rparr>"

definition RuntimeThreadForInstance :: "env \<Rightarrow> node_db \<Rightarrow> string \<Rightarrow> string \<Rightarrow> store_error + runtime_thread_record" where
  "RuntimeThreadForInstance e db instanceID threadID =
     (case store_guard e (\<not> (\<not> validWorkspaceText instanceID 128 \<or> \<not> validWorkspaceText threadID 256)) of
        Some x \<Rightarrow> Inl x
      | None \<Rightarrow>
          if call_fails e 1 then Inl (Internal ''runtime thread read'')
          else if call_fails e 0 then
            (case sql_row (\<lambda>r. rt_thread_id r = threadID) (runtime_threads db) of
               None \<Rightarrow> Inl ErrNotFound
             | Some r \<Rightarrow> Inr (scanLegacyRuntimeThread instanceID r))
          else
            (case sql_row (\<lambda>r. runtime_thread_key r = (instanceID, threadID)) (runtime_threads db) of
               None \<Rightarrow> Inl ErrNotFound
             | Some r \<Rightarrow> Inr (scanRuntimeThread r)))"

definition RuntimeThread where
  "RuntimeThread e db threadID = RuntimeThreadForInstance e db default_instance threadID"

definition legacyRuntimeThreads :: "env \<Rightarrow> node_db \<Rightarrow> string \<Rightarrow> store_error + runtime_thread_record list" where
  "legacyRuntimeThreads e db instanceID =
     (if call_fails e 1 \<or> call_fails e 2 then Inl (Internal ''runtime thread list'')
      else Inr (map (scanLegacyRuntimeThread instanceID)
             (order_by (\<lambda>a b. rt_thread_id a < rt_thread_id b) (runtime_threads db))))"

definition by_instance :: "runtime_thread_row \<Rightarrow> runtime_thread_row \<Rightarrow> bool" where
  "by_instance a b =
     (rt_agent_instance_id a < rt_agent_instance_id b \<or>
      rt_agent_instance_id a = rt_agent_instance_id b \<and> rt_thread_id a < rt_thread_id b)"

definition RuntimeThreads :: "env \<Rightarrow> node_db \<Rightarrow> store_error + runtime_thread_record list" where
  "RuntimeThreads e db =
     (case store_guard e True of
        Some x \<Rightarrow> Inl x
      | None \<Rightarrow>
          if call_fails e 0 then legacyRuntimeThreads e db default_instance
          else if call_fails e 1 \<or> call_fails e 2 then Inl (Internal ''runtime thread list'')
          else Inr (map scanRuntimeThread (order_by by_instance (runtime_threads db))))"

definition RuntimeThreadsForInstance :: "env \<Rightarrow> node_db \<Rightarrow> string \<Rightarrow> store_error + runtime_thread_record list" where
  "RuntimeThreadsForInstance e db instanceID =
     (case store_guard e (validWorkspaceText instanceID 128) of
        Some x \<Rightarrow> Inl x
      | None \<Rightarrow>
          if call_fails e 0 then
            (if instanceID \<noteq> default_instance then Inr [] else legacyRuntimeThreads e db instanceID)
          else if call_fails e 1 \<or> call_fails e 2 then Inl (Internal ''runtime thread list'')
          else Inr (map scanRuntimeThread (order_by (\<lambda>a b. rt_thread_id a < rt_thread_id b)
                 (filter (\<lambda>r. rt_agent_instance_id r = instanceID) (runtime_threads db)))))"

definition DeleteRuntimeThreadForInstance :: "env \<Rightarrow> node_db \<Rightarrow> string \<Rightarrow> string \<Rightarrow> node_db \<times> store_error option" where
  "DeleteRuntimeThreadForInstance e db instanceID threadID =
     (case store_guard e (\<not> (\<not> validWorkspaceText instanceID 128 \<or> \<not> validWorkspaceText threadID 256)) of
        Some x \<Rightarrow> (db, Some x)
      | None \<Rightarrow>
          if call_fails e 0 \<and> instanceID \<noteq> default_instance then (db, Some ErrNotFound)
          else
            let hit = (if call_fails e 0 then (\<lambda>r. rt_thread_id r = threadID)
                       else (\<lambda>r. runtime_thread_key r = (instanceID, threadID)));
                db' = db\<lparr>runtime_threads := sql_delete hit (runtime_threads db)\<rparr>
            in if call_fails e 1 then (db, Some (Internal ''runtime thread delete''))
               else if call_fails e 2 then (db', Some (Internal ''runtime thread delete''))
               else if sql_count hit (runtime_threads db) = 0 then (db', Some ErrNotFound)
               else (db', None))"

definition DeleteRuntimeThread where
  "DeleteRuntimeThread e db threadID = DeleteRuntimeThreadForInstance e db default_instance threadID"

section \<open>Agent resources\<close>

record agent_installation =
  in_adapter_type :: string
  in_installation_state :: string
  in_version :: string
  in_compatibility :: string
  in_process_state :: string
  in_process_count :: int

record agent_instance =
  an_instance :: string
  an_adapter_type :: string
  an_display_name :: string
  an_enabled :: bool
  an_default :: bool
  an_runtime_mode :: string
  an_config_revision :: string

record runtime_endpoint =
  en_endpoint :: string
  en_instance :: string
  en_mode :: string
  en_ownership :: string

record workspace_agent =
  wl_workspace :: string
  wl_instance :: string
  wl_default :: bool

record task_binding =
  tk_task :: string
  tk_instance :: string
  tk_endpoint :: string
  tk_workspace :: string
  tk_native_session :: string
  tk_ownership :: string
  tk_state :: string
  tk_active_run :: string
  tk_legacy_exposed :: bool

definition validAgentInstallation :: "agent_installation \<Rightarrow> bool" where
  "validAgentInstallation i =
     (validWorkspaceText (in_adapter_type i) 64 \<and> length (in_version i) \<le> 128 \<and>
      in_installation_state i \<in> {''installed'', ''not_installed'', ''incompatible'', ''unavailable''} \<and>
      in_compatibility i \<in> {''known'', ''unverified'', ''unsupported''} \<and>
      in_process_state i \<in> {''running'', ''stopped'', ''unknown''} \<and>
      0 \<le> in_process_count i \<and> in_process_count i \<le> 1024)"

definition installation_row :: "agent_installation \<Rightarrow> rfc3339 \<Rightarrow> agent_installation_row" where
  "installation_row i now =
     \<lparr>ai_adapter_type = in_adapter_type i, ai_installation_state = in_installation_state i, ai_version = in_version i,
      ai_compatibility = in_compatibility i, ai_process_state = in_process_state i, ai_process_count = in_process_count i,
      ai_detected_at = now\<rparr>"

definition installations_check :: "agent_installation_row \<Rightarrow> bool" where
  "installations_check r =
     (length_between 1 64 (ai_adapter_type r) \<and>
      ai_installation_state r \<in> {''installed'', ''not_installed'', ''incompatible'', ''unavailable''} \<and>
      sql_length (ai_version r) \<le> 128 \<and> ai_compatibility r \<in> {''known'', ''unverified'', ''unsupported''} \<and>
      ai_process_state r \<in> {''running'', ''stopped'', ''unknown''} \<and> 0 \<le> ai_process_count r \<and> ai_process_count r \<le> 1024)"

definition SaveAgentInstallation :: "env \<Rightarrow> gotime \<Rightarrow> node_db \<Rightarrow> agent_installation \<Rightarrow> node_db \<times> store_error option" where
  "SaveAgentInstallation e clock db i =
     (case store_guard e (validAgentInstallation i) of
        Some x \<Rightarrow> (db, Some x)
      | None \<Rightarrow>
          let row = installation_row i (timestamp clock)
          in if call_fails e 0 \<or> \<not> installations_check row then (db, Some (Internal ''agent installation save''))
             else (db\<lparr>agent_installations := sql_upsert ai_adapter_type row (\<lambda>_. row) (agent_installations db)\<rparr>, None))"

definition AgentInstallations :: "env \<Rightarrow> node_db \<Rightarrow> store_error + agent_installation list" where
  "AgentInstallations e db =
     (case store_guard e True of
        Some x \<Rightarrow> Inl x
      | None \<Rightarrow>
          if call_fails e 0 \<or> call_fails e 1 then Inl (Internal ''agent installation list'')
          else Inr (map (\<lambda>r. \<lparr>in_adapter_type = ai_adapter_type r, in_installation_state = ai_installation_state r,
                 in_version = ai_version r, in_compatibility = ai_compatibility r, in_process_state = ai_process_state r,
                 in_process_count = ai_process_count r\<rparr>)
               (order_by (\<lambda>a b. ai_adapter_type a < ai_adapter_type b) (agent_installations db))))"

definition find_instance :: "agent_instance list \<Rightarrow> string \<Rightarrow> agent_instance option" where
  "find_instance instances i = find (\<lambda>x. an_instance x = i) instances"

definition valid_instance :: "agent_instance \<Rightarrow> bool" where
  "valid_instance i =
     (\<not> (\<not> validWorkspaceText (an_instance i) 128 \<or> \<not> validWorkspaceText (an_adapter_type i) 64 \<or>
         \<not> validWorkspaceText (an_display_name i) 128 \<or> \<not> validWorkspaceText (an_config_revision i) 128 \<or>
         an_runtime_mode i \<noteq> ''managed'' \<and> an_runtime_mode i \<noteq> ''detected-only''))"

definition valid_endpoint :: "agent_instance list \<Rightarrow> runtime_endpoint \<Rightarrow> bool" where
  "valid_endpoint instances p =
     (case find_instance instances (en_instance p) of
        None \<Rightarrow> False
      | Some i \<Rightarrow>
          \<not> (\<not> validWorkspaceText (en_endpoint p) 128 \<or> en_mode p \<noteq> an_runtime_mode i \<or>
             en_ownership p \<noteq> ''node'' \<and> en_ownership p \<noteq> ''external'') \<and>
          \<not> (en_mode p = ''managed'' \<and> en_ownership p \<noteq> ''node''))"

definition valid_link :: "agent_instance list \<Rightarrow> workspace_agent \<Rightarrow> bool" where
  "valid_link instances l =
     (case find_instance instances (wl_instance l) of
        None \<Rightarrow> False
      | Some i \<Rightarrow> an_enabled i \<and> an_runtime_mode i = ''managed'' \<and> validWorkspaceText (wl_workspace l) 128)"

definition link_key :: "workspace_agent \<Rightarrow> string" where
  "link_key l = wl_workspace l @ CHR 0x00 # wl_instance l"

definition validAgentResources :: "agent_instance list \<Rightarrow> runtime_endpoint list \<Rightarrow> workspace_agent list \<Rightarrow> bool" where
  "validAgentResources instances endpoints links =
     (instances \<noteq> [] \<and> list_all valid_instance instances \<and> distinct (map an_instance instances) \<and>
      length (filter an_default instances) = 1 \<and>
      list_all (valid_endpoint instances) endpoints \<and> distinct (map en_endpoint endpoints) \<and>
      list_all (valid_link instances) links \<and> distinct (map link_key links) \<and>
      list_all (\<lambda>l. length (filter (\<lambda>k. wl_workspace k = wl_workspace l \<and> wl_default k) links) = 1) links)"

definition instance_row :: "agent_instance \<Rightarrow> rfc3339 \<Rightarrow> agent_instance_row" where
  "instance_row i now =
     \<lparr>ag_instance_id = an_instance i, ag_adapter_type = an_adapter_type i, ag_display_name = an_display_name i,
      ag_enabled = boolInteger (an_enabled i), ag_is_default = boolInteger (an_default i), ag_runtime_mode = an_runtime_mode i,
      ag_config_revision = an_config_revision i, ag_updated_at = now\<rparr>"

definition instances_check :: "agent_instance_row \<Rightarrow> bool" where
  "instances_check r =
     (length_between 1 128 (ag_instance_id r) \<and> length_between 1 64 (ag_adapter_type r) \<and>
      length_between 1 128 (ag_display_name r) \<and> (ag_enabled r = 0 \<or> ag_enabled r = 1) \<and>
      (ag_is_default r = 0 \<or> ag_is_default r = 1) \<and> (ag_runtime_mode r = ''managed'' \<or> ag_runtime_mode r = ''detected-only'') \<and>
      length_between 1 128 (ag_config_revision r))"

text \<open>The unique index on the default instance.\<close>

definition upsert_instance :: "agent_instance_row \<Rightarrow> agent_instance_row table \<Rightarrow> agent_instance_row table option" where
  "upsert_instance row t =
     (if \<not> instances_check row \<or>
         ag_is_default row = 1 \<and> sql_exists (\<lambda>x. ag_is_default x = 1 \<and> ag_instance_id x \<noteq> ag_instance_id row) t
      then None else Some (sql_upsert ag_instance_id row (\<lambda>_. row) t))"

definition upsert_endpoint ::
  "rfc3339 \<Rightarrow> agent_instance_row table \<Rightarrow> runtime_endpoint \<Rightarrow> endpoint_row table \<Rightarrow> endpoint_row table option" where
  "upsert_endpoint now instances p t =
     (let row = \<lparr>ep_endpoint_id = en_endpoint p, ep_instance_id = en_instance p, ep_mode = en_mode p,
            ep_ownership = en_ownership p, ep_updated_at = now\<rparr>
      in if \<not> length_between 1 128 (ep_endpoint_id row) \<or> ep_mode row \<noteq> ''managed'' \<and> ep_mode row \<noteq> ''detected-only'' \<or>
            ep_ownership row \<noteq> ''node'' \<and> ep_ownership row \<noteq> ''external'' \<or>
            \<not> sql_exists (\<lambda>x. ag_instance_id x = ep_instance_id row) instances
         then None else Some (sql_upsert ep_endpoint_id row (\<lambda>_. row) t))"

definition insert_link ::
  "rfc3339 \<Rightarrow> node_db \<Rightarrow> agent_instance_row table \<Rightarrow> workspace_agent \<Rightarrow> workspace_agent_row table \<Rightarrow> workspace_agent_row table option" where
  "insert_link now db instances l t =
     (let row = \<lparr>wa_workspace_id = wl_workspace l, wa_instance_id = wl_instance l,
            wa_is_default = boolInteger (wl_default l), wa_updated_at = now\<rparr>
      in if \<not> sql_exists (\<lambda>w. ws_id w = wl_workspace l) (workspaces db) \<or>
            \<not> sql_exists (\<lambda>x. ag_instance_id x = wl_instance l) instances \<or>
            sql_exists (\<lambda>x. wa_workspace_id x = wl_workspace l \<and> wa_instance_id x = wl_instance l) t \<or>
            wl_default l \<and> sql_exists (\<lambda>x. wa_workspace_id x = wl_workspace l \<and> wa_is_default x = 1) t
         then None else Some (sql_insert row t))"

text \<open>The three loops of \<^verbatim>\<open>ReplaceAgentResources\<close> share this shape; \<open>n\<close> numbers the calls.\<close>

fun write_all :: "env \<Rightarrow> nat \<Rightarrow> string \<Rightarrow> ('a \<Rightarrow> 't \<Rightarrow> 't option) \<Rightarrow> 'a list \<Rightarrow> 't \<Rightarrow> store_error + 't" where
  "write_all e n op step [] t = Inr t"
| "write_all e n op step (x # xs) t =
     (case (if call_fails e n then None else step x t) of
        None \<Rightarrow> Inl (Internal op)
      | Some t' \<Rightarrow> write_all e (Suc n) op step xs t')"

definition ReplaceAgentResources ::
  "env \<Rightarrow> gotime \<Rightarrow> node_db \<Rightarrow> agent_instance list \<Rightarrow> runtime_endpoint list \<Rightarrow> workspace_agent list \<Rightarrow> node_db \<times> store_error option" where
  "ReplaceAgentResources e clock db instances endpoints links =
     (case store_guard e (validAgentResources instances endpoints links) of
        Some x \<Rightarrow> (db, Some x)
      | None \<Rightarrow> transact db
          (let now = timestamp clock
           in if call_fails e 0 then Inl (Internal ''agent resource transaction'')
              else if call_fails e 1 then Inl (Internal ''agent instance replace'')
              else case write_all e 4 ''agent instance replace'' (\<lambda>i. upsert_instance (instance_row i now)) instances
                     (sql_update (\<lambda>_. True) (\<lambda>r. r\<lparr>ag_is_default := 0\<rparr>) (agent_instances db)) of
                Inl x \<Rightarrow> Inl x
              | Inr ti \<Rightarrow>
                  (case write_all e (4 + length instances) ''runtime endpoint replace'' (upsert_endpoint now ti) endpoints (runtime_endpoints db) of
                     Inl x \<Rightarrow> Inl x
                   | Inr te \<Rightarrow>
                       if call_fails e 2 then Inl (Internal ''workspace agent replace'')
                       else case write_all e (4 + length instances + length endpoints) ''workspace agent replace''
                              (insert_link now db ti) links [] of
                         Inl x \<Rightarrow> Inl x
                       | Inr ta \<Rightarrow>
                           if call_fails e 3 then Inl (Internal ''agent resource replace'')
                           else Inr (db\<lparr>agent_instances := ti, runtime_endpoints := te, workspace_agents := ta\<rparr>))))"

definition AgentInstances :: "env \<Rightarrow> node_db \<Rightarrow> store_error + agent_instance list" where
  "AgentInstances e db =
     (case store_guard e True of
        Some x \<Rightarrow> Inl x
      | None \<Rightarrow>
          if call_fails e 0 \<or> call_fails e 1 then Inl (Internal ''agent instance list'')
          else Inr (map (\<lambda>r. \<lparr>an_instance = ag_instance_id r, an_adapter_type = ag_adapter_type r,
                 an_display_name = ag_display_name r, an_enabled = (ag_enabled r = 1), an_default = (ag_is_default r = 1),
                 an_runtime_mode = ag_runtime_mode r, an_config_revision = ag_config_revision r\<rparr>)
               (order_by (\<lambda>a b. ag_instance_id a < ag_instance_id b) (agent_instances db))))"

definition WorkspaceAgents :: "env \<Rightarrow> node_db \<Rightarrow> string \<Rightarrow> store_error + workspace_agent list" where
  "WorkspaceAgents e db workspaceID =
     (case store_guard e (validWorkspaceText workspaceID 128) of
        Some x \<Rightarrow> Inl x
      | None \<Rightarrow>
          if call_fails e 0 \<or> call_fails e 1 then Inl (Internal ''workspace agent list'')
          else Inr (map (\<lambda>r. \<lparr>wl_workspace = wa_workspace_id r, wl_instance = wa_instance_id r, wl_default = (wa_is_default r = 1)\<rparr>)
               (order_by (\<lambda>a b. wa_instance_id a < wa_instance_id b)
                 (filter (\<lambda>r. wa_workspace_id r = workspaceID) (workspace_agents db)))))"

definition validTaskBinding :: "task_binding \<Rightarrow> bool" where
  "validTaskBinding i =
     (if \<not> validWorkspaceText (tk_task i) 128 \<or> \<not> validWorkspaceText (tk_instance i) 128 \<or>
         \<not> validWorkspaceText (tk_endpoint i) 128 \<or> \<not> validWorkspaceText (tk_workspace i) 128 \<or>
         \<not> validWorkspaceText (tk_native_session i) 256 \<or> tk_ownership i \<noteq> ''created'' \<and> tk_ownership i \<noteq> ''resumed''
      then False
      else if tk_state i = RuntimeThreadIdle \<or> tk_state i = RuntimeThreadStarting then tk_active_run i = []
      else if tk_state i = RuntimeThreadActive then validWorkspaceText (tk_active_run i) 128
      else if tk_state i = RuntimeThreadNeedsReconcile then tk_active_run i = [] \<or> validWorkspaceText (tk_active_run i) 128
      else False)"

definition binding_row :: "task_binding \<Rightarrow> rfc3339 \<Rightarrow> task_binding_row" where
  "binding_row i now =
     \<lparr>tb_task_id = tk_task i, tb_instance_id = tk_instance i, tb_endpoint_id = tk_endpoint i, tb_workspace_id = tk_workspace i,
      tb_native_session_id = tk_native_session i, tb_ownership = tk_ownership i, tb_state = tk_state i,
      tb_active_run_id = nullText (tk_active_run i), tb_legacy_native_id_exposed = boolInteger (tk_legacy_exposed i), tb_updated_at = now\<rparr>"

definition bindings_check :: "task_binding_row \<Rightarrow> bool" where
  "bindings_check r =
     (length_between 1 128 (tb_task_id r) \<and> length_between 1 256 (tb_native_session_id r) \<and>
      tb_ownership r \<in> {''created'', ''resumed''} \<and> tb_state r \<in> {''idle'', ''starting'', ''active'', ''needs_reconcile''} \<and>
      (case tb_active_run_id r of None \<Rightarrow> True | Some x \<Rightarrow> length_between 1 128 x) \<and>
      tb_legacy_native_id_exposed r \<in> {0, 1} \<and>
      (tb_state r = ''active'' \<and> tb_active_run_id r \<noteq> None \<or> tb_state r \<noteq> ''active''))"

definition bindings_upsert_ok :: "node_db \<Rightarrow> task_binding_row \<Rightarrow> bool" where
  "bindings_upsert_ok db r =
     (bindings_check r \<and>
      \<not> sql_exists (\<lambda>x. tb_instance_id x = tb_instance_id r \<and> tb_native_session_id x = tb_native_session_id r \<and>
          tb_task_id x \<noteq> tb_task_id r) (task_bindings db) \<and>
      sql_exists (\<lambda>x. ag_instance_id x = tb_instance_id r) (agent_instances db) \<and>
      sql_exists (\<lambda>x. ep_endpoint_id x = tb_endpoint_id r) (runtime_endpoints db) \<and>
      sql_exists (\<lambda>x. ws_id x = tb_workspace_id r) (workspaces db))"

definition SaveTaskBinding :: "env \<Rightarrow> gotime \<Rightarrow> node_db \<Rightarrow> task_binding \<Rightarrow> node_db \<times> store_error option" where
  "SaveTaskBinding e clock db i =
     (case store_guard e (validTaskBinding i) of
        Some x \<Rightarrow> (db, Some x)
      | None \<Rightarrow>
          let row = binding_row i (timestamp clock)
          in if call_fails e 0 \<or> \<not> bindings_upsert_ok db row then (db, Some (Internal ''task binding save''))
             else (db\<lparr>task_bindings := sql_upsert tb_task_id row (\<lambda>_. row) (task_bindings db)\<rparr>, None))"

definition scanTaskBinding :: "bool \<Rightarrow> task_binding_row option \<Rightarrow> store_error + task_binding" where
  "scanTaskBinding failed row =
     (if failed then Inl (Internal ''task binding read'')
      else case row of
        None \<Rightarrow> Inl ErrNotFound
      | Some r \<Rightarrow>
          Inr \<lparr>tk_task = tb_task_id r, tk_instance = tb_instance_id r, tk_endpoint = tb_endpoint_id r,
               tk_workspace = tb_workspace_id r, tk_native_session = tb_native_session_id r, tk_ownership = tb_ownership r,
               tk_state = tb_state r, tk_active_run = nstring (tb_active_run_id r),
               tk_legacy_exposed = (tb_legacy_native_id_exposed r = 1)\<rparr>)"

definition TaskBinding :: "env \<Rightarrow> node_db \<Rightarrow> string \<Rightarrow> store_error + task_binding" where
  "TaskBinding e db taskID =
     (case store_guard e (validWorkspaceText taskID 128) of
        Some x \<Rightarrow> Inl x
      | None \<Rightarrow> scanTaskBinding (call_fails e 0) (sql_row (\<lambda>r. tb_task_id r = taskID) (task_bindings db)))"

definition TaskBindingByNativeSession :: "env \<Rightarrow> node_db \<Rightarrow> string \<Rightarrow> string \<Rightarrow> store_error + task_binding" where
  "TaskBindingByNativeSession e db instanceID nativeID =
     (case store_guard e (\<not> (\<not> validWorkspaceText instanceID 128 \<or> \<not> validWorkspaceText nativeID 256)) of
        Some x \<Rightarrow> Inl x
      | None \<Rightarrow> scanTaskBinding (call_fails e 0)
          (sql_row (\<lambda>r. tb_instance_id r = instanceID \<and> tb_native_session_id r = nativeID) (task_bindings db)))"

end
