(* ===== verification/Node_Resources_Contract.thy ===== *)
theory Node_Resources_Contract
  imports Node_Resources
begin

text \<open>
  What replacing the workspaces and the agent resources of a Node leaves behind, and the
  round trip of a task binding.
\<close>

section \<open>Upserts that replace the whole row\<close>

lemma row_replace:
  "sql_row (\<lambda>x. key x = k) (sql_upsert key row (\<lambda>_. row) t) =
     (if k = key row then Some row else sql_row (\<lambda>x. key x = k) t)"
proof (cases "sql_exists (\<lambda>x. key x = key row) t")
  case True
  have other: "k \<noteq> key row \<Longrightarrow> sql_row (\<lambda>x. key x = k) (sql_update (\<lambda>x. key x = key row) (\<lambda>_. row) t) = sql_row (\<lambda>x. key x = k) t"
    for t by (induction t) (auto simp: sql_update_def sql_row_def)
  have same: "sql_exists (\<lambda>x. key x = key row) t \<Longrightarrow>
      sql_row (\<lambda>x. key x = key row) (sql_update (\<lambda>x. key x = key row) (\<lambda>_. row) t) = Some row" for t
    by (induction t) (auto simp: sql_update_def sql_row_def sql_exists_def)
  from True other same show ?thesis by (simp add: sql_upsert_def)
next
  case False
  then have "sql_row (\<lambda>x. key x = key row) t = None" by (simp add: sql_row_None)
  with False show ?thesis by (auto simp: sql_upsert_def sql_row_insert split: option.splits)
qed

lemma unique_replace:
  assumes "unique_key key t"
  shows "unique_key key (sql_upsert key row (\<lambda>_. row) t)"
proof (cases "sql_exists (\<lambda>x. key x = key row) t")
  case True
  then show ?thesis using assms by (auto simp: sql_upsert_def intro!: unique_sql_update)
next
  case False
  then show ?thesis using assms by (simp add: sql_upsert_def unique_sql_insert)
qed

lemma find_key_None: "k \<notin> f ` set xs \<Longrightarrow> find (\<lambda>x. f x = k) xs = None"
  by (induction xs) auto

lemma find_key_Some: "distinct (map f xs) \<Longrightarrow> x \<in> set xs \<Longrightarrow> find (\<lambda>y. f y = f x) xs = Some x"
  by (induction xs) auto

lemma unique_row_iff:
  assumes "unique_key key t"
  shows "x \<in> set t \<longleftrightarrow> sql_row (\<lambda>y. key y = key x) t = Some x"
  using assms by (induction t) (auto simp: sql_row_def unique_key_def dest: sql_row_SomeD)

section \<open>Workspaces\<close>

lemma workspace_row_id [simp]: "ws_id (workspace_to_row r now) = wr_id r"
  by (simp add: workspace_to_row_def)

lemma scan_workspace_row [simp]: "scanWorkspace (workspace_to_row r now) = r"
  by (simp add: scanWorkspace_def workspace_to_row_def)

lemma upsert_workspaces_rows:
  assumes "upsert_workspaces e n now rs t = Inr t'" "distinct (map wr_id rs)" "unique_key ws_id t"
  shows "unique_key ws_id t' \<and> (\<forall>k. sql_row (\<lambda>x. ws_id x = k) t' =
    (case find (\<lambda>r. wr_id r = k) rs of Some r \<Rightarrow> Some (workspace_to_row r now) | None \<Rightarrow> sql_row (\<lambda>x. ws_id x = k) t))"
  using assms
proof (induction e n now rs t rule: upsert_workspaces.induct)
  case (2 e n now r rs t)
  let ?t1 = "sql_upsert ws_id (workspace_to_row r now) (\<lambda>_. workspace_to_row r now) t"
  have rest: "upsert_workspaces e (Suc n) now rs ?t1 = Inr t'" and some: "upsert_workspace (workspace_to_row r now) t = Some ?t1"
    and ok: "\<not> call_fails e n"
    using 2(2) by (auto simp: upsert_workspace_def split: if_splits)
  have u: "unique_key ws_id ?t1" using 2(4) by (rule unique_replace)
  have ih: "unique_key ws_id t' \<and> (\<forall>k. sql_row (\<lambda>x. ws_id x = k) t' =
      (case find (\<lambda>r. wr_id r = k) rs of Some r \<Rightarrow> Some (workspace_to_row r now) | None \<Rightarrow> sql_row (\<lambda>x. ws_id x = k) ?t1))"
    using 2(1) [of ?t1] rest some ok 2(3) u by simp
  have "find (\<lambda>x. wr_id x = wr_id r) rs = None" using 2(3) by (intro find_key_None) simp
  with ih show ?case by (auto simp: row_replace split: option.split)
qed simp

lemma workspaces_deleted:
  "unique_key ws_id (workspaces db) \<Longrightarrow> unique_key ws_id (workspaces (delete_workspaces keep db))"
  "sql_row (\<lambda>x. ws_id x = k) (workspaces (delete_workspaces keep db)) = Some w \<Longrightarrow> k \<in> set keep"
  by (auto simp: delete_workspaces_def unique_sql_delete set_sql_delete dest!: sql_row_SomeD)

lemma replace_workspaces_ok:
  assumes rep: "ReplaceWorkspaces e clock db (Some rs) = (db', None)" and u: "unique_key ws_id (workspaces db)"
  shows "unique_key ws_id (workspaces db') \<and> scanWorkspace ` set (workspaces db') = set rs \<and>
    runtime_threads db' = filter (\<lambda>t. \<exists>r \<in> set rs. wr_id r = rt_workspace_id t) (runtime_threads db) \<and>
    task_bindings db' = filter (\<lambda>t. \<exists>r \<in> set rs. wr_id r = tb_workspace_id t) (task_bindings db)"
proof -
  let ?db1 = "delete_workspaces (map wr_id rs) db"
  have g: "store_guard e (validWorkspaceRecords (Some rs)) = None"
    using rep unfolding ReplaceWorkspaces_def by (cases "store_guard e (validWorkspaceRecords (Some rs))") auto
  have ids: "distinct (map wr_id rs)" using store_guard_NoneD [OF g] by (simp add: validWorkspaceRecords_def)
  obtain t where t: "upsert_workspaces e 4 (timestamp clock) rs (workspaces ?db1) = Inr t"
    and db': "db' = ?db1\<lparr>workspaces := t, runtime_threads := sql_delete (\<lambda>r. \<not> sql_exists (\<lambda>w. ws_id w = rt_workspace_id r) t)
      (runtime_threads ?db1)\<rparr>"
    using rep g by (auto simp: ReplaceWorkspaces_def transact_None_iff Let_def split: if_splits sum.splits)
  note rows = upsert_workspaces_rows [OF t ids workspaces_deleted(1) [OF u]]
  have row: "sql_row (\<lambda>x. ws_id x = k) t = map_option (\<lambda>r. workspace_to_row r (timestamp clock)) (find (\<lambda>r. wr_id r = k) rs)" for k
  proof (cases "find (\<lambda>r. wr_id r = k) rs")
    case None
    then have "k \<notin> set (map wr_id rs)" by (auto simp: find_None_iff)
    then have "sql_row (\<lambda>x. ws_id x = k) (workspaces ?db1) = None" using workspaces_deleted(2) by (metis not_None_eq)
    with None rows show ?thesis by simp
  qed (use rows in simp)
  have found: "find (\<lambda>x. wr_id x = wr_id r) rs = Some r" if "r \<in> set rs" for r
    by (rule find_key_Some [OF ids that])
  have ex: "sql_exists (\<lambda>w. ws_id w = k) t \<longleftrightarrow> (\<exists>r \<in> set rs. wr_id r = k)" for k
    using sql_row_None [of "\<lambda>w. ws_id w = k" t] row [of k] by (auto simp: find_None_iff)
  have "scanWorkspace ` set t = set rs"
  proof (intro set_eqI iffI)
    fix r assume "r \<in> scanWorkspace ` set t"
    then obtain x where x: "x \<in> set t" "r = scanWorkspace x" by blast
    then obtain r' where "find (\<lambda>r. wr_id r = ws_id x) rs = Some r'" "x = workspace_to_row r' (timestamp clock)"
      using unique_row_iff [OF conjunct1 [OF rows], of x] row [of "ws_id x"] by auto
    with x(2) show "r \<in> set rs" by (auto simp: find_Some_iff)
  next
    fix r assume "r \<in> set rs"
    then have "sql_row (\<lambda>x. ws_id x = wr_id r) t = Some (workspace_to_row r (timestamp clock))" using row found by simp
    then have "workspace_to_row r (timestamp clock) \<in> set t" using sql_row_SomeD by fast
    then show "r \<in> scanWorkspace ` set t" by force
  qed
  moreover have "k \<in> wr_id ` set rs \<longleftrightarrow> (\<exists>r \<in> set rs. wr_id r = k)" for k by blast
  ultimately show ?thesis using rows unfolding db' by (simp add: delete_workspaces_def sql_delete_def ex)
qed

section \<open>Agent instances\<close>

lemma instance_id: "ag_instance_id (instance_row i now) = an_instance i"
  by (simp add: instance_row_def)

lemma upsert_instance_Some: "upsert_instance row t = Some t' \<Longrightarrow> t' = sql_upsert ag_instance_id row (\<lambda>_. row) t"
  by (auto simp: upsert_instance_def split: if_splits)

lemma write_instances_rows:
  assumes "write_all e n op (\<lambda>i. upsert_instance (instance_row i now)) is t = Inr t'" "distinct (map an_instance is)"
    and "unique_key ag_instance_id t"
  shows "unique_key ag_instance_id t' \<and> (\<forall>k. sql_row (\<lambda>x. ag_instance_id x = k) t' =
    (case find (\<lambda>i. an_instance i = k) is of Some i \<Rightarrow> Some (instance_row i now) | None \<Rightarrow> sql_row (\<lambda>x. ag_instance_id x = k) t))"
  using assms
proof (induction "is" arbitrary: n t)
  case (Cons i "is")
  let ?row = "instance_row i now"
  let ?t1 = "sql_upsert ag_instance_id ?row (\<lambda>_. ?row) t"
  have rest: "write_all e (Suc n) op (\<lambda>i. upsert_instance (instance_row i now)) is ?t1 = Inr t'"
    using Cons.prems(1) upsert_instance_Some [of ?row t] by (auto split: option.splits if_splits)
  have ih: "unique_key ag_instance_id t' \<and> (\<forall>k. sql_row (\<lambda>x. ag_instance_id x = k) t' =
      (case find (\<lambda>i. an_instance i = k) is of Some i \<Rightarrow> Some (instance_row i now) | None \<Rightarrow> sql_row (\<lambda>x. ag_instance_id x = k) ?t1))"
    using Cons.IH [OF rest _ unique_replace [OF Cons.prems(3)]] Cons.prems(2) by simp
  have "find (\<lambda>x. an_instance x = an_instance i) is = None" using Cons.prems(2) by (intro find_key_None) simp
  with ih show ?case by (auto simp: row_replace instance_id split: option.split)
qed simp

lemma replace_agents_default:
  assumes rep: "ReplaceAgentResources e clock db is eps links = (db', None)"
    and u: "unique_key ag_instance_id (agent_instances db)"
  shows "unique_key ag_instance_id (agent_instances db') \<and>
    (\<forall>x \<in> set (agent_instances db'). ag_is_default x = 1 \<longleftrightarrow> (\<exists>i \<in> set is. an_default i \<and> an_instance i = ag_instance_id x)) \<and>
    (\<forall>i \<in> set is. instance_row i (timestamp clock) \<in> set (agent_instances db'))"
proof -
  let ?t0 = "sql_update (\<lambda>_. True) (\<lambda>r. r\<lparr>ag_is_default := 0\<rparr>) (agent_instances db)"
  have g: "store_guard e (validAgentResources is eps links) = None"
    using rep unfolding ReplaceAgentResources_def by (cases "store_guard e (validAgentResources is eps links)") auto
  have v: "distinct (map an_instance is)" using store_guard_NoneD [OF g] by (simp add: validAgentResources_def)
  obtain ti te ta where ti: "write_all e 4 ''agent instance replace'' (\<lambda>i. upsert_instance (instance_row i (timestamp clock))) is ?t0 = Inr ti"
    and db': "db' = db\<lparr>agent_instances := ti, runtime_endpoints := te, workspace_agents := ta\<rparr>"
    using rep g by (auto simp: ReplaceAgentResources_def transact_None_iff Let_def split: if_splits sum.splits)
  have "unique_key ag_instance_id ?t0" using u by (intro unique_sql_update) auto
  note rows = write_instances_rows [OF ti v this]
  have found: "find (\<lambda>x. an_instance x = an_instance i) is = Some i" if "i \<in> set is" for i
    by (rule find_key_Some [OF v that])
  have zero: "ag_is_default x = 0" if "sql_row P ?t0 = Some x" for P x
    using sql_row_SomeD [OF that] by (auto simp: sql_update_def)
  have def: "ag_is_default x = 1 \<longleftrightarrow> (\<exists>i \<in> set is. an_default i \<and> an_instance i = ag_instance_id x)" if "x \<in> set ti" for x
  proof (cases "find (\<lambda>i. an_instance i = ag_instance_id x) is")
    case None
    then have "sql_row (\<lambda>y. ag_instance_id y = ag_instance_id x) ?t0 = Some x"
      using that rows unique_row_iff [OF conjunct1 [OF rows], of x] by simp
    with zero None show ?thesis by (auto simp: find_None_iff)
  next
    case (Some i)
    then have x: "x = instance_row i (timestamp clock)"
      using that rows unique_row_iff [OF conjunct1 [OF rows], of x] by simp
    have i: "i \<in> set is" using Some by (auto simp: find_Some_iff)
    have "j = i" if "j \<in> set is" "an_instance j = an_instance i" for j
      using found [OF i] found [OF that(1)] that(2) by simp
    with x i show ?thesis by (auto simp: instance_row_def)
  qed
  have mem: "instance_row i (timestamp clock) \<in> set ti" if "i \<in> set is" for i
  proof -
    have "sql_row (\<lambda>x. ag_instance_id x = an_instance i) ti = Some (instance_row i (timestamp clock))"
      using rows found [OF that] by simp
    then show ?thesis using sql_row_SomeD by fast
  qed
  show ?thesis using rows def mem by (auto simp: db')
qed

section \<open>Properties\<close>

definition demo_workspace :: "string \<Rightarrow> string \<Rightarrow> workspace_record" where
  "demo_workspace i f = \<lparr>wr_id = i, wr_display_name = i, wr_canonical_path = ''/'' @ i, wr_filesystem_root = ''/'',
     wr_file_identity = f, wr_adapter = ''codex'', wr_permission_profile = ''read-only'', wr_allow_network = False\<rparr>"

definition demo_workspaces_db :: node_db where
  "demo_workspaces_db = fst (ReplaceWorkspaces live_env (seconds 63000000000) (empty_node_db (timestamp 1))
     (Some [demo_workspace ''a'' ''f1'', demo_workspace ''b'' ''f2'']))"

definition demo_instance :: "string \<Rightarrow> bool \<Rightarrow> agent_instance" where
  "demo_instance i d = \<lparr>an_instance = i, an_adapter_type = ''codex'', an_display_name = i, an_enabled = True, an_default = d,
     an_runtime_mode = ''managed'', an_config_revision = ''r1''\<rparr>"

text \<open>Replacing the workspaces leaves exactly the given ones. When
  \<^verbatim>\<open>ReplaceWorkspaces\<close> succeeds, reading the workspaces back gives the records that were
  passed in, each id once, and exactly the runtime threads and task bindings of those workspaces are
  kept.\<close>

theorem workspaces_replaced:
  assumes "ReplaceWorkspaces e clock db (Some rs) = (db', None)" "unique_key ws_id (workspaces db)"
  shows "unique_key ws_id (workspaces db') \<and> scanWorkspace ` set (workspaces db') = set rs \<and>
    runtime_threads db' = filter (\<lambda>t. \<exists>r \<in> set rs. wr_id r = rt_workspace_id t) (runtime_threads db) \<and>
    task_bindings db' = filter (\<lambda>t. \<exists>r \<in> set rs. wr_id r = tb_workspace_id t) (task_bindings db)"
  by (rule replace_workspaces_ok [OF assms])

theorem workspaces_replaced_witness:
  "scanWorkspace ` set (workspaces demo_workspaces_db) = {demo_workspace ''a'' ''f1'', demo_workspace ''b'' ''f2''}"
proof -
  let ?rs = "[demo_workspace ''a'' ''f1'', demo_workspace ''b'' ''f2'']"
  have "snd (ReplaceWorkspaces live_env (seconds 63000000000) (empty_node_db (timestamp 1)) (Some ?rs)) = None" by code_simp
  then have eq: "ReplaceWorkspaces live_env (seconds 63000000000) (empty_node_db (timestamp 1)) (Some ?rs) = (demo_workspaces_db, None)"
    by (simp add: demo_workspaces_db_def prod_eq_iff)
  have "unique_key ws_id (workspaces (empty_node_db (timestamp 1)))" by (simp add: empty_node_db_def)
  from workspaces_replaced [OF eq this] show ?thesis by simp
qed

text \<open>A valid replacement can be refused. The rows are updated one after the other under
  the UNIQUE file identity, so a list that gives the first workspace the file identity another kept
  workspace still has is refused as an internal error, although the list as a whole is valid (two
  workspaces that exchange their identities, for instance).\<close>

theorem workspace_identity_swap_refused:
  assumes "validWorkspaceRecords (Some (r # rs))" "x \<in> set (workspaces db)" "ws_id x \<in> wr_id ` set rs"
    and "ws_file_identity x = wr_file_identity r"
  shows "ReplaceWorkspaces live_env clock db (Some (r # rs)) = (db, Some (Internal ''workspace replace''))"
proof -
  have "ws_id x \<noteq> wr_id r" using assms(1,3) by (auto simp: validWorkspaceRecords_def)
  moreover have "x \<in> set (workspaces (delete_workspaces (map wr_id (r # rs)) db))"
    using assms(2,3) by (auto simp: delete_workspaces_def set_sql_delete)
  ultimately have "upsert_workspace (workspace_to_row r (timestamp clock)) (workspaces (delete_workspaces (map wr_id (r # rs)) db)) = None"
    using assms(4) by (auto simp: upsert_workspace_def sql_exists_iff workspace_to_row_def)
  then show ?thesis using assms(1) by (simp add: ReplaceWorkspaces_def Let_def)
qed

theorem workspace_identity_swap_refused_witness:
  "ReplaceWorkspaces live_env (seconds 63000000010) demo_workspaces_db (Some [demo_workspace ''a'' ''f2'', demo_workspace ''b'' ''f1'']) =
     (demo_workspaces_db, Some (Internal ''workspace replace''))"
proof (rule workspace_identity_swap_refused)
  show "validWorkspaceRecords (Some [demo_workspace ''a'' ''f2'', demo_workspace ''b'' ''f1''])"
    "workspace_to_row (demo_workspace ''b'' ''f2'') (timestamp (seconds 63000000000)) \<in> set (workspaces demo_workspaces_db)"
    by code_simp+
qed (simp_all add: demo_workspace_def workspace_to_row_def)

text \<open>One default agent. After \<^verbatim>\<open>ReplaceAgentResources\<close> succeeds every given
  instance is stored as given, and an instance is the default exactly when the given default has its
  id, older instances included.\<close>

theorem agents_one_default:
  assumes "ReplaceAgentResources e clock db is eps links = (db', None)" "unique_key ag_instance_id (agent_instances db)"
  shows "unique_key ag_instance_id (agent_instances db') \<and>
    (\<forall>x \<in> set (agent_instances db'). ag_is_default x = 1 \<longleftrightarrow> (\<exists>i \<in> set is. an_default i \<and> an_instance i = ag_instance_id x)) \<and>
    (\<forall>i \<in> set is. instance_row i (timestamp clock) \<in> set (agent_instances db'))"
  by (rule replace_agents_default [OF assms])

theorem agents_one_default_witness:
  "unique_key ag_instance_id (agent_instances (fst (ReplaceAgentResources live_env (seconds 63000000010) demo_workspaces_db
     [demo_instance ''x'' True, demo_instance ''y'' False] [] []))) \<and>
   instance_row (demo_instance ''x'' True) (timestamp (seconds 63000000010)) \<in>
     set (agent_instances (fst (ReplaceAgentResources live_env (seconds 63000000010) demo_workspaces_db
     [demo_instance ''x'' True, demo_instance ''y'' False] [] [])))"
proof -
  let ?a = "ReplaceAgentResources live_env (seconds 63000000010) demo_workspaces_db
     [demo_instance ''x'' True, demo_instance ''y'' False] [] []"
  have "snd ?a = None" by code_simp
  then have eq: "?a = (fst ?a, None)" by (simp add: prod_eq_iff)
  have "unique_key ag_instance_id (agent_instances demo_workspaces_db)" by code_simp
  from agents_one_default [OF eq this] show ?thesis by simp
qed

end
