(* ===== verification/Server_Metadata.thy ===== *)
theory Server_Metadata
  imports Lease_Store
begin

text \<open>
  The bootstrap of a Server and the identities it knows
  (\<^verbatim>\<open>internal/server/store/metadata.go\<close>): the one-time secret that turns a fresh
  Server into one with an owner and a first node, and the reads of owner, nodes, control
  clients and sessions. The error that ends an iteration over rows is reported without the
  rows read so far.
\<close>

section \<open>Bootstrap\<close>

record bootstrap_claim =
  bc_secret_hash :: bytes
  bc_claim_digest :: bytes
  bc_owner :: string
  bc_node :: string
  bc_request :: string
  bc_name :: string
  bc_os :: string
  bc_version :: string
  bc_public_key :: bytes
  bc_credential_hash :: bytes
  bc_now :: gotime
  bc_retry_until :: gotime

record claim_result =
  cl_owner_id :: string
  cl_node_id :: string
  cl_replayed :: bool

definition equalDigest :: "bytes \<Rightarrow> bytes \<Rightarrow> bool" where
  "equalDigest left right = (length left = 32 \<and> length right = 32 \<and> left = right)"

definition validateClaim :: "bootstrap_claim \<Rightarrow> bool" where
  "validateClaim c =
     (length (bc_secret_hash c) = 32 \<and> length (bc_claim_digest c) = 32 \<and> length (bc_public_key c) = 32 \<and>
      (length (bc_credential_hash c) = 0 \<or> length (bc_credential_hash c) = 32) \<and>
      bc_owner c \<noteq> [] \<and> bc_node c \<noteq> [] \<and> bc_request c \<noteq> [] \<and> bc_name c \<noteq> [] \<and> bc_os c \<noteq> [] \<and> bc_version c \<noteq> [] \<and>
      \<not> IsZero (bc_now c) \<and> After (bc_retry_until c) (bc_now c))"

definition scrub_bootstrap :: "server_db \<Rightarrow> server_db" where
  "scrub_bootstrap db =
     db\<lparr>bootstrap := map_option (\<lambda>r. r\<lparr>bs_secret_hash := None, bs_claim_digest := None, bs_retry_until := None\<rparr>) (bootstrap db)\<rparr>"

definition scrubExpiredBootstrap ::
  "bool \<Rightarrow> server_db \<Rightarrow> rfc3339 option \<Rightarrow> gotime \<Rightarrow> store_error + server_db" where
  "scrubExpiredBootstrap failed db retryValue now =
     (case parse_null retryValue of
        None \<Rightarrow> Inl ErrCorrupt
      | Some retryUntil \<Rightarrow>
          if IsZero retryUntil \<or> \<not> After now retryUntil then Inr db
          else if failed then Inl (Internal ''bootstrap cleanup'')
          else Inr (scrub_bootstrap db))"

definition pending_bootstrap :: "bytes \<Rightarrow> gotime \<Rightarrow> bootstrap_row" where
  "pending_bootstrap secretHash now =
     \<lparr>bs_status = BootstrapPending, bs_secret_hash = Some secretHash, bs_claim_digest = None, bs_owner_id = None,
      bs_node_id = None, bs_issued_at = timestamp now, bs_claimed_at = None, bs_retry_until = None\<rparr>"

definition RotateBootstrap ::
  "env \<Rightarrow> server_db \<Rightarrow> bytes \<Rightarrow> gotime \<Rightarrow> server_db \<times> (store_error + bootstrap_state)" where
  "RotateBootstrap e db secretHash now =
     (case store_guard e (length secretHash = 32 \<and> \<not> IsZero now) of
        Some x \<Rightarrow> (db, Inl x)
      | None \<Rightarrow> transact_val db
          (if call_fails e 0 then Inl (Internal ''bootstrap rotation'')
           else if call_fails e 1 then Inl (Internal ''bootstrap rotation'')
           else if owners db \<noteq> [] then
             (case bootstrap db of
                None \<Rightarrow> Inl ErrCorrupt
              | Some r \<Rightarrow>
                  if call_fails e 2 \<or> bs_status r \<noteq> BootstrapCompleted then Inl ErrCorrupt
                  else case scrubExpiredBootstrap (call_fails e 3) db (bs_retry_until r) now of
                    Inl x \<Rightarrow> Inl x
                  | Inr db' \<Rightarrow> if call_fails e 4 then Inl DriverError else Inr (db', BootstrapCompleted))
           else if call_fails e 2 then Inl (Internal ''bootstrap rotation'')
           else if call_fails e 3 then Inl (Internal ''bootstrap rotation'')
           else Inr (db\<lparr>bootstrap := Some (pending_bootstrap secretHash now)\<rparr>, BootstrapPending)))"

definition BootstrapStatus :: "env \<Rightarrow> gotime \<Rightarrow> server_db \<Rightarrow> server_db \<times> (store_error + bootstrap_state)" where
  "BootstrapStatus e clock db =
     (case store_guard e True of
        Some x \<Rightarrow> (db, Inl x)
      | None \<Rightarrow> transact_val db
          (if call_fails e 0 then Inl (Internal ''bootstrap status'')
           else if call_fails e 1 then Inl (Internal ''bootstrap status'')
           else case bootstrap db of
             None \<Rightarrow> Inl ErrNotFound
           | Some r \<Rightarrow>
               (case (if bs_status r = BootstrapCompleted
                      then scrubExpiredBootstrap (call_fails e 2) db (bs_retry_until r) clock else Inr db) of
                  Inl x \<Rightarrow> Inl x
                | Inr db' \<Rightarrow> if call_fails e 3 then Inl (Internal ''bootstrap status'') else Inr (db', bs_status r))))"

definition new_owner :: "string \<Rightarrow> rfc3339 \<Rightarrow> owner_row" where
  "new_owner i now = \<lparr>ow_id = i, ow_status = OwnerActive, ow_created_at = now, ow_trust_revision = 0\<rparr>"

definition new_node :: "string \<Rightarrow> string \<Rightarrow> bytes \<Rightarrow> string \<Rightarrow> string \<Rightarrow> string \<Rightarrow> rfc3339 \<Rightarrow> node_row" where
  "new_node i ow key name os version now =
     \<lparr>nd_id = i, nd_owner_id = ow, nd_public_key = key, nd_name = name, nd_os = os, nd_version = version,
      nd_status = Active, nd_created_at = now, nd_last_seen_at = None\<rparr>"

definition new_credential :: "string \<Rightarrow> rfc3339 \<Rightarrow> node_credential_row" where
  "new_credential i now =
     \<lparr>nc_node_id = i, nc_credential_hash = None, nc_status = Active, nc_created_at = now, nc_rotated_at = None,
      nc_revoked_at = None\<rparr>"

text \<open>The INSERTs into \<^verbatim>\<open>owners\<close>, and into \<^verbatim>\<open>nodes\<close> with \<^verbatim>\<open>node_credentials\<close>, that bootstrap,
  enrollment and invitation share; \<open>k\<close> is the number of the first of them, \<open>report\<close> turns a failed
  write into the error of the method.\<close>

definition insert_owner ::
  "env \<Rightarrow> nat \<Rightarrow> (bool \<Rightarrow> store_error) \<Rightarrow> owner_row \<Rightarrow> server_db \<Rightarrow> store_error + server_db" where
  "insert_owner e k report r db =
     (if call_fails e k then Inl (report False)
      else if \<not> owners_insert_ok db r then Inl (report True)
      else Inr (db\<lparr>owners := sql_insert r (owners db)\<rparr>))"

definition insert_node ::
  "env \<Rightarrow> nat \<Rightarrow> (bool \<Rightarrow> store_error) \<Rightarrow> node_row \<Rightarrow> server_db \<Rightarrow> store_error + server_db" where
  "insert_node e k report r db =
     (if call_fails e k then Inl (report False)
      else if \<not> nodes_insert_ok db r then Inl (report True)
      else let db1 = db\<lparr>nodes := sql_insert r (nodes db)\<rparr>;
               c = new_credential (nd_id r) (nd_created_at r)
           in if call_fails e (Suc k) then Inl (report False)
              else if \<not> node_credentials_insert_ok db1 c then Inl (report True)
              else Inr (db1\<lparr>node_credentials := sql_insert c (node_credentials db1)\<rparr>))"

definition mapInsertError :: "env \<Rightarrow> bool \<Rightarrow> store_error" where
  "mapInsertError e is_constraint = write_error e ''bootstrap claim'' is_constraint"

definition complete_bootstrap :: "bootstrap_claim \<Rightarrow> bootstrap_row \<Rightarrow> bootstrap_row" where
  "complete_bootstrap c r =
     (if bs_status r = BootstrapPending
      then r\<lparr>bs_status := BootstrapCompleted, bs_claim_digest := Some (bc_claim_digest c), bs_owner_id := Some (bc_owner c),
             bs_node_id := Some (bc_node c), bs_claimed_at := Some (timestamp (bc_now c)),
             bs_retry_until := Some (timestamp (bc_retry_until c))\<rparr>
      else r)"

definition claimed_before :: "bootstrap_row \<Rightarrow> gotime \<Rightarrow> bootstrap_claim \<Rightarrow> bool" where
  "claimed_before r retryUntil c =
     (\<not> IsZero retryUntil \<and> \<not> After (bc_now c) retryUntil \<and>
      equalDigest (null_string (bs_secret_hash r)) (bc_secret_hash c) \<and>
      equalDigest (null_string (bs_claim_digest r)) (bc_claim_digest c))"

text \<open>A claim of a completed bootstrap commits the clean-up of the expired secret and reports
  \<^verbatim>\<open>ErrBootstrapCompleted\<close>, so the outcome is a pair and not a transaction.\<close>

definition claim_completed :: "env \<Rightarrow> server_db \<Rightarrow> bootstrap_row \<Rightarrow> bootstrap_claim \<Rightarrow> server_db \<times> (store_error + claim_result)" where
  "claim_completed e db r c =
     (case parse_null (bs_retry_until r) of
        None \<Rightarrow> (db, Inl ErrCorrupt)
      | Some retryUntil \<Rightarrow>
          if claimed_before r retryUntil c then
            (if call_fails e 2 then (db, Inl (Internal ''bootstrap claim''))
             else (db, Inr \<lparr>cl_owner_id = null_string (bs_owner_id r), cl_node_id = null_string (bs_node_id r), cl_replayed = True\<rparr>))
          else
            let expired = \<not> IsZero retryUntil \<and> After (bc_now c) retryUntil \<and> length (null_string (bs_secret_hash r)) \<noteq> 0
            in if expired \<and> call_fails e 2 then (db, Inl (Internal ''bootstrap cleanup''))
               else if call_fails e 3 then (db, Inl (Internal ''bootstrap claim''))
               else (if expired then scrub_bootstrap db else db, Inl ErrBootstrapCompleted))"

definition claim_pending :: "env \<Rightarrow> server_db \<Rightarrow> bootstrap_row \<Rightarrow> bootstrap_claim \<Rightarrow> store_error + server_db \<times> claim_result" where
  "claim_pending e db r c =
     (if \<not> equalDigest (null_string (bs_secret_hash r)) (bc_secret_hash c) then Inl ErrUnauthorized
      else case insert_owner e 2 (mapInsertError e) (new_owner (bc_owner c) (timestamp (bc_now c))) db of
        Inl x \<Rightarrow> Inl x
      | Inr db1 \<Rightarrow>
          (case insert_node e 3 (mapInsertError e)
                  (new_node (bc_node c) (bc_owner c) (bc_public_key c) (bc_name c) (bc_os c) (bc_version c) (timestamp (bc_now c))) db1 of
             Inl x \<Rightarrow> Inl x
           | Inr db2 \<Rightarrow>
               if call_fails e 5 then Inl (Internal ''bootstrap claim'')
               else if call_fails e 6 then Inl (Internal ''bootstrap claim'')
               else Inr (db2\<lparr>bootstrap := map_option (complete_bootstrap c) (bootstrap db2)\<rparr>,
                         \<lparr>cl_owner_id = bc_owner c, cl_node_id = bc_node c, cl_replayed = False\<rparr>)))"

definition ClaimBootstrap :: "env \<Rightarrow> server_db \<Rightarrow> bootstrap_claim \<Rightarrow> server_db \<times> (store_error + claim_result)" where
  "ClaimBootstrap e db c =
     (case store_guard e (validateClaim c) of
        Some x \<Rightarrow> (db, Inl x)
      | None \<Rightarrow>
          if call_fails e 0 then (db, Inl (Internal ''bootstrap claim''))
          else if call_fails e 1 then (db, Inl (Internal ''bootstrap claim''))
          else case bootstrap db of
            None \<Rightarrow> (db, Inl ErrNotFound)
          | Some r \<Rightarrow>
              (case bs_status r of
                 BootstrapCompleted \<Rightarrow> claim_completed e db r c
               | BootstrapPending \<Rightarrow> transact_val db (claim_pending e db r c)))"

section \<open>Owner, nodes, control clients and sessions\<close>

record go_owner =
  go_owner_id :: string
  go_owner_status :: owner_status
  go_owner_created :: gotime

record go_node =
  gn_id :: string
  gn_owner :: string
  gn_public_key :: bytes
  gn_name :: string
  gn_os :: string
  gn_version :: string
  gn_status :: entity_status
  gn_credential_hash :: bytes
  gn_created_at :: gotime
  gn_last_seen_at :: "gotime option"

record control_client =
  gc_id :: string
  gc_owner :: string
  gc_key :: string
  gc_public_key :: bytes
  gc_name :: string
  gc_status :: entity_status
  gc_created_at :: gotime
  gc_last_seen_at :: "gotime option"
  gc_revoked_at :: "gotime option"

record node_session =
  ns_owner :: string
  ns_node :: string
  ns_public_key :: bytes
  ns_credential_hash :: bytes
  ns_status :: entity_status

record control_client_session =
  cs_owner :: string
  cs_client :: string
  cs_key :: string
  cs_public_key :: bytes
  cs_status :: entity_status

definition Owner :: "env \<Rightarrow> server_db \<Rightarrow> store_error + go_owner" where
  "Owner e db =
     (case store_guard e True of
        Some x \<Rightarrow> Inl x
      | None \<Rightarrow>
          if call_fails e 0 then Inl (Internal ''owner read'')
          else case owners db of
            [] \<Rightarrow> Inl ErrNotFound
          | r # _ \<Rightarrow>
              (case parse_rfc3339 (ow_created_at r) of
                 None \<Rightarrow> Inl ErrCorrupt
               | Some created \<Rightarrow> Inr \<lparr>go_owner_id = ow_id r, go_owner_status = ow_status r, go_owner_created = created\<rparr>))"

text \<open>A nullable time column read with \<^verbatim>\<open>COALESCE(column,'')\<close> and parsed when it is not empty.\<close>

definition parse_optional :: "rfc3339 option \<Rightarrow> gotime option option" where
  "parse_optional x = (case x of None \<Rightarrow> Some None | Some t \<Rightarrow> map_option Some (parse_rfc3339 t))"

definition scan_node :: "bytes \<Rightarrow> node_row \<Rightarrow> store_error + go_node" where
  "scan_node credential r =
     (case (parse_rfc3339 (nd_created_at r), parse_optional (nd_last_seen_at r)) of
        (Some created, Some seen) \<Rightarrow>
          Inr \<lparr>gn_id = nd_id r, gn_owner = nd_owner_id r, gn_public_key = nd_public_key r, gn_name = nd_name r,
               gn_os = nd_os r, gn_version = nd_version r, gn_status = nd_status r, gn_credential_hash = credential,
               gn_created_at = created, gn_last_seen_at = seen\<rparr>
      | _ \<Rightarrow> Inl ErrCorrupt)"

text \<open>\<^verbatim>\<open>FROM nodes n JOIN node_credentials c ON c.node_id=n.id\<close>.\<close>

definition node_join :: "server_db \<Rightarrow> (node_row \<times> node_credential_row) list" where
  "node_join db =
     concat (map (\<lambda>n. map (Pair n) (filter (\<lambda>c. nc_node_id c = nd_id n) (node_credentials db))) (nodes db))"

definition Nodes :: "env \<Rightarrow> server_db \<Rightarrow> store_error + go_node list" where
  "Nodes e db =
     (case store_guard e True of
        Some x \<Rightarrow> Inl x
      | None \<Rightarrow>
          if call_fails e 0 then Inl (Internal ''nodes read'')
          else case scan_list (\<lambda>(n, c). scan_node (null_string (nc_credential_hash c)) n)
                  (order_by (\<lambda>a b. nd_id (fst a) < nd_id (fst b)) (node_join db)) of
            Inl x \<Rightarrow> Inl x
          | Inr result \<Rightarrow> if call_fails e 1 then Inl (Internal ''nodes read'') else Inr result)"

definition scan_control_client :: "control_client_row \<Rightarrow> store_error + control_client" where
  "scan_control_client r =
     (case parse_rfc3339 (cc_created_at r) of
        None \<Rightarrow> Inl ErrCorrupt
      | Some created \<Rightarrow>
          (case (parse_optional (cc_last_seen_at r), parse_optional (cc_revoked_at r)) of
             (Some seen, Some revoked) \<Rightarrow>
               Inr \<lparr>gc_id = cc_id r, gc_owner = cc_owner_id r, gc_key = cc_key_id r, gc_public_key = cc_public_key r,
                    gc_name = cc_name r, gc_status = cc_status r, gc_created_at = created, gc_last_seen_at = seen,
                    gc_revoked_at = revoked\<rparr>
           | _ \<Rightarrow> Inl ErrCorrupt))"

definition ControlClients :: "env \<Rightarrow> server_db \<Rightarrow> store_error + control_client list" where
  "ControlClients e db =
     (case store_guard e True of
        Some x \<Rightarrow> Inl x
      | None \<Rightarrow>
          if call_fails e 0 then Inl (Internal ''control clients read'')
          else case scan_list scan_control_client (order_by (\<lambda>a b. cc_id a < cc_id b) (control_clients db)) of
            Inl x \<Rightarrow> Inl x
          | Inr result \<Rightarrow> if call_fails e 1 then Inl DriverError else Inr result)"

definition NodeSession :: "env \<Rightarrow> server_db \<Rightarrow> string \<Rightarrow> store_error + node_session" where
  "NodeSession e db nodeID =
     (case store_guard e (nodeID \<noteq> []) of
        Some x \<Rightarrow> Inl x
      | None \<Rightarrow>
          if call_fails e 0 then Inl (Internal ''node session read'')
          else case sql_row (\<lambda>(n, c). nd_id n = nodeID) (node_join db) of
            None \<Rightarrow> Inl ErrNotFound
          | Some (n, c) \<Rightarrow>
              Inr \<lparr>ns_owner = nd_owner_id n, ns_node = nd_id n, ns_public_key = nd_public_key n,
                   ns_credential_hash = null_string (nc_credential_hash c),
                   ns_status = (if nd_status n = Active \<and> nc_status c = Active then Active else Revoked)\<rparr>)"

definition ControlClientSession :: "env \<Rightarrow> server_db \<Rightarrow> string \<Rightarrow> store_error + control_client_session" where
  "ControlClientSession e db clientID =
     (case store_guard e (clientID \<noteq> []) of
        Some x \<Rightarrow> Inl x
      | None \<Rightarrow>
          if call_fails e 0 then Inl (Internal ''control client session read'')
          else case sql_row (\<lambda>r. cc_id r = clientID) (control_clients db) of
            None \<Rightarrow> Inl ErrNotFound
          | Some r \<Rightarrow>
              Inr \<lparr>cs_owner = cc_owner_id r, cs_client = cc_id r, cs_key = cc_key_id r, cs_public_key = cc_public_key r,
                   cs_status = cc_status r\<rparr>)"

end
