(* ===== verification/Server_Pairing.thy ===== *)
theory Server_Pairing
  imports Server_Metadata
begin

text \<open>
  Pairing of control clients with an owner (\<^verbatim>\<open>internal/server/store/pairing.go\<close>): a node
  creates a pairing, a browser claims it with the code, the node accepts or declines, and an
  accepted client becomes a trusted control client under a new trust revision. The comparison
  of secrets in constant time is equality.
\<close>

record pairing =
  pa_id :: string
  pa_owner :: string
  pa_node :: string
  pa_status :: pairing_status
  pa_code_hash :: bytes
  pa_challenge :: bytes
  pa_expires_at :: gotime
  pa_created_at :: gotime
  pa_client :: string
  pa_key :: string
  pa_client_name :: string
  pa_public_key :: bytes
  pa_node_public_key :: bytes
  pa_proof :: bytes
  pa_claimed_at :: gotime
  pa_resolved_at :: gotime

record pairing_claim =
  pc_pairing :: string
  pc_client :: string
  pc_key :: string
  pc_client_name :: string
  pc_code_hash :: bytes
  pc_public_key :: bytes
  pc_now :: gotime

record pairing_resolution =
  px_pairing :: string
  px_node :: string
  px_decision :: string
  px_proof :: bytes
  px_now :: gotime

definition five_minutes :: duration where
  "five_minutes = seconds 300"

definition validPairing :: "pairing \<Rightarrow> bool" where
  "validPairing v =
     (pa_id v \<noteq> [] \<and> length (pa_id v) \<le> 128 \<and> pa_owner v \<noteq> [] \<and> pa_node v \<noteq> [] \<and> length (pa_code_hash v) = 32 \<and>
      length (pa_challenge v) = 32 \<and> \<not> IsZero (pa_created_at v) \<and> After (pa_expires_at v) (pa_created_at v) \<and>
      time_Sub (pa_expires_at v) (pa_created_at v) \<le> five_minutes)"

definition validPairingClaim :: "pairing_claim \<Rightarrow> bool" where
  "validPairingClaim c =
     (pc_pairing c \<noteq> [] \<and> pc_client c \<noteq> [] \<and> pc_key c \<noteq> [] \<and> pc_client_name c \<noteq> [] \<and> length (pc_client_name c) \<le> 128 \<and>
      length (pc_code_hash c) = 32 \<and> length (pc_public_key c) = 32 \<and> \<not> IsZero (pc_now c))"

text \<open>\<open>None\<close> is \<^verbatim>\<open>sql.ErrNoRows\<close>; every other error is reported alike.\<close>

definition pairingReadError :: "store_error option \<Rightarrow> store_error" where
  "pairingReadError err = (case err of None \<Rightarrow> ErrNotFound | Some _ \<Rightarrow> Internal ''pairing read'')"

definition pairingWriteError :: "env \<Rightarrow> bool \<Rightarrow> store_error" where
  "pairingWriteError e is_constraint = write_error e ''pairing write'' is_constraint"

text \<open>\<^verbatim>\<open>FROM pairings p JOIN nodes n ON n.id=p.node_id\<close>: the row with the public key of its node.\<close>

definition pairing_join :: "server_db \<Rightarrow> (pairing_row \<times> bytes) list" where
  "pairing_join db =
     concat (map (\<lambda>p. map (\<lambda>n. (p, nd_public_key n)) (filter (\<lambda>n. nd_id n = pr_node_id p) (nodes db))) (pairings db))"

definition pairingSelect :: "server_db \<Rightarrow> (pairing_row \<Rightarrow> bool) \<Rightarrow> (pairing_row \<times> bytes) list" where
  "pairingSelect db P = filter (\<lambda>x. P (fst x)) (pairing_join db)"

definition scan_pairing_row :: "pairing_row \<times> bytes \<Rightarrow> store_error + pairing" where
  "scan_pairing_row x =
     (let r = fst x
      in case (parse_rfc3339 (pr_expires_at r), parse_rfc3339 (pr_created_at r), parse_null (pr_claimed_at r), parse_null (pr_resolved_at r)) of
           (Some expires, Some created, Some claimed, Some resolved) \<Rightarrow>
             Inr \<lparr>pa_id = pr_id r, pa_owner = pr_owner_id r, pa_node = pr_node_id r, pa_status = pr_status r,
                  pa_code_hash = pr_code_hash r, pa_challenge = pr_challenge r, pa_expires_at = expires,
                  pa_created_at = created, pa_client = null_string (pr_client_id r), pa_key = null_string (pr_key_id r),
                  pa_client_name = null_string (pr_client_name r), pa_public_key = null_string (pr_public_key r),
                  pa_node_public_key = snd x, pa_proof = null_string (pr_proof r), pa_claimed_at = claimed,
                  pa_resolved_at = resolved\<rparr>
         | _ \<Rightarrow> Inl ErrCorrupt)"

text \<open>\<^verbatim>\<open>scanPairing\<close> on the first row of a query, with \<^verbatim>\<open>pairingReadError\<close>.\<close>

definition scanPairing :: "bool \<Rightarrow> (pairing_row \<times> bytes) list \<Rightarrow> store_error + pairing" where
  "scanPairing failed rows =
     (if failed then Inl (pairingReadError (Some DriverError))
      else case rows of
        [] \<Rightarrow> Inl (pairingReadError None)
      | x # _ \<Rightarrow> (case scan_pairing_row x of Inl y \<Rightarrow> Inl (pairingReadError (Some y)) | Inr v \<Rightarrow> Inr v))"

definition pairing_open :: "pairing_status \<Rightarrow> bool" where
  "pairing_open s = (s = PPending \<or> s = PClaimed)"

definition new_pairing :: "pairing \<Rightarrow> pairing_row" where
  "new_pairing v =
     \<lparr>pr_id = pa_id v, pr_owner_id = pa_owner v, pr_node_id = pa_node v, pr_code_hash = pa_code_hash v,
      pr_challenge = pa_challenge v, pr_status = PPending, pr_expires_at = timestamp (pa_expires_at v), pr_client_id = None,
      pr_key_id = None, pr_public_key = None, pr_client_name = None, pr_created_at = timestamp (pa_created_at v),
      pr_claimed_at = None, pr_resolved_at = None, pr_proof = None\<rparr>"

definition CreatePairing :: "env \<Rightarrow> server_db \<Rightarrow> pairing \<Rightarrow> server_db \<times> store_error option" where
  "CreatePairing e db v =
     (case store_guard e (validPairing v) of
        Some x \<Rightarrow> (db, Some x)
      | None \<Rightarrow>
          if call_fails e 0 then (db, Some (pairingWriteError e False))
          else if \<not> pairings_insert_ok db (new_pairing v) then (db, Some (pairingWriteError e True))
          else (db\<lparr>pairings := sql_insert (new_pairing v) (pairings db)\<rparr>, None))"

text \<open>The UPDATEs of the table: expire, claim, resolve. \<open>update_pairings\<close> is \<open>None\<close> when a CHECK fails.\<close>

definition expire_pairing :: "rfc3339 \<Rightarrow> pairing_row \<Rightarrow> pairing_row" where
  "expire_pairing now r = r\<lparr>pr_status := PExpired, pr_resolved_at := Some now\<rparr>"

definition claim_pairing :: "pairing_claim \<Rightarrow> pairing_row \<Rightarrow> pairing_row" where
  "claim_pairing c r =
     r\<lparr>pr_status := PClaimed, pr_client_id := Some (pc_client c), pr_key_id := Some (pc_key c),
       pr_public_key := Some (pc_public_key c), pr_client_name := Some (pc_client_name c),
       pr_claimed_at := Some (timestamp (pc_now c))\<rparr>"

definition resolve_pairing :: "pairing_status \<Rightarrow> pairing_resolution \<Rightarrow> pairing_row \<Rightarrow> pairing_row" where
  "resolve_pairing s v r =
     r\<lparr>pr_status := s, pr_resolved_at := Some (timestamp (px_now v)), pr_proof := Some (px_proof v)\<rparr>"

definition update_pairings :: "(pairing_row \<Rightarrow> bool) \<Rightarrow> (pairing_row \<Rightarrow> pairing_row) \<Rightarrow> server_db \<Rightarrow> server_db option" where
  "update_pairings P f db =
     map_option (\<lambda>t. db\<lparr>pairings := t\<rparr>) (sql_update_checked pairings_check P f (pairings db))"

text \<open>An UPDATE whose error is dropped.\<close>

definition try_update_pairings :: "bool \<Rightarrow> (pairing_row \<Rightarrow> bool) \<Rightarrow> (pairing_row \<Rightarrow> pairing_row) \<Rightarrow> server_db \<Rightarrow> server_db" where
  "try_update_pairings failed P f db =
     (if failed then db else case update_pairings P f db of None \<Rightarrow> db | Some db' \<Rightarrow> db')"

definition same_claim :: "pairing \<Rightarrow> pairing_claim \<Rightarrow> bool" where
  "same_claim item c =
     (pa_status item = PClaimed \<and> pa_client item = pc_client c \<and> pa_key item = pc_key c \<and>
      pa_client_name item = pc_client_name c \<and> pa_public_key item = pc_public_key c)"

definition claimed_item :: "pairing \<Rightarrow> pairing_claim \<Rightarrow> pairing" where
  "claimed_item item c =
     item\<lparr>pa_status := PClaimed, pa_client := pc_client c, pa_key := pc_key c, pa_client_name := pc_client_name c,
          pa_public_key := pc_public_key c, pa_claimed_at := pc_now c\<rparr>"

definition ClaimPairing :: "env \<Rightarrow> server_db \<Rightarrow> pairing_claim \<Rightarrow> server_db \<times> (store_error + pairing)" where
  "ClaimPairing e db c =
     (case store_guard e (validPairingClaim c) of
        Some x \<Rightarrow> (db, Inl x)
      | None \<Rightarrow>
          if call_fails e 0 then (db, Inl (Internal ''pairing claim''))
          else case scanPairing (call_fails e 1) (pairingSelect db (\<lambda>r. pr_id r = pc_pairing c)) of
            Inl x \<Rightarrow> (db, Inl x)
          | Inr item \<Rightarrow>
              if pa_code_hash item \<noteq> pc_code_hash c then (db, Inl ErrUnauthorized)
              else if After (pc_now c) (pa_expires_at item) then
                (if pairing_open (pa_status item) \<and> \<not> call_fails e 3
                 then (try_update_pairings (call_fails e 2) (\<lambda>r. pr_id r = pc_pairing c) (expire_pairing (timestamp (pc_now c))) db,
                       Inl ErrConflict)
                 else (db, Inl ErrConflict))
              else if same_claim item c then
                (if call_fails e 2 then (db, Inl (Internal ''pairing claim'')) else (db, Inr item))
              else if pa_status item \<noteq> PPending then (db, Inl ErrConflict)
              else if call_fails e 2 then (db, Inl (pairingWriteError e False))
              else case update_pairings (\<lambda>r. pr_id r = pc_pairing c \<and> pr_status r = PPending) (claim_pairing c) db of
                None \<Rightarrow> (db, Inl (pairingWriteError e True))
              | Some db' \<Rightarrow>
                  if call_fails e 3 then (db, Inl (Internal ''pairing claim''))
                  else (db', Inr (claimed_item item c)))"

definition Pairing :: "env \<Rightarrow> server_db \<Rightarrow> string \<Rightarrow> bytes \<Rightarrow> gotime \<Rightarrow> server_db \<times> (store_error + pairing)" where
  "Pairing e db pairingID codeHash now =
     (case store_guard e (pairingID \<noteq> [] \<and> length pairingID \<le> 128 \<and> length codeHash = 32 \<and> \<not> IsZero now) of
        Some x \<Rightarrow> (db, Inl x)
      | None \<Rightarrow>
          (case scanPairing (call_fails e 0) (pairingSelect db (\<lambda>r. pr_id r = pairingID)) of
             Inl x \<Rightarrow> (db, Inl x)
           | Inr item \<Rightarrow>
               if pa_code_hash item \<noteq> codeHash then (db, Inl ErrUnauthorized)
               else if After now (pa_expires_at item) \<and> \<not> pairing_open (pa_status item) then (db, Inl ErrConflict)
               else if After now (pa_expires_at item) \<and> pairing_open (pa_status item)
               then (try_update_pairings (call_fails e 1) (\<lambda>r. pr_id r = pairingID \<and> pairing_open (pr_status r))
                       (expire_pairing (timestamp now)) db,
                     Inr (item\<lparr>pa_status := PExpired, pa_resolved_at := now\<rparr>))
               else (db, Inr item)))"

text \<open>\<^verbatim>\<open>ORDER BY p.claimed_at,p.id\<close>; NULL sorts first.\<close>

definition null_text_less :: "rfc3339 option \<Rightarrow> rfc3339 option \<Rightarrow> bool" where
  "null_text_less a b =
     (case (a, b) of (_, None) \<Rightarrow> False | (None, Some _) \<Rightarrow> True | (Some x, Some y) \<Rightarrow> text_less x y)"

definition by_claim :: "pairing_row \<times> bytes \<Rightarrow> pairing_row \<times> bytes \<Rightarrow> bool" where
  "by_claim a b =
     (null_text_less (pr_claimed_at (fst a)) (pr_claimed_at (fst b)) \<or>
      pr_claimed_at (fst a) = pr_claimed_at (fst b) \<and> pr_id (fst a) < pr_id (fst b))"

definition scan_pairings :: "(pairing_row \<times> bytes) list \<Rightarrow> store_error + pairing list" where
  "scan_pairings = scan_list (\<lambda>x. scanPairing False [x])"

definition NodePairings :: "env \<Rightarrow> server_db \<Rightarrow> string \<Rightarrow> gotime \<Rightarrow> server_db \<times> (store_error + pairing list)" where
  "NodePairings e db nodeID now =
     (case store_guard e (nodeID \<noteq> [] \<and> length nodeID \<le> 128 \<and> \<not> IsZero now) of
        Some x \<Rightarrow> (db, Inl x)
      | None \<Rightarrow>
          let db' = try_update_pairings (call_fails e 0)
                (\<lambda>r. pr_node_id r = nodeID \<and> pairing_open (pr_status r) \<and> text_less (pr_expires_at r) (timestamp now))
                (expire_pairing (timestamp now)) db
          in (db',
              if call_fails e 1 then Inl (Internal ''pairings read'')
              else case scan_pairings (order_by by_claim (pairingSelect db' (\<lambda>r. pr_node_id r = nodeID \<and> pr_status r = PClaimed))) of
                Inl x \<Rightarrow> Inl x
              | Inr result \<Rightarrow> if call_fails e 2 then Inl (Internal ''pairings read'') else Inr result))"

section \<open>Resolving a pairing\<close>

text \<open>\<^verbatim>\<open>UPDATE owners SET trust_revision=trust_revision+1 WHERE id=?\<close>.\<close>

definition bump_revision :: "owner_row \<Rightarrow> owner_row" where
  "bump_revision r = r\<lparr>ow_trust_revision := ow_trust_revision r + 1\<rparr>"

definition raise_trust :: "string \<Rightarrow> server_db \<Rightarrow> server_db option" where
  "raise_trust i db =
     map_option (\<lambda>t. db\<lparr>owners := t\<rparr>) (sql_update_checked owners_check (\<lambda>r. ow_id r = i) bump_revision (owners db))"

definition new_client :: "pairing \<Rightarrow> gotime \<Rightarrow> control_client_row" where
  "new_client item now =
     \<lparr>cc_id = pa_client item, cc_owner_id = pa_owner item, cc_public_key = pa_public_key item, cc_name = pa_client_name item,
      cc_status = Active, cc_created_at = timestamp now, cc_revoked_at = None, cc_key_id = pa_key item,
      cc_last_seen_at = None\<rparr>"

definition exact_client :: "pairing \<Rightarrow> control_client_row \<Rightarrow> bool" where
  "exact_client item r =
     (cc_id r = pa_client item \<and> cc_owner_id r = pa_owner item \<and> cc_key_id r = pa_key item \<and>
      cc_public_key r = pa_public_key item \<and> cc_name r = pa_client_name item \<and> cc_status r = Active)"

text \<open>The INSERT with \<^verbatim>\<open>ON CONFLICT(id) DO NOTHING\<close>: CHECK constraints are tested first; a row with the
  id makes the statement do nothing, and then the stored client must be the claimed one.\<close>

definition admit_client :: "env \<Rightarrow> pairing \<Rightarrow> gotime \<Rightarrow> server_db \<Rightarrow> store_error + server_db" where
  "admit_client e item now db =
     (if call_fails e 2 then Inl (pairingWriteError e False)
      else if \<not> control_clients_check (new_client item now) then Inl (pairingWriteError e True)
      else if sql_exists (\<lambda>r. cc_id r = pa_client item) (control_clients db) then
        (if call_fails e 3 \<or> sql_count (exact_client item) (control_clients db) \<noteq> 1 then Inl ErrConflict else Inr db)
      else if \<not> control_clients_insert_ok db (new_client item now) then Inl (pairingWriteError e True)
      else if call_fails e 3 then Inl (Internal ''control trust revision'')
      else case raise_trust (pa_owner item) (db\<lparr>control_clients := sql_insert (new_client item now) (control_clients db)\<rparr>) of
        None \<Rightarrow> Inl (Internal ''control trust revision'')
      | Some db' \<Rightarrow> Inr db')"

definition ResolvePairing :: "env \<Rightarrow> server_db \<Rightarrow> pairing_resolution \<Rightarrow> server_db \<times> (store_error + pairing)" where
  "ResolvePairing e db v =
     (case store_guard e (px_pairing v \<noteq> [] \<and> px_node v \<noteq> [] \<and> (px_decision v = ''accept'' \<or> px_decision v = ''decline'') \<and>
         length (px_proof v) = 64 \<and> \<not> IsZero (px_now v)) of
        Some x \<Rightarrow> (db, Inl x)
      | None \<Rightarrow> transact_val db
          (if call_fails e 0 then Inl (Internal ''pairing decision'')
           else case scanPairing (call_fails e 1) (pairingSelect db (\<lambda>r. pr_id r = px_pairing v \<and> pr_node_id r = px_node v)) of
             Inl x \<Rightarrow> Inl x
           | Inr item \<Rightarrow>
               if pa_status item \<noteq> PClaimed \<or> After (px_now v) (pa_expires_at item) then Inl ErrConflict
               else
                 let accept = (px_decision v = ''accept''); status = (if accept then PApproved else PDeclined)
                 in case (if accept then admit_client e item (px_now v) db else Inr db) of
                   Inl x \<Rightarrow> Inl x
                 | Inr db1 \<Rightarrow>
                     if call_fails e 4 then Inl (pairingWriteError e False)
                     else case update_pairings (\<lambda>r. pr_id r = px_pairing v \<and> pr_status r = PClaimed) (resolve_pairing status v) db1 of
                       None \<Rightarrow> Inl (pairingWriteError e True)
                     | Some db2 \<Rightarrow>
                         if call_fails e 5 then Inl (Internal ''pairing decision'')
                         else Inr (db2, item\<lparr>pa_status := status, pa_proof := px_proof v, pa_resolved_at := px_now v\<rparr>)))"

section \<open>Revocation and rotation\<close>

definition revoke_client :: "rfc3339 \<Rightarrow> control_client_row \<Rightarrow> control_client_row" where
  "revoke_client now r = r\<lparr>cc_status := Revoked, cc_revoked_at := Some now\<rparr>"

definition active_client :: "string \<Rightarrow> string \<Rightarrow> control_client_row \<Rightarrow> bool" where
  "active_client ownerID clientID r = (cc_owner_id r = ownerID \<and> cc_id r = clientID \<and> cc_status r = Active)"

definition revoke_clients :: "string \<Rightarrow> string \<Rightarrow> gotime \<Rightarrow> server_db \<Rightarrow> server_db" where
  "revoke_clients ownerID clientID now db =
     db\<lparr>control_clients := sql_update (active_client ownerID clientID) (revoke_client (timestamp now)) (control_clients db)\<rparr>"

definition RevokeControlClient :: "env \<Rightarrow> server_db \<Rightarrow> string \<Rightarrow> string \<Rightarrow> gotime \<Rightarrow> server_db \<times> store_error option" where
  "RevokeControlClient e db ownerID clientID now =
     (case store_guard e (ownerID \<noteq> [] \<and> clientID \<noteq> [] \<and> \<not> IsZero now) of
        Some x \<Rightarrow> (db, Some x)
      | None \<Rightarrow> transact db
          (if call_fails e 0 then Inl (Internal ''control client revoke'')
           else if call_fails e 1 then Inl (Internal ''control client revoke'')
           else if sql_count (active_client ownerID clientID) (control_clients db) = 0 then Inl ErrNotFound
           else if call_fails e 2 then Inl (Internal ''control trust revision'')
           else case raise_trust ownerID (revoke_clients ownerID clientID now db) of
             None \<Rightarrow> Inl (Internal ''control trust revision'')
           | Some db' \<Rightarrow> if call_fails e 3 then Inl DriverError else Inr db'))"

definition rotate_credential :: "bytes \<Rightarrow> rfc3339 \<Rightarrow> node_credential_row \<Rightarrow> node_credential_row" where
  "rotate_credential h now r =
     r\<lparr>nc_credential_hash := Some h, nc_status := Active, nc_rotated_at := Some now, nc_revoked_at := None\<rparr>"

definition active_node :: "string \<Rightarrow> string \<Rightarrow> node_row \<Rightarrow> bool" where
  "active_node ownerID nodeID r = (nd_id r = nodeID \<and> nd_owner_id r = ownerID \<and> nd_status r = Active)"

definition RotateNodeCredential ::
  "env \<Rightarrow> server_db \<Rightarrow> string \<Rightarrow> string \<Rightarrow> bytes \<Rightarrow> gotime \<Rightarrow> server_db \<times> store_error option" where
  "RotateNodeCredential e db ownerID nodeID credentialHash now =
     (case store_guard e (ownerID \<noteq> [] \<and> nodeID \<noteq> [] \<and> length credentialHash = 32 \<and> \<not> IsZero now) of
        Some x \<Rightarrow> (db, Some x)
      | None \<Rightarrow>
          let selected = (\<lambda>r. nc_node_id r = nodeID \<and> sql_exists (active_node ownerID nodeID) (nodes db))
          in if call_fails e 0 then (db, Some (pairingWriteError e False))
             else case sql_update_checked node_credentials_check selected
                    (rotate_credential credentialHash (timestamp now)) (node_credentials db) of
               None \<Rightarrow> (db, Some (pairingWriteError e True))
             | Some t \<Rightarrow>
                 if sql_count selected (node_credentials db) = 0 then (db\<lparr>node_credentials := t\<rparr>, Some ErrNotFound)
                 else (db\<lparr>node_credentials := t\<rparr>, None))"

end
