(* ===== verification/Server_Enrollment.thy ===== *)
theory Server_Enrollment
  imports Server_Pairing
begin

text \<open>
  Adding and revoking nodes (\<^verbatim>\<open>internal/server/store/node_enrollment.go\<close>): an active node
  issues an enrollment, a candidate claims it, the issuer decides; and one-time invitations
  (\<^verbatim>\<open>internal/server/store/invitations.go\<close>), which also create the owner of a fresh Server. The
  two 32-byte values SQLite's \<^verbatim>\<open>randomblob\<close> writes over the hashes of a used invitation are
  arguments.
\<close>

section \<open>Enrollments\<close>

definition MaxActiveNodes :: nat where
  "MaxActiveNodes = 5"

record node_enrollment =
  ne_id :: string
  ne_owner :: string
  ne_issuer :: string
  ne_status :: pairing_status
  ne_candidate :: string
  ne_name :: string
  ne_os :: string
  ne_version :: string
  ne_code_hash :: bytes
  ne_public_key :: bytes
  ne_credential_hash :: bytes
  ne_issuer_key :: bytes
  ne_proof :: bytes
  ne_expires_at :: gotime
  ne_created_at :: gotime
  ne_claimed_at :: gotime
  ne_resolved_at :: gotime

record enrollment_claim =
  ec_enrollment :: string
  ec_candidate :: string
  ec_name :: string
  ec_os :: string
  ec_version :: string
  ec_code_hash :: bytes
  ec_public_key :: bytes
  ec_credential_hash :: bytes
  ec_now :: gotime

record enrollment_resolution =
  ex_enrollment :: string
  ex_issuer :: string
  ex_decision :: string
  ex_proof :: bytes
  ex_now :: gotime

definition enrollmentReadError :: "store_error option \<Rightarrow> store_error" where
  "enrollmentReadError err = (case err of None \<Rightarrow> ErrNotFound | Some _ \<Rightarrow> Internal ''node enrollment read'')"

definition enrollment_join :: "server_db \<Rightarrow> (enrollment_row \<times> bytes) list" where
  "enrollment_join db =
     concat (map (\<lambda>r. map (\<lambda>n. (r, nd_public_key n)) (filter (\<lambda>n. nd_id n = en_issuer_node_id r) (nodes db))) (node_enrollments db))"

definition nodeEnrollmentSelect :: "server_db \<Rightarrow> (enrollment_row \<Rightarrow> bool) \<Rightarrow> (enrollment_row \<times> bytes) list" where
  "nodeEnrollmentSelect db P = filter (\<lambda>x. P (fst x)) (enrollment_join db)"

definition scan_enrollment_row :: "enrollment_row \<times> bytes \<Rightarrow> store_error + node_enrollment" where
  "scan_enrollment_row x =
     (let r = fst x
      in case (parse_rfc3339 (en_expires_at r), parse_rfc3339 (en_created_at r), parse_null (en_claimed_at r), parse_null (en_resolved_at r)) of
           (Some expires, Some created, Some claimed, Some resolved) \<Rightarrow>
             Inr \<lparr>ne_id = en_id r, ne_owner = en_owner_id r, ne_issuer = en_issuer_node_id r, ne_status = en_status r,
                  ne_candidate = null_string (en_candidate_node_id r), ne_name = null_string (en_name r),
                  ne_os = null_string (en_os r), ne_version = null_string (en_version r), ne_code_hash = en_code_hash r,
                  ne_public_key = null_string (en_public_key r), ne_credential_hash = null_string (en_credential_hash r),
                  ne_issuer_key = snd x, ne_proof = null_string (en_proof r), ne_expires_at = expires,
                  ne_created_at = created, ne_claimed_at = claimed, ne_resolved_at = resolved\<rparr>
         | _ \<Rightarrow> Inl ErrCorrupt)"

definition scanNodeEnrollment :: "bool \<Rightarrow> (enrollment_row \<times> bytes) list \<Rightarrow> store_error + node_enrollment" where
  "scanNodeEnrollment failed rows =
     (if failed then Inl (enrollmentReadError (Some DriverError))
      else case rows of
        [] \<Rightarrow> Inl (enrollmentReadError None)
      | x # _ \<Rightarrow> (case scan_enrollment_row x of Inl y \<Rightarrow> Inl (enrollmentReadError (Some y)) | Inr v \<Rightarrow> Inr v))"

definition new_enrollment :: "node_enrollment \<Rightarrow> enrollment_row" where
  "new_enrollment v =
     \<lparr>en_id = ne_id v, en_owner_id = ne_owner v, en_issuer_node_id = ne_issuer v, en_code_hash = ne_code_hash v,
      en_status = PPending, en_expires_at = timestamp (ne_expires_at v), en_candidate_node_id = None, en_public_key = None,
      en_credential_hash = None, en_name = None, en_os = None, en_version = None,
      en_created_at = timestamp (ne_created_at v), en_claimed_at = None, en_resolved_at = None, en_proof = None\<rparr>"

definition CreateNodeEnrollment :: "env \<Rightarrow> server_db \<Rightarrow> node_enrollment \<Rightarrow> server_db \<times> store_error option" where
  "CreateNodeEnrollment e db v =
     (case store_guard e (ne_id v \<noteq> [] \<and> ne_owner v \<noteq> [] \<and> ne_issuer v \<noteq> [] \<and> length (ne_code_hash v) = 32 \<and>
         \<not> IsZero (ne_created_at v) \<and> 0 < time_Sub (ne_expires_at v) (ne_created_at v) \<and>
         time_Sub (ne_expires_at v) (ne_created_at v) \<le> five_minutes) of
        Some x \<Rightarrow> (db, Some x)
      | None \<Rightarrow>
          if call_fails e 0 then (db, Some (pairingWriteError e False))
          else if \<not> sql_exists (active_node (ne_owner v) (ne_issuer v)) (nodes db) then (db, Some ErrConflict)
          else if \<not> enrollments_insert_ok db (new_enrollment v) then (db, Some (pairingWriteError e True))
          else (db\<lparr>node_enrollments := sql_insert (new_enrollment v) (node_enrollments db)\<rparr>, None))"

definition IssuerNodeEnrollment :: "env \<Rightarrow> server_db \<Rightarrow> string \<Rightarrow> string \<Rightarrow> store_error + node_enrollment" where
  "IssuerNodeEnrollment e db i issuerNodeID =
     (case store_guard e (i \<noteq> [] \<and> issuerNodeID \<noteq> []) of
        Some x \<Rightarrow> Inl x
      | None \<Rightarrow> scanNodeEnrollment (call_fails e 0) (nodeEnrollmentSelect db (\<lambda>r. en_id r = i \<and> en_issuer_node_id r = issuerNodeID)))"

definition expire_enrollment :: "rfc3339 \<Rightarrow> enrollment_row \<Rightarrow> enrollment_row" where
  "expire_enrollment now r = r\<lparr>en_status := PExpired, en_resolved_at := Some now\<rparr>"

definition claim_enrollment :: "enrollment_claim \<Rightarrow> enrollment_row \<Rightarrow> enrollment_row" where
  "claim_enrollment c r =
     r\<lparr>en_status := PClaimed, en_candidate_node_id := Some (ec_candidate c), en_public_key := Some (ec_public_key c),
       en_credential_hash := Some (ec_credential_hash c), en_name := Some (ec_name c), en_os := Some (ec_os c),
       en_version := Some (ec_version c), en_claimed_at := Some (timestamp (ec_now c))\<rparr>"

definition resolve_enrollment :: "pairing_status \<Rightarrow> enrollment_resolution \<Rightarrow> enrollment_row \<Rightarrow> enrollment_row" where
  "resolve_enrollment s v r =
     r\<lparr>en_status := s, en_resolved_at := Some (timestamp (ex_now v)), en_proof := Some (ex_proof v)\<rparr>"

definition update_enrollments ::
  "(enrollment_row \<Rightarrow> bool) \<Rightarrow> (enrollment_row \<Rightarrow> enrollment_row) \<Rightarrow> server_db \<Rightarrow> server_db option" where
  "update_enrollments P f db =
     map_option (\<lambda>t. db\<lparr>node_enrollments := t\<rparr>) (sql_update_checked enrollments_check P f (node_enrollments db))"

definition try_update_enrollments ::
  "bool \<Rightarrow> (enrollment_row \<Rightarrow> bool) \<Rightarrow> (enrollment_row \<Rightarrow> enrollment_row) \<Rightarrow> server_db \<Rightarrow> server_db" where
  "try_update_enrollments failed P f db =
     (if failed then db else case update_enrollments P f db of None \<Rightarrow> db | Some db' \<Rightarrow> db')"

definition validEnrollmentClaim :: "enrollment_claim \<Rightarrow> bool" where
  "validEnrollmentClaim c =
     (ec_enrollment c \<noteq> [] \<and> ec_candidate c \<noteq> [] \<and> ec_name c \<noteq> [] \<and> length (ec_name c) \<le> 128 \<and>
      (ec_os c = ''windows'' \<or> ec_os c = ''linux'' \<or> ec_os c = ''darwin'') \<and> ec_version c \<noteq> [] \<and> length (ec_version c) \<le> 64 \<and>
      length (ec_code_hash c) = 32 \<and> length (ec_public_key c) = 32 \<and> length (ec_credential_hash c) = 32 \<and> \<not> IsZero (ec_now c))"

definition same_enrollment_claim :: "node_enrollment \<Rightarrow> enrollment_claim \<Rightarrow> bool" where
  "same_enrollment_claim item c =
     (ne_status item = PClaimed \<and> ne_candidate item = ec_candidate c \<and> ne_name item = ec_name c \<and> ne_os item = ec_os c \<and>
      ne_version item = ec_version c \<and> ne_public_key item = ec_public_key c \<and> ne_credential_hash item = ec_credential_hash c)"

definition ClaimNodeEnrollment :: "env \<Rightarrow> server_db \<Rightarrow> enrollment_claim \<Rightarrow> server_db \<times> (store_error + node_enrollment)" where
  "ClaimNodeEnrollment e db c =
     (case store_guard e (validEnrollmentClaim c) of
        Some x \<Rightarrow> (db, Inl x)
      | None \<Rightarrow>
          if call_fails e 0 then (db, Inl (Internal ''node enrollment claim''))
          else case scanNodeEnrollment (call_fails e 1) (nodeEnrollmentSelect db (\<lambda>r. en_id r = ec_enrollment c)) of
            Inl x \<Rightarrow> (db, Inl x)
          | Inr item \<Rightarrow>
              if ne_code_hash item \<noteq> ec_code_hash c then (db, Inl ErrUnauthorized)
              else if After (ec_now c) (ne_expires_at item) then
                (if pairing_open (ne_status item) \<and> \<not> call_fails e 3
                 then (try_update_enrollments (call_fails e 2) (\<lambda>r. en_id r = ec_enrollment c) (expire_enrollment (timestamp (ec_now c))) db,
                       Inl ErrConflict)
                 else (db, Inl ErrConflict))
              else if same_enrollment_claim item c then
                (if call_fails e 2 then (db, Inl (Internal ''node enrollment claim'')) else (db, Inr item))
              else if ne_status item \<noteq> PPending then (db, Inl ErrConflict)
              else if call_fails e 2 then (db, Inl (pairingWriteError e False))
              else
                let selected = (\<lambda>r. en_id r = ec_enrollment c \<and> en_status r = PPending)
                in case update_enrollments selected (claim_enrollment c) db of
                  None \<Rightarrow> (db, Inl (pairingWriteError e True))
                | Some db' \<Rightarrow>
                    if sql_count selected (node_enrollments db) \<noteq> 1 then (db, Inl ErrConflict)
                    else if call_fails e 3 then (db, Inl (Internal ''node enrollment claim''))
                    else (db', Inr (item\<lparr>ne_status := PClaimed, ne_candidate := ec_candidate c, ne_name := ec_name c,
                            ne_os := ec_os c, ne_version := ec_version c, ne_claimed_at := ec_now c,
                            ne_public_key := ec_public_key c, ne_credential_hash := ec_credential_hash c\<rparr>)))"

definition NodeEnrollment ::
  "env \<Rightarrow> server_db \<Rightarrow> string \<Rightarrow> bytes \<Rightarrow> gotime \<Rightarrow> server_db \<times> (store_error + node_enrollment)" where
  "NodeEnrollment e db i codeHash now =
     (case store_guard e (i \<noteq> [] \<and> length codeHash = 32 \<and> \<not> IsZero now) of
        Some x \<Rightarrow> (db, Inl x)
      | None \<Rightarrow>
          (case scanNodeEnrollment (call_fails e 0) (nodeEnrollmentSelect db (\<lambda>r. en_id r = i)) of
             Inl x \<Rightarrow> (db, Inl x)
           | Inr item \<Rightarrow>
               if ne_code_hash item \<noteq> codeHash then (db, Inl ErrUnauthorized)
               else if After now (ne_expires_at item) \<and> pairing_open (ne_status item)
               then (try_update_enrollments (call_fails e 1) (\<lambda>r. en_id r = i \<and> pairing_open (en_status r))
                       (expire_enrollment (timestamp now)) db,
                     Inr (item\<lparr>ne_status := PExpired, ne_resolved_at := now\<rparr>))
               else (db, Inr item)))"

definition by_enrollment_claim :: "enrollment_row \<times> bytes \<Rightarrow> enrollment_row \<times> bytes \<Rightarrow> bool" where
  "by_enrollment_claim a b =
     (null_text_less (en_claimed_at (fst a)) (en_claimed_at (fst b)) \<or>
      en_claimed_at (fst a) = en_claimed_at (fst b) \<and> en_id (fst a) < en_id (fst b))"

definition PendingNodeEnrollments ::
  "env \<Rightarrow> server_db \<Rightarrow> string \<Rightarrow> gotime \<Rightarrow> server_db \<times> (store_error + node_enrollment list)" where
  "PendingNodeEnrollments e db issuerNodeID now =
     (case store_guard e (issuerNodeID \<noteq> [] \<and> \<not> IsZero now) of
        Some x \<Rightarrow> (db, Inl x)
      | None \<Rightarrow>
          let db' = try_update_enrollments (call_fails e 0)
                (\<lambda>r. en_issuer_node_id r = issuerNodeID \<and> pairing_open (en_status r) \<and> text_less (en_expires_at r) (timestamp now))
                (expire_enrollment (timestamp now)) db
          in (db',
              if call_fails e 1 then Inl (Internal ''node enrollments read'')
              else case scan_list (\<lambda>x. scanNodeEnrollment False [x]) (order_by by_enrollment_claim
                      (nodeEnrollmentSelect db' (\<lambda>r. en_issuer_node_id r = issuerNodeID \<and> en_status r = PClaimed))) of
                Inl x \<Rightarrow> Inl x
              | Inr result \<Rightarrow> if call_fails e 2 then Inl (Internal ''node enrollments read'') else Inr result))"

section \<open>Deciding an enrollment\<close>

definition active_nodes :: "server_db \<Rightarrow> string \<Rightarrow> nat" where
  "active_nodes db ownerID = sql_count (\<lambda>r. nd_owner_id r = ownerID \<and> nd_status r = Active) (nodes db)"

definition admit_node :: "env \<Rightarrow> node_enrollment \<Rightarrow> gotime \<Rightarrow> server_db \<Rightarrow> store_error + server_db" where
  "admit_node e item now db =
     (if call_fails e 2 then Inl (Internal ''node enrollment decision'')
      else if MaxActiveNodes \<le> active_nodes db (ne_owner item) then Inl ErrConflict
      else insert_node e 3 (pairingWriteError e)
        (new_node (ne_candidate item) (ne_owner item) (ne_public_key item) (ne_name item) (ne_os item) (ne_version item) (timestamp now)) db)"

definition ResolveNodeEnrollment ::
  "env \<Rightarrow> server_db \<Rightarrow> enrollment_resolution \<Rightarrow> server_db \<times> (store_error + node_enrollment)" where
  "ResolveNodeEnrollment e db v =
     (case store_guard e (ex_enrollment v \<noteq> [] \<and> ex_issuer v \<noteq> [] \<and> (ex_decision v = ''accept'' \<or> ex_decision v = ''decline'') \<and>
         length (ex_proof v) = 64 \<and> \<not> IsZero (ex_now v)) of
        Some x \<Rightarrow> (db, Inl x)
      | None \<Rightarrow> transact_val db
          (if call_fails e 0 then Inl (Internal ''node enrollment decision'')
           else case scanNodeEnrollment (call_fails e 1)
                  (nodeEnrollmentSelect db (\<lambda>r. en_id r = ex_enrollment v \<and> en_issuer_node_id r = ex_issuer v)) of
             Inl x \<Rightarrow> Inl x
           | Inr item \<Rightarrow>
               if (ne_status item = PApproved \<or> ne_status item = PDeclined) \<and> ne_proof item = ex_proof v then
                 (if call_fails e 2 then Inl (Internal ''node enrollment decision'') else Inr (db, item))
               else if ne_status item \<noteq> PClaimed \<or> After (ex_now v) (ne_expires_at item) then Inl ErrConflict
               else
                 let accept = (ex_decision v = ''accept''); status = (if accept then PApproved else PDeclined);
                     selected = (\<lambda>r. en_id r = ex_enrollment v \<and> en_status r = PClaimed)
                 in case (if accept then admit_node e item (ex_now v) db else Inr db) of
                   Inl x \<Rightarrow> Inl x
                 | Inr db1 \<Rightarrow>
                     if call_fails e 5 then Inl (pairingWriteError e False)
                     else case update_enrollments selected (resolve_enrollment status v) db1 of
                       None \<Rightarrow> Inl (pairingWriteError e True)
                     | Some db2 \<Rightarrow>
                         if sql_count selected (node_enrollments db1) \<noteq> 1 then Inl ErrConflict
                         else if call_fails e 6 then Inl (Internal ''node enrollment decision'')
                         else Inr (db2, item\<lparr>ne_status := status, ne_proof := ex_proof v, ne_resolved_at := ex_now v\<rparr>)))"

section \<open>Nodes of an owner\<close>

definition by_creation :: "node_row \<Rightarrow> node_row \<Rightarrow> bool" where
  "by_creation a b =
     (text_less (nd_created_at a) (nd_created_at b) \<or> nd_created_at a = nd_created_at b \<and> nd_id a < nd_id b)"

definition OwnerNodes :: "env \<Rightarrow> server_db \<Rightarrow> string \<Rightarrow> store_error + go_node list" where
  "OwnerNodes e db ownerID =
     (case store_guard e (ownerID \<noteq> []) of
        Some x \<Rightarrow> Inl x
      | None \<Rightarrow>
          if call_fails e 0 then Inl (Internal ''nodes read'')
          else case scan_list (scan_node []) (order_by by_creation (filter (\<lambda>r. nd_owner_id r = ownerID) (nodes db))) of
            Inl x \<Rightarrow> Inl x
          | Inr result \<Rightarrow> if call_fails e 1 then Inl (Internal ''nodes read'') else Inr result)"

definition revoke_node_rows :: "string \<Rightarrow> string \<Rightarrow> server_db \<Rightarrow> server_db" where
  "revoke_node_rows ownerID nodeID db =
     db\<lparr>nodes := sql_update (active_node ownerID nodeID) (\<lambda>r. r\<lparr>nd_status := Revoked\<rparr>) (nodes db)\<rparr>"

definition revoke_credential :: "string \<Rightarrow> gotime \<Rightarrow> server_db \<Rightarrow> server_db" where
  "revoke_credential nodeID now db =
     db\<lparr>node_credentials := sql_update (\<lambda>r. nc_node_id r = nodeID)
          (\<lambda>r. r\<lparr>nc_status := Revoked, nc_revoked_at := Some (timestamp now)\<rparr>) (node_credentials db)\<rparr>"

text \<open>The three UPDATEs of a revocation, from the number \<open>k\<close> on; \<open>op\<close> names the operation in its
  errors.\<close>

definition revoke_rows :: "env \<Rightarrow> nat \<Rightarrow> string \<Rightarrow> string \<Rightarrow> string \<Rightarrow> gotime \<Rightarrow> server_db \<Rightarrow> store_error + server_db" where
  "revoke_rows e k op ownerID nodeID now db =
     (if call_fails e k then Inl (Internal op)
      else if sql_count (active_node ownerID nodeID) (nodes db) \<noteq> 1 then Inl ErrNotFound
      else if call_fails e (k + 1) then Inl (Internal op)
      else if call_fails e (k + 2) then Inl (Internal op)
      else case update_enrollments (\<lambda>r. en_issuer_node_id r = nodeID \<and> pairing_open (en_status r)) (expire_enrollment (timestamp now))
              (revoke_credential nodeID now (revoke_node_rows ownerID nodeID db)) of
        None \<Rightarrow> Inl (Internal op)
      | Some db' \<Rightarrow> Inr db')"

definition RevokeNode :: "env \<Rightarrow> server_db \<Rightarrow> string \<Rightarrow> string \<Rightarrow> string \<Rightarrow> gotime \<Rightarrow> server_db \<times> store_error option" where
  "RevokeNode e db ownerID issuerNodeID targetNodeID now =
     (case store_guard e (ownerID \<noteq> [] \<and> issuerNodeID \<noteq> [] \<and> targetNodeID \<noteq> [] \<and> issuerNodeID \<noteq> targetNodeID \<and> \<not> IsZero now) of
        Some x \<Rightarrow> (db, Some x)
      | None \<Rightarrow> transact db
          (if call_fails e 0 then Inl (Internal ''node revoke'')
           else if call_fails e 1 then Inl (Internal ''node revoke'')
           else if active_nodes db ownerID \<le> 1 then Inl ErrConflict
           else if call_fails e 2 \<or> sql_count (active_node ownerID issuerNodeID) (nodes db) \<noteq> 1 then Inl ErrUnauthorized
           else case revoke_rows e 3 ''node revoke'' ownerID targetNodeID now db of
             Inl x \<Rightarrow> Inl x
           | Inr db' \<Rightarrow> if call_fails e 6 then Inl (Internal ''node revoke'') else Inr db'))"

section \<open>The trust manifest\<close>

record server_manifest =
  sm_revision :: int
  sm_clients :: "control_client list"

definition by_client_key :: "control_client_row \<Rightarrow> control_client_row \<Rightarrow> bool" where
  "by_client_key a b = (cc_id a < cc_id b \<or> cc_id a = cc_id b \<and> cc_key_id a < cc_key_id b)"

definition scan_manifest_client :: "control_client_row \<Rightarrow> store_error + control_client" where
  "scan_manifest_client r =
     (case parse_rfc3339 (cc_created_at r) of
        None \<Rightarrow> Inl ErrCorrupt
      | Some created \<Rightarrow>
          Inr \<lparr>gc_id = cc_id r, gc_owner = cc_owner_id r, gc_key = cc_key_id r, gc_public_key = cc_public_key r,
               gc_name = cc_name r, gc_status = cc_status r, gc_created_at = created, gc_last_seen_at = None,
               gc_revoked_at = None\<rparr>)"

text \<open>The method makes its two queries outside a transaction, so calls of other connections may run between
  them: \<open>db\<close> is the database the revision is read from and \<open>db'\<close> the one the clients are read from.\<close>

definition ControlTrustManifest :: "env \<Rightarrow> server_db \<Rightarrow> server_db \<Rightarrow> string \<Rightarrow> store_error + server_manifest" where
  "ControlTrustManifest e db db' ownerID =
     (case store_guard e (ownerID \<noteq> []) of
        Some x \<Rightarrow> Inl x
      | None \<Rightarrow>
          if call_fails e 0 then Inl (enrollmentReadError (Some DriverError))
          else case sql_row (\<lambda>r. ow_id r = ownerID \<and> ow_status r = OwnerActive) (owners db) of
            None \<Rightarrow> Inl (enrollmentReadError None)
          | Some owner \<Rightarrow>
              if call_fails e 1 then Inl (Internal ''control trust read'')
              else case scan_list scan_manifest_client (order_by by_client_key (filter (\<lambda>r. cc_owner_id r = ownerID) (control_clients db'))) of
                Inl x \<Rightarrow> Inl x
              | Inr clients \<Rightarrow>
                  if call_fails e 2 then Inl (Internal ''control trust read'')
                  else Inr \<lparr>sm_revision = ow_trust_revision owner, sm_clients = clients\<rparr>)"

section \<open>Invitations\<close>

record node_invitation =
  ni_id :: string
  ni_owner :: string
  ni_display_name :: string
  ni_status :: invitation_status
  ni_created_by :: string
  ni_created_at :: gotime
  ni_expires_at :: gotime
  ni_used_at :: gotime
  ni_node :: string

record create_invitation =
  ci_invitation :: node_invitation
  ci_secret_hash :: bytes
  ci_code_hash :: bytes

record claim_invitation =
  ki_invitation :: string
  ki_proof_hash :: bytes
  ki_use_short_code :: bool
  ki_node :: string
  ki_owner :: string
  ki_public_key :: bytes
  ki_name :: string
  ki_os :: string
  ki_arch :: string
  ki_version :: string
  ki_now :: gotime

definition new_invitation :: "create_invitation \<Rightarrow> invitation_row" where
  "new_invitation c =
     (let v = ci_invitation c
      in \<lparr>iv_id = ni_id v, iv_owner_id = (if ni_owner v = [] then None else Some (ni_owner v)), iv_secret_hash = ci_secret_hash c,
          iv_code_hash = ci_code_hash c, iv_display_name = ni_display_name v, iv_status = IPending,
          iv_created_by = ni_created_by v, iv_created_at = timestamp (ni_created_at v),
          iv_expires_at = timestamp (ni_expires_at v), iv_used_at = None, iv_node_id = None\<rparr>)"

definition CreateNodeInvitation :: "env \<Rightarrow> server_db \<Rightarrow> create_invitation \<Rightarrow> server_db \<times> store_error option" where
  "CreateNodeInvitation e db c =
     (let v = ci_invitation c
      in case store_guard e (ni_id v \<noteq> [] \<and> ni_display_name v \<noteq> [] \<and> ni_created_by v \<noteq> [] \<and> length (ci_secret_hash c) = 32 \<and>
            length (ci_code_hash c) = 32 \<and> \<not> IsZero (ni_created_at v) \<and> After (ni_expires_at v) (ni_created_at v)) of
           Some x \<Rightarrow> (db, Some x)
         | None \<Rightarrow>
             if call_fails e 0 then (db, Some (mapInsertError e False))
             else if \<not> invitations_insert_ok db (new_invitation c) then (db, Some (mapInsertError e True))
             else (db\<lparr>node_invitations := sql_insert (new_invitation c) (node_invitations db)\<rparr>, None))"

definition scanNodeInvitation :: "invitation_row \<Rightarrow> store_error + node_invitation" where
  "scanNodeInvitation r =
     (case (parse_rfc3339 (iv_created_at r), parse_rfc3339 (iv_expires_at r), parse_null (iv_used_at r)) of
        (Some created, Some expires, Some used) \<Rightarrow>
          Inr \<lparr>ni_id = iv_id r, ni_owner = null_string (iv_owner_id r), ni_display_name = iv_display_name r,
               ni_status = iv_status r, ni_created_by = iv_created_by r, ni_created_at = created, ni_expires_at = expires,
               ni_used_at = used, ni_node = null_string (iv_node_id r)\<rparr>
      | _ \<Rightarrow> Inl ErrCorrupt)"

definition set_invitation_status :: "invitation_status \<Rightarrow> invitation_row \<Rightarrow> invitation_row" where
  "set_invitation_status s r = r\<lparr>iv_status := s\<rparr>"

definition ListNodeInvitations ::
  "env \<Rightarrow> server_db \<Rightarrow> string \<Rightarrow> gotime \<Rightarrow> server_db \<times> (store_error + node_invitation list)" where
  "ListNodeInvitations e db ownerID now =
     (case store_guard e (ownerID \<noteq> [] \<and> \<not> IsZero now) of
        Some x \<Rightarrow> (db, Inl x)
      | None \<Rightarrow>
          let db' = (if call_fails e 0 then db
                else db\<lparr>node_invitations := sql_update
                  (\<lambda>r. iv_owner_id r = Some ownerID \<and> iv_status r = IPending \<and> text_less_eq (iv_expires_at r) (timestamp now))
                  (set_invitation_status IExpired) (node_invitations db)\<rparr>)
          in (db',
              if call_fails e 1 then Inl (Internal ''node invitations read'')
              else case scan_list scanNodeInvitation (take 100 (order_by (\<lambda>a b. text_less (iv_created_at b) (iv_created_at a))
                      (filter (\<lambda>r. iv_owner_id r = Some ownerID) (node_invitations db')))) of
                Inl x \<Rightarrow> Inl x
              | Inr result \<Rightarrow> if call_fails e 2 then Inl (Internal ''node invitations read'') else Inr result))"

definition CancelNodeInvitation :: "env \<Rightarrow> server_db \<Rightarrow> string \<Rightarrow> string \<Rightarrow> gotime \<Rightarrow> server_db \<times> store_error option" where
  "CancelNodeInvitation e db ownerID i now =
     (case store_guard e (ownerID \<noteq> [] \<and> i \<noteq> [] \<and> \<not> IsZero now) of
        Some x \<Rightarrow> (db, Some x)
      | None \<Rightarrow>
          let selected = (\<lambda>r. iv_owner_id r = Some ownerID \<and> iv_id r = i \<and> iv_status r = IPending);
              db' = db\<lparr>node_invitations := sql_update selected (set_invitation_status ICancelled) (node_invitations db)\<rparr>
          in if call_fails e 0 then (db, Some (Internal ''node invitation cancel''))
             else (db', if sql_count selected (node_invitations db) \<noteq> 1 then Some ErrConflict else None))"

definition invitation_selector :: "claim_invitation \<Rightarrow> invitation_row \<Rightarrow> bool" where
  "invitation_selector c r =
     (if ki_use_short_code c then iv_code_hash r = ki_proof_hash c
      else iv_id r = ki_invitation c \<and> iv_secret_hash r = ki_proof_hash c)"

text \<open>\<^verbatim>\<open>COALESCE((SELECT node_enrollment_enabled ...),1)\<close>.\<close>

definition enrollment_enabled :: "server_db \<Rightarrow> string \<Rightarrow> bool" where
  "enrollment_enabled db ownerID =
     (case sql_row (\<lambda>r. se_owner_id r = ownerID) (server_security_settings db) of
        None \<Rightarrow> True | Some r \<Rightarrow> se_node_enrollment_enabled r)"

definition completed_bootstrap :: "string \<Rightarrow> string \<Rightarrow> rfc3339 \<Rightarrow> bootstrap_row option \<Rightarrow> bootstrap_row" where
  "completed_bootstrap ownerID nodeID now b =
     (case b of
        None \<Rightarrow>
          \<lparr>bs_status = BootstrapCompleted, bs_secret_hash = None, bs_claim_digest = None, bs_owner_id = Some ownerID,
           bs_node_id = Some nodeID, bs_issued_at = now, bs_claimed_at = Some now, bs_retry_until = None\<rparr>
      | Some r \<Rightarrow>
          r\<lparr>bs_status := BootstrapCompleted, bs_secret_hash := None, bs_claim_digest := None, bs_owner_id := Some ownerID,
            bs_node_id := Some nodeID, bs_claimed_at := Some now, bs_retry_until := None\<rparr>)"

definition use_invitation :: "bytes \<Rightarrow> bytes \<Rightarrow> rfc3339 \<Rightarrow> string \<Rightarrow> invitation_row \<Rightarrow> invitation_row" where
  "use_invitation secret code now nodeID r =
     r\<lparr>iv_status := IUsed, iv_used_at := Some now, iv_node_id := Some nodeID, iv_secret_hash := secret, iv_code_hash := code\<rparr>"

text \<open>The new hashes must not collide with those of another row.\<close>

definition invitation_hashes_free :: "string \<Rightarrow> bytes \<Rightarrow> bytes \<Rightarrow> server_db \<Rightarrow> bool" where
  "invitation_hashes_free i secret code db =
     (\<not> sql_exists (\<lambda>r. iv_id r \<noteq> i \<and> (iv_secret_hash r = secret \<or> iv_code_hash r = code)) (node_invitations db))"

text \<open>Joining the node: the owner of a fresh Server with its bootstrap record, the node and its
  credential.\<close>

definition invite_owner ::
  "env \<Rightarrow> claim_invitation \<Rightarrow> node_invitation \<Rightarrow> server_db \<Rightarrow> store_error + server_db \<times> string" where
  "invite_owner e c item db =
     (if ni_owner item \<noteq> [] then Inr (db, ni_owner item)
      else if ki_owner c = [] then Inl ErrInvalid
      else case insert_owner e 3 (mapInsertError e) (new_owner (ki_owner c) (timestamp (ki_now c))) db of
        Inl x \<Rightarrow> Inl x
      | Inr db' \<Rightarrow> Inr (db', ki_owner c))"

definition invite_node ::
  "env \<Rightarrow> claim_invitation \<Rightarrow> node_invitation \<Rightarrow> server_db \<Rightarrow> store_error + server_db \<times> string" where
  "invite_node e c item db =
     (case invite_owner e c item db of
        Inl x \<Rightarrow> Inl x
      | Inr (db1, ownerID) \<Rightarrow>
          (case insert_node e 4 (mapInsertError e)
                  (new_node (ki_node c) ownerID (ki_public_key c) (ki_name c) (ki_os c) (ki_version c) (timestamp (ki_now c))) db1 of
             Inl x \<Rightarrow> Inl x
           | Inr db2 \<Rightarrow>
               if ni_owner item \<noteq> [] then Inr (db2, ownerID)
               else if call_fails e 6 then Inl (Internal ''node invitation claim'')
               else Inr (db2\<lparr>bootstrap := Some (completed_bootstrap ownerID (ki_node c) (timestamp (ki_now c)) (bootstrap db2))\<rparr>, ownerID)))"

definition validInvitationClaim :: "claim_invitation \<Rightarrow> bool" where
  "validInvitationClaim c =
     (length (ki_proof_hash c) = 32 \<and> ki_node c \<noteq> [] \<and> length (ki_public_key c) = 32 \<and> ki_name c \<noteq> [] \<and> ki_os c \<noteq> [] \<and>
      ki_arch c \<noteq> [] \<and> ki_version c \<noteq> [] \<and> \<not> IsZero (ki_now c))"

definition ClaimNodeInvitation ::
  "env \<Rightarrow> bytes \<times> bytes \<Rightarrow> server_db \<Rightarrow> claim_invitation \<Rightarrow> server_db \<times> (store_error + node_invitation)" where
  "ClaimNodeInvitation e blobs db c =
     (case store_guard e (validInvitationClaim c) of
        Some x \<Rightarrow> (db, Inl x)
      | None \<Rightarrow> transact_val db
          (if call_fails e 0 then Inl (Internal ''node invitation claim'')
           else if call_fails e 1 then Inl DriverError
           else case sql_row (invitation_selector c) (node_invitations db) of
             None \<Rightarrow> Inl ErrUnauthorized
           | Some row \<Rightarrow>
               (case scanNodeInvitation row of
                  Inl x \<Rightarrow> Inl x
                | Inr item \<Rightarrow>
                    if ni_status item \<noteq> IPending \<or> \<not> Before (ki_now c) (ni_expires_at item) then Inl ErrConflict
                    else if ni_owner item \<noteq> [] \<and> call_fails e 2 then Inl (Internal ''node invitation admission'')
                    else if ni_owner item \<noteq> [] \<and> \<not> enrollment_enabled db (ni_owner item) then Inl ErrConflict
                    else case invite_node e c item db of
                      Inl x \<Rightarrow> Inl x
                    | Inr (db1, ownerID) \<Rightarrow>
                        let selected = (\<lambda>r. iv_id r = ni_id item \<and> iv_status r = IPending)
                        in if call_fails e 7 \<or> \<not> invitation_hashes_free (ni_id item) (fst blobs) (snd blobs) db1
                           then Inl (Internal ''node invitation claim'')
                           else if sql_count selected (node_invitations db1) \<noteq> 1 then Inl ErrConflict
                           else if call_fails e 8 then Inl (Internal ''node invitation claim'')
                           else Inr (db1\<lparr>node_invitations := sql_update selected
                                       (use_invitation (fst blobs) (snd blobs) (timestamp (ki_now c)) (ki_node c)) (node_invitations db1)\<rparr>,
                                     item\<lparr>ni_owner := ownerID, ni_status := IUsed, ni_used_at := ki_now c, ni_node := ki_node c\<rparr>))))"

end
