(* ===== verification/Server_Admin.thy ===== *)
theory Server_Admin
  imports Server_Enrollment
begin

text \<open>
  Administration of a Server (\<^verbatim>\<open>internal/server/store/admin.go\<close>): security settings with
  optimistic revisions, last-seen times, administrative release and revocation, the audit log
  and its counts; and the notifications of an owner
  (\<^verbatim>\<open>internal/server/store/notifications.go\<close>).
\<close>

section \<open>Security settings\<close>

record security_settings =
  sg_owner :: string
  sg_control_pairing :: bool
  sg_node_enrollment :: bool
  sg_revision :: int
  sg_updated_at :: gotime
  sg_updated_by :: string

definition readSecuritySettings :: "bool \<Rightarrow> server_db \<Rightarrow> string \<Rightarrow> store_error + security_settings" where
  "readSecuritySettings failed db ownerID =
     (if failed then Inl (Internal ''security settings read'')
      else case sql_row (\<lambda>r. se_owner_id r = ownerID) (server_security_settings db) of
        None \<Rightarrow> Inl ErrNotFound
      | Some r \<Rightarrow>
          (case parse_rfc3339 (se_updated_at r) of
             None \<Rightarrow> Inl ErrCorrupt
           | Some updated \<Rightarrow>
               Inr \<lparr>sg_owner = se_owner_id r, sg_control_pairing = se_control_pairing_enabled r,
                    sg_node_enrollment = se_node_enrollment_enabled r, sg_revision = se_revision r, sg_updated_at = updated,
                    sg_updated_by = se_updated_by r\<rparr>))"

definition default_security :: "string \<Rightarrow> gotime \<Rightarrow> security_row" where
  "default_security ownerID now =
     \<lparr>se_owner_id = ownerID, se_control_pairing_enabled = True, se_node_enrollment_enabled = True, se_revision = 1,
      se_updated_at = timestamp now, se_updated_by = ''system''\<rparr>"

text \<open>\<^verbatim>\<open>INSERT ... ON CONFLICT(owner_id) DO NOTHING\<close>; \<open>None\<close> when the owner does not exist.\<close>

definition ensure_security :: "string \<Rightarrow> gotime \<Rightarrow> server_db \<Rightarrow> server_db option" where
  "ensure_security ownerID now db =
     (if sql_exists (\<lambda>r. se_owner_id r = ownerID) (server_security_settings db) then Some db
      else if owner_exists db ownerID
      then Some (db\<lparr>server_security_settings := sql_insert (default_security ownerID now) (server_security_settings db)\<rparr>)
      else None)"

definition SecuritySettings :: "env \<Rightarrow> gotime \<Rightarrow> server_db \<Rightarrow> string \<Rightarrow> server_db \<times> (store_error + security_settings)" where
  "SecuritySettings e clock db ownerID =
     (case store_guard e (ownerID \<noteq> []) of
        Some x \<Rightarrow> (db, Inl x)
      | None \<Rightarrow>
          (case (if call_fails e 0 then None else ensure_security ownerID clock db) of
             None \<Rightarrow> (db, Inl (Internal ''security settings initialize''))
           | Some db' \<Rightarrow> (db', readSecuritySettings (call_fails e 1) db' ownerID)))"

definition set_security :: "bool \<Rightarrow> bool \<Rightarrow> gotime \<Rightarrow> string \<Rightarrow> security_row \<Rightarrow> security_row" where
  "set_security pairing enrollment now actor r =
     r\<lparr>se_control_pairing_enabled := pairing, se_node_enrollment_enabled := enrollment, se_revision := se_revision r + 1,
       se_updated_at := timestamp now, se_updated_by := actor\<rparr>"

definition change_security ::
  "env \<Rightarrow> server_db \<Rightarrow> string \<Rightarrow> string \<Rightarrow> bool \<Rightarrow> bool \<Rightarrow> int \<Rightarrow> gotime \<Rightarrow> store_error + server_db" where
  "change_security e db ownerID actor pairing enrollment baseRevision now =
     (if call_fails e 0 then Inl (Internal ''security settings update'')
      else case (if call_fails e 1 then None else ensure_security ownerID now db) of
        None \<Rightarrow> Inl (Internal ''security settings update'')
      | Some db1 \<Rightarrow>
          let selected = (\<lambda>r. se_owner_id r = ownerID \<and> se_revision r = baseRevision)
          in case (if call_fails e 2 then None
                   else sql_update_checked security_check selected (set_security pairing enrollment now actor) (server_security_settings db1)) of
            None \<Rightarrow> Inl (Internal ''security settings update'')
          | Some t \<Rightarrow>
              if sql_count selected (server_security_settings db1) \<noteq> 1 then Inl ErrConflict
              else if call_fails e 3 then Inl (Internal ''security settings update'')
              else Inr (db1\<lparr>server_security_settings := t\<rparr>))"

definition UpdateSecuritySettings ::
  "env \<Rightarrow> server_db \<Rightarrow> string \<Rightarrow> string \<Rightarrow> bool \<Rightarrow> bool \<Rightarrow> int \<Rightarrow> gotime \<Rightarrow> server_db \<times> (store_error + security_settings)" where
  "UpdateSecuritySettings e db ownerID actor pairing enrollment baseRevision now =
     (case store_guard e (ownerID \<noteq> [] \<and> actor \<noteq> [] \<and> 1 \<le> baseRevision \<and> \<not> IsZero now) of
        Some x \<Rightarrow> (db, Inl x)
      | None \<Rightarrow>
          (case change_security e db ownerID actor pairing enrollment baseRevision now of
             Inl x \<Rightarrow> (db, Inl x)
           | Inr db' \<Rightarrow> (db', readSecuritySettings (call_fails e 4) db' ownerID)))"

section \<open>Last seen\<close>

definition touch ::
  "env \<Rightarrow> string \<Rightarrow> string \<Rightarrow> gotime \<Rightarrow> nat \<Rightarrow> server_db \<Rightarrow> server_db \<Rightarrow> server_db \<times> store_error option" where
  "touch e ownerID subjectID now count db' db =
     (case store_guard e (ownerID \<noteq> [] \<and> subjectID \<noteq> [] \<and> \<not> IsZero now) of
        Some x \<Rightarrow> (db, Some x)
      | None \<Rightarrow>
          if call_fails e 0 then (db, Some (Internal ''last seen update''))
          else (db', if count \<noteq> 1 then Some ErrNotFound else None))"

definition TouchNode :: "env \<Rightarrow> server_db \<Rightarrow> string \<Rightarrow> string \<Rightarrow> gotime \<Rightarrow> server_db \<times> store_error option" where
  "TouchNode e db ownerID nodeID now =
     touch e ownerID nodeID now (sql_count (active_node ownerID nodeID) (nodes db))
       (db\<lparr>nodes := sql_update (active_node ownerID nodeID) (\<lambda>r. r\<lparr>nd_last_seen_at := Some (timestamp now)\<rparr>) (nodes db)\<rparr>) db"

definition TouchControlClient :: "env \<Rightarrow> server_db \<Rightarrow> string \<Rightarrow> string \<Rightarrow> gotime \<Rightarrow> server_db \<times> store_error option" where
  "TouchControlClient e db ownerID clientID now =
     touch e ownerID clientID now (sql_count (active_client ownerID clientID) (control_clients db))
       (db\<lparr>control_clients := sql_update (active_client ownerID clientID)
             (\<lambda>r. r\<lparr>cc_last_seen_at := Some (timestamp now)\<rparr>) (control_clients db)\<rparr>) db"

section \<open>Access requests, revocations\<close>

record admin_access_request =
  ar_id :: string
  ar_kind :: string
  ar_node :: string
  ar_name :: string
  ar_os :: string
  ar_version :: string
  ar_status :: pairing_status
  ar_created_at :: rfc3339
  ar_expires_at :: rfc3339

text \<open>The rows of the \<^verbatim>\<open>UNION ALL\<close>, with their times as stored.\<close>

definition access_rows :: "server_db \<Rightarrow> string \<Rightarrow> admin_access_request list" where
  "access_rows db ownerID =
     map (\<lambda>r. \<lparr>ar_id = pr_id r, ar_kind = ''control_client'', ar_node = pr_node_id r, ar_name = null_string (pr_client_name r),
            ar_os = [], ar_version = [], ar_status = pr_status r, ar_created_at = pr_created_at r, ar_expires_at = pr_expires_at r\<rparr>)
       (filter (\<lambda>r. pr_owner_id r = ownerID \<and> pairing_open (pr_status r)) (pairings db)) @
     map (\<lambda>r. \<lparr>ar_id = en_id r, ar_kind = ''node'', ar_node = en_issuer_node_id r, ar_name = null_string (en_name r),
            ar_os = null_string (en_os r), ar_version = null_string (en_version r), ar_status = en_status r,
            ar_created_at = en_created_at r, ar_expires_at = en_expires_at r\<rparr>)
       (filter (\<lambda>r. en_owner_id r = ownerID \<and> pairing_open (en_status r)) (node_enrollments db))"

definition scan_access :: "admin_access_request \<Rightarrow> store_error + admin_access_request \<times> gotime" where
  "scan_access r =
     (case (parse_rfc3339 (ar_created_at r), parse_rfc3339 (ar_expires_at r)) of
        (Some created, Some expires) \<Rightarrow> Inr (r, expires)
      | _ \<Rightarrow> Inl ErrCorrupt)"

definition AdminAccessRequests :: "env \<Rightarrow> server_db \<Rightarrow> string \<Rightarrow> gotime \<Rightarrow> store_error + admin_access_request list" where
  "AdminAccessRequests e db ownerID now =
     (case store_guard e (ownerID \<noteq> [] \<and> \<not> IsZero now) of
        Some x \<Rightarrow> Inl x
      | None \<Rightarrow>
          if call_fails e 0 then Inl (Internal ''admin access requests read'')
          else case scan_list scan_access (order_by (\<lambda>a b. text_less (ar_created_at b) (ar_created_at a)) (access_rows db ownerID)) of
            Inl x \<Rightarrow> Inl x
          | Inr items \<Rightarrow>
              if call_fails e 1 then Inl DriverError
              else Inr (map fst (filter (\<lambda>x. \<not> After now (snd x)) items)))"

definition CancelAdminAccessRequest ::
  "env \<Rightarrow> server_db \<Rightarrow> string \<Rightarrow> string \<Rightarrow> string \<Rightarrow> gotime \<Rightarrow> server_db \<times> store_error option" where
  "CancelAdminAccessRequest e db ownerID kind i now =
     (case store_guard e (ownerID \<noteq> [] \<and> i \<noteq> [] \<and> \<not> IsZero now \<and> (kind = ''node'' \<or> kind = ''control_client'')) of
        Some x \<Rightarrow> (db, Some x)
      | None \<Rightarrow>
          let p = (\<lambda>r. pr_owner_id r = ownerID \<and> pr_id r = i \<and> pairing_open (pr_status r));
              n = (\<lambda>r. en_owner_id r = ownerID \<and> en_id r = i \<and> pairing_open (en_status r));
              count = (if kind = ''node'' then sql_count n (node_enrollments db) else sql_count p (pairings db))
          in if call_fails e 0 then (db, Some (Internal ''admin access request cancel''))
             else case (if kind = ''node'' then update_enrollments n (expire_enrollment (timestamp now)) db
                        else update_pairings p (expire_pairing (timestamp now)) db) of
               None \<Rightarrow> (db, Some (Internal ''admin access request cancel''))
             | Some db' \<Rightarrow> (db', if count \<noteq> 1 then Some ErrNotFound else None))"

definition AdminRevokeNode :: "env \<Rightarrow> server_db \<Rightarrow> string \<Rightarrow> string \<Rightarrow> gotime \<Rightarrow> server_db \<times> store_error option" where
  "AdminRevokeNode e db ownerID nodeID now =
     (case store_guard e (ownerID \<noteq> [] \<and> nodeID \<noteq> [] \<and> \<not> IsZero now) of
        Some x \<Rightarrow> (db, Some x)
      | None \<Rightarrow> transact db
          (if call_fails e 0 then Inl (Internal ''admin node revoke'')
           else if call_fails e 1 then Inl (Internal ''admin node revoke'')
           else if active_nodes db ownerID \<le> 1 then Inl ErrConflict
           else case revoke_rows e 2 ''admin node revoke'' ownerID nodeID now db of
             Inl x \<Rightarrow> Inl x
           | Inr db' \<Rightarrow> if call_fails e 5 then Inl DriverError else Inr db'))"

definition active_clients :: "server_db \<Rightarrow> string \<Rightarrow> nat" where
  "active_clients db ownerID = sql_count (\<lambda>r. cc_owner_id r = ownerID \<and> cc_status r = Active) (control_clients db)"

definition AdminRevokeControlClient :: "env \<Rightarrow> server_db \<Rightarrow> string \<Rightarrow> string \<Rightarrow> gotime \<Rightarrow> server_db \<times> store_error option" where
  "AdminRevokeControlClient e db ownerID clientID now =
     (case store_guard e (ownerID \<noteq> [] \<and> clientID \<noteq> [] \<and> \<not> IsZero now) of
        Some x \<Rightarrow> (db, Some x)
      | None \<Rightarrow> transact db
          (if call_fails e 0 then Inl (Internal ''admin control client revoke'')
           else if call_fails e 1 then Inl (Internal ''admin control client revoke'')
           else if active_clients db ownerID \<le> 1 then Inl ErrConflict
           else if call_fails e 2 then Inl (Internal ''admin control client revoke'')
           else if sql_count (active_client ownerID clientID) (control_clients db) \<noteq> 1 then Inl ErrNotFound
           else if call_fails e 3 then Inl (Internal ''admin control client revoke'')
           else case raise_trust ownerID (revoke_clients ownerID clientID now db) of
             None \<Rightarrow> Inl (Internal ''admin control client revoke'')
           | Some db' \<Rightarrow> if call_fails e 4 then Inl DriverError else Inr db'))"

section \<open>Leases\<close>

record admin_lease =
  adl_scope :: lease_scope
  adl_lease_id :: string
  adl_holder :: string
  adl_epoch :: int
  adl_acquired_at :: gotime
  adl_expires_at :: gotime
  adl_updated_at :: gotime

definition scan_admin_lease :: "lease_row \<Rightarrow> store_error + admin_lease" where
  "scan_admin_lease r =
     (case (lr_acquired_at r, lr_expires_at r, lr_updated_at r, lr_holder_client_id r) of
        (Some a, Some x, Some u, Some holder) \<Rightarrow>
          (case (parse_rfc3339 a, parse_rfc3339 x, parse_rfc3339 u) of
             (Some acquired, Some expires, Some updated) \<Rightarrow>
               Inr \<lparr>adl_scope = row_scope r, adl_lease_id = null_string (lr_lease_id r), adl_holder = holder, adl_epoch = lr_epoch r,
                    adl_acquired_at = acquired, adl_expires_at = expires, adl_updated_at = updated\<rparr>
           | _ \<Rightarrow> Inl ErrCorrupt)
      | _ \<Rightarrow> Inl (Internal ''admin leases read''))"

definition AdminLeases :: "env \<Rightarrow> server_db \<Rightarrow> string \<Rightarrow> gotime \<Rightarrow> store_error + admin_lease list" where
  "AdminLeases e db ownerID now =
     (case store_guard e (ownerID \<noteq> [] \<and> \<not> IsZero now) of
        Some x \<Rightarrow> Inl x
      | None \<Rightarrow>
          if call_fails e 0 then Inl (Internal ''admin leases read'')
          else case scan_list scan_admin_lease (order_by (\<lambda>a b. null_text_less (lr_expires_at a) (lr_expires_at b))
                  (filter (\<lambda>r. lr_owner_id r = ownerID \<and> lr_lease_id r \<noteq> None \<and>
                     null_text_less (Some (timestamp now)) (lr_expires_at r)) (control_leases db))) of
            Inl x \<Rightarrow> Inl x
          | Inr result \<Rightarrow> if call_fails e 1 then Inl DriverError else Inr result)"

section \<open>Audit log\<close>

record admin_audit =
  aa_id :: string
  aa_owner :: string
  aa_actor :: string
  aa_action :: string
  aa_resource_type :: string
  aa_resource_ref :: string
  aa_result :: string
  aa_error_code :: string
  aa_correlation :: string
  aa_created_at :: gotime

definition audit_result_of :: "string \<Rightarrow> audit_result option" where
  "audit_result_of s =
     (if s = ''succeeded'' then Some Succeeded else if s = ''rejected'' then Some Rejected
      else if s = ''failed'' then Some Failed else None)"

definition audit_text :: "audit_result \<Rightarrow> string" where
  "audit_text r = (case r of Succeeded \<Rightarrow> ''succeeded'' | Rejected \<Rightarrow> ''rejected'' | Failed \<Rightarrow> ''failed'')"

definition new_audit :: "admin_audit \<Rightarrow> audit_result \<Rightarrow> audit_row" where
  "new_audit a res =
     \<lparr>au_id = aa_id a, au_owner_id = aa_owner a, au_actor_client_id = aa_actor a, au_action = aa_action a,
      au_resource_type = aa_resource_type a, au_resource_ref = aa_resource_ref a, au_result = res,
      au_error_code = (if aa_error_code a = [] then None else Some (aa_error_code a)), au_correlation_id = aa_correlation a,
      au_created_at = timestamp (aa_created_at a)\<rparr>"

definition SaveAdminAudit :: "env \<Rightarrow> server_db \<Rightarrow> admin_audit \<Rightarrow> server_db \<times> store_error option" where
  "SaveAdminAudit e db a =
     (case store_guard e (aa_id a \<noteq> [] \<and> aa_owner a \<noteq> [] \<and> aa_actor a \<noteq> [] \<and> aa_action a \<noteq> [] \<and> aa_resource_type a \<noteq> [] \<and>
         aa_resource_ref a \<noteq> [] \<and> aa_correlation a \<noteq> [] \<and> \<not> IsZero (aa_created_at a) \<and> audit_result_of (aa_result a) \<noteq> None) of
        Some x \<Rightarrow> (db, Some x)
      | None \<Rightarrow>
          (case audit_result_of (aa_result a) of
             None \<Rightarrow> (db, Some ErrInvalid)
           | Some res \<Rightarrow>
               if call_fails e 0 \<or> \<not> audit_insert_ok db (new_audit a res) then (db, Some (Internal ''admin audit write''))
               else (db\<lparr>admin_audit_logs := sql_insert (new_audit a res) (admin_audit_logs db)\<rparr>, None)))"

definition scan_audit :: "audit_row \<Rightarrow> store_error + admin_audit" where
  "scan_audit r =
     (case parse_rfc3339 (au_created_at r) of
        None \<Rightarrow> Inl ErrCorrupt
      | Some created \<Rightarrow>
          Inr \<lparr>aa_id = au_id r, aa_owner = au_owner_id r, aa_actor = au_actor_client_id r, aa_action = au_action r,
               aa_resource_type = au_resource_type r, aa_resource_ref = au_resource_ref r, aa_result = audit_text (au_result r),
               aa_error_code = null_string (au_error_code r), aa_correlation = au_correlation_id r, aa_created_at = created\<rparr>)"

definition newest_audit :: "audit_row \<Rightarrow> audit_row \<Rightarrow> bool" where
  "newest_audit a b =
     (text_less (au_created_at b) (au_created_at a) \<or> au_created_at a = au_created_at b \<and> au_id b < au_id a)"

definition ListAdminAudit :: "env \<Rightarrow> server_db \<Rightarrow> string \<Rightarrow> int \<Rightarrow> store_error + admin_audit list" where
  "ListAdminAudit e db ownerID limit =
     (case store_guard e (ownerID \<noteq> [] \<and> 1 \<le> limit \<and> limit \<le> 200) of
        Some x \<Rightarrow> Inl x
      | None \<Rightarrow>
          if call_fails e 0 then Inl (Internal ''admin audit read'')
          else case scan_list scan_audit (take (nat limit) (order_by newest_audit (filter (\<lambda>r. au_owner_id r = ownerID) (admin_audit_logs db)))) of
            Inl x \<Rightarrow> Inl x
          | Inr result \<Rightarrow> if call_fails e 1 then Inl DriverError else Inr result)"

definition PurgeAdminAudit :: "env \<Rightarrow> server_db \<Rightarrow> gotime \<Rightarrow> server_db \<times> store_error option" where
  "PurgeAdminAudit e db before =
     (case store_guard e (\<not> IsZero before) of
        Some x \<Rightarrow> (db, Some x)
      | None \<Rightarrow>
          if call_fails e 0 then (db, Some (Internal ''admin audit purge''))
          else (db\<lparr>admin_audit_logs := sql_delete (\<lambda>r. text_less (au_created_at r) (timestamp before)) (admin_audit_logs db)\<rparr>, None))"

record admin_counts =
  an_active_nodes :: nat
  an_active_control_clients :: nat
  an_pending_pairings :: nat
  an_pending_enrollments :: nat
  an_active_leases :: nat
  an_unread_notifications :: nat
  an_recent_failures :: nat

definition AdminCounts :: "env \<Rightarrow> server_db \<Rightarrow> string \<Rightarrow> gotime \<Rightarrow> store_error + admin_counts" where
  "AdminCounts e db ownerID now =
     (case store_guard e (ownerID \<noteq> [] \<and> \<not> IsZero now) of
        Some x \<Rightarrow> Inl x
      | None \<Rightarrow>
          if list_ex (call_fails e) [0, 1, 2, 3, 4, 5, 6] then Inl (Internal ''admin counts read'')
          else Inr
            \<lparr>an_active_nodes = active_nodes db ownerID,
             an_active_control_clients = active_clients db ownerID,
             an_pending_pairings = sql_count (\<lambda>r. pr_owner_id r = ownerID \<and> pairing_open (pr_status r) \<and>
               text_less (timestamp now) (pr_expires_at r)) (pairings db),
             an_pending_enrollments = sql_count (\<lambda>r. en_owner_id r = ownerID \<and> pairing_open (en_status r) \<and>
               text_less (timestamp now) (en_expires_at r)) (node_enrollments db),
             an_active_leases = sql_count (\<lambda>r. lr_owner_id r = ownerID \<and> lr_lease_id r \<noteq> None \<and>
               null_text_less (Some (timestamp now)) (lr_expires_at r)) (control_leases db),
             an_unread_notifications = sql_count (\<lambda>r. nr_owner_id r = ownerID \<and> nr_read_at r = None) (notifications db),
             an_recent_failures = sql_count (\<lambda>r. au_owner_id r = ownerID \<and> au_result r \<noteq> Succeeded \<and>
               text_less (timestamp (now - seconds 86400)) (au_created_at r)) (admin_audit_logs db)\<rparr>)"

section \<open>Notifications\<close>

record notification =
  no_id :: string
  no_owner :: string
  no_node :: string
  no_workspace :: string
  no_thread :: string
  no_turn :: string
  no_type :: string
  no_summary :: string
  no_source_sequence :: int
  no_dedup_key :: string
  no_created_at :: gotime
  no_read_at :: "gotime option"

definition validNotificationText :: "string \<Rightarrow> nat \<Rightarrow> bool" where
  "validNotificationText s maximum = (s \<noteq> [] \<and> length s \<le> maximum \<and> \<not> contains_nul s)"

definition validNotification :: "notification \<Rightarrow> bool" where
  "validNotification n =
     (validNotificationText (no_id n) 128 \<and> validNotificationText (no_owner n) 128 \<and> validNotificationText (no_node n) 128 \<and>
      validNotificationText (no_type n) 64 \<and> validNotificationText (no_summary n) 512 \<and>
      validNotificationText (no_dedup_key n) 256 \<and> 0 \<le> no_source_sequence n \<and> \<not> IsZero (no_created_at n) \<and>
      no_type n \<in> {''task.completed'', ''task.failed'', ''approval.required'', ''node.offline'', ''node.online''})"

definition nullNotificationText :: "string \<Rightarrow> string option" where
  "nullNotificationText s = (if s = [] then None else Some s)"

definition new_notification :: "notification \<Rightarrow> notification_row" where
  "new_notification n =
     \<lparr>nr_id = no_id n, nr_owner_id = no_owner n, nr_node_id = no_node n, nr_workspace_id = nullNotificationText (no_workspace n),
      nr_thread_id = nullNotificationText (no_thread n), nr_turn_id = nullNotificationText (no_turn n), nr_type = no_type n,
      nr_summary = no_summary n, nr_source_sequence = no_source_sequence n, nr_dedup_key = no_dedup_key n,
      nr_created_at = timestamp (no_created_at n), nr_read_at = None\<rparr>"

definition dedup_key_of :: "notification_row \<Rightarrow> string \<times> string" where
  "dedup_key_of r = (nr_owner_id r, nr_dedup_key r)"

definition SaveNotification :: "env \<Rightarrow> server_db \<Rightarrow> notification \<Rightarrow> server_db \<times> store_error option" where
  "SaveNotification e db n =
     (case store_guard e (validNotification n) of
        Some x \<Rightarrow> (db, Some x)
      | None \<Rightarrow>
          let r = new_notification n
          in if call_fails e 0 \<or> \<not> notifications_check r then (db, Some (Internal ''notification save''))
             else if sql_exists (\<lambda>x. dedup_key_of x = dedup_key_of r) (notifications db) then (db, None)
             else if \<not> notifications_insert_ok db r then (db, Some (Internal ''notification save''))
             else (db\<lparr>notifications := sql_insert r (notifications db)\<rparr>, None))"

definition scanNotification :: "notification_row \<Rightarrow> store_error + notification" where
  "scanNotification r =
     (case (parse_rfc3339 (nr_created_at r), parse_optional (nr_read_at r)) of
        (Some created, Some read) \<Rightarrow>
          Inr \<lparr>no_id = nr_id r, no_owner = nr_owner_id r, no_node = nr_node_id r, no_workspace = null_string (nr_workspace_id r),
               no_thread = null_string (nr_thread_id r), no_turn = null_string (nr_turn_id r), no_type = nr_type r,
               no_summary = nr_summary r, no_source_sequence = nr_source_sequence r, no_dedup_key = nr_dedup_key r,
               no_created_at = created, no_read_at = read\<rparr>
      | _ \<Rightarrow> Inl ErrCorrupt)"

definition newest_notification :: "notification_row \<Rightarrow> notification_row \<Rightarrow> bool" where
  "newest_notification a b =
     (text_less (nr_created_at b) (nr_created_at a) \<or> nr_created_at a = nr_created_at b \<and> nr_id b < nr_id a)"

definition ListNotifications :: "env \<Rightarrow> server_db \<Rightarrow> string \<Rightarrow> int \<Rightarrow> store_error + notification list" where
  "ListNotifications e db ownerID limit =
     (case store_guard e (validNotificationText ownerID 128 \<and> 1 \<le> limit \<and> limit \<le> 200) of
        Some x \<Rightarrow> Inl x
      | None \<Rightarrow>
          if call_fails e 0 then Inl (Internal ''notification list'')
          else case scan_list scanNotification (take (nat limit)
                  (order_by newest_notification (filter (\<lambda>r. nr_owner_id r = ownerID) (notifications db)))) of
            Inl x \<Rightarrow> Inl x
          | Inr result \<Rightarrow> if call_fails e 1 then Inl (Internal ''notification list'') else Inr result)"

definition mark_read :: "rfc3339 \<Rightarrow> notification_row \<Rightarrow> notification_row" where
  "mark_read now r = r\<lparr>nr_read_at := (case nr_read_at r of Some t \<Rightarrow> Some t | None \<Rightarrow> Some now)\<rparr>"

definition MarkNotificationRead :: "env \<Rightarrow> server_db \<Rightarrow> string \<Rightarrow> string \<Rightarrow> gotime \<Rightarrow> server_db \<times> store_error option" where
  "MarkNotificationRead e db ownerID notificationID now =
     (case store_guard e (validNotificationText ownerID 128 \<and> validNotificationText notificationID 128 \<and> \<not> IsZero now) of
        Some x \<Rightarrow> (db, Some x)
      | None \<Rightarrow>
          let selected = (\<lambda>r. nr_owner_id r = ownerID \<and> nr_id r = notificationID);
              db' = db\<lparr>notifications := sql_update selected (mark_read (timestamp now)) (notifications db)\<rparr>
          in if call_fails e 0 then (db, Some (Internal ''notification read''))
             else if call_fails e 1 then (db', Some (Internal ''notification read''))
             else (db', if sql_count selected (notifications db) = 0 then Some ErrNotFound else None))"

end
