(* ===== verification/Server_Calls.thy ===== *)
theory Server_Calls
  imports Server_Admin State_Machine
begin

text \<open>
  The calls of the Server store that change identities, requests and settings, as one type with
  one step function, and for every call which tables it leaves alone. The properties of the
  Server are about histories of these calls with arbitrary arguments, faults and interleaving.
\<close>

section \<open>What an operation ends in\<close>

text \<open>
  \<open>results Q x\<close>: the tables of the outcome \<open>x\<close> satisfy \<open>Q\<close>; \<open>ends Q r\<close>: the tables a
  transaction body commits satisfy \<open>Q\<close>. The rules follow the branches of an operation.
\<close>

definition results :: "('s \<Rightarrow> bool) \<Rightarrow> 's \<times> 'a \<Rightarrow> bool" where
  "results Q x = Q (fst x)"

definition ends :: "('s \<Rightarrow> bool) \<Rightarrow> 'e + 's \<Rightarrow> bool" where
  "ends Q r = (case r of Inl _ \<Rightarrow> True | Inr d \<Rightarrow> Q d)"

named_theorems results_intros \<open>branch rules of \<open>results\<close> and \<open>ends\<close>\<close>

lemma results_if [results_intros]:
  "(c \<Longrightarrow> results Q a) \<Longrightarrow> (\<not> c \<Longrightarrow> results Q b) \<Longrightarrow> results Q (if c then a else b)"
  by simp

lemma results_option [results_intros]:
  "(y = None \<Longrightarrow> results Q a) \<Longrightarrow> (\<And>x. y = Some x \<Longrightarrow> results Q (g x)) \<Longrightarrow>
    results Q (case y of None \<Rightarrow> a | Some x \<Rightarrow> g x)"
  by (simp split: option.split)

lemma results_sum [results_intros]:
  "(\<And>x. y = Inl x \<Longrightarrow> results Q (g x)) \<Longrightarrow> (\<And>x. y = Inr x \<Longrightarrow> results Q (h x)) \<Longrightarrow>
    results Q (case y of Inl x \<Rightarrow> g x | Inr x \<Rightarrow> h x)"
  by (simp split: sum.split)

lemma results_bootstrap [results_intros]:
  "(y = BootstrapPending \<Longrightarrow> results Q a) \<Longrightarrow> (y = BootstrapCompleted \<Longrightarrow> results Q b) \<Longrightarrow>
    results Q (case y of BootstrapPending \<Rightarrow> a | BootstrapCompleted \<Rightarrow> b)"
  by (simp split: bootstrap_state.split)

lemma results_Let [results_intros]: "(\<And>x. x = v \<Longrightarrow> results Q (g x)) \<Longrightarrow> results Q (Let v g)"
  by (simp add: Let_def)

lemma results_pair [results_intros]: "Q db \<Longrightarrow> results Q (db, r)"
  by (simp add: results_def)

lemma results_transact [results_intros]: "Q db \<Longrightarrow> ends Q r \<Longrightarrow> results Q (transact db r)"
  by (auto simp: results_def ends_def transact_def split: sum.splits)

lemma results_transact_val [results_intros]:
  "Q db \<Longrightarrow> ends (\<lambda>x. Q (fst x)) r \<Longrightarrow> results Q (transact_val db r)"
  by (auto simp: results_def ends_def transact_val_def split: sum.splits)

lemma ends_if [results_intros]: "(c \<Longrightarrow> ends Q a) \<Longrightarrow> (\<not> c \<Longrightarrow> ends Q b) \<Longrightarrow> ends Q (if c then a else b)"
  by simp

lemma ends_option [results_intros]:
  "(y = None \<Longrightarrow> ends Q a) \<Longrightarrow> (\<And>x. y = Some x \<Longrightarrow> ends Q (g x)) \<Longrightarrow>
    ends Q (case y of None \<Rightarrow> a | Some x \<Rightarrow> g x)"
  by (simp split: option.split)

lemma ends_sum [results_intros]:
  "(\<And>x. y = Inl x \<Longrightarrow> ends Q (g x)) \<Longrightarrow> (\<And>x. y = Inr x \<Longrightarrow> ends Q (h x)) \<Longrightarrow>
    ends Q (case y of Inl x \<Rightarrow> g x | Inr x \<Rightarrow> h x)"
  by (simp split: sum.split)

lemma ends_prod [results_intros]:
  "(\<And>a b. p = (a, b) \<Longrightarrow> ends Q (g a b)) \<Longrightarrow> ends Q (case p of (a, b) \<Rightarrow> g a b)"
  by (simp split: prod.split)

lemma ends_Let [results_intros]: "(\<And>x. x = v \<Longrightarrow> ends Q (g x)) \<Longrightarrow> ends Q (Let v g)"
  by (simp add: Let_def)

lemma ends_Inl [results_intros]: "ends Q (Inl x)"
  by (simp add: ends_def)

lemma ends_Inr [results_intros]: "Q d \<Longrightarrow> ends Q (Inr d)"
  by (simp add: ends_def)

lemma resultsD: "results Q x \<Longrightarrow> Q (fst x)"
  by (simp add: results_def)

lemma endsD: "ends Q r \<Longrightarrow> r = Inr d \<Longrightarrow> Q d"
  by (simp add: ends_def)

section \<open>The calls\<close>

datatype server_call =
    SRotateBootstrap env bytes gotime
  | SBootstrapStatus env gotime
  | SClaimBootstrap env bootstrap_claim
  | SCreatePairing env pairing
  | SClaimPairing env pairing_claim
  | SPairing env string bytes gotime
  | SNodePairings env string gotime
  | SResolvePairing env pairing_resolution
  | SRevokeControlClient env string string gotime
  | SRotateNodeCredential env string string bytes gotime
  | SCreateNodeEnrollment env node_enrollment
  | SClaimNodeEnrollment env enrollment_claim
  | SNodeEnrollment env string bytes gotime
  | SPendingNodeEnrollments env string gotime
  | SResolveNodeEnrollment env enrollment_resolution
  | SRevokeNode env string string string gotime
  | SCreateNodeInvitation env create_invitation
  | SListNodeInvitations env string gotime
  | SCancelNodeInvitation env string string gotime
  | SClaimNodeInvitation env "bytes \<times> bytes" claim_invitation
  | SSecuritySettings env gotime string
  | SUpdateSecuritySettings env string string bool bool int gotime
  | STouchNode env string string gotime
  | STouchControlClient env string string gotime
  | SCancelAdminAccessRequest env string string string gotime
  | SAdminRevokeNode env string string gotime
  | SAdminRevokeControlClient env string string gotime
  | SSaveAdminAudit env admin_audit
  | SPurgeAdminAudit env gotime
  | SSaveNotification env notification
  | SMarkNotificationRead env string string gotime

fun server_do :: "server_call \<Rightarrow> server_db \<Rightarrow> server_db" where
  "server_do (SRotateBootstrap e h now) db = fst (RotateBootstrap e db h now)"
| "server_do (SBootstrapStatus e clock) db = fst (BootstrapStatus e clock db)"
| "server_do (SClaimBootstrap e c) db = fst (ClaimBootstrap e db c)"
| "server_do (SCreatePairing e v) db = fst (CreatePairing e db v)"
| "server_do (SClaimPairing e c) db = fst (ClaimPairing e db c)"
| "server_do (SPairing e i h now) db = fst (Pairing e db i h now)"
| "server_do (SNodePairings e n now) db = fst (NodePairings e db n now)"
| "server_do (SResolvePairing e v) db = fst (ResolvePairing e db v)"
| "server_do (SRevokeControlClient e ow c now) db = fst (RevokeControlClient e db ow c now)"
| "server_do (SRotateNodeCredential e ow n h now) db = fst (RotateNodeCredential e db ow n h now)"
| "server_do (SCreateNodeEnrollment e v) db = fst (CreateNodeEnrollment e db v)"
| "server_do (SClaimNodeEnrollment e c) db = fst (ClaimNodeEnrollment e db c)"
| "server_do (SNodeEnrollment e i h now) db = fst (NodeEnrollment e db i h now)"
| "server_do (SPendingNodeEnrollments e n now) db = fst (PendingNodeEnrollments e db n now)"
| "server_do (SResolveNodeEnrollment e v) db = fst (ResolveNodeEnrollment e db v)"
| "server_do (SRevokeNode e ow n t now) db = fst (RevokeNode e db ow n t now)"
| "server_do (SCreateNodeInvitation e c) db = fst (CreateNodeInvitation e db c)"
| "server_do (SListNodeInvitations e ow now) db = fst (ListNodeInvitations e db ow now)"
| "server_do (SCancelNodeInvitation e ow i now) db = fst (CancelNodeInvitation e db ow i now)"
| "server_do (SClaimNodeInvitation e blobs c) db = fst (ClaimNodeInvitation e blobs db c)"
| "server_do (SSecuritySettings e clock ow) db = fst (SecuritySettings e clock db ow)"
| "server_do (SUpdateSecuritySettings e ow a p n base now) db = fst (UpdateSecuritySettings e db ow a p n base now)"
| "server_do (STouchNode e ow n now) db = fst (TouchNode e db ow n now)"
| "server_do (STouchControlClient e ow c now) db = fst (TouchControlClient e db ow c now)"
| "server_do (SCancelAdminAccessRequest e ow k i now) db = fst (CancelAdminAccessRequest e db ow k i now)"
| "server_do (SAdminRevokeNode e ow n now) db = fst (AdminRevokeNode e db ow n now)"
| "server_do (SAdminRevokeControlClient e ow c now) db = fst (AdminRevokeControlClient e db ow c now)"
| "server_do (SSaveAdminAudit e a) db = fst (SaveAdminAudit e db a)"
| "server_do (SPurgeAdminAudit e before) db = fst (PurgeAdminAudit e db before)"
| "server_do (SSaveNotification e n) db = fst (SaveNotification e db n)"
| "server_do (SMarkNotificationRead e ow i now) db = fst (MarkNotificationRead e db ow i now)"

section \<open>Which tables a call leaves alone\<close>

text \<open>The identity tables, and those of them beside the requests.\<close>

definition identities :: "server_db \<Rightarrow> owner_row table \<times> node_row table \<times> node_credential_row table \<times> control_client_row table" where
  "identities db = (owners db, nodes db, node_credentials db, control_clients db)"

definition requests :: "server_db \<Rightarrow> pairing_row table \<times> enrollment_row table \<times> invitation_row table" where
  "requests db = (pairings db, node_enrollments db, node_invitations db)"

named_theorems update_frames \<open>tables that the shared statements leave alone\<close>

lemma update_pairings_frame [update_frames]:
  assumes "update_pairings P f db = Some db'"
  shows "identities db' = identities db" "node_enrollments db' = node_enrollments db"
    "node_invitations db' = node_invitations db" "pairings db' = sql_update P f (pairings db)" "bootstrap db' = bootstrap db"
  using assms by (auto simp: update_pairings_def identities_def dest: sql_update_checked_SomeD)

lemma update_enrollments_frame [update_frames]:
  assumes "update_enrollments P f db = Some db'"
  shows "identities db' = identities db" "pairings db' = pairings db" "node_invitations db' = node_invitations db"
    "node_enrollments db' = sql_update P f (node_enrollments db)" "bootstrap db' = bootstrap db"
  using assms by (auto simp: update_enrollments_def identities_def dest: sql_update_checked_SomeD)

lemma try_update_pairings_cases:
  "try_update_pairings failed P f db = db \<or> update_pairings P f db = Some (try_update_pairings failed P f db)"
  unfolding try_update_pairings_def by (cases "update_pairings P f db") simp_all

lemma try_update_enrollments_cases:
  "try_update_enrollments failed P f db = db \<or> update_enrollments P f db = Some (try_update_enrollments failed P f db)"
  unfolding try_update_enrollments_def by (cases "update_enrollments P f db") simp_all

lemma try_pairings_frame [simp]:
  "identities (try_update_pairings failed P f db) = identities db"
  "node_enrollments (try_update_pairings failed P f db) = node_enrollments db"
  "node_invitations (try_update_pairings failed P f db) = node_invitations db"
  "bootstrap (try_update_pairings failed P f db) = bootstrap db"
  using try_update_pairings_cases [of failed P f db] by (auto dest: update_frames)

lemma try_enrollments_frame [simp]:
  "identities (try_update_enrollments failed P f db) = identities db"
  "pairings (try_update_enrollments failed P f db) = pairings db"
  "node_invitations (try_update_enrollments failed P f db) = node_invitations db"
  "bootstrap (try_update_enrollments failed P f db) = bootstrap db"
  using try_update_enrollments_cases [of failed P f db] by (auto dest: update_frames)

lemma scrub_frame [simp]: "identities (scrub_bootstrap db) = identities db" "requests (scrub_bootstrap db) = requests db"
  by (simp_all add: scrub_bootstrap_def identities_def requests_def)

lemma scrubExpired_frame:
  assumes "scrubExpiredBootstrap failed db t now = Inr db'"
  shows "identities db' = identities db" "requests db' = requests db"
  using assms by (auto simp: scrubExpiredBootstrap_def split: option.splits if_splits)

lemma insert_owner_InrD:
  assumes "insert_owner e k rep r db = Inr db'"
  shows "db' = db\<lparr>owners := sql_insert r (owners db)\<rparr>" "owners_insert_ok db r"
  using assms by (auto simp: insert_owner_def split: if_splits)

lemma insert_node_InrD:
  assumes "insert_node e k rep r db = Inr db'"
  shows "nodes db' = sql_insert r (nodes db)" "nodes_insert_ok db r"
    "node_credentials db' = sql_insert (new_credential (nd_id r) (nd_created_at r)) (node_credentials db)"
    "owners db' = owners db" "control_clients db' = control_clients db" "requests db' = requests db" "bootstrap db' = bootstrap db"
    "\<not> sql_exists (\<lambda>x. nc_node_id x = nd_id r) (node_credentials db)"
  using assms
  by (auto simp: insert_node_def Let_def requests_def node_credentials_insert_ok_def new_credential_def split: if_splits)

lemma ensure_security_frame:
  assumes "ensure_security ow now db = Some db'"
  shows "identities db' = identities db" "requests db' = requests db" "bootstrap db' = bootstrap db"
  using assms by (auto simp: ensure_security_def identities_def requests_def split: if_splits)

lemma raise_trust_SomeD:
  assumes "raise_trust i db = Some db'"
  shows "db' = db\<lparr>owners := sql_update (\<lambda>r. ow_id r = i) bump_revision (owners db)\<rparr>"
  using assms by (auto simp: raise_trust_def dest: sql_update_checked_SomeD)

lemma revoke_rows_InrD:
  assumes "revoke_rows e k op ow n now db = Inr db'"
  shows "nodes db' = sql_update (active_node ow n) (\<lambda>r. r\<lparr>nd_status := Revoked\<rparr>) (nodes db)"
    "node_credentials db' = sql_update (\<lambda>r. nc_node_id r = n) (\<lambda>r. r\<lparr>nc_status := Revoked, nc_revoked_at := Some (timestamp now)\<rparr>) (node_credentials db)"
    "owners db' = owners db" "control_clients db' = control_clients db" "pairings db' = pairings db"
    "node_invitations db' = node_invitations db" "bootstrap db' = bootstrap db"
    "node_enrollments db' = sql_update (\<lambda>r. en_issuer_node_id r = n \<and> pairing_open (en_status r)) (expire_enrollment (timestamp now)) (node_enrollments db)"
    "sql_count (active_node ow n) (nodes db) = 1"
proof -
  from assms obtain h: "update_enrollments (\<lambda>r. en_issuer_node_id r = n \<and> pairing_open (en_status r)) (expire_enrollment (timestamp now))
      (revoke_credential n now (revoke_node_rows ow n db)) = Some db'"
    and c: "sql_count (active_node ow n) (nodes db) = 1"
    by (auto simp: revoke_rows_def split: if_splits option.splits)
  from update_enrollments_frame [OF h] c show
    "nodes db' = sql_update (active_node ow n) (\<lambda>r. r\<lparr>nd_status := Revoked\<rparr>) (nodes db)"
    "node_credentials db' = sql_update (\<lambda>r. nc_node_id r = n) (\<lambda>r. r\<lparr>nc_status := Revoked, nc_revoked_at := Some (timestamp now)\<rparr>) (node_credentials db)"
    "owners db' = owners db" "control_clients db' = control_clients db" "pairings db' = pairings db"
    "node_invitations db' = node_invitations db" "bootstrap db' = bootstrap db"
    "node_enrollments db' = sql_update (\<lambda>r. en_issuer_node_id r = n \<and> pairing_open (en_status r)) (expire_enrollment (timestamp now)) (node_enrollments db)"
    "sql_count (active_node ow n) (nodes db) = 1"
    by (simp_all add: identities_def revoke_credential_def revoke_node_rows_def)
qed

end
