(* ===== verification/Server_Machines.thy ===== *)
theory Server_Machines
  imports Server_Calls
begin

text \<open>
  The rows of the Server database as state machines. For each table a relation \<open>moves\<close> says how a
  row may change; every call of \<open>server_call\<close> changes rows only along it and never removes one. The
  relations are interpretations of \<open>row_machine\<close>.
\<close>

section \<open>Steps of a table\<close>

definition table_step :: "('r \<Rightarrow> 'k) \<Rightarrow> ('r \<Rightarrow> 'r \<Rightarrow> bool) \<Rightarrow> 'r table \<Rightarrow> 'r table \<Rightarrow> bool" where
  "table_step key moves t t' =
     ((unique_key key t \<longrightarrow> unique_key key t') \<and>
      (\<forall>i r. sole_row (\<lambda>r. key r = i) t = Some r \<longrightarrow>
        (\<exists>r'. sole_row (\<lambda>r. key r = i) t' = Some r' \<and> (r' = r \<or> moves r r'))))"

lemma table_step_refl [simp, intro]: "table_step key moves t t"
  by (simp add: table_step_def)

lemma sole_row_key: "sole_row (\<lambda>r. key r = i) t = Some r \<Longrightarrow> p \<in> set t \<Longrightarrow> key p = key r \<Longrightarrow> p = r"
  using sole_row_in [of "\<lambda>r. key r = i" t r] sole_row_eq [of "\<lambda>r. key r = i" t r p] by simp

lemma table_step_Nil: "unique_key key t \<Longrightarrow> table_step key moves [] t"
  by (simp add: table_step_def sole_row_def)

lemma table_step_update:
  assumes "\<And>r. P r \<Longrightarrow> key (f r) = key r"
    and "\<And>i r. sole_row (\<lambda>r. key r = i) t = Some r \<Longrightarrow> P r \<Longrightarrow> moves r (f r)"
  shows "table_step key moves t (sql_update P f t)"
  using assms by (auto simp: table_step_def sole_row_update unique_sql_update)

lemma table_step_insert:
  assumes "\<not> sql_exists (\<lambda>x. key x = key r) t"
  shows "table_step key moves t (sql_insert r t)"
proof -
  have "sole_row (\<lambda>x. key x = i) t = Some r' \<Longrightarrow> key r \<noteq> i" for i r'
    using assms by (auto simp: sql_exists_iff dest!: sole_row_in)
  with assms show ?thesis by (auto simp: table_step_def sole_row_insert_other unique_sql_insert)
qed

lemma table_stepD:
  assumes "table_step key moves t t'" "sole_row (\<lambda>r. key r = i) t = Some r"
  shows "\<exists>r'. sole_row (\<lambda>r. key r = i) t' = Some r' \<and> (r' = r \<or> moves r r')"
  using assms by (simp add: table_step_def)

section \<open>How rows move\<close>

definition pairing_terms :: "pairing_row \<Rightarrow> string \<times> string \<times> string \<times> bytes \<times> bytes \<times> rfc3339 \<times> rfc3339" where
  "pairing_terms r = (pr_id r, pr_owner_id r, pr_node_id r, pr_code_hash r, pr_challenge r, pr_expires_at r, pr_created_at r)"

definition pairing_client :: "pairing_row \<Rightarrow> string option \<times> string option \<times> bytes option \<times> string option" where
  "pairing_client r = (pr_client_id r, pr_key_id r, pr_public_key r, pr_client_name r)"

text \<open>The life cycle pairings and enrollments share.\<close>

definition request_moves :: "pairing_status \<Rightarrow> pairing_status \<Rightarrow> bool \<Rightarrow> bool" where
  "request_moves s s' same_claimant =
     (s = PPending \<and> s' = PClaimed \<or>
      pairing_open s \<and> s' = PExpired \<and> same_claimant \<or>
      s = PClaimed \<and> (s' = PApproved \<or> s' = PDeclined) \<and> same_claimant)"

definition pairing_moves :: "pairing_row \<Rightarrow> pairing_row \<Rightarrow> bool" where
  "pairing_moves r r' =
     (pairing_terms r' = pairing_terms r \<and>
      request_moves (pr_status r) (pr_status r') (pairing_client r' = pairing_client r))"

definition enrollment_terms :: "enrollment_row \<Rightarrow> string \<times> string \<times> string \<times> bytes \<times> rfc3339 \<times> rfc3339" where
  "enrollment_terms r = (en_id r, en_owner_id r, en_issuer_node_id r, en_code_hash r, en_expires_at r, en_created_at r)"

definition enrollment_candidate ::
  "enrollment_row \<Rightarrow> string option \<times> bytes option \<times> bytes option \<times> string option \<times> string option \<times> string option" where
  "enrollment_candidate r =
     (en_candidate_node_id r, en_public_key r, en_credential_hash r, en_name r, en_os r, en_version r)"

definition enrollment_moves :: "enrollment_row \<Rightarrow> enrollment_row \<Rightarrow> bool" where
  "enrollment_moves r r' =
     (enrollment_terms r' = enrollment_terms r \<and>
      request_moves (en_status r) (en_status r') (enrollment_candidate r' = enrollment_candidate r))"

definition invitation_moves :: "invitation_row \<Rightarrow> invitation_row \<Rightarrow> bool" where
  "invitation_moves r r' =
     (iv_status r = IPending \<and> iv_status r' \<noteq> IPending \<and> iv_id r' = iv_id r \<and> iv_owner_id r' = iv_owner_id r \<and>
      iv_display_name r' = iv_display_name r \<and> iv_created_by r' = iv_created_by r \<and> iv_expires_at r' = iv_expires_at r)"

definition node_identity :: "node_row \<Rightarrow> string \<times> string \<times> bytes \<times> string \<times> string \<times> string \<times> rfc3339" where
  "node_identity r = (nd_id r, nd_owner_id r, nd_public_key r, nd_name r, nd_os r, nd_version r, nd_created_at r)"

definition node_moves :: "node_row \<Rightarrow> node_row \<Rightarrow> bool" where
  "node_moves r r' = (node_identity r' = node_identity r \<and> nd_status r = Active)"

definition client_identity :: "control_client_row \<Rightarrow> string \<times> string \<times> bytes \<times> string \<times> string \<times> rfc3339" where
  "client_identity r = (cc_id r, cc_owner_id r, cc_public_key r, cc_name r, cc_key_id r, cc_created_at r)"

definition client_moves :: "control_client_row \<Rightarrow> control_client_row \<Rightarrow> bool" where
  "client_moves r r' = (client_identity r' = client_identity r \<and> cc_status r = Active)"

definition owner_moves :: "owner_row \<Rightarrow> owner_row \<Rightarrow> bool" where
  "owner_moves r r' = (r' = bump_revision r)"

lemmas moves_defs = pairing_moves_def enrollment_moves_def request_moves_def pairing_terms_def pairing_client_def
  enrollment_terms_def enrollment_candidate_def invitation_moves_def node_moves_def node_identity_def
  client_moves_def client_identity_def owner_moves_def

lemmas row_updates = expire_pairing_def claim_pairing_def resolve_pairing_def expire_enrollment_def claim_enrollment_def
  resolve_enrollment_def set_invitation_status_def use_invitation_def revoke_client_def bump_revision_def

text \<open>What beyond the single rows a step keeps. There is at most one owner, and it stays. The clients an
  owner trusts change only together with its revision. A client appears only with an approved
  pairing. A completed bootstrap keeps its owner and node, and the first owner comes with a completed
  bootstrap.\<close>

definition owner_kept :: "owner_row table \<Rightarrow> owner_row table \<Rightarrow> bool" where
  "owner_kept t t' = (if t = [] then length t' \<le> 1 else map ow_id t' = map ow_id t)"

definition trust_view :: "server_db \<Rightarrow> string \<Rightarrow> ((string \<times> string \<times> bytes \<times> string \<times> string \<times> rfc3339) \<times> entity_status) list" where
  "trust_view db i = map (\<lambda>r. (client_identity r, cc_status r)) (filter (\<lambda>r. cc_owner_id r = i) (control_clients db))"

definition trust_step :: "server_db \<Rightarrow> server_db \<Rightarrow> bool" where
  "trust_step db d =
     (\<forall>i r. sole_row (\<lambda>r. ow_id r = i) (owners db) = Some r \<longrightarrow>
        (\<exists>r'. sole_row (\<lambda>r. ow_id r = i) (owners d) = Some r' \<and> ow_status r' = ow_status r \<and>
          ow_trust_revision r \<le> ow_trust_revision r' \<and>
          (ow_trust_revision r' = ow_trust_revision r \<longrightarrow> trust_view d i = trust_view db i)))"

definition paired :: "server_db \<Rightarrow> control_client_row \<Rightarrow> bool" where
  "paired db c =
     (\<exists>p \<in> set (pairings db). pr_status p = PApproved \<and> pr_owner_id p = cc_owner_id c \<and>
        pairing_client p = (Some (cc_id c), Some (cc_key_id c), Some (cc_public_key c), Some (cc_name c)))"

definition clients_step :: "server_db \<Rightarrow> server_db \<Rightarrow> bool" where
  "clients_step db d =
     (\<forall>c \<in> set (control_clients d). client_identity c \<in> client_identity ` set (control_clients db) \<or> paired d c)"

definition same_bootstrap :: "bootstrap_row \<Rightarrow> bootstrap_row \<Rightarrow> bool" where
  "same_bootstrap r r' =
     (bs_status r' = bs_status r \<and> bs_owner_id r' = bs_owner_id r \<and> bs_node_id r' = bs_node_id r \<and> bs_claimed_at r' = bs_claimed_at r)"

definition bootstrap_step :: "server_db \<Rightarrow> server_db \<Rightarrow> bool" where
  "bootstrap_step db d =
     ((\<forall>r. bootstrap db = Some r \<longrightarrow> owners db \<noteq> [] \<longrightarrow> bs_status r = BootstrapCompleted \<longrightarrow>
         (\<exists>r'. bootstrap d = Some r' \<and> same_bootstrap r r')) \<and>
      (owners db = [] \<longrightarrow> owners d \<noteq> [] \<longrightarrow>
         (\<exists>r'. bootstrap d = Some r' \<and> bs_status r' = BootstrapCompleted \<and> bs_owner_id r' = Some (ow_id (hd (owners d))))))"

text \<open>An owner that has an active node keeps one.\<close>

definition nodes_kept :: "server_db \<Rightarrow> server_db \<Rightarrow> bool" where
  "nodes_kept db d = (\<forall>i. 1 \<le> active_nodes db i \<longrightarrow> 1 \<le> active_nodes d i)"

definition account_step :: "server_db \<Rightarrow> server_db \<Rightarrow> bool" where
  "account_step db d =
     (owner_kept (owners db) (owners d) \<and> trust_step db d \<and> clients_step db d \<and> bootstrap_step db d \<and> nodes_kept db d)"

lemma nodes_kept_same: "nodes d = nodes db \<Longrightarrow> nodes_kept db d"
  by (simp add: nodes_kept_def active_nodes_def)

lemma nodes_kept_insert: "nodes d = sql_insert r (nodes db) \<Longrightarrow> nodes_kept db d"
  by (simp add: nodes_kept_def active_nodes_def sql_insert_def sql_count_def)

text \<open>One step of the whole database.\<close>

definition server_step :: "server_db \<Rightarrow> server_db \<Rightarrow> bool" where
  "server_step db d =
     (table_step pr_id pairing_moves (pairings db) (pairings d) \<and>
      table_step en_id enrollment_moves (node_enrollments db) (node_enrollments d) \<and>
      table_step iv_id invitation_moves (node_invitations db) (node_invitations d) \<and>
      table_step nd_id node_moves (nodes db) (nodes d) \<and>
      table_step cc_id client_moves (control_clients db) (control_clients d) \<and>
      table_step ow_id owner_moves (owners db) (owners d) \<and> account_step db d)"

lemma owner_kept_refl [simp]: "length t \<le> 1 \<or> t \<noteq> [] \<Longrightarrow> owner_kept t t"
  by (simp add: owner_kept_def)

lemma owner_kept_same [simp]: "owner_kept t t"
  by (simp add: owner_kept_def)

lemma trust_step_same:
  "owners d = owners db \<Longrightarrow> (\<And>i. trust_view d i = trust_view db i) \<Longrightarrow> trust_step db d"
  by (simp add: trust_step_def)

lemma trust_step_bump:
  assumes "owners d = sql_update (\<lambda>r. ow_id r = i) bump_revision (owners db)"
    and "\<And>j. j \<noteq> i \<Longrightarrow> trust_view d j = trust_view db j"
  shows "trust_step db d"
  unfolding trust_step_def
proof (intro allI impI)
  fix j r
  assume r: "sole_row (\<lambda>r. ow_id r = j) (owners db) = Some r"
  have "sole_row (\<lambda>r. ow_id r = j) (owners d) = Some (if ow_id r = i then bump_revision r else r)"
    unfolding assms(1) by (subst sole_row_update) (simp_all add: bump_revision_def r)
  moreover have "ow_id r = j" using sole_row_in [OF r] by simp
  ultimately show "\<exists>r'. sole_row (\<lambda>r. ow_id r = j) (owners d) = Some r' \<and> ow_status r' = ow_status r \<and>
      ow_trust_revision r \<le> ow_trust_revision r' \<and> (ow_trust_revision r' = ow_trust_revision r \<longrightarrow> trust_view d j = trust_view db j)"
    using assms(2) [of j] by (cases "j = i") (auto simp: bump_revision_def)
qed

lemma clients_step_same: "client_identity ` set (control_clients d) \<subseteq> client_identity ` set (control_clients db) \<Longrightarrow> clients_step db d"
  by (auto simp: clients_step_def)

lemma bootstrap_step_same: "owners d = owners db \<Longrightarrow> bootstrap d = bootstrap db \<Longrightarrow> bootstrap_step db d"
  by (simp add: bootstrap_step_def same_bootstrap_def)

lemma owner_kept_update: "owner_kept t (sql_update P bump_revision t)"
  by (auto simp: owner_kept_def sql_update_def bump_revision_def)

lemma account_step_same:
  assumes "identities d = identities db" "bootstrap d = bootstrap db"
  shows "account_step db d"
  using assms
  by (auto simp: account_step_def identities_def trust_view_def
      intro!: trust_step_same clients_step_same bootstrap_step_same nodes_kept_same)

lemma server_step_same:
  "identities d = identities db \<Longrightarrow> requests d = requests db \<Longrightarrow> bootstrap d = bootstrap db \<Longrightarrow> server_step db d"
  by (simp add: server_step_def account_step_same) (simp add: identities_def requests_def)

lemma server_step_refl [simp, intro]: "server_step db db"
  by (simp add: server_step_same)

lemma server_step_bootstrap:
  assumes "identities d = identities db" "requests d = requests db"
    and "\<And>r. bootstrap db = Some r \<Longrightarrow> owners db \<noteq> [] \<Longrightarrow> bs_status r = BootstrapCompleted \<Longrightarrow>
      \<exists>r'. bootstrap d = Some r' \<and> same_bootstrap r r'"
  shows "server_step db d"
  using assms
  by (auto simp: server_step_def account_step_def identities_def requests_def bootstrap_step_def trust_view_def
      intro!: trust_step_same clients_step_same nodes_kept_same)

lemma server_step_pairings:
  "identities d = identities db \<Longrightarrow> bootstrap d = bootstrap db \<Longrightarrow> node_enrollments d = node_enrollments db \<Longrightarrow>
    node_invitations d = node_invitations db \<Longrightarrow> table_step pr_id pairing_moves (pairings db) (pairings d) \<Longrightarrow> server_step db d"
  by (simp add: server_step_def account_step_same) (simp add: identities_def)

lemma server_step_enrollments:
  "identities d = identities db \<Longrightarrow> bootstrap d = bootstrap db \<Longrightarrow> pairings d = pairings db \<Longrightarrow>
    node_invitations d = node_invitations db \<Longrightarrow> table_step en_id enrollment_moves (node_enrollments db) (node_enrollments d) \<Longrightarrow> server_step db d"
  by (simp add: server_step_def account_step_same) (simp add: identities_def)

lemma server_step_invitations:
  "identities d = identities db \<Longrightarrow> bootstrap d = bootstrap db \<Longrightarrow> pairings d = pairings db \<Longrightarrow>
    node_enrollments d = node_enrollments db \<Longrightarrow> table_step iv_id invitation_moves (node_invitations db) (node_invitations d) \<Longrightarrow> server_step db d"
  by (simp add: server_step_def account_step_same) (simp add: identities_def)

text \<open>Steps that change nodes but neither owner, clients nor bootstrap.\<close>

lemma account_step_nodes:
  assumes "owners d = owners db" "control_clients d = control_clients db" "bootstrap d = bootstrap db" "nodes_kept db d"
  shows "account_step db d"
  using assms
  by (auto simp: account_step_def trust_view_def intro!: trust_step_same clients_step_same bootstrap_step_same)

text \<open>The first owner of a Server.\<close>

lemma account_step_first_owner:
  assumes "owners db = []" "owners d = [o']" "control_clients d = control_clients db"
    and "bootstrap d = Some r" "bs_status r = BootstrapCompleted" "bs_owner_id r = Some (ow_id o')" "nodes_kept db d"
  shows "account_step db d" "table_step ow_id owner_moves (owners db) (owners d)"
  using assms
  by (auto simp: account_step_def owner_kept_def trust_step_def sole_row_def bootstrap_step_def unique_key_def
      intro!: clients_step_same table_step_Nil)

text \<open>A change of the clients of an owner under a new revision.\<close>

lemma account_step_trust:
  assumes "owners d = sql_update (\<lambda>r. ow_id r = i) bump_revision (owners db)" "bootstrap d = bootstrap db"
    and "\<And>j. j \<noteq> i \<Longrightarrow> trust_view d j = trust_view db j" "clients_step db d" "nodes d = nodes db"
  shows "account_step db d"
  unfolding account_step_def
proof (intro conjI)
  show "bootstrap_step db d" using assms(1,2) by (auto simp: bootstrap_step_def same_bootstrap_def sql_update_def)
  show "owner_kept (owners db) (owners d)" unfolding assms(1) by (rule owner_kept_update)
qed (use assms trust_step_bump nodes_kept_same in blast)+

section \<open>The updates\<close>

lemma expire_open_pairings:
  assumes "update_pairings P (expire_pairing now) db = Some d"
    and "\<And>i r. sole_row (\<lambda>r. pr_id r = i) (pairings db) = Some r \<Longrightarrow> P r \<Longrightarrow> pairing_open (pr_status r)"
  shows "server_step db d"
proof (rule server_step_pairings)
  show "table_step pr_id pairing_moves (pairings db) (pairings d)"
    unfolding update_pairings_frame(4) [OF assms(1)]
    using assms(2) by (intro table_step_update) (auto simp: moves_defs row_updates)
qed (use update_pairings_frame [OF assms(1)] in simp_all)

lemma try_expire_pairings:
  assumes "\<And>i r. sole_row (\<lambda>r. pr_id r = i) (pairings db) = Some r \<Longrightarrow> P r \<Longrightarrow> pairing_open (pr_status r)"
  shows "server_step db (try_update_pairings failed P (expire_pairing now) db)"
  using try_update_pairings_cases [of failed P "expire_pairing now" db]
proof
  assume "try_update_pairings failed P (expire_pairing now) db = db"
  then show ?thesis by (simp only: server_step_refl)
qed (rule expire_open_pairings [OF _ assms])

lemma expire_open_enrollments:
  assumes "update_enrollments P (expire_enrollment now) db = Some d"
    and "\<And>i r. sole_row (\<lambda>r. en_id r = i) (node_enrollments db) = Some r \<Longrightarrow> P r \<Longrightarrow> pairing_open (en_status r)"
  shows "server_step db d"
proof (rule server_step_enrollments)
  show "table_step en_id enrollment_moves (node_enrollments db) (node_enrollments d)"
    unfolding update_enrollments_frame(4) [OF assms(1)]
    using assms(2) by (intro table_step_update) (auto simp: moves_defs row_updates)
qed (use update_enrollments_frame [OF assms(1)] in simp_all)

lemma try_expire_enrollments:
  assumes "\<And>i r. sole_row (\<lambda>r. en_id r = i) (node_enrollments db) = Some r \<Longrightarrow> P r \<Longrightarrow> pairing_open (en_status r)"
  shows "server_step db (try_update_enrollments failed P (expire_enrollment now) db)"
  using try_update_enrollments_cases [of failed P "expire_enrollment now" db]
proof
  assume "try_update_enrollments failed P (expire_enrollment now) db = db"
  then show ?thesis by (simp only: server_step_refl)
qed (rule expire_open_enrollments [OF _ assms])

lemma pairing_join_iff:
  "(p, k) \<in> set (pairing_join db) \<longleftrightarrow> p \<in> set (pairings db) \<and> (\<exists>n \<in> set (nodes db). nd_id n = pr_node_id p \<and> nd_public_key n = k)"
  by (auto simp: pairing_join_def)

lemma enrollment_join_iff:
  "(r, k) \<in> set (enrollment_join db) \<longleftrightarrow>
     r \<in> set (node_enrollments db) \<and> (\<exists>n \<in> set (nodes db). nd_id n = en_issuer_node_id r \<and> nd_public_key n = k)"
  by (auto simp: enrollment_join_def)

lemma scanPairing_InrD:
  assumes "scanPairing failed (pairingSelect db P) = Inr item"
  shows "\<exists>p k. p \<in> set (pairings db) \<and> P p \<and> scan_pairing_row (p, k) = Inr item"
proof -
  obtain x xs where x: "pairingSelect db P = x # xs" "scan_pairing_row x = Inr item"
    using assms by (auto simp: scanPairing_def split: if_splits list.splits sum.splits)
  then have "x \<in> set (pairingSelect db P)" by simp
  with x(2) show ?thesis by (cases x) (auto simp: pairingSelect_def pairing_join_iff)
qed

lemma scan_pairing_row_InrD:
  assumes "scan_pairing_row (p, k) = Inr item"
  shows "pa_status item = pr_status p" "pa_id item = pr_id p" "pa_owner item = pr_owner_id p" "pa_node item = pr_node_id p"
    "pa_client item = null_string (pr_client_id p)" "pa_key item = null_string (pr_key_id p)"
    "pa_public_key item = null_string (pr_public_key p)" "pa_client_name item = null_string (pr_client_name p)"
    "parse_rfc3339 (pr_expires_at p) = Some (pa_expires_at item)" "pa_code_hash item = pr_code_hash p"
  using assms by (auto simp: scan_pairing_row_def Let_def split: option.splits)

lemma scanEnrollment_InrD:
  assumes "scanNodeEnrollment failed (nodeEnrollmentSelect db P) = Inr item"
  shows "\<exists>p k. p \<in> set (node_enrollments db) \<and> P p \<and> scan_enrollment_row (p, k) = Inr item"
proof -
  obtain x xs where x: "nodeEnrollmentSelect db P = x # xs" "scan_enrollment_row x = Inr item"
    using assms by (auto simp: scanNodeEnrollment_def split: if_splits list.splits sum.splits)
  then have "x \<in> set (nodeEnrollmentSelect db P)" by simp
  with x(2) show ?thesis by (cases x) (auto simp: nodeEnrollmentSelect_def enrollment_join_iff)
qed

lemma scan_enrollment_row_InrD:
  assumes "scan_enrollment_row (p, k) = Inr item"
  shows "ne_status item = en_status p" "ne_id item = en_id p" "ne_owner item = en_owner_id p"
    "ne_issuer item = en_issuer_node_id p" "ne_candidate item = null_string (en_candidate_node_id p)"
    "ne_public_key item = null_string (en_public_key p)"
  using assms by (auto simp: scan_enrollment_row_def Let_def split: option.splits)

section \<open>Every call is a step\<close>

lemma scrub_step [simp]: "server_step db (scrub_bootstrap db)"
  by (rule server_step_bootstrap) (auto simp: scrub_bootstrap_def identities_def requests_def same_bootstrap_def)

lemma scrubExpired_step: "scrubExpiredBootstrap failed db t now = Inr d \<Longrightarrow> server_step db d"
  by (auto simp: scrubExpiredBootstrap_def split: option.splits if_splits)

lemma rotate_step: "results (server_step db) (RotateBootstrap e db h now)"
  unfolding RotateBootstrap_def
  by (intro results_intros) (auto intro: scrubExpired_step server_step_bootstrap simp: identities_def requests_def)

lemma status_step: "results (server_step db) (BootstrapStatus e clock db)"
  unfolding BootstrapStatus_def
  by (intro results_intros) (auto split: if_splits intro: scrubExpired_step)

lemma claim_completed_step: "results (server_step db) (claim_completed e db r c)"
  unfolding claim_completed_def by (intro results_intros) auto

lemma node_insert_after_owner: "nodes_insert_ok (db\<lparr>owners := t\<rparr>) r \<Longrightarrow> table_step nd_id node_moves (nodes db) (sql_insert r (nodes db))"
  by (auto simp: nodes_insert_ok_def intro: table_step_insert)

lemma claim_pending_step:
  assumes "bootstrap db = Some r" "bs_status r = BootstrapPending"
  shows "ends (\<lambda>x. server_step db (fst x)) (claim_pending e db r c)"
  unfolding claim_pending_def
proof (intro results_intros)
  let ?o = "new_owner (bc_owner c) (timestamp (bc_now c))"
  fix db1 db2
  assume o: "insert_owner e 2 (mapInsertError e) ?o db = Inr db1"
    and n: "insert_node e 3 (mapInsertError e) (new_node (bc_node c) (bc_owner c) (bc_public_key c) (bc_name c) (bc_os c)
      (bc_version c) (timestamp (bc_now c))) db1 = Inr db2"
  let ?d = "db2\<lparr>bootstrap := map_option (complete_bootstrap c) (bootstrap db2)\<rparr>"
  have db1: "db1 = db\<lparr>owners := [?o]\<rparr>" "owners db = []"
    using insert_owner_InrD [OF o] by (auto simp: owners_insert_ok_def sql_insert_def)
  note n' = insert_node_InrD [OF n, unfolded db1(1)]
  have "account_step db ?d" "table_step ow_id owner_moves (owners db) (owners ?d)"
    by (rule account_step_first_owner [where o' = ?o and r = "complete_bootstrap c r"];
        use n' db1 assms in \<open>simp add: complete_bootstrap_def new_owner_def nodes_kept_insert\<close>)+
  then show "server_step db (fst (?d, \<lparr>cl_owner_id = bc_owner c, cl_node_id = bc_node c, cl_replayed = False\<rparr>))"
    using n' by (auto simp: server_step_def requests_def intro: node_insert_after_owner)
qed

lemma claim_bootstrap_step: "results (server_step db) (ClaimBootstrap e db c)"
  unfolding ClaimBootstrap_def
  by (intro results_intros claim_completed_step claim_pending_step) simp_all

lemma create_pairing_step: "results (server_step db) (CreatePairing e db v)"
  unfolding CreatePairing_def
  by (intro results_intros)
    (auto simp: identities_def pairings_insert_ok_def intro!: server_step_pairings table_step_insert)

lemma claim_pairing_step: "results (server_step db) (ClaimPairing e db c)"
  unfolding ClaimPairing_def
proof (intro results_intros)
  fix item
  assume scan: "scanPairing (call_fails e 1) (pairingSelect db (\<lambda>r. pr_id r = pc_pairing c)) = Inr item"
    and "pairing_open (pa_status item) \<and> \<not> call_fails e 3"
  then obtain p k where "p \<in> set (pairings db)" "pr_id p = pc_pairing c" "pairing_open (pr_status p)"
    using scanPairing_InrD [OF scan] by (auto simp: scan_pairing_row_InrD(1))
  then show "server_step db (try_update_pairings (call_fails e 2) (\<lambda>r. pr_id r = pc_pairing c) (expire_pairing (timestamp (pc_now c))) db)"
    by (intro try_expire_pairings) (metis sole_row_key)
next
  fix item db'
  assume "update_pairings (\<lambda>r. pr_id r = pc_pairing c \<and> pr_status r = PPending) (claim_pairing c) db = Some db'"
  note u = update_pairings_frame [OF this]
  show "server_step db db'"
    using u by (intro server_step_pairings) (auto intro!: table_step_update simp: moves_defs row_updates)
qed simp_all

lemma pairing_step: "results (server_step db) (Pairing e db i h now)"
  unfolding Pairing_def by (intro results_intros try_expire_pairings) simp_all

lemma node_pairings_step: "results (server_step db) (NodePairings e db n now)"
  unfolding NodePairings_def by (intro results_intros) (auto intro!: try_expire_pairings)

lemma admit_client_InrD:
  assumes "admit_client e item now db = Inr d"
  shows "d = db \<and> sql_count (exact_client item) (control_clients db) = 1 \<or>
    \<not> sql_exists (\<lambda>r. cc_id r = pa_client item) (control_clients db) \<and>
    d = db\<lparr>control_clients := sql_insert (new_client item now) (control_clients db),
           owners := sql_update (\<lambda>r. ow_id r = pa_owner item) bump_revision (owners db)\<rparr>"
  using assms by (auto simp: admit_client_def split: if_splits option.splits dest!: raise_trust_SomeD)

lemma raise_trust_step: "table_step ow_id owner_moves t (sql_update (\<lambda>r. ow_id r = i) bump_revision t)"
  by (rule table_step_update) (auto simp: owner_moves_def bump_revision_def)

lemma admit_client_step:
  assumes "admit_client e item now db = Inr d"
  shows "table_step cc_id client_moves (control_clients db) (control_clients d)"
    "table_step ow_id owner_moves (owners db) (owners d)" "requests d = requests db" "nodes d = nodes db" "node_credentials d = node_credentials db"
  using admit_client_InrD [OF assms]
  by (auto simp: requests_def new_client_def intro!: table_step_insert raise_trust_step)

lemma trust_view_insert: "cc_owner_id r \<noteq> i \<Longrightarrow> trust_view (db\<lparr>control_clients := sql_insert r (control_clients db)\<rparr>) i = trust_view db i"
  by (simp add: trust_view_def sql_insert_def)

lemma trust_view_clients: "control_clients d = control_clients d' \<Longrightarrow> trust_view d i = trust_view d' i"
  by (simp add: trust_view_def)

text \<open>An approved pairing names the client its resolution admits.\<close>

lemma resolved_pairing_pairs:
  assumes "scanPairing failed (pairingSelect db (\<lambda>r. pr_id r = px_pairing v \<and> pr_node_id r = px_node v)) = Inr item"
    and "pa_status item = PClaimed" "control_clients_check (new_client item now)"
    and "pairings d = sql_update (\<lambda>r. pr_id r = px_pairing v \<and> pr_status r = PClaimed) (resolve_pairing PApproved v) (pairings db)"
  shows "paired d (new_client item now)"
proof -
  obtain p k where p: "p \<in> set (pairings db)" "pr_id p = px_pairing v" "scan_pairing_row (p, k) = Inr item"
    using scanPairing_InrD [OF assms(1)] by auto
  note s = scan_pairing_row_InrD [OF p(3)]
  let ?p = "resolve_pairing PApproved v p"
  have "?p \<in> set (pairings d)"
    using p assms(2,4) s(1) by (auto simp: set_sql_update intro!: image_eqI [of _ _ p])
  moreover have "pairing_client ?p = (Some (pa_client item), Some (pa_key item), Some (pa_public_key item), Some (pa_client_name item))"
    using assms(3) s
    by (auto simp: control_clients_check_def new_client_def length_between_def pairing_client_def resolve_pairing_def
        null_string_def split: option.splits)
  ultimately show ?thesis
    using s(3) by (auto simp: paired_def new_client_def resolve_pairing_def intro!: bexI [of _ ?p])
qed

lemma resolve_account_step:
  assumes "scanPairing failed (pairingSelect db (\<lambda>r. pr_id r = px_pairing v \<and> pr_node_id r = px_node v)) = Inr item"
    and "pa_status item = PClaimed" "admit_client e item now db = Inr db1"
    and "pairings d = sql_update (\<lambda>r. pr_id r = px_pairing v \<and> pr_status r = PClaimed) (resolve_pairing PApproved v) (pairings db)"
    and "identities d = identities db1" "bootstrap d = bootstrap db1"
  shows "account_step db d"
proof (cases "db1 = db")
  case True
  with assms(5,6) show ?thesis by (simp add: account_step_same)
next
  case False
  have db1: "db1 = db\<lparr>control_clients := sql_insert (new_client item now) (control_clients db),
      owners := sql_update (\<lambda>r. ow_id r = pa_owner item) bump_revision (owners db)\<rparr>"
    using admit_client_InrD [OF assms(3)] False by auto
  have check: "control_clients_check (new_client item now)"
    using assms(3) by (auto simp: admit_client_def split: if_splits)
  have d: "owners d = owners db1" "control_clients d = control_clients db1" "nodes d = nodes db1"
    using assms(5) by (auto simp: identities_def)
  show ?thesis
  proof (rule account_step_trust [where i = "pa_owner item"])
    show "trust_view d j = trust_view db j" if "j \<noteq> pa_owner item" for j
      using that d(2) db1 by (auto simp: trust_view_def sql_insert_def new_client_def)
    show "clients_step db d"
      using resolved_pairing_pairs [OF assms(1,2) check assms(4)] d(2) db1
      by (auto simp: clients_step_def set_sql_insert)
  qed (use d db1 assms(6) in simp_all)
qed

lemma resolve_pairing_step: "results (server_step db) (ResolvePairing e db v)"
  unfolding ResolvePairing_def
proof (intro results_intros)
  fix item accept status db1 db2
  assume scan: "scanPairing (call_fails e 1) (pairingSelect db (\<lambda>r. pr_id r = px_pairing v \<and> pr_node_id r = px_node v)) = Inr item"
    and c: "\<not> (pa_status item \<noteq> PClaimed \<or> After (px_now v) (pa_expires_at item))"
    and s: "status = (if accept then PApproved else PDeclined)"
    and a: "(if accept then admit_client e item (px_now v) db else Inr db) = Inr db1"
    and "update_pairings (\<lambda>r. pr_id r = px_pairing v \<and> pr_status r = PClaimed) (resolve_pairing status v) db1 = Some db2"
  note u = update_pairings_frame [OF this(5)]
  have d: "table_step cc_id client_moves (control_clients db) (control_clients db1)"
    "table_step ow_id owner_moves (owners db) (owners db1)" "requests db1 = requests db" "nodes db1 = nodes db"
    using a admit_client_step [of e item "px_now v" db db1] by (auto split: if_splits)
  have "table_step pr_id pairing_moves (pairings db1) (pairings db2)"
    unfolding u(4) using s by (intro table_step_update) (auto simp: moves_defs row_updates)
  moreover have "account_step db db2"
  proof (cases accept)
    case True
    then show ?thesis using resolve_account_step [OF scan _ _ _ u(1,5)] a c s u(4) d(3) by (auto simp: requests_def)
  next
    case False
    then show ?thesis using a u by (intro account_step_same) auto
  qed
  ultimately show "server_step db (fst (db2, item\<lparr>pa_status := status, pa_proof := px_proof v, pa_resolved_at := px_now v\<rparr>))"
    using d u by (simp add: server_step_def requests_def identities_def)
qed simp_all

lemma revoke_clients_step: "table_step cc_id client_moves (control_clients db) (control_clients (revoke_clients ow c now db))"
  unfolding revoke_clients_def by (auto intro!: table_step_update simp: active_client_def moves_defs row_updates)

lemma update_clients_identity:
  assumes "\<And>r. P r \<Longrightarrow> client_identity (f r) = client_identity r"
  shows "client_identity ` set (sql_update P f t) \<subseteq> client_identity ` set t"
  using assms by (auto simp: set_sql_update)

lemma trust_view_update_other:
  assumes "\<And>r. P r \<Longrightarrow> client_identity (f r) = client_identity r \<and> cc_owner_id r = i" "j \<noteq> i"
  shows "trust_view (db\<lparr>control_clients := sql_update P f (control_clients db)\<rparr>) j = trust_view db j"
proof -
  have "filter (\<lambda>r. cc_owner_id r = j) (sql_update P f t) = filter (\<lambda>r. cc_owner_id r = j) t" for t
    using assms by (induction t) (auto simp: sql_update_def client_identity_def)
  then show ?thesis by (simp add: trust_view_def)
qed

lemma server_step_revoked:
  assumes "raise_trust ow (revoke_clients ow c now db) = Some d"
  shows "server_step db d"
proof -
  note d = raise_trust_SomeD [OF assms]
  have id: "client_identity (revoke_client t r) = client_identity r" for t r by (simp add: client_identity_def revoke_client_def)
  have "account_step db d"
  proof (rule account_step_trust [where i = ow])
    show "trust_view d j = trust_view db j" if "j \<noteq> ow" for j
      using trust_view_update_other [of "active_client ow c" "revoke_client (timestamp now)" ow j db] that
      by (simp add: d revoke_clients_def active_client_def id trust_view_def)
    show "clients_step db d"
      using update_clients_identity [of "active_client ow c" "revoke_client (timestamp now)" "control_clients db"]
      by (intro clients_step_same) (simp add: d revoke_clients_def id)
  qed (simp_all add: d revoke_clients_def)
  with revoke_clients_step [of db ow c now] show ?thesis
    by (simp add: server_step_def d) (simp add: revoke_clients_def raise_trust_step)
qed

lemma revoke_client_step: "results (server_step db) (RevokeControlClient e db ow c now)"
  unfolding RevokeControlClient_def by (intro results_intros) (auto intro: server_step_revoked)

lemma rotate_credential_same:
  "results (\<lambda>d. d = db) (RotateNodeCredential e db ow n h now)"
  unfolding RotateNodeCredential_def
proof (intro results_intros)
  fix selected t
  assume "sql_update_checked node_credentials_check selected (rotate_credential h (timestamp now)) (node_credentials db) = Some t"
  then have "t = node_credentials db"
    by (auto simp: sql_update_checked_def sql_update_def node_credentials_check_def rotate_credential_def list_all_iff
        intro!: map_idI split: if_splits)
  then show "db\<lparr>node_credentials := t\<rparr> = db" "db\<lparr>node_credentials := t\<rparr> = db" by simp_all
qed simp_all

lemma create_enrollment_step: "results (server_step db) (CreateNodeEnrollment e db v)"
  unfolding CreateNodeEnrollment_def
  by (intro results_intros)
    (auto simp: identities_def enrollments_insert_ok_def intro!: server_step_enrollments table_step_insert)

lemma claim_enrollment_step: "results (server_step db) (ClaimNodeEnrollment e db c)"
  unfolding ClaimNodeEnrollment_def
proof (intro results_intros)
  fix item
  assume scan: "scanNodeEnrollment (call_fails e 1) (nodeEnrollmentSelect db (\<lambda>r. en_id r = ec_enrollment c)) = Inr item"
    and "pairing_open (ne_status item) \<and> \<not> call_fails e 3"
  then obtain p k where "p \<in> set (node_enrollments db)" "en_id p = ec_enrollment c" "pairing_open (en_status p)"
    using scanEnrollment_InrD [OF scan] by (auto simp: scan_enrollment_row_InrD(1))
  then show "server_step db (try_update_enrollments (call_fails e 2) (\<lambda>r. en_id r = ec_enrollment c) (expire_enrollment (timestamp (ec_now c))) db)"
    by (intro try_expire_enrollments) (metis sole_row_key)
next
  fix item selected db'
  assume s: "selected = (\<lambda>r. en_id r = ec_enrollment c \<and> en_status r = PPending)"
    and "update_enrollments selected (claim_enrollment c) db = Some db'"
  note u = update_enrollments_frame [OF this(2)]
  show "server_step db db'"
    using u s by (intro server_step_enrollments) (auto intro!: table_step_update simp: moves_defs row_updates)
qed simp_all

lemma enrollment_step: "results (server_step db) (NodeEnrollment e db i h now)"
  unfolding NodeEnrollment_def by (intro results_intros try_expire_enrollments) simp_all

lemma pending_enrollments_step: "results (server_step db) (PendingNodeEnrollments e db n now)"
  unfolding PendingNodeEnrollments_def by (intro results_intros) (auto intro!: try_expire_enrollments)

lemma admit_node_InrD:
  assumes "admit_node e item now db = Inr d"
  shows "nodes d = sql_insert (new_node (ne_candidate item) (ne_owner item) (ne_public_key item) (ne_name item) (ne_os item)
      (ne_version item) (timestamp now)) (nodes db)"
    "nodes_insert_ok db (new_node (ne_candidate item) (ne_owner item) (ne_public_key item) (ne_name item) (ne_os item)
      (ne_version item) (timestamp now))"
    "owners d = owners db" "control_clients d = control_clients db" "requests d = requests db" "bootstrap d = bootstrap db"
    "active_nodes db (ne_owner item) < MaxActiveNodes"
  using assms by (auto simp: admit_node_def split: if_splits dest: insert_node_InrD)

lemma nodes_insert_step: "nodes_insert_ok db r \<Longrightarrow> table_step nd_id node_moves (nodes db) (sql_insert r (nodes db))"
  by (auto simp: nodes_insert_ok_def intro: table_step_insert)

lemma resolve_enrollment_step: "results (server_step db) (ResolveNodeEnrollment e db v)"
  unfolding ResolveNodeEnrollment_def
proof (intro results_intros)
  fix item accept status selected db1 db2
  assume s: "status = (if accept then PApproved else PDeclined)" "selected = (\<lambda>r. en_id r = ex_enrollment v \<and> en_status r = PClaimed)"
    and a: "(if accept then admit_node e item (ex_now v) db else Inr db) = Inr db1"
    and "update_enrollments selected (resolve_enrollment status v) db1 = Some db2"
  note u = update_enrollments_frame [OF this(4)]
  have d: "table_step nd_id node_moves (nodes db) (nodes db1)" "owners db1 = owners db" "requests db1 = requests db"
    "control_clients db1 = control_clients db" "bootstrap db1 = bootstrap db"
    using a admit_node_InrD [of e item "ex_now v" db db1] by (auto split: if_splits intro: nodes_insert_step)
  have "account_step db db2" using d u a admit_node_InrD(1) [of e item "ex_now v" db db1]
    by (intro account_step_nodes) (auto simp: identities_def split: if_splits intro: nodes_kept_insert nodes_kept_same)
  moreover
  have "table_step en_id enrollment_moves (node_enrollments db1) (node_enrollments db2)"
    unfolding u(4) s(2) using s(1) by (intro table_step_update) (auto simp: moves_defs row_updates)
  ultimately show "server_step db (fst (db2, item\<lparr>ne_status := status, ne_proof := ex_proof v, ne_resolved_at := ex_now v\<rparr>))"
    using d u by (simp add: server_step_def requests_def identities_def)
qed simp_all

lemma revoke_nodes_kept:
  assumes "revoke_rows e k op ow n now db = Inr d" "\<not> active_nodes db ow \<le> 1"
  shows "nodes_kept db d"
proof -
  have count: "sql_count (\<lambda>r. nd_owner_id r = i \<and> nd_status r = Active) ns \<le>
      sql_count (\<lambda>r. nd_owner_id r = i \<and> nd_status r = Active) (sql_update (active_node ow n) (\<lambda>r. r\<lparr>nd_status := Revoked\<rparr>) ns) +
      (if i = ow then sql_count (active_node ow n) ns else 0)" for i ns
  proof (induction ns)
    case (Cons r ns)
    then show ?case
      by (cases "active_node ow n r") (auto simp: sql_count_def sql_update_def, auto simp: active_node_def)
  qed (simp add: sql_count_def sql_update_def)
  show ?thesis
    unfolding nodes_kept_def
  proof (intro allI impI)
    fix i
    assume "1 \<le> active_nodes db i"
    then show "1 \<le> active_nodes d i"
      using count [of i "nodes db"] assms(2) revoke_rows_InrD(9) [OF assms(1)]
      by (auto simp: active_nodes_def revoke_rows_InrD(1) [OF assms(1)] split: if_splits)
  qed
qed

lemma revoke_rows_step:
  assumes "revoke_rows e k op ow n now db = Inr d" "\<not> active_nodes db ow \<le> 1"
  shows "server_step db d"
proof -
  note r = revoke_rows_InrD [OF assms(1)]
  have "table_step nd_id node_moves (nodes db) (nodes d)"
    unfolding r(1) by (rule table_step_update) (auto simp: active_node_def moves_defs)
  moreover have "table_step en_id enrollment_moves (node_enrollments db) (node_enrollments d)"
    unfolding r(8) by (rule table_step_update) (auto simp: moves_defs row_updates)
  moreover have "account_step db d" using r revoke_nodes_kept [OF assms] by (intro account_step_nodes) simp_all
  ultimately show ?thesis using r by (simp add: server_step_def)
qed

lemma revoke_node_step: "results (server_step db) (RevokeNode e db ow i n now)"
  unfolding RevokeNode_def by (intro results_intros) (auto intro: revoke_rows_step)

lemma admin_revoke_node_step: "results (server_step db) (AdminRevokeNode e db ow n now)"
  unfolding AdminRevokeNode_def by (intro results_intros) (auto intro: revoke_rows_step)

lemma admin_revoke_client_step: "results (server_step db) (AdminRevokeControlClient e db ow c now)"
  unfolding AdminRevokeControlClient_def by (intro results_intros) (auto intro: server_step_revoked)

lemma create_invitation_step: "results (server_step db) (CreateNodeInvitation e db c)"
  unfolding CreateNodeInvitation_def
  by (intro results_intros)
    (auto simp: identities_def invitations_insert_ok_def intro!: server_step_invitations table_step_insert)

lemma invitation_status_step:
  assumes "\<And>r. P r \<Longrightarrow> iv_status r = IPending" "s \<noteq> IPending"
  shows "server_step db (db\<lparr>node_invitations := sql_update P (set_invitation_status s) (node_invitations db)\<rparr>)"
  using assms by (intro server_step_invitations) (auto simp: identities_def moves_defs row_updates intro!: table_step_update)

lemma list_invitations_step: "results (server_step db) (ListNodeInvitations e db ow now)"
  unfolding ListNodeInvitations_def by (intro results_intros) (auto intro!: invitation_status_step)

lemma cancel_invitation_step: "results (server_step db) (CancelNodeInvitation e db ow i now)"
  unfolding CancelNodeInvitation_def by (intro results_intros) (auto intro!: invitation_status_step)

lemma invite_owner_InrD:
  assumes "invite_owner e c item db = Inr (d, ow)"
  shows "ni_owner item \<noteq> [] \<and> d = db \<and> ow = ni_owner item \<or>
    ni_owner item = [] \<and> owners db = [] \<and> ow = ki_owner c \<and> ki_owner c \<noteq> [] \<and>
    d = db\<lparr>owners := [new_owner (ki_owner c) (timestamp (ki_now c))]\<rparr>"
  using assms
  by (auto simp: invite_owner_def insert_owner_def owners_insert_ok_def sql_insert_def split: if_splits sum.splits)

lemma invite_node_InrD:
  assumes "invite_node e c item db = Inr (d, ow)"
  shows "\<exists>r. nd_status r = Active \<and> nd_owner_id r = ow \<and> nd_id r = ki_node c \<and> nodes d = sql_insert r (nodes db) \<and>
      \<not> sql_exists (\<lambda>x. nd_id x = nd_id r) (nodes db) \<and>
      node_credentials d = sql_insert (new_credential (ki_node c) (nd_created_at r)) (node_credentials db)"
    and "ni_owner item \<noteq> [] \<and> owners d = owners db \<and> ow = ni_owner item \<and> bootstrap d = bootstrap db \<or>
      ni_owner item = [] \<and> owners db = [] \<and> ow = ki_owner c \<and> owners d = [new_owner ow (timestamp (ki_now c))] \<and>
      bootstrap d = Some (completed_bootstrap ow (ki_node c) (timestamp (ki_now c)) (bootstrap db))"
    and "requests d = requests db" "control_clients d = control_clients db"
proof -
  let ?n = "\<lambda>i. new_node (ki_node c) i (ki_public_key c) (ki_name c) (ki_os c) (ki_version c) (timestamp (ki_now c))"
  obtain db1 i where o: "invite_owner e c item db = Inr (db1, i)"
    using assms by (auto simp: invite_node_def split: sum.splits)
  obtain db2 where n: "insert_node e 4 (mapInsertError e) (?n i) db1 = Inr db2"
    using assms by (auto simp: invite_node_def o split: sum.splits)
  have d: "ow = i" "d = (if ni_owner item \<noteq> [] then db2
      else db2\<lparr>bootstrap := Some (completed_bootstrap i (ki_node c) (timestamp (ki_now c)) (bootstrap db2))\<rparr>)"
    using assms by (auto simp: invite_node_def o n split: if_splits)
  note i = insert_node_InrD [OF n]
  have db1: "nodes db1 = nodes db" "node_credentials db1 = node_credentials db" "requests db1 = requests db"
    "control_clients db1 = control_clients db" "bootstrap db1 = bootstrap db"
    using invite_owner_InrD [OF o] by (auto simp: requests_def)
  show "\<exists>r. nd_status r = Active \<and> nd_owner_id r = ow \<and> nd_id r = ki_node c \<and> nodes d = sql_insert r (nodes db) \<and>
      \<not> sql_exists (\<lambda>x. nd_id x = nd_id r) (nodes db) \<and>
      node_credentials d = sql_insert (new_credential (ki_node c) (nd_created_at r)) (node_credentials db)"
    using i(1,2,3) d db1 by (intro exI [of _ "?n i"]) (auto simp: new_node_def nodes_insert_ok_def)
  show "ni_owner item \<noteq> [] \<and> owners d = owners db \<and> ow = ni_owner item \<and> bootstrap d = bootstrap db \<or>
      ni_owner item = [] \<and> owners db = [] \<and> ow = ki_owner c \<and> owners d = [new_owner ow (timestamp (ki_now c))] \<and>
      bootstrap d = Some (completed_bootstrap ow (ki_node c) (timestamp (ki_now c)) (bootstrap db))"
    using invite_owner_InrD [OF o] d i(4,7) by auto
  show "requests d = requests db" "control_clients d = control_clients db" using d i db1 by (auto simp: requests_def)
qed

lemma claim_invitation_step: "results (server_step db) (ClaimNodeInvitation e blobs db c)"
  unfolding ClaimNodeInvitation_def
proof (intro results_intros)
  fix row item p db1 ow and selected :: "invitation_row \<Rightarrow> bool"
  assume "invite_node e c item db = Inr p" "p = (db1, ow)" and s: "selected = (\<lambda>r. iv_id r = ni_id item \<and> iv_status r = IPending)"
  then have "invite_node e c item db = Inr (db1, ow)" by simp
  note i = invite_node_InrD [OF this]
  let ?u = "use_invitation (fst blobs) (snd blobs) (timestamp (ki_now c)) (ki_node c)"
  have "table_step iv_id invitation_moves (node_invitations db) (sql_update selected ?u (node_invitations db))"
    unfolding s by (rule table_step_update) (auto simp: moves_defs row_updates)
  moreover have "table_step nd_id node_moves (nodes db) (nodes db1)"
    using i(1) by (auto intro!: table_step_insert)
  moreover have kept: "nodes_kept db (db1\<lparr>node_invitations := sql_update selected ?u (node_invitations db1)\<rparr>)"
    using i(1) by (auto intro: nodes_kept_insert)
  have "table_step ow_id owner_moves (owners db) (owners db1) \<and>
      account_step db (db1\<lparr>node_invitations := sql_update selected ?u (node_invitations db1)\<rparr>)"
  proof (cases "ni_owner item = []")
    case True
    with i(2) have o: "owners db = []" "owners db1 = [new_owner ow (timestamp (ki_now c))]"
      "bootstrap db1 = Some (completed_bootstrap ow (ki_node c) (timestamp (ki_now c)) (bootstrap db))" by auto
    let ?d = "db1\<lparr>node_invitations := sql_update selected ?u (node_invitations db1)\<rparr>"
    have "account_step db ?d" "table_step ow_id owner_moves (owners db) (owners ?d)"
      by (rule account_step_first_owner [where o' = "new_owner ow (timestamp (ki_now c))"
            and r = "completed_bootstrap ow (ki_node c) (timestamp (ki_now c)) (bootstrap db)"];
          use o i(4) kept in \<open>simp add: completed_bootstrap_def new_owner_def split: option.split\<close>)+
    then show ?thesis by simp
  next
    case False
    with i(2,4) kept show ?thesis by (auto intro: account_step_nodes)
  qed
  ultimately show "server_step db (fst (db1\<lparr>node_invitations := sql_update selected ?u (node_invitations db1)\<rparr>,
      item\<lparr>ni_owner := ow, ni_status := IUsed, ni_used_at := ki_now c, ni_node := ki_node c\<rparr>))"
    using i(3,4) by (simp add: server_step_def requests_def)
qed simp_all

lemma security_settings_step: "results (server_step db) (SecuritySettings e clock db ow)"
  unfolding SecuritySettings_def
  by (intro results_intros) (auto intro!: server_step_same split: if_splits dest: ensure_security_frame)

lemma change_security_frame:
  "ends (\<lambda>d. identities d = identities db \<and> requests d = requests db \<and> bootstrap d = bootstrap db) (change_security e db ow a p n base now)"
  unfolding change_security_def
  by (intro results_intros)
    (auto simp: identities_def requests_def split: if_splits dest: ensure_security_frame)

lemma update_security_step: "results (server_step db) (UpdateSecuritySettings e db ow a p n base now)"
  unfolding UpdateSecuritySettings_def
  by (intro results_intros) (auto intro!: server_step_same dest: endsD [OF change_security_frame])

lemma touch_step: "server_step db d \<Longrightarrow> results (server_step db) (touch e ow s now k d db)"
  unfolding touch_def by (intro results_intros) simp_all

lemma touch_nodes_kept: "nodes_kept db (db\<lparr>nodes := sql_update P (\<lambda>r. r\<lparr>nd_last_seen_at := t\<rparr>) (nodes db)\<rparr>)"
proof -
  have "sql_count (\<lambda>r. nd_owner_id r = i \<and> nd_status r = Active) (sql_update P (\<lambda>r. r\<lparr>nd_last_seen_at := t\<rparr>) ns) =
      sql_count (\<lambda>r. nd_owner_id r = i \<and> nd_status r = Active) ns" for i ns
    by (induction ns) (auto simp: sql_count_def sql_update_def)
  then show ?thesis by (simp add: nodes_kept_def active_nodes_def)
qed

lemma touch_node_step: "results (server_step db) (TouchNode e db ow n now)"
  unfolding TouchNode_def
  by (intro touch_step) (auto simp: server_step_def active_node_def moves_defs intro!: table_step_update account_step_nodes touch_nodes_kept)

lemma touch_client_step: "results (server_step db) (TouchControlClient e db ow c now)"
  unfolding TouchControlClient_def
proof (intro touch_step)
  let ?f = "\<lambda>r. r\<lparr>cc_last_seen_at := Some (timestamp now)\<rparr>"
  let ?d = "db\<lparr>control_clients := sql_update (active_client ow c) ?f (control_clients db)\<rparr>"
  have "trust_view ?d i = trust_view db i" for i
  proof -
    have "map (\<lambda>r. (client_identity r, cc_status r)) (filter (\<lambda>r. cc_owner_id r = i) (sql_update (active_client ow c) ?f t)) =
        map (\<lambda>r. (client_identity r, cc_status r)) (filter (\<lambda>r. cc_owner_id r = i) t)" for t
      by (induction t) (auto simp: sql_update_def client_identity_def)
    then show ?thesis by (simp add: trust_view_def)
  qed
  then have "account_step db ?d"
    by (auto simp: account_step_def client_identity_def set_sql_update
        intro!: trust_step_same clients_step_same bootstrap_step_same nodes_kept_same)
  then show "server_step db ?d"
    by (auto simp: server_step_def active_client_def moves_defs intro!: table_step_update)
qed

lemma cancel_request_step: "results (server_step db) (CancelAdminAccessRequest e db ow k i now)"
  unfolding CancelAdminAccessRequest_def
  by (intro results_intros) (auto split: if_splits intro: expire_open_enrollments expire_open_pairings)

lemma audit_step: "results (server_step db) (SaveAdminAudit e db a)" "results (server_step db) (PurgeAdminAudit e db before)"
  unfolding SaveAdminAudit_def PurgeAdminAudit_def
  by (intro results_intros; simp add: server_step_same identities_def requests_def)+

lemma notification_step:
  "results (server_step db) (SaveNotification e db n)" "results (server_step db) (MarkNotificationRead e db ow i now)"
  unfolding SaveNotification_def MarkNotificationRead_def
  by (intro results_intros; simp add: server_step_same identities_def requests_def)+

lemmas call_steps = rotate_step status_step claim_bootstrap_step create_pairing_step claim_pairing_step pairing_step
  node_pairings_step resolve_pairing_step revoke_client_step create_enrollment_step claim_enrollment_step enrollment_step
  pending_enrollments_step resolve_enrollment_step revoke_node_step create_invitation_step list_invitations_step
  cancel_invitation_step claim_invitation_step security_settings_step update_security_step touch_node_step touch_client_step
  cancel_request_step admin_revoke_node_step admin_revoke_client_step audit_step notification_step

lemma server_do_step: "server_step db (server_do c db)"
  using resultsD [OF rotate_credential_same]
  by (cases c) (simp_all add: call_steps [THEN resultsD])

end
