(* ===== verification/Server_Contract.thy ===== *)
theory Server_Contract
  imports Server_Machines
begin

text \<open>
  What the Server store promises over any history of its calls: requests are decided once, revoked
  nodes and clients stay revoked, trusted clients come from approved pairings, the trust revision
  versions the manifest, the bootstrap happens once and an owner keeps an active node.
\<close>

section \<open>The state machines\<close>

definition pairing_of :: "server_db \<Rightarrow> string \<Rightarrow> pairing_row option" where
  "pairing_of db i = sole_row (\<lambda>r. pr_id r = i) (pairings db)"

definition enrollment_of :: "server_db \<Rightarrow> string \<Rightarrow> enrollment_row option" where
  "enrollment_of db i = sole_row (\<lambda>r. en_id r = i) (node_enrollments db)"

definition invitation_of :: "server_db \<Rightarrow> string \<Rightarrow> invitation_row option" where
  "invitation_of db i = sole_row (\<lambda>r. iv_id r = i) (node_invitations db)"

definition node_of :: "server_db \<Rightarrow> string \<Rightarrow> node_row option" where
  "node_of db i = sole_row (\<lambda>r. nd_id r = i) (nodes db)"

definition client_of :: "server_db \<Rightarrow> string \<Rightarrow> control_client_row option" where
  "client_of db i = sole_row (\<lambda>r. cc_id r = i) (control_clients db)"

definition owner_of :: "server_db \<Rightarrow> string \<Rightarrow> owner_row option" where
  "owner_of db i = sole_row (\<lambda>r. ow_id r = i) (owners db)"

text \<open>A manifest is torn when the revision it reports is no longer its owner's revision in the database its clients
  are read from.\<close>

definition torn :: "server_db \<Rightarrow> string \<Rightarrow> server_manifest \<Rightarrow> bool" where
  "torn db i m = (map_option ow_trust_revision (owner_of db i) \<noteq> Some (sm_revision m))"

lemmas row_of_defs = pairing_of_def enrollment_of_def invitation_of_def node_of_def client_of_def owner_of_def

definition never :: "server_call \<Rightarrow> string \<Rightarrow> bool" where
  "never c i = False"

lemma list_ex_never [simp]: "\<not> list_ex (\<lambda>c. never c i) cs"
  by (simp add: never_def list_ex_iff)

lemma server_do_moves:
  "pairing_of db i = Some r1 \<Longrightarrow> \<exists>r'. pairing_of (server_do c db) i = Some r' \<and> (r' = r1 \<or> pairing_moves r1 r')"
  "enrollment_of db i = Some r2 \<Longrightarrow> \<exists>r'. enrollment_of (server_do c db) i = Some r' \<and> (r' = r2 \<or> enrollment_moves r2 r')"
  "invitation_of db i = Some r3 \<Longrightarrow> \<exists>r'. invitation_of (server_do c db) i = Some r' \<and> (r' = r3 \<or> invitation_moves r3 r')"
  "node_of db i = Some r4 \<Longrightarrow> \<exists>r'. node_of (server_do c db) i = Some r' \<and> (r' = r4 \<or> node_moves r4 r')"
  "client_of db i = Some r5 \<Longrightarrow> \<exists>r'. client_of (server_do c db) i = Some r' \<and> (r' = r5 \<or> client_moves r5 r')"
  "owner_of db i = Some r6 \<Longrightarrow> \<exists>r'. owner_of (server_do c db) i = Some r' \<and> (r' = r6 \<or> owner_moves r6 r')"
  unfolding row_of_defs using server_do_step [of db c] unfolding server_step_def by (blast dest: table_stepD)+

interpretation pairing_machine: row_machine pairing_of server_do pairing_moves never
  by unfold_locales (rule server_do_moves)

interpretation enrollment_machine: row_machine enrollment_of server_do enrollment_moves never
  by unfold_locales (rule server_do_moves)

interpretation invitation_machine: row_machine invitation_of server_do invitation_moves never
  by unfold_locales (rule server_do_moves)

interpretation node_machine: row_machine node_of server_do node_moves never
  by unfold_locales (rule server_do_moves)

interpretation client_machine: row_machine client_of server_do client_moves never
  by unfold_locales (rule server_do_moves)

interpretation owner_machine: row_machine owner_of server_do owner_moves never
  by unfold_locales (rule server_do_moves)

lemma pairing_closed_final: "\<not> pairing_open (pr_status r) \<Longrightarrow> \<not> pairing_moves r r'"
  by (auto simp: pairing_moves_def request_moves_def pairing_open_def)

lemma enrollment_closed_final: "\<not> pairing_open (en_status r) \<Longrightarrow> \<not> enrollment_moves r r'"
  by (auto simp: enrollment_moves_def request_moves_def pairing_open_def)

section \<open>The invariant\<close>

definition server_inv :: "server_db \<Rightarrow> bool" where
  "server_inv db =
     (unique_key pr_id (pairings db) \<and> unique_key en_id (node_enrollments db) \<and> unique_key iv_id (node_invitations db) \<and>
      unique_key nd_id (nodes db) \<and> unique_key cc_id (control_clients db) \<and> length (owners db) \<le> 1 \<and>
      list_all (paired db) (control_clients db) \<and>
      (owners db \<noteq> [] \<longrightarrow> (\<exists>r. bootstrap db = Some r \<and> bs_status r = BootstrapCompleted \<and>
         bs_owner_id r = Some (ow_id (hd (owners db))))))"

lemma sole_row_unique:
  assumes "unique_key key t" "r \<in> set t"
  shows "sole_row (\<lambda>x. key x = key r) t = Some r"
proof -
  have "filter (\<lambda>x. key x = key r) t = [r]"
    using assms by (induction t) (auto simp: unique_key_def filter_empty_conv, metis image_eqI)
  then show ?thesis by (simp add: sole_row_def)
qed

lemma paired_kept:
  assumes "server_step db d" "unique_key pr_id (pairings db)" "paired db c" "client_identity c' = client_identity c"
  shows "paired d c'"
proof -
  obtain p where p: "p \<in> set (pairings db)" "pr_status p = PApproved" "pr_owner_id p = cc_owner_id c"
    "pairing_client p = (Some (cc_id c), Some (cc_key_id c), Some (cc_public_key c), Some (cc_name c))"
    using assms(3) by (auto simp: paired_def)
  have "table_step pr_id pairing_moves (pairings db) (pairings d)" using assms(1) by (simp add: server_step_def)
  from table_stepD [OF this sole_row_unique [OF assms(2) p(1)]]
  have "sole_row (\<lambda>x. pr_id x = pr_id p) (pairings d) = Some p"
    using p(2) pairing_closed_final [of p] by (auto simp: pairing_open_def)
  then have "p \<in> set (pairings d)" by (auto dest: sole_row_in)
  with p assms(4) show ?thesis by (auto simp: paired_def client_identity_def)
qed

lemma server_inv_step:
  assumes "server_step db d" "server_inv db"
  shows "server_inv d"
proof -
  note steps = assms(1) [unfolded server_step_def account_step_def]
  have keys: "unique_key pr_id (pairings d)" "unique_key en_id (node_enrollments d)" "unique_key iv_id (node_invitations d)"
    "unique_key nd_id (nodes d)" "unique_key cc_id (control_clients d)"
    using steps assms(2) by (auto simp: table_step_def server_inv_def)
  have len: "length (owners d) \<le> 1"
    using steps assms(2) by (auto simp: owner_kept_def server_inv_def split: if_splits dest: map_eq_imp_length_eq)
  have clients: "list_all (paired d) (control_clients d)"
    unfolding list_all_iff
  proof
    fix c
    assume "c \<in> set (control_clients d)"
    then consider "paired d c" | c0 where "c0 \<in> set (control_clients db)" "client_identity c = client_identity c0"
      using steps by (auto simp: clients_step_def)
    then show "paired d c"
      using paired_kept [OF assms(1)] assms(2) by cases (auto simp: server_inv_def list_all_iff)
  qed
  have "owners d \<noteq> [] \<longrightarrow> (\<exists>r. bootstrap d = Some r \<and> bs_status r = BootstrapCompleted \<and> bs_owner_id r = Some (ow_id (hd (owners d))))"
  proof (cases "owners db = []")
    case True
    then show ?thesis using steps by (simp add: bootstrap_step_def)
  next
    case False
    then obtain r where r: "bootstrap db = Some r" "bs_status r = BootstrapCompleted" "bs_owner_id r = Some (ow_id (hd (owners db)))"
      using assms(2) by (auto simp: server_inv_def)
    then obtain r' where "bootstrap d = Some r'" "same_bootstrap r r'" using steps False by (auto simp: bootstrap_step_def)
    moreover have "map ow_id (owners d) = map ow_id (owners db)" using steps False by (simp add: owner_kept_def)
    then have "owners d \<noteq> []" "ow_id (hd (owners d)) = ow_id (hd (owners db))" using False by (auto simp: neq_Nil_conv)
    ultimately show ?thesis using r by (simp add: same_bootstrap_def)
  qed
  with keys len clients show ?thesis by (simp add: server_inv_def)
qed

lemma server_inv_run: "server_inv db \<Longrightarrow> server_inv (run_steps_of server_do db cs)"
  by (induction cs arbitrary: db) (auto intro: server_inv_step server_do_step)

lemma server_inv_empty: "server_inv empty_db"
  by (simp add: server_inv_def empty_db_def unique_key_def)

lemma row_of_unique:
  assumes "server_inv db"
  shows "p \<in> set (pairings db) \<Longrightarrow> pairing_of db (pr_id p) = Some p"
    "n \<in> set (nodes db) \<Longrightarrow> node_of db (nd_id n) = Some n"
    "c \<in> set (control_clients db) \<Longrightarrow> client_of db (cc_id c) = Some c"
    "v \<in> set (node_invitations db) \<Longrightarrow> invitation_of db (iv_id v) = Some v"
    "w \<in> set (owners db) \<Longrightarrow> owner_of db (ow_id w) = Some w"
proof -
  have "unique_key ow_id (owners db)"
    using assms by (cases "owners db") (auto simp: server_inv_def unique_key_def)
  with assms show "p \<in> set (pairings db) \<Longrightarrow> pairing_of db (pr_id p) = Some p"
    "n \<in> set (nodes db) \<Longrightarrow> node_of db (nd_id n) = Some n"
    "c \<in> set (control_clients db) \<Longrightarrow> client_of db (cc_id c) = Some c"
    "v \<in> set (node_invitations db) \<Longrightarrow> invitation_of db (iv_id v) = Some v"
    "w \<in> set (owners db) \<Longrightarrow> owner_of db (ow_id w) = Some w"
    by (simp_all add: server_inv_def row_of_defs sole_row_unique)
qed

section \<open>Histories of trust\<close>

lemma trust_run:
  assumes "owner_of db i = Some r"
  shows "\<exists>r'. owner_of (run_steps_of server_do db cs) i = Some r' \<and> ow_status r' = ow_status r \<and>
    ow_trust_revision r \<le> ow_trust_revision r' \<and>
    (ow_trust_revision r' = ow_trust_revision r \<longrightarrow> trust_view (run_steps_of server_do db cs) i = trust_view db i)"
  using assms
proof (induction cs arbitrary: db r)
  case (Cons c cs)
  have "trust_step db (server_do c db)" using server_do_step [of db c] by (simp add: server_step_def account_step_def)
  then obtain r1 where r1: "owner_of (server_do c db) i = Some r1" "ow_status r1 = ow_status r"
    "ow_trust_revision r \<le> ow_trust_revision r1"
    "ow_trust_revision r1 = ow_trust_revision r \<longrightarrow> trust_view (server_do c db) i = trust_view db i"
    using Cons.prems by (auto simp: trust_step_def owner_of_def)
  from Cons.IH [OF r1(1)] r1(2-) show ?case by fastforce
qed simp

lemma trust_later:
  assumes "p \<le> q" "owner_of (run_steps_of server_do db (take p cs)) i = Some r"
  shows "\<exists>r'. owner_of (run_steps_of server_do db (take q cs)) i = Some r' \<and>
    ow_trust_revision r \<le> ow_trust_revision r' \<and>
    (ow_trust_revision r' = ow_trust_revision r \<longrightarrow>
      trust_view (run_steps_of server_do db (take q cs)) i = trust_view (run_steps_of server_do db (take p cs)) i)"
  using trust_run [OF assms(2), of "drop p (take q cs)"] unfolding run_steps_of_take [OF assms(1)] by blast

lemma nodes_kept_run: "1 \<le> active_nodes db i \<Longrightarrow> 1 \<le> active_nodes (run_steps_of server_do db cs) i"
proof (induction cs arbitrary: db)
  case (Cons c cs)
  have "nodes_kept db (server_do c db)" using server_do_step [of db c] by (simp add: server_step_def account_step_def)
  with Cons show ?case by (simp add: nodes_kept_def)
qed simp

lemma bootstrap_run:
  assumes "bootstrap db = Some r" "owners db \<noteq> []" "bs_status r = BootstrapCompleted"
  shows "\<exists>r'. bootstrap (run_steps_of server_do db cs) = Some r' \<and> same_bootstrap r r'"
  using assms
proof (induction cs arbitrary: db r)
  case (Cons c cs)
  have s: "bootstrap_step db (server_do c db)" "owner_kept (owners db) (owners (server_do c db))"
    using server_do_step [of db c] by (simp_all add: server_step_def account_step_def)
  obtain r1 where r1: "bootstrap (server_do c db) = Some r1" "same_bootstrap r r1"
    using s(1) Cons.prems by (auto simp: bootstrap_step_def)
  have "owners (server_do c db) \<noteq> []" using s(2) Cons.prems(2) by (auto simp: owner_kept_def)
  then obtain r2 where "bootstrap (run_steps_of server_do (server_do c db) cs) = Some r2" "same_bootstrap r1 r2"
    using Cons.IH [OF r1(1)] r1(2) Cons.prems(3) by (auto simp: same_bootstrap_def)
  with r1(2) show ?case by (auto simp: same_bootstrap_def)
qed (simp add: same_bootstrap_def)

section \<open>Lemmas on single calls\<close>

lemma claim_bootstrap_first:
  assumes "ClaimBootstrap e db c = (d, Inr res)" "\<not> cl_replayed res"
  shows "\<exists>r. bootstrap d = Some r \<and> bs_status r = BootstrapCompleted \<and> owners d \<noteq> [] \<and>
    bs_owner_id r = Some (cl_owner_id res) \<and> bs_node_id r = Some (cl_node_id res)"
proof -
  obtain r where r: "bootstrap db = Some r" and run: "store_guard e (validateClaim c) = None" "\<not> call_fails e 0" "\<not> call_fails e 1"
    using assms(1) by (auto simp: ClaimBootstrap_def split: option.splits if_splits)
  have pending: "bs_status r = BootstrapPending"
  proof (cases "bs_status r")
    case BootstrapCompleted
    then have "claim_completed e db r c = (d, Inr res)" using assms(1) r run by (simp add: ClaimBootstrap_def)
    then have "cl_replayed res" by (auto simp: claim_completed_def Let_def split: option.splits if_splits)
    with assms(2) show ?thesis by simp
  qed simp
  then have "claim_pending e db r c = Inr (d, res)"
    using assms(1) r run by (simp add: ClaimBootstrap_def transact_val_Inr_iff)
  then show ?thesis
    using r pending
    by (auto simp: claim_pending_def complete_bootstrap_def insert_node_def insert_owner_def sql_insert_def Let_def
        split: if_splits sum.splits)
qed

lemma claim_bootstrap_again:
  assumes "ClaimBootstrap e db c = (d, Inr res)" "bootstrap db = Some r" "bs_status r = BootstrapCompleted"
  shows "cl_replayed res \<and> cl_owner_id res = null_string (bs_owner_id r) \<and> cl_node_id res = null_string (bs_node_id r)"
  using assms
  by (auto simp: ClaimBootstrap_def claim_completed_def Let_def split: option.splits if_splits)

lemma revoke_rows_revoked:
  assumes "revoke_rows e k op ow n now db = Inr d" "server_inv db"
  shows "\<exists>r. node_of d n = Some r \<and> nd_status r = Revoked"
proof -
  note r = revoke_rows_InrD [OF assms(1)]
  obtain x where x: "x \<in> set (nodes db)" "active_node ow n x"
    using r(9) by (cases "filter (active_node ow n) (nodes db) = []") (auto simp: sql_count_def filter_empty_conv)
  then have n: "nd_id x = n" by (simp add: active_node_def)
  have "node_of d n = map_option (\<lambda>r. if active_node ow n r then r\<lparr>nd_status := Revoked\<rparr> else r) (node_of db n)"
    unfolding node_of_def r(1) by (rule sole_row_update) (simp add: active_node_def)
  also have "node_of db n = Some x" using row_of_unique(2) [OF assms(2) x(1)] n by simp
  finally show ?thesis using x(2) by simp
qed

lemma node_session_status:
  assumes "NodeSession e db n = Inr s" "node_of db n = Some r" "nd_status r = Revoked"
  shows "ns_status s = Revoked"
proof -
  obtain x c where x: "(x, c) \<in> set (node_join db)" "nd_id x = n" and s: "ns_status s = (if nd_status x = Active \<and> nc_status c = Active then Active else Revoked)"
    using assms(1) by (auto simp: NodeSession_def split: option.splits if_splits dest!: sql_row_SomeD)
  have "x \<in> set (nodes db)" using x(1) by (auto simp: node_join_def)
  with assms(2) x(2) have "x = r" by (auto simp: node_of_def dest: sole_row_eq)
  with s assms(3) show ?thesis by simp
qed

lemma revoked_client_row:
  assumes "raise_trust ow (revoke_clients ow c now db) = Some d" "server_inv db"
    "sql_count (active_client ow c) (control_clients db) \<noteq> 0"
  shows "\<exists>r. client_of d c = Some r \<and> cc_status r = Revoked"
proof -
  note d = raise_trust_SomeD [OF assms(1)]
  obtain x where x: "x \<in> set (control_clients db)" "active_client ow c x"
    using assms(3) by (auto simp: sql_count_def filter_empty_conv)
  then have n: "cc_id x = c" by (simp add: active_client_def)
  have "client_of d c = map_option (\<lambda>r. if active_client ow c r then revoke_client (timestamp now) r else r) (client_of db c)"
    unfolding client_of_def d by (simp add: revoke_clients_def) (rule sole_row_update, simp add: active_client_def revoke_client_def)
  also have "client_of db c = Some x" using row_of_unique(3) [OF assms(2) x(1)] n by simp
  finally show ?thesis using x(2) by (simp add: revoke_client_def)
qed

lemma client_session_status:
  assumes "ControlClientSession e db c = Inr s" "client_of db c = Some r"
  shows "cs_status s = cc_status r"
proof -
  obtain x where "sql_row (\<lambda>r. cc_id r = c) (control_clients db) = Some x" "cs_status s = cc_status x"
    using assms(1) by (auto simp: ControlClientSession_def split: option.splits if_splits)
  with assms(2) show ?thesis by (auto simp: client_of_def dest!: sql_row_SomeD dest: sole_row_eq)
qed

lemma claim_invitation_InrD:
  assumes "ClaimNodeInvitation e b db c = (d, Inr item)"
  shows "\<exists>row \<in> set (node_invitations db). iv_id row = ni_id item \<and> iv_status row = IPending"
    and "\<exists>row \<in> set (node_invitations d). iv_id row = ni_id item \<and> iv_status row = IUsed"
proof -
  obtain row it db1 ow where row: "sql_row (invitation_selector c) (node_invitations db) = Some row"
    and it: "scanNodeInvitation row = Inr it" "ni_status it = IPending"
    and n: "invite_node e c it db = Inr (db1, ow)"
    and d: "d = db1\<lparr>node_invitations := sql_update (\<lambda>r. iv_id r = ni_id it \<and> iv_status r = IPending)
        (use_invitation (fst b) (snd b) (timestamp (ki_now c)) (ki_node c)) (node_invitations db1)\<rparr>" "ni_id item = ni_id it"
    using assms
    by (auto simp: ClaimNodeInvitation_def transact_val_Inr_iff Let_def split: option.splits if_splits sum.splits)
  have r: "row \<in> set (node_invitations db)" "iv_id row = ni_id it" "iv_status row = IPending"
    using sql_row_SomeD [OF row] it by (auto simp: scanNodeInvitation_def split: option.splits)
  then show "\<exists>row \<in> set (node_invitations db). iv_id row = ni_id item \<and> iv_status row = IPending" using d(2) by auto
  have "node_invitations db1 = node_invitations db" using invite_node_InrD(3) [OF n] by (simp add: requests_def)
  then have "use_invitation (fst b) (snd b) (timestamp (ki_now c)) (ki_node c) row \<in> set (node_invitations d)"
    using r d(1) by (auto simp: set_sql_update intro!: image_eqI [of _ _ row])
  with r(2) d(2) show "\<exists>row \<in> set (node_invitations d). iv_id row = ni_id item \<and> iv_status row = IUsed"
    by (auto simp: use_invitation_def intro: bexI [rotated])
qed

text \<open>The manifest is a function of the trusted clients and the revision.\<close>

lemma map_order_by: "map h (order_by (\<lambda>a b. lt (h a) (h b)) xs) = order_by lt (map h xs)"
proof -
  have "map h (insort_by (\<lambda>a b. lt (h a) (h b)) x ys) = insort_by lt (h x) (map h ys)" for x ys
    by (induction ys) auto
  then show ?thesis by (induction xs) (auto simp: order_by_def)
qed

lemma scan_list_comp: "scan_list (\<lambda>x. g (h x)) xs = scan_list g (map h xs)"
  by (induction xs) (auto split: sum.splits)

definition manifest_entry ::
  "(string \<times> string \<times> bytes \<times> string \<times> string \<times> rfc3339) \<times> entity_status \<Rightarrow> store_error + control_client" where
  "manifest_entry x =
     (case x of ((i, ow, pk, name, key, created), st) \<Rightarrow>
        (case parse_rfc3339 created of
           None \<Rightarrow> Inl ErrCorrupt
         | Some t \<Rightarrow> Inr \<lparr>gc_id = i, gc_owner = ow, gc_key = key, gc_public_key = pk, gc_name = name, gc_status = st,
                         gc_created_at = t, gc_last_seen_at = None, gc_revoked_at = None\<rparr>))"

definition entry_less ::
  "(string \<times> string \<times> bytes \<times> string \<times> string \<times> rfc3339) \<times> entity_status \<Rightarrow>
   (string \<times> string \<times> bytes \<times> string \<times> string \<times> rfc3339) \<times> entity_status \<Rightarrow> bool" where
  "entry_less x y =
     (case (x, y) of (((i, _, _, _, key, _), _), ((j, _, _, _, key', _), _)) \<Rightarrow> i < j \<or> i = j \<and> key < key')"

lemma manifest_clients:
  "scan_list scan_manifest_client (order_by by_client_key (filter (\<lambda>r. cc_owner_id r = i) (control_clients db))) =
     scan_list manifest_entry (order_by entry_less (trust_view db i))"
proof -
  let ?h = "\<lambda>r. (client_identity r, cc_status r)"
  have s: "scan_manifest_client = (\<lambda>r. manifest_entry (?h r))"
    by (auto simp: scan_manifest_client_def manifest_entry_def client_identity_def fun_eq_iff)
  have l: "by_client_key = (\<lambda>a b. entry_less (?h a) (?h b))"
    by (auto simp: by_client_key_def entry_less_def client_identity_def fun_eq_iff)
  show ?thesis unfolding s l trust_view_def map_order_by [symmetric] by (rule scan_list_comp)
qed

lemma manifest_InrD:
  assumes "ControlTrustManifest e db db' i = Inr m" "server_inv db"
  shows "\<exists>r. owner_of db i = Some r \<and> sm_revision m = ow_trust_revision r \<and>
    scan_list manifest_entry (order_by entry_less (trust_view db' i)) = Inr (sm_clients m)"
proof -
  obtain r where r: "sql_row (\<lambda>r. ow_id r = i \<and> ow_status r = OwnerActive) (owners db) = Some r"
    and m: "sm_revision m = ow_trust_revision r"
    "scan_list scan_manifest_client (order_by by_client_key (filter (\<lambda>r. cc_owner_id r = i) (control_clients db'))) = Inr (sm_clients m)"
    using assms(1) by (auto simp: ControlTrustManifest_def split: option.splits if_splits sum.splits)
  have "owner_of db i = Some r" using row_of_unique(5) [OF assms(2)] sql_row_SomeD [OF r] by auto
  with m show ?thesis by (auto simp: manifest_clients)
qed

lemma resolve_enrollment_limit:
  "results (\<lambda>d. active_nodes d i \<le> max MaxActiveNodes (active_nodes db i)) (ResolveNodeEnrollment e db v)"
  unfolding ResolveNodeEnrollment_def
proof (intro results_intros)
  fix item accept status selected db1 db2
  assume a: "(if accept then admit_node e item (ex_now v) db else Inr db) = Inr db1"
    and "update_enrollments selected (resolve_enrollment status v) db1 = Some db2"
  note u = update_enrollments_frame(1) [OF this(2)]
  have "active_nodes db1 i \<le> max MaxActiveNodes (active_nodes db i)"
  proof (cases accept)
    case True
    then have "admit_node e item (ex_now v) db = Inr db1" using a by simp
    note n = admit_node_InrD [OF this]
    from n(1,7) show ?thesis by (auto simp: active_nodes_def sql_insert_def sql_count_def new_node_def)
  next
    case False
    with a show ?thesis by simp
  qed
  with u show "active_nodes (fst (db2, item\<lparr>ne_status := status, ne_proof := ex_proof v, ne_resolved_at := ex_now v\<rparr>)) i \<le>
      max MaxActiveNodes (active_nodes db i)"
    by (simp add: identities_def active_nodes_def)
qed simp_all

end
