(* ===== verification/Server_Properties.thy ===== *)
theory Server_Properties
  imports Server_Contract
begin

text \<open>
  The properties of the Server store, each over arbitrary histories of its calls, and a small
  Server on which they are applied: bootstrapped, with one node, one pairing and one invitation.
\<close>

section \<open>A small Server\<close>

definition key32 :: "char \<Rightarrow> bytes" where
  "key32 c = replicate 32 c"

definition demo_bootstrap :: bootstrap_claim where
  "demo_bootstrap = \<lparr>bc_secret_hash = key32 CHR ''s'', bc_claim_digest = key32 CHR ''d'', bc_owner = ''o'', bc_node = ''n1'',
     bc_request = ''q'', bc_name = ''a'', bc_os = ''linux'', bc_version = ''1'', bc_public_key = key32 CHR ''p'',
     bc_credential_hash = [], bc_now = seconds 100, bc_retry_until = seconds 200\<rparr>"

definition demo_pairing :: pairing where
  "demo_pairing = \<lparr>pa_id = ''p1'', pa_owner = ''o'', pa_node = ''n1'', pa_status = PPending, pa_code_hash = key32 CHR ''c'',
     pa_challenge = key32 CHR ''h'', pa_expires_at = seconds 400, pa_created_at = seconds 300, pa_client = [], pa_key = [],
     pa_client_name = [], pa_public_key = [], pa_node_public_key = [], pa_proof = [], pa_claimed_at = 0, pa_resolved_at = 0\<rparr>"

definition demo_pairing_claim :: "string \<Rightarrow> pairing_claim" where
  "demo_pairing_claim c = \<lparr>pc_pairing = ''p1'', pc_client = c, pc_key = ''k'', pc_client_name = ''phone'',
     pc_code_hash = key32 CHR ''c'', pc_public_key = key32 CHR ''u'', pc_now = seconds 310\<rparr>"

definition demo_accept :: pairing_resolution where
  "demo_accept = \<lparr>px_pairing = ''p1'', px_node = ''n1'', px_decision = ''accept'', px_proof = replicate 64 CHR ''x'',
     px_now = seconds 320\<rparr>"

definition demo_enrollment :: node_enrollment where
  "demo_enrollment = \<lparr>ne_id = ''e1'', ne_owner = ''o'', ne_issuer = ''n1'', ne_status = PPending, ne_candidate = [], ne_name = [],
     ne_os = [], ne_version = [], ne_code_hash = key32 CHR ''e'', ne_public_key = [], ne_credential_hash = [], ne_issuer_key = [],
     ne_proof = [], ne_expires_at = seconds 400, ne_created_at = seconds 300, ne_claimed_at = 0, ne_resolved_at = 0\<rparr>"

definition demo_enrollment_claim :: enrollment_claim where
  "demo_enrollment_claim = \<lparr>ec_enrollment = ''e1'', ec_candidate = ''n2'', ec_name = ''b'', ec_os = ''darwin'', ec_version = ''1'',
     ec_code_hash = key32 CHR ''e'', ec_public_key = key32 CHR ''v'', ec_credential_hash = key32 CHR ''w'', ec_now = seconds 310\<rparr>"

definition demo_enroll :: enrollment_resolution where
  "demo_enroll = \<lparr>ex_enrollment = ''e1'', ex_issuer = ''n1'', ex_decision = ''accept'', ex_proof = replicate 64 CHR ''y'',
     ex_now = seconds 320\<rparr>"

definition demo_invitation :: "string \<Rightarrow> char \<Rightarrow> char \<Rightarrow> create_invitation" where
  "demo_invitation i a b = \<lparr>ci_invitation = \<lparr>ni_id = i, ni_owner = ''o'', ni_display_name = ''c'', ni_status = IPending,
     ni_created_by = ''x'', ni_created_at = seconds 300, ni_expires_at = seconds 900, ni_used_at = 0, ni_node = []\<rparr>,
     ci_secret_hash = key32 a, ci_code_hash = key32 b\<rparr>"

definition demo_invited :: "string \<Rightarrow> string \<Rightarrow> char \<Rightarrow> claim_invitation" where
  "demo_invited i n k = \<lparr>ki_invitation = i, ki_proof_hash = key32 k, ki_use_short_code = False, ki_node = n, ki_owner = [],
     ki_public_key = key32 (hd n), ki_name = ''c'', ki_os = ''linux'', ki_arch = ''amd64'', ki_version = ''1'', ki_now = seconds 500\<rparr>"

definition demo_fresh :: server_db where
  "demo_fresh = fst (RotateBootstrap live_env empty_db (key32 CHR ''s'') (seconds 90))"

definition demo_owned :: server_db where
  "demo_owned = fst (ClaimBootstrap live_env demo_fresh demo_bootstrap)"

definition demo_server :: server_db where
  "demo_server = run_steps_of server_do demo_owned
     [SCreatePairing live_env demo_pairing, SClaimPairing live_env (demo_pairing_claim ''c1''),
      SCreateNodeEnrollment live_env demo_enrollment, SClaimNodeEnrollment live_env demo_enrollment_claim,
      SCreateNodeInvitation live_env (demo_invitation ''i1'' CHR ''1'' CHR ''2''),
      SCreateNodeInvitation live_env (demo_invitation ''i2'' CHR ''3'' CHR ''4'')]"

definition demo_full :: server_db where
  "demo_full = run_steps_of server_do demo_server [SResolvePairing live_env demo_accept, SResolveNodeEnrollment live_env demo_enroll]"

lemma demo_owned_inv: "server_inv demo_owned"
  unfolding demo_owned_def demo_fresh_def
  by (rule server_inv_step [OF resultsD [OF claim_bootstrap_step]], rule server_inv_step [OF resultsD [OF rotate_step]])
    (rule server_inv_empty)

lemma demo_server_inv: "server_inv demo_server"
  unfolding demo_server_def by (rule server_inv_run) (rule demo_owned_inv)

lemma demo_full_inv: "server_inv demo_full"
  unfolding demo_full_def by (rule server_inv_run) (rule demo_server_inv)

text \<open>The calls the witnesses below make, evaluated.\<close>

lemma demo_runs:
  "map_option (\<lambda>r. (pr_status r, pr_client_id r)) (pairing_of demo_server ''p1'') = Some (PClaimed, Some ''c1'')"
  "map_option pr_status (pairing_of (run_steps_of server_do demo_server ([SResolvePairing live_env demo_accept, SCancelAdminAccessRequest live_env ''o'' ''control_client'' ''p1'' (seconds 330)])) ''p1'') = Some PApproved"
  "map_option (\<lambda>r. (en_status r, en_candidate_node_id r)) (enrollment_of demo_server ''e1'') = Some (PClaimed, Some ''n2'')"
  "map_option en_status (enrollment_of (run_steps_of server_do demo_server ([SResolveNodeEnrollment live_env demo_enroll])) ''e1'') = Some PApproved"
  "\<not> isl (snd (ClaimNodeInvitation live_env (key32 CHR ''x'', key32 CHR ''y'') demo_server (demo_invited ''i1'' ''m'' CHR ''1'')))"
  "\<not> isl (snd (ClaimNodeInvitation live_env (key32 CHR ''v'', key32 CHR ''w'') (fst (ClaimNodeInvitation live_env (key32 CHR ''x'', key32 CHR ''y'') demo_server (demo_invited ''i1'' ''m'' CHR ''1''))) (demo_invited ''i2'' ''l'' CHR ''3'')))"
  "(case ControlTrustManifest live_env demo_server demo_server ''o'' of Inl _ \<Rightarrow> False | Inr m \<Rightarrow> sm_clients m = [])"
  "(case ControlTrustManifest live_env (run_steps_of server_do demo_server [SResolvePairing live_env demo_accept]) (run_steps_of server_do demo_server [SResolvePairing live_env demo_accept]) ''o'' of Inl _ \<Rightarrow> False | Inr m \<Rightarrow> map gc_id (sm_clients m) = [''c1''])"
  "snd (RevokeNode live_env demo_full ''o'' ''n1'' ''n2'' (seconds 600)) = None"
  "(case NodeSession live_env (run_steps_of server_do (fst (RevokeNode live_env demo_full ''o'' ''n1'' ''n2'' (seconds 600))) ([STouchNode live_env ''o'' ''n2'' (seconds 610)])) ''n2'' of Inl _ \<Rightarrow> False | Inr s \<Rightarrow> True)"
  "snd (RevokeControlClient live_env demo_full ''o'' ''c1'' (seconds 600)) = None"
  "(case ControlClientSession live_env (run_steps_of server_do (fst (RevokeControlClient live_env demo_full ''o'' ''c1'' (seconds 600))) ([SResolvePairing live_env demo_accept])) ''c1'' of Inl _ \<Rightarrow> False | Inr s \<Rightarrow> True)"
  "1 \<le> active_nodes demo_full ''o''"
  "(case snd (ClaimBootstrap live_env demo_fresh demo_bootstrap) of Inl _ \<Rightarrow> False | Inr x \<Rightarrow> \<not> cl_replayed x)"
  "(case snd (ClaimBootstrap live_env (run_steps_of server_do demo_owned [SRotateBootstrap live_env (key32 CHR ''z'') (seconds 110)]) demo_bootstrap) of Inl _ \<Rightarrow> False | Inr _ \<Rightarrow> True)"
  by code_simp+

lemma demo_torn:
  "(case ControlTrustManifest live_env demo_server (run_steps_of server_do demo_server [SResolvePairing live_env demo_accept]) ''o'' of Inl _ \<Rightarrow> False | Inr m \<Rightarrow>
      (case ControlTrustManifest live_env demo_server demo_server ''o'' of Inl _ \<Rightarrow> False | Inr m' \<Rightarrow>
        sm_revision m = sm_revision m' \<and> sm_clients m' = [] \<and> map gc_id (sm_clients m) = [''c1'']))"
  by code_simp

section \<open>Properties\<close>

text \<open>Property C21: a pairing is decided once. Through any history of Server calls a pairing keeps its
  terms (owner, node, code, challenge, expiry), a decided or expired pairing never changes again, and once
  claimed the identity of the claimant is fixed.\<close>

theorem pairing_decided_once:
  assumes "pairing_of db i = Some r"
  shows "\<exists>r'. pairing_of (run_steps_of server_do db cs) i = Some r' \<and> pairing_terms r' = pairing_terms r \<and>
    (\<not> pairing_open (pr_status r) \<longrightarrow> r' = r) \<and> (pr_status r = PClaimed \<longrightarrow> pairing_client r' = pairing_client r)"
proof -
  have "\<exists>r'. pairing_of (run_steps_of server_do db cs) i = Some r' \<and> (pairing_terms r' = pairing_terms r \<and>
      (\<not> pairing_open (pr_status r) \<longrightarrow> r' = r) \<and>
      (pr_status r = PClaimed \<longrightarrow> pairing_client r' = pairing_client r \<and> pr_status r' \<noteq> PPending))"
    by (rule pairing_machine.closed_stays [OF assms])
      (auto simp: pairing_moves_def request_moves_def pairing_open_def)
  then show ?thesis by blast
qed

theorem pairing_decided_once_witness:
  "\<exists>r'. pairing_of (run_steps_of server_do demo_server [SResolvePairing live_env demo_accept,
      SCancelAdminAccessRequest live_env ''o'' ''control_client'' ''p1'' (seconds 330)]) ''p1'' = Some r' \<and>
     pr_client_id r' = Some ''c1'' \<and> pr_status r' = PApproved"
proof -
  let ?cs = "[SResolvePairing live_env demo_accept, SCancelAdminAccessRequest live_env ''o'' ''control_client'' ''p1'' (seconds 330)]"
  have "map_option (\<lambda>r. (pr_status r, pr_client_id r)) (pairing_of demo_server ''p1'') = Some (PClaimed, Some ''c1'')" by (rule demo_runs(1))
  then obtain r where r: "pairing_of demo_server ''p1'' = Some r" "pr_status r = PClaimed" "pr_client_id r = Some ''c1''" by auto
  have "map_option pr_status (pairing_of (run_steps_of server_do demo_server ?cs) ''p1'') = Some PApproved" by (rule demo_runs(2))
  with pairing_decided_once [OF r(1), of ?cs] r(2,3) show ?thesis by (auto simp: pairing_client_def simp del: run_steps_of_simps)
qed

text \<open>Property C31: an enrollment is decided once, and the candidate that claimed it cannot be replaced,
  whatever other calls intervene.\<close>

theorem enrollment_decided_once:
  assumes "enrollment_of db i = Some r"
  shows "\<exists>r'. enrollment_of (run_steps_of server_do db cs) i = Some r' \<and> enrollment_terms r' = enrollment_terms r \<and>
    (\<not> pairing_open (en_status r) \<longrightarrow> r' = r) \<and> (en_status r = PClaimed \<longrightarrow> enrollment_candidate r' = enrollment_candidate r)"
proof -
  have "\<exists>r'. enrollment_of (run_steps_of server_do db cs) i = Some r' \<and> (enrollment_terms r' = enrollment_terms r \<and>
      (\<not> pairing_open (en_status r) \<longrightarrow> r' = r) \<and>
      (en_status r = PClaimed \<longrightarrow> enrollment_candidate r' = enrollment_candidate r \<and> en_status r' \<noteq> PPending))"
    by (rule enrollment_machine.closed_stays [OF assms])
      (auto simp: enrollment_moves_def request_moves_def pairing_open_def)
  then show ?thesis by blast
qed

theorem enrollment_decided_once_witness:
  "\<exists>r'. enrollment_of (run_steps_of server_do demo_server [SResolveNodeEnrollment live_env demo_enroll]) ''e1'' = Some r' \<and>
     en_candidate_node_id r' = Some ''n2'' \<and> en_status r' = PApproved"
proof -
  let ?cs = "[SResolveNodeEnrollment live_env demo_enroll]"
  have "map_option (\<lambda>r. (en_status r, en_candidate_node_id r)) (enrollment_of demo_server ''e1'') = Some (PClaimed, Some ''n2'')" by (rule demo_runs(3))
  then obtain r where r: "enrollment_of demo_server ''e1'' = Some r" "en_status r = PClaimed" "en_candidate_node_id r = Some ''n2''" by auto
  have "map_option en_status (enrollment_of (run_steps_of server_do demo_server ?cs) ''e1'') = Some PApproved" by (rule demo_runs(4))
  with enrollment_decided_once [OF r(1), of ?cs] r(2,3) show ?thesis by (auto simp: enrollment_candidate_def simp del: run_steps_of_simps)
qed

text \<open>Property C32: an invitation is used at most once: after a successful claim no later claim, by secret
  or by short code and after any calls, succeeds with the same invitation.\<close>

theorem invitation_used_once:
  assumes "server_inv db" "ClaimNodeInvitation e b db c = (d, Inr item)"
    and "ClaimNodeInvitation e' b' (run_steps_of server_do d cs) c' = (d', Inr item')"
  shows "ni_id item' \<noteq> ni_id item"
proof
  assume same: "ni_id item' = ni_id item"
  have inv: "server_inv d"
    using server_inv_step [OF resultsD [OF claim_invitation_step [of db e b c]] assms(1)] assms(2) by simp
  obtain row where row: "row \<in> set (node_invitations d)" "iv_id row = ni_id item" "iv_status row = IUsed"
    using claim_invitation_InrD(2) [OF assms(2)] by blast
  have "invitation_of d (ni_id item) = Some row" using row_of_unique(4) [OF inv row(1)] row(2) by simp
  then have "invitation_of (run_steps_of server_do d cs) (ni_id item) = Some row"
    by (rule invitation_machine.final_stays) (use row(3) in \<open>auto simp: invitation_moves_def\<close>)
  moreover obtain row' where "row' \<in> set (node_invitations (run_steps_of server_do d cs))" "iv_id row' = ni_id item'" "iv_status row' = IPending"
    using claim_invitation_InrD(1) [OF assms(3)] by blast
  ultimately show False using row(3) same by (auto simp: invitation_of_def dest: sole_row_eq)
qed

theorem invitation_used_once_witness:
  "\<exists>item item'. snd (ClaimNodeInvitation live_env (key32 CHR ''x'', key32 CHR ''y'') demo_server (demo_invited ''i1'' ''m'' CHR ''1'')) = Inr item \<and>
     snd (ClaimNodeInvitation live_env (key32 CHR ''v'', key32 CHR ''w'')
       (fst (ClaimNodeInvitation live_env (key32 CHR ''x'', key32 CHR ''y'') demo_server (demo_invited ''i1'' ''m'' CHR ''1'')))
       (demo_invited ''i2'' ''l'' CHR ''3'')) = Inr item' \<and> ni_id item' \<noteq> ni_id item"
proof -
  let ?c = "ClaimNodeInvitation live_env (key32 CHR ''x'', key32 CHR ''y'') demo_server (demo_invited ''i1'' ''m'' CHR ''1'')"
  let ?c' = "ClaimNodeInvitation live_env (key32 CHR ''v'', key32 CHR ''w'') (fst ?c) (demo_invited ''i2'' ''l'' CHR ''3'')"
  have "\<not> isl (snd ?c)" by (rule demo_runs(5))
  then obtain d x where x: "?c = (d, Inr x)" by (cases ?c; cases "snd ?c") auto
  have "\<not> isl (snd ?c')" by (rule demo_runs(6))
  then obtain d' y where y: "?c' = (d', Inr y)" by (cases ?c'; cases "snd ?c'") auto
  have "ClaimNodeInvitation live_env (key32 CHR ''v'', key32 CHR ''w'') (run_steps_of server_do d []) (demo_invited ''i2'' ''l'' CHR ''3'') = (d', Inr y)"
    using y x by simp
  from invitation_used_once [OF demo_server_inv x this] x y show ?thesis by auto
qed

text \<open>Property C14: trusted clients come from approved pairings. In every state a fresh Server can reach
  there is at most one owner, and every control client carries the client, key, public key, name and owner of an
  approved pairing.\<close>

theorem control_clients_paired:
  "length (owners (run_steps_of server_do empty_db cs)) \<le> 1 \<and>
   list_all (paired (run_steps_of server_do empty_db cs)) (control_clients (run_steps_of server_do empty_db cs))"
  using server_inv_run [OF server_inv_empty, of cs] by (simp add: server_inv_def)



text \<open>A torn manifest: a pairing is approved between the two queries, and the manifest has the revision of the
  manifest read before the approval with the client approved after it.\<close>

theorem manifest_torn:
  "\<exists>m m'. ControlTrustManifest live_env demo_server demo_server ''o'' = Inr m \<and>
     ControlTrustManifest live_env demo_server (run_steps_of server_do demo_server [SResolvePairing live_env demo_accept]) ''o'' = Inr m' \<and>
     sm_revision m' = sm_revision m \<and> sm_clients m = [] \<and> map gc_id (sm_clients m') = [''c1'']"
  using demo_torn by (auto split: sum.splits simp del: run_steps_of_simps)

text \<open>Property C18: a revoked node never gets an active session again, whichever of the two
  revocations removed it and whatever calls follow.\<close>

theorem revoked_node_locked_out:
  assumes "server_inv db"
    and "RevokeNode e db ow issuer n now = (d, None) \<or> AdminRevokeNode e db ow n now = (d, None)"
    and "NodeSession e' (run_steps_of server_do d cs) n = Inr s"
  shows "ns_status s = Revoked"
proof -
  obtain k op where "revoke_rows e k op ow n now db = Inr d"
    using assms(2)
    by (auto simp: RevokeNode_def AdminRevokeNode_def transact_None_iff split: option.splits if_splits sum.splits)
  then obtain r where r: "node_of d n = Some r" "nd_status r = Revoked"
    using revoke_rows_revoked [OF _ assms(1)] by blast
  have "node_of (run_steps_of server_do d cs) n = Some r"
    by (rule node_machine.final_stays [OF r(1)]) (use r(2) in \<open>auto simp: node_moves_def\<close>)
  from node_session_status [OF assms(3) this r(2)] show ?thesis .
qed

theorem revoked_node_locked_out_witness:
  "\<exists>s. NodeSession live_env (run_steps_of server_do (fst (RevokeNode live_env demo_full ''o'' ''n1'' ''n2'' (seconds 600)))
      [STouchNode live_env ''o'' ''n2'' (seconds 610)]) ''n2'' = Inr s \<and> ns_status s = Revoked"
proof -
  let ?d = "fst (RevokeNode live_env demo_full ''o'' ''n1'' ''n2'' (seconds 600))"
  let ?cs = "[STouchNode live_env ''o'' ''n2'' (seconds 610)]"
  have "snd (RevokeNode live_env demo_full ''o'' ''n1'' ''n2'' (seconds 600)) = None" by (rule demo_runs(9))
  then have d: "RevokeNode live_env demo_full ''o'' ''n1'' ''n2'' (seconds 600) = (?d, None)" by (simp add: prod_eq_iff)
  have "(case NodeSession live_env (run_steps_of server_do ?d ?cs) ''n2'' of Inl _ \<Rightarrow> False | Inr s \<Rightarrow> True)" by (rule demo_runs(10))
  then obtain s where s: "NodeSession live_env (run_steps_of server_do ?d ?cs) ''n2'' = Inr s" by (auto split: sum.splits)
  from revoked_node_locked_out [OF demo_full_inv disjI1 [OF d] s] s show ?thesis by blast
qed

text \<open>A revoked control client never gets an active session again.\<close>

theorem revoked_client_locked_out:
  assumes "server_inv db"
    and "RevokeControlClient e db ow c now = (d, None) \<or> AdminRevokeControlClient e db ow c now = (d, None)"
    and "ControlClientSession e' (run_steps_of server_do d cs) c = Inr s"
  shows "cs_status s = Revoked"
proof -
  have "raise_trust ow (revoke_clients ow c now db) = Some d" "sql_count (active_client ow c) (control_clients db) \<noteq> 0"
    using assms(2)
    by (auto simp: RevokeControlClient_def AdminRevokeControlClient_def transact_None_iff split: option.splits if_splits)
  then obtain r where r: "client_of d c = Some r" "cc_status r = Revoked"
    using revoked_client_row [OF _ assms(1)] by blast
  have "client_of (run_steps_of server_do d cs) c = Some r"
    by (rule client_machine.final_stays [OF r(1)]) (use r(2) in \<open>auto simp: client_moves_def\<close>)
  from client_session_status [OF assms(3) this] r(2) show ?thesis by simp
qed

theorem revoked_client_locked_out_witness:
  "\<exists>s. ControlClientSession live_env (run_steps_of server_do (fst (RevokeControlClient live_env demo_full ''o'' ''c1'' (seconds 600)))
      [SResolvePairing live_env demo_accept]) ''c1'' = Inr s \<and> cs_status s = Revoked"
proof -
  let ?d = "fst (RevokeControlClient live_env demo_full ''o'' ''c1'' (seconds 600))"
  let ?cs = "[SResolvePairing live_env demo_accept]"
  have "snd (RevokeControlClient live_env demo_full ''o'' ''c1'' (seconds 600)) = None" by (rule demo_runs(11))
  then have d: "RevokeControlClient live_env demo_full ''o'' ''c1'' (seconds 600) = (?d, None)" by (simp add: prod_eq_iff)
  have "(case ControlClientSession live_env (run_steps_of server_do ?d ?cs) ''c1'' of Inl _ \<Rightarrow> False | Inr s \<Rightarrow> True)" by (rule demo_runs(12))
  then obtain s where s: "ControlClientSession live_env (run_steps_of server_do ?d ?cs) ''c1'' = Inr s" by (auto split: sum.splits)
  from revoked_client_locked_out [OF demo_full_inv disjI1 [OF d] s] s show ?thesis by blast
qed

text \<open>Property C34: an owner with an active node keeps one: no history of Server calls, the two
  revocations included, leaves it without.\<close>

theorem owner_keeps_active_node:
  assumes "1 \<le> active_nodes db i"
  shows "1 \<le> active_nodes (run_steps_of server_do db cs) i"
  by (rule nodes_kept_run [OF assms])

theorem owner_keeps_active_node_witness:
  "1 \<le> active_nodes (run_steps_of server_do demo_full [SAdminRevokeNode live_env ''o'' ''n1'' (seconds 600),
     SAdminRevokeNode live_env ''o'' ''n2'' (seconds 610)]) ''o''"
proof (rule owner_keeps_active_node)
  show "1 \<le> active_nodes demo_full ''o''" by (rule demo_runs(13))
qed

text \<open>Property C37: accepting an enrollment never takes the active nodes of an owner above five.\<close>

theorem enrollment_limit:
  "active_nodes (fst (ResolveNodeEnrollment e db v)) i \<le> max 5 (active_nodes db i)"
  using resultsD [OF resolve_enrollment_limit] by (simp add: MaxActiveNodes_def)

text \<open>Property C33: the bootstrap is claimed once. After a successful claim every later successful claim,
  after any calls, is a replay that returns the same owner and node.\<close>

theorem bootstrap_claimed_once:
  assumes "ClaimBootstrap e db c = (d, Inr res)" "\<not> cl_replayed res"
    and "ClaimBootstrap e' (run_steps_of server_do d cs) c' = (d', Inr res')"
  shows "cl_replayed res' \<and> cl_owner_id res' = cl_owner_id res \<and> cl_node_id res' = cl_node_id res"
proof -
  obtain r where r: "bootstrap d = Some r" "bs_status r = BootstrapCompleted" "owners d \<noteq> []"
    "bs_owner_id r = Some (cl_owner_id res)" "bs_node_id r = Some (cl_node_id res)"
    using claim_bootstrap_first [OF assms(1,2)] by blast
  obtain r' where r': "bootstrap (run_steps_of server_do d cs) = Some r'" "same_bootstrap r r'"
    using bootstrap_run [OF r(1,3,2)] by blast
  from claim_bootstrap_again [OF assms(3) r'(1)] r' r show ?thesis by (simp add: same_bootstrap_def null_string_def)
qed

theorem bootstrap_claimed_once_witness:
  "\<exists>res res'. ClaimBootstrap live_env demo_fresh demo_bootstrap = (demo_owned, Inr res) \<and>
     snd (ClaimBootstrap live_env (run_steps_of server_do demo_owned [SRotateBootstrap live_env (key32 CHR ''z'') (seconds 110)])
       demo_bootstrap) = Inr res' \<and> cl_replayed res' \<and> cl_owner_id res' = cl_owner_id res"
proof -
  let ?d = "run_steps_of server_do demo_owned [SRotateBootstrap live_env (key32 CHR ''z'') (seconds 110)]"
  have "(case snd (ClaimBootstrap live_env demo_fresh demo_bootstrap) of Inl _ \<Rightarrow> False | Inr x \<Rightarrow> \<not> cl_replayed x)" by (rule demo_runs(14))
  then obtain x where x: "ClaimBootstrap live_env demo_fresh demo_bootstrap = (demo_owned, Inr x)" "\<not> cl_replayed x"
    by (auto simp: demo_owned_def prod_eq_iff split: sum.splits)
  have "(case snd (ClaimBootstrap live_env ?d demo_bootstrap) of Inl _ \<Rightarrow> False | Inr _ \<Rightarrow> True)" by (rule demo_runs(15))
  then obtain d' y where y: "ClaimBootstrap live_env ?d demo_bootstrap = (d', Inr y)"
    by (cases "ClaimBootstrap live_env ?d demo_bootstrap") (auto split: sum.splits)
  from bootstrap_claimed_once [OF x y] x y show ?thesis by auto
qed

text \<open>Property C39: rotating a node credential never succeeds: the schema admits no credential hash, so
  the call reports an error and changes nothing, for every node and every hash.\<close>

theorem rotate_credential_fails:
  "fst (RotateNodeCredential e db ow n h now) = db \<and> snd (RotateNodeCredential e db ow n h now) \<noteq> None"
proof
  show "fst (RotateNodeCredential e db ow n h now) = db" by (rule resultsD [OF rotate_credential_same])
  have "list_all (\<lambda>r. P r \<longrightarrow> node_credentials_check (rotate_credential h t r)) rs \<Longrightarrow> sql_count P rs = 0" for P t rs
    by (auto simp: sql_count_def list_all_iff node_credentials_check_def rotate_credential_def filter_empty_conv)
  then show "snd (RotateNodeCredential e db ow n h now) \<noteq> None"
    by (auto simp: RotateNodeCredential_def Let_def sql_update_checked_def split: option.splits if_splits)
qed

end
