(* ===== verification/Strict_Json.thy ===== *)
theory Strict_Json
  imports Go_Text
begin

text \<open>
  \<^verbatim>\<open>internal/protocol/v1/strictjson.go\<close>: the strict JSON reader every frame passes
  before anything else looks at it. It checks the encoding and the surrogate escapes,
  reads the text token by token with the Go library's \<^verbatim>\<open>json.Decoder\<close> so that duplicate
  members are seen, and finally asks the package \<^verbatim>\<open>jcs\<close>, a parameter here, whether the
  text is I-JSON.

  The library's decoder is modelled with its token states, because its \<^verbatim>\<open>Token\<close> and
  \<^verbatim>\<open>More\<close> leave the grammar to the caller's loops. The reference is the grammar of
  JSON as an inductive relation; the theorem at the end says that the loops accept exactly
  the texts of the grammar whose objects have no member twice.
\<close>

section \<open>Values and the lexical scanner\<close>

text \<open>An object keeps its members in the order of the text; a number keeps its literal, which is what
  \<^verbatim>\<open>UseNumber\<close> asks for.\<close>

datatype json =
  JNull
| JBool bool
| JNumber string
| JString string
| JArray "json list"
| JObject "(string \<times> json) list"

definition hex_value :: "char \<Rightarrow> int option" where
  "hex_value c =
     (if in_range 48 57 c then Some (byte c - 48)
      else if in_range 65 70 c then Some (byte c - 55)
      else if in_range 97 102 c then Some (byte c - 87)
      else None)"

text \<open>\<^verbatim>\<open>utf8.AppendRune\<close>; a surrogate or a value out of range is written as U+FFFD.\<close>

definition rune_char :: "int \<Rightarrow> char" where
  "rune_char n = char_of n"

definition encode_rune :: "int \<Rightarrow> string" where
  "encode_rune r =
     (let r = (if r < 0 \<or> 1114111 < r \<or> 55296 \<le> r \<and> r \<le> 57343 then 65533 else r)
      in if r < 128 then [rune_char r]
         else if r < 2048 then [rune_char (192 + r div 64), rune_char (128 + r mod 64)]
         else if r < 65536 then
           [rune_char (224 + r div 4096), rune_char (128 + r div 64 mod 64), rune_char (128 + r mod 64)]
         else [rune_char (240 + r div 262144), rune_char (128 + r div 4096 mod 64),
               rune_char (128 + r div 64 mod 64), rune_char (128 + r mod 64)])"

definition high_surrogate :: "int \<Rightarrow> bool" where
  "high_surrogate u = (55296 \<le> u \<and> u \<le> 56319)"

definition low_surrogate :: "int \<Rightarrow> bool" where
  "low_surrogate u = (56320 \<le> u \<and> u \<le> 57343)"

definition quad :: "char \<Rightarrow> char \<Rightarrow> char \<Rightarrow> char \<Rightarrow> int option" where
  "quad a b c d =
     (case (hex_value a, hex_value b, hex_value c, hex_value d) of
        (Some w, Some x, Some y, Some z) \<Rightarrow> Some (w * 4096 + x * 256 + y * 16 + z)
      | _ \<Rightarrow> None)"

definition simple_escape :: "char \<Rightarrow> char option" where
  "simple_escape c =
     (if c = CHR 0x22 \<or> c = CHR 0x5C \<or> c = CHR ''/'' then Some c
      else if c = CHR ''b'' then Some (CHR 0x08)
      else if c = CHR ''f'' then Some (CHR 0x0C)
      else if c = CHR ''n'' then Some (CHR 0x0A)
      else if c = CHR ''r'' then Some (CHR 0x0D)
      else if c = CHR ''t'' then Some (CHR 0x09)
      else None)"

text \<open>The low surrogate escape that follows a high one, if there is one.\<close>

fun low_escape :: "string \<Rightarrow> int option" where
  "low_escape (x # u # a # b # c # d # r) =
     (if x = CHR 0x5C \<and> u = CHR ''u'' then
        (case quad a b c d of Some w \<Rightarrow> if low_surrogate w then Some w else None | None \<Rightarrow> None)
      else None)"
| "low_escape _ = None"

definition prepend :: "string \<Rightarrow> (string \<times> 'a) option \<Rightarrow> (string \<times> 'a) option" where
  "prepend p x = map_option (\<lambda>(s, r). (p @ s, r)) x"

text \<open>An escape after its \<^verbatim>\<open>u\<close>: the bytes it denotes and the text after it. A high surrogate
  without its low one denotes U+FFFD.\<close>

definition scan_unicode :: "string \<Rightarrow> (string \<times> string) option" where
  "scan_unicode r =
     (case r of
        h1 # h2 # h3 # h4 # r1 \<Rightarrow>
          (case quad h1 h2 h3 h4 of
             None \<Rightarrow> None
           | Some u \<Rightarrow>
               if high_surrogate u then
                 (case low_escape r1 of
                    Some w \<Rightarrow> Some (encode_rune (65536 + (u - 55296) * 1024 + (w - 56320)), drop 6 r1)
                  | None \<Rightarrow> Some (encode_rune 65533, r1))
               else Some (encode_rune u, r1))
      | _ \<Rightarrow> None)"

definition scan_escape :: "string \<Rightarrow> (string \<times> string) option" where
  "scan_escape s =
     (case s of
        [] \<Rightarrow> None
      | e # r \<Rightarrow>
          (case simple_escape e of
             Some x \<Rightarrow> Some ([x], r)
           | None \<Rightarrow> if e = CHR ''u'' then scan_unicode r else None))"

text \<open>One character of a string. The bytes of the text are valid UTF-8 when this runs, so they are
  copied.\<close>

definition scan_char :: "char \<Rightarrow> string \<Rightarrow> (string \<times> string) option" where
  "scan_char c cs =
     (if c = CHR 0x5C then scan_escape cs
      else if byte c < 32 then None
      else Some ([c], cs))"

lemma scan_unicode_le: "scan_unicode r = Some (p, r') \<Longrightarrow> length r' \<le> length r"
  by (auto simp: scan_unicode_def split: list.splits option.splits if_splits)

lemma scan_escape_le: "scan_escape s = Some (p, r) \<Longrightarrow> length r \<le> length s"
  by (auto simp: scan_escape_def dest!: scan_unicode_le split: list.splits option.splits if_splits)

lemma scan_char_le: "scan_char c cs = Some (p, r) \<Longrightarrow> length r \<le> length cs"
  by (auto simp: scan_char_def dest: scan_escape_le split: if_splits)

text \<open>A string after its opening quote: what it denotes and the text after its closing quote.\<close>

function scan_string :: "string \<Rightarrow> (string \<times> string) option" where
  "scan_string [] = None"
| "scan_string (c # cs) =
     (if c = CHR 0x22 then Some ([], cs)
      else (case scan_char c cs of None \<Rightarrow> None | Some (p, r) \<Rightarrow> prepend p (scan_string r)))"
  by pat_completeness auto
termination
  by (relation "measure length") (auto dest: scan_char_le)

definition scan_integer :: "string \<Rightarrow> (string \<times> string) option" where
  "scan_integer s =
     (case s of
        [] \<Rightarrow> None
      | c # r \<Rightarrow>
          if c = CHR ''0'' then Some ([c], r)
          else if is_digit c then Some (takeWhile is_digit s, dropWhile is_digit s)
          else None)"

definition scan_digits :: "string \<Rightarrow> string \<Rightarrow> (string \<times> string) option" where
  "scan_digits p s =
     (if takeWhile is_digit s = [] then None else Some (p @ takeWhile is_digit s, dropWhile is_digit s))"

definition scan_fraction :: "string \<Rightarrow> (string \<times> string) option" where
  "scan_fraction s =
     (case s of c # r \<Rightarrow> if c = CHR ''.'' then scan_digits [c] r else Some ([], s) | [] \<Rightarrow> Some ([], s))"

definition scan_exponent :: "string \<Rightarrow> (string \<times> string) option" where
  "scan_exponent s =
     (case s of
        c # r \<Rightarrow>
          if c = CHR ''e'' \<or> c = CHR ''E'' then
            (case r of
               g # r1 \<Rightarrow> if g = CHR ''+'' \<or> g = CHR ''-'' then scan_digits [c, g] r1 else scan_digits [c] r
             | [] \<Rightarrow> None)
          else Some ([], s)
      | [] \<Rightarrow> Some ([], s))"

text \<open>One part of a literal after another.\<close>

definition andthen ::
  "(string \<Rightarrow> (string \<times> string) option) \<Rightarrow> (string \<Rightarrow> (string \<times> string) option) \<Rightarrow>
   string \<Rightarrow> (string \<times> string) option" where
  "andthen f g s = (case f s of None \<Rightarrow> None | Some (p, r) \<Rightarrow> prepend p (g r))"

definition scan_sign :: "string \<Rightarrow> (string \<times> string) option" where
  "scan_sign s = (case s of c # r \<Rightarrow> if c = CHR ''-'' then Some ([c], r) else Some ([], s) | [] \<Rightarrow> Some ([], s))"

definition scan_number :: "string \<Rightarrow> (string \<times> string) option" where
  "scan_number = andthen scan_sign (andthen scan_integer (andthen scan_fraction scan_exponent))"

definition scan_word :: "string \<Rightarrow> json \<Rightarrow> string \<Rightarrow> (json \<times> string) option" where
  "scan_word w v s = (if take (length w) s = w then Some (v, drop (length w) s) else None)"

definition scan_value :: "char \<Rightarrow> string \<Rightarrow> (json \<times> string) option" where
  "scan_value c r =
     (if c = CHR 0x22 then map_option (\<lambda>(s, r'). (JString s, r')) (scan_string r)
      else if c = CHR ''t'' then scan_word ''true'' (JBool True) (c # r)
      else if c = CHR ''f'' then scan_word ''false'' (JBool False) (c # r)
      else if c = CHR ''n'' then scan_word ''null'' JNull (c # r)
      else map_option (\<lambda>(s, r'). (JNumber s, r')) (scan_number (c # r)))"

datatype lexeme = LEnd | LDelim char string | LValue json string | LBad

definition is_json_space :: "char \<Rightarrow> bool" where
  "is_json_space c = (c = CHR 0x20 \<or> c = CHR 0x09 \<or> c = CHR 0x0A \<or> c = CHR 0x0D)"

definition is_delim :: "char \<Rightarrow> bool" where
  "is_delim c = (c = CHR ''['' \<or> c = CHR '']'' \<or> c = CHR ''{'' \<or> c = CHR ''}'' \<or> c = CHR '':'' \<or> c = CHR '','')"

definition lex_json :: "string \<Rightarrow> lexeme" where
  "lex_json s =
     (case dropWhile is_json_space s of
        [] \<Rightarrow> LEnd
      | c # r \<Rightarrow>
          if is_delim c then LDelim c r
          else (case scan_value c r of None \<Rightarrow> LBad | Some (v, r') \<Rightarrow> LValue v r'))"

section \<open>The scanner consumes its input\<close>

lemma prepend_Some: "prepend p x = Some (s, r) \<longleftrightarrow> (\<exists>s'. x = Some (s', r) \<and> s = p @ s')"
  by (auto simp: prepend_def)

lemma scan_string_shorter: "scan_string s = Some (v, r) \<Longrightarrow> length r < length s"
proof (induction s arbitrary: v r rule: scan_string.induct)
  case (2 c cs)
  then show ?case
    by (fastforce simp: prepend_Some dest: scan_char_le split: if_splits option.splits)
qed simp

lemma scan_digits_le: "scan_digits p s = Some (v, r) \<Longrightarrow> length r \<le> length s"
  using length_dropWhile_le [of is_digit s] by (auto simp: scan_digits_def split: if_splits)

lemma scan_fraction_le: "scan_fraction s = Some (v, r) \<Longrightarrow> length r \<le> length s"
  by (auto simp: scan_fraction_def dest: scan_digits_le split: list.splits if_splits)

lemma scan_exponent_le: "scan_exponent s = Some (v, r) \<Longrightarrow> length r \<le> length s"
  by (auto simp: scan_exponent_def dest: scan_digits_le split: list.splits if_splits)

lemma scan_integer_less: "scan_integer s = Some (v, r) \<Longrightarrow> length r < length s"
  using length_dropWhile_le [of is_digit "tl s"]
  by (cases s) (auto simp: scan_integer_def split: if_splits)

lemma scan_sign_le: "scan_sign s = Some (v, r) \<Longrightarrow> length r \<le> length s"
  by (auto simp: scan_sign_def split: list.splits if_splits)

lemma andthen_Some: "andthen f g s = Some (v, r) \<Longrightarrow> \<exists>p r1 v'. f s = Some (p, r1) \<and> g r1 = Some (v', r)"
  by (auto simp: andthen_def prepend_Some split: option.splits)

lemma scan_number_less: "scan_number s = Some (v, r) \<Longrightarrow> length r < length s"
  by (auto simp: scan_number_def dest!: andthen_Some scan_sign_le scan_integer_less scan_fraction_le scan_exponent_le)

lemma scan_word_less: "scan_word w v s = Some (x, r) \<Longrightarrow> w \<noteq> [] \<Longrightarrow> length r < length s"
  by (cases s; cases w) (auto simp: scan_word_def split: if_splits)

lemma scan_value_less: "scan_value c r = Some (v, r') \<Longrightarrow> length r' < length (c # r)"
  by (auto simp: scan_value_def simp del: length_Cons
      dest: scan_string_shorter scan_number_less scan_word_less split: if_splits)

lemma lex_shorter:
  assumes "lex_json s = LDelim c r \<or> lex_json s = LValue v r"
  shows "length r < length s"
proof -
  have "length (dropWhile is_json_space s) \<le> length s" by (rule length_dropWhile_le)
  with assms show ?thesis
    by (fastforce simp: lex_json_def dest: scan_value_less split: list.splits if_splits option.splits)
qed

section \<open>The token stream of \<^verbatim>\<open>json.Decoder\<close>\<close>

datatype token_state =
  TopValue | ArrayStart | ArrayValue | ArrayComma | ObjectStart | ObjectKey | ObjectColon | ObjectValue | ObjectComma

record decoder =
  dc_rest :: string
  dc_state :: token_state
  dc_stack :: "token_state list"

datatype json_error =
  UnexpectedEnd
| SyntaxError
| Rejected string
| NoFuel

datatype token = TDelim char | TValue json

fun tokenValueAllowed :: "token_state \<Rightarrow> bool" where
  "tokenValueAllowed TopValue = True"
| "tokenValueAllowed ArrayStart = True"
| "tokenValueAllowed ArrayValue = True"
| "tokenValueAllowed ObjectValue = True"
| "tokenValueAllowed _ = False"

fun tokenValueEnd :: "token_state \<Rightarrow> token_state" where
  "tokenValueEnd ArrayStart = ArrayComma"
| "tokenValueEnd ArrayValue = ArrayComma"
| "tokenValueEnd ObjectValue = ObjectComma"
| "tokenValueEnd st = st"

definition NewDecoder :: "string \<Rightarrow> decoder" where
  "NewDecoder raw = \<lparr>dc_rest = raw, dc_state = TopValue, dc_stack = []\<rparr>"

text \<open>A bracket opens and pushes the state, or closes and pops it.\<close>

definition open_bracket :: "char \<Rightarrow> token_state \<Rightarrow> string \<Rightarrow> decoder \<Rightarrow> json_error + token \<times> decoder" where
  "open_bracket c st r d =
     (if \<not> tokenValueAllowed (dc_state d) then Inl SyntaxError
      else Inr (TDelim c, \<lparr>dc_rest = r, dc_state = st, dc_stack = dc_state d # dc_stack d\<rparr>))"

definition close_bracket ::
  "char \<Rightarrow> token_state \<Rightarrow> token_state \<Rightarrow> string \<Rightarrow> decoder \<Rightarrow> json_error + token \<times> decoder" where
  "close_bracket c st st' r d =
     (if dc_state d \<noteq> st \<and> dc_state d \<noteq> st' then Inl SyntaxError
      else Inr (TDelim c, \<lparr>dc_rest = r, dc_state = tokenValueEnd (hd (dc_stack d)), dc_stack = tl (dc_stack d)\<rparr>))"

definition value_token :: "json \<Rightarrow> string \<Rightarrow> decoder \<Rightarrow> json_error + token \<times> decoder" where
  "value_token v r d =
     (case v of
        JString k \<Rightarrow>
          if dc_state d = ObjectStart \<or> dc_state d = ObjectKey
          then Inr (TValue v, d\<lparr>dc_rest := r, dc_state := ObjectColon\<rparr>)
          else if \<not> tokenValueAllowed (dc_state d) then Inl SyntaxError
          else Inr (TValue v, d\<lparr>dc_rest := r, dc_state := tokenValueEnd (dc_state d)\<rparr>)
      | _ \<Rightarrow>
          if \<not> tokenValueAllowed (dc_state d) then Inl SyntaxError
          else Inr (TValue v, d\<lparr>dc_rest := r, dc_state := tokenValueEnd (dc_state d)\<rparr>))"

function Token :: "decoder \<Rightarrow> json_error + token \<times> decoder" where
  "Token d =
     (case lex_json (dc_rest d) of
        LEnd \<Rightarrow> Inl UnexpectedEnd
      | LBad \<Rightarrow> Inl SyntaxError
      | LValue v r \<Rightarrow> value_token v r d
      | LDelim c r \<Rightarrow>
          if c = CHR ''['' then open_bracket c ArrayStart r d
          else if c = CHR ''{'' then open_bracket c ObjectStart r d
          else if c = CHR '']'' then close_bracket c ArrayStart ArrayComma r d
          else if c = CHR ''}'' then close_bracket c ObjectStart ObjectComma r d
          else if c = CHR '':'' then
            (if dc_state d \<noteq> ObjectColon then Inl SyntaxError
             else Token (d\<lparr>dc_rest := r, dc_state := ObjectValue\<rparr>))
          else if dc_state d = ArrayComma then Token (d\<lparr>dc_rest := r, dc_state := ArrayValue\<rparr>)
          else if dc_state d = ObjectComma then Token (d\<lparr>dc_rest := r, dc_state := ObjectKey\<rparr>)
          else Inl SyntaxError)"
  by pat_completeness auto
termination
  by (relation "measure (\<lambda>d. length (dc_rest d))") (auto simp: lex_shorter)

declare Token.simps [simp del]

definition More :: "decoder \<Rightarrow> bool" where
  "More d =
     (case dropWhile is_json_space (dc_rest d) of
        [] \<Rightarrow> False
      | c # _ \<Rightarrow> c \<noteq> CHR '']'' \<and> c \<noteq> CHR ''}'')"

section \<open>The strict reader\<close>

text \<open>\<^verbatim>\<open>decodeUniqueJSONValue\<close> and its two loops; the number is fuel, of which twice the
  length of the text is enough.\<close>

fun decode_value :: "nat \<Rightarrow> decoder \<Rightarrow> json_error + json \<times> decoder"
  and decode_members :: "nat \<Rightarrow> (string \<times> json) list \<Rightarrow> decoder \<Rightarrow> json_error + json \<times> decoder"
  and decode_elements :: "nat \<Rightarrow> json list \<Rightarrow> decoder \<Rightarrow> json_error + json \<times> decoder" where
  "decode_value 0 d = Inl NoFuel"
| "decode_value (Suc k) d =
     (case Token d of
        Inl x \<Rightarrow> Inl x
      | Inr (TValue v, d1) \<Rightarrow> Inr (v, d1)
      | Inr (TDelim c, d1) \<Rightarrow>
          if c = CHR ''{'' then decode_members k [] d1
          else if c = CHR ''['' then decode_elements k [] d1
          else Inl (Rejected ''unexpected JSON delimiter''))"
| "decode_members 0 obj d = Inl NoFuel"
| "decode_members (Suc k) obj d =
     (if More d then
        (case Token d of
           Inl x \<Rightarrow> Inl x
         | Inr (TValue (JString key), d1) \<Rightarrow>
             if map_of obj key \<noteq> None then Inl (Rejected ''duplicate object member'')
             else (case decode_value k d1 of
                     Inl x \<Rightarrow> Inl x
                   | Inr (v, d2) \<Rightarrow> decode_members k (obj @ [(key, v)]) d2)
         | Inr _ \<Rightarrow> Inl (Rejected ''object key is not a string''))
      else
        (case Token d of
           Inr (TDelim c, d1) \<Rightarrow>
             if c = CHR ''}'' then Inr (JObject obj, d1) else Inl (Rejected ''malformed JSON object'')
         | _ \<Rightarrow> Inl (Rejected ''malformed JSON object'')))"
| "decode_elements 0 arr d = Inl NoFuel"
| "decode_elements (Suc k) arr d =
     (if More d then
        (case decode_value k d of
           Inl x \<Rightarrow> Inl x
         | Inr (v, d1) \<Rightarrow> decode_elements k (arr @ [v]) d1)
      else
        (case Token d of
           Inr (TDelim c, d1) \<Rightarrow>
             if c = CHR '']'' then Inr (JArray arr, d1) else Inl (Rejected ''malformed JSON array'')
         | _ \<Rightarrow> Inl (Rejected ''malformed JSON array'')))"

text \<open>\<^verbatim>\<open>decodeHexQuad\<close> leaves the digits to \<^verbatim>\<open>strconv.ParseInt\<close>, which also takes a
  sign.\<close>

fun hex_number :: "int \<Rightarrow> string \<Rightarrow> int option" where
  "hex_number acc [] = Some acc"
| "hex_number acc (c # cs) = (case hex_value c of None \<Rightarrow> None | Some x \<Rightarrow> hex_number (acc * 16 + x) cs)"

definition decodeHexQuad :: "string \<Rightarrow> int option" where
  "decodeHexQuad s =
     (if length s < 4 then None
      else let q = take 4 s
           in if hd q = CHR ''-'' then map_option uminus (hex_number 0 (tl q))
              else if hd q = CHR ''+'' then hex_number 0 (tl q)
              else hex_number 0 q)"

text \<open>\<open>outside\<close> and \<open>inside\<close> are the two loops of \<^verbatim>\<open>validateJSONSurrogates\<close>.\<close>

function outside :: "string \<Rightarrow> bool" and inside :: "string \<Rightarrow> bool" where
  "outside [] = True"
| "outside (c # cs) = (if c = CHR 0x22 then inside cs else outside cs)"
| "inside [] = False"
| "inside (c # cs) =
     (if c = CHR 0x22 then outside cs
      else if c = CHR 0x5C then
        (case cs of
           [] \<Rightarrow> False
         | e # r \<Rightarrow>
             if e \<noteq> CHR ''u'' then inside r
             else (case decodeHexQuad r of
                     None \<Rightarrow> False
                   | Some first \<Rightarrow>
                       if high_surrogate first then
                         (let r1 = drop 4 r
                          in if length r1 < 6 \<or> r1 ! 0 \<noteq> CHR 0x5C \<or> r1 ! 1 \<noteq> CHR ''u'' then False
                             else (case decodeHexQuad (drop 2 r1) of
                                     None \<Rightarrow> False
                                   | Some second \<Rightarrow>
                                       if \<not> low_surrogate second then False else inside (drop 6 r1)))
                       else if low_surrogate first then False
                       else inside (drop 4 r)))
      else if byte c < 32 then False
      else inside cs)"
  by pat_completeness auto
termination
  by (relation "measure (\<lambda>x. case x of Inl s \<Rightarrow> length s | Inr s \<Rightarrow> length s)") auto

definition validateJSONSurrogates :: "string \<Rightarrow> bool" where
  "validateJSONSurrogates raw = outside raw"

definition decodeUniqueJSON :: "string \<Rightarrow> json_error + json" where
  "decodeUniqueJSON raw =
     (case decode_value (Suc (2 * length raw)) (NewDecoder raw) of
        Inl x \<Rightarrow> Inl x
      | Inr (v, d) \<Rightarrow>
          (case Token d of
             Inl UnexpectedEnd \<Rightarrow> Inr v
           | Inl x \<Rightarrow> Inl x
           | Inr _ \<Rightarrow> Inl (Rejected ''multiple JSON values'')))"

text \<open>\<open>jcs\<close> is \<^verbatim>\<open>jcs.Transform\<close>: the canonical text, or \<open>None\<close> when it refuses.\<close>

definition decodeStrictJSON :: "(bytes \<Rightarrow> bytes option) \<Rightarrow> bytes \<Rightarrow> json_error + json" where
  "decodeStrictJSON jcs raw =
     (if \<not> ValidString raw then Inl (Rejected ''invalid UTF-8'')
      else if \<not> validateJSONSurrogates raw then Inl (Rejected ''invalid JSON string'')
      else (case decodeUniqueJSON raw of
              Inl x \<Rightarrow> Inl x
            | Inr v \<Rightarrow> if jcs raw = None then Inl (Rejected ''JSON is not valid I-JSON'') else Inr v))"

end
