(* ===== verification/Strict_Json_Grammar.thy ===== *)
theory Strict_Json_Grammar
  imports Strict_Json
begin

text \<open>
  The grammar of JSON texts over the lexemes of \<^const>\<open>lex_json\<close>, and the proof that the strict
  reader of \<open>Strict_Json\<close> is a parser for it: the loops over \<^verbatim>\<open>Token\<close> and
  \<^verbatim>\<open>More\<close> accept exactly the texts the grammar derives whose objects name no member
  twice, and the fuel of the model never runs out.
\<close>

section \<open>The grammar\<close>

inductive json_value :: "string \<Rightarrow> json \<Rightarrow> string \<Rightarrow> bool"
  and array_body :: "string \<Rightarrow> json list \<Rightarrow> string \<Rightarrow> bool"
  and elements :: "string \<Rightarrow> json list \<Rightarrow> string \<Rightarrow> bool"
  and object_body :: "string \<Rightarrow> (string \<times> json) list \<Rightarrow> string \<Rightarrow> bool"
  and members :: "string \<Rightarrow> (string \<times> json) list \<Rightarrow> string \<Rightarrow> bool" where
  literal: "lex_json s = LValue v r \<Longrightarrow> json_value s v r"
| array: "lex_json s = LDelim CHR ''['' s1 \<Longrightarrow> array_body s1 vs r \<Longrightarrow> json_value s (JArray vs) r"
| object: "lex_json s = LDelim CHR ''{'' s1 \<Longrightarrow> object_body s1 ms r \<Longrightarrow> json_value s (JObject ms) r"
| array_empty: "lex_json s = LDelim CHR '']'' r \<Longrightarrow> array_body s [] r"
| array_first: "json_value s v s1 \<Longrightarrow> elements s1 vs r \<Longrightarrow> array_body s (v # vs) r"
| elements_end: "lex_json s = LDelim CHR '']'' r \<Longrightarrow> elements s [] r"
| elements_next: "lex_json s = LDelim CHR '','' s1 \<Longrightarrow> json_value s1 v s2 \<Longrightarrow> elements s2 vs r \<Longrightarrow>
    elements s (v # vs) r"
| object_empty: "lex_json s = LDelim CHR ''}'' r \<Longrightarrow> object_body s [] r"
| object_first: "lex_json s = LValue (JString k) s1 \<Longrightarrow> lex_json s1 = LDelim CHR '':'' s2 \<Longrightarrow>
    json_value s2 v s3 \<Longrightarrow> members s3 ms r \<Longrightarrow> object_body s ((k, v) # ms) r"
| members_end: "lex_json s = LDelim CHR ''}'' r \<Longrightarrow> members s [] r"
| members_next: "lex_json s = LDelim CHR '','' s0 \<Longrightarrow> lex_json s0 = LValue (JString k) s1 \<Longrightarrow>
    lex_json s1 = LDelim CHR '':'' s2 \<Longrightarrow> json_value s2 v s3 \<Longrightarrow> members s3 ms r \<Longrightarrow> members s ((k, v) # ms) r"

text \<open>A JSON text: one value and nothing else.\<close>

definition json_text :: "string \<Rightarrow> json \<Rightarrow> bool" where
  "json_text raw v = (\<exists>r. json_value raw v r \<and> lex_json r = LEnd)"

fun unique_members :: "json \<Rightarrow> bool" where
  "unique_members (JArray vs) = list_all unique_members vs"
| "unique_members (JObject ms) = (distinct (map fst ms) \<and> list_all (\<lambda>m. unique_members (snd m)) ms)"
| "unique_members _ = True"

text \<open>A string literal after its opening quote, and the text after its closing quote: characters, simple escapes, escapes of
  a code unit that is no surrogate, and pairs of escapes of a high and a low surrogate.\<close>

inductive paired_string :: "string \<Rightarrow> string \<Rightarrow> bool" where
  str_end: "paired_string (CHR 0x22 # r) r"
| str_char: "c \<noteq> CHR 0x22 \<Longrightarrow> c \<noteq> CHR 0x5C \<Longrightarrow> 32 \<le> byte c \<Longrightarrow> paired_string s r \<Longrightarrow> paired_string (c # s) r"
| str_simple: "simple_escape e \<noteq> None \<Longrightarrow> paired_string s r \<Longrightarrow> paired_string (CHR 0x5C # e # s) r"
| str_unit: "quad a b c d = Some u \<Longrightarrow> u < 0xD800 \<or> 0xDFFF < u \<Longrightarrow> paired_string s r \<Longrightarrow>
    paired_string (CHR 0x5C # CHR ''u'' # a # b # c # d # s) r"
| str_pair: "quad a b c d = Some u \<Longrightarrow> 0xD800 \<le> u \<Longrightarrow> u \<le> 0xDBFF \<Longrightarrow>
    quad a' b' c' d' = Some w \<Longrightarrow> 0xDC00 \<le> w \<Longrightarrow> w \<le> 0xDFFF \<Longrightarrow>
    paired_string s r \<Longrightarrow>
    paired_string (CHR 0x5C # CHR ''u'' # a # b # c # d # CHR 0x5C # CHR ''u'' # a' # b' # c' # d' # s) r"

text \<open>A text whose lexemes, up to the end, are delimiters, words, numbers and paired strings.\<close>

inductive paired_text :: "string \<Rightarrow> bool" where
  text_end: "lex_json s = LEnd \<Longrightarrow> paired_text s"
| text_delim: "lex_json s = LDelim c r \<Longrightarrow> paired_text r \<Longrightarrow> paired_text s"
| text_word: "lex_json s = LValue v r \<Longrightarrow> (\<And>k. v \<noteq> JString k) \<Longrightarrow> paired_text r \<Longrightarrow> paired_text s"
| text_string: "dropWhile is_json_space s = CHR 0x22 # t \<Longrightarrow> paired_string t r \<Longrightarrow> paired_text r \<Longrightarrow> paired_text s"

section \<open>What a token does\<close>

text \<open>Where a value may come: its text may follow a separator, and the state it leaves.\<close>

fun value_position :: "token_state \<Rightarrow> bool" where
  "value_position TopValue = True"
| "value_position ArrayStart = True"
| "value_position ArrayComma = True"
| "value_position ObjectColon = True"
| "value_position _ = False"

fun entered :: "token_state \<Rightarrow> token_state" where
  "entered ArrayComma = ArrayValue"
| "entered ObjectColon = ObjectValue"
| "entered ObjectComma = ObjectKey"
| "entered st = st"

fun separator :: "token_state \<Rightarrow> char option" where
  "separator ArrayComma = Some CHR '',''"
| "separator ObjectColon = Some CHR '':''"
| "separator ObjectComma = Some CHR '',''"
| "separator st = None"

definition value_start :: "token_state \<Rightarrow> string \<Rightarrow> string option" where
  "value_start st s =
     (case separator st of
        None \<Rightarrow> Some s
      | Some c \<Rightarrow> (case lex_json s of LDelim c' r \<Rightarrow> if c' = c then Some r else None | _ \<Rightarrow> None))"

abbreviation at :: "string \<Rightarrow> token_state \<Rightarrow> token_state list \<Rightarrow> decoder" where
  "at s st stk \<equiv> \<lparr>dc_rest = s, dc_state = st, dc_stack = stk\<rparr>"

lemma decoder_eta: "d = at (dc_rest d) (dc_state d) (dc_stack d)"
  by simp

lemma Token_start:
  assumes "value_start st s = Some s'"
  shows "Token (at s st stk) = Token (at s' (entered st) stk)"
  using assms
  by (cases st)
    (auto simp: value_start_def Token.simps [of "at s ArrayComma stk"] Token.simps [of "at s ObjectColon stk"]
      Token.simps [of "at s ObjectComma stk"] split: lexeme.splits if_splits)

lemma value_start_le: "value_start st s = Some s' \<Longrightarrow> length s' \<le> length s"
  using lex_shorter [of s]
  by (auto simp: value_start_def less_imp_le split: option.splits lexeme.splits if_splits)

lemma entered_allowed [simp]: "value_position st \<Longrightarrow> tokenValueAllowed (entered st)"
  by (cases st) auto

lemma entered_not_key [simp]: "value_position st \<Longrightarrow> entered st \<noteq> ObjectStart \<and> entered st \<noteq> ObjectKey"
  by (cases st) auto

lemma value_token_allowed [simp]:
  "tokenValueAllowed (dc_state d) \<Longrightarrow>
   value_token v r d = Inr (TValue v, d\<lparr>dc_rest := r, dc_state := tokenValueEnd (dc_state d)\<rparr>)"
  by (cases "dc_state d"; cases v) (auto simp: value_token_def)

lemma open_bracket_allowed [simp]:
  "tokenValueAllowed (dc_state d) \<Longrightarrow> open_bracket c st r d = Inr (TDelim c, at r st (dc_state d # dc_stack d))"
  by (simp add: open_bracket_def)

lemma Token_value:
  assumes "value_position st" "value_start st s = Some s'" "lex_json s' = LValue v r"
  shows "Token (at s st stk) = Inr (TValue v, at r (tokenValueEnd (entered st)) stk)"
  using assms Token_start [OF assms(2), of stk] by (simp add: Token.simps [of "at s' (entered st) stk"])

lemma Token_open:
  assumes "value_position st" "value_start st s = Some s'"
  shows "lex_json s' = LDelim CHR ''['' r \<Longrightarrow>
      Token (at s st stk) = Inr (TDelim CHR ''['', at r ArrayStart (entered st # stk))"
    and "lex_json s' = LDelim CHR ''{'' r \<Longrightarrow>
      Token (at s st stk) = Inr (TDelim CHR ''{'', at r ObjectStart (entered st # stk))"
  using assms Token_start [OF assms(2), of stk] by (simp_all add: Token.simps [of "at s' (entered st) stk"])

lemma Token_close:
  "lex_json s = LDelim CHR '']'' r \<Longrightarrow> st = ArrayStart \<or> st = ArrayComma \<Longrightarrow>
    Token (at s st stk) = Inr (TDelim CHR '']'', at r (tokenValueEnd (hd stk)) (tl stk))"
  "lex_json s = LDelim CHR ''}'' r \<Longrightarrow> st = ObjectStart \<or> st = ObjectComma \<Longrightarrow>
    Token (at s st stk) = Inr (TDelim CHR ''}'', at r (tokenValueEnd (hd stk)) (tl stk))"
  by (auto simp: Token.simps [of "at s st stk"] close_bracket_def)

lemma Token_key:
  assumes "st = ObjectStart \<or> st = ObjectComma" "value_start st s = Some s'" "lex_json s' = LValue (JString k) r"
  shows "Token (at s st stk) = Inr (TValue (JString k), at r ObjectColon stk)"
  using assms Token_start [OF assms(2), of stk]
  by (auto simp: Token.simps [of "at s' (entered st) stk"] value_token_def)

text \<open>And conversely, what a token tells about the text.\<close>

lemma lex_is_delim: "lex_json s = LDelim c r \<Longrightarrow> is_delim c"
  by (auto simp: lex_json_def split: list.splits if_splits option.splits)

lemma Token_not_close:
  assumes "Token (at s st stk) = Inr (t, d)" "t \<noteq> TDelim CHR '']''" "t \<noteq> TDelim CHR ''}''"
    and "separator st = Some c"
  shows "\<exists>r. lex_json s = LDelim c r"
  using assms Token.simps [of "at s st stk"]
  by (cases st)
    (auto simp: value_token_def open_bracket_def close_bracket_def is_delim_def dest!: lex_is_delim
      split: lexeme.splits if_splits json.splits)

lemma Token_Inr_start:
  assumes "Token (at s st stk) = Inr (t, d)" "t \<noteq> TDelim CHR '']''" "t \<noteq> TDelim CHR ''}''"
  obtains s' where "value_start st s = Some s'" "Token (at s' (entered st) stk) = Inr (t, d)"
proof (cases "separator st")
  case None
  then have "value_start st s = Some s" by (simp add: value_start_def)
  with Token_start [OF this, of stk] assms(1) that show ?thesis by simp
next
  case (Some c)
  with Token_not_close [OF assms Some] obtain r where "lex_json s = LDelim c r" by blast
  with Some have "value_start st s = Some r" by (simp add: value_start_def)
  with Token_start [OF this, of stk] assms(1) that show ?thesis by simp
qed

lemma Token_valueD:
  assumes "Token (at s st stk) = Inr (TValue v, d)" "value_position st"
  obtains s' r where "value_start st s = Some s'" "lex_json s' = LValue v r"
    "d = at r (tokenValueEnd (entered st)) stk"
proof -
  obtain s' where s': "value_start st s = Some s'" "Token (at s' (entered st) stk) = Inr (TValue v, d)"
    by (rule Token_Inr_start [OF assms(1)]) auto
  then show ?thesis using that entered_allowed [OF assms(2)] Token.simps [of "at s' (entered st) stk"]
    by (cases st) (auto simp: open_bracket_def close_bracket_def split: lexeme.splits if_splits)
qed

lemma Token_openD:
  assumes "Token (at s st stk) = Inr (TDelim c, d)" "value_position st" "c = CHR ''['' \<or> c = CHR ''{''"
  obtains s' r where "value_start st s = Some s'" "lex_json s' = LDelim c r"
    "d = at r (if c = CHR ''['' then ArrayStart else ObjectStart) (entered st # stk)"
proof -
  obtain s' where s': "value_start st s = Some s'" "Token (at s' (entered st) stk) = Inr (TDelim c, d)"
    by (rule Token_Inr_start [OF assms(1)]) (use assms(3) in auto)
  then show ?thesis using that entered_allowed [OF assms(2)] Token.simps [of "at s' (entered st) stk"] assms(3)
    by (cases st) (auto simp: open_bracket_def close_bracket_def split: lexeme.splits if_splits)
qed

lemma Token_keyD:
  assumes "Token (at s st stk) = Inr (TValue (JString k), d)" "st = ObjectStart \<or> st = ObjectComma"
  obtains s' r where "value_start st s = Some s'" "lex_json s' = LValue (JString k) r" "d = at r ObjectColon stk"
proof -
  obtain s' where s': "value_start st s = Some s'" "Token (at s' (entered st) stk) = Inr (TValue (JString k), d)"
    by (rule Token_Inr_start [OF assms(1)]) auto
  then show ?thesis using that Token.simps [of "at s' (entered st) stk"] assms(2)
    by (auto simp: open_bracket_def close_bracket_def value_token_def split: lexeme.splits if_splits json.splits)
qed

lemma Token_separated:
  "lex_json s = LDelim CHR '','' r \<Longrightarrow> st = ArrayComma \<or> st = ObjectComma \<Longrightarrow>
    Token (at s st stk) = Inr (TDelim c, d) \<Longrightarrow> c \<noteq> CHR '']'' \<and> c \<noteq> CHR ''}''"
  using Token.simps [of "at s st stk"] Token.simps [of "at r (entered st) stk"]
  by (auto simp: open_bracket_def close_bracket_def value_token_def split: lexeme.splits if_splits json.splits)

lemma Token_closeD:
  assumes "Token (at s st stk) = Inr (TDelim c, d)"
    and "c = CHR '']'' \<and> (st = ArrayStart \<or> st = ArrayComma) \<or> c = CHR ''}'' \<and> (st = ObjectStart \<or> st = ObjectComma)"
  obtains r where "lex_json s = LDelim c r" "d = at r (tokenValueEnd (hd stk)) (tl stk)"
  using assms that Token.simps [of "at s st stk"] Token_separated [of s _ st stk c d] lex_is_delim [of s]
  by (auto simp: open_bracket_def close_bracket_def value_token_def is_delim_def
      split: lexeme.splits if_splits json.splits)

lemma More_iff:
  "More (at s st stk) \<longleftrightarrow>
     (case lex_json s of LEnd \<Rightarrow> False | LDelim c _ \<Rightarrow> c \<noteq> CHR '']'' \<and> c \<noteq> CHR ''}'' | _ \<Rightarrow> True)"
  by (cases "dropWhile is_json_space s")
    (auto simp: More_def lex_json_def is_delim_def simp del: dropWhile_eq_Nil_conv split: option.splits)

section \<open>The reader accepts only the grammar\<close>

definition body_of :: "token_state \<Rightarrow> string \<Rightarrow> json list \<Rightarrow> string \<Rightarrow> bool" where
  "body_of st s vs r = (if st = ArrayStart then array_body s vs r else elements s vs r)"

definition members_of :: "token_state \<Rightarrow> string \<Rightarrow> (string \<times> json) list \<Rightarrow> string \<Rightarrow> bool" where
  "members_of st s ms r = (if st = ObjectStart then object_body s ms r else members s ms r)"

definition value_read :: "nat \<Rightarrow> bool" where
  "value_read k =
     (\<forall>s st stk v d. value_position st \<longrightarrow> decode_value k (at s st stk) = Inr (v, d) \<longrightarrow>
        (\<exists>s' r. value_start st s = Some s' \<and> json_value s' v r \<and> unique_members v \<and>
           d = at r (tokenValueEnd (entered st)) stk))"

lemma value_readD:
  assumes "value_read k" "decode_value k (at s st stk) = Inr (v, d)" "value_position st"
  obtains s' r where "value_start st s = Some s'" "json_value s' v r" "unique_members v"
    "d = at r (tokenValueEnd (entered st)) stk"
  using assms unfolding value_read_def by blast

definition elements_read :: "nat \<Rightarrow> bool" where
  "elements_read k =
     (\<forall>s st stk acc v d. st = ArrayStart \<or> st = ArrayComma \<longrightarrow> decode_elements k acc (at s st stk) = Inr (v, d) \<longrightarrow>
        (\<exists>vs r. v = JArray (acc @ vs) \<and> body_of st s vs r \<and> list_all unique_members vs \<and>
           d = at r (tokenValueEnd (hd stk)) (tl stk)))"

definition members_read :: "nat \<Rightarrow> bool" where
  "members_read k =
     (\<forall>s st stk acc v d. st = ObjectStart \<or> st = ObjectComma \<longrightarrow> distinct (map fst acc) \<longrightarrow>
        decode_members k acc (at s st stk) = Inr (v, d) \<longrightarrow>
        (\<exists>ms r. v = JObject (acc @ ms) \<and> members_of st s ms r \<and> distinct (map fst (acc @ ms)) \<and>
           list_all (\<lambda>m. unique_members (snd m)) ms \<and> d = at r (tokenValueEnd (hd stk)) (tl stk)))"

lemma elements_readD:
  assumes "elements_read k" "decode_elements k acc (at s st stk) = Inr (v, d)" "st = ArrayStart \<or> st = ArrayComma"
  obtains vs r where "v = JArray (acc @ vs)" "body_of st s vs r" "list_all unique_members vs"
    "d = at r (tokenValueEnd (hd stk)) (tl stk)"
  using assms unfolding elements_read_def by blast

lemma members_readD:
  assumes "members_read k" "decode_members k acc (at s st stk) = Inr (v, d)" "st = ObjectStart \<or> st = ObjectComma"
    and "distinct (map fst acc)"
  obtains ms r where "v = JObject (acc @ ms)" "members_of st s ms r" "distinct (map fst (acc @ ms))"
    "list_all (\<lambda>m. unique_members (snd m)) ms" "d = at r (tokenValueEnd (hd stk)) (tl stk)"
  using assms unfolding members_read_def by blast

lemma literal_unique: "lex_json s = LValue v r \<Longrightarrow> unique_members v"
  by (auto simp: lex_json_def scan_value_def scan_word_def split: list.splits if_splits option.splits)

lemma value_read_Suc:
  assumes "elements_read k" "members_read k"
  shows "value_read (Suc k)"
  unfolding value_read_def
proof (intro allI impI)
  fix s st stk v d
  assume pos: "value_position st" and dec: "decode_value (Suc k) (at s st stk) = Inr (v, d)"
  then obtain t d1 where tok: "Token (at s st stk) = Inr (t, d1)" by (auto split: sum.splits)
  show "\<exists>s' r. value_start st s = Some s' \<and> json_value s' v r \<and> unique_members v \<and>
      d = at r (tokenValueEnd (entered st)) stk"
  proof (cases t)
    case (TValue w)
    with dec tok have "w = v" "d1 = d" by auto
    with TValue tok have "Token (at s st stk) = Inr (TValue v, d)" by simp
    from Token_valueD [OF this pos] show ?thesis using literal literal_unique by metis
  next
    case (TDelim c)
    with dec tok have c: "c = CHR ''['' \<or> c = CHR ''{''" by (auto split: if_splits)
    from tok TDelim have "Token (at s st stk) = Inr (TDelim c, d1)" by simp
    from Token_openD [OF this pos c] obtain s' r where s': "value_start st s = Some s'" "lex_json s' = LDelim c r"
      "d1 = at r (if c = CHR ''['' then ArrayStart else ObjectStart) (entered st # stk)" .
    show ?thesis
    proof (cases "c = CHR ''[''")
      case True
      with dec tok TDelim s'(3) have "decode_elements k [] (at r ArrayStart (entered st # stk)) = Inr (v, d)" by simp
      from elements_readD [OF assms(1) this] obtain vs r' where "v = JArray vs" "array_body r vs r'"
        "list_all unique_members vs" "d = at r' (tokenValueEnd (entered st)) stk"
        by (auto simp: body_of_def)
      with s' True show ?thesis using array [of s' r vs r'] by auto
    next
      case False
      with c have "c = CHR ''{''" by simp
      with dec tok TDelim s'(3) have "decode_members k [] (at r ObjectStart (entered st # stk)) = Inr (v, d)" by simp
      from members_readD [OF assms(2) this] obtain ms r' where "v = JObject ms" "object_body r ms r'"
        "distinct (map fst ms)" "list_all (\<lambda>m. unique_members (snd m)) ms"
        "d = at r' (tokenValueEnd (entered st)) stk"
        by (auto simp: members_of_def)
      with s' \<open>c = CHR ''{''\<close> show ?thesis using object [of s' r ms r'] by auto
    qed
  qed
qed

lemma body_of_next:
  assumes "value_start st s = Some s'" "json_value s' v r1" "elements r1 vs r" "st = ArrayStart \<or> st = ArrayComma"
  shows "body_of st s (v # vs) r"
  using assms
  by (auto simp: body_of_def value_start_def intro: array_first elements_next split: lexeme.splits if_splits)

lemma members_of_next:
  assumes "value_start st s = Some s0" "lex_json s0 = LValue (JString k) s1" "value_start ObjectColon s1 = Some s2"
    and "json_value s2 v s3" "members s3 ms r" "st = ObjectStart \<or> st = ObjectComma"
  shows "members_of st s ((k, v) # ms) r"
  using assms
  by (auto simp: members_of_def value_start_def intro: object_first members_next split: lexeme.splits if_splits)

lemma elements_read_Suc:
  assumes "value_read k" "elements_read k"
  shows "elements_read (Suc k)"
  unfolding elements_read_def
proof (intro allI impI)
  fix s st stk acc v d
  assume st: "st = ArrayStart \<or> st = ArrayComma" and dec: "decode_elements (Suc k) acc (at s st stk) = Inr (v, d)"
  show "\<exists>vs r. v = JArray (acc @ vs) \<and> body_of st s vs r \<and> list_all unique_members vs \<and>
      d = at r (tokenValueEnd (hd stk)) (tl stk)"
  proof (cases "More (at s st stk)")
    case True
    with dec obtain w d1 where w: "decode_value k (at s st stk) = Inr (w, d1)"
      and rest: "decode_elements k (acc @ [w]) d1 = Inr (v, d)" by (auto split: sum.splits)
    from st have "value_position st" by auto
    from value_readD [OF assms(1) w this] obtain s' r1 where s': "value_start st s = Some s'" "json_value s' w r1"
      "unique_members w" "d1 = at r1 (tokenValueEnd (entered st)) stk" .
    have "tokenValueEnd (entered st) = ArrayComma" using st by auto
    with rest s'(4) have "decode_elements k (acc @ [w]) (at r1 ArrayComma stk) = Inr (v, d)" by simp
    from elements_readD [OF assms(2) this] obtain vs r where vs: "v = JArray ((acc @ [w]) @ vs)" "elements r1 vs r"
      "list_all unique_members vs" "d = at r (tokenValueEnd (hd stk)) (tl stk)"
      by (auto simp: body_of_def)
    with body_of_next [OF s'(1,2) vs(2) st] s'(3) show ?thesis
      by (intro exI [of _ "w # vs"] exI [of _ r]) simp
  next
    case False
    with dec have "Token (at s st stk) = Inr (TDelim CHR '']'', d) \<and> v = JArray acc"
      by (auto split: sum.splits prod.splits token.splits if_splits)
    then show ?thesis using st Token_closeD [of s st stk "CHR '']''" d]
      by (auto simp: body_of_def intro: array_empty elements_end)
  qed
qed

lemma members_read_Suc:
  assumes "value_read k" "members_read k"
  shows "members_read (Suc k)"
  unfolding members_read_def
proof (intro allI impI)
  fix s st stk acc v d
  assume st: "st = ObjectStart \<or> st = ObjectComma" and acc: "distinct (map fst acc)"
    and dec: "decode_members (Suc k) acc (at s st stk) = Inr (v, d)"
  show "\<exists>ms r. v = JObject (acc @ ms) \<and> members_of st s ms r \<and> distinct (map fst (acc @ ms)) \<and>
      list_all (\<lambda>m. unique_members (snd m)) ms \<and> d = at r (tokenValueEnd (hd stk)) (tl stk)"
  proof (cases "More (at s st stk)")
    case True
    with dec obtain key d0 w d1 where key: "Token (at s st stk) = Inr (TValue (JString key), d0)" "map_of acc key = None"
      and w: "decode_value k d0 = Inr (w, d1)" and rest: "decode_members k (acc @ [(key, w)]) d1 = Inr (v, d)"
      by (auto split: sum.splits token.splits json.splits if_splits)
    from Token_keyD [OF key(1) st] obtain s0 s1 where s0: "value_start st s = Some s0"
      "lex_json s0 = LValue (JString key) s1" "d0 = at s1 ObjectColon stk" .
    from value_readD [OF assms(1) w [unfolded s0(3)]] obtain s2 s3 where s2: "value_start ObjectColon s1 = Some s2"
      "json_value s2 w s3" "unique_members w" "d1 = at s3 ObjectComma stk" by auto
    have "distinct (map fst (acc @ [(key, w)]))" using acc key(2) by (auto simp: map_of_eq_None_iff)
    from members_readD [OF assms(2) rest [unfolded s2(4)] _ this] obtain ms r
      where ms: "v = JObject ((acc @ [(key, w)]) @ ms)" "members s3 ms r"
        "distinct (map fst ((acc @ [(key, w)]) @ ms))" "list_all (\<lambda>m. unique_members (snd m)) ms"
        "d = at r (tokenValueEnd (hd stk)) (tl stk)"
      by (auto simp: members_of_def)
    with members_of_next [OF s0(1,2) s2(1,2) ms(2) st] s2(3) show ?thesis
      by (intro exI [of _ "(key, w) # ms"] exI [of _ r]) simp
  next
    case False
    with dec have "Token (at s st stk) = Inr (TDelim CHR ''}'', d) \<and> v = JObject acc"
      by (auto split: sum.splits prod.splits token.splits if_splits)
    then show ?thesis using st acc Token_closeD [of s st stk "CHR ''}''" d]
      by (auto simp: members_of_def intro: object_empty members_end)
  qed
qed

lemma decode_sound: "value_read k \<and> elements_read k \<and> members_read k"
proof (induction k)
  case 0
  show ?case by (simp add: value_read_def elements_read_def members_read_def)
next
  case (Suc k)
  then show ?case using value_read_Suc elements_read_Suc members_read_Suc by blast
qed

section \<open>The reader accepts all of the grammar\<close>

lemma grammar_shorter:
  "json_value s v r \<Longrightarrow> length r < length s"
  "array_body s vs r \<Longrightarrow> length r < length s"
  "elements s vs r \<Longrightarrow> length r < length s"
  "object_body s ms r \<Longrightarrow> length r < length s"
  "members s ms r \<Longrightarrow> length r < length s"
  by (induction rule: json_value_array_body_elements_object_body_members.inducts)
    (auto dest!: lex_shorter [OF disjI1] lex_shorter [OF disjI2])

lemma json_value_More:
  assumes "json_value s v r"
  shows "More (at s st stk)"
  using assms by cases (auto simp: More_iff)

lemmas lex_less = lex_shorter [OF disjI1] lex_shorter [OF disjI2]

text \<open>A derivation is read with any fuel above twice the length of the text.\<close>

lemma decode_complete:
  "json_value s' v r \<Longrightarrow> value_position st \<Longrightarrow> value_start st s = Some s' \<Longrightarrow> 2 * length s < k \<Longrightarrow>
     unique_members v \<Longrightarrow> decode_value k (at s st stk) = Inr (v, at r (tokenValueEnd (entered st)) stk)"
  "array_body s0 vs r \<Longrightarrow> Suc (2 * length s0) < k \<Longrightarrow> list_all unique_members vs \<Longrightarrow>
     decode_elements k acc (at s0 ArrayStart stk) = Inr (JArray (acc @ vs), at r (tokenValueEnd (hd stk)) (tl stk))"
  "elements s0 vs r \<Longrightarrow> Suc (2 * length s0) < k \<Longrightarrow> list_all unique_members vs \<Longrightarrow>
     decode_elements k acc (at s0 ArrayComma stk) = Inr (JArray (acc @ vs), at r (tokenValueEnd (hd stk)) (tl stk))"
  "object_body s0 ms r \<Longrightarrow> Suc (2 * length s0) < k \<Longrightarrow> list_all (\<lambda>m. unique_members (snd m)) ms \<Longrightarrow>
     distinct (map fst (obj @ ms)) \<Longrightarrow>
     decode_members k obj (at s0 ObjectStart stk) = Inr (JObject (obj @ ms), at r (tokenValueEnd (hd stk)) (tl stk))"
  "members s0 ms r \<Longrightarrow> Suc (2 * length s0) < k \<Longrightarrow> list_all (\<lambda>m. unique_members (snd m)) ms \<Longrightarrow>
     distinct (map fst (obj @ ms)) \<Longrightarrow>
     decode_members k obj (at s0 ObjectComma stk) = Inr (JObject (obj @ ms), at r (tokenValueEnd (hd stk)) (tl stk))"
proof (induction arbitrary: st s k stk and k acc stk and k acc stk and k obj stk and k obj stk
    rule: json_value_array_body_elements_object_body_members.inducts)
  case (literal s' v r)
  then obtain j where "k = Suc j" by (cases k) auto
  with literal show ?case by (simp add: Token_value)
next
  case (array s' s1 vs r)
  then obtain j where k: "k = Suc j" by (cases k) auto
  have "Suc (2 * length s1) < j"
    using array.prems k lex_less(1) [OF array.hyps(1)] value_start_le [OF array.prems(2)] by simp
  with array k show ?case by (simp add: Token_open(1) [OF array.prems(1,2) array.hyps(1)])
next
  case (object s' s1 ms r)
  then obtain j where k: "k = Suc j" by (cases k) auto
  have "Suc (2 * length s1) < j"
    using object.prems k lex_less(1) [OF object.hyps(1)] value_start_le [OF object.prems(2)] by simp
  with object k show ?case by (simp add: Token_open(2) [OF object.prems(1,2) object.hyps(1)])
next
  case (array_empty s r)
  then obtain j where "k = Suc j" by (cases k) auto
  with array_empty show ?case by (simp add: More_iff Token_close)
next
  case (array_first s v s1 vs r)
  then obtain j where k: "k = Suc j" by (cases k) auto
  have "Suc (2 * length s1) < j" using array_first.prems k grammar_shorter(1) [OF array_first.hyps(1)] by simp
  with array_first k json_value_More [OF array_first.hyps(1)] show ?case
    by (simp add: array_first.IH(1) [where s = s] value_start_def)
next
  case (elements_end s r)
  then obtain j where "k = Suc j" by (cases k) auto
  with elements_end show ?case by (simp add: More_iff Token_close)
next
  case (elements_next s s1 v s2 vs r)
  then obtain j where k: "k = Suc j" by (cases k) auto
  have less: "Suc (2 * length s2) < j"
    using elements_next.prems k grammar_shorter(1) [OF elements_next.hyps(2)] lex_less(1) [OF elements_next.hyps(1)]
    by simp
  have "decode_value j (at s ArrayComma stk) = Inr (v, at s2 ArrayComma stk)"
    using elements_next.IH(1) [of ArrayComma s j stk] elements_next.prems elements_next.hyps(1) k
    by (simp add: value_start_def)
  with elements_next less k show ?case by (simp add: More_iff)
next
  case (object_empty s r)
  then obtain j where "k = Suc j" by (cases k) auto
  with object_empty show ?case by (simp add: More_iff Token_close)
next
  case (object_first s key s1 s2 v s3 ms r)
  then obtain j where k: "k = Suc j" by (cases k) auto
  note shorter = lex_less(2) [OF object_first.hyps(1)] lex_less(1) [OF object_first.hyps(2)]
    grammar_shorter(1) [OF object_first.hyps(3)]
  have "Token (at s ObjectStart stk) = Inr (TValue (JString key), at s1 ObjectColon stk)"
    using object_first.hyps(1) by (intro Token_key) (auto simp: value_start_def)
  moreover have "decode_value j (at s1 ObjectColon stk) = Inr (v, at s3 ObjectComma stk)"
    using object_first.IH(1) [of ObjectColon s1 j stk] object_first.prems object_first.hyps(2) k shorter
    by (simp add: value_start_def)
  ultimately show ?case using object_first shorter k
    by (simp add: More_iff map_of_eq_None_iff)
next
  case (members_end s r)
  then obtain j where "k = Suc j" by (cases k) auto
  with members_end show ?case by (simp add: More_iff Token_close)
next
  case (members_next s s0 key s1 s2 v s3 ms r)
  then obtain j where k: "k = Suc j" by (cases k) auto
  note shorter = lex_less(1) [OF members_next.hyps(1)] lex_less(2) [OF members_next.hyps(2)]
    lex_less(1) [OF members_next.hyps(3)] grammar_shorter(1) [OF members_next.hyps(4)]
  have "Token (at s ObjectComma stk) = Inr (TValue (JString key), at s1 ObjectColon stk)"
    using members_next.hyps(1,2) by (intro Token_key) (auto simp: value_start_def)
  moreover have "decode_value j (at s1 ObjectColon stk) = Inr (v, at s3 ObjectComma stk)"
    using members_next.IH(1) [of ObjectColon s1 j stk] members_next.prems members_next.hyps(3) k shorter
    by (simp add: value_start_def)
  ultimately show ?case using members_next shorter k
    by (simp add: More_iff map_of_eq_None_iff)
qed

section \<open>The fuel suffices\<close>

lemma Token_shorter: "Token d = Inr (t, d') \<Longrightarrow> length (dc_rest d') < length (dc_rest d)"
proof (induction d arbitrary: t d' rule: Token.induct)
  case (1 d)
  show ?case
  proof (cases "lex_json (dc_rest d)")
    case (LValue v r)
    with "1.prems" lex_less(2) [OF LValue] show ?thesis
      by (auto simp: Token.simps [of d] value_token_def split: json.splits if_splits)
  next
    case (LDelim c r)
    with "1.prems" "1.IH" [OF LDelim] lex_less(1) [OF LDelim] show ?thesis
      by (fastforce simp: Token.simps [of d] open_bracket_def close_bracket_def split: if_splits)
  qed (use "1.prems" in \<open>simp_all add: Token.simps [of d]\<close>)
qed

lemma Token_not_NoFuel: "Token d \<noteq> Inl NoFuel"
proof (induction d rule: Token.induct)
  case (1 d)
  show ?case
    using "1.IH" by (cases "lex_json (dc_rest d)")
      (auto simp: Token.simps [of d] value_token_def open_bracket_def close_bracket_def split: json.splits)
qed

definition ends_in :: "nat \<Rightarrow> json_error + json \<times> decoder \<Rightarrow> bool" where
  "ends_in n x = (case x of Inl y \<Rightarrow> y \<noteq> NoFuel | Inr (v, d) \<Rightarrow> length (dc_rest d) < n)"

lemma ends_in_mono: "ends_in m x \<Longrightarrow> m \<le> n \<Longrightarrow> ends_in n x"
  by (auto simp: ends_in_def split: sum.splits)

text \<open>Every call uses up input before it spends the fuel.\<close>

lemma decode_ends:
  "(2 * length (dc_rest d) < k \<longrightarrow> ends_in (length (dc_rest d)) (decode_value k d)) \<and>
   (Suc (2 * length (dc_rest d)) < k \<longrightarrow> ends_in (length (dc_rest d)) (decode_members k obj d)) \<and>
   (Suc (2 * length (dc_rest d)) < k \<longrightarrow> ends_in (length (dc_rest d)) (decode_elements k arr d))"
proof (induction k arbitrary: d obj arr)
  case (Suc k)
  have token: "Token d = Inr (t, d1) \<Longrightarrow> length (dc_rest d1) < length (dc_rest d)" for t d1
    by (rule Token_shorter)
  have val: "ends_in (length (dc_rest d)) (decode_value (Suc k) d)" if "2 * length (dc_rest d) < Suc k"
  proof (cases "Token d")
    case (Inr p)
    then obtain t d1 where p: "p = (t, d1)" by (cases p)
    note less = token [OF Inr [unfolded p]]
    then have "Suc (2 * length (dc_rest d1)) < k" using that by simp
    with Suc.IH [of d1] ends_in_mono [OF _ less_imp_le [OF less]] Inr p less show ?thesis
      by (auto simp: ends_in_def [of _ "Inl _"] ends_in_def [of _ "Inr _"] split: token.splits)
  qed (use Token_not_NoFuel [of d] in \<open>auto simp: ends_in_def\<close>)
  have close: "ends_in (length (dc_rest d))
      (case Token d of Inr (TDelim c, d1) \<Rightarrow> if c = e then Inr (f, d1) else Inl (Rejected m) | _ \<Rightarrow> Inl (Rejected m))"
    for e f m
    using token by (auto simp: ends_in_def split: sum.splits token.splits)
  have elem: "ends_in (length (dc_rest d)) (decode_elements (Suc k) arr d)" if "Suc (2 * length (dc_rest d)) < Suc k"
  proof (cases "decode_value k d")
    case (Inl x)
    with Suc.IH [of d] that close show ?thesis by (auto simp: ends_in_def)
  next
    case (Inr p)
    then obtain v d1 where p: "p = (v, d1)" by (cases p)
    have less: "length (dc_rest d1) < length (dc_rest d)" using Suc.IH [of d] that Inr p by (auto simp: ends_in_def)
    then have "ends_in (length (dc_rest d1)) (decode_elements k (arr @ [v]) d1)" using Suc.IH [of d1] that by auto
    with ends_in_mono [OF this less_imp_le [OF less]] Inr p close show ?thesis by auto
  qed
  have memb: "ends_in (length (dc_rest d)) (decode_members (Suc k) obj d)" if "Suc (2 * length (dc_rest d)) < Suc k"
  proof (cases "\<exists>key d0 v d1. Token d = Inr (TValue (JString key), d0) \<and> decode_value k d0 = Inr (v, d1)")
    case True
    then obtain key d0 v d1 where t: "Token d = Inr (TValue (JString key), d0)" "decode_value k d0 = Inr (v, d1)" by blast
    have less: "length (dc_rest d1) < length (dc_rest d)"
      using conjunct1 [OF Suc.IH [of d0]] that t token [OF t(1)] by (auto simp: ends_in_def)
    then have "ends_in (length (dc_rest d1)) (decode_members k (obj @ [(key, v)]) d1)" using Suc.IH [of d1] that by auto
    with ends_in_mono [OF this less_imp_le [OF less]] t close show ?thesis by (auto simp: ends_in_def [of _ "Inl _"])
  next
    case False
    have "decode_value k d0 \<noteq> Inl NoFuel" if "Token d = Inr (TValue (JString key), d0)" for key d0
      using conjunct1 [OF Suc.IH [of d0]] token [OF that] \<open>Suc (2 * length (dc_rest d)) < Suc k\<close> by (auto simp: ends_in_def)
    with False close Token_not_NoFuel [of d] show ?thesis
      by (auto simp: ends_in_def [of _ "Inl _"] split: sum.splits token.splits json.splits)
  qed
  from val elem memb show ?case by blast
qed simp

section \<open>The strict reader against the grammar\<close>

lemma NewDecoder_at [simp]: "NewDecoder raw = at raw TopValue []"
  by (simp add: NewDecoder_def)

lemma Token_top_end: "Token (at r TopValue []) = Inl UnexpectedEnd \<longleftrightarrow> lex_json r = LEnd"
  by (auto simp: Token.simps [of "at r TopValue []"] open_bracket_def close_bracket_def split: lexeme.splits)

lemma decodeUniqueJSON_iff:
  "decodeUniqueJSON raw = Inr v \<longleftrightarrow> json_text raw v \<and> unique_members v"
proof
  assume "decodeUniqueJSON raw = Inr v"
  then obtain d where d: "decode_value (Suc (2 * length raw)) (at raw TopValue []) = Inr (v, d)"
    and e: "Token d = Inl UnexpectedEnd"
    by (auto simp: decodeUniqueJSON_def split: sum.splits json_error.splits)
  have "value_read (Suc (2 * length raw))" using decode_sound by blast
  from value_readD [OF this d] obtain r where "json_value raw v r" "unique_members v" "d = at r TopValue []"
    by (auto simp: value_start_def)
  with e show "json_text raw v \<and> unique_members v" unfolding json_text_def using Token_top_end by blast
next
  assume "json_text raw v \<and> unique_members v"
  then obtain r where r: "json_value raw v r" "lex_json r = LEnd" "unique_members v" by (auto simp: json_text_def)
  from decode_complete(1) [OF r(1), of TopValue raw "Suc (2 * length raw)" "[]"] r
  have "decode_value (Suc (2 * length raw)) (at raw TopValue []) = Inr (v, at r TopValue [])"
    by (simp add: value_start_def)
  with r(2) Token_top_end [of r] show "decodeUniqueJSON raw = Inr v" by (simp add: decodeUniqueJSON_def)
qed

lemma decodeUniqueJSON_fuel: "decodeUniqueJSON raw \<noteq> Inl NoFuel"
  using conjunct1 [OF decode_ends [of "at raw TopValue []" "Suc (2 * length raw)"]] Token_not_NoFuel
  by (auto simp: decodeUniqueJSON_def ends_in_def split: sum.splits json_error.splits)

lemma decodeStrictJSON_Inr:
  "decodeStrictJSON jcs raw = Inr v \<longleftrightarrow>
     ValidString raw \<and> validateJSONSurrogates raw \<and> json_text raw v \<and> unique_members v \<and> jcs raw \<noteq> None"
  using decodeUniqueJSON_iff [of raw v] by (auto simp: decodeStrictJSON_def split: sum.splits)

section \<open>Surrogates\<close>

declare outside.simps [simp del] inside.simps [simp del] scan_string.simps [simp del]

lemma surrogate_ranges:
  "u < 0xD800 \<or> 0xDFFF < u \<longleftrightarrow> \<not> high_surrogate u \<and> \<not> low_surrogate u"
  "0xD800 \<le> u \<Longrightarrow> u \<le> 0xDBFF \<Longrightarrow> high_surrogate u"
  "0xDC00 \<le> u \<Longrightarrow> u \<le> 0xDFFF \<Longrightarrow> low_surrogate u"
  "high_surrogate u \<Longrightarrow> 0xD800 \<le> u \<and> u \<le> 0xDBFF"
  "low_surrogate u \<Longrightarrow> 0xDC00 \<le> u \<and> u \<le> 0xDFFF"
  by (auto simp: high_surrogate_def low_surrogate_def)

lemma hex_quad:
  assumes "quad a b c d = Some u"
  shows "decodeHexQuad (a # b # c # d # s) = Some u"
proof -
  have "hex_value (CHR ''-'') = None" "hex_value (CHR ''+'') = None" by (simp_all add: hex_value_def in_range_def byte_def)
  with assms have "a \<noteq> CHR ''-''" "a \<noteq> CHR ''+''" by (auto simp: quad_def split: option.splits)
  with assms show ?thesis by (auto simp: decodeHexQuad_def quad_def algebra_simps split: option.splits)
qed

lemma hex_value_bound: "hex_value x = Some n \<Longrightarrow> 0 \<le> n \<and> n < 16"
  by (auto simp: hex_value_def in_range_def split: if_splits)

lemma hex_three:
  assumes "hex_number 0 [b, c, d] = Some n"
  shows "0 \<le> n" "n < 4096"
  using assms by (auto split: option.splits dest!: hex_value_bound)

lemma hex_low:
  assumes "decodeHexQuad (a # b # c # d # s) = Some w" "low_surrogate w"
  shows "quad a b c d = Some w"
proof -
  have "a \<noteq> CHR ''-''"
  proof
    assume "a = CHR ''-''"
    with assms(1) obtain n where "hex_number 0 [b, c, d] = Some n" "w = - n"
      by (auto simp: decodeHexQuad_def simp del: hex_number.simps)
    with hex_three(1) assms(2) show False by (fastforce simp: low_surrogate_def)
  qed
  moreover have "a \<noteq> CHR ''+''"
  proof
    assume "a = CHR ''+''"
    with assms(1) have "hex_number 0 [b, c, d] = Some w"
      by (auto simp: decodeHexQuad_def simp del: hex_number.simps)
    with hex_three(2) assms(2) show False by (fastforce simp: low_surrogate_def)
  qed
  ultimately show ?thesis using assms(1) by (auto simp: decodeHexQuad_def quad_def algebra_simps split: option.splits)
qed

lemma simple_not_u: "simple_escape e \<noteq> None \<Longrightarrow> e \<noteq> CHR ''u''"
  by (auto simp: simple_escape_def)

lemma inside_Cons_simps:
  "inside (CHR 0x22 # s) = outside s"
  "c \<noteq> CHR 0x22 \<Longrightarrow> c \<noteq> CHR 0x5C \<Longrightarrow> inside (c # s) = (32 \<le> byte c \<and> inside s)"
  "e \<noteq> CHR ''u'' \<Longrightarrow> inside (CHR 0x5C # e # s) = inside s"
  by (auto simp: inside.simps)

lemma inside_unit:
  assumes "quad a b c d = Some u" "\<not> high_surrogate u"
  shows "inside (CHR 0x5C # CHR ''u'' # a # b # c # d # s) = (\<not> low_surrogate u \<and> inside s)"
  by (simp add: inside.simps(2) [of "CHR 0x5C"] hex_quad [OF assms(1)] assms(2))

lemma low_escape_hex:
  "low_escape (CHR 0x5C # CHR ''u'' # a # b # c # d # s) \<noteq> None \<longleftrightarrow>
     (\<exists>w. decodeHexQuad (a # b # c # d # s) = Some w \<and> low_surrogate w)"
proof (cases "quad a b c d")
  case None
  with hex_low [of a b c d s] show ?thesis by auto
next
  case (Some u)
  with hex_quad [OF Some] show ?thesis by auto
qed

lemma inside_pair:
  assumes "quad a b c d = Some u" "high_surrogate u"
  shows "inside (CHR 0x5C # CHR ''u'' # a # b # c # d # s) = (low_escape s \<noteq> None \<and> inside (drop 6 s))"
proof -
  let ?no = "length s < 6 \<or> s ! 0 \<noteq> CHR 0x5C \<or> s ! 1 \<noteq> CHR ''u''"
  have eq: "inside (CHR 0x5C # CHR ''u'' # a # b # c # d # s) =
      (if ?no then False
       else (case decodeHexQuad (drop 2 s) of
               None \<Rightarrow> False | Some second \<Rightarrow> if \<not> low_surrogate second then False else inside (drop 6 s)))"
    by (simp add: inside.simps(2) [of "CHR 0x5C"] hex_quad [OF assms(1)] assms(2) Let_def)
  show ?thesis
  proof (cases ?no)
    case True
    then have "low_escape s = None" by (cases s rule: low_escape.cases) auto
    with True show ?thesis unfolding eq by simp
  next
    case False
    then obtain p q v x t where s: "s = CHR 0x5C # CHR ''u'' # p # q # v # x # t"
      by (cases s rule: low_escape.cases) auto
    have low: "low_escape s \<noteq> None \<longleftrightarrow> (\<exists>w. decodeHexQuad (p # q # v # x # t) = Some w \<and> low_surrogate w)"
      unfolding s by (rule low_escape_hex)
    have "drop 2 s = p # q # v # x # t" by (simp add: s)
    then show ?thesis unfolding eq if_not_P [OF False] low by (auto split: option.split)
  qed
qed

lemma scan_end: "scan_string (CHR 0x22 # s) = Some ([], s)"
  by (simp add: scan_string.simps(2) [of "CHR 0x22"])

lemma paired_inside: "paired_string t r \<Longrightarrow> inside t = outside r"
proof (induction rule: paired_string.induct)
  case (str_pair a b c d u a' b' c' d' w s r)
  then show ?case
    using inside_pair [OF str_pair(1) surrogate_ranges(2) [OF str_pair(2,3)]] surrogate_ranges(3) [OF str_pair(5,6)] by simp
next
  case (str_simple e s r)
  then show ?case using inside_Cons_simps(3) [OF simple_not_u [OF str_simple(1)]] by simp
qed (simp_all add: inside_Cons_simps inside_unit surrogate_ranges(1))

lemma inside_unicode:
  assumes u: "scan_unicode s = Some (p, r1)" and i: "inside (CHR 0x5C # CHR ''u'' # s)"
    and IH: "inside r1 \<Longrightarrow> paired_string r1 r"
  shows "paired_string (CHR 0x5C # CHR ''u'' # s) r"
proof -
  from u obtain x y z v t n where s: "s = x # y # z # v # t" and q: "quad x y z v = Some n"
    by (auto simp: scan_unicode_def split: list.splits option.splits)
  show ?thesis
  proof (cases "high_surrogate n")
    case False
    with u s q have "r1 = t" by (auto simp: scan_unicode_def)
    with IH i s inside_unit [OF q False] have "\<not> low_surrogate n" "paired_string t r" by auto
    with False surrogate_ranges(1) str_unit [OF q] s show ?thesis by blast
  next
    case high: True
    from inside_pair [OF q high] i s have low: "low_escape t \<noteq> None" "inside (drop 6 t)" by auto
    then obtain w where w: "low_escape t = Some w" by auto
    then obtain x' y' z' v' t' where t: "t = CHR 0x5C # CHR ''u'' # x' # y' # z' # v' # t'"
      "quad x' y' z' v' = Some w" "low_surrogate w"
      by (cases t rule: low_escape.cases) (auto split: if_splits option.splits)
    from u s q high w t(1) have "r1 = t'" by (auto simp: scan_unicode_def)
    with IH low(2) t(1) have "paired_string t' r" by simp
    with str_pair [OF q _ _ t(2)] surrogate_ranges(4) [OF high] surrogate_ranges(5) [OF t(3)] s t(1)
    show ?thesis by blast
  qed
qed

lemma inside_paired: "scan_string t = Some (k, r) \<Longrightarrow> inside t \<Longrightarrow> paired_string t r"
proof (induction t arbitrary: k rule: scan_string.induct)
  case (2 c cs)
  show ?case
  proof (cases "c = CHR 0x22")
    case True
    with 2(2) show ?thesis by (auto intro: str_end simp: scan_end)
  next
    case quote: False
    from 2(2) quote obtain p r1 k1 where p: "scan_char c cs = Some (p, r1)" "scan_string r1 = Some (k1, r)"
      by (auto simp: scan_string.simps(2) [of c] prepend_Some split: option.splits)
    note IH = 2(1) [OF quote p(1) refl p(2)]
    show ?thesis
    proof (cases "c = CHR 0x5C")
      case False
      with p(1) have "32 \<le> byte c" "r1 = cs" by (auto simp: scan_char_def split: if_splits)
      with IH 2(3) quote False show ?thesis by (auto intro: str_char simp: inside_Cons_simps)
    next
      case True
      with p(1) obtain e s where cs: "cs = e # s" by (auto simp: scan_char_def scan_escape_def split: list.splits)
      show ?thesis
      proof (cases "simple_escape e")
        case (Some x)
        with p(1) True cs have "r1 = s" by (auto simp: scan_char_def scan_escape_def)
        moreover have "simple_escape e \<noteq> None" using Some by simp
        ultimately show ?thesis using IH 2(3) True cs simple_not_u [of e]
          by (auto intro: str_simple simp: inside_Cons_simps)
      next
        case None
        with p(1) True cs have e: "e = CHR ''u''" and u: "scan_unicode s = Some (p, r1)"
          by (auto simp: scan_char_def scan_escape_def split: if_splits)
        from inside_unicode [OF u _ IH] 2(3) True cs e show ?thesis by simp
      qed
    qed
  qed
qed (simp add: inside.simps)

lemma outside_skip: "CHR 0x22 \<notin> set p \<Longrightarrow> outside (p @ s) = outside s"
  by (induction p) (auto simp: outside.simps)

lemma outside_drop: "(\<And>c. f c \<Longrightarrow> c \<noteq> CHR 0x22) \<Longrightarrow> outside (dropWhile f s) = outside s"
  using outside_skip [of "takeWhile f s" "dropWhile f s"] set_takeWhileD [of "CHR 0x22" f s] by auto

lemma outside_space: "outside (dropWhile is_json_space s) = outside s"
  by (rule outside_drop) (auto simp: is_json_space_def)

lemma outside_digits: "outside (dropWhile is_digit s) = outside s"
  by (rule outside_drop) (auto simp: is_digit_def in_range_def byte_def)

text \<open>A scanner of a literal passes over no quote.\<close>

definition quoteless :: "(string \<Rightarrow> (string \<times> string) option) \<Rightarrow> bool" where
  "quoteless f = (\<forall>s p r. f s = Some (p, r) \<longrightarrow> outside s = outside r)"

lemma quoteless_andthen: "quoteless f \<Longrightarrow> quoteless g \<Longrightarrow> quoteless (andthen f g)"
  by (auto simp: quoteless_def andthen_def prepend_Some split: option.splits)

lemma digits_quoteless: "scan_digits q s = Some (p, r) \<Longrightarrow> outside s = outside r"
  by (auto simp: scan_digits_def outside_digits split: if_splits)

lemma sign_quoteless: "quoteless scan_sign"
  by (auto simp: quoteless_def scan_sign_def outside.simps split: list.splits if_splits)

lemma integer_quoteless: "quoteless scan_integer"
  by (auto simp: quoteless_def scan_integer_def outside.simps(2) [of "CHR ''0''"] outside_digits
      split: list.splits if_splits simp del: dropWhile.simps)

lemma fraction_quoteless: "quoteless scan_fraction"
  by (auto simp: quoteless_def scan_fraction_def outside.simps(2) [of "CHR ''.''"] dest: digits_quoteless
      split: list.splits if_splits)

lemma exponent_quoteless: "quoteless scan_exponent"
  by (auto simp: quoteless_def scan_exponent_def outside.simps dest!: digits_quoteless
      split: list.splits if_splits)

lemma number_quoteless: "quoteless scan_number"
  unfolding scan_number_def
  by (intro quoteless_andthen sign_quoteless integer_quoteless fraction_quoteless exponent_quoteless)

lemma word_quoteless:
  assumes "scan_word w v s = Some (x, r)" "CHR 0x22 \<notin> set w"
  shows "outside s = outside r"
proof -
  from assms(1) have "s = w @ r" by (metis append_take_drop_id option.inject prod.inject scan_word_def option.distinct(1))
  with outside_skip [OF assms(2)] show ?thesis by simp
qed

lemma value_quoteless:
  assumes "scan_value c r = Some (v, r')" "c \<noteq> CHR 0x22"
  shows "outside (c # r) = outside r'"
  using assms number_quoteless
  by (auto simp: scan_value_def quoteless_def dest: word_quoteless split: if_splits)

lemma lex_string:
  "lex_json s = LValue (JString k) r \<Longrightarrow> (\<exists>t. dropWhile is_json_space s = CHR 0x22 # t \<and> scan_string t = Some (k, r))"
  by (auto simp: lex_json_def scan_value_def scan_word_def is_delim_def split: list.splits if_splits option.splits)

lemma outside_delim: "is_delim c \<Longrightarrow> outside (c # r) = outside r"
  by (auto simp: is_delim_def outside.simps)

lemma lex_outside:
  "lex_json s = LEnd \<Longrightarrow> outside s"
  "lex_json s = LDelim c r \<Longrightarrow> outside s = outside r"
  using outside_space [of s]
  by (auto simp: lex_json_def outside.simps(1) outside_delim split: list.splits if_splits option.splits)

lemma lex_word:
  assumes "lex_json s = LValue v r" "\<And>k. v \<noteq> JString k"
  shows "outside s = outside r"
proof -
  from assms obtain c t where "dropWhile is_json_space s = c # t" "scan_value c t = Some (v, r)" "c \<noteq> CHR 0x22"
    by (auto simp: lex_json_def scan_value_def split: list.splits if_splits option.splits)
  with value_quoteless outside_space [of s] show ?thesis by metis
qed

text \<open>The scan of a paired text succeeds.\<close>

lemma paired_outside: "paired_text s \<Longrightarrow> outside s"
proof (induction rule: paired_text.induct)
  case (text_string s t r)
  then have "outside (dropWhile is_json_space s)" using paired_inside by (simp add: outside.simps)
  then show ?case by (simp add: outside_space)
qed (auto simp: lex_outside lex_word)

text \<open>What the grammar reads of a scanned text is paired.\<close>

lemma paired_step:
  "lex_json s = LDelim c r \<Longrightarrow> outside s \<Longrightarrow> outside r"
  "lex_json s = LDelim c r \<Longrightarrow> paired_text r \<Longrightarrow> paired_text s"
  by (simp add: lex_outside) (rule text_delim)

lemma paired_literal:
  assumes "lex_json s = LValue v r" "outside s"
  shows "outside r" "paired_text r \<Longrightarrow> paired_text s"
proof -
  have "outside r \<and> (paired_text r \<longrightarrow> paired_text s)"
  proof (cases "\<exists>k. v = JString k")
    case True
    then obtain k t where t: "dropWhile is_json_space s = CHR 0x22 # t" "scan_string t = Some (k, r)"
      using assms(1) lex_string by blast
    with assms(2) outside_space [of s] have "inside t" by (simp add: outside.simps)
    with t(2) have "paired_string t r" by (rule inside_paired)
    with t(1) \<open>inside t\<close> show ?thesis using paired_inside text_string by blast
  next
    case False
    with assms lex_word text_word show ?thesis by metis
  qed
  then show "outside r" "paired_text r \<Longrightarrow> paired_text s" by auto
qed

lemma grammar_paired:
  "json_value s v r \<Longrightarrow> outside s \<Longrightarrow> outside r \<and> (paired_text r \<longrightarrow> paired_text s)"
  "array_body s vs r \<Longrightarrow> outside s \<Longrightarrow> outside r \<and> (paired_text r \<longrightarrow> paired_text s)"
  "elements s vs r \<Longrightarrow> outside s \<Longrightarrow> outside r \<and> (paired_text r \<longrightarrow> paired_text s)"
  "object_body s ms r \<Longrightarrow> outside s \<Longrightarrow> outside r \<and> (paired_text r \<longrightarrow> paired_text s)"
  "members s ms r \<Longrightarrow> outside s \<Longrightarrow> outside r \<and> (paired_text r \<longrightarrow> paired_text s)"
  by (induction rule: json_value_array_body_elements_object_body_members.inducts)
    (use paired_literal paired_step in \<open>blast+\<close>)

lemma surrogates_paired:
  assumes "json_text raw v"
  shows "validateJSONSurrogates raw \<longleftrightarrow> paired_text raw"
proof
  from assms obtain r where r: "json_value raw v r" "lex_json r = LEnd" by (auto simp: json_text_def)
  assume "validateJSONSurrogates raw"
  then have "outside raw" by (simp add: validateJSONSurrogates_def)
  with grammar_paired(1) [OF r(1)] text_end [OF r(2)] show "paired_text raw" by blast
next
  assume "paired_text raw"
  then show "validateJSONSurrogates raw" by (simp add: validateJSONSurrogates_def paired_outside)
qed

declare outside.simps [simp] inside.simps [simp] scan_string.simps [simp]

section \<open>Properties\<close>

text \<open>Property C25: the strict reader is a parser for JSON without duplicate members. For every byte
  string, \<^verbatim>\<open>decodeStrictJSON\<close> returns a value exactly when the bytes are UTF-8, the text is
  derived by the JSON grammar as that value and nothing follows it, every escape of a high surrogate in a
  string of the text is followed at once by the escape of a low one and no other escape denotes a surrogate
  (\<^const>\<open>paired_text\<close>), no object at any depth names a member twice, and the I-JSON check accepts
  the text.\<close>

theorem decodeStrictJSON_grammar:
  "decodeStrictJSON jcs raw = Inr v \<longleftrightarrow>
     ValidString raw \<and> paired_text raw \<and> json_text raw v \<and> unique_members v \<and> jcs raw \<noteq> None"
  using decodeStrictJSON_Inr [of jcs raw v] surrogates_paired [of raw v] by blast

text \<open>Property C26: the strict reader ends on every input. The loops of
  \<^verbatim>\<open>decodeUniqueJSONValue\<close> over an arbitrary byte string never run out of the fuel of the model:
  every turn consumes input.\<close>

theorem decodeStrictJSON_ends: "decodeStrictJSON jcs raw \<noteq> Inl NoFuel"
  using decodeUniqueJSON_fuel [of raw] by (auto simp: decodeStrictJSON_def split: sum.splits)

end
