(* ===== verification/Json_Print.thy ===== *)
theory Json_Print
  imports Strict_Json_Grammar
begin

text \<open>
  \<^verbatim>\<open>json.Marshal\<close> of the Go library on the values the sources encode, with its escapes
  (the control characters, the quote and the backslash, the HTML characters, the two line separators),
  and the round trip with the strict reader.
\<close>

section \<open>Printing\<close>

definition hex_digit :: "int \<Rightarrow> char" where
  "hex_digit n = (if n < 10 then rune_char (48 + n) else rune_char (87 + n))"

definition unicode_escape :: "int \<Rightarrow> string" where
  "unicode_escape u =
     [CHR 0x5C, CHR ''u'', hex_digit (u div 4096 mod 16), hex_digit (u div 256 mod 16),
      hex_digit (u div 16 mod 16), hex_digit (u mod 16)]"

definition escape_ascii :: "char \<Rightarrow> string" where
  "escape_ascii c =
     (if c = CHR 0x5C \<or> c = CHR 0x22 then [CHR 0x5C, c]
      else if c = CHR 0x08 then [CHR 0x5C, CHR ''b'']
      else if c = CHR 0x0C then [CHR 0x5C, CHR ''f'']
      else if c = CHR 0x0A then [CHR 0x5C, CHR ''n'']
      else if c = CHR 0x0D then [CHR 0x5C, CHR ''r'']
      else if c = CHR 0x09 then [CHR 0x5C, CHR ''t'']
      else if byte c < 32 \<or> c = CHR ''<'' \<or> c = CHR ''>'' \<or> c = CHR ''&'' then unicode_escape (byte c)
      else [c])"

definition escape_rune :: "char \<Rightarrow> string \<Rightarrow> string" where
  "escape_rune c cs =
     (if byte c < 128 then escape_ascii c
      else (case decode_rune c cs of
              (None, _) \<Rightarrow> unicode_escape 65533
            | (Some r, n) \<Rightarrow> if r = 8232 \<or> r = 8233 then unicode_escape r else c # take n cs))"

function escape :: "string \<Rightarrow> string" where
  "escape [] = []"
| "escape (c # cs) = escape_rune c cs @ escape (drop (snd (decode_rune c cs)) cs)"
  by pat_completeness auto
termination
  by (relation "measure length") auto

definition quote :: "string \<Rightarrow> string" where
  "quote s = CHR 0x22 # escape s @ [CHR 0x22]"

fun Marshal :: "json \<Rightarrow> string" where
  "Marshal JNull = ''null''"
| "Marshal (JBool b) = (if b then ''true'' else ''false'')"
| "Marshal (JNumber l) = l"
| "Marshal (JString s) = quote s"
| "Marshal (JArray []) = ''[]''"
| "Marshal (JArray (v # vs)) = CHR ''['' # Marshal v @ concat (map (\<lambda>w. CHR '','' # Marshal w) vs) @ '']''"
| "Marshal (JObject []) = ''{}''"
| "Marshal (JObject (m # ms)) =
     CHR ''{'' # quote (fst m) @ CHR '':'' # Marshal (snd m) @
     concat (map (\<lambda>m. CHR '','' # quote (fst m) @ CHR '':'' # Marshal (snd m)) ms) @ ''}''"

text \<open>What can be printed: every string is UTF-8 and every number is a number literal.\<close>

definition number_literal :: "string \<Rightarrow> bool" where
  "number_literal l = (scan_number l = Some (l, []))"

fun printable :: "json \<Rightarrow> bool" where
  "printable (JNumber l) = number_literal l"
| "printable (JString s) = ValidString s"
| "printable (JArray vs) = list_all printable vs"
| "printable (JObject ms) = list_all (\<lambda>m. ValidString (fst m) \<and> printable (snd m)) ms"
| "printable _ = True"

section \<open>Strings are read back\<close>

declare byte_bounds [simp]

lemma rune_char_byte [simp]: "rune_char (byte c) = c"
  by (simp add: rune_char_def byte_def)

lemma byte_rune_char [simp]: "0 \<le> n \<Longrightarrow> n < 256 \<Longrightarrow> byte (rune_char n) = n"
  by (simp add: rune_char_def byte_def)

lemma hex_value_digit [simp]: "0 \<le> n \<Longrightarrow> n < 16 \<Longrightarrow> hex_value (hex_digit n) = Some n"
  by (auto simp: hex_digit_def hex_value_def in_range_def)

lemma quad_digits:
  assumes "0 \<le> u" "u < 65536"
  shows "quad (hex_digit (u div 4096 mod 16)) (hex_digit (u div 256 mod 16)) (hex_digit (u div 16 mod 16))
    (hex_digit (u mod 16)) = Some u"
proof -
  define a b c where "a = u div 16" "b = a div 16" "c = b div 16"
  have eq: "u div 256 = b" "u div 4096 = c" "u div 16 = a"
    unfolding a_b_c_def by (simp_all flip: zdiv_zmult2_eq)
  have "u = 16 * a + u mod 16" "a = 16 * b + a mod 16" "b = 16 * c + b mod 16"
    unfolding a_b_c_def by simp_all
  moreover have "c mod 16 = c" using assms unfolding eq(2) [symmetric] by (auto simp: mod_pos_pos_trivial)
  ultimately have "c mod 16 * 4096 + b mod 16 * 256 + a mod 16 * 16 + u mod 16 = u" by linarith
  then show ?thesis unfolding eq by (simp add: quad_def)
qed

lemma simple_escape_u [simp]: "simple_escape CHR ''u'' = None"
  by (simp add: simple_escape_def)

lemma scan_unicode_escape:
  assumes "0 \<le> u" "u < 65536" "\<not> high_surrogate u"
  shows "scan_string (unicode_escape u @ r) = prepend (encode_rune u) (scan_string r)"
  using quad_digits [OF assms(1,2)] assms(3)
  by (simp add: unicode_escape_def scan_char_def scan_escape_def scan_unicode_def)

lemma scan_plain: "32 \<le> byte c \<Longrightarrow> c \<noteq> CHR 0x22 \<Longrightarrow> c \<noteq> CHR 0x5C \<Longrightarrow>
    scan_string (c # r) = prepend [c] (scan_string r)"
  by (simp add: scan_char_def)

lemma encode_ascii: "byte c < 128 \<Longrightarrow> encode_rune (byte c) = [c]"
  by (simp add: encode_rune_def Let_def)

lemma scan_ascii:
  assumes "byte c < 128"
  shows "scan_string (escape_ascii c @ r) = prepend [c] (scan_string r)"
proof (cases "byte c < 32 \<or> c = CHR ''<'' \<or> c = CHR ''>'' \<or> c = CHR ''&''")
  case True
  have "scan_string (unicode_escape (byte c) @ r) = prepend [c] (scan_string r)"
    using assms scan_unicode_escape [of "byte c" r] encode_ascii [OF assms] by (simp add: high_surrogate_def)
  then show ?thesis
    by (auto simp: escape_ascii_def scan_char_def scan_escape_def simple_escape_def)
next
  case False
  then show ?thesis using scan_plain [of c r]
    by (auto simp: escape_ascii_def scan_char_def scan_escape_def simple_escape_def)
qed

lemma scan_high_bytes:
  "list_all (\<lambda>c. 128 \<le> byte c) cs \<Longrightarrow> scan_string (cs @ r) = prepend cs (scan_string r)"
proof (induction cs)
  case Nil
  show ?case by (cases "scan_string r") (auto simp: prepend_def)
next
  case (Cons c cs)
  have "c \<noteq> CHR 0x22" "c \<noteq> CHR 0x5C" using Cons.prems by (auto simp: byte_def)
  with Cons show ?case by (cases "scan_string r") (auto simp: scan_char_def prepend_def)
qed

lemma byte_eq_iff: "byte c = byte d \<longleftrightarrow> c = d"
  by (simp add: byte_def)

lemma decode_separator:
  assumes "decode_rune c cs = (Some u, n)" "u = 8232 \<or> u = 8233" "128 \<le> byte c"
  shows "encode_rune u = c # take n cs"
proof -
  obtain c1 c2 where cs: "take n cs = [c1, c2]" and b: "u = (byte c - 224) * 4096 + (byte c1 - 128) * 64 + (byte c2 - 128)"
    and r: "224 \<le> byte c" "128 \<le> byte c1" "byte c1 \<le> 191" "128 \<le> byte c2" "byte c2 \<le> 191"
    using assms
    by (auto simp: decode_rune_def Let_def in_range_def split: if_splits list.splits)
  from b have b: "u = 4096 * byte c + 64 * byte c1 + byte c2 - 925824" by simp
  have u: "8232 \<le> u" "u \<le> 8233" using assms(2) by auto
  have "\<not> byte c \<le> 225" using b r u by linarith
  moreover have "\<not> 227 \<le> byte c" using b r u by linarith
  ultimately have c: "byte c = 226" by linarith
  have "\<not> 129 \<le> byte c1" using b r u c by linarith
  with b r c have "byte c = 226 \<and> byte c1 = 128 \<and> byte c2 = u - 8064" by linarith
  then have "c = rune_char 226" "c1 = rune_char 128" "c2 = rune_char (u - 8064)"
    by (metis rune_char_byte)+
  then show ?thesis using cs assms(2) by (auto simp: encode_rune_def rune_char_def)
qed

lemma decode_ascii: "byte c < 128 \<Longrightarrow> decode_rune c cs = (Some (byte c), 0)"
  by (simp add: decode_rune_def Let_def)

lemma scan_escape_rune:
  assumes "fst (decode_rune c cs) \<noteq> None"
  shows "scan_string (escape_rune c cs @ r) = prepend (c # take (snd (decode_rune c cs)) cs) (scan_string r)"
proof (cases "byte c < 128")
  case True
  then show ?thesis by (simp add: escape_rune_def decode_ascii scan_ascii)
next
  case False
  obtain u n where d: "decode_rune c cs = (Some u, n)" using assms by (cases "decode_rune c cs") auto
  have high: "list_all (\<lambda>c. 128 \<le> byte c) (c # take n cs)"
    using False decode_rune_skips [of _ c cs] d by (auto simp: list_all_iff)
  show ?thesis
  proof (cases "u = 8232 \<or> u = 8233")
    case True
    then show ?thesis using False d decode_separator [OF d True] scan_unicode_escape [of u r]
      by (auto simp: escape_rune_def high_surrogate_def)
  next
    case other: False
    then show ?thesis using False d scan_high_bytes [OF high, of r] by (simp add: escape_rune_def)
  qed
qed

lemma ValidString_Cons:
  "ValidString (c # cs) \<longleftrightarrow> fst (decode_rune c cs) \<noteq> None \<and> ValidString (drop (snd (decode_rune c cs)) cs)"
  unfolding ValidString_def runes.simps list.set insert_iff by (metis (no_types))

lemma scan_escape:
  "ValidString s \<Longrightarrow> scan_string (escape s @ CHR 0x22 # r) = Some (s, r)"
proof (induction s rule: escape.induct)
  case (2 c cs)
  let ?n = "snd (decode_rune c cs)"
  from 2 have "ValidString (drop ?n cs)" "fst (decode_rune c cs) \<noteq> None"
    by (auto simp: ValidString_Cons)
  with "2.IH" have "scan_string (escape (c # cs) @ CHR 0x22 # r) =
      prepend (c # take ?n cs) (Some (drop ?n cs, r))"
    by (simp add: scan_escape_rune)
  then show ?case by (simp add: prepend_def)
qed simp

section \<open>Values are read back\<close>

lemma lex_quote: "ValidString s \<Longrightarrow> lex_json (quote s @ r) = LValue (JString s) r"
  by (simp add: lex_json_def quote_def is_json_space_def is_delim_def scan_value_def scan_escape)

lemma lex_delim: "is_delim c \<Longrightarrow> lex_json (c # r) = LDelim c r"
  by (auto simp: lex_json_def is_json_space_def is_delim_def)

text \<open>A number ends where its text is followed by a separator, a closing bracket or nothing.\<close>

definition value_ends :: "string \<Rightarrow> bool" where
  "value_ends r = (case r of [] \<Rightarrow> True | c # _ \<Rightarrow> is_delim c)"

lemma digits_ends:
  assumes "value_ends r"
  shows "takeWhile is_digit (s @ r) = takeWhile is_digit s" "dropWhile is_digit (s @ r) = dropWhile is_digit s @ r"
proof -
  have "takeWhile is_digit r = []" "dropWhile is_digit r = r"
    using assms by (cases r; auto simp: value_ends_def is_delim_def is_digit_def)+
  then show "takeWhile is_digit (s @ r) = takeWhile is_digit s" "dropWhile is_digit (s @ r) = dropWhile is_digit s @ r"
    by (induction s) auto
qed

lemma value_ends_Cons: "value_ends (c # r) \<longleftrightarrow> is_delim c"
  by (simp add: value_ends_def)

definition extends :: "(string \<Rightarrow> (string \<times> string) option) \<Rightarrow> bool" where
  "extends f = (\<forall>s p q r. f s = Some (p, q) \<longrightarrow> value_ends r \<longrightarrow> f (s @ r) = Some (p, q @ r))"

lemma extends_andthen: "extends f \<Longrightarrow> extends g \<Longrightarrow> extends (andthen f g)"
  unfolding extends_def andthen_def by (fastforce simp: prepend_def split: option.splits)

lemma extends_sign: "extends scan_sign"
  unfolding extends_def scan_sign_def
  by (auto simp: value_ends_Cons is_delim_def split: list.splits if_splits)

lemma extends_digits: "scan_digits p s = Some (x, q) \<Longrightarrow> value_ends r \<Longrightarrow> scan_digits p (s @ r) = Some (x, q @ r)"
  by (auto simp: scan_digits_def digits_ends split: if_splits)

lemma extends_integer: "extends scan_integer"
  unfolding extends_def scan_integer_def
  by (auto simp: digits_ends split: list.splits if_splits)

lemma extends_fraction: "extends scan_fraction"
  unfolding extends_def scan_fraction_def
  by (auto simp: value_ends_Cons is_delim_def extends_digits split: list.splits if_splits)

lemma extends_exponent: "extends scan_exponent"
  unfolding extends_def scan_exponent_def
  by (auto simp: value_ends_Cons is_delim_def extends_digits extends_digits [of _ "_ # _", simplified]
      split: list.splits if_splits)

lemma extends_number: "extends scan_number"
  unfolding scan_number_def
  by (intro extends_andthen extends_sign extends_integer extends_fraction extends_exponent)

lemma scan_number_head:
  assumes "scan_number (c # r) = Some x"
  shows "c = CHR ''-'' \<or> is_digit c"
  using assms
  by (auto simp: scan_number_def andthen_def scan_sign_def scan_integer_def prepend_def is_digit_def
      split: if_splits option.splits)

lemma lex_number:
  assumes "number_literal l" "value_ends r"
  shows "lex_json (l @ r) = LValue (JNumber l) r"
proof -
  have l: "scan_number l = Some (l, [])" using assms(1) by (simp add: number_literal_def)
  obtain c l' where c: "l = c # l'"
    using l by (cases l) (auto simp: scan_number_def andthen_def scan_sign_def scan_integer_def prepend_def)
  have head: "c = CHR ''-'' \<or> is_digit c" using l c scan_number_head by blast
  have "scan_number (l @ r) = Some (l, r)" using extends_number l assms(2) by (fastforce simp: extends_def)
  moreover have "\<not> is_json_space c" "\<not> is_delim c"
    "c \<noteq> CHR 0x22" "c \<noteq> CHR ''t''" "c \<noteq> CHR ''f''" "c \<noteq> CHR ''n''"
    using head by (auto simp: is_json_space_def is_delim_def is_digit_def)
  ultimately show ?thesis using c by (simp add: lex_json_def scan_value_def)
qed

lemma value_ends_more [simp]:
  "value_ends ('']'' @ r)" "value_ends (''}'' @ r)" "value_ends (CHR '']'' # r)" "value_ends (CHR ''}'' # r)"
  "value_ends (concat (map (\<lambda>w. CHR '','' # f w) vs) @ CHR '']'' # r)"
  "value_ends (concat (map (\<lambda>m. CHR '','' # g m) ms) @ CHR ''}'' # r)"
  by (cases vs; cases ms; auto simp: value_ends_def is_delim_def)+

lemma Marshal_elements:
  assumes "\<And>w r. w \<in> set vs \<Longrightarrow> value_ends r \<Longrightarrow> json_value (Marshal w @ r) w r"
  shows "elements (concat (map (\<lambda>w. CHR '','' # Marshal w) vs) @ CHR '']'' # r) vs r"
  using assms
proof (induction vs)
  case Nil
  then show ?case by (auto intro!: elements_end simp: lex_delim is_delim_def)
next
  case (Cons v vs)
  let ?more = "concat (map (\<lambda>w. CHR '','' # Marshal w) vs) @ CHR '']'' # r"
  have "json_value (Marshal v @ ?more) v ?more" by (rule Cons.prems) simp_all
  moreover have "elements ?more vs r" using Cons by simp
  moreover have "lex_json (CHR '','' # Marshal v @ ?more) = LDelim CHR '','' (Marshal v @ ?more)"
    by (simp add: lex_delim is_delim_def)
  ultimately show ?case using elements_next [of "CHR '','' # Marshal v @ ?more"] by simp
qed

lemma Marshal_members:
  assumes "\<And>m r. m \<in> set ms \<Longrightarrow> value_ends r \<Longrightarrow> ValidString (fst m) \<and> json_value (Marshal (snd m) @ r) (snd m) r"
  shows "members (concat (map (\<lambda>m. CHR '','' # quote (fst m) @ CHR '':'' # Marshal (snd m)) ms) @ CHR ''}'' # r) ms r"
  using assms
proof (induction ms)
  case Nil
  then show ?case by (auto intro!: members_end simp: lex_delim is_delim_def)
next
  case (Cons m ms)
  let ?more = "concat (map (\<lambda>m. CHR '','' # quote (fst m) @ CHR '':'' # Marshal (snd m)) ms) @ CHR ''}'' # r"
  let ?pair = "quote (fst m) @ CHR '':'' # Marshal (snd m) @ ?more"
  have m: "ValidString (fst m) \<and> json_value (Marshal (snd m) @ ?more) (snd m) ?more" by (rule Cons.prems) simp_all
  have "members ?more ms r" using Cons by simp
  moreover have "lex_json (CHR '','' # ?pair) = LDelim CHR '','' ?pair"
    by (simp add: lex_delim is_delim_def)
  moreover have "lex_json ?pair = LValue (JString (fst m)) (CHR '':'' # Marshal (snd m) @ ?more)"
    using m by (simp add: lex_quote)
  moreover have "lex_json (CHR '':'' # Marshal (snd m) @ ?more) = LDelim CHR '':'' (Marshal (snd m) @ ?more)"
    by (simp add: lex_delim is_delim_def)
  ultimately have "members (CHR '','' # ?pair) ((fst m, snd m) # ms) r"
    using m by (blast intro: members_next)
  then show ?case by simp
qed

lemma Marshal_value: "printable v \<Longrightarrow> value_ends r \<Longrightarrow> json_value (Marshal v @ r) v r"
proof (induction v arbitrary: r rule: Marshal.induct)
  case 1
  then show ?case by (auto intro!: literal simp: lex_json_def is_json_space_def is_delim_def scan_value_def scan_word_def)
next
  case (2 b)
  then show ?case by (auto intro!: literal simp: lex_json_def is_json_space_def is_delim_def scan_value_def scan_word_def)
next
  case (3 l)
  then show ?case by (auto intro!: literal simp: lex_number)
next
  case (4 s)
  then show ?case by (auto intro!: literal simp: lex_quote)
next
  case 5
  then show ?case using array [OF _ array_empty] by (simp add: lex_delim is_delim_def)
next
  case (6 v vs)
  let ?more = "concat (map (\<lambda>w. CHR '','' # Marshal w) vs) @ CHR '']'' # r"
  have "json_value (Marshal v @ ?more) v ?more" using 6 by simp
  moreover have "elements ?more vs r" using 6 by (intro Marshal_elements) (auto simp: list_all_iff)
  ultimately have "array_body (Marshal v @ ?more) (v # vs) r" by (rule array_first)
  moreover have "lex_json (CHR ''['' # Marshal v @ ?more) = LDelim CHR ''['' (Marshal v @ ?more)"
    by (simp add: lex_delim is_delim_def)
  ultimately have "json_value (CHR ''['' # Marshal v @ ?more) (JArray (v # vs)) r" by (blast intro: array)
  then show ?case by simp
next
  case 7
  then show ?case using object [OF _ object_empty] by (simp add: lex_delim is_delim_def)
next
  case (8 m ms)
  let ?more = "concat (map (\<lambda>m. CHR '','' # quote (fst m) @ CHR '':'' # Marshal (snd m)) ms) @ CHR ''}'' # r"
  let ?body = "quote (fst m) @ CHR '':'' # Marshal (snd m) @ ?more"
  have "json_value (Marshal (snd m) @ ?more) (snd m) ?more" using 8 by simp
  moreover have "members ?more ms r" using 8 by (intro Marshal_members) (auto simp: list_all_iff)
  moreover have "lex_json ?body = LValue (JString (fst m)) (CHR '':'' # Marshal (snd m) @ ?more)"
    using 8 by (simp add: lex_quote)
  moreover have "lex_json (CHR '':'' # Marshal (snd m) @ ?more) = LDelim CHR '':'' (Marshal (snd m) @ ?more)"
    by (simp add: lex_delim is_delim_def)
  ultimately have "object_body ?body ((fst m, snd m) # ms) r" by (blast intro: object_first)
  moreover have "lex_json (CHR ''{'' # ?body) = LDelim CHR ''{'' ?body"
    by (simp add: lex_delim is_delim_def)
  ultimately have "json_value (CHR ''{'' # ?body) (JObject ((fst m, snd m) # ms)) r" by (blast intro: object)
  then show ?case by simp
qed

text \<open>What is printed is read back.\<close>

lemma Marshal_read_back:
  assumes "printable v" "unique_members v"
  shows "decodeUniqueJSON (Marshal v) = Inr v"
proof -
  have "json_value (Marshal v @ []) v []" by (rule Marshal_value [OF assms(1)]) (simp add: value_ends_def)
  then have "json_text (Marshal v) v" by (auto simp: json_text_def lex_json_def)
  with assms(2) show ?thesis by (simp add: decodeUniqueJSON_iff)
qed

end
