(* ===== verification/Base64url.thy ===== *)
theory Base64url
  imports Go_Text
begin

text \<open>
  \<^verbatim>\<open>base64.RawURLEncoding\<close> of the Go library, as the protocol packages use it, and the
  check \<^verbatim>\<open>decodeCanonicalBase64URL\<close> of \<^verbatim>\<open>internal/protocol/v1/validator.go\<close>
  and \<^verbatim>\<open>internal/protocol/v11/protocol.go\<close>. Go's decoder skips line breaks and ignores
  the unused low bits of the last character, so several texts decode to the same bytes;
  the canonical decoder accepts exactly one of them.
\<close>

section \<open>The alphabet\<close>

definition b64_char :: "int \<Rightarrow> char" where
  "b64_char n =
     (if n < 26 then char_of (65 + n)
      else if n < 52 then char_of (71 + n)
      else if n < 62 then char_of (n - 4)
      else if n = 62 then CHR ''-'' else CHR ''_'')"

definition b64_value :: "char \<Rightarrow> int option" where
  "b64_value c =
     (let b = byte c
      in if 65 \<le> b \<and> b \<le> 90 then Some (b - 65)
         else if 97 \<le> b \<and> b \<le> 122 then Some (b - 71)
         else if 48 \<le> b \<and> b \<le> 57 then Some (b + 4)
         else if b = 45 then Some 62 else if b = 95 then Some 63 else None)"

definition sextet :: "int \<Rightarrow> bool" where
  "sextet n = (0 \<le> n \<and> n < 64)"

lemma b64_value_char [simp]: "sextet n \<Longrightarrow> b64_value (b64_char n) = Some n"
  by (auto simp: sextet_def b64_value_def b64_char_def byte_def Let_def of_char_of)

lemma b64_char_not_break [simp]:
  assumes "sextet n"
  shows "b64_char n \<noteq> CHR 0x0A" "b64_char n \<noteq> CHR 0x0D"
  using b64_value_char [OF assms] by (auto simp: b64_value_def byte_def)

section \<open>Encoding and decoding\<close>

fun EncodeToString :: "bytes \<Rightarrow> string" where
  "EncodeToString [] = []"
| "EncodeToString [a] = [b64_char (byte a div 4), b64_char (byte a mod 4 * 16)]"
| "EncodeToString [a, b] =
     [b64_char (byte a div 4), b64_char (byte a mod 4 * 16 + byte b div 16), b64_char (byte b mod 16 * 4)]"
| "EncodeToString (a # b # c # rest) =
     b64_char (byte a div 4) # b64_char (byte a mod 4 * 16 + byte b div 16) #
     b64_char (byte b mod 16 * 4 + byte c div 64) # b64_char (byte c mod 64) # EncodeToString rest"

text \<open>The bytes of the characters' 6-bit values, four at a time; a last group of one value is
  corrupt input.\<close>

fun b64_bytes :: "int list \<Rightarrow> bytes option" where
  "b64_bytes [] = Some []"
| "b64_bytes [p] = None"
| "b64_bytes [p, q] = Some [char_of (p * 4 + q div 16)]"
| "b64_bytes [p, q, r] = Some [char_of (p * 4 + q div 16), char_of (q mod 16 * 16 + r div 4)]"
| "b64_bytes (p # q # r # s # rest) =
     map_option (\<lambda>bs. char_of (p * 4 + q div 16) # char_of (q mod 16 * 16 + r div 4) #
       char_of (r mod 4 * 64 + s) # bs) (b64_bytes rest)"

definition is_line_break :: "char \<Rightarrow> bool" where
  "is_line_break c = (c = CHR 0x0A \<or> c = CHR 0x0D)"

definition DecodeString :: "string \<Rightarrow> bytes option" where
  "DecodeString s =
     (let vs = map b64_value (filter (\<lambda>c. \<not> is_line_break c) s)
      in if None \<in> set vs then None else b64_bytes (map the vs))"

definition decodeCanonicalBase64URL :: "string \<Rightarrow> nat \<Rightarrow> bytes option" where
  "decodeCanonicalBase64URL s n =
     (case DecodeString s of
        None \<Rightarrow> None
      | Some decoded \<Rightarrow> if length decoded \<noteq> n \<or> EncodeToString decoded \<noteq> s then None else Some decoded)"

section \<open>The codec\<close>

lemma char_of_byte [simp]: "char_of (byte c) = c"
  by (simp add: byte_def)

lemma parts:
  fixes n :: int
  assumes "0 \<le> n" "n < 256"
  shows "0 \<le> n div 4" "n div 4 < 64" "0 \<le> n div 16" "n div 16 < 16" "0 \<le> n div 64" "n div 64 < 4"
  using assms by auto

lemma join16: "0 \<le> y \<Longrightarrow> y < 16 \<Longrightarrow> (x * 16 + y) div 16 = x \<and> (x * 16 + y) mod 16 = y" for x y :: int
  by simp

lemma join4: "0 \<le> y \<Longrightarrow> y < 4 \<Longrightarrow> (x * 4 + y) div 4 = x \<and> (x * 4 + y) mod 4 = y" for x y :: int
  by simp

lemma sextets:
  assumes "0 \<le> a" "a < 256" "0 \<le> b" "b < 256" "0 \<le> c" "c < (256 :: int)"
  shows "a div 4 * 4 + (a mod 4 * 16 + b div 16) div 16 = a"
    and "(a mod 4 * 16 + b div 16) mod 16 * 16 + (b mod 16 * 4 + c div 64) div 4 = b"
    and "(b mod 16 * 4 + c div 64) mod 4 * 64 + c mod 64 = c"
proof -
  note ab = join16 [OF parts(3,4) [OF assms(3,4)], of "a mod 4"]
  note bc = join4 [OF parts(5,6) [OF assms(5,6)], of "b mod 16"]
  show "a div 4 * 4 + (a mod 4 * 16 + b div 16) div 16 = a" by (simp only: ab div_mult_mod_eq)
  show "(a mod 4 * 16 + b div 16) mod 16 * 16 + (b mod 16 * 4 + c div 64) div 4 = b"
    by (simp only: ab bc div_mult_mod_eq)
  show "(b mod 16 * 4 + c div 64) mod 4 * 64 + c mod 64 = c" by (simp only: bc div_mult_mod_eq)
qed

lemma sextet_parts:
  "sextet (byte a div 4)" "sextet (byte a mod 4 * 16 + byte b div 16)" "sextet (byte b mod 16 * 4 + byte c div 64)"
  "sextet (byte c mod 64)" "sextet (byte a mod 4 * 16)" "sextet (byte b mod 16 * 4)"
proof -
  have mods: "0 \<le> byte a mod 4" "byte a mod 4 < 4" "0 \<le> byte b mod 16" "byte b mod 16 < 16"
    "0 \<le> byte c mod 64" "byte c mod 64 < 64" by simp_all
  note p = parts [OF byte_bounds(1,2), of a] parts [OF byte_bounds(1,2), of b] parts [OF byte_bounds(1,2), of c]
  show "sextet (byte a div 4)" "sextet (byte a mod 4 * 16 + byte b div 16)" "sextet (byte b mod 16 * 4 + byte c div 64)"
    "sextet (byte c mod 64)" "sextet (byte a mod 4 * 16)" "sextet (byte b mod 16 * 4)"
    unfolding sextet_def by (intro conjI; use mods p in linarith)+
qed

fun sextets_of :: "bytes \<Rightarrow> int list" where
  "sextets_of [] = []"
| "sextets_of [a] = [byte a div 4, byte a mod 4 * 16]"
| "sextets_of [a, b] = [byte a div 4, byte a mod 4 * 16 + byte b div 16, byte b mod 16 * 4]"
| "sextets_of (a # b # c # rest) =
     byte a div 4 # (byte a mod 4 * 16 + byte b div 16) # (byte b mod 16 * 4 + byte c div 64) #
     byte c mod 64 # sextets_of rest"

lemma EncodeToString_sextets: "EncodeToString bs = map b64_char (sextets_of bs)"
  by (induction bs rule: sextets_of.induct) simp_all

lemma sextets_less: "list_all sextet (sextets_of bs)"
  by (induction bs rule: sextets_of.induct) (simp_all add: sextet_parts)

lemma byte_sextets:
  "byte a div 4 * 4 + (byte a mod 4 * 16 + byte b div 16) div 16 = byte a"
  "(byte a mod 4 * 16 + byte b div 16) mod 16 * 16 + (byte b mod 16 * 4 + byte c div 64) div 4 = byte b"
  "(byte b mod 16 * 4 + byte c div 64) mod 4 * 64 + byte c mod 64 = byte c"
  by (rule sextets; rule byte_bounds)+

lemma b64_bytes_sextets: "b64_bytes (sextets_of bs) = Some bs"
proof (induction bs rule: sextets_of.induct)
  case (2 a)
  have "byte a div 4 * 4 + byte a mod 4 * 16 div 16 = byte a" by simp
  then show ?case by (simp only: sextets_of.simps b64_bytes.simps char_of_byte)
next
  case (3 a b)
  have "(byte a mod 4 * 16 + byte b div 16) mod 16 * 16 + byte b mod 16 * 4 div 4 = byte b"
    using byte_sextets(2) [of a b "CHR 0x00"] by (simp only: byte_def [of "CHR 0x00"]) simp
  then show ?case by (simp only: sextets_of.simps b64_bytes.simps byte_sextets char_of_byte)
next
  case (4 a b c rest)
  then show ?case
    by (simp only: sextets_of.simps b64_bytes.simps byte_sextets char_of_byte option.map)
qed simp

lemma DecodeString_values:
  assumes "list_all sextet ns"
  shows "DecodeString (map b64_char ns) = b64_bytes ns"
proof -
  have keep: "filter (\<lambda>c. \<not> is_line_break c) (map b64_char ns) = map b64_char ns"
    using assms by (induction ns) (auto simp: is_line_break_def)
  have some: "map b64_value (map b64_char ns) = map Some ns"
    using assms by (induction ns) auto
  show ?thesis unfolding DecodeString_def Let_def keep some by (simp add: comp_def)
qed

lemma DecodeString_EncodeToString [simp]: "DecodeString (EncodeToString bs) = Some bs"
  by (simp add: EncodeToString_sextets DecodeString_values sextets_less b64_bytes_sextets)

lemma EncodeToString_inject [simp]: "EncodeToString a = EncodeToString b \<longleftrightarrow> a = b"
  by (metis DecodeString_EncodeToString option.inject)

lemma decodeCanonical_iff:
  "decodeCanonicalBase64URL s n = Some bs \<longleftrightarrow> s = EncodeToString bs \<and> length bs = n"
  by (auto simp: decodeCanonicalBase64URL_def split: option.splits if_splits)

section \<open>Properties\<close>

text \<open>A canonical decoder. \<^verbatim>\<open>decodeCanonicalBase64URL\<close> accepts a text exactly
  when it is the encoding of the bytes it returns and these have the wanted size; so the accepted
  nonces and signatures stand in one-to-one correspondence with the byte strings of that size, and
  no second spelling of a signature or nonce is accepted.\<close>

theorem decodeCanonical_bijective:
  "decodeCanonicalBase64URL s n = Some bs \<longleftrightarrow> s = EncodeToString bs \<and> length bs = n"
  by (rule decodeCanonical_iff)

end
