(* ===== verification/Go_Time.thy ===== *)
theory Go_Time
  imports Go_Text
begin

text \<open>
  \<^verbatim>\<open>time.Parse(time.RFC3339Nano, s)\<close> of the Go library on the texts of the wire, which is
  what the validators read \<^verbatim>\<open>sentAt\<close> and \<^verbatim>\<open>expiresAt\<close> with. The library
  is more liberal than RFC 3339: an hour may have one digit, the fraction may follow a comma
  and have any number of digits, an offset may be 24 hours or 60 minutes. (The rows of the databases keep
  their times in the form of \<open>Prelude\<close>.)
\<close>

section \<open>Numbers\<close>

definition decimal :: "string \<Rightarrow> int" where
  "decimal ds = foldl (\<lambda>a c. 10 * a + (byte c - 48)) 0 ds"

text \<open>\<^verbatim>\<open>getnum\<close>: two digits, or one unless \<open>fixed\<close>.\<close>

definition getnum :: "bool \<Rightarrow> string \<Rightarrow> (int \<times> string) option" where
  "getnum fixed s =
     (case s of
        [] \<Rightarrow> None
      | a # r \<Rightarrow>
          if \<not> is_digit a then None
          else (case r of
                  b # r' \<Rightarrow>
                    if is_digit b then Some (decimal [a, b], r')
                    else if fixed then None else Some (decimal [a], r)
                | [] \<Rightarrow> if fixed then None else Some (decimal [a], r)))"

definition get_year :: "string \<Rightarrow> (int \<times> string) option" where
  "get_year s =
     (if 4 \<le> length s \<and> list_all is_digit (take 4 s) then Some (decimal (take 4 s), drop 4 s) else None)"

definition skip_char :: "char \<Rightarrow> string \<Rightarrow> string option" where
  "skip_char c s = (case s of x # r \<Rightarrow> if x = c then Some r else None | [] \<Rightarrow> None)"

definition in_bounds :: "int \<Rightarrow> int \<Rightarrow> (int \<times> string) option \<Rightarrow> (int \<times> string) option" where
  "in_bounds lo hi x = (case x of None \<Rightarrow> None | Some (n, r) \<Rightarrow> if lo \<le> n \<and> n \<le> hi then Some (n, r) else None)"

section \<open>Fraction and zone\<close>

definition get_fraction :: "string \<Rightarrow> int \<times> string" where
  "get_fraction s =
     (case s of
        c # d # r \<Rightarrow>
          if (c = CHR ''.'' \<or> c = CHR '','') \<and> is_digit d
          then (decimal (take 9 (takeWhile is_digit (d # r) @ replicate 9 CHR ''0'')),
                dropWhile is_digit (d # r))
          else (0, s)
      | _ \<Rightarrow> (0, s))"

text \<open>The offset in seconds; nothing may follow it.\<close>

definition get_zone :: "string \<Rightarrow> int option" where
  "get_zone s =
     (if s = ''Z'' then Some 0
      else (case s of
              [g, h1, h2, c, m1, m2] \<Rightarrow>
                if c = CHR '':'' \<and> (g = CHR ''+'' \<or> g = CHR ''-'') then
                  (case (getnum True [h1, h2], getnum True [m1, m2]) of
                     (Some (h, _), Some (m, _)) \<Rightarrow>
                       if h \<le> 24 \<and> m \<le> 60
                       then Some ((if g = CHR ''-'' then -1 else 1) * ((h * 60 + m) * 60)) else None
                   | _ \<Rightarrow> None)
                else None
            | _ \<Rightarrow> None))"

section \<open>The calendar\<close>

definition isLeap :: "int \<Rightarrow> bool" where
  "isLeap y = (y mod 4 = 0 \<and> (y mod 100 \<noteq> 0 \<or> y mod 400 = 0))"

definition month_days :: "int \<Rightarrow> int list" where
  "month_days y = [31, if isLeap y then 29 else 28, 31, 30, 31, 30, 31, 31, 30, 31, 30, 31]"

definition daysIn :: "int \<Rightarrow> int \<Rightarrow> int" where
  "daysIn m y = month_days y ! nat (m - 1)"

text \<open>Days from 1 January of year 1 to 1 January of year \<open>y\<close>.\<close>

definition year_days :: "int \<Rightarrow> int" where
  "year_days y = 365 * (y - 1) + (y - 1) div 4 - (y - 1) div 100 + (y - 1) div 400"

definition civil_days :: "int \<Rightarrow> int \<Rightarrow> int \<Rightarrow> int" where
  "civil_days y m d = year_days y + sum_list (take (nat (m - 1)) (month_days y)) + (d - 1)"

definition civil_time :: "int \<Rightarrow> int \<Rightarrow> int \<Rightarrow> int \<Rightarrow> int \<Rightarrow> int \<Rightarrow> int \<Rightarrow> gotime" where
  "civil_time y m d h mi s ns = seconds (civil_days y m d * 86400 + h * 3600 + mi * 60 + s) + ns"

definition and_then :: "('a \<times> string) option \<Rightarrow> ('a \<Rightarrow> string \<Rightarrow> 'b option) \<Rightarrow> 'b option" where
  "and_then x f = (case x of None \<Rightarrow> None | Some (a, r) \<Rightarrow> f a r)"

definition after_char :: "char \<Rightarrow> string \<Rightarrow> (string \<Rightarrow> 'b option) \<Rightarrow> 'b option" where
  "after_char c s f = (case skip_char c s of None \<Rightarrow> None | Some r \<Rightarrow> f r)"

definition parse_RFC3339Nano :: "string \<Rightarrow> gotime option" where
  "parse_RFC3339Nano s =
     and_then (get_year s) (\<lambda>y r. after_char CHR ''-'' r (\<lambda>r.
     and_then (in_bounds 1 12 (getnum True r)) (\<lambda>m r. after_char CHR ''-'' r (\<lambda>r.
     and_then (getnum True r) (\<lambda>d r. after_char CHR ''T'' r (\<lambda>r.
     and_then (in_bounds 0 23 (getnum False r)) (\<lambda>h r. after_char CHR '':'' r (\<lambda>r.
     and_then (in_bounds 0 59 (getnum True r)) (\<lambda>mi r. after_char CHR '':'' r (\<lambda>r.
     and_then (in_bounds 0 59 (getnum True r)) (\<lambda>sec r.
       (case get_zone (snd (get_fraction r)) of
          None \<Rightarrow> None
        | Some off \<Rightarrow>
            if d < 1 \<or> daysIn m y < d then None
            else Some (civil_time y m d h mi sec (fst (get_fraction r)) - seconds off)))))))))))))"

end
