(* ===== verification/Protocol_Message.thy ===== *)
theory Protocol_Message
  imports Json_Print Base64url Go_Time
begin

text \<open>
  The data of Protocol v1 and v1.1: the catalogs of message types
  (\<^verbatim>\<open>catalog.generated.go\<close>), the compatibility rules
  (\<^verbatim>\<open>internal/protocol/v1/compatibility.go\<close>), the envelopes \<^verbatim>\<open>YuanshuMessage\<close>
  (\<^verbatim>\<open>types.generated.go\<close> of both packages), and how \<^verbatim>\<open>json.Unmarshal\<close> and
  \<^verbatim>\<open>json.Marshal\<close> of the Go library move between an envelope and a JSON value.
  A number of a payload keeps the literal it was written with; it stands for the float64 nearest to it.
\<close>

section \<open>Catalogs\<close>

abbreviation CurrentVersion :: string where "CurrentVersion \<equiv> ''1.0''"
abbreviation CurrentVersion11 :: string where "CurrentVersion11 \<equiv> ''1.1''"

definition ControlFrameMaxBytes :: int where "ControlFrameMaxBytes = 256 * 1024"
definition EventFrameMaxBytes :: int where "EventFrameMaxBytes = 1024 * 1024"

definition KnownControlTypes :: "string list" where
  "KnownControlTypes =
     [''device.sync'', ''workspace.list'', ''thread.list'', ''thread.read'', ''thread.start'', ''thread.resume'',
      ''turn.start'', ''turn.steer'', ''turn.interrupt'', ''approval.resolve'', ''events.replay'',
      ''snapshot.request'', ''lease.acquire'', ''lease.renew'', ''lease.release'', ''lease.status'',
      ''notifications.list'', ''notifications.read'', ''config.read'', ''config.update'']"

definition KnownEventTypes :: "string list" where
  "KnownEventTypes =
     [''device.status'', ''runtime.status'', ''thread.snapshot'', ''thread.started'', ''turn.started'',
      ''turn.completed'', ''turn.failed'', ''turn.interrupted'', ''agent.message.delta'',
      ''agent.message.completed'', ''command.started'', ''command.output.delta'', ''command.completed'',
      ''tool.started'', ''tool.completed'', ''file.changed'', ''diff.updated'', ''approval.requested'',
      ''approval.resolved'', ''control.result'', ''lease.changed'', ''history.gap'', ''error'']"

definition KnownControlTypes11 :: "string list" where
  "KnownControlTypes11 =
     [''device.sync'', ''workspace.list'', ''agent.list'', ''agent.read'', ''task.list'', ''task.read'',
      ''task.start'', ''task.resume'', ''run.start'', ''run.steer'', ''run.interrupt'', ''interaction.resolve'',
      ''events.replay'', ''snapshot.request'', ''lease.acquire'', ''lease.renew'', ''lease.release'',
      ''lease.status'', ''notifications.list'', ''notifications.read'', ''config.read'', ''config.update'']"

definition KnownEventTypes11 :: "string list" where
  "KnownEventTypes11 =
     [''device.status'', ''runtime.status'', ''agent.snapshot'', ''agent.status'', ''task.snapshot'',
      ''task.started'', ''task.updated'', ''run.started'', ''run.completed'', ''run.failed'', ''run.interrupted'',
      ''message.delta'', ''message.completed'', ''reasoning.summary.delta'', ''reasoning.summary.completed'',
      ''plan.updated'', ''activity.started'', ''activity.updated'', ''activity.completed'',
      ''interaction.requested'', ''interaction.resolved'', ''file.changed'', ''diff.updated'', ''control.result'',
      ''lease.changed'', ''history.gap'', ''error'']"

definition IsKnownControl :: "string \<Rightarrow> bool" where
  "IsKnownControl t = list_ex (\<lambda>known. known = t) KnownControlTypes"

definition IsKnownEvent :: "string \<Rightarrow> bool" where
  "IsKnownEvent t = list_ex (\<lambda>known. known = t) KnownEventTypes"

definition IsKnownControl11 :: "string \<Rightarrow> bool" where
  "IsKnownControl11 t = list_ex (\<lambda>known. known = t) KnownControlTypes11"

definition IsKnownEvent11 :: "string \<Rightarrow> bool" where
  "IsKnownEvent11 t = list_ex (\<lambda>known. known = t) KnownEventTypes11"

section \<open>Compatibility\<close>

datatype message_kind = KindControl | KindEvent | KindOther string

datatype classification =
  KnownControl | KnownEvent | UnknownEvent | Incompatible | UnsupportedControl

text \<open>\<^verbatim>\<open>strconv.Atoi\<close> on a 64-bit machine: an optional sign and digits, in range.\<close>

definition Atoi :: "string \<Rightarrow> int option" where
  "Atoi s =
     (let (neg, ds) = (case s of c # r \<Rightarrow> if c = CHR ''-'' then (True, r) else if c = CHR ''+'' then (False, r)
                                        else (False, s) | [] \<Rightarrow> (False, s))
      in if ds = [] \<or> \<not> list_all is_digit ds then None
         else let v = (if neg then - decimal ds else decimal ds)
              in if - (2 ^ 63) \<le> v \<and> v < 2 ^ 63 then Some v else None)"

text \<open>The first point that is neither the first nor the last byte divides the version.\<close>

fun split_point :: "nat \<Rightarrow> string \<Rightarrow> nat option" where
  "split_point i [] = None"
| "split_point i (c # cs) =
     (if cs = [] then None else if c = CHR ''.'' \<and> 1 \<le> i then Some i else split_point (Suc i) cs)"

definition parseVersion :: "string \<Rightarrow> int \<times> int \<times> bool" where
  "parseVersion v =
     (case split_point 0 v of
        None \<Rightarrow> (0, 0, False)
      | Some i \<Rightarrow>
          (case (Atoi (take i v), Atoi (drop (Suc i) v)) of
             (Some major, Some minor) \<Rightarrow> (major, minor, 0 \<le> major \<and> 0 \<le> minor)
           | _ \<Rightarrow> (0, 0, False)))"

definition Classify :: "string \<Rightarrow> message_kind \<Rightarrow> string \<Rightarrow> classification" where
  "Classify version kind t =
     (let (major, minor, ok) = parseVersion version
      in if \<not> ok \<or> major \<noteq> 1 then Incompatible
         else case kind of
           KindControl \<Rightarrow> if minor \<noteq> 0 \<or> \<not> IsKnownControl t then UnsupportedControl else KnownControl
         | KindEvent \<Rightarrow> if IsKnownEvent t then KnownEvent else UnknownEvent
         | KindOther _ \<Rightarrow> Incompatible)"

definition FrameWithinLimit :: "message_kind \<Rightarrow> int \<Rightarrow> bool" where
  "FrameWithinLimit kind n =
     (if n < 0 then False
      else case kind of
        KindControl \<Rightarrow> n \<le> ControlFrameMaxBytes
      | KindEvent \<Rightarrow> n \<le> EventFrameMaxBytes
      | KindOther _ \<Rightarrow> False)"

definition IsTerminalControlResult :: "string \<Rightarrow> bool" where
  "IsTerminalControlResult status = (status = ''confirmed'' \<or> status = ''rejected'' \<or> status = ''ambiguous'')"

section \<open>Envelopes\<close>

record wire_signer =
  ws_client :: string
  ws_key :: string

record envelope =
  ms_correlation :: string
  ms_expires :: "string option"
  ms_message :: string
  ms_node :: string
  ms_nonce :: "string option"
  ms_owner :: string
  ms_payload :: "(string \<times> json) list option"
  ms_version :: string
  ms_sent :: string
  ms_sequence :: int
  ms_signature :: "string option"
  ms_signer :: "wire_signer option"
  ms_stream :: string
  ms_type :: string
  ms_workspace :: "string option"

record v1_message = envelope +
  ms_item :: "string option"
  ms_thread :: "string option"
  ms_turn :: "string option"

record v11_message = envelope +
  ms_activity :: "string option"
  ms_agent :: "string option"
  ms_interaction :: "string option"
  ms_run :: "string option"
  ms_task :: "string option"

definition zero_v1 :: v1_message where
  "zero_v1 = \<lparr>ms_correlation = [], ms_expires = None, ms_message = [], ms_node = [], ms_nonce = None, ms_owner = [],
     ms_payload = None, ms_version = [], ms_sent = [], ms_sequence = 0, ms_signature = None, ms_signer = None,
     ms_stream = [], ms_type = [], ms_workspace = None, ms_item = None, ms_thread = None, ms_turn = None\<rparr>"

definition zero_v11 :: v11_message where
  "zero_v11 = \<lparr>ms_correlation = [], ms_expires = None, ms_message = [], ms_node = [], ms_nonce = None, ms_owner = [],
     ms_payload = None, ms_version = [], ms_sent = [], ms_sequence = 0, ms_signature = None, ms_signer = None,
     ms_stream = [], ms_type = [], ms_workspace = None, ms_activity = None, ms_agent = None, ms_interaction = None,
     ms_run = None, ms_task = None\<rparr>"

section \<open>\<^verbatim>\<open>json.Unmarshal\<close> into an envelope\<close>

text \<open>A member belongs to the field of its exact name, or else to the field it equals after case folding;
  the runes U+017F and U+212A fold to \<^verbatim>\<open>S\<close> and \<^verbatim>\<open>K\<close>.\<close>

fun fold_name :: "string \<Rightarrow> string" where
  "fold_name [] = []"
| "fold_name (c # cs) =
     (if c = CHR 0xC5 \<and> take 1 cs = [CHR 0xBF] then CHR ''S'' # fold_name (drop 1 cs)
      else if c = CHR 0xE2 \<and> take 2 cs = [CHR 0x84, CHR 0xAA] then CHR ''K'' # fold_name (drop 2 cs)
      else (if in_range 97 122 c then rune_char (byte c - 32) else c) # fold_name cs)"

definition field_of :: "string list \<Rightarrow> string \<Rightarrow> string option" where
  "field_of names k =
     (if k \<in> set names then Some k else find (\<lambda>n. fold_name n = fold_name k) names)"

text \<open>The members are assigned in the order of the text; an unknown member is skipped and a value of
  the wrong type is an error.\<close>

fun assign_all ::
  "(string \<Rightarrow> json \<Rightarrow> 'm \<Rightarrow> 'm option) \<Rightarrow> string list \<Rightarrow> (string \<times> json) list \<Rightarrow> 'm \<Rightarrow> 'm option" where
  "assign_all f names [] m = Some m"
| "assign_all f names ((k, v) # kvs) m =
     (case field_of names k of
        None \<Rightarrow> assign_all f names kvs m
      | Some n \<Rightarrow> (case f n v m of None \<Rightarrow> None | Some m' \<Rightarrow> assign_all f names kvs m'))"

definition as_string :: "json \<Rightarrow> string \<Rightarrow> string option" where
  "as_string v old = (case v of JString s \<Rightarrow> Some s | JNull \<Rightarrow> Some old | _ \<Rightarrow> None)"

definition as_pointer :: "json \<Rightarrow> string option option" where
  "as_pointer v = (case v of JString s \<Rightarrow> Some (Some s) | JNull \<Rightarrow> Some None | _ \<Rightarrow> None)"

definition as_int64 :: "json \<Rightarrow> int \<Rightarrow> int option" where
  "as_int64 v old = (case v of JNumber l \<Rightarrow> Atoi l | JNull \<Rightarrow> Some old | _ \<Rightarrow> None)"

text \<open>Whether a number literal is in the range of float64, that is, below the midpoint between the largest
  float64 and 2 to the 1024.\<close>

definition float64_fits :: "string \<Rightarrow> bool" where
  "float64_fits l =
     (let digits = filter is_digit (takeWhile (\<lambda>c. c \<noteq> CHR ''e'' \<and> c \<noteq> CHR ''E'') l);
          frac = filter is_digit (dropWhile (\<lambda>c. c \<noteq> CHR ''.'') (takeWhile (\<lambda>c. c \<noteq> CHR ''e'' \<and> c \<noteq> CHR ''E'') l));
          tail = drop 1 (dropWhile (\<lambda>c. c \<noteq> CHR ''e'' \<and> c \<noteq> CHR ''E'') l);
          ex = (if take 1 tail = ''-'' then - decimal (filter is_digit tail) else decimal (filter is_digit tail));
          m = decimal digits; e = ex - int (length frac); lim = 2 ^ 1024 - 2 ^ 970
      in m = 0 \<or> (if 0 \<le> e then m * 10 ^ nat e < lim else m < lim * 10 ^ nat (- e)))"

fun numbers_fit :: "json \<Rightarrow> bool" where
  "numbers_fit (JNumber l) = float64_fits l"
| "numbers_fit (JArray vs) = list_all numbers_fit vs"
| "numbers_fit (JObject kvs) = list_all (\<lambda>m. numbers_fit (snd m)) kvs"
| "numbers_fit _ = True"

definition put_member :: "string \<times> json \<Rightarrow> (string \<times> json) list \<Rightarrow> (string \<times> json) list" where
  "put_member m kvs = filter (\<lambda>n. fst n \<noteq> fst m) kvs @ [m]"

definition as_map :: "json \<Rightarrow> (string \<times> json) list option \<Rightarrow> (string \<times> json) list option option" where
  "as_map v old =
     (case v of
        JObject kvs \<Rightarrow>
          if numbers_fit v
          then Some (Some (fold put_member kvs (case old of None \<Rightarrow> [] | Some kv0 \<Rightarrow> kv0))) else None
      | JNull \<Rightarrow> Some None
      | _ \<Rightarrow> None)"

definition set_signer_field :: "string \<Rightarrow> json \<Rightarrow> wire_signer \<Rightarrow> wire_signer option" where
  "set_signer_field n v s =
     (if n = ''clientId'' then map_option (\<lambda>x. s\<lparr>ws_client := x\<rparr>) (as_string v (ws_client s))
      else map_option (\<lambda>x. s\<lparr>ws_key := x\<rparr>) (as_string v (ws_key s)))"

definition as_signer :: "json \<Rightarrow> wire_signer option \<Rightarrow> wire_signer option option" where
  "as_signer v old =
     (case v of
        JObject kvs \<Rightarrow>
          map_option Some (assign_all set_signer_field [''clientId'', ''keyId''] kvs
            (case old of None \<Rightarrow> \<lparr>ws_client = [], ws_key = []\<rparr> | Some s \<Rightarrow> s))
      | JNull \<Rightarrow> Some None
      | _ \<Rightarrow> None)"

definition set_common :: "string \<Rightarrow> json \<Rightarrow> 'a envelope_scheme \<Rightarrow> 'a envelope_scheme option" where
  "set_common n v m =
     (if n = ''correlationId'' then map_option (\<lambda>x. m\<lparr>ms_correlation := x\<rparr>) (as_string v (ms_correlation m))
      else if n = ''expiresAt'' then map_option (\<lambda>x. m\<lparr>ms_expires := x\<rparr>) (as_pointer v)
      else if n = ''messageId'' then map_option (\<lambda>x. m\<lparr>ms_message := x\<rparr>) (as_string v (ms_message m))
      else if n = ''nodeId'' then map_option (\<lambda>x. m\<lparr>ms_node := x\<rparr>) (as_string v (ms_node m))
      else if n = ''nonce'' then map_option (\<lambda>x. m\<lparr>ms_nonce := x\<rparr>) (as_pointer v)
      else if n = ''ownerId'' then map_option (\<lambda>x. m\<lparr>ms_owner := x\<rparr>) (as_string v (ms_owner m))
      else if n = ''payload'' then map_option (\<lambda>x. m\<lparr>ms_payload := x\<rparr>) (as_map v (ms_payload m))
      else if n = ''protocolVersion'' then map_option (\<lambda>x. m\<lparr>ms_version := x\<rparr>) (as_string v (ms_version m))
      else if n = ''sentAt'' then map_option (\<lambda>x. m\<lparr>ms_sent := x\<rparr>) (as_string v (ms_sent m))
      else if n = ''sequence'' then map_option (\<lambda>x. m\<lparr>ms_sequence := x\<rparr>) (as_int64 v (ms_sequence m))
      else if n = ''signature'' then map_option (\<lambda>x. m\<lparr>ms_signature := x\<rparr>) (as_pointer v)
      else if n = ''signer'' then map_option (\<lambda>x. m\<lparr>ms_signer := x\<rparr>) (as_signer v (ms_signer m))
      else if n = ''streamId'' then map_option (\<lambda>x. m\<lparr>ms_stream := x\<rparr>) (as_string v (ms_stream m))
      else if n = ''type'' then map_option (\<lambda>x. m\<lparr>ms_type := x\<rparr>) (as_string v (ms_type m))
      else map_option (\<lambda>x. m\<lparr>ms_workspace := x\<rparr>) (as_pointer v))"

definition common_names :: "string list" where
  "common_names =
     [''correlationId'', ''expiresAt'', ''messageId'', ''nodeId'', ''nonce'', ''ownerId'', ''payload'',
      ''protocolVersion'', ''sentAt'', ''sequence'', ''signature'', ''signer'', ''streamId'', ''type'', ''workspaceId'']"

definition set_v1 :: "string \<Rightarrow> json \<Rightarrow> v1_message \<Rightarrow> v1_message option" where
  "set_v1 n v m =
     (if n = ''itemId'' then map_option (\<lambda>x. m\<lparr>ms_item := x\<rparr>) (as_pointer v)
      else if n = ''threadId'' then map_option (\<lambda>x. m\<lparr>ms_thread := x\<rparr>) (as_pointer v)
      else if n = ''turnId'' then map_option (\<lambda>x. m\<lparr>ms_turn := x\<rparr>) (as_pointer v)
      else set_common n v m)"

definition set_v11 :: "string \<Rightarrow> json \<Rightarrow> v11_message \<Rightarrow> v11_message option" where
  "set_v11 n v m =
     (if n = ''activityId'' then map_option (\<lambda>x. m\<lparr>ms_activity := x\<rparr>) (as_pointer v)
      else if n = ''agentInstanceId'' then map_option (\<lambda>x. m\<lparr>ms_agent := x\<rparr>) (as_pointer v)
      else if n = ''interactionId'' then map_option (\<lambda>x. m\<lparr>ms_interaction := x\<rparr>) (as_pointer v)
      else if n = ''runId'' then map_option (\<lambda>x. m\<lparr>ms_run := x\<rparr>) (as_pointer v)
      else if n = ''taskId'' then map_option (\<lambda>x. m\<lparr>ms_task := x\<rparr>) (as_pointer v)
      else set_common n v m)"

text \<open>The library refuses values nested more than 10000 deep.\<close>

fun json_depth :: "json \<Rightarrow> int" where
  "json_depth (JArray vs) = 1 + foldr (\<lambda>v d. max (json_depth v) d) vs 0"
| "json_depth (JObject kvs) = 1 + foldr (\<lambda>m d. max (json_depth (snd m)) d) kvs 0"
| "json_depth _ = 0"

definition unmarshal_with ::
  "(string \<Rightarrow> json \<Rightarrow> 'm \<Rightarrow> 'm option) \<Rightarrow> string list \<Rightarrow> 'm \<Rightarrow> json \<Rightarrow> 'm option" where
  "unmarshal_with f names z doc =
     (if 10000 < json_depth doc then None
      else case doc of
        JObject kvs \<Rightarrow> assign_all f names kvs z
      | JNull \<Rightarrow> Some z
      | _ \<Rightarrow> None)"

definition unmarshal_v1 :: "json \<Rightarrow> v1_message option" where
  "unmarshal_v1 = unmarshal_with set_v1 ([''itemId'', ''threadId'', ''turnId''] @ common_names) zero_v1"

definition unmarshal_v11 :: "json \<Rightarrow> v11_message option" where
  "unmarshal_v11 =
     unmarshal_with set_v11
       ([''activityId'', ''agentInstanceId'', ''interactionId'', ''runId'', ''taskId''] @ common_names) zero_v11"

section \<open>\<^verbatim>\<open>json.Marshal\<close> of an envelope\<close>

function itoa :: "int \<Rightarrow> string" where
  "itoa n =
     (if n < 0 then CHR ''-'' # itoa (- n)
      else if n < 10 then [rune_char (48 + n)]
      else itoa (n div 10) @ [rune_char (48 + n mod 10)])"
  by pat_completeness auto
termination
  by (relation "measure (\<lambda>n. nat (if n < 0 then 1 - 2 * n else n))") auto

declare itoa.simps [simp del]

text \<open>A Go map is written with its keys in order.\<close>

fun map_value :: "json \<Rightarrow> json" where
  "map_value (JArray vs) = JArray (map map_value vs)"
| "map_value (JObject kvs) = JObject (sort_key fst (map (\<lambda>m. (fst m, map_value (snd m))) kvs))"
| "map_value v = v"

definition text_member :: "string \<Rightarrow> string \<Rightarrow> (string \<times> json) list" where
  "text_member k s = [(k, JString s)]"

definition optional_member :: "string \<Rightarrow> string option \<Rightarrow> (string \<times> json) list" where
  "optional_member k x = (case x of None \<Rightarrow> [] | Some s \<Rightarrow> [(k, JString s)])"

definition payload_member :: "(string \<times> json) list option \<Rightarrow> (string \<times> json) list" where
  "payload_member p = [(''payload'', case p of None \<Rightarrow> JNull | Some kvs \<Rightarrow> map_value (JObject kvs))]"

definition signer_member :: "wire_signer option \<Rightarrow> (string \<times> json) list" where
  "signer_member s =
     (case s of
        None \<Rightarrow> []
      | Some x \<Rightarrow> [(''signer'', JObject [(''clientId'', JString (ws_client x)), (''keyId'', JString (ws_key x))])])"

text \<open>The members in the order of the struct; an absent optional field is left out.\<close>

definition members_v1 :: "v1_message \<Rightarrow> (string \<times> json) list" where
  "members_v1 m =
     text_member ''correlationId'' (ms_correlation m) @ optional_member ''expiresAt'' (ms_expires m) @
     optional_member ''itemId'' (ms_item m) @ text_member ''messageId'' (ms_message m) @
     text_member ''nodeId'' (ms_node m) @ optional_member ''nonce'' (ms_nonce m) @
     text_member ''ownerId'' (ms_owner m) @ payload_member (ms_payload m) @
     text_member ''protocolVersion'' (ms_version m) @ text_member ''sentAt'' (ms_sent m) @
     [(''sequence'', JNumber (itoa (ms_sequence m)))] @ optional_member ''signature'' (ms_signature m) @
     signer_member (ms_signer m) @ text_member ''streamId'' (ms_stream m) @
     optional_member ''threadId'' (ms_thread m) @ optional_member ''turnId'' (ms_turn m) @
     text_member ''type'' (ms_type m) @ optional_member ''workspaceId'' (ms_workspace m)"

definition members_v11 :: "v11_message \<Rightarrow> (string \<times> json) list" where
  "members_v11 m =
     optional_member ''activityId'' (ms_activity m) @ optional_member ''agentInstanceId'' (ms_agent m) @
     text_member ''correlationId'' (ms_correlation m) @ optional_member ''expiresAt'' (ms_expires m) @
     optional_member ''interactionId'' (ms_interaction m) @ text_member ''messageId'' (ms_message m) @
     text_member ''nodeId'' (ms_node m) @ optional_member ''nonce'' (ms_nonce m) @
     text_member ''ownerId'' (ms_owner m) @ payload_member (ms_payload m) @
     text_member ''protocolVersion'' (ms_version m) @ optional_member ''runId'' (ms_run m) @
     text_member ''sentAt'' (ms_sent m) @ [(''sequence'', JNumber (itoa (ms_sequence m)))] @
     optional_member ''signature'' (ms_signature m) @ signer_member (ms_signer m) @
     text_member ''streamId'' (ms_stream m) @ optional_member ''taskId'' (ms_task m) @
     text_member ''type'' (ms_type m) @ optional_member ''workspaceId'' (ms_workspace m)"

section \<open>An envelope is read back\<close>

lemma is_digit_rune [simp]: "0 \<le> n \<Longrightarrow> n < 10 \<Longrightarrow> is_digit (rune_char (48 + n))"
  using byte_rune_char [of "48 + n"] by (auto simp: is_digit_def byte_int)

lemma decimal_snoc [simp]: "decimal (ds @ [c]) = 10 * decimal ds + (byte c - 48)"
  by (simp add: decimal_def)

lemma decimal_Nil [simp]: "decimal [] = 0"
  by (simp add: decimal_def)

lemma itoa_digits: "0 \<le> n \<Longrightarrow> itoa n \<noteq> [] \<and> list_all is_digit (itoa n) \<and> decimal (itoa n) = n"
proof (induction n rule: itoa.induct)
  case (1 n)
  show ?case
  proof (cases "n < 10")
    case True
    then have "itoa n = [] @ [rune_char (48 + n)]" using 1 by (simp add: itoa.simps [of n])
    then show ?thesis using 1 True by (simp only: decimal_snoc) simp
  next
    case False
    then have "itoa n = itoa (n div 10) @ [rune_char (48 + n mod 10)]" using 1 by (simp add: itoa.simps [of n])
    with 1 False show ?thesis by simp
  qed
qed

lemma digit_not_sign: "is_digit c \<Longrightarrow> c \<noteq> CHR ''-'' \<and> c \<noteq> CHR ''+''"
  by (auto simp: is_digit_def)

lemma Atoi_itoa:
  assumes "- (2 ^ 63) \<le> n" "n < 2 ^ 63"
  shows "Atoi (itoa n) = Some n"
proof (cases "n < 0")
  case True
  then have "itoa n = CHR ''-'' # itoa (- n)" by (simp add: itoa.simps [of n])
  with itoa_digits [of "- n"] True assms show ?thesis by (simp add: Atoi_def)
next
  case False
  obtain c ds where c: "itoa n = c # ds" using itoa_digits [of n] False by (cases "itoa n") auto
  with itoa_digits [of n] False have "is_digit c" "list_all is_digit (c # ds)" "decimal (c # ds) = n" by auto
  with digit_not_sign [of c] assms c show ?thesis by (simp add: Atoi_def)
qed

lemma assign_all_append:
  "assign_all f names (xs @ ys) m =
     (case assign_all f names xs m of None \<Rightarrow> None | Some m' \<Rightarrow> assign_all f names ys m')"
  by (induction xs arbitrary: m) (auto split: option.splits)

definition pointer :: "string option \<Rightarrow> json" where
  "pointer x = (case x of None \<Rightarrow> JNull | Some s \<Rightarrow> JString s)"

definition signer_json :: "wire_signer option \<Rightarrow> json" where
  "signer_json s =
     (case s of None \<Rightarrow> JNull
      | Some x \<Rightarrow> JObject [(''clientId'', JString (ws_client x)), (''keyId'', JString (ws_key x))])"

lemma as_json [simp]:
  "as_pointer (pointer x) = Some x" "as_string (JString s) old = Some s" "as_signer (signer_json z) None = Some z"
  by (auto simp: as_pointer_def pointer_def as_string_def as_signer_def signer_json_def field_of_def
      set_signer_field_def split: option.splits)

lemma field_of_exact [simp]: "k \<in> set names \<Longrightarrow> field_of names k = Some k"
  by (simp add: field_of_def)

lemma assign_single [simp]: "k \<in> set names \<Longrightarrow> assign_all f names [(k, v)] m = f k v m"
  by (simp split: option.split)

lemma assign_text: "k \<in> set names \<Longrightarrow> assign_all f names (text_member k x) m = f k (JString x) m"
  by (simp add: text_member_def del: assign_all.simps)

lemma assign_optional:
  "k \<in> set names \<Longrightarrow> f k JNull m = Some m \<Longrightarrow> assign_all f names (optional_member k x) m = f k (pointer x) m"
  by (cases x) (simp_all add: optional_member_def pointer_def split: option.split)

lemma assign_signer:
  "''signer'' \<in> set names \<Longrightarrow> f ''signer'' JNull m = Some m \<Longrightarrow>
    assign_all f names (signer_member z) m = f ''signer'' (signer_json z) m"
  by (cases z) (simp_all add: signer_member_def signer_json_def split: option.split)

lemma fold_put_member: "distinct (map fst (acc @ kvs)) \<Longrightarrow> fold put_member kvs acc = acc @ kvs"
proof (induction kvs arbitrary: acc)
  case (Cons m kvs)
  have "filter (\<lambda>n. fst n \<noteq> fst m) acc = acc" using Cons.prems by (auto simp: filter_id_conv image_iff)
  with Cons.IH [of "acc @ [m]"] Cons.prems show ?case by (simp add: put_member_def)
qed simp

lemma numbers_fit_map [simp]: "numbers_fit (map_value v) = numbers_fit v"
proof (induction v rule: map_value.induct)
  case (1 vs)
  then show ?case by (auto simp: list_all_iff)
next
  case (2 kvs)
  then show ?case by (auto simp: list_all_iff)
qed simp_all

definition sorted_payload :: "(string \<times> json) list \<Rightarrow> (string \<times> json) list" where
  "sorted_payload kvs = sort_key fst (map (\<lambda>m. (fst m, map_value (snd m))) kvs)"

lemma distinct_sorted_payload: "distinct (map fst (sorted_payload kvs)) \<longleftrightarrow> distinct (map fst kvs)"
proof -
  have "distinct (map fst (sorted_payload kvs)) \<longleftrightarrow> distinct (map fst (map (\<lambda>m. (fst m, map_value (snd m))) kvs))"
    unfolding sorted_payload_def distinct_map [of fst] by simp
  then show ?thesis by (simp add: comp_def)
qed

definition payload_ok :: "(string \<times> json) list option \<Rightarrow> bool" where
  "payload_ok p = (case p of None \<Rightarrow> True | Some kvs \<Rightarrow> distinct (map fst kvs) \<and> numbers_fit (JObject kvs))"

lemma as_map_payload:
  assumes "payload_ok p"
  shows "as_map (case p of None \<Rightarrow> JNull | Some kvs \<Rightarrow> map_value (JObject kvs)) None = Some (map_option sorted_payload p)"
proof (cases p)
  case (Some kvs)
  have "map_value (JObject kvs) = JObject (sorted_payload kvs)" by (simp add: sorted_payload_def)
  moreover have "numbers_fit (map_value (JObject kvs))"
    using assms Some unfolding numbers_fit_map by (simp add: payload_ok_def)
  moreover have "fold put_member (sorted_payload kvs) [] = sorted_payload kvs"
    using fold_put_member [of "[]" "sorted_payload kvs"] assms Some distinct_sorted_payload [of kvs]
    by (simp add: payload_ok_def)
  ultimately show ?thesis using Some by (simp add: as_map_def)
qed (simp add: as_map_def)

lemmas assign_steps = assign_all_append assign_text assign_optional assign_signer payload_member_def

lemma unmarshal_members_v1:
  assumes "payload_ok (ms_payload m)" "- (2 ^ 63) \<le> ms_sequence m" "ms_sequence m < 2 ^ 63"
    and "json_depth (JObject (members_v1 m)) \<le> 10000"
  shows "unmarshal_v1 (JObject (members_v1 m)) = Some (m\<lparr>ms_payload := map_option sorted_payload (ms_payload m)\<rparr>)"
  using assms as_map_payload [OF assms(1)] Atoi_itoa [OF assms(2,3)]
  unfolding unmarshal_v1_def unmarshal_with_def
  by (simp del: json_depth.simps)
    (simp add: members_v1_def assign_steps set_v1_def set_common_def common_names_def zero_v1_def as_int64_def
      as_pointer_def [of JNull] as_signer_def [of JNull])

lemma unmarshal_members_v11:
  assumes "payload_ok (ms_payload m)" "- (2 ^ 63) \<le> ms_sequence m" "ms_sequence m < 2 ^ 63"
    and "json_depth (JObject (members_v11 m)) \<le> 10000"
  shows "unmarshal_v11 (JObject (members_v11 m)) = Some (m\<lparr>ms_payload := map_option sorted_payload (ms_payload m)\<rparr>)"
  using assms as_map_payload [OF assms(1)] Atoi_itoa [OF assms(2,3)]
  unfolding unmarshal_v11_def unmarshal_with_def
  by (simp del: json_depth.simps)
    (simp add: members_v11_def assign_steps set_v11_def set_common_def common_names_def zero_v11_def as_int64_def
      as_pointer_def [of JNull] as_signer_def [of JNull])

lemma member_names:
  "map fst (text_member k s) = [k]" "map fst (payload_member p) = [''payload'']"
  "set (map fst (optional_member k x)) \<subseteq> {k}" "distinct (map fst (optional_member k x))"
  "set (map fst (signer_member z)) \<subseteq> {''signer''}" "distinct (map fst (signer_member z))"
  by (auto simp: text_member_def payload_member_def optional_member_def signer_member_def split: option.splits)

text \<open>Lists of names with disjoint bounds, one after the other.\<close>

definition names_within :: "string set \<Rightarrow> (string \<times> json) list \<Rightarrow> bool" where
  "names_within A kvs = (set (map fst kvs) \<subseteq> A \<and> distinct (map fst kvs))"

lemma names_within_append:
  "names_within A xs \<Longrightarrow> names_within B ys \<Longrightarrow> A \<inter> B = {} \<Longrightarrow> names_within (A \<union> B) (xs @ ys)"
  by (auto simp: names_within_def)

lemma names_within_members [intro]:
  "names_within {k} (text_member k s)" "names_within {''payload''} (payload_member p)"
  "names_within {k} (optional_member k x)" "names_within {''signer''} (signer_member z)" "names_within {k} [(k, v)]"
  using member_names by (auto simp: names_within_def)

lemma members_v1_distinct: "distinct (map fst (members_v1 m))"
proof -
  have "\<exists>A. names_within A (members_v1 m)"
    unfolding members_v1_def by (rule exI, (rule names_within_append names_within_members)+, simp_all)
  then show ?thesis by (auto simp: names_within_def)
qed

lemma members_v11_distinct: "distinct (map fst (members_v11 m))"
proof -
  have "\<exists>A. names_within A (members_v11 m)"
    unfolding members_v11_def by (rule exI, (rule names_within_append names_within_members)+, simp_all)
  then show ?thesis by (auto simp: names_within_def)
qed

end
