(* ===== verification/Protocol_Codec.thy ===== *)
theory Protocol_Codec
  imports Protocol_Message
begin

text \<open>
  Reading and writing frames, and what a signature or an approval digest is computed over:
  \<^verbatim>\<open>controlcodec.go\<close>, \<^verbatim>\<open>eventcodec.go\<close> and \<^verbatim>\<open>signing.go\<close> of
  \<^verbatim>\<open>internal/protocol/v1\<close> and the same functions of
  \<^verbatim>\<open>internal/protocol/v11/protocol.go\<close>.

  The packages \<^verbatim>\<open>jcs\<close> (RFC 8785) and \<^verbatim>\<open>jsonschema\<close> and the cryptographic
  primitives are parameters, the fields of the record \<open>codec\<close>; a schema that does not compile
  is \<open>None\<close>.
\<close>

section \<open>Parameters\<close>

record codec =
  cd_jcs :: "bytes \<Rightarrow> bytes option"
  cd_schema :: "(json \<Rightarrow> bool) option"
  cd_schema11 :: "(json \<Rightarrow> bool) option"
  cd_sha256 :: "bytes \<Rightarrow> bytes"
  cd_verify :: "bytes \<Rightarrow> bytes \<Rightarrow> bytes \<Rightarrow> bool"

definition schema_accepts :: "(json \<Rightarrow> bool) option \<Rightarrow> json \<Rightarrow> bool" where
  "schema_accepts s doc = (case s of None \<Rightarrow> False | Some ok \<Rightarrow> ok doc)"

text \<open>A member of the document that is a string, or nothing.\<close>

definition string_member :: "json \<Rightarrow> string \<Rightarrow> string option" where
  "string_member doc k =
     (case doc of
        JObject kvs \<Rightarrow> (case map_of kvs k of Some (JString s) \<Rightarrow> Some s | _ \<Rightarrow> None)
      | _ \<Rightarrow> None)"

definition is_object :: "json \<Rightarrow> bool" where
  "is_object doc = (case doc of JObject _ \<Rightarrow> True | _ \<Rightarrow> False)"

datatype codec_error = ErrInvalidControl | ErrInvalidEvent

section \<open>Protocol v1 frames\<close>

definition ParseControl :: "codec \<Rightarrow> bytes \<Rightarrow> codec_error + v1_message" where
  "ParseControl c raw =
     (if ControlFrameMaxBytes < int (length raw) then Inl ErrInvalidControl
      else case decodeStrictJSON (cd_jcs c) raw of
        Inl _ \<Rightarrow> Inl ErrInvalidControl
      | Inr doc \<Rightarrow>
          if \<not> is_object doc then Inl ErrInvalidControl
          else (case (string_member doc ''protocolVersion'', string_member doc ''type'') of
                  (Some version, Some kind) \<Rightarrow>
                    if version \<noteq> CurrentVersion \<or> \<not> IsKnownControl kind then Inl ErrInvalidControl
                    else if \<not> schema_accepts (cd_schema c) doc then Inl ErrInvalidControl
                    else (case unmarshal_v1 doc of None \<Rightarrow> Inl ErrInvalidControl | Some m \<Rightarrow> Inr m)
                | _ \<Rightarrow> Inl ErrInvalidControl))"

definition ParseEvent :: "codec \<Rightarrow> bytes \<Rightarrow> codec_error + v1_message" where
  "ParseEvent c raw =
     (if EventFrameMaxBytes < int (length raw) then Inl ErrInvalidEvent
      else case decodeStrictJSON (cd_jcs c) raw of
        Inl _ \<Rightarrow> Inl ErrInvalidEvent
      | Inr doc \<Rightarrow>
          if \<not> is_object doc then Inl ErrInvalidEvent
          else
            let version = (case string_member doc ''protocolVersion'' of None \<Rightarrow> [] | Some s \<Rightarrow> s);
                kind = (case string_member doc ''type'' of None \<Rightarrow> [] | Some s \<Rightarrow> s)
            in if version \<noteq> CurrentVersion \<or> \<not> IsKnownEvent kind then Inl ErrInvalidEvent
               else if \<not> schema_accepts (cd_schema c) doc then Inl ErrInvalidEvent
               else (case unmarshal_v1 doc of None \<Rightarrow> Inl ErrInvalidEvent | Some m \<Rightarrow> Inr m))"

definition MarshalEvent :: "codec \<Rightarrow> v1_message \<Rightarrow> codec_error + bytes" where
  "MarshalEvent c m =
     (if ms_version m \<noteq> CurrentVersion \<or> \<not> IsKnownEvent (ms_type m) \<or> ms_sequence m < 1 \<or>
         max_js_sequence < ms_sequence m \<or> ms_expires m \<noteq> None \<or> ms_nonce m \<noteq> None \<or> ms_signer m \<noteq> None \<or>
         ms_signature m \<noteq> None
      then Inl ErrInvalidEvent
      else
        let raw = Marshal (JObject (members_v1 m))
        in if EventFrameMaxBytes < int (length raw) then Inl ErrInvalidEvent
           else (case decodeStrictJSON (cd_jcs c) raw of
                   Inl _ \<Rightarrow> Inl ErrInvalidEvent
                 | Inr doc \<Rightarrow> if \<not> schema_accepts (cd_schema c) doc then Inl ErrInvalidEvent else Inr raw))"

section \<open>Protocol v1.1 frames\<close>

text \<open>\<^verbatim>\<open>cloneMessage\<close> of v1.1 writes the message and reads it again; what does not parse leaves
  the zero message.\<close>

definition cloneMessage11 :: "v11_message \<Rightarrow> v11_message" where
  "cloneMessage11 m = (case unmarshal_v11 (JObject (members_v11 m)) of None \<Rightarrow> zero_v11 | Some clone \<Rightarrow> clone)"

definition validNonce :: "string \<Rightarrow> bool" where
  "validNonce nonce = (decodeCanonicalBase64URL nonce 16 \<noteq> None)"

definition parse11 :: "codec \<Rightarrow> bytes \<Rightarrow> bool \<Rightarrow> (json \<Rightarrow> bool) option \<Rightarrow> codec_error + v11_message" where
  "parse11 c raw control schema =
     (let limit = (if control then ControlFrameMaxBytes else EventFrameMaxBytes);
          invalid = Inl (if control then ErrInvalidControl else ErrInvalidEvent)
      in if limit < int (length raw) then invalid
         else case decodeStrictJSON (cd_jcs c) raw of
           Inl _ \<Rightarrow> invalid
         | Inr doc \<Rightarrow>
             if \<not> schema_accepts schema doc then invalid
             else if \<not> is_object doc \<or> string_member doc ''protocolVersion'' \<noteq> Some CurrentVersion11 then invalid
             else
               let kind = (case string_member doc ''type'' of None \<Rightarrow> [] | Some s \<Rightarrow> s)
               in if control \<and> \<not> IsKnownControl11 kind \<or> \<not> control \<and> \<not> IsKnownEvent11 kind then invalid
                  else (case unmarshal_v11 doc of
                          None \<Rightarrow> invalid
                        | Some m \<Rightarrow>
                            if control \<and> (case ms_nonce m of None \<Rightarrow> True | Some n \<Rightarrow> \<not> validNonce n) then invalid
                            else Inr (cloneMessage11 m)))"

definition ParseControl11 :: "codec \<Rightarrow> bytes \<Rightarrow> codec_error + v11_message" where
  "ParseControl11 c raw =
     (if cd_schema11 c = None then Inl ErrInvalidControl else parse11 c raw True (cd_schema11 c))"

definition ParseEvent11 :: "codec \<Rightarrow> bytes \<Rightarrow> codec_error + v11_message" where
  "ParseEvent11 c raw =
     (if cd_schema11 c = None then Inl ErrInvalidEvent else parse11 c raw False (cd_schema11 c))"

definition MarshalEvent11 :: "codec \<Rightarrow> v11_message \<Rightarrow> codec_error + bytes" where
  "MarshalEvent11 c m =
     (if ms_version m \<noteq> CurrentVersion11 \<or> \<not> IsKnownEvent11 (ms_type m) \<or> ms_sequence m < 1 \<or>
         ms_expires m \<noteq> None \<or> ms_nonce m \<noteq> None \<or> ms_signer m \<noteq> None \<or> ms_signature m \<noteq> None
      then Inl ErrInvalidEvent
      else
        let raw = Marshal (JObject (members_v11 m))
        in if EventFrameMaxBytes < int (length raw) then Inl ErrInvalidEvent
           else (case ParseEvent11 c raw of Inl x \<Rightarrow> Inl x | Inr _ \<Rightarrow> Inr raw))"

section \<open>What is signed\<close>

definition ControlSigningDomain :: bytes where
  "ControlSigningDomain = ''yuanshu-control-v1'' @ [CHR 0x00]"

definition OperationDigestDomain :: bytes where
  "OperationDigestDomain = ''yuanshu-operation-v1'' @ [CHR 0x00]"

definition ControlSigningDomain11 :: bytes where
  "ControlSigningDomain11 = ''yuanshu-control-v1.1'' @ [CHR 0x00]"

definition InteractionDigestDomain :: bytes where
  "InteractionDigestDomain = ''yuanshu-interaction-v1.1'' @ [CHR 0x00]"

fun valid_strings :: "json \<Rightarrow> bool" where
  "valid_strings (JString s) = ValidString s"
| "valid_strings (JArray vs) = list_all valid_strings vs"
| "valid_strings (JObject kvs) = list_all (\<lambda>m. ValidString (fst m) \<and> valid_strings (snd m)) kvs"
| "valid_strings _ = True"

text \<open>\<^verbatim>\<open>validateIJSON\<close> walks the value with reflection; of an envelope it sees the strings and the
  payload. The values here are trees, so it meets no cycle, and a float64 that was read is finite.\<close>

definition validateIJSON :: "v1_message \<Rightarrow> bool" where
  "validateIJSON m = valid_strings (JObject (members_v1 m))"

definition blank_pointer :: "string option \<Rightarrow> bool" where
  "blank_pointer x = (case x of None \<Rightarrow> True | Some s \<Rightarrow> s = [])"

definition validateControlForEncoding :: "v1_message \<Rightarrow> bool" where
  "validateControlForEncoding m =
     (\<not> (ms_version m \<noteq> CurrentVersion) \<and> IsKnownControl (ms_type m) \<and>
      \<not> (ms_message m = [] \<or> ms_sent m = [] \<or> ms_owner m = [] \<or> ms_node m = [] \<or> ms_stream m = [] \<or>
         ms_correlation m = []) \<and>
      \<not> (blank_pointer (ms_expires m) \<or> blank_pointer (ms_nonce m) \<or>
         (case ms_signer m of None \<Rightarrow> True | Some s \<Rightarrow> ws_client s = [] \<or> ws_key s = []) \<or> ms_payload m = None) \<and>
      \<not> (ms_sequence m < 0 \<or> max_js_sequence < ms_sequence m))"

text \<open>The document without its signature, its keys in order as \<^verbatim>\<open>json.Marshal\<close> writes a map.\<close>

definition unsigned_document :: "(string \<times> json) list \<Rightarrow> json" where
  "unsigned_document kvs = JObject (sort_key fst (filter (\<lambda>m. fst m \<noteq> ''signature'') kvs))"

definition ControlSigningInput :: "codec \<Rightarrow> v1_message \<Rightarrow> bytes option" where
  "ControlSigningInput c m =
     (if \<not> validateControlForEncoding m then None
      else if \<not> validateIJSON m then None
      else (case cd_jcs c (Marshal (unsigned_document (members_v1 m))) of
              None \<Rightarrow> None
            | Some canonical \<Rightarrow> Some (ControlSigningDomain @ canonical)))"

definition ControlSigningInput11 :: "codec \<Rightarrow> v11_message \<Rightarrow> bytes option" where
  "ControlSigningInput11 c m =
     (if ms_version m \<noteq> CurrentVersion11 \<or> \<not> IsKnownControl11 (ms_type m) \<or> ms_message m = [] \<or> ms_owner m = [] \<or>
         ms_node m = [] \<or> ms_stream m = [] \<or> ms_correlation m = [] \<or> ms_expires m = None \<or> ms_nonce m = None \<or>
         ms_signer m = None \<or> ms_payload m = None \<or> ms_sequence m < 0
      then None
      else (case decodeStrictJSON (cd_jcs c) (Marshal (JObject (members_v11 m))) of
              Inl _ \<Rightarrow> None
            | Inr _ \<Rightarrow>
                (case cd_jcs c (Marshal (unsigned_document (members_v11 m))) of
                   None \<Rightarrow> None
                 | Some canonical \<Rightarrow> Some (ControlSigningDomain11 @ canonical))))"

section \<open>What an approval digest covers\<close>

definition payload_text :: "(string \<times> json) list option \<Rightarrow> string \<Rightarrow> string option" where
  "payload_text p k = (case p of None \<Rightarrow> None | Some kvs \<Rightarrow> string_member (JObject kvs) k)"

definition validateApprovalForDigest :: "v1_message \<Rightarrow> bool" where
  "validateApprovalForDigest m =
     (\<not> (ms_version m \<noteq> CurrentVersion \<or> ms_type m \<noteq> ''approval.requested'') \<and>
      \<not> (ms_owner m = [] \<or> ms_node m = [] \<or> ms_payload m = None) \<and>
      \<not> blank_pointer (payload_text (ms_payload m) ''approvalId'') \<and> \<not> blank_pointer (payload_text (ms_payload m) ''kind''))"

definition without_digest :: "(string \<times> json) list \<Rightarrow> json" where
  "without_digest kvs = map_value (JObject (filter (\<lambda>m. fst m \<noteq> ''operationDigest'') kvs))"

definition approvalDigestBinding :: "v1_message \<Rightarrow> (string \<times> json) list \<Rightarrow> json" where
  "approvalDigestBinding m kvs =
     JObject (text_member ''protocolVersion'' (ms_version m) @ text_member ''type'' (ms_type m) @
       text_member ''ownerId'' (ms_owner m) @ text_member ''nodeId'' (ms_node m) @
       optional_member ''workspaceId'' (ms_workspace m) @ optional_member ''threadId'' (ms_thread m) @
       optional_member ''turnId'' (ms_turn m) @ optional_member ''itemId'' (ms_item m) @
       [(''payload'', without_digest kvs)])"

definition ApprovalOperationDigest :: "codec \<Rightarrow> v1_message \<Rightarrow> string option" where
  "ApprovalOperationDigest c m =
     (if \<not> validateApprovalForDigest m \<or> \<not> validateIJSON m then None
      else case ms_payload m of
        None \<Rightarrow> None
      | Some kvs \<Rightarrow>
          (case cd_jcs c (Marshal (approvalDigestBinding m kvs)) of
             None \<Rightarrow> None
           | Some canonical \<Rightarrow> Some (EncodeToString (cd_sha256 c (OperationDigestDomain @ canonical)))))"

definition interaction_binding :: "v11_message \<Rightarrow> json" where
  "interaction_binding m =
     JObject (sort_key fst (optional_member ''activityId'' (ms_activity m) @
       text_member ''protocolVersion'' CurrentVersion11 @ text_member ''type'' (ms_type m) @
       text_member ''ownerId'' (ms_owner m) @ text_member ''nodeId'' (ms_node m) @
       optional_member ''agentInstanceId'' (ms_agent m) @ optional_member ''workspaceId'' (ms_workspace m) @
       optional_member ''taskId'' (ms_task m) @ optional_member ''runId'' (ms_run m) @
       optional_member ''interactionId'' (ms_interaction m) @
       [(''payload'', case ms_payload m of None \<Rightarrow> JNull | Some kvs \<Rightarrow> without_digest kvs)]))"

definition InteractionOperationDigest :: "codec \<Rightarrow> v11_message \<Rightarrow> string option" where
  "InteractionOperationDigest c m =
     (if ms_version m \<noteq> CurrentVersion11 \<or> ms_type m \<noteq> ''interaction.requested'' \<or> ms_agent m = None \<or>
         ms_workspace m = None \<or> ms_task m = None \<or> ms_run m = None \<or> ms_interaction m = None
      then None
      else (case cd_jcs c (Marshal (interaction_binding m)) of
              None \<Rightarrow> None
            | Some canonical \<Rightarrow> Some (EncodeToString (cd_sha256 c (InteractionDigestDomain @ canonical)))))"

end
