(* ===== verification/Enrollment_Binding.thy ===== *)
theory Enrollment_Binding
  imports Protocol_Codec
begin

text \<open>
  \<^verbatim>\<open>internal/enrollment/enrollment.go\<close>: the statements a Node signs while control clients
  and further Nodes are paired, enrolled and revoked, and the bytes each signature is made over.
\<close>

section \<open>Data\<close>

record pairing_decision =
  pd_version :: string
  pd_pairing :: string
  pd_owner :: string
  pd_node :: string
  pd_client :: string
  pd_key :: string
  pd_public_key :: string
  pd_name :: string
  pd_decision :: string
  pd_expires :: string

record client_revocation =
  cr_version :: string
  cr_owner :: string
  cr_node :: string
  cr_client :: string
  cr_key :: string
  cr_issued :: string

record credential_rotation =
  ct_version :: string
  ct_owner :: string
  ct_node :: string
  ct_new_hash :: string
  ct_issued :: string

record node_enrollment_decision =
  nd_version :: string
  nd_enrollment :: string
  nd_owner :: string
  nd_issuer :: string
  nd_candidate :: string
  nd_candidate_key :: string
  nd_credential_hash :: string
  nd_name :: string
  nd_os :: string
  nd_node_version :: string
  nd_decision :: string
  nd_expires :: string

record node_revocation =
  nr_version :: string
  nr_owner :: string
  nr_issuer :: string
  nr_target :: string
  nr_issued :: string

section \<open>Argument checks\<close>

definition validOpaque :: "string \<Rightarrow> bool" where
  "validOpaque s = (\<not> (s = [] \<or> 128 < length s) \<and> \<not> has_control s)"

definition validName :: "string \<Rightarrow> bool" where
  "validName s = (\<not> blank s \<and> length s \<le> 128 \<and> validOpaque s)"

definition validTime :: "string \<Rightarrow> bool" where
  "validTime s = (parse_RFC3339Nano s \<noteq> None)"

definition valid_decision :: "string \<Rightarrow> bool" where
  "valid_decision s = (s = ''accept'' \<or> s = ''decline'')"

section \<open>The documents, in the order of the structs\<close>

definition string_members :: "(string \<times> string) list \<Rightarrow> json" where
  "string_members kvs = JObject (map (\<lambda>(k, s). (k, JString s)) kvs)"

definition pairing_document :: "pairing_decision \<Rightarrow> (string \<times> string) list" where
  "pairing_document v =
     [(''version'', pd_version v), (''pairingId'', pd_pairing v), (''ownerId'', pd_owner v), (''nodeId'', pd_node v),
      (''clientId'', pd_client v), (''keyId'', pd_key v), (''publicKey'', pd_public_key v), (''name'', pd_name v),
      (''decision'', pd_decision v), (''expiresAt'', pd_expires v)]"

definition revocation_document :: "client_revocation \<Rightarrow> (string \<times> string) list" where
  "revocation_document v =
     [(''version'', cr_version v), (''ownerId'', cr_owner v), (''nodeId'', cr_node v), (''clientId'', cr_client v),
      (''keyId'', cr_key v), (''issuedAt'', cr_issued v)]"

definition rotation_document :: "credential_rotation \<Rightarrow> (string \<times> string) list" where
  "rotation_document v =
     [(''version'', ct_version v), (''ownerId'', ct_owner v), (''nodeId'', ct_node v),
      (''newCredentialHash'', ct_new_hash v), (''issuedAt'', ct_issued v)]"

definition enrollment_document :: "node_enrollment_decision \<Rightarrow> (string \<times> string) list" where
  "enrollment_document v =
     [(''version'', nd_version v), (''enrollmentId'', nd_enrollment v), (''ownerId'', nd_owner v),
      (''issuerNodeId'', nd_issuer v), (''candidateNodeId'', nd_candidate v),
      (''candidatePublicKey'', nd_candidate_key v), (''credentialHash'', nd_credential_hash v), (''name'', nd_name v),
      (''os'', nd_os v), (''nodeVersion'', nd_node_version v), (''decision'', nd_decision v), (''expiresAt'', nd_expires v)]"

definition node_revocation_document :: "node_revocation \<Rightarrow> (string \<times> string) list" where
  "node_revocation_document v =
     [(''version'', nr_version v), (''ownerId'', nr_owner v), (''issuerNodeId'', nr_issuer v),
      (''targetNodeId'', nr_target v), (''issuedAt'', nr_issued v)]"

section \<open>Signing inputs\<close>

definition PairingDecisionDomain :: bytes where
  "PairingDecisionDomain = ''yuanshu-pairing-decision-v1'' @ [CHR 0x00]"

definition ClientRevocationDomain :: bytes where
  "ClientRevocationDomain = ''yuanshu-client-revocation-v1'' @ [CHR 0x00]"

definition CredentialRotationDomain :: bytes where
  "CredentialRotationDomain = ''yuanshu-node-credential-rotation-v1'' @ [CHR 0x00]"

definition NodeEnrollmentDomain :: bytes where
  "NodeEnrollmentDomain = ''yuanshu-node-enrollment-decision-v1'' @ [CHR 0x00]"

definition NodeRevocationDomain :: bytes where
  "NodeRevocationDomain = ''yuanshu-node-revocation-v1'' @ [CHR 0x00]"

definition signingInput :: "codec \<Rightarrow> bytes \<Rightarrow> (string \<times> string) list \<Rightarrow> bytes option" where
  "signingInput c domain kvs =
     (case cd_jcs c (Marshal (string_members kvs)) of None \<Rightarrow> None | Some canonical \<Rightarrow> Some (domain @ canonical))"

definition PairingDecisionSigningInput :: "codec \<Rightarrow> pairing_decision \<Rightarrow> bytes option" where
  "PairingDecisionSigningInput c v =
     (if pd_version v \<noteq> ''1'' \<or> \<not> validOpaque (pd_pairing v) \<or> \<not> validOpaque (pd_owner v) \<or> \<not> validOpaque (pd_node v) \<or>
         \<not> validOpaque (pd_client v) \<or> \<not> validOpaque (pd_key v) \<or> pd_public_key v = [] \<or> \<not> validName (pd_name v) \<or>
         \<not> valid_decision (pd_decision v) \<or> \<not> validTime (pd_expires v)
      then None else signingInput c PairingDecisionDomain (pairing_document v))"

definition ClientRevocationSigningInput :: "codec \<Rightarrow> client_revocation \<Rightarrow> bytes option" where
  "ClientRevocationSigningInput c v =
     (if cr_version v \<noteq> ''1'' \<or> \<not> validOpaque (cr_owner v) \<or> \<not> validOpaque (cr_node v) \<or> \<not> validOpaque (cr_client v) \<or>
         \<not> validOpaque (cr_key v) \<or> \<not> validTime (cr_issued v)
      then None else signingInput c ClientRevocationDomain (revocation_document v))"

definition CredentialRotationSigningInput :: "codec \<Rightarrow> credential_rotation \<Rightarrow> bytes option" where
  "CredentialRotationSigningInput c v =
     (if ct_version v \<noteq> ''1'' \<or> \<not> validOpaque (ct_owner v) \<or> \<not> validOpaque (ct_node v) \<or> ct_new_hash v = [] \<or>
         \<not> validTime (ct_issued v)
      then None else signingInput c CredentialRotationDomain (rotation_document v))"

definition NodeEnrollmentDecisionSigningInput :: "codec \<Rightarrow> node_enrollment_decision \<Rightarrow> bytes option" where
  "NodeEnrollmentDecisionSigningInput c v =
     (if nd_version v \<noteq> ''1'' \<or> \<not> validOpaque (nd_enrollment v) \<or> \<not> validOpaque (nd_owner v) \<or>
         \<not> validOpaque (nd_issuer v) \<or> \<not> validOpaque (nd_candidate v) \<or> nd_candidate_key v = [] \<or>
         nd_credential_hash v = [] \<or> \<not> validName (nd_name v) \<or>
         nd_os v \<noteq> ''windows'' \<and> nd_os v \<noteq> ''linux'' \<and> nd_os v \<noteq> ''darwin'' \<or>
         \<not> validOpaque (nd_node_version v) \<or> \<not> valid_decision (nd_decision v) \<or> \<not> validTime (nd_expires v)
      then None else signingInput c NodeEnrollmentDomain (enrollment_document v))"

definition NodeRevocationSigningInput :: "codec \<Rightarrow> node_revocation \<Rightarrow> bytes option" where
  "NodeRevocationSigningInput c v =
     (if nr_version v \<noteq> ''1'' \<or> \<not> validOpaque (nr_owner v) \<or> \<not> validOpaque (nr_issuer v) \<or>
         \<not> validOpaque (nr_target v) \<or> nr_issuer v = nr_target v \<or> \<not> validTime (nr_issued v)
      then None else signingInput c NodeRevocationDomain (node_revocation_document v))"

section \<open>The fingerprint of a key\<close>

text \<open>Base32 of the first ten bytes of the digest, without padding: 80 bits are sixteen characters, written
  in groups of four.\<close>

definition base32_char :: "int \<Rightarrow> char" where
  "base32_char n = (if n < 26 then rune_char (65 + n) else rune_char (24 + n))"

definition bits_value :: "bytes \<Rightarrow> int" where
  "bits_value bs = foldl (\<lambda>a c. 256 * a + byte c) 0 bs"

text \<open>\<open>base32 n v\<close> writes \<open>n\<close> characters, the high ones first.\<close>

fun base32 :: "nat \<Rightarrow> int \<Rightarrow> string" where
  "base32 0 v = []"
| "base32 (Suc n) v = base32 n (v div 32) @ [base32_char (v mod 32)]"

fun groups_of_four :: "string \<Rightarrow> string list" where
  "groups_of_four [] = []"
| "groups_of_four (c # cs) = (c # take 3 cs) # groups_of_four (drop 3 cs)"

fun join_dashes :: "string list \<Rightarrow> string" where
  "join_dashes [] = []"
| "join_dashes [p] = p"
| "join_dashes (p # ps) = p @ CHR ''-'' # join_dashes ps"

definition Fingerprint :: "codec \<Rightarrow> bytes \<Rightarrow> string" where
  "Fingerprint c public_key =
     join_dashes (groups_of_four (base32 16 (bits_value (take 10 (cd_sha256 c public_key)))))"

end
