(* ===== verification/Go_Format.thy ===== *)
theory Go_Format
  imports Protocol_Message
begin

text \<open>
  Two library conversions the Server and the Node apply to protocol values:
  \<^verbatim>\<open>Time.Format(time.RFC3339Nano)\<close> of an instant in UTC, and the float64 that
  \<^verbatim>\<open>encoding/json\<close> makes of a number literal (\<^verbatim>\<open>strconv.ParseFloat\<close>, round
  to nearest, ties to even).
\<close>

section \<open>Formatting an instant\<close>

definition pad :: "nat \<Rightarrow> int \<Rightarrow> string" where
  "pad w n = replicate (w - length (itoa n)) CHR ''0'' @ itoa n"

text \<open>The year a day lies in: an estimate by the mean length of a year, corrected by at most one.\<close>

definition year_of :: "int \<Rightarrow> int" where
  "year_of d =
     (let y = d * 400 div 146097 + 1
      in if year_days (y + 1) \<le> d then y + 1 else if d < year_days y then y - 1 else y)"

fun split_month :: "int list \<Rightarrow> int \<Rightarrow> int \<Rightarrow> int \<times> int" where
  "split_month [] m d = (m, d)"
| "split_month (n # ns) m d = (if d < n then (m, d) else split_month ns (m + 1) (d - n))"

definition format_fraction :: "int \<Rightarrow> string" where
  "format_fraction ns = (if ns = 0 then [] else CHR ''.'' # trim_zeros (pad 9 ns))"

definition format_RFC3339Nano :: "gotime \<Rightarrow> string" where
  "format_RFC3339Nano t =
     (let s = t div nanos_per_second; d = s div 86400; r = s mod 86400; y = year_of d;
          (m, k) = split_month (month_days y) 1 (d - year_days y)
      in pad 4 y @ ''-'' @ pad 2 m @ ''-'' @ pad 2 (k + 1) @ ''T'' @ pad 2 (r div 3600) @ '':'' @
         pad 2 (r div 60 mod 60) @ '':'' @ pad 2 (r mod 60) @ format_fraction (t mod nanos_per_second) @ ''Z'')"

section \<open>The float64 of a literal\<close>

text \<open>Sign, digits and decimal exponent of a number literal.\<close>

definition is_exponent :: "char \<Rightarrow> bool" where
  "is_exponent c = (c = CHR ''e'' \<or> c = CHR ''E'')"

definition literal_parts :: "string \<Rightarrow> bool \<times> int \<times> int" where
  "literal_parts l =
     (let mant = takeWhile (\<lambda>c. \<not> is_exponent c) l;
          frac = filter is_digit (dropWhile (\<lambda>c. c \<noteq> CHR ''.'') mant);
          tail = drop 1 (dropWhile (\<lambda>c. \<not> is_exponent c) l);
          ex = (if take 1 tail = ''-'' then - decimal (filter is_digit tail) else decimal (filter is_digit tail))
      in (take 1 l = ''-'', decimal (filter is_digit mant), ex - int (length frac)))"

function bit_length :: "int \<Rightarrow> int" where
  "bit_length n = (if n \<le> 0 then 0 else 1 + bit_length (n div 2))"
  by pat_completeness auto
termination
  by (relation "measure nat") auto

declare bit_length.simps [simp del]

definition round_even :: "int \<Rightarrow> int \<Rightarrow> int" where
  "round_even n d =
     (let q = n div d; r = n mod d in if 2 * r < d \<or> 2 * r = d \<and> q mod 2 = 0 then q else q + 1)"

text \<open>\<open>n / d < 2 ^ k\<close>\<close>

definition below_power :: "int \<Rightarrow> int \<Rightarrow> int \<Rightarrow> bool" where
  "below_power n d k = (if 0 \<le> k then n < d * 2 ^ nat k else n * 2 ^ nat (- k) < d)"

text \<open>The mantissa and the binary exponent of the float64 nearest to \<open>n / d\<close>: 53 bits, or fewer at the
  lower end of the range.\<close>

definition nearest_float64 :: "int \<Rightarrow> int \<Rightarrow> int \<times> int" where
  "nearest_float64 n d =
     (let k0 = bit_length n - bit_length d - 53;
          k = max (- 1074) (if below_power n d (k0 + 53) then k0 else k0 + 1)
      in (if 0 \<le> k then round_even n (d * 2 ^ nat k) else round_even (n * 2 ^ nat (- k)) d, k))"

definition float64 :: "string \<Rightarrow> bool \<times> int \<times> int" where
  "float64 l =
     (case literal_parts l of
        (neg, m, e) \<Rightarrow>
          (neg, if 0 \<le> e then nearest_float64 (m * 10 ^ nat e) 1 else nearest_float64 m (10 ^ nat (- e))))"

text \<open>The integer a float64 is, if it is one, and what \<^verbatim>\<open>math.Trunc\<close> makes of it.\<close>

definition float64_integer :: "string \<Rightarrow> int option" where
  "float64_integer l =
     (case float64 l of
        (neg, m, k) \<Rightarrow>
          map_option (\<lambda>i. if neg then - i else i)
            (if 0 \<le> k then Some (m * 2 ^ nat k)
             else if m mod 2 ^ nat (- k) = 0 then Some (m div 2 ^ nat (- k)) else None))"

definition float64_trunc :: "string \<Rightarrow> int" where
  "float64_trunc l =
     (case float64 l of
        (neg, m, k) \<Rightarrow>
          let i = (if 0 \<le> k then m * 2 ^ nat k else m div 2 ^ nat (- k)) in if neg then - i else i)"

end
