(* ===== verification/Signing_Binding.thy ===== *)
theory Signing_Binding
  imports Enrollment_Binding Go_Format
begin

text \<open>
  What a signature over one of the program's statements speaks for. Every statement is signed
  as a domain, ending in a zero byte, followed by the canonical JSON of its document. So the
  signed bytes tell the purpose, and, when canonicalisation keeps the data apart (the documented
  behaviour of RFC 8785, stated as \<open>jcs_faithful\<close>), they tell the statement.
\<close>

section \<open>Canonical JSON\<close>

text \<open>RFC 8785 writes a number as the shortest text of its float64, so it compares the float64 values of two
  literals. The value is counted in units of \<open>2 ^ - 1074\<close>, the smallest positive float64.\<close>

definition float64_value :: "string \<Rightarrow> int" where
  "float64_value l = (case float64 l of (neg, m, k) \<Rightarrow> (if neg then - 1 else 1) * m * 2 ^ nat (k + 1074))"

definition same_number :: "string \<Rightarrow> string \<Rightarrow> bool" where
  "same_number l l' = (float64_value l = float64_value l')"

text \<open>The same data: equal strings, equal numbers, arrays and objects with the same data in the same
  places, whatever the order of the members.\<close>

inductive same_json :: "json \<Rightarrow> json \<Rightarrow> bool" where
  "same_json JNull JNull"
| "same_json (JBool b) (JBool b)"
| "same_number l l' \<Longrightarrow> same_json (JNumber l) (JNumber l')"
| "same_json (JString s) (JString s)"
| "list_all2 same_json vs ws \<Longrightarrow> same_json (JArray vs) (JArray ws)"
| "(\<And>k. rel_option same_json (map_of kvs k) (map_of kvs' k)) \<Longrightarrow> same_json (JObject kvs) (JObject kvs')"
monos list_all2_mono option.rel_mono

inductive_cases same_string: "same_json (JString s) v"
inductive_cases same_literal: "same_json (JNumber l) v"
inductive_cases same_object: "same_json (JObject kvs) v"

definition jcs_faithful :: "(bytes \<Rightarrow> bytes option) \<Rightarrow> bool" where
  "jcs_faithful jcs =
     (\<forall>v w x. printable v \<longrightarrow> printable w \<longrightarrow> unique_members v \<longrightarrow> unique_members w \<longrightarrow>
        jcs (Marshal v) = Some x \<longrightarrow> jcs (Marshal w) = Some x \<longrightarrow> same_json v w)"

lemma jcs_faithfulD:
  "jcs_faithful jcs \<Longrightarrow> jcs (Marshal v) = Some x \<Longrightarrow> jcs (Marshal w) = Some x \<Longrightarrow> printable v \<Longrightarrow> printable w \<Longrightarrow>
    unique_members v \<Longrightarrow> unique_members w \<Longrightarrow> same_json v w"
  by (simp add: jcs_faithful_def)

lemma same_json_refl: "same_json v v"
proof (induction v)
  case (JNumber l)
  show ?case by (rule same_json.intros) (simp add: same_number_def)
next
  case (JArray vs)
  then show ?case by (auto intro!: same_json.intros list.rel_refl_strong)
next
  case (JObject kvs)
  have "rel_option same_json (map_of kvs k) (map_of kvs k)" for k
    using JObject by (cases "map_of kvs k") (auto dest: map_of_SomeD)
  then show ?case by (rule same_json.intros)
qed (auto intro: same_json.intros)

text \<open>The identity keeps printed documents apart, so the hypothesis can hold.\<close>

lemma jcs_faithful_identity: "jcs_faithful Some"
  unfolding jcs_faithful_def
proof (intro allI impI)
  fix v w x
  assume "printable v" "printable w" "unique_members v" "unique_members w" "Some (Marshal v) = Some x" "Some (Marshal w) = Some x"
  then have "decodeUniqueJSON x = Inr v" "decodeUniqueJSON x = Inr w"
    using Marshal_read_back [of v] Marshal_read_back [of w] by simp_all
  then have "v = w" by simp
  then show "same_json v w" by (simp add: same_json_refl)
qed

section \<open>Documents\<close>

lemma rel_text [simp]: "same_json (JString a) (JString b) \<longleftrightarrow> a = b"
  by (auto elim: same_string intro: same_json.intros)

lemma rel_optional [simp]: "rel_option same_json (map_option JString x) (map_option JString y) \<longleftrightarrow> x = y"
  by (cases x; cases y) auto

lemma map_of_text [simp]: "map_of (text_member k s) k' = (if k' = k then Some (JString s) else None)"
  by (simp add: text_member_def)

lemma map_of_optional [simp]: "map_of (optional_member k x) k' = (if k' = k then map_option JString x else None)"
  by (cases x) (auto simp: optional_member_def)

lemma map_of_sort:
  assumes "distinct (map fst kvs)"
  shows "map_of (sort_key fst kvs) = map_of (kvs :: (string \<times> json) list)"
proof -
  have "distinct (map fst (sort_key fst kvs))" using assms unfolding distinct_map by simp
  then show ?thesis using map_of_inject_set [of "sort_key fst kvs" kvs] assms by simp
qed

lemma map_of_without: "map_of (filter (\<lambda>m. fst m \<noteq> k0) kvs) k = (if k = k0 then None else map_of kvs k)"
  for kvs :: "(string \<times> json) list"
  by (induction kvs) auto

lemma distinct_without:
  "distinct (map fst kvs) \<Longrightarrow> distinct (map fst (filter P (kvs :: (string \<times> json) list)))"
  by (induction kvs) auto

lemma unsigned_lookup:
  fixes kvs :: "(string \<times> json) list"
  assumes "distinct (map fst kvs)"
  shows "map_of (sort_key fst (filter (\<lambda>m. fst m \<noteq> ''signature'') kvs)) k =
    (if k = ''signature'' then None else map_of kvs k)"
  using map_of_sort [OF distinct_without [OF assms], of "\<lambda>m. fst m \<noteq> ''signature''"] by (simp add: map_of_without)

lemma same_unsigned:
  assumes "same_json (unsigned_document kvs) (unsigned_document kvs')"
    and "distinct (map fst kvs)" "distinct (map fst kvs')" "k \<noteq> ''signature''"
  shows "rel_option same_json (map_of kvs k) (map_of kvs' k)"
proof -
  from assms(1) have "rel_option same_json
      (map_of (sort_key fst (filter (\<lambda>m. fst m \<noteq> ''signature'') kvs)) k)
      (map_of (sort_key fst (filter (\<lambda>m. fst m \<noteq> ''signature'') kvs')) k)"
    unfolding unsigned_document_def by (rule same_object) simp
  then show ?thesis using assms(4) by (simp add: unsigned_lookup assms(2,3))
qed

text \<open>The members of an envelope by name.\<close>

lemma map_of_signer [simp]:
  "map_of (signer_member z) k =
     (if k = ''signer'' then map_option (\<lambda>x. JObject [(''clientId'', JString (ws_client x)), (''keyId'', JString (ws_key x))]) z
      else None)"
  by (cases z) (auto simp: signer_member_def)

lemma rel_signer:
  fixes y z :: "wire_signer option"
  assumes "rel_option same_json
     (map_option (\<lambda>x. JObject [(''clientId'', JString (ws_client x)), (''keyId'', JString (ws_key x))]) y)
     (map_option (\<lambda>x. JObject [(''clientId'', JString (ws_client x)), (''keyId'', JString (ws_key x))]) z)"
  shows "y = z"
proof (cases y; cases z)
  fix a b assume yz: "y = Some a" "z = Some b"
  with assms have "same_json (JObject [(''clientId'', JString (ws_client a)), (''keyId'', JString (ws_key a))])
      (JObject [(''clientId'', JString (ws_client b)), (''keyId'', JString (ws_key b))])" by simp
  then have "rel_option same_json (map_of [(''clientId'', JString (ws_client a)), (''keyId'', JString (ws_key a))] k)
      (map_of [(''clientId'', JString (ws_client b)), (''keyId'', JString (ws_key b))] k)" for k
    by (rule same_object) simp
  from this [of "''clientId''"] this [of "''keyId''"] yz show "y = z" by (cases a; cases b) simp
qed (use assms in auto)

text \<open>An integer of at most 53 bits is its own float64.\<close>

lemma bit_length_le: "n < 2 ^ k \<Longrightarrow> bit_length n \<le> int k"
proof (induction n arbitrary: k rule: bit_length.induct)
  case (1 n)
  show ?case
  proof (cases "n \<le> 0")
    case False
    with 1(2) obtain j where k: "k = Suc j" by (cases k) auto
    with 1(2) have "n div 2 < 2 ^ j" by simp
    with 1(1) [OF False, of j] False k show ?thesis by (simp add: bit_length.simps [of n])
  qed (simp add: bit_length.simps)
qed

lemma round_even_1 [simp]: "round_even n 1 = n"
  by (simp add: round_even_def)

lemma nearest_integer:
  assumes "n \<le> max_js_sequence" "nearest_float64 n 1 = (m, k)"
  shows "m * 2 ^ nat (k + 1074) = n * 2 ^ 1074"
proof -
  have "bit_length n \<le> int 53" by (rule bit_length_le) (use assms(1) in simp)
  moreover have "bit_length 1 = 1" by (simp add: bit_length.simps)
  ultimately have k: "k \<le> 0" "- 1074 \<le> k" using assms(2) by (auto simp: nearest_float64_def Let_def split: if_splits)
  have m: "m = n * 2 ^ nat (- k)"
    using assms(2) k(1) by (auto simp: nearest_float64_def Let_def split: if_splits)
  have "nat (- k) + nat (k + 1074) = 1074" using k by linarith
  then show ?thesis unfolding m by (metis mult.assoc power_add)
qed

lemma float64_itoa:
  assumes "0 \<le> n" "n \<le> max_js_sequence"
  shows "float64_value (itoa n) = n * 2 ^ 1074"
proof -
  note digits = itoa_digits [OF assms(1)]
  have none: "c \<in> set (itoa n) \<Longrightarrow> \<not> is_exponent c \<and> c \<noteq> CHR ''.''" for c
    using digits by (auto simp: list_all_iff is_exponent_def is_digit_def)
  obtain c ds where c: "itoa n = c # ds" "is_digit c" using digits by (cases "itoa n") auto
  have parts: "takeWhile (\<lambda>c. \<not> is_exponent c) (itoa n) = itoa n" "dropWhile (\<lambda>c. \<not> is_exponent c) (itoa n) = []"
    "dropWhile (\<lambda>c. c \<noteq> CHR ''.'') (itoa n) = []" using none by (auto simp: takeWhile_eq_all_conv dropWhile_eq_Nil_conv)
  have "filter is_digit (itoa n) = itoa n" using digits by (simp add: list_all_iff)
  moreover have "take 1 (itoa n) \<noteq> ''-''" using c digit_not_sign by simp
  ultimately have "literal_parts (itoa n) = (False, n, 0)"
    unfolding literal_parts_def Let_def parts using digits by (simp add: decimal_def [of "[]"])
  moreover obtain m k where "nearest_float64 n 1 = (m, k)" by fastforce
  ultimately show ?thesis using nearest_integer [OF assms(2)] by (simp add: float64_value_def float64_def)
qed

lemma rel_sequence:
  assumes "same_json (JNumber (itoa n)) (JNumber (itoa n'))"
    and "0 \<le> n" "n \<le> max_js_sequence" "0 \<le> n'" "n' \<le> max_js_sequence"
  shows "n = n'"
  using assms(1) float64_itoa [OF assms(2,3)] float64_itoa [OF assms(4,5)]
  by (auto elim!: same_literal simp: same_number_def)

lemma text_of_v1:
  "map_of (members_v1 m) ''correlationId'' = Some (JString (ms_correlation m))"
  "map_of (members_v1 m) ''expiresAt'' = map_option JString (ms_expires m)"
  "map_of (members_v1 m) ''itemId'' = map_option JString (ms_item m)"
  "map_of (members_v1 m) ''messageId'' = Some (JString (ms_message m))"
  "map_of (members_v1 m) ''nodeId'' = Some (JString (ms_node m))"
  "map_of (members_v1 m) ''nonce'' = map_option JString (ms_nonce m)"
  "map_of (members_v1 m) ''ownerId'' = Some (JString (ms_owner m))"
  "map_of (members_v1 m) ''protocolVersion'' = Some (JString (ms_version m))"
  "map_of (members_v1 m) ''sentAt'' = Some (JString (ms_sent m))"
  "map_of (members_v1 m) ''streamId'' = Some (JString (ms_stream m))"
  "map_of (members_v1 m) ''threadId'' = map_option JString (ms_thread m)"
  "map_of (members_v1 m) ''turnId'' = map_option JString (ms_turn m)"
  "map_of (members_v1 m) ''type'' = Some (JString (ms_type m))"
  "map_of (members_v1 m) ''workspaceId'' = map_option JString (ms_workspace m)"
  "map_of (members_v1 m) ''sequence'' = Some (JNumber (itoa (ms_sequence m)))"
  "map_of (members_v1 m) ''payload'' = Some (case ms_payload m of None \<Rightarrow> JNull | Some kvs \<Rightarrow> map_value (JObject kvs))"
  "map_of (members_v1 m) ''signer'' =
     map_option (\<lambda>x. JObject [(''clientId'', JString (ws_client x)), (''keyId'', JString (ws_key x))]) (ms_signer m)"
  by (simp_all add: members_v1_def payload_member_def map_add_def split: option.split)

lemma text_of_v11:
  "map_of (members_v11 m) ''correlationId'' = Some (JString (ms_correlation m))"
  "map_of (members_v11 m) ''expiresAt'' = map_option JString (ms_expires m)"
  "map_of (members_v11 m) ''activityId'' = map_option JString (ms_activity m)"
  "map_of (members_v11 m) ''agentInstanceId'' = map_option JString (ms_agent m)"
  "map_of (members_v11 m) ''interactionId'' = map_option JString (ms_interaction m)"
  "map_of (members_v11 m) ''messageId'' = Some (JString (ms_message m))"
  "map_of (members_v11 m) ''nodeId'' = Some (JString (ms_node m))"
  "map_of (members_v11 m) ''nonce'' = map_option JString (ms_nonce m)"
  "map_of (members_v11 m) ''ownerId'' = Some (JString (ms_owner m))"
  "map_of (members_v11 m) ''protocolVersion'' = Some (JString (ms_version m))"
  "map_of (members_v11 m) ''runId'' = map_option JString (ms_run m)"
  "map_of (members_v11 m) ''sentAt'' = Some (JString (ms_sent m))"
  "map_of (members_v11 m) ''streamId'' = Some (JString (ms_stream m))"
  "map_of (members_v11 m) ''taskId'' = map_option JString (ms_task m)"
  "map_of (members_v11 m) ''type'' = Some (JString (ms_type m))"
  "map_of (members_v11 m) ''workspaceId'' = map_option JString (ms_workspace m)"
  "map_of (members_v11 m) ''sequence'' = Some (JNumber (itoa (ms_sequence m)))"
  "map_of (members_v11 m) ''payload'' = Some (case ms_payload m of None \<Rightarrow> JNull | Some kvs \<Rightarrow> map_value (JObject kvs))"
  "map_of (members_v11 m) ''signer'' =
     map_option (\<lambda>x. JObject [(''clientId'', JString (ws_client x)), (''keyId'', JString (ws_key x))]) (ms_signer m)"
  by (simp_all add: members_v11_def payload_member_def map_add_def split: option.split)

section \<open>Printable documents\<close>

lemma scan_digits_all:
  assumes "list_all is_digit s"
  shows "takeWhile is_digit s = s" "dropWhile is_digit s = []"
  using assms by (induction s) auto

lemma itoa_head: "0 < n \<Longrightarrow> hd (itoa n) \<noteq> CHR ''0''"
proof (induction n rule: itoa.induct)
  case (1 n)
  show ?case
  proof (cases "n < 10")
    case True
    then have "itoa n = [rune_char (48 + n)]" using 1 by (simp add: itoa.simps [of n])
    moreover have "byte (rune_char (48 + n)) \<noteq> byte CHR ''0''" using 1 True by (simp add: byte_def [of "CHR ''0''"])
    ultimately show ?thesis by auto
  next
    case False
    then have "itoa n = itoa (n div 10) @ [rune_char (48 + n mod 10)]" using 1 by (simp add: itoa.simps [of n])
    moreover have "hd (itoa (n div 10)) \<noteq> CHR ''0''" using 1 False by (simp add: pos_imp_zdiv_pos_iff)
    moreover have "itoa (n div 10) \<noteq> []" using itoa_digits [of "n div 10"] False by simp
    ultimately show ?thesis by simp
  qed
qed

lemma itoa_literal: "0 \<le> n \<Longrightarrow> number_literal (itoa n)"
proof -
  assume n: "0 \<le> n"
  obtain c ds where c: "itoa n = c # ds" using itoa_digits [OF n] by (cases "itoa n") auto
  have digits: "list_all is_digit (c # ds)" using itoa_digits [OF n] c by simp
  have "c \<noteq> CHR ''-''" using digits digit_not_sign by simp
  moreover have "scan_integer (c # ds) = Some (c # ds, [])"
  proof (cases "c = CHR ''0''")
    case True
    then have "n = 0" using itoa_head [of n] c n by (cases "n = 0") auto
    then have "ds = []" using c by (simp add: itoa.simps [of 0])
    then show ?thesis using True by (simp add: scan_integer_def)
  next
    case False
    then show ?thesis using digits scan_digits_all [OF digits] by (simp add: scan_integer_def)
  qed
  ultimately show ?thesis
    using c by (simp add: number_literal_def scan_number_def andthen_def scan_sign_def scan_fraction_def
        scan_exponent_def prepend_def)
qed

lemma printable_map [simp]: "printable (map_value v) = printable v"
proof (induction v rule: map_value.induct)
  case (1 vs)
  then show ?case by (auto simp: list_all_iff)
next
  case (2 kvs)
  then show ?case by (auto simp: list_all_iff)
qed simp_all

lemma unique_map [simp]: "unique_members (map_value v) = unique_members v"
proof (induction v rule: map_value.induct)
  case (1 vs)
  then show ?case by (auto simp: list_all_iff)
next
  case (2 kvs)
  have "distinct (map fst (sorted_payload kvs)) \<longleftrightarrow> distinct (map fst kvs)" by (rule distinct_sorted_payload)
  with 2 show ?case by (auto simp: list_all_iff sorted_payload_def)
qed simp_all

definition good_payload :: "(string \<times> json) list option \<Rightarrow> bool" where
  "good_payload p = (case p of None \<Rightarrow> True | Some kvs \<Rightarrow> printable (JObject kvs) \<and> unique_members (JObject kvs))"

definition good_members :: "(string \<times> json) list \<Rightarrow> bool" where
  "good_members kvs = list_all (\<lambda>m. ValidString (fst m) \<and> printable (snd m) \<and> unique_members (snd m)) kvs"

lemma good_append [simp]: "good_members (xs @ ys) \<longleftrightarrow> good_members xs \<and> good_members ys"
  by (simp add: good_members_def)

lemma good_payload_member: "good_payload p \<Longrightarrow> good_members (payload_member p)"
proof (cases p)
  case (Some kvs)
  assume "good_payload p"
  then have "printable (map_value (JObject kvs))" "unique_members (map_value (JObject kvs))"
    using Some unfolding printable_map unique_map by (simp_all add: good_payload_def)
  moreover have "ValidString ''payload''" by code_simp
  ultimately show ?thesis using Some by (simp add: good_members_def payload_member_def)
qed (simp add: good_members_def payload_member_def, code_simp)

definition valid_members :: "(string \<times> json) list \<Rightarrow> bool" where
  "valid_members kvs = list_all (\<lambda>m. ValidString (fst m) \<and> valid_strings (snd m)) kvs"

lemma valid_members_append [simp]: "valid_members (xs @ ys) \<longleftrightarrow> valid_members xs \<and> valid_members ys"
  by (simp add: valid_members_def)

lemma valid_members_Cons [simp]:
  "valid_members ((k, v) # kvs) \<longleftrightarrow> ValidString k \<and> valid_strings v \<and> valid_members kvs"
  by (simp add: valid_members_def)

lemma good_members_Cons [simp]:
  "good_members ((k, v) # kvs) \<longleftrightarrow> ValidString k \<and> printable v \<and> unique_members v \<and> good_members kvs"
  by (simp add: good_members_def)

lemma valid_members_iff: "valid_strings (JObject kvs) = valid_members kvs"
  by (simp add: valid_members_def)

lemma good_chunks:
  "valid_members (text_member k s) \<Longrightarrow> good_members (text_member k s)"
  "valid_members (optional_member k x) \<Longrightarrow> good_members (optional_member k x)"
  "valid_members (signer_member z) \<Longrightarrow> good_members (signer_member z)"
  by (auto simp: valid_members_def good_members_def text_member_def optional_member_def signer_member_def
      itoa_literal split: option.splits)

lemma good_members_v1:
  "valid_strings (JObject (members_v1 m)) \<Longrightarrow> good_payload (ms_payload m) \<Longrightarrow> 0 \<le> ms_sequence m \<Longrightarrow>
    good_members (members_v1 m)"
  unfolding valid_members_iff members_v1_def by (simp add: good_chunks good_payload_member itoa_literal)

lemma good_members_v11:
  "valid_strings (JObject (members_v11 m)) \<Longrightarrow> good_payload (ms_payload m) \<Longrightarrow> 0 \<le> ms_sequence m \<Longrightarrow>
    good_members (members_v11 m)"
  unfolding valid_members_iff members_v11_def by (simp add: good_chunks good_payload_member itoa_literal)

lemma good_document:
  assumes "good_members kvs" "distinct (map fst kvs)"
  shows "printable (JObject kvs)" "unique_members (JObject kvs)"
    "printable (unsigned_document kvs)" "unique_members (unsigned_document kvs)"
proof -
  show "printable (JObject kvs)" "unique_members (JObject kvs)"
    using assms by (auto simp: good_members_def list_all_iff)
  show "printable (unsigned_document kvs)"
    using assms by (auto simp: good_members_def list_all_iff unsigned_document_def)
  have "distinct (map fst (sort_key fst (filter (\<lambda>m. fst m \<noteq> ''signature'') kvs)))"
    using distinct_without [OF assms(2), of "\<lambda>m. fst m \<noteq> ''signature''"] unfolding distinct_map by simp
  then show "unique_members (unsigned_document kvs)"
    using assms(1) by (auto simp: good_members_def list_all_iff unsigned_document_def)
qed

section \<open>Statements\<close>

datatype signed_statement =
  StControl v1_message
| StControl11 v11_message
| StPairing pairing_decision
| StClientRevocation client_revocation
| StRotation credential_rotation
| StEnrollment node_enrollment_decision
| StNodeRevocation node_revocation

fun statement_input :: "codec \<Rightarrow> signed_statement \<Rightarrow> bytes option" where
  "statement_input c (StControl m) = ControlSigningInput c m"
| "statement_input c (StControl11 m) = ControlSigningInput11 c m"
| "statement_input c (StPairing v) = PairingDecisionSigningInput c v"
| "statement_input c (StClientRevocation v) = ClientRevocationSigningInput c v"
| "statement_input c (StRotation v) = CredentialRotationSigningInput c v"
| "statement_input c (StEnrollment v) = NodeEnrollmentDecisionSigningInput c v"
| "statement_input c (StNodeRevocation v) = NodeRevocationSigningInput c v"

fun purpose_name :: "signed_statement \<Rightarrow> string" where
  "purpose_name (StControl m) = ''yuanshu-control-v1''"
| "purpose_name (StControl11 m) = ''yuanshu-control-v1.1''"
| "purpose_name (StPairing v) = ''yuanshu-pairing-decision-v1''"
| "purpose_name (StClientRevocation v) = ''yuanshu-client-revocation-v1''"
| "purpose_name (StRotation v) = ''yuanshu-node-credential-rotation-v1''"
| "purpose_name (StEnrollment v) = ''yuanshu-node-enrollment-decision-v1''"
| "purpose_name (StNodeRevocation v) = ''yuanshu-node-revocation-v1''"

text \<open>The document of a statement, as it is canonicalised.\<close>

fun statement_document :: "signed_statement \<Rightarrow> json" where
  "statement_document (StControl m) = unsigned_document (members_v1 m)"
| "statement_document (StControl11 m) = unsigned_document (members_v11 m)"
| "statement_document (StPairing v) = string_members (pairing_document v)"
| "statement_document (StClientRevocation v) = string_members (revocation_document v)"
| "statement_document (StRotation v) = string_members (rotation_document v)"
| "statement_document (StEnrollment v) = string_members (enrollment_document v)"
| "statement_document (StNodeRevocation v) = string_members (node_revocation_document v)"

lemmas domain_defs = ControlSigningDomain_def ControlSigningDomain11_def PairingDecisionDomain_def
  ClientRevocationDomain_def CredentialRotationDomain_def NodeEnrollmentDomain_def NodeRevocationDomain_def

lemmas input_defs = ControlSigningInput_def ControlSigningInput11_def PairingDecisionSigningInput_def
  ClientRevocationSigningInput_def CredentialRotationSigningInput_def NodeEnrollmentDecisionSigningInput_def
  NodeRevocationSigningInput_def signingInput_def

lemma statement_input_shape:
  assumes "statement_input c a = Some x"
  shows "\<exists>canonical. x = purpose_name a @ CHR 0x00 # canonical \<and>
    cd_jcs c (Marshal (statement_document a)) = Some canonical"
proof (cases a)
  case (StControl m)
  with assms show ?thesis
    by (auto simp: ControlSigningInput_def ControlSigningDomain_def split: if_splits option.splits)
next
  case (StControl11 m)
  with assms show ?thesis
    by (auto simp: ControlSigningInput11_def ControlSigningDomain11_def split: if_splits option.splits sum.splits)
qed (use assms in \<open>simp only: statement_input.simps purpose_name.simps statement_document.simps input_defs domain_defs
  split: if_splits option.splits; simp\<close>)+

lemma purpose_read:
  assumes "statement_input c a = Some x"
  shows "takeWhile (\<lambda>c. c \<noteq> CHR 0x00) x = purpose_name a"
proof -
  have "CHR 0x00 \<notin> set (purpose_name a)" by (cases a) simp_all
  with statement_input_shape [OF assms] show ?thesis by (auto simp: takeWhile_tail takeWhile_append)
qed

section \<open>The same bytes, the same statement\<close>

text \<open>What the text of a statement must satisfy for the bytes to speak for it: strings in UTF-8, as every
  frame read from the wire has, and payloads that are JSON. The v1 encoder checks the strings itself.\<close>

fun good_statement :: "signed_statement \<Rightarrow> bool" where
  "good_statement (StControl m) = good_payload (ms_payload m)"
| "good_statement (StControl11 m) =
     (valid_strings (JObject (members_v11 m)) \<and> good_payload (ms_payload m) \<and> ms_sequence m \<le> max_js_sequence)"
| "good_statement a = printable (statement_document a)"

text \<open>The same statement: all fields equal, but for the signature, which is not signed, and the order and
  spelling of the payload.\<close>

definition same_payload :: "(string \<times> json) list option \<Rightarrow> (string \<times> json) list option \<Rightarrow> bool" where
  "same_payload p q =
     same_json (case p of None \<Rightarrow> JNull | Some kvs \<Rightarrow> map_value (JObject kvs))
       (case q of None \<Rightarrow> JNull | Some kvs \<Rightarrow> map_value (JObject kvs))"

fun same_statement :: "signed_statement \<Rightarrow> signed_statement \<Rightarrow> bool" where
  "same_statement (StControl m) (StControl n) =
     (n\<lparr>ms_signature := ms_signature m, ms_payload := ms_payload m\<rparr> = m \<and> same_payload (ms_payload m) (ms_payload n))"
| "same_statement (StControl11 m) (StControl11 n) =
     (n\<lparr>ms_signature := ms_signature m, ms_payload := ms_payload m\<rparr> = m \<and> same_payload (ms_payload m) (ms_payload n))"
| "same_statement a b = (a = b)"

lemma same_string_members:
  assumes "same_json (string_members a) (string_members b)" "map fst a = map fst b" "distinct (map fst a)"
  shows "a = b"
proof -
  have lookup: "map_of (map (\<lambda>(k, s). (k, JString s)) kvs) k = map_option JString (map_of kvs k)" for kvs k
    by (induction kvs) auto
  from assms(1) have "rel_option same_json (map_of (map (\<lambda>(k, s). (k, JString s)) a) k)
      (map_of (map (\<lambda>(k, s). (k, JString s)) b) k)" for k
    unfolding string_members_def by (rule same_object) simp
  then have "map_of a k = map_of b k" for k unfolding lookup by simp
  then have eq: "map_of a = map_of b" by blast
  have b: "distinct (map fst b)" using assms(2,3) by simp
  have "set a = set b" using map_of_inject_set [OF assms(3) b] eq by blast
  then show ?thesis using assms(2,3) b
    by (intro nth_equalityI) (metis length_map, metis (no_types, lifting) distinct_map inj_onD length_map nth_map nth_mem)
qed

lemma same_document_v1:
  assumes "same_json (unsigned_document (members_v1 m)) (unsigned_document (members_v1 n))"
    and "0 \<le> ms_sequence m" "ms_sequence m \<le> max_js_sequence" "0 \<le> ms_sequence n" "ms_sequence n \<le> max_js_sequence"
  shows "same_statement (StControl m) (StControl n)"
proof -
  note same = same_unsigned [OF assms(1) members_v1_distinct members_v1_distinct]
  have texts: "ms_correlation m = ms_correlation n" "ms_expires m = ms_expires n" "ms_item m = ms_item n"
    "ms_message m = ms_message n" "ms_node m = ms_node n" "ms_nonce m = ms_nonce n" "ms_owner m = ms_owner n"
    "ms_version m = ms_version n" "ms_sent m = ms_sent n" "ms_stream m = ms_stream n" "ms_thread m = ms_thread n"
    "ms_turn m = ms_turn n" "ms_type m = ms_type n" "ms_workspace m = ms_workspace n"
    using same [of "''correlationId''"] same [of "''expiresAt''"] same [of "''itemId''"] same [of "''messageId''"]
      same [of "''nodeId''"] same [of "''nonce''"] same [of "''ownerId''"] same [of "''protocolVersion''"]
      same [of "''sentAt''"] same [of "''streamId''"] same [of "''threadId''"] same [of "''turnId''"]
      same [of "''type''"] same [of "''workspaceId''"]
    by (simp_all add: text_of_v1)
  have "ms_signer m = ms_signer n" using same [of "''signer''"] by (simp add: text_of_v1 rel_signer)
  moreover have "ms_sequence m = ms_sequence n"
    using same [of "''sequence''"] assms(2-5) by (simp add: text_of_v1 rel_sequence)
  moreover have "same_payload (ms_payload m) (ms_payload n)"
    using same [of "''payload''"] by (simp add: text_of_v1 same_payload_def del: map_value.simps)
  ultimately show ?thesis using texts by (simp add: v1_message.equality)
qed

lemma same_document_v11:
  assumes "same_json (unsigned_document (members_v11 m)) (unsigned_document (members_v11 n))"
    and "0 \<le> ms_sequence m" "ms_sequence m \<le> max_js_sequence" "0 \<le> ms_sequence n" "ms_sequence n \<le> max_js_sequence"
  shows "same_statement (StControl11 m) (StControl11 n)"
proof -
  note same = same_unsigned [OF assms(1) members_v11_distinct members_v11_distinct]
  have texts: "ms_correlation m = ms_correlation n" "ms_expires m = ms_expires n" "ms_activity m = ms_activity n"
    "ms_agent m = ms_agent n" "ms_interaction m = ms_interaction n" "ms_message m = ms_message n"
    "ms_node m = ms_node n" "ms_nonce m = ms_nonce n" "ms_owner m = ms_owner n" "ms_version m = ms_version n"
    "ms_run m = ms_run n" "ms_sent m = ms_sent n" "ms_stream m = ms_stream n" "ms_task m = ms_task n"
    "ms_type m = ms_type n" "ms_workspace m = ms_workspace n"
    using same [of "''correlationId''"] same [of "''expiresAt''"] same [of "''activityId''"]
      same [of "''agentInstanceId''"] same [of "''interactionId''"] same [of "''messageId''"]
      same [of "''nodeId''"] same [of "''nonce''"] same [of "''ownerId''"] same [of "''protocolVersion''"]
      same [of "''runId''"] same [of "''sentAt''"] same [of "''streamId''"] same [of "''taskId''"]
      same [of "''type''"] same [of "''workspaceId''"]
    by (simp_all add: text_of_v11)
  have "ms_signer m = ms_signer n" using same [of "''signer''"] by (simp add: text_of_v11 rel_signer)
  moreover have "ms_sequence m = ms_sequence n"
    using same [of "''sequence''"] assms(2-5) by (simp add: text_of_v11 rel_sequence)
  moreover have "same_payload (ms_payload m) (ms_payload n)"
    using same [of "''payload''"] by (simp add: text_of_v11 same_payload_def del: map_value.simps)
  ultimately show ?thesis using texts by (simp add: v11_message.equality)
qed

lemmas document_defs = pairing_document_def revocation_document_def rotation_document_def enrollment_document_def
  node_revocation_document_def

lemma unique_string_members: "unique_members (string_members kvs) \<longleftrightarrow> distinct (map fst kvs)"
  by (auto simp: string_members_def list_all_iff comp_def case_prod_unfold)

text \<open>The checks an encoder makes before it signs.\<close>

lemma control_checked:
  assumes "ControlSigningInput c m = Some x"
  shows "valid_strings (JObject (members_v1 m))" "0 \<le> ms_sequence m" "ms_sequence m \<le> max_js_sequence"
  using assms
  by (auto simp: ControlSigningInput_def validateIJSON_def validateControlForEncoding_def simp del: valid_strings.simps
      split: if_splits)

lemma control11_checked: "ControlSigningInput11 c m = Some x \<Longrightarrow> 0 \<le> ms_sequence m"
  by (auto simp: ControlSigningInput11_def split: if_splits)

lemma statement_prints:
  assumes "statement_input c a = Some x" "good_statement a"
  shows "printable (statement_document a)" "unique_members (statement_document a)"
proof -
  have "printable (statement_document a) \<and> unique_members (statement_document a)"
  proof (cases a)
    case (StControl m)
    with assms control_checked [of c m x] have "good_members (members_v1 m)" by (auto intro: good_members_v1)
    with StControl good_document [OF this members_v1_distinct] show ?thesis by simp
  next
    case (StControl11 m)
    with assms control11_checked [of c m x] have "good_members (members_v11 m)" by (auto intro: good_members_v11)
    with StControl11 good_document [OF this members_v11_distinct] show ?thesis by simp
  qed (use assms(2) in \<open>simp_all add: unique_string_members document_defs\<close>)
  then show "printable (statement_document a)" "unique_members (statement_document a)" by blast+
qed

lemma same_purpose_document:
  assumes "jcs_faithful (cd_jcs c)" "statement_input c a = Some x" "statement_input c b = Some x"
    and "good_statement a" "good_statement b"
  shows "purpose_name a = purpose_name b" "same_json (statement_document a) (statement_document b)"
proof -
  show names: "purpose_name a = purpose_name b"
    using purpose_read [OF assms(2)] purpose_read [OF assms(3)] by simp
  from statement_input_shape [OF assms(2)] statement_input_shape [OF assms(3)] names
  obtain y where "cd_jcs c (Marshal (statement_document a)) = Some y" "cd_jcs c (Marshal (statement_document b)) = Some y"
    by auto
  from jcs_faithfulD [OF assms(1) this] show "same_json (statement_document a) (statement_document b)"
    using statement_prints assms by blast
qed

lemma same_texts:
  "same_json (string_members (pairing_document v)) (string_members (pairing_document w)) \<Longrightarrow> v = w"
  "same_json (string_members (revocation_document cv)) (string_members (revocation_document cw)) \<Longrightarrow> cv = cw"
  "same_json (string_members (rotation_document rv)) (string_members (rotation_document rw)) \<Longrightarrow> rv = rw"
  "same_json (string_members (enrollment_document ev)) (string_members (enrollment_document ew)) \<Longrightarrow> ev = ew"
  "same_json (string_members (node_revocation_document nv)) (string_members (node_revocation_document nw)) \<Longrightarrow> nv = nw"
  by (drule same_string_members; simp add: document_defs pairing_decision.equality client_revocation.equality
      credential_rotation.equality node_enrollment_decision.equality node_revocation.equality)+

section \<open>Properties\<close>


definition demo_codec :: codec where
  "demo_codec = \<lparr>cd_jcs = Some, cd_schema = Some (\<lambda>_. True), cd_schema11 = Some (\<lambda>_. True), cd_sha256 = take 32,
     cd_verify = (\<lambda>k m s. True)\<rparr>"

definition demo_control :: "string option \<Rightarrow> v1_message" where
  "demo_control sig = zero_v1\<lparr>ms_correlation := ''c1'', ms_expires := Some ''2026-07-18T10:01:00Z'', ms_message := ''m1'',
     ms_node := ''n'', ms_nonce := Some (replicate 22 CHR ''A''), ms_owner := ''o'', ms_payload := Some [(''k'', JBool True)],
     ms_version := ''1.0'', ms_sent := ''2026-07-18T10:00:00Z'', ms_sequence := 7, ms_signature := sig,
     ms_signer := Some \<lparr>ws_client = ''cl'', ws_key = ''ke''\<rparr>, ms_stream := ''s'', ms_type := ''turn.start''\<rparr>"


text \<open>Without UTF-8 the signed bytes do not tell the statement: the v1.1 encoder takes strings that are not UTF-8,
  \<^verbatim>\<open>json.Marshal\<close> writes U+FFFD for their bytes, and two controls for different nodes have the same
  signing input.\<close>

definition demo_control11 :: "string \<Rightarrow> v11_message" where
  "demo_control11 node = zero_v11\<lparr>ms_correlation := ''c1'', ms_expires := Some ''2026-07-18T10:01:00Z'', ms_message := ''m1'',
     ms_node := node, ms_nonce := Some (replicate 22 CHR ''A''), ms_owner := ''o'', ms_payload := Some [(''k'', JBool True)],
     ms_version := ''1.1'', ms_sent := ''2026-07-18T10:00:00Z'', ms_sequence := 7, ms_signature := None,
     ms_signer := Some \<lparr>ws_client = ''cl'', ws_key = ''ke''\<rparr>, ms_stream := ''s'', ms_type := ''run.start''\<rparr>"

theorem signature_collides:
  "statement_input demo_codec (StControl11 (demo_control11 [CHR 0xFE])) \<noteq> None"
  "statement_input demo_codec (StControl11 (demo_control11 [CHR 0xFE])) =
     statement_input demo_codec (StControl11 (demo_control11 [CHR 0xFF]))"
  by code_simp+

text \<open>Numbers of a payload are told apart by their values and not by their spelling.\<close>

lemma same_number_values:
  "\<not> same_number ''1.5'' ''2.5''" "same_number ''1.50'' ''15e-1''" "\<not> same_number ''9007199254740991'' ''9007199254740992''"
  "same_number ''9007199254740992'' ''9007199254740993''"
  by code_simp+

end
