(* ===== verification/Frame_Codec.thy ===== *)
theory Frame_Codec
  imports Signing_Binding
begin

text \<open>
  Event frames written by \<^verbatim>\<open>MarshalEvent\<close> and read by \<^verbatim>\<open>ParseEvent\<close>
  (\<^verbatim>\<open>internal/protocol/v1/eventcodec.go\<close>), and the bounds a frame that was accepted obeys.
\<close>

text \<open>An event the Go types can hold: UTF-8 strings, a payload that is a map of JSON values with float64
  numbers, nested no deeper than the library reads.\<close>

definition good_event :: "v1_message \<Rightarrow> bool" where
  "good_event m =
     (valid_strings (JObject (members_v1 m)) \<and> good_payload (ms_payload m) \<and> payload_ok (ms_payload m) \<and>
      json_depth (JObject (members_v1 m)) \<le> 10000)"

lemma marshalled_document:
  assumes "good_event m" "0 \<le> ms_sequence m" "decodeStrictJSON jcs (Marshal (JObject (members_v1 m))) = Inr doc"
  shows "doc = JObject (members_v1 m)"
proof -
  have "good_members (members_v1 m)" using assms(1,2) by (auto simp: good_event_def intro: good_members_v1)
  from Marshal_read_back [OF good_document(1,2) [OF this members_v1_distinct]]
  have "decodeUniqueJSON (Marshal (JObject (members_v1 m))) = Inr (JObject (members_v1 m))" .
  with assms(3) show ?thesis by (auto simp: decodeStrictJSON_def split: if_splits)
qed

section \<open>Copies of v1.1 messages\<close>

lemma foldr_max_le: "foldr (\<lambda>x d. max (f x) d) xs (0 :: int) \<le> n \<longleftrightarrow> 0 \<le> n \<and> (\<forall>x \<in> set xs. f x \<le> n)"
  by (induction xs) auto

lemma depth_object: "json_depth (JObject kvs) \<le> n \<longleftrightarrow> 1 \<le> n \<and> (\<forall>m \<in> set kvs. json_depth (snd m) \<le> n - 1)"
  using foldr_max_le [of "\<lambda>m. json_depth (snd m)" kvs "n - 1"] by auto

lemma depth_array: "json_depth (JArray vs) \<le> n \<longleftrightarrow> 1 \<le> n \<and> (\<forall>v \<in> set vs. json_depth v \<le> n - 1)"
  using foldr_max_le [of json_depth vs "n - 1"] by auto

lemma depth_map [simp]: "json_depth (map_value v) = json_depth v"
proof (induction v rule: map_value.induct)
  case (1 vs)
  have "json_depth (map_value (JArray vs)) \<le> n \<longleftrightarrow> json_depth (JArray vs) \<le> n" for n
    using 1 unfolding map_value.simps depth_array by auto
  then show ?case by (metis order_refl antisym)
next
  case (2 kvs)
  have "json_depth (map_value (JObject kvs)) \<le> n \<longleftrightarrow> json_depth (JObject kvs) \<le> n" for n
    using 2 unfolding map_value.simps depth_object by auto
  then show ?case by (metis order_refl antisym)
qed simp_all

text \<open>What reading a message guarantees of its payload and sequence.\<close>

definition read_inv :: "'a envelope_scheme \<Rightarrow> bool" where
  "read_inv m =
     (payload_ok (ms_payload m) \<and> - (2 ^ 63) \<le> ms_sequence m \<and> ms_sequence m < 2 ^ 63 \<and>
      (case ms_payload m of None \<Rightarrow> True | Some kvs \<Rightarrow> json_depth (JObject kvs) \<le> 9999))"

lemma put_member_distinct: "distinct (map fst kvs) \<Longrightarrow> distinct (map fst (put_member m kvs))"
  by (induction kvs) (auto simp: put_member_def)

lemma fold_put_distinct: "distinct (map fst acc) \<Longrightarrow> distinct (map fst (fold put_member kvs acc))"
  by (induction kvs arbitrary: acc) (auto intro: put_member_distinct)

lemma fold_put_set: "set (fold put_member kvs acc) \<subseteq> set acc \<union> set kvs"
proof (induction kvs arbitrary: acc)
  case (Cons m kvs)
  have "set (put_member m acc) \<subseteq> insert m (set acc)" by (auto simp: put_member_def)
  with Cons.IH [of "put_member m acc"] show ?case by auto
qed simp

lemma as_map_inv:
  assumes "as_map v old = Some p" "payload_ok old" "json_depth v \<le> 9999"
    and "case old of None \<Rightarrow> True | Some kvs \<Rightarrow> json_depth (JObject kvs) \<le> 9999"
  shows "payload_ok p \<and> (case p of None \<Rightarrow> True | Some kvs \<Rightarrow> json_depth (JObject kvs) \<le> 9999)"
proof (cases v)
  case (JObject kvs)
  let ?old = "case old of None \<Rightarrow> [] | Some kv0 \<Rightarrow> kv0"
  from assms(1) JObject have p: "p = Some (fold put_member kvs ?old)" and fit: "numbers_fit (JObject kvs)"
    by (auto simp: as_map_def split: if_splits)
  have old: "distinct (map fst ?old)" "\<forall>m \<in> set ?old. numbers_fit (snd m) \<and> json_depth (snd m) \<le> 9998"
    using assms(2,4) by (cases old; force simp: payload_ok_def depth_object list_all_iff simp del: json_depth.simps)+
  have "\<forall>m \<in> set (fold put_member kvs ?old). numbers_fit (snd m) \<and> json_depth (snd m) \<le> 9998"
    using fold_put_set [of kvs ?old] old(2) fit assms(3) JObject
    by (force simp: list_all_iff depth_object simp del: json_depth.simps)
  then show ?thesis using fold_put_distinct [OF old(1), of kvs]
    by (auto simp: p payload_ok_def list_all_iff depth_object simp del: json_depth.simps)
qed (use assms(1) in \<open>auto simp: as_map_def payload_ok_def\<close>)

lemma Atoi_range: "Atoi s = Some n \<Longrightarrow> - (2 ^ 63) \<le> n \<and> n < 2 ^ 63"
  by (auto simp: Atoi_def Let_def split: prod.splits if_splits)

lemma as_int64_range: "as_int64 v old = Some n \<Longrightarrow> - (2 ^ 63) \<le> old \<Longrightarrow> old < 2 ^ 63 \<Longrightarrow> - (2 ^ 63) \<le> n \<and> n < 2 ^ 63"
  using Atoi_range by (auto simp: as_int64_def split: json.splits)

lemma set_common_inv:
  assumes "set_common n v m = Some m'" "read_inv m" "json_depth v \<le> 9999"
  shows "read_inv m'"
proof (cases "n = ''payload''")
  case True
  with assms as_map_inv [of v "ms_payload m"] show ?thesis by (auto simp: set_common_def read_inv_def)
next
  case False
  show ?thesis
  proof (cases "n = ''sequence''")
    case True
    with assms as_int64_range [of v "ms_sequence m"] show ?thesis by (auto simp: set_common_def read_inv_def)
  next
    case other: False
    with assms False show ?thesis unfolding set_common_def by (auto simp: read_inv_def split: if_splits)
  qed
qed

lemma set_v11_inv:
  assumes "set_v11 n v m = Some m'" "read_inv m" "json_depth v \<le> 9999"
  shows "read_inv m'"
  using assms set_common_inv [of n v m m'] unfolding set_v11_def by (auto simp: read_inv_def split: if_splits)

lemma assign_inv:
  assumes "\<And>n v m m'. f n v m = Some m' \<Longrightarrow> read_inv m \<Longrightarrow> json_depth v \<le> 9999 \<Longrightarrow> read_inv m'"
    and "assign_all f names kvs m = Some m'" "read_inv m" "\<forall>x \<in> set kvs. json_depth (snd x) \<le> 9999"
  shows "read_inv m'"
  using assms(2-4)
proof (induction kvs arbitrary: m)
  case (Cons x kvs)
  obtain k v where x: "x = (k, v)" by (cases x)
  show ?case
  proof (cases "field_of names k")
    case (Some n)
    with Cons.prems x obtain m1 where m1: "f n v m = Some m1" "assign_all f names kvs m1 = Some m'"
      by (auto split: option.splits)
    have "read_inv m1" using assms(1) [OF m1(1)] Cons.prems x by simp
    with Cons.IH [OF m1(2)] Cons.prems show ?thesis by simp
  qed (use Cons x in simp)
qed simp

lemma unmarshal_v11_inv: "unmarshal_v11 doc = Some m \<Longrightarrow> read_inv m"
proof -
  assume u: "unmarshal_v11 doc = Some m"
  have zero: "read_inv zero_v11" by (simp add: read_inv_def zero_v11_def payload_ok_def)
  show ?thesis
  proof (cases doc)
    case (JObject kvs)
    with u have "json_depth (JObject kvs) \<le> 10000"
      by (auto simp: unmarshal_v11_def unmarshal_with_def simp del: json_depth.simps split: if_splits)
    then have "\<forall>x \<in> set kvs. json_depth (snd x) \<le> 9999" by (auto simp: depth_object simp del: json_depth.simps)
    with u JObject zero show ?thesis
      using assign_inv [of set_v11, OF set_v11_inv]
      by (auto simp: unmarshal_v11_def unmarshal_with_def simp del: json_depth.simps split: if_splits)
  qed (use u zero in \<open>auto simp: unmarshal_v11_def unmarshal_with_def split: if_splits\<close>)
qed

lemma depth_member_chunks:
  "m \<in> set (text_member k s) \<Longrightarrow> json_depth (snd m) = 0"
  "m \<in> set (optional_member k x) \<Longrightarrow> json_depth (snd m) = 0"
  "m \<in> set (signer_member z) \<Longrightarrow> json_depth (snd m) = 1"
  by (auto simp: text_member_def optional_member_def signer_member_def split: option.splits)

lemma depth_members_v11:
  assumes "read_inv m"
  shows "json_depth (JObject (members_v11 m)) \<le> 10000"
proof -
  have "json_depth (snd x) \<le> 9999" if "x \<in> set (payload_member (ms_payload m))" for x
    using that assms by (cases "ms_payload m") (auto simp: payload_member_def read_inv_def simp del: map_value.simps)
  then show ?thesis
    unfolding depth_object members_v11_def by (auto dest!: depth_member_chunks)
qed

lemma clone_read:
  assumes "read_inv m"
  shows "cloneMessage11 m = m\<lparr>ms_payload := map_option sorted_payload (ms_payload m)\<rparr>"
  using unmarshal_members_v11 [of m] depth_members_v11 [OF assms] assms
  by (simp add: cloneMessage11_def read_inv_def del: json_depth.simps)

lemma read_inv_sorted:
  assumes "read_inv m"
  shows "read_inv (m\<lparr>ms_payload := map_option sorted_payload (ms_payload m)\<rparr>)"
proof (cases "ms_payload m")
  case (Some kvs)
  have eq: "JObject (sorted_payload kvs) = map_value (JObject kvs)" by (simp add: sorted_payload_def)
  have "numbers_fit (JObject (sorted_payload kvs))" "json_depth (JObject (sorted_payload kvs)) \<le> 9999"
    using assms Some unfolding eq numbers_fit_map depth_map by (auto simp: read_inv_def payload_ok_def)
  with assms Some distinct_sorted_payload [of kvs] show ?thesis
    by (simp add: read_inv_def payload_ok_def del: json_depth.simps)
qed (use assms in \<open>simp add: read_inv_def payload_ok_def\<close>)

text \<open>A parsed v1.1 message, and its copy, is the message that was read but for the order of the payload.\<close>

lemma parse11_read:
  assumes "parse11 c raw ctl schema = Inr m"
  obtains doc m0 where "decodeStrictJSON (cd_jcs c) raw = Inr doc" "schema_accepts schema doc" "unmarshal_v11 doc = Some m0"
    "m = m0\<lparr>ms_payload := map_option sorted_payload (ms_payload m0)\<rparr>" "read_inv m"
proof -
  from assms obtain doc m0 where d: "decodeStrictJSON (cd_jcs c) raw = Inr doc" "schema_accepts schema doc"
    "unmarshal_v11 doc = Some m0" "m = cloneMessage11 m0"
    by (auto simp: parse11_def Let_def split: if_splits sum.splits option.splits)
  note inv = unmarshal_v11_inv [OF d(3)]
  from that [OF d(1-3)] d(4) clone_read [OF inv] read_inv_sorted [OF inv] show ?thesis by simp
qed

section \<open>Properties\<close>


definition demo_event :: v1_message where
  "demo_event = zero_v1\<lparr>ms_correlation := ''c1'', ms_message := ''m1'', ms_node := ''n'', ms_owner := ''o'',
     ms_payload := Some [(''text'', JString ''a<b''), (''code'', JNumber ''-3'')], ms_version := ''1.0'',
     ms_sent := ''2026-07-18T10:00:00Z'', ms_sequence := 1, ms_stream := ''s'', ms_type := ''error'', ms_thread := Some ''t''\<rparr>"

definition demo_frame :: bytes where
  "demo_frame = Marshal (JObject (members_v1 demo_event))"


end
