(* ===== verification/Validator.thy ===== *)
theory Validator
  imports Frame_Codec Trust_Store
begin

text \<open>
  The validators of signed controls, \<^verbatim>\<open>Validate\<close> of
  \<^verbatim>\<open>internal/protocol/v1/validator.go\<close> and of \<^verbatim>\<open>internal/protocol/v11/protocol.go\<close>:
  a raw frame becomes a validated control only after its syntax, schema, target, time window, signer,
  signature and freshness have been checked, in this order. The trust store and the replay store are the
  Go interfaces \<^verbatim>\<open>TrustStore\<close> and \<^verbatim>\<open>ReplayStore\<close>, here two function arguments on
  a common state.
\<close>

section \<open>Data\<close>

datatype error_code =
  ErrorInvalidMessage | ErrorUnsupportedProtocol | ErrorUnsupportedControl | ErrorUnauthorized | ErrorForbidden
| ErrorExpired | ErrorReplay | ErrorNotFound | ErrorConflict | ErrorRateLimited | ErrorPayloadTooLarge
| ErrorRuntimeUnavailable | ErrorRuntimeFailed | ErrorHistoryGap | ErrorAmbiguous | ErrorInternal

datatype validation_stage =
  StageFrame | StageSyntax | StageHeader | StageSchema | StageTarget | StageTime | StageTrust | StageSignature | StageReplay

text \<open>A nil pointer that is dereferenced panics.\<close>

datatype validation_error = ValidationError error_code validation_stage | NilPointer

record target =
  tg_owner :: string
  tg_node :: string

record validator =
  va_max_ttl :: duration
  va_skew :: duration

record 'm validated_control =
  vc_message :: 'm
  vc_key_ref :: key_ref

definition DefaultControlMaxTTL :: duration where
  "DefaultControlMaxTTL = seconds 120"

definition DefaultControlClockSkew :: duration where
  "DefaultControlClockSkew = seconds 30"

text \<open>\<open>stores\<close> says that both stores are given.\<close>

definition NewValidator :: "bool \<Rightarrow> (json \<Rightarrow> bool) option \<Rightarrow> duration \<Rightarrow> duration \<Rightarrow> validator option" where
  "NewValidator stores schema ttl skew =
     (if \<not> stores then None
      else if ttl < 0 \<or> skew < 0 then None
      else if schema = None then None
      else Some \<lparr>va_max_ttl = (if ttl = 0 then DefaultControlMaxTTL else ttl),
                 va_skew = (if skew = 0 then DefaultControlClockSkew else skew)\<rparr>)"

section \<open>Protocol v1\<close>

text \<open>From the raw frame to the message with a canonical nonce; \<open>live\<close> says that the context is neither nil
  nor cancelled.\<close>

definition read_control :: "codec \<Rightarrow> bool \<Rightarrow> bytes \<Rightarrow> validation_error + v1_message" where
  "read_control c live raw =
     (if ControlFrameMaxBytes < int (length raw) then Inl (ValidationError ErrorPayloadTooLarge StageFrame)
      else if \<not> live then Inl (ValidationError ErrorInternal StageFrame)
      else case decodeStrictJSON (cd_jcs c) raw of
        Inl _ \<Rightarrow> Inl (ValidationError ErrorInvalidMessage StageSyntax)
      | Inr doc \<Rightarrow>
          if \<not> is_object doc then Inl (ValidationError ErrorInvalidMessage StageHeader)
          else if blank_pointer (string_member doc ''protocolVersion'') \<or> blank_pointer (string_member doc ''type'')
          then Inl (ValidationError ErrorInvalidMessage StageHeader)
          else if string_member doc ''protocolVersion'' \<noteq> Some CurrentVersion
          then Inl (ValidationError ErrorUnsupportedProtocol StageHeader)
          else if \<not> IsKnownControl (the (string_member doc ''type''))
          then Inl (ValidationError ErrorUnsupportedControl StageHeader)
          else if \<not> schema_accepts (cd_schema c) doc then Inl (ValidationError ErrorInvalidMessage StageSchema)
          else case unmarshal_v1 doc of
            None \<Rightarrow> Inl (ValidationError ErrorInvalidMessage StageSchema)
          | Some m \<Rightarrow>
              (case ms_nonce m of
                 None \<Rightarrow> Inl NilPointer
               | Some n \<Rightarrow> if \<not> validNonce n then Inl (ValidationError ErrorInvalidMessage StageSchema) else Inr m))"

text \<open>Whether the window from \<open>sent\<close> to \<open>expiry\<close> is acceptable at \<open>now\<close>.\<close>

definition window_ok :: "validator \<Rightarrow> gotime \<Rightarrow> gotime \<Rightarrow> gotime \<Rightarrow> bool" where
  "window_ok v now sent expiry =
     (\<not> (\<not> After expiry sent \<or> va_max_ttl v < time_Sub expiry sent \<or> After sent (now + va_skew v) \<or>
         Before expiry (now - va_skew v)))"

definition addressed :: "target \<Rightarrow> 'a envelope_scheme \<Rightarrow> bool" where
  "addressed t m =
     (\<not> (tg_owner t = [] \<or> tg_node t = [] \<or> ms_owner m \<noteq> tg_owner t \<or> ms_node m \<noteq> tg_node t))"

text \<open>The target and the time window; the result is \<^verbatim>\<open>expiresAt\<close>.\<close>

definition check_window :: "validator \<Rightarrow> gotime \<Rightarrow> target \<Rightarrow> v1_message \<Rightarrow> validation_error + gotime" where
  "check_window v now t m =
     (if \<not> addressed t m then Inl (ValidationError ErrorForbidden StageTarget)
      else case parse_RFC3339Nano (ms_sent m) of
        None \<Rightarrow> Inl (ValidationError ErrorInvalidMessage StageTime)
      | Some sent \<Rightarrow>
          (case ms_expires m of
             None \<Rightarrow> Inl NilPointer
           | Some x \<Rightarrow>
               (case parse_RFC3339Nano x of
                  None \<Rightarrow> Inl (ValidationError ErrorInvalidMessage StageTime)
                | Some expiry \<Rightarrow>
                    if \<not> window_ok v now sent expiry then Inl (ValidationError ErrorExpired StageTime)
                    else Inr expiry)))"

definition signer_ref :: "'a envelope_scheme \<Rightarrow> wire_signer \<Rightarrow> key_ref" where
  "signer_ref m s = \<lparr>kr_owner = ms_owner m, kr_node = ms_node m, kr_client = ws_client s, kr_key = ws_key s\<rparr>"

definition check_signature :: "codec \<Rightarrow> trusted_key \<Rightarrow> v1_message \<Rightarrow> validation_error option" where
  "check_signature c key m =
     (if tk_status key = TrustStatusRevoked then Some (ValidationError ErrorForbidden StageTrust)
      else if tk_status key \<noteq> TrustStatusActive \<or> length (tk_public_key key) \<noteq> 32
      then Some (ValidationError ErrorUnauthorized StageTrust)
      else case ms_signature m of
        None \<Rightarrow> Some NilPointer
      | Some s \<Rightarrow>
          (case decodeCanonicalBase64URL s 64 of
             None \<Rightarrow> Some (ValidationError ErrorUnauthorized StageSignature)
           | Some signature \<Rightarrow>
               (case ControlSigningInput c m of
                  None \<Rightarrow> Some (ValidationError ErrorUnauthorized StageSignature)
                | Some input \<Rightarrow>
                    if \<not> cd_verify c (tk_public_key key) input signature
                    then Some (ValidationError ErrorUnauthorized StageSignature) else None)))"

definition control_replay :: "validator \<Rightarrow> gotime \<Rightarrow> 'a envelope_scheme \<Rightarrow> wire_signer \<Rightarrow> string \<Rightarrow> replay_record" where
  "control_replay v expiry m s nonce =
     \<lparr>re_owner = ms_owner m, re_node = ms_node m, re_message = ms_message m, re_client = ws_client s,
      re_key = ws_key s, re_nonce = nonce, re_sequence = ms_sequence m, re_retain = expiry + va_skew v\<rparr>"

definition Validate ::
  "codec \<Rightarrow> validator \<Rightarrow> ('s \<Rightarrow> key_ref \<Rightarrow> store_error + trusted_key) \<Rightarrow>
   ('s \<Rightarrow> replay_record \<Rightarrow> 's \<times> store_error option) \<Rightarrow> bool \<Rightarrow> gotime \<Rightarrow> bytes \<Rightarrow> target \<Rightarrow> 's \<Rightarrow>
   's \<times> (validation_error + v1_message validated_control)" where
  "Validate c v lookup check live now raw t st =
     (case read_control c live raw of
        Inl x \<Rightarrow> (st, Inl x)
      | Inr m \<Rightarrow>
          (case check_window v now t m of
             Inl x \<Rightarrow> (st, Inl x)
           | Inr expiry \<Rightarrow>
               (case ms_signer m of
                  None \<Rightarrow> (st, Inl NilPointer)
                | Some s \<Rightarrow>
                    (case lookup st (signer_ref m s) of
                       Inl x \<Rightarrow> (st, Inl (ValidationError
                         (if x = ErrTrustKeyNotFound then ErrorUnauthorized else ErrorInternal) StageTrust))
                     | Inr key \<Rightarrow>
                         (case check_signature c key m of
                            Some x \<Rightarrow> (st, Inl x)
                          | None \<Rightarrow>
                              (case check st (control_replay v expiry m s (the (ms_nonce m))) of
                                 (st', Some x) \<Rightarrow> (st', Inl (ValidationError
                                   (if x = ErrReplayDetected then ErrorReplay else ErrorInternal) StageReplay))
                               | (st', None) \<Rightarrow>
                                   (st', Inr \<lparr>vc_message = m, vc_key_ref = signer_ref m s\<rparr>)))))))"

section \<open>Protocol v1.1\<close>

datatype error11 =
  InvalidControl11 | TargetForbidden11 | Expired11 | Unauthorized11 | BadSignature11 | StoreError11 store_error

definition signature_ok11 :: "codec \<Rightarrow> trusted_key \<Rightarrow> string \<Rightarrow> v11_message \<Rightarrow> bool" where
  "signature_ok11 c key s m =
     (case (decodeCanonicalBase64URL s 64, ControlSigningInput11 c m) of
        (Some signature, Some input) \<Rightarrow> cd_verify c (tk_public_key key) input signature
      | _ \<Rightarrow> False)"

definition Validate11 ::
  "codec \<Rightarrow> validator \<Rightarrow> ('s \<Rightarrow> key_ref \<Rightarrow> store_error + trusted_key) \<Rightarrow>
   ('s \<Rightarrow> replay_record \<Rightarrow> 's \<times> store_error option) \<Rightarrow> bool \<Rightarrow> gotime \<Rightarrow> bytes \<Rightarrow> target \<Rightarrow> 's \<Rightarrow>
   's \<times> (error11 + v11_message validated_control)" where
  "Validate11 c v lookup check live now raw t st =
     (case parse11 c raw True (cd_schema11 c) of
        Inl _ \<Rightarrow> (st, Inl InvalidControl11)
      | Inr m \<Rightarrow>
          if \<not> live then (st, Inl InvalidControl11)
          else if \<not> addressed t m then (st, Inl TargetForbidden11)
          else
            (case (ms_signer m, ms_signature m, ms_expires m, ms_nonce m) of
               (Some s, Some sig, Some x, Some nonce) \<Rightarrow>
                 (case (parse_RFC3339Nano (ms_sent m), parse_RFC3339Nano x) of
                    (Some sent, Some expiry) \<Rightarrow>
                      if \<not> window_ok v now sent expiry then (st, Inl Expired11)
                      else
                        (case lookup st (signer_ref m s) of
                           Inl _ \<Rightarrow> (st, Inl Unauthorized11)
                         | Inr key \<Rightarrow>
                             if tk_status key \<noteq> TrustStatusActive \<or> length (tk_public_key key) \<noteq> 32
                             then (st, Inl Unauthorized11)
                             else if \<not> signature_ok11 c key sig m then (st, Inl BadSignature11)
                             else
                               (case check st (control_replay v expiry m s nonce) of
                                  (st', Some y) \<Rightarrow> (st', Inl (StoreError11 y))
                                | (st', None) \<Rightarrow>
                                    (st', Inr \<lparr>vc_message = cloneMessage11 m, vc_key_ref = signer_ref m s\<rparr>)))
                  | _ \<Rightarrow> (st, Inl Expired11))
             | _ \<Rightarrow> (st, Inl TargetForbidden11)))"

end
