(* ===== verification/Validator_Contract.thy ===== *)
theory Validator_Contract
  imports Validator
begin

text \<open>
  What a Node may rely on when it obeys a validated control. The locale \<open>control_gate\<close> extends the
  contract of the replay store by what the validators need of the trust store; its client lemmas follow any
  history of frames of both protocol versions, validated with any clock, context and database faults,
  interleaved with any other changes of the stores. The stores of the Node and the in-memory stores
  are interpreted.
\<close>

section \<open>One validation\<close>

definition active_key :: "trusted_key option \<Rightarrow> bool" where
  "active_key k = (case k of None \<Rightarrow> False | Some key \<Rightarrow> tk_status key = TrustStatusActive)"

text \<open>What has been checked of a v1 control that is accepted.\<close>

definition authentic :: "codec \<Rightarrow> validator \<Rightarrow> gotime \<Rightarrow> target \<Rightarrow> trusted_key \<Rightarrow> v1_message \<Rightarrow> bool" where
  "authentic c v now t key m =
     (addressed t m \<and>
      (case (parse_RFC3339Nano (ms_sent m), ms_expires m) of
         (Some sent, Some x) \<Rightarrow>
           (case parse_RFC3339Nano x of Some expiry \<Rightarrow> window_ok v now sent expiry | None \<Rightarrow> False)
       | _ \<Rightarrow> False) \<and>
      tk_status key = TrustStatusActive \<and> length (tk_public_key key) = 32 \<and>
      (case (ms_signature m, ControlSigningInput c m) of
         (Some s, Some input) \<Rightarrow>
           (case decodeCanonicalBase64URL s 64 of
              Some signature \<Rightarrow> cd_verify c (tk_public_key key) input signature | None \<Rightarrow> False)
       | _ \<Rightarrow> False))"

definition authentic11 :: "codec \<Rightarrow> validator \<Rightarrow> gotime \<Rightarrow> target \<Rightarrow> trusted_key \<Rightarrow> v11_message \<Rightarrow> bool" where
  "authentic11 c v now t key m =
     (addressed t m \<and>
      (case (parse_RFC3339Nano (ms_sent m), ms_expires m) of
         (Some sent, Some x) \<Rightarrow>
           (case parse_RFC3339Nano x of Some expiry \<Rightarrow> window_ok v now sent expiry | None \<Rightarrow> False)
       | _ \<Rightarrow> False) \<and>
      tk_status key = TrustStatusActive \<and> length (tk_public_key key) = 32 \<and>
      (case ms_signature m of Some s \<Rightarrow> signature_ok11 c key s m | None \<Rightarrow> False))"

lemma check_window_Inr:
  assumes "check_window v now t m = Inr expiry"
  obtains sent x where "addressed t m" "parse_RFC3339Nano (ms_sent m) = Some sent" "ms_expires m = Some x"
    "parse_RFC3339Nano x = Some expiry" "window_ok v now sent expiry"
  using assms that by (auto simp: check_window_def split: if_splits option.splits)

lemma check_signature_None:
  assumes "check_signature c key m = None"
  obtains s signature input where "tk_status key = TrustStatusActive" "length (tk_public_key key) = 32"
    "ms_signature m = Some s" "decodeCanonicalBase64URL s 64 = Some signature" "ControlSigningInput c m = Some input"
    "cd_verify c (tk_public_key key) input signature"
  using assms that by (auto simp: check_signature_def split: if_splits option.splits)

lemma Validate_accept:
  assumes "Validate c v lookup check live now raw t st = (st', Inr vc)"
  obtains expiry s nonce key where "read_control c live raw = Inr (vc_message vc)"
    "ms_signer (vc_message vc) = Some s" "ms_nonce (vc_message vc) = Some nonce"
    "vc_key_ref vc = signer_ref (vc_message vc) s"
    "lookup st (vc_key_ref vc) = Inr key" "authentic c v now t key (vc_message vc)"
    "check st (control_replay v expiry (vc_message vc) s nonce) = (st', None)"
proof -
  from assms obtain m expiry s key where
    m: "read_control c live raw = Inr m" and w: "check_window v now t m = Inr expiry" and s: "ms_signer m = Some s"
    and k: "lookup st (signer_ref m s) = Inr key" and sig: "check_signature c key m = None"
    and chk: "check st (control_replay v expiry m s (the (ms_nonce m))) = (st', None)"
    and vc: "vc = \<lparr>vc_message = m, vc_key_ref = signer_ref m s\<rparr>"
    by (auto simp: Validate_def split: sum.splits option.splits prod.splits)
  from m obtain nonce where n: "ms_nonce m = Some nonce"
    by (auto simp: read_control_def split: if_splits sum.splits option.splits)
  have "authentic c v now t key m"
    by (rule check_window_Inr [OF w], rule check_signature_None [OF sig]) (simp add: authentic_def)
  with that [of s nonce key expiry] m s k chk vc n show ?thesis by simp
qed

lemma Validate_reject:
  assumes "Validate c v lookup check live now raw t st = (st', Inl x)"
  shows "st' = st \<or> (\<exists>r y. check st r = (st', Some y))"
  using assms by (auto simp: Validate_def split: sum.splits option.splits prod.splits)

lemma Validate11_accept:
  assumes "Validate11 c v lookup check live now raw t st = (st', Inr vc)"
  obtains m expiry s nonce key where "parse11 c raw True (cd_schema11 c) = Inr m"
    "vc_message vc = cloneMessage11 m" "ms_signer m = Some s" "ms_nonce m = Some nonce"
    "vc_key_ref vc = signer_ref m s" "lookup st (vc_key_ref vc) = Inr key" "authentic11 c v now t key m"
    "check st (control_replay v expiry m s nonce) = (st', None)"
  using assms that
  by (auto simp: Validate11_def authentic11_def split: if_splits sum.splits option.splits prod.splits)

lemma Validate11_reject:
  assumes "Validate11 c v lookup check live now raw t st = (st', Inl x)"
  shows "st' = st \<or> (\<exists>r y. check st r = (st', Some y))"
  using assms by (auto simp: Validate11_def split: if_splits sum.splits option.splits prod.splits)

lemma signer_of_record [simp]: "signer_of (control_replay v expiry m s nonce) = ref_key (signer_ref m s)"
  by (simp add: signer_of_def control_replay_def ref_key_def signer_ref_def)

lemma sequence_of_record [simp]: "re_sequence (control_replay v expiry m s nonce) = ms_sequence m"
  by (simp add: control_replay_def)

section \<open>Histories of frames\<close>

text \<open>A step is a frame of one of the versions, with the surroundings of the replay check and of the key
  lookup, the context, the clock and the local target, or another change of the stores.\<close>

datatype ('e, 'f, 'o) gate_step =
  Frame 'e 'f bool gotime bytes target
| Frame11 'e 'f bool gotime bytes target
| Change 'o

type_synonym accepted = "key_ref \<times> int"

definition outcome :: "'s \<times> ('x + 'a envelope_scheme validated_control) \<Rightarrow> 's \<times> accepted option" where
  "outcome r =
     (case r of
        (st, Inl _) \<Rightarrow> (st, None)
      | (st, Inr vc) \<Rightarrow> (st, Some (vc_key_ref vc, ms_sequence (vc_message vc))))"

text \<open>The state after a history and the controls it accepted, in order.\<close>

fun gate_step_of ::
  "codec \<Rightarrow> validator \<Rightarrow> ('f \<Rightarrow> 's \<Rightarrow> key_ref \<Rightarrow> store_error + trusted_key) \<Rightarrow>
   ('e \<Rightarrow> 's \<Rightarrow> replay_record \<Rightarrow> 's \<times> store_error option) \<Rightarrow> ('o \<Rightarrow> 's \<Rightarrow> 's) \<Rightarrow> 's \<Rightarrow>
   ('e, 'f, 'o) gate_step \<Rightarrow> 's \<times> accepted option" where
  "gate_step_of c v lkp chk oth st (Frame e f live now raw t) = outcome (Validate c v (lkp f) (chk e) live now raw t st)"
| "gate_step_of c v lkp chk oth st (Frame11 e f live now raw t) = outcome (Validate11 c v (lkp f) (chk e) live now raw t st)"
| "gate_step_of c v lkp chk oth st (Change a) = (oth a st, None)"

fun gate_run ::
  "('s \<Rightarrow> 'step \<Rightarrow> 's \<times> accepted option) \<Rightarrow> 's \<Rightarrow> 'step list \<Rightarrow> 's \<times> accepted list" where
  "gate_run f st [] = (st, [])"
| "gate_run f st (x # xs) =
     (case f st x of
        (st1, y) \<Rightarrow>
          (case gate_run f st1 xs of
             (st2, rest) \<Rightarrow> (st2, case y of None \<Rightarrow> rest | Some a \<Rightarrow> a # rest)))"

lemma gate_run_Cons:
  "gate_run f st (x # xs) =
     (case f st x of
        (st', None) \<Rightarrow> gate_run f st' xs
      | (st', Some a) \<Rightarrow> (fst (gate_run f st' xs), a # snd (gate_run f st' xs)))"
  by (simp split: prod.splits option.splits)

declare gate_run.simps(2) [simp del] gate_run_Cons [simp]

definition record_entry :: "replay_record \<Rightarrow> accepted" where
  "record_entry r =
     (\<lparr>kr_owner = re_owner r, kr_node = re_node r, kr_client = re_client r, kr_key = re_key r\<rparr>, re_sequence r)"

lemma record_entry_control: "record_entry (control_replay v expiry m s nonce) = (signer_ref m s, ms_sequence m)"
  by (simp add: record_entry_def control_replay_def signer_ref_def)

lemma record_entry_signer: "fst (record_entry a) = fst (record_entry b) \<longleftrightarrow> signer_of a = signer_of b"
  by (auto simp: record_entry_def signer_of_def)

locale control_gate = replay_store check other highest
  for check :: "'e \<Rightarrow> 's \<Rightarrow> replay_record \<Rightarrow> 's \<times> store_error option"
    and other :: "'o \<Rightarrow> 's \<Rightarrow> 's"
    and highest :: "'s \<Rightarrow> signer \<Rightarrow> int option" +
  fixes lookup :: "'f \<Rightarrow> 's \<Rightarrow> key_ref \<Rightarrow> store_error + trusted_key"
    and keys :: "'s \<Rightarrow> key_ref \<Rightarrow> trusted_key option"
    and grants :: "'o \<Rightarrow> key_ref \<Rightarrow> bool"
  assumes lookup_key: "lookup f s ref = Inr key \<Longrightarrow> keys s ref = Some key"
    and check_keys: "check e s r = (s', None) \<Longrightarrow> keys s' = keys s"
    and other_keys: "\<not> grants a ref \<Longrightarrow> \<not> active_key (keys s ref) \<Longrightarrow> \<not> active_key (keys (other a s) ref)"
begin

lemma Frame_cases:
  assumes "gate_step_of c v lookup check other st (Frame e f live now raw t) = (st', x)"
  shows "x = None \<and> st' = st \<or>
    (\<exists>r. check e st r = (st', None) \<and> x = Some (record_entry r) \<and> active_key (keys st (fst (record_entry r))))"
proof (cases "Validate c v (lookup f) (check e) live now raw t st")
  case (Pair st1 y)
  show ?thesis
  proof (cases y)
    case (Inl z)
    with Pair have "st1 = st \<or> (\<exists>r y. check e st r = (st1, Some y))" by (auto dest: Validate_reject)
    then have "st1 = st" by (auto dest: reject_same)
    with Pair Inl assms show ?thesis by (simp add: outcome_def)
  next
    case (Inr vc)
    with Pair have "Validate c v (lookup f) (check e) live now raw t st = (st1, Inr vc)" by simp
    then show ?thesis
    proof (rule Validate_accept)
      fix expiry s nonce key
      assume vc: "vc_key_ref vc = signer_ref (vc_message vc) s" "lookup f st (vc_key_ref vc) = Inr key"
        "authentic c v now t key (vc_message vc)"
        "check e st (control_replay v expiry (vc_message vc) s nonce) = (st1, None)"
      have "active_key (keys st (vc_key_ref vc))"
        using lookup_key [OF vc(2)] vc(3) by (simp add: active_key_def authentic_def)
      with vc Pair Inr assms show ?thesis
        by (intro disjI2 exI [of _ "control_replay v expiry (vc_message vc) s nonce"])
          (auto simp: outcome_def record_entry_control)
    qed
  qed
qed

lemma Frame11_cases:
  assumes "gate_step_of c v lookup check other st (Frame11 e f live now raw t) = (st', x)"
  shows "x = None \<and> st' = st \<or>
    (\<exists>r. check e st r = (st', None) \<and> x = Some (record_entry r) \<and> active_key (keys st (fst (record_entry r))))"
proof (cases "Validate11 c v (lookup f) (check e) live now raw t st")
  case (Pair st1 y)
  show ?thesis
  proof (cases y)
    case (Inl z)
    with Pair have "st1 = st \<or> (\<exists>r y. check e st r = (st1, Some y))" by (auto dest: Validate11_reject)
    then have "st1 = st" by (auto dest: reject_same)
    with Pair Inl assms show ?thesis by (simp add: outcome_def)
  next
    case (Inr vc)
    with Pair have "Validate11 c v (lookup f) (check e) live now raw t st = (st1, Inr vc)" by simp
    then show ?thesis
    proof (rule Validate11_accept)
      fix m expiry s nonce key
      assume vc: "parse11 c raw True (cd_schema11 c) = Inr m" "vc_message vc = cloneMessage11 m"
        "vc_key_ref vc = signer_ref m s" "lookup f st (vc_key_ref vc) = Inr key"
        "authentic11 c v now t key m" "check e st (control_replay v expiry m s nonce) = (st1, None)"
      have "active_key (keys st (vc_key_ref vc))"
        using lookup_key [OF vc(4)] vc(5) by (simp add: active_key_def authentic11_def)
      moreover have "ms_sequence (vc_message vc) = ms_sequence m"
        using vc(1) by (rule parse11_read) (simp add: vc(2) clone_read)
      ultimately show ?thesis using vc Pair Inr assms
        by (intro disjI2 exI [of _ "control_replay v expiry m s nonce"]) (auto simp: outcome_def record_entry_control)
    qed
  qed
qed

lemma gate_step_cases:
  assumes "gate_step_of c v lookup check other st x = (st', y)"
  obtains (refused) "y = None" "st' = st"
  | (changed) a where "x = Change a" "y = None" "st' = other a st"
  | (accepted) e r where "check e st r = (st', None)" "y = Some (record_entry r)" "active_key (keys st (fst (record_entry r)))"
proof (cases x)
  case (Frame e f live now raw t)
  from Frame_cases [OF assms [unfolded Frame]] show ?thesis using refused accepted by blast
next
  case (Frame11 e f live now raw t)
  from Frame11_cases [OF assms [unfolded Frame11]] show ?thesis using refused accepted by blast
next
  case (Change a)
  with assms changed show ?thesis by simp
qed

text \<open>A history of frames is a history of the replay store.\<close>

lemma gate_is_replay:
  "\<exists>h. fst (gate_run (gate_step_of c v lookup check other) st steps) = fst (replay_run check other st h) \<and>
    snd (gate_run (gate_step_of c v lookup check other) st steps) = map record_entry (snd (replay_run check other st h))"
proof (induction steps arbitrary: st)
  case Nil
  show ?case by (intro exI [of _ "[]"]) simp
next
  case (Cons x xs)
  obtain st' y where x: "gate_step_of c v lookup check other st x = (st', y)" by fastforce
  from Cons.IH [of st'] obtain h where
    h: "fst (gate_run (gate_step_of c v lookup check other) st' xs) = fst (replay_run check other st' h)"
    "snd (gate_run (gate_step_of c v lookup check other) st' xs) = map record_entry (snd (replay_run check other st' h))"
    by blast
  from x show ?case
  proof (cases rule: gate_step_cases)
    case refused
    with x h show ?thesis by auto
  next
    case (changed a)
    with x h show ?thesis by (intro exI [of _ "Other a # h"]) auto
  next
    case (accepted e r)
    with x h show ?thesis by (intro exI [of _ "Check e r # h"]) auto
  qed
qed

lemma accepted_in_order:
  "sorted_wrt (\<lambda>a b. fst a = fst b \<longrightarrow> snd a < snd b) (snd (gate_run (gate_step_of c v lookup check other) st steps))"
proof -
  obtain h where "snd (gate_run (gate_step_of c v lookup check other) st steps) =
      map record_entry (snd (replay_run check other st h))" using gate_is_replay by blast
  moreover have "sorted_wrt (\<lambda>a b. fst (record_entry a) = fst (record_entry b) \<longrightarrow>
      snd (record_entry a) < snd (record_entry b)) (snd (replay_run check other st h))"
    using accepted_increasing [of st h] unfolding record_entry_signer by (simp add: record_entry_def)
  ultimately show ?thesis by (simp add: sorted_wrt_map)
qed

lemma inactive_never_accepted:
  assumes "\<not> active_key (keys st ref)" "\<not> list_ex (\<lambda>x. case x of Change a \<Rightarrow> grants a ref | _ \<Rightarrow> False) steps"
  shows "ref \<notin> fst ` set (snd (gate_run (gate_step_of c v lookup check other) st steps))"
  using assms
proof (induction steps arbitrary: st)
  case (Cons x xs)
  obtain st' y where x: "gate_step_of c v lookup check other st x = (st', y)" by fastforce
  from x show ?case
  proof (cases rule: gate_step_cases)
    case refused
    with Cons x show ?thesis by auto
  next
    case (changed a)
    with Cons.prems other_keys have "\<not> active_key (keys st' ref)" by simp
    with Cons x changed show ?thesis by auto
  next
    case (accepted e r)
    with Cons.prems have "ref \<noteq> fst (record_entry r)" by auto
    moreover have "\<not> active_key (keys st' ref)" using Cons.prems check_keys [OF accepted(1)] by simp
    ultimately show ?thesis using Cons x accepted by auto
  qed
qed simp

end

section \<open>The stores of the Node and the in-memory stores\<close>

datatype node_change =
  PruneNonces env gotime
| PutKey env gotime key_ref trusted_key
| RevokeKey env gotime key_ref
| Reconcile env gotime trust_manifest

fun node_apply :: "node_change \<Rightarrow> node_db \<Rightarrow> node_db" where
  "node_apply (PruneNonces e before) db = fst (PruneExpiredNonces e db before)"
| "node_apply (PutKey e clock ref key) db = fst (PutTrustedKey e clock db ref key)"
| "node_apply (RevokeKey e clock ref) db = fst (RevokeTrustedKey e clock db ref)"
| "node_apply (Reconcile e clock m) db = fst (ReconcileTrustManifest e clock db m)"

text \<open>The changes that can make a key active.\<close>

fun node_grants :: "node_change \<Rightarrow> key_ref \<Rightarrow> bool" where
  "node_grants (PutKey e clock ref' key) ref = (ref' = ref \<and> tk_status key = TrustStatusActive)"
| "node_grants (Reconcile e clock m) ref = active_key (manifest_keys (mf_clients m) ref)"
| "node_grants _ ref = False"

definition node_check :: "env \<times> gotime \<Rightarrow> node_db \<Rightarrow> replay_record \<Rightarrow> node_db \<times> store_error option" where
  "node_check = (\<lambda>(e, now). nodeCheckAndRecord e now)"

lemma node_highest_sequences: "signer_sequences db' = signer_sequences db \<Longrightarrow> node_highest db' = node_highest db"
  by (rule ext) (simp add: node_highest_def)

lemma reconcile_sequences: "signer_sequences (fst (ReconcileTrustManifest e clock db m)) = signer_sequences db"
proof -
  obtain db' x where r: "ReconcileTrustManifest e clock db m = (db', x)" by fastforce
  then have "signer_sequences db' = signer_sequences db"
    by (cases rule: reconcile_cases) (auto simp: apply_manifest_def Let_def split: if_splits sum.splits)
  with r show ?thesis by simp
qed

lemma node_apply_highest: "node_highest (node_apply a db) = node_highest db"
proof (cases a)
  case (PruneNonces e before)
  then show ?thesis by (simp add: prune_nonces_highest)
next
  case (PutKey e clock ref key)
  then show ?thesis by (auto intro!: node_highest_sequences simp: PutTrustedKey_def split: option.splits)
next
  case (RevokeKey e clock ref)
  then show ?thesis by (auto intro!: node_highest_sequences simp: RevokeTrustedKey_def split: option.splits)
next
  case (Reconcile e clock m)
  then show ?thesis by (auto intro!: node_highest_sequences simp: reconcile_sequences)
qed

lemma reconcile_inactive:
  assumes "\<not> active_key (manifest_keys (mf_clients m) ref)" "\<not> active_key (node_keys db ref)"
  shows "\<not> active_key (node_keys (fst (ReconcileTrustManifest e clock db m)) ref)"
proof -
  obtain db' x where r: "ReconcileTrustManifest e clock db m = (db', x)" by fastforce
  then show ?thesis
  proof (cases rule: reconcile_cases)
    case applied
    with r assms show ?thesis
      by (auto simp: apply_manifest_keys(1) [OF applied(3)] map_add_def active_key_def split: option.splits)
  qed (use r assms in simp)
qed

lemma node_apply_inactive:
  assumes "\<not> node_grants a ref" "\<not> active_key (node_keys db ref)"
  shows "\<not> active_key (node_keys (node_apply a db) ref)"
proof (cases a)
  case (PruneNonces e before)
  with assms show ?thesis by (auto simp: PruneExpiredNonces_def node_keys_def Let_def split: option.splits)
next
  case (PutKey e clock ref' key)
  obtain db' x where "PutTrustedKey e clock db ref' key = (db', x)" by fastforce
  with PutKey assms show ?thesis
    using node_trust.put_ok [of "(e, clock)" db ref' key db'] node_trust.put_err [of "(e, clock)" db ref' key db']
    by (cases x) (auto simp: active_key_def split: option.splits)
next
  case (RevokeKey e clock ref')
  obtain db' x where "RevokeTrustedKey e clock db ref' = (db', x)" by fastforce
  with RevokeKey assms show ?thesis
    using node_trust.revoke_ok [of "(e, clock)" db ref' db'] node_trust.revoke_err [of "(e, clock)" db ref' db']
    by (cases x) (auto simp: active_key_def split: option.splits)
next
  case (Reconcile e clock m)
  with assms show ?thesis by (simp add: reconcile_inactive)
qed

interpretation node_gate: control_gate node_check node_apply node_highest LookupControlKey node_keys node_grants
proof unfold_locales
  fix e :: "env \<times> gotime" and s r s'
  assume "node_check e s r = (s', None)"
  then show "node_keys s' = node_keys s"
    by (cases e) (auto simp: node_check_def node_keys_def record_node_replay_def dest!: node_check_accept)
next
  fix e s ref key
  assume "LookupControlKey e s ref = Inr key"
  then show "node_keys s ref = Some key" using node_trust.lookup_ok [of "(e, 0)" s ref key] by simp
qed (auto simp: node_check_def above_def node_highest_record node_apply_highest node_apply_inactive
    dest!: node_check_accept node_check_reject)

datatype mem_change = MemSet key_ref trusted_key | MemRevoke key_ref

fun mem_apply :: "mem_change \<Rightarrow> memory_trust \<times> memory_replay \<Rightarrow> memory_trust \<times> memory_replay" where
  "mem_apply (MemSet ref key) (tr, rp) = (fst (memSet tr ref key), rp)"
| "mem_apply (MemRevoke ref) (tr, rp) = (fst (memRevoke tr ref), rp)"

fun mem_grants :: "mem_change \<Rightarrow> key_ref \<Rightarrow> bool" where
  "mem_grants (MemSet ref' key) ref = (ref' = ref \<and> tk_status key = TrustStatusActive)"
| "mem_grants (MemRevoke _) ref = False"

definition mem_check ::
  "env \<Rightarrow> memory_trust \<times> memory_replay \<Rightarrow> replay_record \<Rightarrow> (memory_trust \<times> memory_replay) \<times> store_error option" where
  "mem_check e st r = (let (rp, x) = memCheckAndRecord e (snd st) r in ((fst st, rp), x))"

interpretation mem_gate: control_gate mem_check mem_apply "\<lambda>st. mr_sequences (snd st)"
    "\<lambda>e st. memLookupControlKey e (fst st)" fst mem_grants
proof unfold_locales
  fix a s show "mr_sequences (snd (mem_apply a s)) = mr_sequences (snd s)"
    by (cases a; cases s) simp_all
next
  fix a ref and s :: "memory_trust \<times> memory_replay"
  assume "\<not> mem_grants a ref" "\<not> active_key (fst s ref)"
  then show "\<not> active_key (fst (mem_apply a s) ref)"
    by (cases a; cases s) (auto simp: memSet_def memRevoke_def active_key_def split: if_splits option.splits)
qed (auto simp: mem_check_def memCheckAndRecord_def memLookupControlKey_def Let_def
    split: prod.splits if_splits option.splits)

end
