(* ===== verification/Validator_Properties.thy ===== *)
theory Validator_Properties
  imports Validator_Contract
begin

text \<open>
  The properties of control validation on the Node: what an accepted control guarantees, that none is
  accepted twice, and that a revoked client is shut out.
\<close>

section \<open>A concrete Node\<close>

definition demo_signed :: "int \<Rightarrow> v1_message" where
  "demo_signed n = (demo_control (Some (replicate 86 CHR ''A'')))\<lparr>ms_sequence := n, ms_message := itoa n,
     ms_nonce := Some (EncodeToString (replicate 16 (rune_char n))), ms_signer := Some \<lparr>ws_client = ''a'', ws_key = ''k''\<rparr>\<rparr>"

definition demo_wire :: "int \<Rightarrow> bytes" where
  "demo_wire n = Marshal (JObject (members_v1 (demo_signed n)))"

definition demo_validator :: validator where
  "demo_validator = \<lparr>va_max_ttl = DefaultControlMaxTTL, va_skew = DefaultControlClockSkew\<rparr>"

definition demo_target :: target where
  "demo_target = \<lparr>tg_owner = ''o'', tg_node = ''n''\<rparr>"

definition demo_now :: gotime where
  "demo_now = seconds 63919965630"

definition demo_step :: "int \<Rightarrow> (env \<times> gotime, env, node_change) gate_step" where
  "demo_step n = Frame (live_env, demo_now) live_env True demo_now (demo_wire n) demo_target"

abbreviation node_step ::
  "codec \<Rightarrow> validator \<Rightarrow> node_db \<Rightarrow> (env \<times> gotime, env, node_change) gate_step \<Rightarrow> node_db \<times> accepted option" where
  "node_step c v \<equiv> gate_step_of c v LookupControlKey node_check node_apply"

text \<open>The frame is read back as the message it prints, and the rest of its validation is evaluated from there.\<close>

lemma demo_read: "read_control demo_codec True (demo_wire 7) = Inr (demo_signed 7)"
  by code_simp

abbreviation demo_validate :: "node_db \<Rightarrow> node_db \<times> (validation_error + v1_message validated_control)" where
  "demo_validate db \<equiv> Validate demo_codec demo_validator (LookupControlKey live_env) (node_check (live_env, demo_now)) True demo_now
     (demo_wire 7) demo_target db"

abbreviation demo_pruned :: node_db where
  "demo_pruned \<equiv> node_apply (PruneNonces live_env demo_now) (fst (demo_validate demo_trust_db))"

lemma demo_validated:
  "snd (demo_validate demo_trust_db) = Inr \<lparr>vc_message = demo_signed 7, vc_key_ref = demo_ref ''a''\<rparr>"
  "isl (snd (demo_validate demo_pruned))"
  "ms_sequence (demo_signed 7) = 7"
  unfolding Validate_def demo_read sum.case by code_simp+

section \<open>Properties\<close>

text \<open>Property C10: a validated control is authentic and fresh. If the Node's validator accepts a frame, the
  message is addressed to the local owner and node, its time window is open at the local clock within the
  permitted skew and lifetime, the signer's key was trusted and active in the Node's database, the
  signature verifies under that key over the signing input of the message, and the acceptance has
  been recorded as the signer's highest sequence, above any earlier one.\<close>

theorem validated_control_authentic:
  assumes "Validate c v (LookupControlKey e) (node_check (e', clock)) live now raw t db = (db', Inr vc)"
  shows "(\<exists>key. node_keys db (vc_key_ref vc) = Some key \<and> authentic c v now t key (vc_message vc)) \<and>
    kr_owner (vc_key_ref vc) = tg_owner t \<and> kr_node (vc_key_ref vc) = tg_node t \<and>
    above (node_highest db (ref_key (vc_key_ref vc))) (ms_sequence (vc_message vc)) \<and>
    node_highest db' = (node_highest db)(ref_key (vc_key_ref vc) \<mapsto> ms_sequence (vc_message vc))"
  using assms
proof (rule Validate_accept)
  fix expiry s nonce key
  assume vc: "vc_key_ref vc = signer_ref (vc_message vc) s" "LookupControlKey e db (vc_key_ref vc) = Inr key"
    "authentic c v now t key (vc_message vc)"
    "node_check (e', clock) db (control_replay v expiry (vc_message vc) s nonce) = (db', None)"
  have chk: "nodeCheckAndRecord e' clock db (control_replay v expiry (vc_message vc) s nonce) = (db', None)"
    using vc(4) by (simp add: node_check_def)
  have "addressed t (vc_message vc)" using vc(3) by (simp add: authentic_def)
  then have "kr_owner (vc_key_ref vc) = tg_owner t" "kr_node (vc_key_ref vc) = tg_node t"
    by (simp_all add: vc(1) signer_ref_def addressed_def)
  with node_check_accept [OF chk] node_gate.lookup_key [OF vc(2)] vc show ?thesis
    by (auto simp: node_highest_record)
qed

theorem validated_control_authentic_witness:
  "snd (Validate demo_codec demo_validator (LookupControlKey live_env) (node_check (live_env, demo_now)) True demo_now
     (demo_wire 7) demo_target demo_trust_db) = Inr \<lparr>vc_message = demo_signed 7, vc_key_ref = demo_ref ''a''\<rparr> \<and>
   (\<exists>key. node_keys demo_trust_db (demo_ref ''a'') = Some key \<and>
      authentic demo_codec demo_validator demo_now demo_target key (demo_signed 7))"
proof -
  have "demo_validate demo_trust_db = (fst (demo_validate demo_trust_db), Inr \<lparr>vc_message = demo_signed 7, vc_key_ref = demo_ref ''a''\<rparr>)"
    by (simp add: prod_eq_iff demo_validated(1))
  from validated_control_authentic [OF this] demo_validated(1) show ?thesis by simp
qed

text \<open>Property C11: no control is obeyed twice. Over any history of frames of both protocol versions
  (arbitrary bytes, clocks, contexts and database faults), trust changes and prunings, the sequences
  accepted from one signing key strictly increase; in particular the same signed control is never
  accepted twice, not even once as v1 and once as v1.1.\<close>

theorem node_controls_once:
  "sorted_wrt (\<lambda>a b. fst a = fst b \<longrightarrow> snd a < snd b) (snd (gate_run (node_step c v) db steps))"
  by (rule node_gate.accepted_in_order)

theorem node_controls_once_witness:
  "snd (gate_run (node_step demo_codec demo_validator) demo_trust_db
     [demo_step 7, Change (PruneNonces live_env demo_now), demo_step 7]) =
     [(demo_ref ''a'', 7)] \<and>
   sorted_wrt (\<lambda>a b. snd a < snd b) [(demo_ref ''a'', 7 :: int)]"
proof -
  let ?steps = "[demo_step 7, Change (PruneNonces live_env demo_now), demo_step 7]"
  have a: "outcome (demo_validate demo_trust_db) = (fst (demo_validate demo_trust_db), Some (demo_ref ''a'', 7))"
    using demo_validated(1,3) by (cases "demo_validate demo_trust_db") (simp add: outcome_def)
  have b: "outcome (demo_validate demo_pruned) = (fst (demo_validate demo_pruned), None)"
    using demo_validated(2) by (cases "demo_validate demo_pruned"; cases "snd (demo_validate demo_pruned)") (simp_all add: outcome_def)
  have "snd (gate_run (node_step demo_codec demo_validator) demo_trust_db ?steps) = [(demo_ref ''a'', 7)]"
    by (simp add: gate_run_Cons demo_step_def a b del: node_apply.simps)
  with node_controls_once [of demo_codec demo_validator demo_trust_db ?steps] show ?thesis by simp
qed

text \<open>Property C12: a client without an active key is shut out. As long as no trust change makes the
  key of a client active again, no history of frames gets a control of that client accepted.\<close>

theorem inactive_client_shut_out:
  assumes "\<not> active_key (node_keys db ref)"
    and "\<not> list_ex (\<lambda>x. case x of Change a \<Rightarrow> node_grants a ref | _ \<Rightarrow> False) steps"
  shows "ref \<notin> fst ` set (snd (gate_run (node_step c v) db steps))"
  using assms by (rule node_gate.inactive_never_accepted)

definition demo_revoked_db :: node_db where
  "demo_revoked_db = node_apply (RevokeKey live_env demo_now (demo_ref ''a'')) demo_trust_db"

theorem inactive_client_shut_out_witness:
  "demo_ref ''a'' \<notin> fst ` set (snd (gate_run (node_step demo_codec demo_validator) demo_revoked_db
     [demo_step 7, Change (PutKey live_env demo_now (demo_ref ''c'') (client_key (demo_client ''c'' TrustStatusActive))),
      demo_step 9]))"
proof (rule inactive_client_shut_out)
  show "\<not> active_key (node_keys demo_revoked_db (demo_ref ''a''))" by code_simp
  show "\<not> list_ex (\<lambda>x. case x of Change a \<Rightarrow> node_grants a (demo_ref ''a'') | _ \<Rightarrow> False)
     [demo_step 7, Change (PutKey live_env demo_now (demo_ref ''c'') (client_key (demo_client ''c'' TrustStatusActive))),
      demo_step 9]"
    by (simp add: demo_step_def demo_ref_def client_ref_def demo_client_def)
qed

end
