(* ===== verification/Memory_Notifications.thy ===== *)
theory Memory_Notifications
  imports Server_Admin
begin

text \<open>
  The notifications of a hub whose store has none, \<^verbatim>\<open>memoryNotificationStore\<close> of
  \<^verbatim>\<open>internal/server/lease_memory.go\<close>: a list and the deduplication keys seen.
\<close>

record memory_notifications =
  mn_items :: "notification list"
  mn_seen :: "string set"

definition newMemoryNotificationStore :: memory_notifications where
  "newMemoryNotificationStore = \<lparr>mn_items = [], mn_seen = {}\<rparr>"

definition mem_dedup_key :: "notification \<Rightarrow> string" where
  "mem_dedup_key item = no_owner item @ CHR 0x00 # no_dedup_key item"

definition memSaveNotification :: "memory_notifications \<Rightarrow> notification \<Rightarrow> memory_notifications" where
  "memSaveNotification s item =
     (if mem_dedup_key item \<in> mn_seen s then s
      else s\<lparr>mn_seen := insert (mem_dedup_key item) (mn_seen s), mn_items := mn_items s @ [item]\<rparr>)"

text \<open>The loop walks the list backwards and stops when it has \<open>limit\<close> items.\<close>

fun collect_back :: "string \<Rightarrow> nat \<Rightarrow> notification list \<Rightarrow> notification list \<Rightarrow> notification list" where
  "collect_back owner limit [] result = result"
| "collect_back owner limit (item # items) result =
     (if length result < limit
      then collect_back owner limit items (if no_owner item = owner then result @ [item] else result)
      else result)"

definition memListNotifications :: "memory_notifications \<Rightarrow> string \<Rightarrow> nat \<Rightarrow> notification list" where
  "memListNotifications s owner limit = collect_back owner limit (rev (mn_items s)) []"

fun mark_first :: "(notification \<Rightarrow> bool) \<Rightarrow> gotime \<Rightarrow> notification list \<Rightarrow> notification list option" where
  "mark_first P now [] = None"
| "mark_first P now (item # items) =
     (if P item then Some (item\<lparr>no_read_at := Some now\<rparr> # items) else map_option ((#) item) (mark_first P now items))"

definition memMarkNotificationRead ::
  "memory_notifications \<Rightarrow> string \<Rightarrow> string \<Rightarrow> gotime \<Rightarrow> memory_notifications \<times> store_error option" where
  "memMarkNotificationRead s owner i now =
     (case mark_first (\<lambda>item. no_owner item = owner \<and> no_id item = i) now (mn_items s) of
        None \<Rightarrow> (s, Some ErrNotFound)
      | Some items \<Rightarrow> (s\<lparr>mn_items := items\<rparr>, None))"

section \<open>What the store keeps\<close>

text \<open>The keys seen are those of the items, each once.\<close>

definition mem_notifications_inv :: "memory_notifications \<Rightarrow> bool" where
  "mem_notifications_inv s = (set (map mem_dedup_key (mn_items s)) = mn_seen s \<and> distinct (map mem_dedup_key (mn_items s)))"

lemma mark_first_keys: "mark_first P now items = Some items' \<Longrightarrow> map mem_dedup_key items' = map mem_dedup_key items"
  by (induction items arbitrary: items') (auto simp: mem_dedup_key_def split: if_splits)

datatype notification_call = MemSave notification | MemRead string string gotime

fun mem_notify :: "notification_call \<Rightarrow> memory_notifications \<Rightarrow> memory_notifications" where
  "mem_notify (MemSave item) s = memSaveNotification s item"
| "mem_notify (MemRead owner i now) s = fst (memMarkNotificationRead s owner i now)"

lemma mem_notify_inv:
  assumes "mem_notifications_inv s"
  shows "mem_notifications_inv (mem_notify x s)"
proof (cases x)
  case (MemSave item)
  with assms show ?thesis by (auto simp: mem_notifications_inv_def memSaveNotification_def)
next
  case (MemRead owner i now)
  show ?thesis
  proof (cases "mark_first (\<lambda>item. no_owner item = owner \<and> no_id item = i) now (mn_items s)")
    case (Some items)
    from mark_first_keys [OF this] MemRead Some assms show ?thesis
      by (simp add: mem_notifications_inv_def memMarkNotificationRead_def del: set_map)
  qed (use MemRead assms in \<open>simp add: memMarkNotificationRead_def\<close>)
qed

lemma collect_back_take:
  "collect_back owner limit items result = (if length result < limit
     then result @ take (limit - length result) (filter (\<lambda>n. no_owner n = owner) items) else result)"
  by (induction items arbitrary: result) (auto simp: Suc_diff_Suc take_Cons' not_less)

lemma mem_list_newest:
  "memListNotifications s owner limit = take limit (rev (filter (\<lambda>n. no_owner n = owner) (mn_items s)))"
  by (simp add: memListNotifications_def collect_back_take rev_filter)

text \<open>Through any calls, a list of an owner's notifications names no deduplication key twice and holds
  the owner's notifications only, the newest first.\<close>

theorem mem_notifications_once:
  assumes "s = fold mem_notify calls newMemoryNotificationStore"
  shows "distinct (map mem_dedup_key (memListNotifications s owner limit)) \<and>
    (\<forall>n \<in> set (memListNotifications s owner limit). no_owner n = owner) \<and>
    length (memListNotifications s owner limit) \<le> limit"
proof -
  have "mem_notifications_inv newMemoryNotificationStore"
    by (simp add: mem_notifications_inv_def newMemoryNotificationStore_def)
  then have "mem_notifications_inv (fold mem_notify calls newMemoryNotificationStore)"
    by (induction calls rule: rev_induct) (auto simp: mem_notify_inv)
  then have "distinct (map mem_dedup_key (mn_items s))" using assms by (simp add: mem_notifications_inv_def)
  then have "distinct (map mem_dedup_key (rev (filter (\<lambda>n. no_owner n = owner) (mn_items s))))"
    by (simp add: rev_map [symmetric] distinct_map_filter)
  then show ?thesis
    unfolding mem_list_newest
    using distinct_take [of "map mem_dedup_key (rev (filter (\<lambda>n. no_owner n = owner) (mn_items s)))" limit]
    by (auto simp: take_map dest: in_set_takeD)
qed

end
