(* ===== verification/Json_Plain.thy ===== *)
theory Json_Plain
  imports Strict_Json_Grammar Protocol_Message
begin

text \<open>
  \<^verbatim>\<open>json.Unmarshal\<close> of raw bytes, which the Server uses to look at the header of a frame
  before anything has been checked. Unlike the strict reader it takes duplicate members, replaces
  the bytes of a string that are not UTF-8 by U+FFFD, and replaces surrogates that are not paired.
  The theory shows that on a text the strict reader accepts both readers agree.
\<close>

section \<open>The reader\<close>

text \<open>Every byte that starts no rune becomes U+FFFD. Outside a string either is a syntax error.\<close>

function coerce_utf8 :: "string \<Rightarrow> string" where
  "coerce_utf8 [] = []"
| "coerce_utf8 (c # cs) =
     (case decode_rune c cs of
        (None, n) \<Rightarrow> encode_rune 65533 @ coerce_utf8 (drop n cs)
      | (Some r, n) \<Rightarrow> c # take n cs @ coerce_utf8 (drop n cs))"
  by pat_completeness auto
termination
  by (relation "measure length") auto

text \<open>The text after the delimiter \<open>c\<close>, if that is what comes next.\<close>

definition expect :: "char \<Rightarrow> string \<Rightarrow> string option" where
  "expect c s = (case lex_json s of LDelim c' r \<Rightarrow> if c' = c then Some r else None | _ \<Rightarrow> None)"

text \<open>One value, the elements of an array and the members of an object up to their closing bracket; the
  number is fuel and \<open>first\<close> says that no separator is due.\<close>

fun read_value :: "nat \<Rightarrow> string \<Rightarrow> (json \<times> string) option"
  and read_elements :: "nat \<Rightarrow> bool \<Rightarrow> string \<Rightarrow> (json list \<times> string) option"
  and read_members :: "nat \<Rightarrow> bool \<Rightarrow> string \<Rightarrow> ((string \<times> json) list \<times> string) option" where
  "read_value 0 s = None"
| "read_value (Suc k) s =
     (case lex_json s of
        LValue v r \<Rightarrow> Some (v, r)
      | LDelim c r \<Rightarrow>
          if c = CHR ''['' then map_option (\<lambda>(vs, r'). (JArray vs, r')) (read_elements k True r)
          else if c = CHR ''{'' then map_option (\<lambda>(ms, r'). (JObject ms, r')) (read_members k True r)
          else None
      | _ \<Rightarrow> None)"
| "read_elements 0 first s = None"
| "read_elements (Suc k) first s =
     (case expect CHR '']'' s of
        Some r \<Rightarrow> Some ([], r)
      | None \<Rightarrow>
          (case (if first then Some s else expect CHR '','' s) of
             None \<Rightarrow> None
           | Some s1 \<Rightarrow>
               (case read_value k s1 of
                  None \<Rightarrow> None
                | Some (v, s2) \<Rightarrow> map_option (\<lambda>(vs, r). (v # vs, r)) (read_elements k False s2))))"
| "read_members 0 first s = None"
| "read_members (Suc k) first s =
     (case expect CHR ''}'' s of
        Some r \<Rightarrow> Some ([], r)
      | None \<Rightarrow>
          (case (if first then Some s else expect CHR '','' s) of
             None \<Rightarrow> None
           | Some s1 \<Rightarrow>
               (case lex_json s1 of
                  LValue (JString key) s2 \<Rightarrow>
                    (case expect CHR '':'' s2 of
                       None \<Rightarrow> None
                     | Some s3 \<Rightarrow>
                         (case read_value k s3 of
                            None \<Rightarrow> None
                          | Some (v, s4) \<Rightarrow> map_option (\<lambda>(ms, r). ((key, v) # ms, r)) (read_members k False s4)))
                | _ \<Rightarrow> None)))"

definition read_json :: "bytes \<Rightarrow> json option" where
  "read_json raw =
     (let s = coerce_utf8 raw
      in case read_value (2 * length s + 1) s of
           None \<Rightarrow> None
         | Some (v, r) \<Rightarrow> if lex_json r = LEnd then Some v else None)"

section \<open>Agreement with the grammar\<close>

lemma expect_Some [simp]: "expect c s = Some r \<longleftrightarrow> lex_json s = LDelim c r"
  by (auto simp: expect_def split: lexeme.splits)

lemma expect_None: "expect c s = None \<longleftrightarrow> (\<forall>r. lex_json s \<noteq> LDelim c r)"
  by (auto simp: expect_def split: lexeme.splits)

lemma json_value_not_close: "json_value s v r \<Longrightarrow> expect CHR '']'' s = None"
  by (erule json_value.cases) (auto simp: expect_None)

lemma read_complete:
  "json_value s v r \<Longrightarrow> 2 * length s < k \<Longrightarrow> read_value k s = Some (v, r)"
  "array_body s vs r \<Longrightarrow> Suc (2 * length s) < k \<Longrightarrow> read_elements k True s = Some (vs, r)"
  "elements s vs r \<Longrightarrow> Suc (2 * length s) < k \<Longrightarrow> read_elements k False s = Some (vs, r)"
  "object_body s ms r \<Longrightarrow> Suc (2 * length s) < k \<Longrightarrow> read_members k True s = Some (ms, r)"
  "members s ms r \<Longrightarrow> Suc (2 * length s) < k \<Longrightarrow> read_members k False s = Some (ms, r)"
proof (induction arbitrary: k and k and k and k and k rule: json_value_array_body_elements_object_body_members.inducts)
  case (literal s v r)
  then show ?case by (cases k) auto
next
  case (array s s1 vs r)
  from lex_less(1) [OF array.hyps(1)] array show ?case by (cases k) auto
next
  case (object s s1 ms r)
  from lex_less(1) [OF object.hyps(1)] object show ?case by (cases k) auto
next
  case (array_empty s r)
  then show ?case by (cases k) (auto simp: expect_def)
next
  case (array_first s v s1 vs r)
  from grammar_shorter(1) [OF array_first.hyps(1)] array_first json_value_not_close [OF array_first.hyps(1)]
  show ?case by (cases k) auto
next
  case (elements_end s r)
  then show ?case by (cases k) (auto simp: expect_def)
next
  case (elements_next s s1 v s2 vs r)
  from grammar_shorter(1) [OF elements_next.hyps(2)] lex_less(1) [OF elements_next.hyps(1)] elements_next
  show ?case by (cases k) (auto simp: expect_def)
next
  case (object_empty s r)
  then show ?case by (cases k) (auto simp: expect_def)
next
  case (object_first s key s1 s2 v s3 ms r)
  from grammar_shorter(1) [OF object_first.hyps(3)] lex_less(2) [OF object_first.hyps(1)]
    lex_less(1) [OF object_first.hyps(2)] object_first
  show ?case by (cases k) (auto simp: expect_def)
next
  case (members_end s r)
  then show ?case by (cases k) (auto simp: expect_def)
next
  case (members_next s s0 key s1 s2 v s3 ms r)
  from grammar_shorter(1) [OF members_next.hyps(4)] lex_less(1) [OF members_next.hyps(1)]
    lex_less(2) [OF members_next.hyps(2)] lex_less(1) [OF members_next.hyps(3)] members_next
  show ?case by (cases k) (auto simp: expect_def)
qed

lemma coerce_valid: "ValidString s \<Longrightarrow> coerce_utf8 s = s"
proof (induction s rule: coerce_utf8.induct)
  case (2 c cs)
  obtain x n where d: "decode_rune c cs = (x, n)" by (cases "decode_rune c cs")
  from "2.prems" d obtain r where x: "x = Some r" "ValidString (drop n cs)"
    by (cases x) (auto simp: ValidString_def)
  with d "2.IH"(2) [of x n r] show ?case by simp
qed simp

text \<open>A text the strict reader accepts is read by \<^verbatim>\<open>json.Unmarshal\<close> as the same value.\<close>

lemma read_json_strict:
  assumes "decodeStrictJSON jcs raw = Inr doc"
  shows "read_json raw = Some doc"
proof -
  from assms have valid: "ValidString raw" and "json_text raw doc" by (auto simp: decodeStrictJSON_Inr)
  then obtain r where r: "json_value raw doc r" "lex_json r = LEnd" by (auto simp: json_text_def)
  have "read_value (2 * length raw + 1) raw = Some (doc, r)" by (rule read_complete(1) [OF r(1)]) simp
  with r(2) show ?thesis unfolding read_json_def coerce_valid [OF valid] Let_def by simp
qed

section \<open>The header of a frame\<close>

record route_header =
  rh_version :: string
  rh_type :: string
  rh_owner :: string
  rh_node :: string

definition zero_header :: route_header where
  "zero_header = \<lparr>rh_version = [], rh_type = [], rh_owner = [], rh_node = []\<rparr>"

definition set_header :: "string \<Rightarrow> json \<Rightarrow> route_header \<Rightarrow> route_header option" where
  "set_header n v h =
     (if n = ''protocolVersion'' then map_option (\<lambda>x. h\<lparr>rh_version := x\<rparr>) (as_string v (rh_version h))
      else if n = ''type'' then map_option (\<lambda>x. h\<lparr>rh_type := x\<rparr>) (as_string v (rh_type h))
      else if n = ''ownerId'' then map_option (\<lambda>x. h\<lparr>rh_owner := x\<rparr>) (as_string v (rh_owner h))
      else map_option (\<lambda>x. h\<lparr>rh_node := x\<rparr>) (as_string v (rh_node h)))"

definition header_names :: "string list" where
  "header_names = [''protocolVersion'', ''type'', ''ownerId'', ''nodeId'']"

definition unmarshal_header :: "bytes \<Rightarrow> route_header option" where
  "unmarshal_header raw =
     (case read_json raw of None \<Rightarrow> None | Some doc \<Rightarrow> unmarshal_with set_header header_names zero_header doc)"

section \<open>Fields read alike\<close>

text \<open>Two structures that name a text field alike read the same text from a document, whatever else they
  name: both match the names of members up to case and both take the last member that matches.\<close>

lemma field_of_folded:
  assumes "distinct (map fold_name names)" "n \<in> set names"
  shows "field_of names k = Some n \<longleftrightarrow> fold_name k = fold_name n"
proof -
  have inj: "x = y" if "x \<in> set names" "y \<in> set names" "fold_name x = fold_name y" for x y
    using assms(1) that by (auto simp: distinct_map inj_on_def)
  show ?thesis
  proof (cases "k \<in> set names")
    case False
    have "find (\<lambda>x. fold_name x = fold_name k) names = Some n" if "fold_name k = fold_name n"
    proof -
      have "find (\<lambda>x. fold_name x = fold_name k) names \<noteq> None"
        using that assms(2) by (auto simp: find_None_iff)
      then obtain y where y: "find (\<lambda>x. fold_name x = fold_name k) names = Some y" by blast
      then have "y \<in> set names" "fold_name y = fold_name k" by (auto simp: find_Some_iff)
      with inj [of y n] assms(2) that y show ?thesis by simp
    qed
    with False show ?thesis by (auto simp: field_of_def find_Some_iff)
  qed (use inj assms(2) in \<open>auto simp: field_of_def\<close>)
qed

definition text_field :: "(string \<Rightarrow> json \<Rightarrow> 'm \<Rightarrow> 'm option) \<Rightarrow> string list \<Rightarrow> string \<Rightarrow> ('m \<Rightarrow> string) \<Rightarrow> bool" where
  "text_field f names n p =
     (n \<in> set names \<and> distinct (map fold_name names) \<and>
      (\<forall>k \<in> set names. \<forall>v m m'. f k v m = Some m' \<longrightarrow>
         (if k = n then as_string v (p m) = Some (p m') else p m' = p m)))"

lemma text_fieldI:
  assumes "n \<in> set names" "distinct (map fold_name names)"
    and "\<And>k v m m'. f k v m = Some m' \<Longrightarrow> if k = n then as_string v (p m) = Some (p m') else p m' = p m"
  shows "text_field f names n p"
  using assms unfolding text_field_def by blast

lemma assign_text_field:
  assumes "text_field f names n p" "assign_all f names ((k, v) # kvs) a = Some a'"
  obtains a1 where "assign_all f names kvs a1 = Some a'"
    "if fold_name k = fold_name n then as_string v (p a) = Some (p a1) else p a1 = p a"
proof (cases "field_of names k")
  case None
  with assms have "fold_name k \<noteq> fold_name n" using field_of_folded [of names n k] by (auto simp: text_field_def)
  with None assms(2) that [of a] show ?thesis by simp
next
  case (Some x)
  have x: "x \<in> set names" using Some by (auto simp: field_of_def find_Some_iff split: if_splits)
  from Some assms(2) obtain a1 where a1: "f x v a = Some a1" "assign_all f names kvs a1 = Some a'"
    by (auto split: option.splits)
  have "x = n \<longleftrightarrow> fold_name k = fold_name n"
    using assms(1) field_of_folded [of names n k] Some by (auto simp: text_field_def)
  with assms(1) x a1 that show ?thesis by (auto simp: text_field_def)
qed

lemma unmarshal_alike:
  assumes "text_field f names n p" "text_field g names' n q" "p z = q z'"
    and "unmarshal_with f names z doc = Some a" "unmarshal_with g names' z' doc = Some b"
  shows "p a = q b"
proof -
  have alike: "p a = q b" if "assign_all f names kvs z = Some a" "assign_all g names' kvs z' = Some b" "p z = q z'"
    for kvs z z'
    using that
  proof (induction kvs arbitrary: z z')
    case (Cons x kvs)
    obtain k v where x: "x = (k, v)" by (cases x)
    obtain z1 where z1: "assign_all f names kvs z1 = Some a"
      "if fold_name k = fold_name n then as_string v (p z) = Some (p z1) else p z1 = p z"
      using assms(1) Cons.prems(1) unfolding x by (rule assign_text_field)
    obtain z2 where z2: "assign_all g names' kvs z2 = Some b"
      "if fold_name k = fold_name n then as_string v (q z') = Some (q z2) else q z2 = q z'"
      using assms(2) Cons.prems(2) unfolding x by (rule assign_text_field)
    from z1(2) z2(2) Cons.prems(3) have "p z1 = q z2" by (auto split: if_splits)
    with Cons.IH [OF z1(1) z2(1)] show ?case .
  qed simp
  with assms(3-5) show ?thesis
    by (auto simp: unmarshal_with_def simp del: json_depth.simps split: if_splits json.splits)
qed

end
