(* ===== verification/Relay_Session.thy ===== *)
theory Relay_Session
  imports Json_Plain Go_Format Enrollment_Binding
begin

text \<open>
  The handshake of a relay connection as the dialling side sees it,
  \<^verbatim>\<open>internal/transport/session.go\<close>: the Server sends a challenge, the dialler signs it, the
  Server answers that it is authenticated. The websocket is left out; what is read from it is
  an argument and what is written to it a result.
\<close>

section \<open>Messages\<close>

datatype session_role = SessionRoleNode | SessionRoleControl

fun role_text :: "session_role \<Rightarrow> string" where
  "role_text SessionRoleNode = ''node''"
| "role_text SessionRoleControl = ''control''"

record session_challenge =
  sh_version :: string
  sh_type :: string
  sh_role :: string
  sh_connection :: string
  sh_subject :: string
  sh_nonce :: string
  sh_expires :: string

record session_authentication =
  sa_version :: string
  sa_type :: string
  sa_signature :: string

record session_ready =
  sr_version :: string
  sr_type :: string
  sr_token :: string
  sr_expires :: string

definition challenge_document :: "session_challenge \<Rightarrow> (string \<times> string) list" where
  "challenge_document v =
     [(''version'', sh_version v), (''type'', sh_type v), (''role'', sh_role v), (''connectionId'', sh_connection v),
      (''subjectId'', sh_subject v), (''nonce'', sh_nonce v), (''expiresAt'', sh_expires v)]"

definition authentication_document :: "session_authentication \<Rightarrow> (string \<times> string) list" where
  "authentication_document v = [(''version'', sa_version v), (''type'', sa_type v), (''signature'', sa_signature v)]"

text \<open>The two session fields are left out when they are empty.\<close>

definition ready_document :: "session_ready \<Rightarrow> (string \<times> string) list" where
  "ready_document v =
     [(''version'', sr_version v), (''type'', sr_type v)] @
     (if sr_token v = [] then [] else [(''sessionToken'', sr_token v)]) @
     (if sr_expires v = [] then [] else [(''sessionExpiresAt'', sr_expires v)])"

section \<open>Reading a message\<close>

text \<open>\<^verbatim>\<open>DisallowUnknownFields\<close>: a member that belongs to no field is an error. Nothing but white space
  may follow the value.\<close>

fun assign_known ::
  "(string \<Rightarrow> json \<Rightarrow> 'm \<Rightarrow> 'm option) \<Rightarrow> string list \<Rightarrow> (string \<times> json) list \<Rightarrow> 'm \<Rightarrow> 'm option" where
  "assign_known f names [] m = Some m"
| "assign_known f names ((k, v) # kvs) m =
     (case field_of names k of
        None \<Rightarrow> None
      | Some n \<Rightarrow> (case f n v m of None \<Rightarrow> None | Some m' \<Rightarrow> assign_known f names kvs m'))"

definition decode_known ::
  "(string \<Rightarrow> json \<Rightarrow> 'm \<Rightarrow> 'm option) \<Rightarrow> string list \<Rightarrow> 'm \<Rightarrow> bytes \<Rightarrow> 'm option" where
  "decode_known f names z raw =
     (case read_json raw of
        None \<Rightarrow> None
      | Some doc \<Rightarrow>
          if 10000 < json_depth doc then None
          else (case doc of JObject kvs \<Rightarrow> assign_known f names kvs z | JNull \<Rightarrow> Some z | _ \<Rightarrow> None))"

definition set_challenge :: "string \<Rightarrow> json \<Rightarrow> session_challenge \<Rightarrow> session_challenge option" where
  "set_challenge n v m =
     (if n = ''version'' then map_option (\<lambda>x. m\<lparr>sh_version := x\<rparr>) (as_string v (sh_version m))
      else if n = ''type'' then map_option (\<lambda>x. m\<lparr>sh_type := x\<rparr>) (as_string v (sh_type m))
      else if n = ''role'' then map_option (\<lambda>x. m\<lparr>sh_role := x\<rparr>) (as_string v (sh_role m))
      else if n = ''connectionId'' then map_option (\<lambda>x. m\<lparr>sh_connection := x\<rparr>) (as_string v (sh_connection m))
      else if n = ''subjectId'' then map_option (\<lambda>x. m\<lparr>sh_subject := x\<rparr>) (as_string v (sh_subject m))
      else if n = ''nonce'' then map_option (\<lambda>x. m\<lparr>sh_nonce := x\<rparr>) (as_string v (sh_nonce m))
      else map_option (\<lambda>x. m\<lparr>sh_expires := x\<rparr>) (as_string v (sh_expires m)))"

definition set_authentication :: "string \<Rightarrow> json \<Rightarrow> session_authentication \<Rightarrow> session_authentication option" where
  "set_authentication n v m =
     (if n = ''version'' then map_option (\<lambda>x. m\<lparr>sa_version := x\<rparr>) (as_string v (sa_version m))
      else if n = ''type'' then map_option (\<lambda>x. m\<lparr>sa_type := x\<rparr>) (as_string v (sa_type m))
      else map_option (\<lambda>x. m\<lparr>sa_signature := x\<rparr>) (as_string v (sa_signature m)))"

definition set_ready :: "string \<Rightarrow> json \<Rightarrow> session_ready \<Rightarrow> session_ready option" where
  "set_ready n v m =
     (if n = ''version'' then map_option (\<lambda>x. m\<lparr>sr_version := x\<rparr>) (as_string v (sr_version m))
      else if n = ''type'' then map_option (\<lambda>x. m\<lparr>sr_type := x\<rparr>) (as_string v (sr_type m))
      else if n = ''sessionToken'' then map_option (\<lambda>x. m\<lparr>sr_token := x\<rparr>) (as_string v (sr_token m))
      else map_option (\<lambda>x. m\<lparr>sr_expires := x\<rparr>) (as_string v (sr_expires m)))"

definition read_challenge :: "bytes \<Rightarrow> session_challenge option" where
  "read_challenge =
     decode_known set_challenge [''version'', ''type'', ''role'', ''connectionId'', ''subjectId'', ''nonce'', ''expiresAt'']
       \<lparr>sh_version = [], sh_type = [], sh_role = [], sh_connection = [], sh_subject = [], sh_nonce = [], sh_expires = []\<rparr>"

definition read_authentication :: "bytes \<Rightarrow> session_authentication option" where
  "read_authentication =
     decode_known set_authentication [''version'', ''type'', ''signature'']
       \<lparr>sa_version = [], sa_type = [], sa_signature = []\<rparr>"

definition read_ready :: "bytes \<Rightarrow> session_ready option" where
  "read_ready =
     decode_known set_ready [''version'', ''type'', ''sessionToken'', ''sessionExpiresAt'']
       \<lparr>sr_version = [], sr_type = [], sr_token = [], sr_expires = []\<rparr>"

section \<open>The signing input\<close>

definition SessionSigningDomain :: bytes where
  "SessionSigningDomain = ''yuanshu-relay-session-v1'' @ [CHR 0x00]"

definition SessionSigningInput :: "codec \<Rightarrow> session_challenge \<Rightarrow> bytes option" where
  "SessionSigningInput c v =
     (if sh_version v \<noteq> ''1'' \<or> sh_type v \<noteq> ''challenge'' \<or> sh_connection v = [] \<or> sh_subject v = [] \<or>
         sh_nonce v = [] \<or> sh_expires v = [] \<or> sh_role v \<noteq> ''node'' \<and> sh_role v \<noteq> ''control''
      then None else signingInput c SessionSigningDomain (challenge_document v))"

section \<open>The dialling side\<close>

text \<open>From the challenge to the answer; \<open>sign\<close> is the signer of the caller.\<close>

definition answer_challenge ::
  "codec \<Rightarrow> session_role \<Rightarrow> string \<Rightarrow> (bytes \<Rightarrow> bytes option) \<Rightarrow> gotime \<Rightarrow> bytes \<Rightarrow> bytes option" where
  "answer_challenge c role subject sign now raw =
     (case read_challenge raw of
        None \<Rightarrow> None
      | Some v \<Rightarrow>
          (case parse_RFC3339Nano (sh_expires v) of
             None \<Rightarrow> None
           | Some expiry \<Rightarrow>
               if sh_version v \<noteq> ''1'' \<or> sh_type v \<noteq> ''challenge'' \<or> sh_role v \<noteq> role_text role \<or> sh_subject v \<noteq> subject \<or>
                  sh_connection v = [] \<or> \<not> Before now expiry
               then None
               else if decodeCanonicalBase64URL (sh_nonce v) 32 = None then None
               else (case SessionSigningInput c v of
                       None \<Rightarrow> None
                     | Some input \<Rightarrow>
                         (case sign input of
                            None \<Rightarrow> None
                          | Some signature \<Rightarrow>
                              if length signature \<noteq> 64 then None
                              else Some (Marshal (string_members (authentication_document
                                \<lparr>sa_version = ''1'', sa_type = ''authenticate'', sa_signature = EncodeToString signature\<rparr>)))))))"

text \<open>What the Server's last message means to the dialler.\<close>

definition accept_ready :: "session_role \<Rightarrow> gotime \<Rightarrow> bytes \<Rightarrow> session_ready option" where
  "accept_ready role now raw =
     (case read_ready raw of
        None \<Rightarrow> None
      | Some v \<Rightarrow>
          if sr_version v \<noteq> ''1'' \<or> sr_type v \<noteq> ''authenticated'' then None
          else if role = SessionRoleNode then
            (case parse_RFC3339Nano (sr_expires v) of
               None \<Rightarrow> None
             | Some expiry \<Rightarrow>
                 if decodeCanonicalBase64URL (sr_token v) 32 = None \<or> \<not> Before now expiry then None else Some v)
          else if sr_token v \<noteq> [] \<or> sr_expires v \<noteq> [] then None
          else Some v)"

end
