(* ===== verification/Hub_Protocol.thy ===== *)
theory Hub_Protocol
  imports Relay_Session Lease_Store Validator
begin

text \<open>
  How the Server's hub reads frames: \<^verbatim>\<open>internal/server/protocol_compat.go\<close>, the
  classification of routed frames in \<^verbatim>\<open>internal/server/hub.go\<close>, and the payload parsers
  of \<^verbatim>\<open>internal/server/lease_hub.go\<close>.
\<close>

section \<open>Which controls the hub treats specially\<close>

definition leaseRequired :: "string \<Rightarrow> bool" where
  "leaseRequired t =
     (t \<in> {''turn.start'', ''turn.steer'', ''turn.interrupt'', ''approval.resolve''} \<or>
      t \<in> {''task.resume'', ''run.start'', ''run.steer'', ''run.interrupt'', ''interaction.resolve''})"

definition serverControl :: "string \<Rightarrow> bool" where
  "serverControl t =
     (t \<in> {''lease.acquire'', ''lease.renew'', ''lease.release'', ''lease.status'', ''notifications.list'',
           ''notifications.read''})"

section \<open>Routed controls and events\<close>

datatype routed_source = NoSource | FromV1 v1_message | FromV11 v11_message

record routed_control =
  rc_version :: string
  rc_message :: string
  rc_type :: string
  rc_sent :: string
  rc_expires :: "string option"
  rc_owner :: string
  rc_node :: string
  rc_workspace :: "string option"
  rc_task :: "string option"
  rc_run :: "string option"
  rc_activity :: "string option"
  rc_interaction :: "string option"
  rc_stream :: string
  rc_sequence :: int
  rc_correlation :: string
  rc_nonce :: "string option"
  rc_signer :: "wire_signer option"
  rc_signature :: "string option"
  rc_payload :: "(string \<times> json) list option"
  rc_source :: routed_source

definition routed_v1 :: "v1_message \<Rightarrow> routed_control" where
  "routed_v1 m =
     \<lparr>rc_version = ms_version m, rc_message = ms_message m, rc_type = ms_type m, rc_sent = ms_sent m,
      rc_expires = ms_expires m, rc_owner = ms_owner m, rc_node = ms_node m, rc_workspace = ms_workspace m,
      rc_task = ms_thread m, rc_run = ms_turn m, rc_activity = ms_item m, rc_interaction = ms_item m,
      rc_stream = ms_stream m, rc_sequence = ms_sequence m, rc_correlation = ms_correlation m,
      rc_nonce = ms_nonce m, rc_signer = ms_signer m, rc_signature = ms_signature m, rc_payload = ms_payload m,
      rc_source = FromV1 m\<rparr>"

definition routed_v11 :: "v11_message \<Rightarrow> routed_control" where
  "routed_v11 m =
     \<lparr>rc_version = ms_version m, rc_message = ms_message m, rc_type = ms_type m, rc_sent = ms_sent m,
      rc_expires = ms_expires m, rc_owner = ms_owner m, rc_node = ms_node m, rc_workspace = ms_workspace m,
      rc_task = ms_task m, rc_run = ms_run m, rc_activity = ms_activity m, rc_interaction = ms_interaction m,
      rc_stream = ms_stream m, rc_sequence = ms_sequence m, rc_correlation = ms_correlation m,
      rc_nonce = ms_nonce m, rc_signer = ms_signer m, rc_signature = ms_signature m, rc_payload = ms_payload m,
      rc_source = FromV11 m\<rparr>"

definition parseRoutedControl :: "codec \<Rightarrow> bytes \<Rightarrow> routed_control option" where
  "parseRoutedControl c raw =
     (case unmarshal_header raw of
        None \<Rightarrow> None
      | Some header \<Rightarrow>
          if rh_version header = CurrentVersion
          then (case ParseControl c raw of Inl _ \<Rightarrow> None | Inr m \<Rightarrow> Some (routed_v1 m))
          else if rh_version header = CurrentVersion11
          then (case ParseControl11 c raw of Inl _ \<Rightarrow> None | Inr m \<Rightarrow> Some (routed_v11 m))
          else None)"

definition routedSigningInput :: "codec \<Rightarrow> routed_control \<Rightarrow> bytes option" where
  "routedSigningInput c m =
     (case rc_source m of
        FromV11 x \<Rightarrow> ControlSigningInput11 c x
      | FromV1 x \<Rightarrow> ControlSigningInput c x
      | NoSource \<Rightarrow> None)"

record routed_event =
  rv_version :: string
  rv_message :: string
  rv_type :: string
  rv_owner :: string
  rv_node :: string
  rv_workspace :: "string option"
  rv_task :: "string option"
  rv_run :: "string option"
  rv_stream :: string
  rv_sequence :: int
  rv_payload :: "(string \<times> json) list option"

definition parseRoutedEvent :: "codec \<Rightarrow> bytes \<Rightarrow> routed_event option" where
  "parseRoutedEvent c raw =
     (case unmarshal_header raw of
        None \<Rightarrow> None
      | Some header \<Rightarrow>
          if rh_version header = CurrentVersion
          then (case ParseEvent c raw of
                  Inl _ \<Rightarrow> None
                | Inr m \<Rightarrow> Some \<lparr>rv_version = ms_version m, rv_message = ms_message m, rv_type = ms_type m,
                    rv_owner = ms_owner m, rv_node = ms_node m, rv_workspace = ms_workspace m, rv_task = ms_thread m,
                    rv_run = ms_turn m, rv_stream = ms_stream m, rv_sequence = ms_sequence m, rv_payload = ms_payload m\<rparr>)
          else if rh_version header = CurrentVersion11
          then (case ParseEvent11 c raw of
                  Inl _ \<Rightarrow> None
                | Inr m \<Rightarrow> Some \<lparr>rv_version = ms_version m, rv_message = ms_message m, rv_type = ms_type m,
                    rv_owner = ms_owner m, rv_node = ms_node m, rv_workspace = ms_workspace m, rv_task = ms_task m,
                    rv_run = ms_run m, rv_stream = ms_stream m, rv_sequence = ms_sequence m, rv_payload = ms_payload m\<rparr>)
          else None)"

definition classifyControl :: "string \<Rightarrow> string \<Rightarrow> bool" where
  "classifyControl version t =
     (if version = CurrentVersion then Classify version KindControl t = KnownControl
      else if version = CurrentVersion11 then IsKnownControl11 t
      else False)"

definition classifyEvent :: "string \<Rightarrow> string \<Rightarrow> bool" where
  "classifyEvent version t =
     (Classify version KindEvent t = KnownEvent \<or> Classify version KindEvent t = UnknownEvent)"

definition classifyRoutedFrame :: "bytes \<Rightarrow> session_role \<Rightarrow> route_header option" where
  "classifyRoutedFrame raw role =
     (case unmarshal_header raw of
        None \<Rightarrow> None
      | Some header \<Rightarrow>
          if rh_owner header = [] \<or> rh_node header = [] \<or> rh_type header = [] then None
          else if role = SessionRoleControl
          then (if \<not> classifyControl (rh_version header) (rh_type header) then None else Some header)
          else (if \<not> classifyEvent (rh_version header) (rh_type header) then None else Some header))"

section \<open>Payloads\<close>

text \<open>The lookup in a map that may be nil.\<close>

definition payload_get :: "(string \<times> json) list option \<Rightarrow> string \<Rightarrow> json option" where
  "payload_get p k = (case p of None \<Rightarrow> None | Some kvs \<Rightarrow> map_of kvs k)"

definition messageLeaseScope :: "routed_control \<Rightarrow> lease_scope option" where
  "messageLeaseScope m =
     (case (rc_workspace m, rc_task m) of
        (Some w, Some t) \<Rightarrow>
          if w = [] \<or> t = [] \<or> rc_owner m = [] \<or> rc_node m = [] then None
          else Some \<lparr>sc_owner = rc_owner m, sc_node = rc_node m, sc_workspace = w, sc_thread = t\<rparr>
      | _ \<Rightarrow> None)"

definition jsonNumber :: "json option \<Rightarrow> int option" where
  "jsonNumber v =
     (case v of
        Some (JNumber l) \<Rightarrow>
          (case float64_integer l of
             None \<Rightarrow> None
           | Some n \<Rightarrow> if n < 0 \<or> max_js_sequence < n then None else Some n)
      | _ \<Rightarrow> None)"

definition leaseAcquirePayload :: "(string \<times> json) list option \<Rightarrow> (bool \<times> int option) option" where
  "leaseAcquirePayload p =
     (case (case payload_get p ''force'' of None \<Rightarrow> Some False | Some (JBool b) \<Rightarrow> Some b | Some _ \<Rightarrow> None) of
        None \<Rightarrow> None
      | Some force \<Rightarrow>
          (case payload_get p ''expectedEpoch'' of
             None \<Rightarrow> Some (force, None)
           | Some v \<Rightarrow>
               (case jsonNumber (Some v) of None \<Rightarrow> None | Some epoch \<Rightarrow> Some (force, Some epoch))))"

definition leaseMutationPayload :: "(string \<times> json) list option \<Rightarrow> (string \<times> int) option" where
  "leaseMutationPayload p =
     (case payload_get p ''leaseId'' of
        Some (JString i) \<Rightarrow>
          if i = [] then None
          else (case jsonNumber (payload_get p ''epoch'') of
                  None \<Rightarrow> None
                | Some n \<Rightarrow> if n < 1 then None else Some (i, n))
      | _ \<Rightarrow> None)"

definition leaseProof :: "(string \<times> json) list option \<Rightarrow> store_error + string \<times> int" where
  "leaseProof p =
     (case payload_get p ''lease'' of
        Some (JObject kvs) \<Rightarrow>
          (case leaseMutationPayload (Some kvs) of None \<Rightarrow> Inl ErrInvalid | Some x \<Rightarrow> Inr x)
      | _ \<Rightarrow> Inl ErrConflict)"

definition decodeSignature :: "string option \<Rightarrow> bytes option" where
  "decodeSignature v =
     (case v of
        None \<Rightarrow> None
      | Some s \<Rightarrow>
          (case DecodeString s of
             None \<Rightarrow> None
           | Some decoded \<Rightarrow> if length decoded \<noteq> 64 then None else Some decoded))"

section \<open>The header names what the frame says\<close>

text \<open>The hub routes by the header and checks the message; both come from the same bytes by different
  readers. On a frame that is accepted they agree.\<close>

lemma header_folded: "distinct (map fold_name header_names)"
  by code_simp

lemma v1_folded: "distinct (map fold_name ([''itemId'', ''threadId'', ''turnId''] @ common_names))"
  by code_simp

lemma v11_folded:
  "distinct (map fold_name ([''activityId'', ''agentInstanceId'', ''interactionId'', ''runId'', ''taskId''] @ common_names))"
  by code_simp

text \<open>The fields a header shares with an envelope.\<close>

definition same_route :: "route_header \<Rightarrow> 'a envelope_scheme \<Rightarrow> bool" where
  "same_route h m = (rh_version h = ms_version m \<and> rh_type h = ms_type m \<and> rh_owner h = ms_owner m \<and> rh_node h = ms_node m)"

lemma header_fields:
  "text_field set_header header_names ''protocolVersion'' rh_version" "text_field set_header header_names ''type'' rh_type"
  "text_field set_header header_names ''ownerId'' rh_owner" "text_field set_header header_names ''nodeId'' rh_node"
  using header_folded by (auto simp: text_field_def set_header_def header_names_def split: if_splits)

lemma set_v1_step:
  assumes "set_v1 k v m = Some m'"
  shows "if k = ''protocolVersion'' then as_string v (ms_version m) = Some (ms_version m') else ms_version m' = ms_version m"
    and "if k = ''type'' then as_string v (ms_type m) = Some (ms_type m') else ms_type m' = ms_type m"
    and "if k = ''ownerId'' then as_string v (ms_owner m) = Some (ms_owner m') else ms_owner m' = ms_owner m"
    and "if k = ''nodeId'' then as_string v (ms_node m) = Some (ms_node m') else ms_node m' = ms_node m"
  using assms by (auto simp: set_v1_def set_common_def split: if_splits)

lemma set_v11_step:
  assumes "set_v11 k v m = Some m'"
  shows "if k = ''protocolVersion'' then as_string v (ms_version m) = Some (ms_version m') else ms_version m' = ms_version m"
    and "if k = ''type'' then as_string v (ms_type m) = Some (ms_type m') else ms_type m' = ms_type m"
    and "if k = ''ownerId'' then as_string v (ms_owner m) = Some (ms_owner m') else ms_owner m' = ms_owner m"
    and "if k = ''nodeId'' then as_string v (ms_node m) = Some (ms_node m') else ms_node m' = ms_node m"
  using assms by (auto simp: set_v11_def set_common_def split: if_splits)

lemma route_names:
  "''protocolVersion'' \<in> set (xs @ common_names)" "''type'' \<in> set (xs @ common_names)"
  "''ownerId'' \<in> set (xs @ common_names)" "''nodeId'' \<in> set (xs @ common_names)"
  by (simp_all add: common_names_def)

lemmas v1_fields =
  text_fieldI [OF route_names(1) v1_folded set_v1_step(1)] text_fieldI [OF route_names(2) v1_folded set_v1_step(2)]
  text_fieldI [OF route_names(3) v1_folded set_v1_step(3)] text_fieldI [OF route_names(4) v1_folded set_v1_step(4)]

lemmas v11_fields =
  text_fieldI [OF route_names(1) v11_folded set_v11_step(1)] text_fieldI [OF route_names(2) v11_folded set_v11_step(2)]
  text_fieldI [OF route_names(3) v11_folded set_v11_step(3)] text_fieldI [OF route_names(4) v11_folded set_v11_step(4)]

lemma header_same_v1:
  assumes "unmarshal_with set_header header_names zero_header doc = Some h" "unmarshal_v1 doc = Some m"
  shows "same_route h m"
proof -
  note alike = unmarshal_alike [OF _ _ _ assms(1) assms(2) [unfolded unmarshal_v1_def]]
  show ?thesis
    using alike [OF header_fields(1) v1_fields(1)] alike [OF header_fields(2) v1_fields(2)]
      alike [OF header_fields(3) v1_fields(3)] alike [OF header_fields(4) v1_fields(4)]
    by (simp add: same_route_def zero_header_def zero_v1_def)
qed

lemma header_same_v11:
  assumes "unmarshal_with set_header header_names zero_header doc = Some h" "unmarshal_v11 doc = Some m"
  shows "same_route h m"
proof -
  note alike = unmarshal_alike [OF _ _ _ assms(1) assms(2) [unfolded unmarshal_v11_def]]
  show ?thesis
    using alike [OF header_fields(1) v11_fields(1)] alike [OF header_fields(2) v11_fields(2)]
      alike [OF header_fields(3) v11_fields(3)] alike [OF header_fields(4) v11_fields(4)]
    by (simp add: same_route_def zero_header_def zero_v11_def)
qed

lemma header_of_document:
  assumes "unmarshal_header raw = Some h" "decodeStrictJSON jcs raw = Inr doc"
  shows "unmarshal_with set_header header_names zero_header doc = Some h"
  using assms read_json_strict [OF assms(2)] by (simp add: unmarshal_header_def)

lemma ParseControl_read:
  assumes "ParseControl c raw = Inr m"
  obtains doc where "decodeStrictJSON (cd_jcs c) raw = Inr doc" "unmarshal_v1 doc = Some m"
  using assms that by (auto simp: ParseControl_def split: if_splits sum.splits option.splits)

lemma header_of_control:
  assumes "parseRoutedControl c raw = Some m" "unmarshal_header raw = Some h"
  shows "rh_type h = rc_type m" "rh_owner h = rc_owner m" "rh_node h = rc_node m" "rh_version h = rc_version m"
proof -
  have "same_route h x \<and> m = routed_v1 x" if "ParseControl c raw = Inr x" "m = routed_v1 x" for x
  proof -
    from that(1) obtain doc where doc: "decodeStrictJSON (cd_jcs c) raw = Inr doc" "unmarshal_v1 doc = Some x"
      by (rule ParseControl_read)
    from header_same_v1 [OF header_of_document [OF assms(2) doc(1)] doc(2)] that(2) show ?thesis by simp
  qed
  moreover have "same_route h x \<and> m = routed_v11 x" if "parse11 c raw True (cd_schema11 c) = Inr x" "m = routed_v11 x" for x
  proof -
    from that(1) obtain doc x0 where doc: "decodeStrictJSON (cd_jcs c) raw = Inr doc" "unmarshal_v11 doc = Some x0"
      "x = x0\<lparr>ms_payload := map_option sorted_payload (ms_payload x0)\<rparr>"
      by (rule parse11_read)
    from header_same_v11 [OF header_of_document [OF assms(2) doc(1)] doc(2)] doc(3) that(2) show ?thesis
      by (simp add: same_route_def)
  qed
  ultimately have "(\<exists>x. same_route h x \<and> m = routed_v1 x) \<or> (\<exists>x. same_route h x \<and> m = routed_v11 x)"
    using assms by (fastforce simp: parseRoutedControl_def ParseControl11_def split: if_splits sum.splits)
  then show "rh_type h = rc_type m" "rh_owner h = rc_owner m" "rh_node h = rc_node m" "rh_version h = rc_version m"
    by (auto simp: same_route_def routed_v1_def routed_v11_def)
qed

end
