(* ===== verification/Hub.thy ===== *)
theory Hub
  imports Hub_Protocol Server_Admin
begin

text \<open>
  The Server's hub, \<^verbatim>\<open>internal/server/hub.go\<close>, \<^verbatim>\<open>lease_hub.go\<close> and
  \<^verbatim>\<open>node_sessions.go\<close>: the connections of Nodes and control clients, the routing of their
  frames, the controls the Server answers itself, and the HTTP sessions of connected Nodes. The hub's
  stores are the SQLite store of the Server.

  One iteration of the loop in \<^verbatim>\<open>route\<close> is one step of the model. The lock of a lease scope
  is held over the check of a lease and the forwarding of the control, and over every lease operation
  of the hub, so the steps of one scope do not overlap.

  \<open>surroundings\<close> says what the rest of the world does in one step, by the place in the code that asks:
  the clock, the random source, the faults of the store calls, and which sends succeed. A relay is known by
  a number. Connections are kept in association lists; Go visits a map in any order, the model in
  the order of the list.
\<close>

section \<open>Surroundings and effects\<close>

datatype site =
    AtFrame | AtReplay | AtLease | AtLeaseId | AtLeaseCheck | AtResult | AtChange | AtChange11 | AtForward | AtEvent
  | AtTouch | AtHealth | AtNotify | AtConnect | AtChallenge | AtNonce | AtAnswer | AtSession | AtReady | AtCleanup

record surroundings =
  su_clock :: "site \<Rightarrow> gotime"
  su_random :: "site \<Rightarrow> bytes option"
  su_store :: "site \<Rightarrow> env"
  su_sent :: "site \<Rightarrow> nat \<Rightarrow> bool"

text \<open>A frame that a relay took, with the place that sent it; a relay that was closed.\<close>

datatype hub_effect = Sent site nat bytes | ClosedRelay nat

text \<open>\<^verbatim>\<open>randomValue\<close>: the bytes read, or \<open>None\<close> when the source gives fewer.\<close>

definition randomValue :: "surroundings \<Rightarrow> site \<Rightarrow> nat \<Rightarrow> string option" where
  "randomValue su place n =
     (case su_random su place of
        None \<Rightarrow> None
      | Some bs \<Rightarrow> if length bs < n then None else Some (EncodeToString (take n bs)))"

section \<open>State\<close>

record hub_connection =
  hc_owner :: string
  hc_subject :: string
  hc_key :: string
  hc_public_key :: bytes
  hc_role :: session_role
  hc_relay :: nat
  hc_connected :: gotime
  hc_connection :: string

record hub_node_detail =
  hn_node :: string
  hn_online :: bool
  hn_connected :: gotime
  hn_last_frame :: gotime
  hn_last_event :: gotime
  hn_runtime :: string
  hn_relay :: string
  hn_recovery :: string
  hn_workspaces :: int
  hn_error :: string
  hn_close :: string

definition zero_detail :: hub_node_detail where
  "zero_detail = \<lparr>hn_node = [], hn_online = False, hn_connected = 0, hn_last_frame = 0, hn_last_event = 0,
     hn_runtime = [], hn_relay = [], hn_recovery = [], hn_workspaces = 0, hn_error = [], hn_close = []\<rparr>"

record node_http_session =
  hs_owner :: string
  hs_node :: string
  hs_connection :: string
  hs_expires :: gotime

record hub =
  hb_db :: server_db
  hb_nodes :: "(string \<times> hub_connection) list"
  hb_controls :: "(string \<times> hub_connection) list"
  hb_details :: "string \<Rightarrow> hub_node_detail option"
  hb_sessions :: "(bytes \<times> node_http_session) list"
  hb_session_ttl :: duration
  hb_closed :: bool
  hb_limit :: nat
  hb_active :: nat

text \<open>The key of a connection and its entry in a map.\<close>

definition connectionKey :: "string \<Rightarrow> string \<Rightarrow> string" where
  "connectionKey owner subject = owner @ CHR 0x00 # subject"

definition put_entry :: "'k \<Rightarrow> 'v \<Rightarrow> ('k \<times> 'v) list \<Rightarrow> ('k \<times> 'v) list" where
  "put_entry k v m = filter (\<lambda>x. fst x \<noteq> k) m @ [(k, v)]"

definition delete_entry :: "'k \<Rightarrow> ('k \<times> 'v) list \<Rightarrow> ('k \<times> 'v) list" where
  "delete_entry k m = filter (\<lambda>x. fst x \<noteq> k) m"

definition detail_of :: "hub \<Rightarrow> string \<Rightarrow> hub_node_detail" where
  "detail_of h key = (case hb_details h key of None \<Rightarrow> zero_detail | Some d \<Rightarrow> d)"

definition put_detail :: "string \<Rightarrow> (hub_node_detail \<Rightarrow> hub_node_detail) \<Rightarrow> hub \<Rightarrow> hub" where
  "put_detail key f h = h\<lparr>hb_details := (hb_details h)(key \<mapsto> f (detail_of h key))\<rparr>"

definition node :: "hub \<Rightarrow> string \<Rightarrow> string \<Rightarrow> hub_connection option" where
  "node h owner nodeID = map_of (hb_nodes h) (connectionKey owner nodeID)"

definition NodeConnected :: "hub \<Rightarrow> string \<Rightarrow> string \<Rightarrow> bool" where
  "NodeConnected h owner nodeID = (node h owner nodeID \<noteq> None)"

definition OwnerNodeDetail :: "hub \<Rightarrow> string \<Rightarrow> string \<Rightarrow> hub_node_detail \<times> bool" where
  "OwnerNodeDetail h owner nodeID =
     (let key = connectionKey owner nodeID in (detail_of h key, hb_details h key \<noteq> None))"

definition HubSnapshot :: "hub \<Rightarrow> string \<times> nat \<times> nat" where
  "HubSnapshot h = (if hb_closed h then ''closed'' else ''ready'', length (hb_nodes h), length (hb_controls h))"

definition OwnerConnections :: "hub \<Rightarrow> string \<Rightarrow> (string \<times> session_role \<times> gotime) list" where
  "OwnerConnections h owner =
     map (\<lambda>c. (hc_subject c, hc_role c, hc_connected c))
       (filter (\<lambda>c. hc_owner c = owner) (map snd (hb_nodes h)) @ filter (\<lambda>c. hc_owner c = owner) (map snd (hb_controls h)))"

definition ownerOnlineNodeIDs :: "hub \<Rightarrow> string \<Rightarrow> string list" where
  "ownerOnlineNodeIDs h owner = sort (map hc_subject (filter (\<lambda>c. hc_owner c = owner) (map snd (hb_nodes h))))"

section \<open>Admission of connections\<close>

definition hub_acquire :: "hub \<Rightarrow> hub \<times> bool" where
  "hub_acquire h =
     (if hb_closed h then (h, False)
      else if hb_active h < hb_limit h then (h\<lparr>hb_active := Suc (hb_active h)\<rparr>, True) else (h, False))"

definition hub_release :: "hub \<Rightarrow> hub" where
  "hub_release h = h\<lparr>hb_active := hb_active h - 1\<rparr>"

definition touch_subject :: "surroundings \<Rightarrow> hub_connection \<Rightarrow> hub \<Rightarrow> hub" where
  "touch_subject su con h =
     h\<lparr>hb_db := fst ((if hc_role con = SessionRoleNode then TouchNode else TouchControlClient)
       (su_store su AtTouch) (hb_db h) (hc_owner con) (hc_subject con) (su_clock su AtTouch))\<rparr>"

definition register :: "surroundings \<Rightarrow> hub_connection \<Rightarrow> hub \<Rightarrow> hub \<times> hub_effect list \<times> bool" where
  "register su con h =
     (let key = connectionKey (hc_owner con) (hc_subject con)
      in if hb_closed h then (h, [], False)
         else
           let previous = map_of (if hc_role con = SessionRoleNode then hb_nodes h else hb_controls h) key;
               h1 = (if hc_role con = SessionRoleNode
                     then put_detail key (\<lambda>d. d\<lparr>hn_node := hc_subject con, hn_online := True, hn_connected := hc_connected con,
                            hn_relay := ''online'', hn_error := [], hn_close := []\<rparr>)
                            (h\<lparr>hb_nodes := put_entry key con (hb_nodes h)\<rparr>)
                     else h\<lparr>hb_controls := put_entry key con (hb_controls h)\<rparr>)
           in (touch_subject su con h1, (case previous of None \<Rightarrow> [] | Some p \<Rightarrow> [ClosedRelay (hc_relay p)]), True))"

definition randomNotificationID :: "surroundings \<Rightarrow> string" where
  "randomNotificationID su = (case randomValue su AtNotify 16 of None \<Rightarrow> ''notification-fallback'' | Some s \<Rightarrow> s)"

definition saveNotification :: "surroundings \<Rightarrow> notification \<Rightarrow> hub \<Rightarrow> hub" where
  "saveNotification su item h = h\<lparr>hb_db := fst (SaveNotification (su_store su AtNotify) (hb_db h) item)\<rparr>"

text \<open>The summaries, in UTF-8.\<close>

definition summary_completed :: string where
  "summary_completed = map char_of [228 :: int, 187, 187, 229, 138, 161, 229, 183, 178, 229, 174, 140, 230, 136, 144]"

definition summary_failed :: string where
  "summary_failed = map char_of [228 :: int, 187, 187, 229, 138, 161, 230, 137, 167, 232, 161, 140, 229, 164, 177, 232, 180, 165]"

definition summary_approval :: string where
  "summary_approval = map char_of [228 :: int, 187, 187, 229, 138, 161, 231, 173, 137, 229, 190, 133, 229, 174, 161, 230, 137, 185]"

definition summary_online :: string where
  "summary_online = map char_of [232 :: int, 138, 130, 231, 130, 185, 229, 183, 178, 229, 156, 168, 231, 186, 191]"

definition summary_offline :: string where
  "summary_offline = map char_of [232 :: int, 138, 130, 231, 130, 185, 229, 183, 178, 231, 166, 187, 231, 186, 191]"

text \<open>\<^verbatim>\<open>Format("20060102150405")\<close>\<close>

definition format_compact :: "gotime \<Rightarrow> string" where
  "format_compact t = filter (\<lambda>c. is_digit c) (takeWhile (\<lambda>c. c \<noteq> CHR ''.'' \<and> c \<noteq> CHR ''Z'') (format_RFC3339Nano t))"

definition unregister :: "surroundings \<Rightarrow> hub_connection \<Rightarrow> hub \<Rightarrow> hub" where
  "unregister su con h =
     (let key = connectionKey (hc_owner con) (hc_subject con)
      in if hc_role con = SessionRoleNode then
           (if map_of (hb_nodes h) key = Some con
            then saveNotification su
                   \<lparr>no_id = randomNotificationID su, no_owner = hc_owner con, no_node = hc_subject con, no_workspace = [],
                    no_thread = [], no_turn = [], no_type = ''node.offline'', no_summary = summary_offline,
                    no_source_sequence = 0,
                    no_dedup_key = ''node.offline:'' @ hc_subject con @ '':'' @ format_compact (su_clock su AtNotify),
                    no_created_at = su_clock su AtNotify, no_read_at = None\<rparr>
                   (put_detail key (\<lambda>d. d\<lparr>hn_node := hc_subject con, hn_online := False, hn_relay := ''offline'',
                      hn_error := ''node_offline'', hn_close := ''connection_closed''\<rparr>)
                     (h\<lparr>hb_nodes := delete_entry key (hb_nodes h)\<rparr>))
            else h)
         else if map_of (hb_controls h) key = Some con then h\<lparr>hb_controls := delete_entry key (hb_controls h)\<rparr>
         else h)"

text \<open>\<^verbatim>\<open>disconnect\<close> on either collection.\<close>

definition DisconnectControl :: "string \<Rightarrow> string \<Rightarrow> hub \<Rightarrow> hub \<times> hub_effect list" where
  "DisconnectControl owner clientID h =
     (let key = connectionKey owner clientID
      in case map_of (hb_controls h) key of
           None \<Rightarrow> (h, [])
         | Some con \<Rightarrow> (h\<lparr>hb_controls := delete_entry key (hb_controls h)\<rparr>, [ClosedRelay (hc_relay con)]))"

definition DisconnectNode :: "string \<Rightarrow> string \<Rightarrow> hub \<Rightarrow> hub \<times> hub_effect list" where
  "DisconnectNode owner nodeID h =
     (let key = connectionKey owner nodeID
      in case map_of (hb_nodes h) key of
           None \<Rightarrow> (h, [])
         | Some con \<Rightarrow> (h\<lparr>hb_nodes := delete_entry key (hb_nodes h)\<rparr>, [ClosedRelay (hc_relay con)]))"

definition CloseHub :: "hub \<Rightarrow> hub \<times> hub_effect list" where
  "CloseHub h =
     (if hb_closed h then (h, [])
      else (h\<lparr>hb_closed := True, hb_nodes := [], hb_controls := [], hb_sessions := []\<rparr>,
            map (\<lambda>x. ClosedRelay (hc_relay (snd x))) (hb_nodes h @ hb_controls h)))"

section \<open>The check of a control frame\<close>

text \<open>\<open>FrameStore\<close> carries the message that the replay store did not accept.\<close>

datatype frame_error = FrameInvalid string | FrameStore store_error routed_control

definition frame_authorized :: "hub_connection \<Rightarrow> routed_control \<Rightarrow> bool" where
  "frame_authorized source m =
     (\<not> (hc_role source \<noteq> SessionRoleControl \<or> rc_owner m \<noteq> hc_owner source \<or>
         (case rc_signer m of None \<Rightarrow> True | Some s \<Rightarrow> ws_client s \<noteq> hc_subject source \<or> ws_key s \<noteq> hc_key source) \<or>
         rc_signature m = None \<or> rc_expires m = None \<or> rc_nonce m = None))"

definition frame_replay :: "routed_control \<Rightarrow> gotime \<Rightarrow> replay_record" where
  "frame_replay m expiry =
     \<lparr>re_owner = rc_owner m, re_node = rc_node m, re_message = rc_message m,
      re_client = ws_client (the (rc_signer m)), re_key = ws_key (the (rc_signer m)), re_nonce = the (rc_nonce m),
      re_sequence = rc_sequence m, re_retain = expiry + DefaultControlClockSkew\<rparr>"

definition validateControlFrame ::
  "codec \<Rightarrow> surroundings \<Rightarrow> hub_connection \<Rightarrow> bytes \<Rightarrow> server_db \<Rightarrow> server_db \<times> (frame_error + routed_control)" where
  "validateControlFrame c su source raw db =
     (case parseRoutedControl c raw of
        None \<Rightarrow> (db, Inl (FrameInvalid ''control frame authorization failed''))
      | Some m \<Rightarrow>
          if \<not> frame_authorized source m then (db, Inl (FrameInvalid ''control frame authorization failed''))
          else case parse_RFC3339Nano (rc_sent m) of
            None \<Rightarrow> (db, Inl (FrameInvalid ''control frame time is invalid''))
          | Some sent \<Rightarrow>
              (case parse_RFC3339Nano (the (rc_expires m)) of
                 None \<Rightarrow> (db, Inl (FrameInvalid ''control frame is expired''))
               | Some expiry \<Rightarrow>
                   if \<not> After expiry sent \<or> DefaultControlMaxTTL < time_Sub expiry sent \<or>
                      Before expiry (su_clock su AtFrame - DefaultControlClockSkew)
                   then (db, Inl (FrameInvalid ''control frame is expired''))
                   else if rc_sequence m < 1 \<or> length (hc_public_key source) \<noteq> 32
                   then (db, Inl (FrameInvalid ''control frame sequence is invalid''))
                   else case decodeSignature (rc_signature m) of
                     None \<Rightarrow> (db, Inl (FrameInvalid ''control frame signature is invalid''))
                   | Some decoded \<Rightarrow>
                       (case routedSigningInput c m of
                          None \<Rightarrow> (db, Inl (FrameInvalid ''control frame signature is invalid''))
                        | Some input \<Rightarrow>
                            if \<not> cd_verify c (hc_public_key source) input decoded
                            then (db, Inl (FrameInvalid ''control frame signature is invalid''))
                            else case serverCheckAndRecord (su_store su AtReplay) (su_clock su AtReplay) db (frame_replay m expiry) of
                              (db', Some x) \<Rightarrow> (db', Inl (FrameStore x m))
                            | (db', None) \<Rightarrow> (db', Inr m))))"

section \<open>Answers and broadcasts\<close>

definition error_code_text :: "error_code \<Rightarrow> string" where
  "error_code_text x =
     (case x of
        ErrorInvalidMessage \<Rightarrow> ''invalid_message'' | ErrorUnsupportedProtocol \<Rightarrow> ''unsupported_protocol''
      | ErrorUnsupportedControl \<Rightarrow> ''unsupported_control'' | ErrorUnauthorized \<Rightarrow> ''unauthorized''
      | ErrorForbidden \<Rightarrow> ''forbidden'' | ErrorExpired \<Rightarrow> ''expired'' | ErrorReplay \<Rightarrow> ''replay''
      | ErrorNotFound \<Rightarrow> ''not_found'' | ErrorConflict \<Rightarrow> ''conflict'' | ErrorRateLimited \<Rightarrow> ''rate_limited''
      | ErrorPayloadTooLarge \<Rightarrow> ''payload_too_large'' | ErrorRuntimeUnavailable \<Rightarrow> ''runtime_unavailable''
      | ErrorRuntimeFailed \<Rightarrow> ''runtime_failed'' | ErrorHistoryGap \<Rightarrow> ''history_gap''
      | ErrorAmbiguous \<Rightarrow> ''ambiguous'' | ErrorInternal \<Rightarrow> ''internal'')"

definition serverControlStreamPrefix :: string where
  "serverControlStreamPrefix = ''server-control-v1-''"

definition result_payload :: "string \<Rightarrow> error_code option \<Rightarrow> (string \<times> json) list \<Rightarrow> (string \<times> json) list" where
  "result_payload status code extra =
     fold put_member extra
       ([(''status'', JString status), (''source'', JString ''server'')] @
        (case code of None \<Rightarrow> [] | Some x \<Rightarrow> [(''errorCode'', JString (error_code_text x))]))"

text \<open>\<^verbatim>\<open>mustMarshal\<close>: no value the hub builds makes \<^verbatim>\<open>json.Marshal\<close> fail.\<close>

definition mustMarshal :: "v1_message \<Rightarrow> bytes" where
  "mustMarshal m = Marshal (JObject (members_v1 m))"

definition send_to :: "surroundings \<Rightarrow> site \<Rightarrow> nat \<Rightarrow> bytes \<Rightarrow> hub_effect list \<times> bool" where
  "send_to su place relay raw = (if su_sent su place relay then ([Sent place relay raw], True) else ([], False))"

definition sendServerResult ::
  "codec \<Rightarrow> surroundings \<Rightarrow> hub_connection \<Rightarrow> routed_control \<Rightarrow> string \<Rightarrow> error_code option \<Rightarrow> (string \<times> json) list \<Rightarrow>
   hub_effect list \<times> bool" where
  "sendServerResult c su source request status code extra =
     (case randomValue su AtResult 16 of
        None \<Rightarrow> ([], False)
      | Some messageID \<Rightarrow>
          let payload = result_payload status code extra;
              sent = format_RFC3339Nano (su_clock su AtResult);
              stream = serverControlStreamPrefix @ hc_subject source
          in if rc_version request = CurrentVersion11 then
               (case MarshalEvent11 c (zero_v11\<lparr>ms_version := CurrentVersion11, ms_message := messageID,
                       ms_type := ''control.result'', ms_sent := sent, ms_owner := rc_owner request, ms_node := rc_node request,
                       ms_stream := stream, ms_sequence := rc_sequence request, ms_correlation := rc_message request,
                       ms_payload := Some payload, ms_agent := None, ms_workspace := rc_workspace request,
                       ms_task := rc_task request, ms_run := rc_run request, ms_activity := rc_activity request,
                       ms_interaction := rc_interaction request\<rparr>) of
                  Inl _ \<Rightarrow> ([], False)
                | Inr encoded \<Rightarrow> send_to su AtResult (hc_relay source) encoded)
             else
               send_to su AtResult (hc_relay source)
                 (mustMarshal (zero_v1\<lparr>ms_version := CurrentVersion, ms_message := messageID, ms_type := ''control.result'',
                    ms_sent := sent, ms_owner := rc_owner request, ms_node := rc_node request, ms_stream := stream,
                    ms_sequence := rc_sequence request, ms_correlation := rc_message request, ms_payload := Some payload,
                    ms_workspace := rc_workspace request, ms_thread := rc_task request, ms_turn := rc_run request\<rparr>)))"

text \<open>To every control connection of the owner; one that does not take the frame is closed.\<close>

definition broadcast :: "surroundings \<Rightarrow> site \<Rightarrow> string \<Rightarrow> bytes \<Rightarrow> hub \<Rightarrow> hub_effect list" where
  "broadcast su place owner raw h =
     map (\<lambda>con. if su_sent su place (hc_relay con) then Sent place (hc_relay con) raw else ClosedRelay (hc_relay con))
       (filter (\<lambda>con. hc_owner con = owner) (map snd (hb_controls h)))"

fun lease_state_text :: "lease_state \<Rightarrow> string" where
  "lease_state_text StUnset = []"
| "lease_state_text StNone = ''none''"
| "lease_state_text StHeld = ''held''"
| "lease_state_text StReleased = ''released''"
| "lease_state_text StExpired = ''expired''"

definition lease_members :: "lease_record \<Rightarrow> (string \<times> json) list" where
  "lease_members r =
     (if le_lease_id r = [] then [] else [(''leaseId'', JString (le_lease_id r))]) @
     (if le_holder r = [] then [] else [(''holderClientId'', JString (le_holder r))]) @
     (if IsZero (le_expires r) then [] else [(''expiresAt'', JString (format_RFC3339Nano (le_expires r)))])"

definition leasePayload :: "lease_record \<Rightarrow> (string \<times> json) list" where
  "leasePayload r =
     [(''lease'', JObject ([(''state'', JString (lease_state_text (le_state r))), (''epoch'', JNumber (itoa (le_epoch r)))] @
        lease_members r))]"

definition broadcastLeaseChange ::
  "codec \<Rightarrow> surroundings \<Rightarrow> lease_record \<Rightarrow> string \<Rightarrow> hub \<Rightarrow> hub_effect list \<times> bool" where
  "broadcastLeaseChange c su r correlationID h =
     (case randomValue su AtChange 16 of
        None \<Rightarrow> ([], False)
      | Some messageID \<Rightarrow>
          let sc = le_scope r;
              streamID = ''lease.'' @ sc_workspace sc @ ''.'' @ sc_thread sc;
              payload = [(''state'', JString (lease_state_text (le_state r))), (''epoch'', JNumber (itoa (le_epoch r))),
                         (''reason'', JString ''updated'')] @ lease_members r;
              first = broadcast su AtChange (sc_owner sc)
                (mustMarshal (zero_v1\<lparr>ms_version := CurrentVersion, ms_message := messageID, ms_type := ''lease.changed'',
                   ms_sent := format_RFC3339Nano (su_clock su AtChange), ms_owner := sc_owner sc, ms_node := sc_node sc,
                   ms_workspace := Some (sc_workspace sc), ms_thread := Some (sc_thread sc), ms_stream := streamID,
                   ms_sequence := le_epoch r, ms_correlation := correlationID, ms_payload := Some payload\<rparr>)) h
          in case randomValue su AtChange11 16 of
               None \<Rightarrow> (first, False)
             | Some messageID11 \<Rightarrow>
                 (case MarshalEvent11 c (zero_v11\<lparr>ms_version := CurrentVersion11, ms_message := messageID11,
                         ms_type := ''lease.changed'', ms_sent := format_RFC3339Nano (su_clock su AtChange11),
                         ms_owner := sc_owner sc, ms_node := sc_node sc, ms_workspace := Some (sc_workspace sc),
                         ms_task := Some (sc_thread sc), ms_stream := streamID @ ''.1'', ms_sequence := le_epoch r,
                         ms_correlation := correlationID, ms_payload := Some payload\<rparr>) of
                    Inl _ \<Rightarrow> (first, False)
                  | Inr encoded \<Rightarrow> (first @ broadcast su AtChange11 (sc_owner sc) encoded h, True)))"

section \<open>Controls the Server answers\<close>

definition notification_json :: "notification \<Rightarrow> json" where
  "notification_json item =
     JObject ([(''id'', JString (no_id item)), (''nodeId'', JString (no_node item)), (''type'', JString (no_type item)),
       (''summary'', JString (no_summary item)), (''sourceSequence'', JNumber (itoa (no_source_sequence item))),
       (''createdAt'', JString (format_RFC3339Nano (no_created_at item))), (''read'', JBool (no_read_at item \<noteq> None))] @
       (if no_workspace item = [] then [] else [(''workspaceId'', JString (no_workspace item))]) @
       (if no_thread item = [] then [] else [(''threadId'', JString (no_thread item))]) @
       (if no_turn item = [] then [] else [(''turnId'', JString (no_turn item))]))"

definition list_limit :: "(string \<times> json) list option \<Rightarrow> int" where
  "list_limit p =
     (case payload_get p ''limit'' of
        Some (JNumber l) \<Rightarrow> (case float64_integer l of None \<Rightarrow> 50 | Some n \<Rightarrow> if 1 \<le> n \<and> n \<le> 200 then n else 50)
      | _ \<Rightarrow> 50)"

definition handleNotificationControl ::
  "codec \<Rightarrow> surroundings \<Rightarrow> hub_connection \<Rightarrow> routed_control \<Rightarrow> hub \<Rightarrow> hub \<times> hub_effect list \<times> bool" where
  "handleNotificationControl c su source m h =
     (if rc_type m = ''notifications.list'' then
        (case ListNotifications (su_store su AtNotify) (hb_db h) (hc_owner source) (list_limit (rc_payload m)) of
           Inl _ \<Rightarrow> (h, sendServerResult c su source m ''rejected'' (Some ErrorRuntimeFailed) [])
         | Inr items \<Rightarrow>
             (h, sendServerResult c su source m ''confirmed'' None
                   [(''notifications'', JArray (map notification_json items)),
                    (''onlineNodeIds'', JArray (map JString (ownerOnlineNodeIDs h (hc_owner source))))]))
      else if rc_type m = ''notifications.read'' then
        (case payload_get (rc_payload m) ''notificationId'' of
           Some (JString i) \<Rightarrow>
             if i = [] then (h, sendServerResult c su source m ''rejected'' (Some ErrorInvalidMessage) [])
             else (case MarkNotificationRead (su_store su AtNotify) (hb_db h) (hc_owner source) i (su_clock su AtNotify) of
                     (db, Some x) \<Rightarrow>
                       (h\<lparr>hb_db := db\<rparr>, sendServerResult c su source m ''rejected''
                          (Some (if x = ErrNotFound then ErrorNotFound else ErrorRuntimeFailed)) [])
                   | (db, None) \<Rightarrow> (h\<lparr>hb_db := db\<rparr>, sendServerResult c su source m ''confirmed'' None []))
         | _ \<Rightarrow> (h, sendServerResult c su source m ''rejected'' (Some ErrorInvalidMessage) []))
      else (h, sendServerResult c su source m ''rejected'' (Some ErrorInvalidMessage) []))"

text \<open>The lease operation of a control: \<open>Inl\<close> when the payload is refused (\<open>Inl True\<close>) or no
  lease identifier could be drawn (\<open>Inl False\<close>), else the new tables and the result.\<close>

definition lease_operation ::
  "surroundings \<Rightarrow> hub_connection \<Rightarrow> routed_control \<Rightarrow> lease_scope \<Rightarrow> server_db \<Rightarrow> bool + server_db \<times> lease_result" where
  "lease_operation su source m sc db =
     (let now = su_clock su AtLease; e = su_store su AtLease
      in if rc_type m = ''lease.acquire'' then
           (case leaseAcquirePayload (rc_payload m) of
              None \<Rightarrow> Inl True
            | Some (force, expected) \<Rightarrow>
                (case randomValue su AtLeaseId 16 of
                   None \<Rightarrow> Inl False
                 | Some leaseID \<Rightarrow>
                     Inr (AcquireLease e db \<lparr>aq_scope = sc, aq_client = hc_subject source, aq_lease_id = leaseID,
                       aq_force = force, aq_expected_epoch = expected, aq_now = now, aq_ttl = DefaultLeaseTTL\<rparr>)))
         else if rc_type m = ''lease.renew'' \<or> rc_type m = ''lease.release'' then
           (case leaseMutationPayload (rc_payload m) of
              None \<Rightarrow> Inl True
            | Some (leaseID, epoch) \<Rightarrow>
                let request = \<lparr>mu_scope = sc, mu_client = hc_subject source, mu_lease_id = leaseID, mu_epoch = epoch,
                               mu_now = now, mu_ttl = DefaultLeaseTTL\<rparr>
                in Inr (if rc_type m = ''lease.renew'' then RenewLease e db request else ReleaseLease e db request))
         else if rc_type m = ''lease.status'' then Inr (db, Lease e db sc now)
         else Inr (db, zero_lease, None))"

definition handleServerControl ::
  "codec \<Rightarrow> surroundings \<Rightarrow> hub_connection \<Rightarrow> routed_control \<Rightarrow> hub \<Rightarrow> hub \<times> hub_effect list \<times> bool" where
  "handleServerControl c su source m h =
     (if rc_type m = ''notifications.list'' \<or> rc_type m = ''notifications.read''
      then handleNotificationControl c su source m h
      else case messageLeaseScope m of
        None \<Rightarrow> (h, sendServerResult c su source m ''rejected'' (Some ErrorInvalidMessage) [])
      | Some sc \<Rightarrow>
          (case lease_operation su source m sc (hb_db h) of
             Inl True \<Rightarrow> (h, sendServerResult c su source m ''rejected'' (Some ErrorInvalidMessage) [])
           | Inl False \<Rightarrow> (h, [], False)
           | Inr (db, r, Some x) \<Rightarrow>
               (h\<lparr>hb_db := db\<rparr>, sendServerResult c su source m ''rejected''
                  (Some (if x = ErrExpired then ErrorExpired else ErrorConflict)) (leasePayload r))
           | Inr (db, r, None) \<Rightarrow>
               if (le_state r = StHeld \<or> le_state r = StReleased) \<and> rc_type m \<noteq> ''lease.status'' then
                 (case broadcastLeaseChange c su r (rc_message m) h of
                    (effects, False) \<Rightarrow> (h\<lparr>hb_db := db\<rparr>, effects, False)
                  | (effects, True) \<Rightarrow>
                      (case sendServerResult c su source m ''confirmed'' None (leasePayload r) of
                         (answer, ok) \<Rightarrow> (h\<lparr>hb_db := db\<rparr>, effects @ answer, ok)))
               else (h\<lparr>hb_db := db\<rparr>, sendServerResult c su source m ''confirmed'' None (leasePayload r))))"

section \<open>Events of a Node\<close>

definition value_of :: "string option \<Rightarrow> string" where
  "value_of p = (case p of None \<Rightarrow> [] | Some s \<Rightarrow> s)"

definition touchNodeFrame :: "surroundings \<Rightarrow> hub_connection \<Rightarrow> hub \<Rightarrow> hub" where
  "touchNodeFrame su source h =
     put_detail (connectionKey (hc_owner source) (hc_subject source))
       (\<lambda>d. d\<lparr>hn_node := hc_subject source, hn_online := True, hn_last_frame := su_clock su AtFrame, hn_relay := ''online''\<rparr>) h"

definition health_of :: "routed_event \<Rightarrow> hub_node_detail \<Rightarrow> hub_node_detail" where
  "health_of ev d =
     (if rv_type ev = ''runtime.status'' then
        (case payload_get (rv_payload ev) ''state'' of
           Some (JString s) \<Rightarrow> d\<lparr>hn_runtime := s\<rparr>
         | _ \<Rightarrow> (case payload_get (rv_payload ev) ''status'' of Some (JString s) \<Rightarrow> d\<lparr>hn_runtime := s\<rparr> | _ \<Rightarrow> d))
      else if rv_type ev = ''device.status'' then
        (let d1 = (case payload_get (rv_payload ev) ''workspaces'' of
                     Some (JArray vs) \<Rightarrow> d\<lparr>hn_workspaces := int (length vs)\<rparr> | _ \<Rightarrow> d)
         in case payload_get (rv_payload ev) ''recovery'' of Some (JString s) \<Rightarrow> d1\<lparr>hn_recovery := s\<rparr> | _ \<Rightarrow> d1)
      else if rv_type ev = ''history.gap'' then d\<lparr>hn_recovery := ''history_gap''\<rparr>
      else d)"

definition observeNodeHealth :: "surroundings \<Rightarrow> hub_connection \<Rightarrow> routed_event \<Rightarrow> hub \<Rightarrow> hub" where
  "observeNodeHealth su source ev h =
     put_detail (connectionKey (hc_owner source) (hc_subject source))
       (\<lambda>d. health_of ev (d\<lparr>hn_node := hc_subject source, hn_online := True, hn_last_event := su_clock su AtHealth,
          hn_relay := ''online''\<rparr>)) h"

text \<open>The type and summary of the notification an event asks for; \<open>None\<close> when it asks for none.\<close>

definition event_notice :: "routed_event \<Rightarrow> (string \<times> string) option" where
  "event_notice ev =
     (if rv_type ev = ''turn.completed'' then Some (''task.completed'', summary_completed)
      else if rv_type ev = ''turn.failed'' then Some (''task.failed'', summary_failed)
      else if rv_type ev = ''approval.requested'' then Some (''approval.required'', summary_approval)
      else if rv_type ev = ''device.status'' then
        (case payload_get (rv_payload ev) ''status'' of
           Some (JString s) \<Rightarrow> if s = ''online'' then Some (''node.online'', summary_online) else Some ([], [])
         | _ \<Rightarrow> Some ([], []))
      else None)"

definition observeNodeEvent :: "codec \<Rightarrow> surroundings \<Rightarrow> hub_connection \<Rightarrow> bytes \<Rightarrow> hub \<Rightarrow> hub" where
  "observeNodeEvent c su source raw h0 =
     (let h1 = touchNodeFrame su source h0
      in case parseRoutedEvent c raw of
           None \<Rightarrow> h1
         | Some ev \<Rightarrow>
             let h = observeNodeHealth su source ev h1
             in if rv_version ev \<noteq> CurrentVersion then h
                else case event_notice ev of
                  None \<Rightarrow> h
                | Some (typeName, summary) \<Rightarrow>
                    saveNotification su
                      \<lparr>no_id = randomNotificationID su, no_owner = hc_owner source, no_node = hc_subject source,
                       no_workspace = value_of (rv_workspace ev), no_thread = value_of (rv_task ev),
                       no_turn = value_of (rv_run ev), no_type = typeName, no_summary = summary,
                       no_source_sequence = rv_sequence ev,
                       no_dedup_key = rv_type ev @ '':'' @ rv_node ev @ '':'' @ rv_stream ev @ '':'' @ itoa (rv_sequence ev),
                       no_created_at = su_clock su AtNotify, no_read_at = None\<rparr> h)"

section \<open>Routing\<close>

definition checkLease :: "surroundings \<Rightarrow> hub_connection \<Rightarrow> routed_control \<Rightarrow> server_db \<Rightarrow> store_error + lease_record" where
  "checkLease su source m db =
     (case messageLeaseScope m of
        None \<Rightarrow> Inl ErrInvalid
      | Some sc \<Rightarrow>
          (case leaseProof (rc_payload m) of
             Inl x \<Rightarrow> Inl x
           | Inr (leaseID, epoch) \<Rightarrow>
               (case Lease (su_store su AtLeaseCheck) db sc (su_clock su AtLeaseCheck) of
                  (_, Some x) \<Rightarrow> Inl x
                | (r, None) \<Rightarrow>
                    if le_state r \<noteq> StHeld \<or> le_lease_id r \<noteq> leaseID \<or> le_epoch r \<noteq> epoch \<or> le_holder r \<noteq> hc_subject source
                    then Inl (if le_state r = StExpired then ErrExpired else ErrConflict)
                    else Inr r)))"

text \<open>What a control that is not for the Server leads to; the flag says that the loop goes on.\<close>

definition forwardControl ::
  "codec \<Rightarrow> surroundings \<Rightarrow> hub_connection \<Rightarrow> route_header \<Rightarrow> routed_control \<Rightarrow> bytes \<Rightarrow> hub \<Rightarrow> hub_effect list \<times> bool" where
  "forwardControl c su source header m raw h =
     (case node h (hc_owner source) (rh_node header) of
        None \<Rightarrow> ([], True)
      | Some target \<Rightarrow>
          if leaseRequired (rh_type header) then
            (if messageLeaseScope m = None then ([], False)
             else case checkLease su source m (hb_db h) of
               Inl x \<Rightarrow> sendServerResult c su source m ''rejected''
                 (Some (if x = ErrExpired then ErrorExpired else ErrorConflict)) []
             | Inr _ \<Rightarrow> send_to su AtForward (hc_relay target) raw)
          else
            (case send_to su AtForward (hc_relay target) raw of
               (effects, True) \<Rightarrow> (effects, True)
             | (effects, False) \<Rightarrow> (effects @ [ClosedRelay (hc_relay target)], True)))"

text \<open>One turn of the loop in \<^verbatim>\<open>route\<close> for a frame that was received.\<close>

definition route_frame ::
  "codec \<Rightarrow> surroundings \<Rightarrow> hub_connection \<Rightarrow> bytes \<Rightarrow> hub \<Rightarrow> hub \<times> hub_effect list \<times> bool" where
  "route_frame c su source raw h =
     (case classifyRoutedFrame raw (hc_role source) of
        None \<Rightarrow> (h, [], False)
      | Some header \<Rightarrow>
          if rh_owner header \<noteq> hc_owner source then (h, [], False)
          else if hc_role source = SessionRoleNode then
            (if rh_node header \<noteq> hc_subject source then (h, [], False)
             else let h' = observeNodeEvent c su source raw h
                  in (h', broadcast su AtEvent (hc_owner source) raw h', True))
          else case validateControlFrame c su source raw (hb_db h) of
            (db, Inl (FrameStore ErrReplayDetected m)) \<Rightarrow>
              (h\<lparr>hb_db := db\<rparr>, sendServerResult c su source m ''rejected'' (Some ErrorReplay) [])
          | (db, Inl _) \<Rightarrow> (h\<lparr>hb_db := db\<rparr>, [], False)
          | (db, Inr m) \<Rightarrow>
              let h' = h\<lparr>hb_db := db\<rparr>
              in if serverControl (rh_type header) then handleServerControl c su source m h'
                 else (h', forwardControl c su source header m raw h'))"

end
