(* ===== verification/Hub_Session.thy ===== *)
theory Hub_Session
  imports Hub
begin

text \<open>
  Who gets onto the hub: the checks of \<^verbatim>\<open>NodeHandler\<close> and \<^verbatim>\<open>ControlHandler\<close>, the
  challenge of \<^verbatim>\<open>authenticate\<close> (\<^verbatim>\<open>internal/server/hub.go\<close>), and the HTTP
  sessions of connected Nodes (\<^verbatim>\<open>internal/server/node_sessions.go\<close>).
\<close>

section \<open>Plain requests from this machine\<close>

definition index_of :: "char \<Rightarrow> string \<Rightarrow> nat option" where
  "index_of c s = (if c \<in> set s then Some (length (takeWhile (\<lambda>x. x \<noteq> c) s)) else None)"

text \<open>The host of \<^verbatim>\<open>net.SplitHostPort\<close>.\<close>

definition split_host :: "string \<Rightarrow> string option" where
  "split_host s =
     (if CHR '':'' \<notin> set s then None
      else
        let i = length s - 1 - length (takeWhile (\<lambda>x. x \<noteq> CHR '':'') (rev s))
        in if take 1 s = ''['' then
             (case index_of CHR '']'' s of
                None \<Rightarrow> None
              | Some e \<Rightarrow>
                  if Suc e \<noteq> i then None
                  else if CHR ''['' \<in> set (drop 1 s) \<or> CHR '']'' \<in> set (drop (Suc e) s) then None
                  else Some (take (e - 1) (drop 1 s)))
           else if CHR '':'' \<in> set (take i s) then None
           else if CHR ''['' \<in> set s \<or> CHR '']'' \<in> set s then None
           else Some (take i s))"

record http_request =
  rq_tls :: bool
  rq_host :: string
  rq_remote :: string
  rq_origin :: string
  rq_authorization :: string
  rq_node_id :: string
  rq_client_id :: string
  rq_query_client :: string

definition loopback :: "string \<Rightarrow> bool" where
  "loopback host = (host = ''127.0.0.1'' \<or> host = ''::1'')"

definition plainLoopbackRequest :: "http_request \<Rightarrow> string \<Rightarrow> bool" where
  "plainLoopbackRequest q authority =
     (if rq_tls q \<or> authority = [] \<or> rq_host q \<noteq> authority then False
      else if \<not> loopback (case split_host (rq_host q) of None \<Rightarrow> rq_host q | Some h \<Rightarrow> h) then False
      else (case split_host (rq_remote q) of None \<Rightarrow> False | Some h \<Rightarrow> loopback h))"

definition plainLoopbackProxyRequest :: "http_request \<Rightarrow> string \<Rightarrow> bool" where
  "plainLoopbackProxyRequest q public =
     (if rq_tls q \<or> public = [] \<or> rq_host q \<noteq> public then False
      else (case split_host (rq_remote q) of None \<Rightarrow> False | Some h \<Rightarrow> loopback h))"

section \<open>Admission\<close>

text \<open>The options of \<^verbatim>\<open>NewHub\<close> the handlers look at.\<close>

record hub_options =
  ho_origins :: "string list"
  ho_allow_loopback :: bool
  ho_authority :: string
  ho_allow_proxy :: bool
  ho_public_host :: string
  ho_challenge_ttl :: duration

text \<open>\<^verbatim>\<open>NewHub\<close> on the options it is given, with the SQLite store as its store. A zero duration or limit stands
  for the default; the clock and the random source are part of the surroundings.\<close>

record new_hub_options =
  nh_origins :: "string list"
  nh_allow_loopback :: bool
  nh_authority :: string
  nh_allow_proxy :: bool
  nh_public_host :: string
  nh_queue :: int
  nh_auth_timeout :: duration
  nh_challenge_ttl :: duration
  nh_heartbeat :: duration
  nh_idle :: duration
  nh_connections :: int
  nh_session_ttl :: duration

definition or_default :: "int \<Rightarrow> int \<Rightarrow> int" where
  "or_default v d = (if v = 0 then d else v)"

definition NewHub :: "server_db \<Rightarrow> new_hub_options \<Rightarrow> (hub \<times> hub_options) option" where
  "NewHub db opt =
     (if nh_queue opt < 0 \<or> nh_auth_timeout opt < 0 \<or> nh_challenge_ttl opt < 0 \<or> nh_heartbeat opt < 0 \<or> nh_idle opt < 0 \<or>
         nh_connections opt < 0 \<or> nh_session_ttl opt < 0
      then None
      else if list_ex (\<lambda>origin. origin = [] \<or> \<not> trimmed origin) (nh_origins opt) then None
      else Some
        (\<lparr>hb_db = db, hb_nodes = [], hb_controls = [], hb_details = Map.empty, hb_sessions = [],
          hb_session_ttl = or_default (nh_session_ttl opt) (seconds 900), hb_closed = False,
          hb_limit = nat (or_default (nh_connections opt) 64), hb_active = 0\<rparr>,
         \<lparr>ho_origins = nh_origins opt, ho_allow_loopback = nh_allow_loopback opt, ho_authority = nh_authority opt,
          ho_allow_proxy = nh_allow_proxy opt, ho_public_host = nh_public_host opt,
          ho_challenge_ttl = or_default (nh_challenge_ttl opt) (seconds 30)\<rparr>))"

record admission =
  ad_role :: session_role
  ad_owner :: string
  ad_subject :: string
  ad_key :: string
  ad_public_key :: bytes

definition validOpaqueMax :: "string \<Rightarrow> nat \<Rightarrow> bool" where
  "validOpaqueMax s maximum = (\<not> (length s < 1 \<or> maximum < length s) \<and> \<not> has_control s)"

definition secure_enough :: "hub_options \<Rightarrow> http_request \<Rightarrow> bool" where
  "secure_enough opt q =
     (\<not> (\<not> rq_tls q \<and> \<not> (ho_allow_loopback opt \<and> plainLoopbackRequest q (ho_authority opt)) \<and>
         \<not> (ho_allow_proxy opt \<and> plainLoopbackProxyRequest q (ho_public_host opt))))"

text \<open>Up to the call of \<^verbatim>\<open>serve\<close>: the HTTP status and code of the refusal, or who asks to connect. The slot
  taken by \<^verbatim>\<open>acquire\<close> is given back when the handler refuses, and otherwise when the connection has ended.\<close>

definition NodeHandler :: "hub_options \<Rightarrow> env \<Rightarrow> http_request \<Rightarrow> hub \<Rightarrow> hub \<times> ((nat \<times> string) + admission)" where
  "NodeHandler opt e q h =
     (if \<not> secure_enough opt q then (h, Inl (426, ''tls_required''))
      else if rq_origin q \<noteq> [] then (h, Inl (403, ''forbidden''))
      else (case hub_acquire h of
        (h1, False) \<Rightarrow> (h1, Inl (503, ''connection_limit''))
      | (h1, True) \<Rightarrow>
          if rq_authorization q \<noteq> [] then (hub_release h1, Inl (426, ''node_auth_upgrade_required''))
          else if \<not> validOpaqueMax (rq_node_id q) 128 then (hub_release h1, Inl (401, ''unauthorized''))
          else (case NodeSession e (hb_db h) (rq_node_id q) of
            Inl _ \<Rightarrow> (hub_release h1, Inl (401, ''unauthorized''))
          | Inr r \<Rightarrow>
              if ns_status r \<noteq> Active \<or> length (ns_public_key r) \<noteq> 32 then (hub_release h1, Inl (401, ''unauthorized''))
              else (h1, Inr \<lparr>ad_role = SessionRoleNode, ad_owner = ns_owner r, ad_subject = ns_node r, ad_key = [],
                         ad_public_key = ns_public_key r\<rparr>))))"

definition ControlHandler :: "hub_options \<Rightarrow> env \<Rightarrow> http_request \<Rightarrow> hub \<Rightarrow> hub \<times> ((nat \<times> string) + admission)" where
  "ControlHandler opt e q h =
     (if \<not> secure_enough opt q then (h, Inl (426, ''tls_required''))
      else if rq_origin q \<notin> set (ho_origins opt) then (h, Inl (403, ''forbidden''))
      else (case hub_acquire h of
        (h1, False) \<Rightarrow> (h1, Inl (503, ''connection_limit''))
      | (h1, True) \<Rightarrow>
          if rq_client_id q \<noteq> [] \<and> rq_query_client q \<noteq> [] \<and> rq_client_id q \<noteq> rq_query_client q
          then (hub_release h1, Inl (401, ''unauthorized''))
          else
            let clientID = (if rq_client_id q = [] then rq_query_client q else rq_client_id q)
            in if \<not> validOpaqueMax clientID 128 then (hub_release h1, Inl (401, ''unauthorized''))
               else (case ControlClientSession e (hb_db h) clientID of
                 Inl _ \<Rightarrow> (hub_release h1, Inl (401, ''unauthorized''))
               | Inr r \<Rightarrow>
                   if cs_status r \<noteq> Active \<or> length (cs_public_key r) \<noteq> 32 then (hub_release h1, Inl (401, ''unauthorized''))
                   else (h1, Inr \<lparr>ad_role = SessionRoleControl, ad_owner = cs_owner r, ad_subject = cs_client r, ad_key = cs_key r,
                              ad_public_key = cs_public_key r\<rparr>))))"

section \<open>Node sessions\<close>

definition cleanupNodeSessions :: "gotime \<Rightarrow> hub \<Rightarrow> hub" where
  "cleanupNodeSessions now h = h\<lparr>hb_sessions := filter (\<lambda>x. Before now (hs_expires (snd x))) (hb_sessions h)\<rparr>"

definition issueNodeSession ::
  "codec \<Rightarrow> surroundings \<Rightarrow> string \<Rightarrow> string \<Rightarrow> string \<Rightarrow> hub \<Rightarrow> hub \<times> (string \<times> gotime) option" where
  "issueNodeSession c su owner nodeID connectionID h =
     (if \<not> validOpaqueMax owner 128 \<or> \<not> validOpaqueMax nodeID 128 \<or> \<not> validOpaqueMax connectionID 128 then (h, None)
      else case randomValue su AtSession 32 of
        None \<Rightarrow> (h, None)
      | Some token \<Rightarrow>
          let digest = cd_sha256 c token; expiresAt = su_clock su AtSession + hb_session_ttl h;
              h1 = cleanupNodeSessions (su_clock su AtCleanup) h
          in (h1\<lparr>hb_sessions := put_entry digest
                 \<lparr>hs_owner = owner, hs_node = nodeID, hs_connection = connectionID, hs_expires = expiresAt\<rparr> (hb_sessions h1)\<rparr>,
              Some (token, expiresAt)))"

definition registerNodeSession ::
  "codec \<Rightarrow> surroundings \<Rightarrow> string \<Rightarrow> string \<Rightarrow> string \<Rightarrow> bytes \<Rightarrow> gotime \<Rightarrow> hub \<Rightarrow> hub \<times> bool" where
  "registerNodeSession c su owner nodeID connectionID raw expiresAt h =
     (if \<not> validOpaqueMax owner 128 \<or> \<not> validOpaqueMax nodeID 128 \<or> \<not> validOpaqueMax connectionID 128 \<or>
         length raw \<noteq> 32 \<or> \<not> After expiresAt (su_clock su AtSession)
      then (h, False)
      else
        let digest = cd_sha256 c (EncodeToString raw); h1 = cleanupNodeSessions (su_clock su AtCleanup) h
        in (h1\<lparr>hb_sessions := put_entry digest
               \<lparr>hs_owner = owner, hs_node = nodeID, hs_connection = connectionID, hs_expires = expiresAt\<rparr> (hb_sessions h1)\<rparr>,
            True))"

definition nodeSessionAuthorization :: string where
  "nodeSessionAuthorization = ''YuanshuNodeSession ''"

definition nodeSessionToken :: "string \<Rightarrow> string option" where
  "nodeSessionToken header =
     (let n = length nodeSessionAuthorization
      in if length header \<le> n \<or> take n header \<noteq> nodeSessionAuthorization then None
         else if decodeCanonicalBase64URL (drop n header) 32 = None then None
         else Some (drop n header))"

record server_node_session =
  sn_session :: node_session
  sn_connection :: string
  sn_digest :: bytes

definition AuthenticateNodeRequest ::
  "codec \<Rightarrow> surroundings \<Rightarrow> string \<Rightarrow> string \<Rightarrow> hub \<Rightarrow> hub \<times> server_node_session option" where
  "AuthenticateNodeRequest c su nodeID authorization h =
     (case nodeSessionToken authorization of
        None \<Rightarrow> (h, None)
      | Some token \<Rightarrow>
          if \<not> validOpaqueMax nodeID 128 then (h, None)
          else
            let digest = cd_sha256 c token; h1 = cleanupNodeSessions (su_clock su AtCleanup) h
            in case map_of (hb_sessions h1) digest of
                 None \<Rightarrow> (h1, None)
               | Some session \<Rightarrow>
                   if hs_node session \<noteq> nodeID then (h1, None)
                   else case node h1 (hs_owner session) (hs_node session) of
                     None \<Rightarrow> (h1, None)
                   | Some con \<Rightarrow>
                       if hc_connection con \<noteq> hs_connection session then (h1, None)
                       else case NodeSession (su_store su AtSession) (hb_db h1) nodeID of
                         Inl _ \<Rightarrow> (h1, None)
                       | Inr r \<Rightarrow>
                           if ns_status r \<noteq> Active \<or> ns_owner r \<noteq> hs_owner session then (h1, None)
                           else (h1, Some \<lparr>sn_session = r, sn_connection = hs_connection session, sn_digest = digest\<rparr>))"

definition invalidateNodeSessionScope :: "string \<Rightarrow> string \<Rightarrow> string \<Rightarrow> hub \<Rightarrow> hub" where
  "invalidateNodeSessionScope owner nodeID connectionID h =
     h\<lparr>hb_sessions := filter (\<lambda>x. \<not> (hs_owner (snd x) = owner \<and> hs_node (snd x) = nodeID \<and>
         hs_connection (snd x) = connectionID)) (hb_sessions h)\<rparr>"

text \<open>\<open>body\<close> is the request body, \<open>None\<close> when it is longer than the limit.\<close>

definition decodeEmptyJSONObject :: "bytes option \<Rightarrow> bool" where
  "decodeEmptyJSONObject body =
     (case body of None \<Rightarrow> False | Some raw \<Rightarrow> decode_known (\<lambda>_ _ (). None) [] () raw \<noteq> None)"

definition RefreshNodeSession ::
  "codec \<Rightarrow> surroundings \<Rightarrow> bool \<Rightarrow> string \<Rightarrow> string \<Rightarrow> string \<Rightarrow> bytes option \<Rightarrow> hub \<Rightarrow>
   hub \<times> ((nat \<times> string) + string \<times> gotime)" where
  "RefreshNodeSession c su post contentType nodeID authorization body h =
     (if \<not> post \<or> contentType \<noteq> ''application/json'' then (h, Inl (400, ''invalid_request''))
      else case AuthenticateNodeRequest c su nodeID authorization h of
        (h1, None) \<Rightarrow> (h1, Inl (401, ''node_session_invalid''))
      | (h1, Some session) \<Rightarrow>
          if \<not> decodeEmptyJSONObject body then (h1, Inl (400, ''invalid_request''))
          else case issueNodeSession c su (ns_owner (sn_session session)) (ns_node (sn_session session))
                      (sn_connection session) h1 of
            (h2, None) \<Rightarrow> (h2, Inl (500, ''internal''))
          | (h2, Some issued) \<Rightarrow>
              (h2\<lparr>hb_sessions := delete_entry (sn_digest session) (hb_sessions h2)\<rparr>, Inr issued))"

section \<open>Authentication of a connection\<close>

definition mustParseTime :: "string \<Rightarrow> gotime" where
  "mustParseTime s = (case parse_RFC3339Nano s of None \<Rightarrow> 0 | Some t \<Rightarrow> t)"

definition new_challenge :: "surroundings \<Rightarrow> session_role \<Rightarrow> string \<Rightarrow> duration \<Rightarrow> session_challenge option" where
  "new_challenge su role subject ttl =
     (case (randomValue su AtConnect 16, randomValue su AtNonce 32) of
        (Some connectionID, Some nonce) \<Rightarrow>
          Some \<lparr>sh_version = ''1'', sh_type = ''challenge'', sh_role = role_text role, sh_connection = connectionID,
                sh_subject = subject, sh_nonce = nonce,
                sh_expires = format_RFC3339Nano (su_clock su AtChallenge + ttl)\<rparr>
      | _ \<Rightarrow> None)"

text \<open>\<open>reply\<close> is the text message read after the challenge was written, \<open>None\<close> when reading failed. The
  texts written are part of the result; the connection is authenticated when a challenge is returned.\<close>

definition authenticate ::
  "codec \<Rightarrow> surroundings \<Rightarrow> admission \<Rightarrow> duration \<Rightarrow> nat \<Rightarrow> bytes option \<Rightarrow> hub \<Rightarrow>
   hub \<times> hub_effect list \<times> session_challenge option" where
  "authenticate c su a ttl wire reply h =
     (case new_challenge su (ad_role a) (ad_subject a) ttl of
        None \<Rightarrow> (h, [], None)
      | Some challenge \<Rightarrow>
          (case send_to su AtChallenge wire (Marshal (string_members (challenge_document challenge))) of
             (sent, False) \<Rightarrow> (h, sent, None)
           | (sent, True) \<Rightarrow>
               (case reply of
                  None \<Rightarrow> (h, sent, None)
                | Some raw \<Rightarrow>
                    (case read_authentication raw of
                       None \<Rightarrow> (h, sent, None)
                     | Some response \<Rightarrow>
                         if sa_version response \<noteq> ''1'' \<or> sa_type response \<noteq> ''authenticate'' \<or>
                            \<not> Before (su_clock su AtAnswer) (mustParseTime (sh_expires challenge))
                         then (h, sent, None)
                         else (case (decodeCanonicalBase64URL (sa_signature response) 64, SessionSigningInput c challenge) of
                                 (Some signature, Some input) \<Rightarrow>
                                   if \<not> cd_verify c (ad_public_key a) input signature then (h, sent, None)
                                   else
                                     (case (if ad_role a = SessionRoleNode
                                            then (case issueNodeSession c su (ad_owner a) (ad_subject a) (sh_connection challenge) h of
                                                    (h1, None) \<Rightarrow> (h1, None)
                                                  | (h1, Some (token, expiresAt)) \<Rightarrow>
                                                      (h1, Some (token, format_RFC3339Nano expiresAt)))
                                            else (h, Some ([], []))) of
                                        (h1, None) \<Rightarrow> (h1, sent, None)
                                      | (h1, Some (token, until)) \<Rightarrow>
                                          (case send_to su AtReady wire (Marshal (string_members (ready_document
                                                  \<lparr>sr_version = ''1'', sr_type = ''authenticated'', sr_token = token,
                                                   sr_expires = until\<rparr>))) of
                                             (ready, False) \<Rightarrow> (h1, sent @ ready, None)
                                           | (ready, True) \<Rightarrow> (h1, sent @ ready, Some challenge)))
                               | _ \<Rightarrow> (h, sent, None))))))"

text \<open>\<^verbatim>\<open>serve\<close> from the accepted websocket on: the connection that is registered. \<open>relay\<close> is the websocket and
  the relay made of it. When no connection comes about, the handler returns and gives its slot back.\<close>

definition new_connection :: "admission \<Rightarrow> session_challenge \<Rightarrow> nat \<Rightarrow> gotime \<Rightarrow> hub_connection" where
  "new_connection a challenge relay now =
     \<lparr>hc_owner = ad_owner a, hc_subject = ad_subject a, hc_key = ad_key a, hc_public_key = ad_public_key a,
      hc_role = ad_role a, hc_relay = relay, hc_connected = now, hc_connection = sh_connection challenge\<rparr>"

definition serve ::
  "codec \<Rightarrow> surroundings \<Rightarrow> hub_options \<Rightarrow> admission \<Rightarrow> nat \<Rightarrow> bytes option \<Rightarrow> hub \<Rightarrow>
   hub \<times> hub_effect list \<times> hub_connection option" where
  "serve c su opt a relay reply h =
     (case authenticate c su a (ho_challenge_ttl opt) relay reply h of
        (h1, sent, None) \<Rightarrow> (hub_release h1, sent @ [ClosedRelay relay], None)
      | (h1, sent, Some challenge) \<Rightarrow>
          (case register su (new_connection a challenge relay (su_clock su AtConnect)) h1 of
             (h2, closed, False) \<Rightarrow>
               (hub_release (if ad_role a = SessionRoleNode
                  then invalidateNodeSessionScope (ad_owner a) (ad_subject a) (sh_connection challenge) h2 else h2),
                sent @ closed @ [ClosedRelay relay], None)
           | (h2, closed, True) \<Rightarrow>
               (h2, sent @ closed, Some (new_connection a challenge relay (su_clock su AtConnect)))))"

text \<open>The deferred calls of \<^verbatim>\<open>serve\<close> and of its handler when the loop of a connection has ended.\<close>

definition finish :: "surroundings \<Rightarrow> hub_connection \<Rightarrow> hub \<Rightarrow> hub \<times> hub_effect list" where
  "finish su con h =
     (let h1 = unregister su con h
      in (hub_release (if hc_role con = SessionRoleNode
            then invalidateNodeSessionScope (hc_owner con) (hc_subject con) (hc_connection con) h1 else h1),
          [ClosedRelay (hc_relay con)]))"

text \<open>The deferred calls of \<^verbatim>\<open>attachLocalNode\<close>.\<close>

definition detach :: "surroundings \<Rightarrow> hub_connection \<Rightarrow> hub \<Rightarrow> hub \<times> hub_effect list" where
  "detach su con h =
     (unregister su con (invalidateNodeSessionScope (hc_owner con) (hc_subject con) (hc_connection con) h), [ClosedRelay (hc_relay con)])"

text \<open>\<^verbatim>\<open>AttachLocalNodeSession\<close> of the Standalone composition up to its loop; \<open>token\<close> is empty when
  no session is asked for.\<close>

definition attachLocalNode ::
  "codec \<Rightarrow> surroundings \<Rightarrow> string \<Rightarrow> string \<Rightarrow> nat \<Rightarrow> bytes \<Rightarrow> gotime \<Rightarrow> hub \<Rightarrow> hub \<times> hub_effect list \<times> hub_connection option" where
  "attachLocalNode c su owner nodeID relay token expiresAt h =
     (if \<not> validOpaqueMax owner 128 \<or> \<not> validOpaqueMax nodeID 128 then (h, [], None)
      else case randomValue su AtConnect 16 of
        None \<Rightarrow> (h, [], None)
      | Some connectionID \<Rightarrow>
          let con = \<lparr>hc_owner = owner, hc_subject = nodeID, hc_key = [], hc_public_key = [], hc_role = SessionRoleNode,
                     hc_relay = relay, hc_connected = su_clock su AtConnect, hc_connection = connectionID\<rparr>
          in case (if token = [] then (h, True) else registerNodeSession c su owner nodeID connectionID token expiresAt h) of
               (h1, False) \<Rightarrow> (h1, [], None)
             | (h1, True) \<Rightarrow>
                 (case register su con h1 of
                    (h2, closed, False) \<Rightarrow> (invalidateNodeSessionScope owner nodeID connectionID h2, closed, None)
                  | (h2, closed, True) \<Rightarrow> (h2, closed, Some con)))"

end
