(* ===== verification/Server_Frames.thy ===== *)
theory Server_Frames
  imports Server_Calls
begin

text \<open>
  The calls of the Server store that manage identities, requests and settings leave the tables of the relay
  alone: the control leases and the replay protection of the hub.
\<close>

definition relay_tables ::
  "server_db \<Rightarrow> lease_row table \<times> replay_message_row table \<times> replay_nonce_row table \<times> signer_sequence_row table" where
  "relay_tables db = (control_leases db, server_replay_messages db, server_replay_nonces db, server_signer_sequences db)"

lemma relay_update [simp]:
  "relay_tables (db\<lparr>owners := t1\<rparr>) = relay_tables db" "relay_tables (db\<lparr>nodes := t2\<rparr>) = relay_tables db"
  "relay_tables (db\<lparr>node_credentials := t3\<rparr>) = relay_tables db" "relay_tables (db\<lparr>control_clients := t4\<rparr>) = relay_tables db"
  "relay_tables (db\<lparr>bootstrap := t5\<rparr>) = relay_tables db" "relay_tables (db\<lparr>pairings := t6\<rparr>) = relay_tables db"
  "relay_tables (db\<lparr>node_enrollments := t7\<rparr>) = relay_tables db" "relay_tables (db\<lparr>node_invitations := t8\<rparr>) = relay_tables db"
  "relay_tables (db\<lparr>notifications := t9\<rparr>) = relay_tables db"
  "relay_tables (db\<lparr>server_security_settings := t10\<rparr>) = relay_tables db"
  "relay_tables (db\<lparr>admin_audit_logs := t11\<rparr>) = relay_tables db"
  by (simp_all add: relay_tables_def)

named_theorems relay_frames \<open>statements that leave the relay tables alone\<close>

lemma relay_pairings [relay_frames]: "update_pairings P f db = Some db' \<Longrightarrow> relay_tables db' = relay_tables db"
  by (auto simp: update_pairings_def split: option.splits)

lemma relay_enrollments [relay_frames]: "update_enrollments P f db = Some db' \<Longrightarrow> relay_tables db' = relay_tables db"
  by (auto simp: update_enrollments_def split: option.splits)

lemma relay_owner [relay_frames]: "insert_owner e k rep w db = Inr db' \<Longrightarrow> relay_tables db' = relay_tables db"
  by (auto simp: insert_owner_def split: if_splits)

lemma relay_node [relay_frames]: "insert_node e k rep r db = Inr db' \<Longrightarrow> relay_tables db' = relay_tables db"
  by (auto simp: insert_node_def Let_def split: if_splits)

lemma relay_security [relay_frames]: "ensure_security ow now db = Some db' \<Longrightarrow> relay_tables db' = relay_tables db"
  by (auto simp: ensure_security_def split: if_splits)

lemma relay_trust [relay_frames]: "raise_trust i db = Some db' \<Longrightarrow> relay_tables db' = relay_tables db"
  by (auto simp: raise_trust_def split: option.splits)

lemma relay_scrub [simp]: "relay_tables (scrub_bootstrap db) = relay_tables db"
  by (simp add: scrub_bootstrap_def)

lemma relay_scrubExpired [relay_frames]: "scrubExpiredBootstrap failed db t now = Inr db' \<Longrightarrow> relay_tables db' = relay_tables db"
  by (auto simp: scrubExpiredBootstrap_def split: option.splits if_splits)

lemma relay_try [simp]:
  "relay_tables (try_update_pairings failed P f db) = relay_tables db"
  "relay_tables (try_update_enrollments failed P2 f2 db) = relay_tables db"
  using try_update_pairings_cases [of failed P f db] try_update_enrollments_cases [of failed P2 f2 db]
  by (auto dest: relay_frames)

lemma relay_revoke_rows [relay_frames]: "revoke_rows e k op ow n now db = Inr db' \<Longrightarrow> relay_tables db' = relay_tables db"
  by (auto simp: revoke_rows_def revoke_credential_def revoke_node_rows_def dest!: relay_enrollments
      split: if_splits option.splits)

lemma relay_admit_client [relay_frames]: "admit_client e item now db = Inr db' \<Longrightarrow> relay_tables db' = relay_tables db"
  by (auto simp: admit_client_def dest!: relay_trust split: if_splits option.splits)

lemma relay_admit_node [relay_frames]: "admit_node e item now db = Inr db' \<Longrightarrow> relay_tables db' = relay_tables db"
  by (auto simp: admit_node_def dest!: relay_node split: if_splits)

lemma relay_revoke_clients [simp]: "relay_tables (revoke_clients ow c now db) = relay_tables db"
  by (simp add: revoke_clients_def)

lemma relay_change_security [relay_frames]: "change_security e db ow a p n base now = Inr db' \<Longrightarrow> relay_tables db' = relay_tables db"
  by (auto simp: change_security_def Let_def dest!: relay_security split: if_splits option.splits sum.splits)

lemma relay_invite_node [relay_frames]: "invite_node e c item db = Inr (db', ow) \<Longrightarrow> relay_tables db' = relay_tables db"
  by (auto simp: invite_node_def invite_owner_def Let_def dest!: relay_owner relay_node relay_security split: if_splits option.splits sum.splits)

abbreviation keeps_relay :: "server_db \<Rightarrow> server_db \<Rightarrow> bool" where
  "keeps_relay db db' \<equiv> relay_tables db' = relay_tables db"

lemma relay_RotateBootstrap: "results (keeps_relay db) (RotateBootstrap e db h now)"
  unfolding RotateBootstrap_def by (intro results_intros) (auto dest!: relay_frames split: if_splits)

lemma relay_BootstrapStatus: "results (keeps_relay db) (BootstrapStatus e clock db)"
  unfolding BootstrapStatus_def by (intro results_intros) (auto dest!: relay_frames split: if_splits)

lemma relay_claim_completed [results_intros]: "results (keeps_relay db) (claim_completed e db r c)"
  unfolding claim_completed_def by (intro results_intros) (auto dest!: relay_frames split: if_splits)

lemma relay_claim_pending [results_intros]: "ends (\<lambda>x. keeps_relay db (fst x)) (claim_pending e db r c)"
  unfolding claim_pending_def by (intro results_intros) (auto dest!: relay_frames split: if_splits)

lemma relay_ClaimBootstrap: "results (keeps_relay db) (ClaimBootstrap e db c)"
  unfolding ClaimBootstrap_def by (intro results_intros) (auto dest!: relay_frames split: if_splits)

lemma relay_CreatePairing: "results (keeps_relay db) (CreatePairing e db v)"
  unfolding CreatePairing_def by (intro results_intros) (auto dest!: relay_frames split: if_splits)

lemma relay_ClaimPairing: "results (keeps_relay db) (ClaimPairing e db c)"
  unfolding ClaimPairing_def by (intro results_intros) (auto dest!: relay_frames split: if_splits)

lemma relay_Pairing: "results (keeps_relay db) (Pairing e db i h now)"
  unfolding Pairing_def by (intro results_intros) (auto dest!: relay_frames split: if_splits)

lemma relay_NodePairings: "results (keeps_relay db) (NodePairings e db n now)"
  unfolding NodePairings_def by (intro results_intros) (auto dest!: relay_frames split: if_splits)

lemma relay_ResolvePairing: "results (keeps_relay db) (ResolvePairing e db v)"
  unfolding ResolvePairing_def by (intro results_intros) (auto dest!: relay_frames split: if_splits)

lemma relay_RevokeControlClient: "results (keeps_relay db) (RevokeControlClient e db ow c now)"
  unfolding RevokeControlClient_def by (intro results_intros) (auto dest!: relay_frames split: if_splits)

lemma relay_RotateNodeCredential: "results (keeps_relay db) (RotateNodeCredential e db ow n h now)"
  unfolding RotateNodeCredential_def by (intro results_intros) (auto dest!: relay_frames split: if_splits)

lemma relay_CreateNodeEnrollment: "results (keeps_relay db) (CreateNodeEnrollment e db v)"
  unfolding CreateNodeEnrollment_def by (intro results_intros) (auto dest!: relay_frames split: if_splits)

lemma relay_ClaimNodeEnrollment: "results (keeps_relay db) (ClaimNodeEnrollment e db c)"
  unfolding ClaimNodeEnrollment_def by (intro results_intros) (auto dest!: relay_frames split: if_splits)

lemma relay_NodeEnrollment: "results (keeps_relay db) (NodeEnrollment e db i h now)"
  unfolding NodeEnrollment_def by (intro results_intros) (auto dest!: relay_frames split: if_splits)

lemma relay_PendingNodeEnrollments: "results (keeps_relay db) (PendingNodeEnrollments e db n now)"
  unfolding PendingNodeEnrollments_def by (intro results_intros) (auto dest!: relay_frames split: if_splits)

lemma relay_ResolveNodeEnrollment: "results (keeps_relay db) (ResolveNodeEnrollment e db v)"
  unfolding ResolveNodeEnrollment_def by (intro results_intros) (auto dest!: relay_frames split: if_splits)

lemma relay_RevokeNode: "results (keeps_relay db) (RevokeNode e db ow n t now)"
  unfolding RevokeNode_def by (intro results_intros) (auto dest!: relay_frames split: if_splits)

lemma relay_CreateNodeInvitation: "results (keeps_relay db) (CreateNodeInvitation e db c)"
  unfolding CreateNodeInvitation_def by (intro results_intros) (auto dest!: relay_frames split: if_splits)

lemma relay_ListNodeInvitations: "results (keeps_relay db) (ListNodeInvitations e db ow now)"
  unfolding ListNodeInvitations_def by (intro results_intros) (auto dest!: relay_frames split: if_splits)

lemma relay_CancelNodeInvitation: "results (keeps_relay db) (CancelNodeInvitation e db ow i now)"
  unfolding CancelNodeInvitation_def by (intro results_intros) (auto dest!: relay_frames split: if_splits)

lemma relay_ClaimNodeInvitation: "results (keeps_relay db) (ClaimNodeInvitation e blobs db c)"
  unfolding ClaimNodeInvitation_def by (intro results_intros) (auto dest!: relay_frames split: if_splits)

lemma relay_SecuritySettings: "results (keeps_relay db) (SecuritySettings e clock db ow)"
  unfolding SecuritySettings_def by (intro results_intros) (auto dest!: relay_frames split: if_splits)

lemma relay_UpdateSecuritySettings: "results (keeps_relay db) (UpdateSecuritySettings e db ow a p n base now)"
  unfolding UpdateSecuritySettings_def by (intro results_intros) (auto dest!: relay_frames split: if_splits)

lemma relay_TouchNode: "results (keeps_relay db) (TouchNode e db ow n now)"
  unfolding TouchNode_def touch_def by (intro results_intros) (auto dest!: relay_frames split: if_splits)

lemma relay_TouchControlClient: "results (keeps_relay db) (TouchControlClient e db ow c now)"
  unfolding TouchControlClient_def touch_def by (intro results_intros) (auto dest!: relay_frames split: if_splits)

lemma relay_CancelAdminAccessRequest: "results (keeps_relay db) (CancelAdminAccessRequest e db ow k i now)"
  unfolding CancelAdminAccessRequest_def by (intro results_intros) (auto dest!: relay_frames split: if_splits)

lemma relay_AdminRevokeNode: "results (keeps_relay db) (AdminRevokeNode e db ow n now)"
  unfolding AdminRevokeNode_def by (intro results_intros) (auto dest!: relay_frames split: if_splits)

lemma relay_AdminRevokeControlClient: "results (keeps_relay db) (AdminRevokeControlClient e db ow c now)"
  unfolding AdminRevokeControlClient_def by (intro results_intros) (auto dest!: relay_frames split: if_splits)

lemma relay_SaveAdminAudit: "results (keeps_relay db) (SaveAdminAudit e db a)"
  unfolding SaveAdminAudit_def by (intro results_intros) (auto dest!: relay_frames split: if_splits)

lemma relay_PurgeAdminAudit: "results (keeps_relay db) (PurgeAdminAudit e db before)"
  unfolding PurgeAdminAudit_def by (intro results_intros) (auto dest!: relay_frames split: if_splits)

lemma relay_SaveNotification: "results (keeps_relay db) (SaveNotification e db n)"
  unfolding SaveNotification_def by (intro results_intros) (auto dest!: relay_frames split: if_splits)

lemma relay_MarkNotificationRead: "results (keeps_relay db) (MarkNotificationRead e db ow i now)"
  unfolding MarkNotificationRead_def by (intro results_intros) (auto dest!: relay_frames split: if_splits)

lemmas relay_calls =
  relay_RotateBootstrap
  relay_BootstrapStatus
  relay_ClaimBootstrap
  relay_CreatePairing
  relay_ClaimPairing
  relay_Pairing
  relay_NodePairings
  relay_ResolvePairing
  relay_RevokeControlClient
  relay_RotateNodeCredential
  relay_CreateNodeEnrollment
  relay_ClaimNodeEnrollment
  relay_NodeEnrollment
  relay_PendingNodeEnrollments
  relay_ResolveNodeEnrollment
  relay_RevokeNode
  relay_CreateNodeInvitation
  relay_ListNodeInvitations
  relay_CancelNodeInvitation
  relay_ClaimNodeInvitation
  relay_SecuritySettings
  relay_UpdateSecuritySettings
  relay_TouchNode
  relay_TouchControlClient
  relay_CancelAdminAccessRequest
  relay_AdminRevokeNode
  relay_AdminRevokeControlClient
  relay_SaveAdminAudit
  relay_PurgeAdminAudit
  relay_SaveNotification
  relay_MarkNotificationRead

lemma server_do_relay: "relay_tables (server_do x db) = relay_tables db"
  by (cases x) (simp_all add: relay_calls [unfolded results_def])

end
