(* ===== verification/Hub_Contract.thy ===== *)
theory Hub_Contract
  imports Hub_Session Server_Frames Server_Contract Lease_Contract Replay_Store
begin

text \<open>
  What the hub promises over any history: frames delivered, connections made and lost, sessions refreshed, and
  calls of the store by the other handlers of the Server in between. Every step of the hub changes the
  database by calls of the store only, so the contracts of the stores carry over.
\<close>

section \<open>The database under the hub\<close>

datatype db_call = Called server_call | Leased env lease_call | Checked env gotime replay_record

fun db_do :: "db_call \<Rightarrow> server_db \<Rightarrow> server_db" where
  "db_do (Called x) db = server_do x db"
| "db_do (Leased e x) db = fst (sql_call (e, x) db)"
| "db_do (Checked e now r) db = fst (serverCheckAndRecord e now db r)"

definition db_reaches :: "server_db \<Rightarrow> server_db \<Rightarrow> bool" where
  "db_reaches db d = (\<exists>cs. d = run_steps_of db_do db cs)"

lemma run_steps_append: "run_steps_of f s (xs @ ys) = run_steps_of f (run_steps_of f s xs) ys"
  by (simp add: run_steps_of_def)

lemma db_reaches_refl [simp, intro]: "db_reaches db db"
  unfolding db_reaches_def by (rule exI [of _ "[]"]) simp

lemma db_reaches_trans: "db_reaches a b \<Longrightarrow> db_reaches b d \<Longrightarrow> db_reaches a d"
  unfolding db_reaches_def by (metis run_steps_append)

lemma db_reaches_call: "db_reaches db (db_do x db)"
  unfolding db_reaches_def by (rule exI [of _ "[x]"]) simp

lemmas db_reaches_calls =
  db_reaches_call [of _ "Called x" for x, simplified] db_reaches_call [of _ "Leased e x" for e x, simplified]
  db_reaches_call [of _ "Checked e now r" for e now r, simplified]

text \<open>What the calls of the leases and of the replay protection leave alone.\<close>

abbreviation but_leases :: "server_db \<Rightarrow> server_db" where
  "but_leases db \<equiv> db\<lparr>control_leases := []\<rparr>"

lemma lease_call_frame: "preserves but_leases db (sql_call (e, c) db)"
proof (cases c)
  case (Acquire q)
  show ?thesis unfolding Acquire sql_call.simps AcquireLease_def
    by (intro preserves_intros) (auto simp: preserves_def write_lease_def Let_def split: option.splits if_splits)
next
  case (Renew m)
  show ?thesis unfolding Renew sql_call.simps RenewLease_def by (intro preserves_intros) simp
next
  case (Release m)
  show ?thesis unfolding Release sql_call.simps ReleaseLease_def by (intro preserves_intros) simp
next
  case (AdminRelease sc n now)
  show ?thesis unfolding AdminRelease sql_call.simps AdminReleaseLease_def by (intro preserves_intros) simp_all
qed

lemma lease_call_tables:
  "nodes (fst (sql_call (e, c) db)) = nodes db" "control_clients (fst (sql_call (e, c) db)) = control_clients db"
proof -
  have eq: "but_leases (fst (sql_call (e, c) db)) = but_leases db" by (rule preservesD [OF lease_call_frame])
  from arg_cong [OF eq, of nodes] arg_cong [OF eq, of control_clients]
  show "nodes (fst (sql_call (e, c) db)) = nodes db" "control_clients (fst (sql_call (e, c) db)) = control_clients db"
    by simp_all
qed

lemma check_tables:
  "nodes (fst (serverCheckAndRecord e now db r)) = nodes db"
  "control_clients (fst (serverCheckAndRecord e now db r)) = control_clients db"
  "control_leases (fst (serverCheckAndRecord e now db r)) = control_leases db"
  by (cases "serverCheckAndRecord e now db r"; cases "snd (serverCheckAndRecord e now db r)";
      auto dest!: server_check_accept server_check_reject simp: record_replay_def prune_replay_def)+

section \<open>The contracts over histories\<close>

text \<open>Leases: every history is a sequence of steps of the abstract lease.\<close>

lemma abs_sql_leases: "control_leases d = control_leases db \<Longrightarrow> abs_sql d sc = abs_sql db sc"
  by (simp add: abs_sql_def leaseSelect_def)

lemma lease_inv_leases: "control_leases d = control_leases db \<Longrightarrow> lease_table_inv d = lease_table_inv db"
  by (simp add: lease_table_inv_def)

lemma server_do_leases: "control_leases (server_do x db) = control_leases db"
  using server_do_relay [of x db] by (simp add: relay_tables_def)

lemma same_leases:
  assumes "control_leases d = control_leases db" "lease_table_inv db"
  shows "lease_table_inv d \<and> lease_steps (abs_sql db sc) (abs_sql d sc)"
  using lease_inv_leases [OF assms(1)] assms(2) abs_sql_leases [OF assms(1)] lease_steps.refl by metis

lemma db_do_leases:
  assumes "lease_table_inv db"
  shows "lease_table_inv (db_do x db) \<and> lease_steps (abs_sql db sc) (abs_sql (db_do x db) sc)"
proof (cases x)
  case (Called y)
  show ?thesis unfolding Called db_do.simps by (rule same_leases [OF server_do_leases assms])
next
  case (Leased e y)
  note sim = sql_call_sim [OF assms]
  have "lease_steps (abs_sql db sc) (abs_sql (fst (sql_call (e, y) db)) sc)"
  proof (cases "sc = call_scope y")
    case True
    show ?thesis unfolding True by (rule lease_steps.more [OF sim(2) lease_steps.refl])
  next
    case False
    show ?thesis unfolding sim(3) [OF False] by (rule lease_steps.refl)
  qed
  with sim(1) show ?thesis unfolding Leased db_do.simps ..
next
  case (Checked e now r)
  show ?thesis unfolding Checked db_do.simps by (rule same_leases [OF check_tables(3) assms])
qed

lemma lease_steps_append: "lease_steps a b \<Longrightarrow> lease_steps b d \<Longrightarrow> lease_steps a d"
  by (induction rule: lease_steps.induct) (auto intro: lease_steps.intros)

lemma db_reaches_leases:
  assumes "db_reaches db d" "lease_table_inv db"
  shows "lease_table_inv d" "lease_steps (abs_sql db sc) (abs_sql d sc)"
proof -
  have "lease_table_inv (run_steps_of db_do db cs) \<and> lease_steps (abs_sql db sc) (abs_sql (run_steps_of db_do db cs) sc)" for cs
    using assms(2)
  proof (induction cs arbitrary: db)
    case (Cons x cs)
    from db_do_leases [OF Cons.prems] Cons.IH [of "db_do x db"] show ?case by (auto intro: lease_steps_append)
  qed (simp add: lease_steps.refl)
  with assms(1) show "lease_table_inv d" "lease_steps (abs_sql db sc) (abs_sql d sc)" by (auto simp: db_reaches_def)
qed

text \<open>Replay protection: the highest sequence of a signer never falls.\<close>

lemma server_do_highest: "server_highest (server_do x db) = server_highest db"
  using server_do_relay [of x db] by (simp add: relay_tables_def server_highest_def fun_eq_iff)

lemma db_do_above: "above (server_highest (db_do x db) g) n \<Longrightarrow> above (server_highest db g) n"
proof (cases x)
  case (Leased e y)
  assume "above (server_highest (db_do x db) g) n"
  with Leased show ?thesis by (simp add: server_highest_def preservesD [OF lease_call_sequences])
next
  case (Checked e now r)
  assume a: "above (server_highest (db_do x db) g) n"
  obtain d y where d: "serverCheckAndRecord e now db r = (d, y)" by fastforce
  with a Checked show ?thesis
    by (cases y) (auto simp: server_highest_record above_def dest!: server_check_accept server_check_reject
        split: if_splits option.splits)
qed (simp add: server_do_highest)

lemma db_reaches_above:
  assumes "db_reaches db d" "above (server_highest d g) n"
  shows "above (server_highest db g) n"
proof -
  have "above (server_highest (run_steps_of db_do db cs) g) n \<Longrightarrow> above (server_highest db g) n" for cs
    by (induction cs arbitrary: db) (auto dest: db_do_above)
  with assms show ?thesis by (auto simp: db_reaches_def)
qed

text \<open>Identities: the rows of nodes and clients are the same machines under the larger set of calls.\<close>

lemma db_do_rows:
  assumes "\<not> (\<exists>y. x = Called y)"
  shows "node_of (db_do x db) = node_of db" "client_of (db_do x db) = client_of db"
  using assms by (cases x; simp add: fun_eq_iff node_of_def client_of_def lease_call_tables check_tables)+

interpretation hub_nodes: row_machine node_of db_do node_moves "\<lambda>_ _. False"
proof unfold_locales
  fix db n r x
  assume "node_of db n = Some r"
  then show "\<exists>r'. node_of (db_do x db) n = Some r' \<and> (r' = r \<or> node_moves r r')"
    using server_do_moves(4) [of db n r] db_do_rows(1) [of x db] by (cases x) auto
qed

interpretation hub_clients: row_machine client_of db_do client_moves "\<lambda>_ _. False"
proof unfold_locales
  fix db n r x
  assume "client_of db n = Some r"
  then show "\<exists>r'. client_of (db_do x db) n = Some r' \<and> (r' = r \<or> client_moves r r')"
    using server_do_moves(5) [of db n r] db_do_rows(2) [of x db] by (cases x) auto
qed

section \<open>Steps of the hub\<close>

text \<open>\<open>Store\<close> stands for the calls that the Server's other handlers make on the same database.\<close>

datatype hub_action =
    Deliver surroundings hub_connection bytes
  | Serve surroundings hub_options admission nat "bytes option"
  | AskNode hub_options env http_request
  | AskControl hub_options env http_request
  | Finish surroundings hub_connection
  | Detach surroundings hub_connection
  | Attach surroundings string string nat bytes gotime
  | NodeRequest surroundings string string
  | Refresh surroundings bool string string string "bytes option"
  | CutControl string string
  | CutNode string string
  | CloseAll
  | Store db_call

fun hub_do :: "codec \<Rightarrow> hub_action \<Rightarrow> hub \<Rightarrow> hub \<times> hub_effect list" where
  "hub_do c (Deliver su source raw) h = (case route_frame c su source raw h of (h', effects, _) \<Rightarrow> (h', effects))"
| "hub_do c (Serve su opt a relay reply) h = (case serve c su opt a relay reply h of (h', effects, _) \<Rightarrow> (h', effects))"
| "hub_do c (AskNode opt e q) h = (fst (NodeHandler opt e q h), [])"
| "hub_do c (AskControl opt e q) h = (fst (ControlHandler opt e q h), [])"
| "hub_do c (Finish su con) h = finish su con h"
| "hub_do c (Detach su con) h = detach su con h"
| "hub_do c (Attach su owner nodeID relay token expiresAt) h =
     (case attachLocalNode c su owner nodeID relay token expiresAt h of (h', effects, _) \<Rightarrow> (h', effects))"
| "hub_do c (NodeRequest su nodeID authorization) h = (fst (AuthenticateNodeRequest c su nodeID authorization h), [])"
| "hub_do c (Refresh su post contentType nodeID authorization body) h =
     (fst (RefreshNodeSession c su post contentType nodeID authorization body h), [])"
| "hub_do c (CutControl owner clientID) h = DisconnectControl owner clientID h"
| "hub_do c (CutNode owner nodeID) h = DisconnectNode owner nodeID h"
| "hub_do c CloseAll h = CloseHub h"
| "hub_do c (Store x) h = (h\<lparr>hb_db := db_do x (hb_db h)\<rparr>, [])"

definition hub_run :: "codec \<Rightarrow> hub \<Rightarrow> hub_action list \<Rightarrow> hub" where
  "hub_run c h as = run_steps_of (\<lambda>a h. fst (hub_do c a h)) h as"

lemma hub_run_simps [simp]: "hub_run c h [] = h" "hub_run c h (a # as) = hub_run c (fst (hub_do c a h)) as"
  by (simp_all add: hub_run_def)

lemma put_detail_db [simp]: "hb_db (put_detail key f h) = hb_db h"
  by (simp add: put_detail_def)

lemma touch_reaches: "db_reaches (hb_db h) (hb_db (touch_subject su con h))"
  using db_reaches_call [of "hb_db h" "Called (STouchNode (su_store su AtTouch) (hc_owner con) (hc_subject con) (su_clock su AtTouch))"]
    db_reaches_call [of "hb_db h" "Called (STouchControlClient (su_store su AtTouch) (hc_owner con) (hc_subject con) (su_clock su AtTouch))"]
  by (simp add: touch_subject_def)

lemma save_reaches: "db_reaches (hb_db h) (hb_db (saveNotification su item h))"
  using db_reaches_call [of "hb_db h" "Called (SSaveNotification (su_store su AtNotify) item)"]
  by (simp add: saveNotification_def)

lemma register_reaches: "register su con h = (h', effects, ok) \<Longrightarrow> db_reaches (hb_db h) (hb_db h')"
  using touch_reaches [of "h\<lparr>hb_controls := put_entry (connectionKey (hc_owner con) (hc_subject con)) con (hb_controls h)\<rparr>" su con]
    touch_reaches [of "put_detail (connectionKey (hc_owner con) (hc_subject con))
      (\<lambda>d. d\<lparr>hn_node := hc_subject con, hn_online := True, hn_connected := hc_connected con, hn_relay := ''online'',
         hn_error := [], hn_close := []\<rparr>)
      (h\<lparr>hb_nodes := put_entry (connectionKey (hc_owner con) (hc_subject con)) con (hb_nodes h)\<rparr>)" su con]
  by (auto simp: register_def Let_def split: if_splits)

lemma unregister_reaches: "db_reaches (hb_db h) (hb_db (unregister su con h))"
proof -
  have save: "db_reaches (hb_db h) (hb_db (saveNotification su item x))" if "hb_db x = hb_db h" for item x
    using save_reaches [of x su item] that by simp
  show ?thesis unfolding unregister_def Let_def by (auto intro!: save)
qed

lemma slot_db [simp]: "hb_db (hub_release h) = hb_db h" "hb_db (fst (hub_acquire h)) = hb_db h"
  by (simp_all add: hub_release_def hub_acquire_def)

lemma cleanup_db [simp]: "hb_db (cleanupNodeSessions now h) = hb_db h"
  by (simp add: cleanupNodeSessions_def)

lemma invalidate_db [simp]: "hb_db (invalidateNodeSessionScope owner nodeID connectionID h) = hb_db h"
  by (simp add: invalidateNodeSessionScope_def)

lemma issue_db: "issueNodeSession c su owner nodeID connectionID h = (h', x) \<Longrightarrow> hb_db h' = hb_db h"
  by (auto simp: issueNodeSession_def Let_def split: if_splits option.splits)

lemma register_session_db: "registerNodeSession c su owner nodeID connectionID raw t h = (h', ok) \<Longrightarrow> hb_db h' = hb_db h"
  by (auto simp: registerNodeSession_def Let_def split: if_splits)

lemma request_db: "AuthenticateNodeRequest c su nodeID authorization h = (h', x) \<Longrightarrow> hb_db h' = hb_db h"
  by (auto simp: AuthenticateNodeRequest_def Let_def split: option.splits if_splits sum.splits)

lemma refresh_db: "RefreshNodeSession c su post contentType nodeID authorization body h = (h', x) \<Longrightarrow> hb_db h' = hb_db h"
  by (auto simp: RefreshNodeSession_def split: if_splits prod.splits option.splits dest!: request_db issue_db)

lemma authenticate_db: "authenticate c su a ttl wire reply h = (h', sent, x) \<Longrightarrow> hb_db h' = hb_db h"
  by (auto simp: authenticate_def split: option.splits if_splits prod.splits bool.splits dest!: issue_db)

lemma serve_reaches: "serve c su opt a relay reply h = (h', effects, x) \<Longrightarrow> db_reaches (hb_db h) (hb_db h')"
  by (auto simp: serve_def split: option.splits prod.splits bool.splits if_splits dest!: authenticate_db register_reaches)

lemma attach_reaches:
  "attachLocalNode c su owner nodeID relay token t h = (h', effects, x) \<Longrightarrow> db_reaches (hb_db h) (hb_db h')"
  by (auto simp: attachLocalNode_def Let_def split: option.splits prod.splits bool.splits if_splits
      dest!: register_session_db register_reaches)

text \<open>What a handler does to the hub: it takes a slot, and gives it back when it refuses.\<close>

lemma branch_in:
  "fst x \<in> S \<Longrightarrow> fst y \<in> S \<Longrightarrow> fst (if b then x else y) \<in> S"
  "(\<And>e. fst (f e) \<in> S) \<Longrightarrow> (\<And>r. fst (g r) \<in> S) \<Longrightarrow> fst (case s of Inl e \<Rightarrow> f e | Inr r \<Rightarrow> g r) \<in> S"
  "fst x \<in> S \<Longrightarrow> fst y \<in> S \<Longrightarrow> fst (case b of True \<Rightarrow> x | False \<Rightarrow> y) \<in> S"
  by (auto split: sum.splits bool.splits)

lemma handler_slots:
  "fst (NodeHandler opt e q h) \<in> {h, fst (hub_acquire h), hub_release (fst (hub_acquire h))}"
  "fst (ControlHandler opt e q h) \<in> {h, fst (hub_acquire h), hub_release (fst (hub_acquire h))}"
proof -
  obtain h1 ok where a: "hub_acquire h = (h1, ok)" by fastforce
  show "fst (NodeHandler opt e q h) \<in> {h, fst (hub_acquire h), hub_release (fst (hub_acquire h))}"
    unfolding NodeHandler_def a prod.case by (intro branch_in) simp_all
  show "fst (ControlHandler opt e q h) \<in> {h, fst (hub_acquire h), hub_release (fst (hub_acquire h))}"
    unfolding ControlHandler_def a Let_def prod.case by (intro branch_in) simp_all
qed

lemma slot_same_db: "x \<in> {h, fst (hub_acquire h), hub_release (fst (hub_acquire h))} \<Longrightarrow> hb_db x = hb_db h"
  by auto

lemmas handler_db = handler_slots [THEN slot_same_db]

lemma detach_reaches: "detach su con h = (h', effects) \<Longrightarrow> db_reaches (hb_db h) (hb_db h')"
  using unregister_reaches [of "invalidateNodeSessionScope (hc_owner con) (hc_subject con) (hc_connection con) h" su con]
  by (auto simp: detach_def)

lemma finish_reaches: "finish su con h = (h', effects) \<Longrightarrow> db_reaches (hb_db h) (hb_db h')"
  using unregister_reaches [of h su con] by (auto simp: finish_def Let_def)

section \<open>Frames\<close>

text \<open>A control that the hub accepts from a connection: it parses, names the connection's owner, client and key,
  and its signature verifies under the key the connection was authenticated with.\<close>

definition genuine :: "codec \<Rightarrow> hub_connection \<Rightarrow> bytes \<Rightarrow> routed_control \<Rightarrow> bool" where
  "genuine c source raw m =
     (parseRoutedControl c raw = Some m \<and> frame_authorized source m \<and> 1 \<le> rc_sequence m \<and>
      (case (decodeSignature (rc_signature m), routedSigningInput c m) of
         (Some signature, Some input) \<Rightarrow> cd_verify c (hc_public_key source) input signature
       | _ \<Rightarrow> False))"

lemma frame_accepted:
  assumes "validateControlFrame c su source raw db = (d, Inr m)"
  obtains expiry where "genuine c source raw m" "parse_RFC3339Nano (the (rc_expires m)) = Some expiry"
    "su_clock su AtFrame - DefaultControlClockSkew \<le> expiry"
    "serverCheckAndRecord (su_store su AtReplay) (su_clock su AtReplay) db (frame_replay m expiry) = (d, None)"
  using assms
  by (auto simp: validateControlFrame_def genuine_def split: option.splits if_splits prod.splits)

lemma frame_reaches: "validateControlFrame c su source raw db = (d, x) \<Longrightarrow> db_reaches db d"
  using db_reaches_call [of db "Checked (su_store su AtReplay) (su_clock su AtReplay) r" for r]
  by (auto simp: validateControlFrame_def split: option.splits if_splits prod.splits) (metis fst_conv)+

lemma lease_operation_reaches:
  assumes "lease_operation su source m sc db = Inr (d, r)"
  shows "db_reaches db d"
proof -
  have "db_reaches db (fst (AcquireLease e db q))" "db_reaches db (fst (RenewLease e db u))"
    "db_reaches db (fst (ReleaseLease e db u))" for e q u
    using db_reaches_call [of db "Leased e (Acquire q)"] db_reaches_call [of db "Leased e (Renew u)"]
      db_reaches_call [of db "Leased e (Release u)"] by simp_all
  with assms show ?thesis
    by (auto simp: lease_operation_def Let_def split: if_splits option.splits) (metis fst_conv)+
qed

lemma read_reaches:
  "MarkNotificationRead e db ow i now = (d, x) \<Longrightarrow> db_reaches db d"
  using db_reaches_call [of db "Called (SMarkNotificationRead e ow i now)"] by simp

lemma server_control_reaches:
  "handleServerControl c su source m h = (h', effects, ok) \<Longrightarrow> db_reaches (hb_db h) (hb_db h')"
  by (auto simp: handleServerControl_def handleNotificationControl_def
      split: if_splits option.splits sum.splits prod.splits json.splits bool.splits
      dest!: lease_operation_reaches read_reaches)

lemma observe_reaches: "db_reaches (hb_db h) (hb_db (observeNodeEvent c su source raw h))"
proof -
  have save: "db_reaches (hb_db h) (hb_db (saveNotification su item x))" if "hb_db x = hb_db h" for item x
    using save_reaches [of x su item] that by simp
  show ?thesis
    by (auto simp: observeNodeEvent_def Let_def touchNodeFrame_def observeNodeHealth_def intro!: save split: option.splits)
qed

lemma route_reaches:
  assumes "route_frame c su source raw h = (h', effects, ok)"
  shows "db_reaches (hb_db h) (hb_db h')"
proof -
  have "db_reaches (hb_db h) (hb_db h')" if "validateControlFrame c su source raw (hb_db h) = (d, Inr m)"
    "handleServerControl c su source m (h\<lparr>hb_db := d\<rparr>) = (h', effects, ok)" for d m
    using db_reaches_trans [OF frame_reaches [OF that(1)]] server_control_reaches [OF that(2)] by simp
  with assms show ?thesis
    by (auto simp: route_frame_def Let_def observe_reaches
        split: option.splits if_splits sum.splits prod.splits frame_error.splits store_error.splits dest: frame_reaches)
qed

lemma hub_do_reaches: "db_reaches (hb_db h) (hb_db (fst (hub_do c a h)))"
proof (cases a)
  case (Store x)
  then show ?thesis by (simp add: db_reaches_call)
next
  case (Finish su con)
  then show ?thesis using finish_reaches [of su con h] by (cases "finish su con h") simp
next
  case (Detach su con)
  then show ?thesis using detach_reaches [of su con h] by (cases "detach su con h") simp
next
  case (NodeRequest su nodeID authorization)
  then show ?thesis using request_db [of c su nodeID authorization h] by (metis db_reaches_refl fst_conv hub_do.simps(8) surj_pair)
next
  case (Refresh su post contentType nodeID authorization body)
  then show ?thesis
    using refresh_db [of c su post contentType nodeID authorization body h]
    by (metis db_reaches_refl fst_conv hub_do.simps(9) surj_pair)
qed (auto simp: DisconnectControl_def DisconnectNode_def CloseHub_def Let_def handler_db split: prod.splits option.splits
    dest: route_reaches serve_reaches attach_reaches)

lemma hub_run_reaches: "db_reaches (hb_db h) (hb_db (hub_run c h as))"
proof (induction as arbitrary: h)
  case (Cons a as)
  from db_reaches_trans [OF hub_do_reaches Cons.IH] show ?case by simp
qed simp

section \<open>What the hub forwards\<close>

text \<open>Where the answers and broadcasts of the hub are sent from.\<close>

definition sent_at :: "hub_effect list \<Rightarrow> site set" where
  "sent_at effects = {place. \<exists>r raw. Sent place r raw \<in> set effects}"

lemma sent_at_simps [simp]:
  "sent_at [] = {}" "sent_at (xs @ ys) = sent_at xs \<union> sent_at ys" "sent_at [ClosedRelay r] = {}"
  by (auto simp: sent_at_def)

lemma sent_at_send: "sent_at (fst (send_to su place relay raw)) \<subseteq> {place}"
  by (auto simp: send_to_def sent_at_def)

lemma sent_at_broadcast: "sent_at (broadcast su place owner raw h) \<subseteq> {place}"
  by (auto simp: broadcast_def sent_at_def split: if_splits)

lemma sent_at_result: "sent_at (fst (sendServerResult c su source m status code extra)) \<subseteq> {AtResult}"
  using sent_at_send [of su AtResult]
  by (auto simp: sendServerResult_def Let_def split: option.splits sum.splits if_splits)

lemma sent_at_change: "sent_at (fst (broadcastLeaseChange c su r correlationID h)) \<subseteq> {AtChange, AtChange11}"
  using sent_at_broadcast [of su AtChange] sent_at_broadcast [of su AtChange11]
  by (fastforce simp: broadcastLeaseChange_def Let_def split: option.splits sum.splits)

lemma sent_at_server_control:
  "handleServerControl c su source m h = (h', effects, ok) \<Longrightarrow> sent_at effects \<subseteq> {AtResult, AtChange, AtChange11}"
proof -
  have result: "sent_at effects \<subseteq> {AtResult, AtChange, AtChange11}"
    if "sendServerResult c su source m status code extra = (effects, ok)" for status code extra effects ok
    using sent_at_result [of c su source m status code extra] that by auto
  have change: "sent_at effects \<subseteq> {AtResult, AtChange, AtChange11}"
    if "broadcastLeaseChange c su r i h = (effects, ok)" for r i h effects ok
    using sent_at_change [of c su r i h] that by auto
  assume "handleServerControl c su source m h = (h', effects, ok)"
  then show ?thesis
    by (auto simp: handleServerControl_def handleNotificationControl_def
        split: if_splits option.splits sum.splits prod.splits json.splits bool.splits dest!: result change subsetD)
qed

lemma Lease_live:
  assumes "Lease e db sc now = (r, None)"
  shows "sql_view db sc now = r" "validLeaseScope sc" "\<not> IsZero now"
proof -
  from assms have guard: "store_guard e (validLeaseScope sc \<and> \<not> IsZero now) = None"
    and live: "\<not> call_fails e 0"
    by (auto simp: Lease_def scanLeaseRow_def split: option.splits)
  from store_guard_NoneD [OF guard] show ok: "validLeaseScope sc" "\<not> IsZero now" by blast+
  from assms guard live ok show "sql_view db sc now = r" by (simp add: Lease_def sql_view_def)
qed

lemma checked_lease:
  assumes "checkLease su source m db = Inr r"
  obtains sc i n where "messageLeaseScope m = Some sc" "leaseProof (rc_payload m) = Inr (i, n)" "validLeaseScope sc"
    "\<not> IsZero (su_clock su AtLeaseCheck)"
    "proof_admitted sql_view db sc (su_clock su AtLeaseCheck) (hc_subject source) i n"
proof -
  from assms obtain sc i n where m: "messageLeaseScope m = Some sc" "leaseProof (rc_payload m) = Inr (i, n)"
    and lease: "Lease (su_store su AtLeaseCheck) db sc (su_clock su AtLeaseCheck) = (r, None)"
    and r: "le_state r = StHeld" "le_lease_id r = i" "le_epoch r = n" "le_holder r = hc_subject source"
    by (auto simp: checkLease_def split: option.splits sum.splits prod.splits if_splits)
  note view = Lease_live [OF lease]
  from view(1) r have "proof_admitted sql_view db sc (su_clock su AtLeaseCheck) (hc_subject source) i n"
    by (simp add: proof_admitted_def)
  with that [OF m view(2,3)] show ?thesis .
qed

text \<open>Everything that holds of a frame forwarded to a Node.\<close>

lemma result_not_forwarded:
  "sendServerResult c su source m status code extra = (effects, ok) \<Longrightarrow> AtForward \<notin> sent_at effects"
  using sent_at_result [of c su source m status code extra] by auto

lemma forwarded_frame:
  assumes "route_frame c su source raw h = (h', effects, ok)" "AtForward \<in> sent_at effects"
  obtains header m where "unmarshal_header raw = Some header"
    "validateControlFrame c su source raw (hb_db h) = (hb_db h', Inr m)" "h' = h\<lparr>hb_db := hb_db h'\<rparr>"
    "\<not> serverControl (rh_type header)" "forwardControl c su source header m raw h' = (effects, ok)"
proof -
  from assms obtain header where header: "classifyRoutedFrame raw (hc_role source) = Some header"
    and owner: "rh_owner header = hc_owner source"
    by (auto simp: route_frame_def split: option.splits if_splits)
  from assms header owner have role: "hc_role source \<noteq> SessionRoleNode"
    by (auto simp: route_frame_def Let_def split: if_splits dest: subsetD [OF sent_at_broadcast])
  note route = assms(1) [unfolded route_frame_def header option.case if_not_P [OF role], unfolded owner, simplified]
  obtain d x where frame: "validateControlFrame c su source raw (hb_db h) = (d, x)" by fastforce
  show ?thesis
  proof (cases x)
    case (Inl e)
    have "AtForward \<notin> sent_at effects"
      using route frame Inl by (auto split: frame_error.splits store_error.splits dest: result_not_forwarded)
    with assms(2) show ?thesis by simp
  next
    case (Inr m)
    have "\<not> serverControl (rh_type header)"
      using route frame Inr assms(2) by (auto simp: Let_def dest: sent_at_server_control split: if_splits)
    moreover have "unmarshal_header raw = Some header"
      using header by (auto simp: classifyRoutedFrame_def split: option.splits if_splits)
    ultimately show ?thesis using that route frame Inr by (auto simp: Let_def)
  qed
qed

lemma forwardedE:
  assumes "route_frame c su source raw h = (h', effects, ok)" "Sent AtForward r raw' \<in> set effects"
  obtains m target where "raw' = raw" "genuine c source raw m" "\<not> serverControl (rc_type m)"
    "validateControlFrame c su source raw (hb_db h) = (hb_db h', Inr m)"
    "node h (hc_owner source) (rc_node m) = Some target" "hc_relay target = r"
    "leaseRequired (rc_type m) \<Longrightarrow> \<exists>x. checkLease su source m (hb_db h') = Inr x"
proof -
  have "AtForward \<in> sent_at effects" using assms(2) by (auto simp: sent_at_def)
  with assms(1) obtain header m where f: "unmarshal_header raw = Some header"
    "validateControlFrame c su source raw (hb_db h) = (hb_db h', Inr m)" "h' = h\<lparr>hb_db := hb_db h'\<rparr>"
    "\<not> serverControl (rh_type header)" "forwardControl c su source header m raw h' = (effects, ok)"
    by (rule forwarded_frame)
  from f(2) have gen: "genuine c source raw m" by (rule frame_accepted)
  then have parsed: "parseRoutedControl c raw = Some m" by (simp add: genuine_def)
  note same = header_of_control [OF parsed f(1)]
  have node: "node h' = node h" by (subst f(3)) (simp add: node_def fun_eq_iff)
  have "raw' = raw \<and> (\<exists>target. node h (hc_owner source) (rc_node m) = Some target \<and> hc_relay target = r) \<and>
      (leaseRequired (rc_type m) \<longrightarrow> (\<exists>x. checkLease su source m (hb_db h') = Inr x))"
    using f(5) assms(2) \<open>AtForward \<in> sent_at effects\<close> unfolding forwardControl_def node same
    by (auto simp: send_to_def split: option.splits if_splits sum.splits dest: result_not_forwarded)
  with that [OF _ gen] f(2,4) same(1) show ?thesis by auto
qed

end
