(* ===== verification/Hub_Registry.thy ===== *)
theory Hub_Registry
  imports Hub_Contract
begin

text \<open>
  The connections registered with the hub, and that no frame leaves the owner it came from.
\<close>

section \<open>Who is registered\<close>

text \<open>Every entry of the two maps stands under the key of its own owner and subject, in the map of its role, and
  no owner's name holds a NUL byte, which separates the owner from the subject in a key.\<close>

definition entry_ok :: "session_role \<Rightarrow> string \<times> hub_connection \<Rightarrow> bool" where
  "entry_ok role x =
     (fst x = connectionKey (hc_owner (snd x)) (hc_subject (snd x)) \<and> hc_role (snd x) = role \<and> \<not> contains_nul (hc_owner (snd x)))"

definition hub_inv :: "hub \<Rightarrow> bool" where
  "hub_inv h = (list_all (entry_ok SessionRoleNode) (hb_nodes h) \<and> list_all (entry_ok SessionRoleControl) (hb_controls h))"

definition tables_of :: "hub \<Rightarrow> (string \<times> hub_connection) list \<times> (string \<times> hub_connection) list" where
  "tables_of h = (hb_nodes h, hb_controls h)"

lemma hub_inv_tables: "tables_of h' = tables_of h \<Longrightarrow> hub_inv h' = hub_inv h"
  by (simp add: hub_inv_def tables_of_def)

lemma tables_of_simps [simp]:
  "tables_of (h\<lparr>hb_db := d\<rparr>) = tables_of h" "tables_of (put_detail k f h) = tables_of h"
  "tables_of (cleanupNodeSessions now h) = tables_of h" "tables_of (saveNotification su item h) = tables_of h"
  "tables_of (h\<lparr>hb_sessions := t\<rparr>) = tables_of h" "tables_of (invalidateNodeSessionScope owner n i h) = tables_of h"
  "tables_of (touch_subject su con h) = tables_of h" "tables_of (touchNodeFrame su con h) = tables_of h"
  "tables_of (observeNodeHealth su con ev h) = tables_of h" "tables_of (hub_release h) = tables_of h"
  "tables_of (fst (hub_acquire h)) = tables_of h"
  by (simp_all add: tables_of_def put_detail_def cleanupNodeSessions_def saveNotification_def
      invalidateNodeSessionScope_def touch_subject_def touchNodeFrame_def observeNodeHealth_def hub_release_def hub_acquire_def)

lemmas hub_inv_simps [simp] = tables_of_simps [THEN hub_inv_tables]

lemma connectionKey_inj:
  assumes "connectionKey owner subject = connectionKey owner' subject'" "\<not> contains_nul owner" "\<not> contains_nul owner'"
  shows "owner = owner' \<and> subject = subject'"
  using split_at_unique [of owner "CHR 0x00" subject owner' subject'] assms
  by (simp add: connectionKey_def contains_nul_def)

lemma node_entry:
  assumes "hub_inv h" "node h owner n = Some con" "\<not> contains_nul owner"
  shows "hc_owner con = owner" "hc_subject con = n" "hc_role con = SessionRoleNode"
proof -
  from assms(2) have "(connectionKey owner n, con) \<in> set (hb_nodes h)" by (auto simp: node_def dest: map_of_SomeD)
  with assms(1) have ok: "entry_ok SessionRoleNode (connectionKey owner n, con)" by (auto simp: hub_inv_def list_all_iff)
  from ok connectionKey_inj [of owner n "hc_owner con" "hc_subject con"] assms(3)
  show "hc_owner con = owner" "hc_subject con = n" "hc_role con = SessionRoleNode"
    by (auto simp: entry_ok_def)
qed

lemma put_entry_all: "list_all P m \<Longrightarrow> P (k, v) \<Longrightarrow> list_all P (put_entry k v m)"
  by (auto simp: put_entry_def list_all_iff)

lemma delete_entry_all: "list_all P m \<Longrightarrow> list_all P (delete_entry k m)"
  by (auto simp: delete_entry_def list_all_iff)

lemma register_inv:
  assumes "register su con h = (h', effects, ok)" "hub_inv h" "\<not> contains_nul (hc_owner con)"
  shows "hub_inv h'"
proof -
  let ?k = "connectionKey (hc_owner con) (hc_subject con)"
  have ok: "entry_ok (hc_role con) (?k, con)" using assms(3) by (simp add: entry_ok_def)
  have "hub_inv (h\<lparr>hb_nodes := put_entry ?k con (hb_nodes h)\<rparr>)" if "hc_role con = SessionRoleNode"
    using ok assms(2) that by (simp add: hub_inv_def put_entry_all)
  moreover have "hub_inv (h\<lparr>hb_controls := put_entry ?k con (hb_controls h)\<rparr>)" if "hc_role con = SessionRoleControl"
    using ok assms(2) that by (simp add: hub_inv_def put_entry_all)
  ultimately show ?thesis
    using assms(1,2) by (cases "hc_role con") (auto simp: register_def Let_def split: if_splits)
qed

lemma unregister_inv: "hub_inv h \<Longrightarrow> hub_inv (unregister su con h)"
  by (simp add: unregister_def Let_def) (simp add: hub_inv_def delete_entry_all)

lemma authenticate_tables: "authenticate c su a ttl wire reply h = (h', sent, x) \<Longrightarrow> tables_of h' = tables_of h"
  by (auto simp: authenticate_def issueNodeSession_def Let_def split: option.splits if_splits prod.splits bool.splits)

lemma request_tables: "AuthenticateNodeRequest c su n authorization h = (h', x) \<Longrightarrow> tables_of h' = tables_of h"
  by (auto simp: AuthenticateNodeRequest_def Let_def split: option.splits if_splits sum.splits)

lemma refresh_tables:
  "RefreshNodeSession c su post contentType n authorization body h = (h', x) \<Longrightarrow> tables_of h' = tables_of h"
  by (auto simp: RefreshNodeSession_def issueNodeSession_def Let_def split: if_splits prod.splits option.splits
      dest!: request_tables)

lemma server_control_tables: "handleServerControl c su source m h = (h', effects, ok) \<Longrightarrow> tables_of h' = tables_of h"
  by (auto simp: handleServerControl_def handleNotificationControl_def
      split: if_splits option.splits sum.splits prod.splits json.splits bool.splits)

lemma observe_tables [simp]: "tables_of (observeNodeEvent c su source raw h) = tables_of h"
  by (auto simp: observeNodeEvent_def Let_def split: option.splits)

lemma route_tables: "route_frame c su source raw h = (h', effects, ok) \<Longrightarrow> tables_of h' = tables_of h"
  by (auto simp: route_frame_def Let_def split: option.splits if_splits sum.splits prod.splits frame_error.splits
      store_error.splits dest: server_control_tables)

text \<open>The owners of admitted connections; the Server's identifiers of owners have no NUL byte.\<close>

fun proper_action :: "hub_action \<Rightarrow> bool" where
  "proper_action (Serve su opt a relay reply) = (\<not> contains_nul (ad_owner a))"
| "proper_action _ = True"

lemma serve_inv:
  assumes "serve c su opt a relay reply h = (h', effects, x)" "hub_inv h" "\<not> contains_nul (ad_owner a)"
  shows "hub_inv h'"
proof -
  obtain h1 sent v where auth: "authenticate c su a (ho_challenge_ttl opt) relay reply h = (h1, sent, v)"
    by (metis prod_cases3)
  have h1: "hub_inv h1" using hub_inv_tables [OF authenticate_tables [OF auth]] assms(2) by simp
  have reg: "hub_inv h2" if "register su (new_connection a challenge relay now) h1 = (h2, closed, ok)" for challenge now h2 closed ok
    using register_inv [OF that h1] assms(3) by (simp add: new_connection_def)
  show ?thesis
    using assms(1) h1 unfolding serve_def auth
    by (auto split: option.splits prod.splits bool.splits if_splits dest: reg)
qed

lemma register_session_tables:
  "registerNodeSession c su owner n i raw t h = (h', ok) \<Longrightarrow> tables_of h' = tables_of h"
  by (auto simp: registerNodeSession_def Let_def split: if_splits)

lemma attach_inv:
  assumes "attachLocalNode c su owner n relay token t h = (h', effects, x)" "hub_inv h"
  shows "hub_inv h'"
proof (cases "validOpaqueMax owner 128 \<and> validOpaqueMax n 128 \<and> randomValue su AtConnect 16 \<noteq> None")
  case True
  then have nul: "\<not> contains_nul owner" by (auto simp: validOpaqueMax_def dest: no_control_no_nul)
  from True obtain i where i: "randomValue su AtConnect 16 = Some i" by blast
  define con where "con = \<lparr>hc_owner = owner, hc_subject = n, hc_key = [], hc_public_key = [], hc_role = SessionRoleNode,
    hc_relay = relay, hc_connected = su_clock su AtConnect, hc_connection = i\<rparr>"
  obtain h1 ok where h1: "(if token = [] then (h, True) else registerNodeSession c su owner n i token t h) = (h1, ok)" by fastforce
  have inv: "hub_inv h1"
    using h1 hub_inv_tables [OF register_session_tables [of c su owner n i token t h h1 ok]] assms(2) by (auto split: if_splits)
  obtain h2 closed ok2 where h2: "register su con h1 = (h2, closed, ok2)" by (metis prod_cases3)
  have "hub_inv h2" using register_inv [OF h2 inv] nul by (simp add: con_def)
  with assms(1) True inv show ?thesis
    unfolding attachLocalNode_def i Let_def option.case con_def [symmetric] h1 prod.case h2
    by (cases ok; cases ok2) auto
qed (use assms in \<open>auto simp: attachLocalNode_def split: option.splits\<close>)

lemma slot_same_tables: "x \<in> {h, fst (hub_acquire h), hub_release (fst (hub_acquire h))} \<Longrightarrow> tables_of x = tables_of h"
  by auto

lemmas handler_tables = handler_slots [THEN slot_same_tables]

lemma hub_do_inv:
  assumes "hub_inv h" "proper_action a"
  shows "hub_inv (fst (hub_do c a h))"
proof (cases a)
  case (Deliver su source raw)
  then show ?thesis
    using hub_inv_tables [OF route_tables [of c su source raw h]] assms(1) by (auto split: prod.splits)
next
  case (Serve su opt x relay reply)
  then show ?thesis using serve_inv assms by (auto split: prod.splits)
next
  case (Finish su con)
  then show ?thesis using unregister_inv assms(1) by (simp add: finish_def Let_def)
next
  case (AskNode opt e q)
  then show ?thesis using hub_inv_tables [OF handler_tables(1)] assms(1) by simp
next
  case (AskControl opt e q)
  then show ?thesis using hub_inv_tables [OF handler_tables(2)] assms(1) by simp
next
  case (Detach su con)
  then show ?thesis using unregister_inv assms(1) by (simp add: detach_def)
next
  case (Attach su owner n relay token t)
  then show ?thesis using attach_inv assms(1) by (auto split: prod.splits)
next
  case (NodeRequest su n authorization)
  then show ?thesis
    using hub_inv_tables [OF request_tables [of c su n authorization h]] assms(1) by (metis fst_conv hub_do.simps(8) surj_pair)
next
  case (Refresh su post contentType n authorization body)
  then show ?thesis
    using hub_inv_tables [OF refresh_tables [of c su post contentType n authorization body h]] assms(1)
    by (metis fst_conv hub_do.simps(9) surj_pair)
next
  case (CutControl owner n)
  with assms(1) show ?thesis
    by (auto simp: DisconnectControl_def Let_def hub_inv_def delete_entry_all split: option.splits)
next
  case (CutNode owner n)
  with assms(1) show ?thesis
    by (auto simp: DisconnectNode_def Let_def hub_inv_def delete_entry_all split: option.splits)
next
  case CloseAll
  with assms(1) show ?thesis by (auto simp: CloseHub_def hub_inv_def)
next
  case (Store x)
  with assms(1) show ?thesis by simp
qed

lemma hub_run_inv: "hub_inv h \<Longrightarrow> list_all proper_action as \<Longrightarrow> hub_inv (hub_run c h as)"
  by (induction as arbitrary: h) (auto simp: hub_do_inv)

section \<open>Frames stay with their owner\<close>

text \<open>A connection the hub knows when it handles a frame: the one the frame came from, or a registered one.\<close>

definition knows :: "hub \<Rightarrow> hub_connection \<Rightarrow> hub_connection \<Rightarrow> bool" where
  "knows h source con = (con = source \<or> con \<in> snd ` set (hb_nodes h) \<or> con \<in> snd ` set (hb_controls h))"

fun effect_inside :: "hub \<Rightarrow> hub_connection \<Rightarrow> hub_effect \<Rightarrow> bool" where
  "effect_inside h source (Sent place r raw) = (\<exists>con. knows h source con \<and> hc_relay con = r \<and> hc_owner con = hc_owner source)"
| "effect_inside h source (ClosedRelay r) = True"

abbreviation all_inside :: "hub \<Rightarrow> hub_connection \<Rightarrow> hub_effect list \<Rightarrow> bool" where
  "all_inside h source effects \<equiv> list_all (effect_inside h source) effects"

lemma inside_send:
  "knows h source con \<Longrightarrow> hc_owner con = hc_owner source \<Longrightarrow> all_inside h source (fst (send_to su place (hc_relay con) raw))"
  by (auto simp: send_to_def)

lemma inside_broadcast:
  "hb_controls h' = hb_controls h \<Longrightarrow> owner = hc_owner source \<Longrightarrow> all_inside h source (broadcast su place owner raw h')"
  by (auto simp: list_all_iff broadcast_def knows_def) (metis (no_types) image_eqI snd_conv)

lemma inside_result: "all_inside h source (fst (sendServerResult c su source m status code extra))"
  using inside_send [of h source source]
  by (auto simp: sendServerResult_def Let_def knows_def split: option.splits sum.splits)

lemma inside_change:
  assumes "sc_owner (le_scope r) = hc_owner source" "hb_controls h' = hb_controls h"
  shows "all_inside h source (fst (broadcastLeaseChange c su r i h'))"
  using inside_broadcast [OF assms(2), of "sc_owner (le_scope r)" source] assms(1)
  by (auto simp: broadcastLeaseChange_def Let_def split: option.splits sum.splits)

lemma scanned_scope: "scanLeaseRow f row sc = Inr (cur, True) \<Longrightarrow> le_scope cur = sc"
  by (auto simp: scanLeaseRow_def split: if_splits option.splits)

lemma acquired_scope: "AcquireLease e db q = (d, r, None) \<Longrightarrow> le_scope r = aq_scope q"
  by (auto simp: AcquireLease_def Let_def next_lease_def expired_view_def split: option.splits sum.splits if_splits)
    (erule scanned_scope)+

lemma renewed_scope: "RenewLease e db u = (d, r, None) \<Longrightarrow> le_scope r = mu_scope u"
  by (auto simp: RenewLease_def Let_def split: option.splits sum.splits if_splits) (erule scanned_scope)

lemma released_scope: "ReleaseLease e db u = (d, r, None) \<Longrightarrow> le_scope r = mu_scope u"
  by (auto simp: ReleaseLease_def released_lease_def Let_def split: option.splits sum.splits if_splits) (erule scanned_scope)

lemma lease_operation_scope:
  assumes "lease_operation su source m sc db = Inr (d, r, None)" "rc_type m \<noteq> ''lease.status''"
    and "le_state r = StHeld \<or> le_state r = StReleased"
  shows "le_scope r = sc"
  using assms
  by (auto simp: lease_operation_def Let_def zero_lease_def split: if_splits option.splits
      dest!: acquired_scope renewed_scope released_scope)

lemma lease_scope_owner: "messageLeaseScope m = Some sc \<Longrightarrow> sc_owner sc = rc_owner m"
  by (auto simp: messageLeaseScope_def split: option.splits if_splits)

lemma inside_server_control:
  assumes "handleServerControl c su source m h' = (h2, effects, ok)" "rc_owner m = hc_owner source" "hb_controls h' = hb_controls h"
  shows "all_inside h source effects"
proof -
  have result: "all_inside h source effects" if "sendServerResult c su source m status code extra = (effects, ok)"
    for status code extra effects ok
    using inside_result [of h source c su m status code extra] that by simp
  have change: "all_inside h source effects"
    if "broadcastLeaseChange c su r (rc_message m) h' = (effects, ok)" "lease_operation su source m sc (hb_db h') = Inr (d, r, None)"
      "messageLeaseScope m = Some sc" "rc_type m \<noteq> ''lease.status''" "le_state r = StHeld \<or> le_state r = StReleased"
    for r effects ok sc d
    using inside_change [of r source h' h c su "rc_message m"] lease_operation_scope [OF that(2,4,5)]
      lease_scope_owner [OF that(3)] that(1) assms(2,3) by simp
  from assms(1) show ?thesis
    by (auto simp: handleServerControl_def handleNotificationControl_def
        split: if_splits option.splits sum.splits prod.splits json.splits bool.splits dest: result change)
qed

lemma inside_forward:
  assumes "forwardControl c su source header m raw h' = (effects, ok)" "hb_nodes h' = hb_nodes h"
    and "hub_inv h" "\<not> contains_nul (hc_owner source)"
  shows "all_inside h source effects"
proof (cases "node h (hc_owner source) (rh_node header)")
  case (Some target)
  have "hc_owner target = hc_owner source" by (rule node_entry [OF assms(3) Some assms(4)])
  moreover have "knows h source target" using Some by (force simp: knows_def node_def dest: map_of_SomeD)
  ultimately have send: "all_inside h source effects" if "send_to su AtForward (hc_relay target) raw = (effects, ok)" for effects ok
    using inside_send [of h source target su AtForward raw] that by simp
  have result: "all_inside h source effects" if "sendServerResult c su source m status code extra = (effects, ok)"
    for status code extra effects ok
    using inside_result [of h source c su m status code extra] that by simp
  have "node h' (hc_owner source) (rh_node header) = Some target" using Some assms(2) by (simp add: node_def)
  with assms(1) show ?thesis
    by (auto simp: forwardControl_def split: if_splits sum.splits prod.splits bool.splits dest: send result)
qed (use assms(1,2) in \<open>simp add: forwardControl_def node_def\<close>)

lemma inside_route:
  assumes "route_frame c su source raw h = (h', effects, ok)" "hub_inv h" "\<not> contains_nul (hc_owner source)"
  shows "all_inside h source effects"
proof -
  have result: "all_inside h source effects" if "sendServerResult c su source m status code extra = (effects, ok)"
    for m status code extra effects ok
    using inside_result [of h source c su m status code extra] that by simp
  have server: "all_inside h source effects" if "handleServerControl c su source m (h\<lparr>hb_db := d\<rparr>) = (h', effects, ok)"
    "validateControlFrame c su source raw (hb_db h) = (d, Inr m)" for m d
  proof -
    have "genuine c source raw m" using that(2) by (rule frame_accepted)
    then have "rc_owner m = hc_owner source" by (auto simp: genuine_def frame_authorized_def)
    from inside_server_control [OF that(1) this] show ?thesis by simp
  qed
  have forward: "all_inside h source effects" if "forwardControl c su source header m raw (h\<lparr>hb_db := d\<rparr>) = (effects, ok)" for header m d
    by (rule inside_forward [OF that _ assms(2,3)]) simp
  have "hb_controls (observeNodeEvent c su source raw h) = hb_controls h"
    using observe_tables [of c su source raw h] by (simp add: tables_of_def)
  from inside_broadcast [OF this HOL.refl] assms(1) show ?thesis
    by (auto simp: route_frame_def Let_def split: option.splits if_splits sum.splits prod.splits frame_error.splits
        store_error.splits dest: result server forward)
qed

end
