(* ===== verification/Hub_Demo.thy ===== *)
theory Hub_Demo
  imports Hub_Registry Validator_Properties Server_Properties
begin

text \<open>
  The control a turn of the hub's loop acts on, and a concrete hub with a Node and two control
  clients for the witnesses of its properties.
\<close>

section \<open>The accepted control\<close>

text \<open>The control a turn of the loop acts on, when there is one.\<close>

definition route_accepts :: "codec \<Rightarrow> surroundings \<Rightarrow> hub_connection \<Rightarrow> bytes \<Rightarrow> hub \<Rightarrow> routed_control option" where
  "route_accepts c su source raw h =
     (case classifyRoutedFrame raw (hc_role source) of
        None \<Rightarrow> None
      | Some header \<Rightarrow>
          if rh_owner header \<noteq> hc_owner source \<or> hc_role source = SessionRoleNode then None
          else (case validateControlFrame c su source raw (hb_db h) of (_, Inr m) \<Rightarrow> Some m | _ \<Rightarrow> None))"

section \<open>Printed frames are read again\<close>

definition wire_v1 :: "v1_message \<Rightarrow> bytes" where
  "wire_v1 m = Marshal (JObject (members_v1 m))"

text \<open>What makes the printed form of a control readable again.\<close>

definition frame_ready :: "codec \<Rightarrow> v1_message \<Rightarrow> route_header \<Rightarrow> bool" where
  "frame_ready c m header =
     (let doc = JObject (members_v1 m); raw = Marshal doc
      in printable doc \<and> unique_members doc \<and> ValidString raw \<and> validateJSONSurrogates raw \<and> cd_jcs c raw \<noteq> None \<and>
         schema_accepts (cd_schema c) doc \<and> int (length raw) \<le> ControlFrameMaxBytes \<and> ms_version m = CurrentVersion \<and>
         IsKnownControl (ms_type m) \<and> unmarshal_with set_header header_names zero_header doc = Some header \<and>
         unmarshal_v1 doc = Some m)"

lemma frame_ready_reads:
  assumes "frame_ready c m header"
  shows "unmarshal_header (wire_v1 m) = Some header" "parseRoutedControl c (wire_v1 m) = Some (routed_v1 m)"
proof -
  let ?doc = "JObject (members_v1 m)"
  have f: "printable ?doc" "unique_members ?doc" "ValidString (wire_v1 m)" "validateJSONSurrogates (wire_v1 m)"
    "cd_jcs c (wire_v1 m) \<noteq> None" "schema_accepts (cd_schema c) ?doc" "int (length (wire_v1 m)) \<le> ControlFrameMaxBytes"
    "ms_version m = CurrentVersion" "IsKnownControl (ms_type m)"
    "unmarshal_with set_header header_names zero_header ?doc = Some header" "unmarshal_v1 ?doc = Some m"
    using assms unfolding frame_ready_def Let_def wire_v1_def by blast+
  have doc: "decodeStrictJSON (cd_jcs c) (wire_v1 m) = Inr ?doc"
    using f(3-5) Marshal_read_back [OF f(1,2)] by (simp add: decodeStrictJSON_def wire_v1_def)
  show header: "unmarshal_header (wire_v1 m) = Some header"
    using read_json_strict [OF doc] f(10) by (simp add: unmarshal_header_def)
  have "string_member ?doc ''protocolVersion'' = Some CurrentVersion" "string_member ?doc ''type'' = Some (ms_type m)"
    using f(8) by (simp_all add: string_member_def text_of_v1)
  then have parse: "ParseControl c (wire_v1 m) = Inr m"
    using f(6,7,9,11) doc by (simp add: ParseControl_def is_object_def)
  have "rh_version header = CurrentVersion"
    using header_same_v1 [OF f(10,11)] f(8) by (simp add: same_route_def)
  with header parse show "parseRoutedControl c (wire_v1 m) = Some (routed_v1 m)" by (simp add: parseRoutedControl_def)
qed

section \<open>A concrete hub\<close>

definition demo_turn :: "string \<Rightarrow> string \<Rightarrow> int \<Rightarrow> int \<Rightarrow> v1_message" where
  "demo_turn client lease epoch n = (demo_signed n)\<lparr>ms_signer := Some \<lparr>ws_client = client, ws_key = ''k''\<rparr>,
     ms_workspace := Some ''w'', ms_thread := Some ''t'',
     ms_payload := Some [(''lease'', JObject [(''epoch'', JNumber (itoa epoch)), (''leaseId'', JString lease)])]\<rparr>"

text \<open>The checks of a control frame that need no store.\<close>

definition checks_pass :: "codec \<Rightarrow> surroundings \<Rightarrow> hub_connection \<Rightarrow> routed_control \<Rightarrow> bool" where
  "checks_pass c su source m =
     (frame_authorized source m \<and>
      (case (parse_RFC3339Nano (rc_sent m), parse_RFC3339Nano (the (rc_expires m))) of
         (Some sent, Some expiry) \<Rightarrow> After expiry sent \<and> time_Sub expiry sent \<le> DefaultControlMaxTTL \<and>
           su_clock su AtFrame - DefaultControlClockSkew \<le> expiry
       | _ \<Rightarrow> False) \<and>
      1 \<le> rc_sequence m \<and> length (hc_public_key source) = 32 \<and>
      (case (decodeSignature (rc_signature m), routedSigningInput c m) of
         (Some signature, Some input) \<Rightarrow> cd_verify c (hc_public_key source) input signature
       | _ \<Rightarrow> False))"

lemma checks_pass_frame:
  assumes "parseRoutedControl c raw = Some m" "checks_pass c su source m"
  shows "validateControlFrame c su source raw db =
    (case serverCheckAndRecord (su_store su AtReplay) (su_clock su AtReplay) db (frame_replay m (mustParseTime (the (rc_expires m)))) of
       (db', Some x) \<Rightarrow> (db', Inl (FrameStore x m))
     | (db', None) \<Rightarrow> (db', Inr m))"
  using assms by (auto simp: validateControlFrame_def checks_pass_def mustParseTime_def split: option.splits)

definition demo_world :: surroundings where
  "demo_world = \<lparr>su_clock = (\<lambda>_. demo_now), su_random = (\<lambda>_. Some (replicate 32 CHR 0x01)), su_store = (\<lambda>_. live_env),
     su_sent = (\<lambda>_ _. True)\<rparr>"

definition demo_source :: "string \<Rightarrow> hub_connection" where
  "demo_source client = \<lparr>hc_owner = ''o'', hc_subject = client, hc_key = ''k'', hc_public_key = replicate 32 CHR 0x07,
     hc_role = SessionRoleControl, hc_relay = 2, hc_connected = demo_now, hc_connection = ''x''\<rparr>"

definition demo_node_source :: hub_connection where
  "demo_node_source = \<lparr>hc_owner = ''o'', hc_subject = ''n'', hc_key = [], hc_public_key = replicate 32 CHR 0x08,
     hc_role = SessionRoleNode, hc_relay = 1, hc_connected = demo_now, hc_connection = ''y''\<rparr>"

definition demo_hub :: "server_db \<Rightarrow> hub" where
  "demo_hub db = \<lparr>hb_db = db, hb_nodes = [(connectionKey ''o'' ''n'', demo_node_source)],
     hb_controls = [(connectionKey ''o'' ''a'', demo_source ''a''), (connectionKey ''o'' ''b'', demo_source ''b'')],
     hb_details = (\<lambda>_. None), hb_sessions = [], hb_session_ttl = seconds 300, hb_closed = False, hb_limit = 8, hb_active = 3\<rparr>"

definition demo_header :: route_header where
  "demo_header = \<lparr>rh_version = ''1.0'', rh_type = ''turn.start'', rh_owner = ''o'', rh_node = ''n''\<rparr>"

definition demo_lease_db :: server_db where
  "demo_lease_db = fst (AcquireLease live_env demo_db (demo_acquire ''a'' False demo_now))"

definition demo_checked :: "server_db \<Rightarrow> v1_message \<Rightarrow> server_db" where
  "demo_checked db m = fst (serverCheckAndRecord live_env demo_now db (frame_replay (routed_v1 m) (mustParseTime (the (ms_expires m)))))"

lemma demo_forwards:
  assumes "frame_ready demo_codec m demo_header"
    and "validateControlFrame demo_codec demo_world (demo_source k) (wire_v1 m) db = (demo_checked db m, Inr (routed_v1 m))"
    and "\<not> isl (checkLease demo_world (demo_source k) (routed_v1 m) (demo_checked db m))" "messageLeaseScope (routed_v1 m) \<noteq> None"
  shows "route_accepts demo_codec demo_world (demo_source k) (wire_v1 m) (demo_hub db) = Some (routed_v1 m)"
    "route_frame demo_codec demo_world (demo_source k) (wire_v1 m) (demo_hub db) =
       (demo_hub (demo_checked db m), [Sent AtForward 1 (wire_v1 m)], True)"
proof -
  have kind: "classifyControl ''1.0'' ''turn.start''" "\<not> serverControl ''turn.start''" "leaseRequired ''turn.start''" by code_simp+
  note read = frame_ready_reads [OF assms(1)]
  have c: "classifyRoutedFrame (wire_v1 m) SessionRoleControl = Some demo_header"
    using kind by (simp add: classifyRoutedFrame_def read demo_header_def)
  show "route_accepts demo_codec demo_world (demo_source k) (wire_v1 m) (demo_hub db) = Some (routed_v1 m)"
    using assms(2) by (simp add: route_accepts_def c demo_source_def demo_header_def demo_hub_def)
  have n: "node (demo_hub (demo_checked db m)) ''o'' ''n'' = Some demo_node_source" by (simp add: node_def demo_hub_def)
  have "forwardControl demo_codec demo_world (demo_source k) demo_header (routed_v1 m) (wire_v1 m) (demo_hub (demo_checked db m)) =
    ([Sent AtForward 1 (wire_v1 m)], True)"
    using n assms(3,4) kind
    by (cases "checkLease demo_world (demo_source k) (routed_v1 m) (demo_checked db m)")
      (simp_all add: forwardControl_def demo_header_def, simp_all add: send_to_def demo_hub_def demo_source_def demo_world_def demo_node_source_def)
  then show "route_frame demo_codec demo_world (demo_source k) (wire_v1 m) (demo_hub db) =
       (demo_hub (demo_checked db m), [Sent AtForward 1 (wire_v1 m)], True)"
    using assms(2) kind
    by (simp add: route_frame_def c demo_source_def) (simp add: demo_header_def demo_hub_def Let_def)
qed

abbreviation demo_a :: v1_message where
  "demo_a \<equiv> demo_turn ''a'' ''aL'' 1 7"

abbreviation demo_a' :: v1_message where
  "demo_a' \<equiv> demo_turn ''a'' ''aL'' 1 9"

abbreviation demo_b :: v1_message where
  "demo_b \<equiv> demo_turn ''b'' ''bL'' 2 7"

definition demo_taken_db :: server_db where
  "demo_taken_db = db_do (Leased live_env (Acquire (demo_acquire ''b'' True demo_now))) (demo_checked demo_lease_db demo_a)"

lemma demo_ready:
  "frame_ready demo_codec demo_a demo_header"
  "frame_ready demo_codec demo_a' demo_header"
  "frame_ready demo_codec demo_b demo_header"
  by code_simp+

lemmas demo_ready_a = demo_ready(1)
lemmas demo_ready_a' = demo_ready(2)
lemmas demo_ready_b = demo_ready(3)

abbreviation demo_record_of :: "v1_message \<Rightarrow> server_db \<Rightarrow> server_db \<times> store_error option" where
  "demo_record_of m db \<equiv> serverCheckAndRecord live_env demo_now db (frame_replay (routed_v1 m) (mustParseTime (the (ms_expires m))))"

lemma demo_checks:
  "checks_pass demo_codec demo_world (demo_source ''a'') (routed_v1 demo_a)"
  "checks_pass demo_codec demo_world (demo_source ''a'') (routed_v1 demo_a')"
  "checks_pass demo_codec demo_world (demo_source ''b'') (routed_v1 demo_b)"
  by code_simp+

text \<open>What the store answers to them, one after the other.\<close>

lemma demo_answers:
  "snd (demo_record_of demo_a demo_lease_db) = None"
  "snd (demo_record_of demo_a' (demo_checked demo_lease_db demo_a)) = None"
  "snd (demo_record_of demo_b demo_taken_db) = None"
  "snd (demo_record_of demo_a (demo_checked demo_lease_db demo_a)) = Some ErrReplayDetected"
  "\<not> isl (checkLease demo_world (demo_source ''a'') (routed_v1 demo_a) (demo_checked demo_lease_db demo_a))"
  "\<not> isl (checkLease demo_world (demo_source ''a'') (routed_v1 demo_a') (demo_checked (demo_checked demo_lease_db demo_a) demo_a'))"
  "\<not> isl (checkLease demo_world (demo_source ''b'') (routed_v1 demo_b) (demo_checked demo_taken_db demo_b))"
  "lease_table_inv demo_lease_db"
  by code_simp+

lemma demo_valid:
  assumes "frame_ready demo_codec m demo_header" "checks_pass demo_codec demo_world (demo_source k) (routed_v1 m)"
  shows "validateControlFrame demo_codec demo_world (demo_source k) (wire_v1 m) db =
    (case snd (demo_record_of m db) of
       None \<Rightarrow> (demo_checked db m, Inr (routed_v1 m)) | Some x \<Rightarrow> (demo_checked db m, Inl (FrameStore x (routed_v1 m))))"
  unfolding checks_pass_frame [OF frame_ready_reads(2) [OF assms(1)] assms(2)]
  by (simp add: demo_world_def demo_checked_def routed_v1_def split: prod.splits option.splits)

lemmas demo_valid_a = demo_valid [OF demo_ready_a demo_checks(1), of demo_lease_db, unfolded demo_answers(1) option.case]
lemmas demo_valid_a' = demo_valid [OF demo_ready_a' demo_checks(2), of "demo_checked demo_lease_db demo_a", unfolded demo_answers(2) option.case]
lemmas demo_valid_b = demo_valid [OF demo_ready_b demo_checks(3), of demo_taken_db, unfolded demo_answers(3) option.case]
lemmas demo_replayed = demo_valid [OF demo_ready_a demo_checks(1), of "demo_checked demo_lease_db demo_a", unfolded demo_answers(4) option.case]

lemma demo_scope_of: "messageLeaseScope (routed_v1 (demo_turn k i n s)) = Some demo_scope"
  by (simp add: messageLeaseScope_def routed_v1_def demo_turn_def demo_signed_def demo_control_def demo_scope_def zero_v1_def)

lemma demo_scoped: "messageLeaseScope (routed_v1 (demo_turn k i n s)) \<noteq> None"
  by (simp add: demo_scope_of)

lemmas demo_forward_a = demo_forwards [OF demo_ready(1) demo_valid_a demo_answers(5) demo_scoped]
lemmas demo_forward_a' = demo_forwards [OF demo_ready(2) demo_valid_a' demo_answers(6) demo_scoped]
lemmas demo_forward_b = demo_forwards [OF demo_ready(3) demo_valid_b demo_answers(7) demo_scoped]

lemma demo_required: "leaseRequired (rc_type (routed_v1 (demo_turn k i n s)))"
  by (simp add: leaseRequired_def routed_v1_def demo_turn_def demo_signed_def demo_control_def)

lemmas demo_lease_inv = demo_answers(8)

end
