(* ===== verification/Hub_Properties.thy ===== *)
theory Hub_Properties
  imports Hub_Demo
begin

text \<open>
  The properties of the hub: what reaches a Node, in which order of leases, that no control counts twice, who
  can be connected, and that owners are kept apart.
\<close>

section \<open>Routing\<close>

text \<open>Property C2: nothing unchecked reaches a Node. When the hub forwards a frame received on a control
  connection, it forwards the very bytes received; they parse as a control whose owner, client and key are
  those of the connection and whose signature verifies under the connection's public key; it is not one of
  the controls the Server answers; the relay it goes to is that of the Node the control names; and when
  the control needs a lease, it carries the identifier and epoch of the lease that the sending client
  holds on that thread at that moment.\<close>

theorem forwarded_control_checked:
  assumes "route_frame c su source raw h = (h', effects, ok)" "Sent AtForward r raw' \<in> set effects"
  shows "raw' = raw \<and> (\<exists>m target. genuine c source raw m \<and> \<not> serverControl (rc_type m) \<and>
    node h (hc_owner source) (rc_node m) = Some target \<and> hc_relay target = r \<and>
    (leaseRequired (rc_type m) \<longrightarrow>
      (\<exists>sc i n. messageLeaseScope m = Some sc \<and> leaseProof (rc_payload m) = Inr (i, n) \<and>
        proof_admitted sql_view (hb_db h') sc (su_clock su AtLeaseCheck) (hc_subject source) i n)))"
  using assms
proof (rule forwardedE)
  fix m target
  assume "raw' = raw" "genuine c source raw m" "\<not> serverControl (rc_type m)" "node h (hc_owner source) (rc_node m) = Some target"
    "hc_relay target = r" and lease: "leaseRequired (rc_type m) \<Longrightarrow> \<exists>x. checkLease su source m (hb_db h') = Inr x"
  moreover have "\<exists>sc i n. messageLeaseScope m = Some sc \<and> leaseProof (rc_payload m) = Inr (i, n) \<and>
      proof_admitted sql_view (hb_db h') sc (su_clock su AtLeaseCheck) (hc_subject source) i n" if "leaseRequired (rc_type m)"
  proof -
    from lease [OF that] obtain x where "checkLease su source m (hb_db h') = Inr x" ..
    then show ?thesis by (rule checked_lease) blast
  qed
  ultimately show ?thesis by blast
qed

theorem forwarded_control_checked_witness:
  "route_frame demo_codec demo_world (demo_source ''a'') (wire_v1 demo_a) (demo_hub demo_lease_db) =
     (demo_hub (demo_checked demo_lease_db demo_a), [Sent AtForward 1 (wire_v1 demo_a)], True) \<and>
   (\<exists>m target. genuine demo_codec (demo_source ''a'') (wire_v1 demo_a) m \<and>
      node (demo_hub demo_lease_db) (hc_owner (demo_source ''a'')) (rc_node m) = Some target \<and> hc_relay target = 1)"
  using forwarded_control_checked [OF demo_forward_a(2), of 1 "wire_v1 demo_a"] demo_forward_a(2) by auto

lemma forwarded_lease:
  assumes "route_frame c su source raw h = (h', effects, ok)" "Sent AtForward r raw' \<in> set effects"
    and "parseRoutedControl c raw = Some m" "leaseRequired (rc_type m)" "lease_table_inv (hb_db h')"
  obtains sc i n where "messageLeaseScope m = Some sc" "leaseProof (rc_payload m) = Inr (i, n)"
    "admits (abs_sql (hb_db h') sc) (su_clock su AtLeaseCheck) (hc_subject source) i n"
proof -
  have "\<exists>m'. genuine c source raw m' \<and> (leaseRequired (rc_type m') \<longrightarrow> (\<exists>x. checkLease su source m' (hb_db h') = Inr x))"
    using assms(1,2) by (rule forwardedE) blast
  with assms(3,4) obtain x where x: "checkLease su source m (hb_db h') = Inr x" by (auto simp: genuine_def)
  from x obtain sc i n where p: "messageLeaseScope m = Some sc" "leaseProof (rc_payload m) = Inr (i, n)" "validLeaseScope sc"
    "\<not> IsZero (su_clock su AtLeaseCheck)"
    "proof_admitted sql_view (hb_db h') sc (su_clock su AtLeaseCheck) (hc_subject source) i n"
    by (rule checked_lease)
  from that [OF p(1,2)] sql_lease.proof_admitted_abs [OF assms(5) p(3,4)] p(5) show ?thesis by simp
qed

text \<open>Property C1: fencing end to end. Take two lease-bound controls of one thread that the hub forwards to the
  Node, and between them any history of the hub: other frames from anyone, connections made and lost,
  sessions refreshed, and any calls of the store by the Server's other handlers, with any clocks, faults
  and failing sends. The epoch that the later control proves is not smaller, and if it is equal, both come from
  the same client under the same lease. A client whose lease was taken over can never again act on
  the thread with its old lease.\<close>

theorem hub_fencing:
  assumes "lease_table_inv (hb_db h)"
    and "route_frame c su source raw h = (h1, effects, ok)" "Sent AtForward r raw \<in> set effects"
    and "route_frame c su' source' raw' (hub_run c h1 as) = (h2, effects', ok')" "Sent AtForward r' raw' \<in> set effects'"
    and "parseRoutedControl c raw = Some m" "parseRoutedControl c raw' = Some m'"
    and "leaseRequired (rc_type m)" "leaseRequired (rc_type m')" "messageLeaseScope m' = messageLeaseScope m"
  shows "\<exists>i n i' n'. leaseProof (rc_payload m) = Inr (i, n) \<and> leaseProof (rc_payload m') = Inr (i', n') \<and> n \<le> n' \<and>
    (n' = n \<longrightarrow> i' = i \<and> hc_subject source' = hc_subject source)"
proof -
  have inv1: "lease_table_inv (hb_db h1)" by (rule db_reaches_leases [OF route_reaches [OF assms(2)] assms(1)])
  have reach: "db_reaches (hb_db h1) (hb_db h2)"
    by (rule db_reaches_trans [OF hub_run_reaches route_reaches [OF assms(4)]])
  have inv2: "lease_table_inv (hb_db h2)" by (rule db_reaches_leases [OF reach inv1])
  from assms(2,3,6,8) inv1 obtain sc i n where p: "messageLeaseScope m = Some sc" "leaseProof (rc_payload m) = Inr (i, n)"
    "admits (abs_sql (hb_db h1) sc) (su_clock su AtLeaseCheck) (hc_subject source) i n"
    by (rule forwarded_lease)
  from assms(4,5,7,9) inv2 obtain sc' i' n' where q: "messageLeaseScope m' = Some sc'" "leaseProof (rc_payload m') = Inr (i', n')"
    "admits (abs_sql (hb_db h2) sc') (su_clock su' AtLeaseCheck) (hc_subject source') i' n'"
    by (rule forwarded_lease)
  from p(1) q(1) assms(10) have "sc' = sc" by simp
  with admits_later [OF db_reaches_leases(2) [OF reach inv1] p(3)] q p(2) show ?thesis by auto
qed

theorem hub_fencing_witness:
  "Sent AtForward 1 (wire_v1 demo_a) \<in> set (fst (snd (route_frame demo_codec demo_world (demo_source ''a'') (wire_v1 demo_a)
     (demo_hub demo_lease_db)))) \<and>
   Sent AtForward 1 (wire_v1 demo_b) \<in> set (fst (snd (route_frame demo_codec demo_world (demo_source ''b'') (wire_v1 demo_b)
     (hub_run demo_codec (demo_hub (demo_checked demo_lease_db demo_a))
       [Store (Leased live_env (Acquire (demo_acquire ''b'' True demo_now)))])))) \<and>
   (\<exists>i n i' n'. leaseProof (rc_payload (routed_v1 demo_a)) = Inr (i, n) \<and>
      leaseProof (rc_payload (routed_v1 demo_b)) = Inr (i', n') \<and> n \<le> n')"
proof -
  let ?as = "[Store (Leased live_env (Acquire (demo_acquire ''b'' True demo_now)))]"
  have run: "hub_run demo_codec (demo_hub (demo_checked demo_lease_db demo_a)) ?as = demo_hub demo_taken_db"
    by (simp add: demo_hub_def demo_taken_db_def)
  have inv: "lease_table_inv (hb_db (demo_hub demo_lease_db))" using demo_lease_inv by (simp add: demo_hub_def)
  have "\<exists>i n i' n'. leaseProof (rc_payload (routed_v1 demo_a)) = Inr (i, n) \<and>
      leaseProof (rc_payload (routed_v1 demo_b)) = Inr (i', n') \<and> n \<le> n' \<and>
      (n' = n \<longrightarrow> i' = i \<and> hc_subject (demo_source ''b'') = hc_subject (demo_source ''a''))"
    by (rule hub_fencing [OF inv demo_forward_a(2) _ demo_forward_b(2) [folded run] _
          frame_ready_reads(2) [OF demo_ready_a] frame_ready_reads(2) [OF demo_ready_b] demo_required demo_required, of 1 1])
      (simp_all add: demo_scope_of)
  then show ?thesis unfolding run demo_forward_a(2) demo_forward_b(2) by auto
qed

lemma route_acceptsD:
  assumes "route_accepts c su source raw h = Some m" "route_frame c su source raw h = (h', effects, ok)"
  obtains d where "validateControlFrame c su source raw (hb_db h) = (d, Inr m)" "db_reaches d (hb_db h')"
proof -
  from assms(1) obtain header d where f: "classifyRoutedFrame raw (hc_role source) = Some header"
    "rh_owner header = hc_owner source" "hc_role source \<noteq> SessionRoleNode"
    "validateControlFrame c su source raw (hb_db h) = (d, Inr m)"
    by (auto simp: route_accepts_def split: option.splits if_splits prod.splits sum.splits)
  have "db_reaches d (hb_db h')"
    using assms(2) server_control_reaches [of c su source m "h\<lparr>hb_db := d\<rparr>" h' effects ok]
    by (auto simp: route_frame_def f Let_def split: if_splits)
  with that f(4) show ?thesis by blast
qed

lemma frame_replay_signer:
  "signer_of (frame_replay m expiry) = (rc_owner m, rc_node m, ws_client (the (rc_signer m)), ws_key (the (rc_signer m)))"
  "re_sequence (frame_replay m expiry) = rc_sequence m"
  by (simp_all add: frame_replay_def signer_of_def)

text \<open>Property C3: no control counts twice at the hub. If the hub accepts a control and later, after any history,
  accepts another control for the same node signed by the same client key, the later one has a higher sequence.
  In particular the same frame is never accepted again, from whatever connection.\<close>

theorem hub_controls_once:
  assumes "route_accepts c su source raw h = Some m" "route_frame c su source raw h = (h1, effects, ok)"
    and "route_accepts c su' source' raw' (hub_run c h1 as) = Some m'"
    and "rc_owner m' = rc_owner m" "rc_node m' = rc_node m" "rc_signer m' = rc_signer m"
  shows "rc_sequence m < rc_sequence m'"
proof -
  from assms(1,2) obtain d where d: "validateControlFrame c su source raw (hb_db h) = (d, Inr m)" "db_reaches d (hb_db h1)"
    by (rule route_acceptsD)
  from d(1) obtain t where t: "serverCheckAndRecord (su_store su AtReplay) (su_clock su AtReplay) (hb_db h) (frame_replay m t) = (d, None)"
    by (rule frame_accepted)
  obtain h2 effects' ok' where "route_frame c su' source' raw' (hub_run c h1 as) = (h2, effects', ok')" by (metis prod_cases3)
  with assms(3) obtain d' where "validateControlFrame c su' source' raw' (hb_db (hub_run c h1 as)) = (d', Inr m')"
    by (rule route_acceptsD)
  then obtain t' where t': "serverCheckAndRecord (su_store su' AtReplay) (su_clock su' AtReplay) (hb_db (hub_run c h1 as))
      (frame_replay m' t') = (d', None)"
    by (rule frame_accepted)
  have same: "signer_of (frame_replay m' t') = signer_of (frame_replay m t)" using assms(4-6) by (simp add: frame_replay_signer)
  have "above (server_highest (hb_db (hub_run c h1 as)) (signer_of (frame_replay m t))) (rc_sequence m')"
    using server_check_accept [OF t'] by (simp add: same frame_replay_signer(2))
  from db_reaches_above [OF db_reaches_trans [OF d(2) hub_run_reaches] this]
  have "above (server_highest d (signer_of (frame_replay m t))) (rc_sequence m')" .
  moreover have "server_highest d (signer_of (frame_replay m t)) = Some (rc_sequence m)"
    using server_check_accept [OF t] by (simp add: server_highest_record frame_replay_signer(2))
  ultimately show ?thesis by (simp add: above_def)
qed

theorem hub_controls_once_witness:
  "route_accepts demo_codec demo_world (demo_source ''a'') (wire_v1 demo_a) (demo_hub demo_lease_db) = Some (routed_v1 demo_a) \<and>
   route_accepts demo_codec demo_world (demo_source ''a'') (wire_v1 demo_a') (demo_hub (demo_checked demo_lease_db demo_a)) =
     Some (routed_v1 demo_a') \<and>
   rc_sequence (routed_v1 demo_a) < rc_sequence (routed_v1 demo_a')"
proof -
  have later: "route_accepts demo_codec demo_world (demo_source ''a'') (wire_v1 demo_a')
      (hub_run demo_codec (demo_hub (demo_checked demo_lease_db demo_a)) []) = Some (routed_v1 demo_a')"
    unfolding hub_run_simps by (rule demo_forward_a'(1))
  have "rc_sequence (routed_v1 demo_a) < rc_sequence (routed_v1 demo_a')"
    by (rule hub_controls_once [OF demo_forward_a(1,2) later])
      (simp_all add: routed_v1_def demo_turn_def demo_signed_def)
  with demo_forward_a(1) demo_forward_a'(1) show ?thesis by blast
qed



section \<open>Connections\<close>

text \<open>Property C5: owners are kept apart. After any history of a hub whose owners' identifiers hold no NUL byte,
  whatever a frame makes the hub send, be it the frame itself, an answer, an event or a lease change, goes to a
  connection of the owner the frame came from.\<close>

theorem hub_owner_isolation:
  assumes "hub_inv h" "list_all proper_action as" "\<not> contains_nul (hc_owner source)"
    and "route_frame c su source raw (hub_run c h as) = (h', effects, ok)" "Sent place r raw' \<in> set effects"
  shows "\<exists>con. knows (hub_run c h as) source con \<and> hc_relay con = r \<and> hc_owner con = hc_owner source"
  using inside_route [OF assms(4) hub_run_inv [OF assms(1,2)] assms(3)] assms(5) by (auto simp: list_all_iff)

theorem hub_owner_isolation_witness:
  "\<exists>con. knows (demo_hub demo_lease_db) (demo_source ''a'') con \<and> hc_relay con = 1 \<and> hc_owner con = ''o''"
proof -
  have sent: "route_frame demo_codec demo_world (demo_source ''a'') (wire_v1 demo_a) (hub_run demo_codec (demo_hub demo_lease_db) []) =
      (demo_hub (demo_checked demo_lease_db demo_a), [Sent AtForward 1 (wire_v1 demo_a)], True)"
    unfolding hub_run_simps by (rule demo_forward_a(2))
  have "hub_inv (demo_hub demo_lease_db)" "\<not> contains_nul (hc_owner (demo_source ''a''))"
    by (simp_all add: hub_inv_def demo_hub_def entry_ok_def demo_source_def demo_node_source_def contains_nul_def)
  from hub_owner_isolation [OF this(1) _ this(2) sent, of AtForward 1 "wire_v1 demo_a"]
  show ?thesis by (simp add: demo_source_def)
qed

text \<open>The client a request of \<^verbatim>\<open>ControlHandler\<close> names.\<close>

definition named_client :: "http_request \<Rightarrow> string" where
  "named_client q = (if rq_client_id q = [] then rq_query_client q else rq_client_id q)"

definition revoked_node :: "server_db \<Rightarrow> string \<Rightarrow> bool" where
  "revoked_node db n = (case node_of db n of None \<Rightarrow> False | Some r \<Rightarrow> nd_status r = Revoked)"

definition revoked_client :: "server_db \<Rightarrow> string \<Rightarrow> bool" where
  "revoked_client db k = (case client_of db k of None \<Rightarrow> False | Some r \<Rightarrow> cc_status r = Revoked)"

lemma revoked_node_stays: "revoked_node (hb_db h) n \<Longrightarrow> revoked_node (hb_db (hub_run c h as)) n"
proof -
  assume r: "revoked_node (hb_db h) n"
  obtain cs where cs: "hb_db (hub_run c h as) = run_steps_of db_do (hb_db h) cs"
    using hub_run_reaches [of h c as] by (auto simp: db_reaches_def)
  from r obtain x where x: "node_of (hb_db h) n = Some x" "nd_status x = Revoked" by (auto simp: revoked_node_def split: option.splits)
  have "node_of (run_steps_of db_do (hb_db h) cs) n = Some x"
    by (rule hub_nodes.final_stays [OF x(1)]) (use x(2) in \<open>auto simp: node_moves_def list_ex_iff\<close>)
  with x(2) cs show ?thesis by (simp add: revoked_node_def)
qed

lemma revoked_client_stays: "revoked_client (hb_db h) k \<Longrightarrow> revoked_client (hb_db (hub_run c h as)) k"
proof -
  assume r: "revoked_client (hb_db h) k"
  obtain cs where cs: "hb_db (hub_run c h as) = run_steps_of db_do (hb_db h) cs"
    using hub_run_reaches [of h c as] by (auto simp: db_reaches_def)
  from r obtain x where x: "client_of (hb_db h) k = Some x" "cc_status x = Revoked" by (auto simp: revoked_client_def split: option.splits)
  have "\<exists>y. client_of (run_steps_of db_do (hb_db h) cs) k = Some y \<and> cc_status y = Revoked"
    by (rule hub_clients.closed_stays [where Q = "\<lambda>y. cc_status y = Revoked", OF x]) (auto simp: client_moves_def list_ex_iff)
  with cs show ?thesis by (auto simp: revoked_client_def)
qed

text \<open>Property C6: revocation holds at the hub. Once a node is revoked in the database, then after any history its
  requests to connect are refused, and no session token makes the Server accept an HTTP request in its name;
  once a control client is revoked, its requests to connect are refused.\<close>

theorem revoked_kept_off_hub:
  "(revoked_node (hb_db h) (rq_node_id q) \<longrightarrow>
     (\<exists>x. snd (NodeHandler opt e q (hub_run c h as)) = Inl x) \<and>
     snd (AuthenticateNodeRequest c su (rq_node_id q) authorization (hub_run c h as)) = None) \<and>
   (revoked_client (hb_db h) (named_client q) \<longrightarrow> (\<exists>x. snd (ControlHandler opt e q (hub_run c h as)) = Inl x))"
proof (intro conjI impI)
  let ?h = "hub_run c h as"
  assume "revoked_node (hb_db h) (rq_node_id q)"
  then have "revoked_node (hb_db ?h) (rq_node_id q)" by (rule revoked_node_stays)
  then have no: "ns_status s \<noteq> Active" if "NodeSession e (hb_db ?h) (rq_node_id q) = Inr s" for e s
    using node_session_status [OF that] by (auto simp: revoked_node_def split: option.splits)
  show "\<exists>x. snd (NodeHandler opt e q ?h) = Inl x"
    using no by (auto simp: NodeHandler_def split: sum.splits prod.splits bool.splits)
  show "snd (AuthenticateNodeRequest c su (rq_node_id q) authorization ?h) = None"
    using no by (auto simp: AuthenticateNodeRequest_def Let_def split: option.splits sum.splits)
next
  let ?h = "hub_run c h as"
  assume "revoked_client (hb_db h) (named_client q)"
  then have "revoked_client (hb_db ?h) (named_client q)" by (rule revoked_client_stays)
  then have no: "cs_status s \<noteq> Active" if "ControlClientSession e (hb_db ?h) (named_client q) = Inr s" for e s
    using client_session_status [OF that] by (auto simp: revoked_client_def split: option.splits)
  show "\<exists>x. snd (ControlHandler opt e q ?h) = Inl x"
    unfolding ControlHandler_def Let_def named_client_def [symmetric] using no by (auto split: sum.splits prod.splits bool.splits)
qed

definition demo_request :: "string \<Rightarrow> string \<Rightarrow> http_request" where
  "demo_request n k = \<lparr>rq_tls = True, rq_host = ''h'', rq_remote = ''10.0.0.1:9'', rq_origin = (if k = [] then [] else ''https://h''),
     rq_authorization = [], rq_node_id = n, rq_client_id = k, rq_query_client = []\<rparr>"

definition demo_options :: hub_options where
  "demo_options = \<lparr>ho_origins = [''https://h''], ho_allow_loopback = False, ho_authority = [], ho_allow_proxy = False,
     ho_public_host = [], ho_challenge_ttl = seconds 10\<rparr>"

definition demo_revoked :: server_db where
  "demo_revoked = fst (RevokeControlClient live_env (fst (RevokeNode live_env demo_full ''o'' ''n1'' ''n2'' (seconds 600))) ''o'' ''c1''
     (seconds 610))"

definition demo_reply :: bytes where
  "demo_reply = Marshal (string_members (authentication_document
     \<lparr>sa_version = ''1'', sa_type = ''authenticate'', sa_signature = EncodeToString (replicate 64 CHR 0x05)\<rparr>))"

definition demo_admission :: admission where
  "demo_admission = \<lparr>ad_role = SessionRoleControl, ad_owner = ''o'', ad_subject = ''c1'', ad_key = ''k'', ad_public_key = key32 CHR ''u''\<rparr>"

definition demo_release :: routed_control where
  "demo_release = routed_v1 ((demo_signed 7)\<lparr>ms_type := ''lease.release'', ms_workspace := Some ''w'', ms_thread := Some ''t'',
     ms_payload := Some [(''epoch'', JNumber ''1''), (''leaseId'', JString ''aL'')]\<rparr>)"

lemma demo_admits:
  "revoked_node demo_revoked ''n2''" "revoked_client demo_revoked ''c1''"
  "snd (ControlHandler demo_options live_env (demo_request [] ''c1'') (demo_hub demo_full)) = Inr demo_admission"
  "snd (snd (serve demo_codec demo_world demo_options demo_admission 5 (Some demo_reply) (demo_hub demo_full))) \<noteq> None"
  by code_simp+

theorem revoked_kept_off_hub_witness:
  "(\<exists>x. snd (NodeHandler demo_options live_env (demo_request ''n2'' ''c1'') (hub_run demo_codec (demo_hub demo_revoked) [CutNode ''o'' ''n2''])) = Inl x) \<and>
   (\<exists>x. snd (ControlHandler demo_options live_env (demo_request ''n2'' ''c1'') (hub_run demo_codec (demo_hub demo_revoked) [CutNode ''o'' ''n2''])) = Inl x)"
proof -
  have "revoked_node (hb_db (demo_hub demo_revoked)) (rq_node_id (demo_request ''n2'' ''c1''))"
    "revoked_client (hb_db (demo_hub demo_revoked)) (named_client (demo_request ''n2'' ''c1''))"
    using demo_admits(1,2) by (simp_all add: demo_hub_def demo_request_def named_client_def)
  with revoked_kept_off_hub [of "demo_hub demo_revoked" "demo_request ''n2'' ''c1''" demo_options live_env demo_codec "[CutNode ''o'' ''n2'']"]
  show ?thesis by blast
qed

text \<open>A challenge that was answered in time under a public key.\<close>

definition answered :: "codec \<Rightarrow> surroundings \<Rightarrow> session_role \<Rightarrow> string \<Rightarrow> duration \<Rightarrow> bytes \<Rightarrow> bytes option \<Rightarrow> string \<Rightarrow> bool" where
  "answered c su role subject ttl key reply connectionID =
     (\<exists>v raw answer signature input. new_challenge su role subject ttl = Some v \<and> sh_connection v = connectionID \<and>
        reply = Some raw \<and> read_authentication raw = Some answer \<and>
        decodeCanonicalBase64URL (sa_signature answer) 64 = Some signature \<and>
        Before (su_clock su AtAnswer) (mustParseTime (sh_expires v)) \<and>
        SessionSigningInput c v = Some input \<and> cd_verify c key input signature)"

lemma authenticate_answered:
  assumes "authenticate c su a ttl wire reply h = (h', sent, Some v)"
  shows "answered c su (ad_role a) (ad_subject a) ttl (ad_public_key a) reply (sh_connection v)"
  using assms unfolding authenticate_def answered_def
  by (auto split: option.splits if_splits prod.splits bool.splits)

lemma put_entry_lookup: "map_of (put_entry k v m) k = Some v"
  by (auto simp: put_entry_def map_add_def map_of_eq_None_iff split: option.splits) (auto dest!: map_of_SomeD)

definition registered :: "hub \<Rightarrow> hub_connection \<Rightarrow> bool" where
  "registered h con =
     (map_of (if hc_role con = SessionRoleNode then hb_nodes h else hb_controls h) (connectionKey (hc_owner con) (hc_subject con)) =
      Some con)"

lemma touch_maps [simp]: "hb_nodes (touch_subject su con h) = hb_nodes h" "hb_controls (touch_subject su con h) = hb_controls h"
  by (simp_all add: touch_subject_def)

lemma register_registered: "register su con h = (h', effects, True) \<Longrightarrow> registered h' con"
  by (auto simp: register_def Let_def registered_def put_entry_lookup put_detail_def split: if_splits)

lemma serve_answered:
  assumes "serve c su opt a relay reply h = (h', effects, Some con)"
  shows "answered c su (ad_role a) (ad_subject a) (ho_challenge_ttl opt) (ad_public_key a) reply (hc_connection con) \<and>
    hc_owner con = ad_owner a \<and> hc_subject con = ad_subject a \<and> hc_role con = ad_role a \<and>
    hc_public_key con = ad_public_key a \<and> hc_key con = ad_key a \<and> registered h' con"
  using assms
  by (auto simp: serve_def new_connection_def split: option.splits prod.splits bool.splits
      dest!: authenticate_answered dest: register_registered)



section \<open>Releasing a lease that never was\<close>

lemma zero_sequence_refused: "ms_sequence m < 1 \<Longrightarrow> MarshalEvent11 c m = Inl ErrInvalidEvent"
  by (simp add: MarshalEvent11_def)

text \<open>Property C40: releasing a lease that never was costs the connection. For a thread with no lease the store answers
  a release with success and epoch 0; the hub then cannot encode the v1.1 change event, whose sequence must be positive,
  and gives up: the client gets no answer and its connection is dropped.\<close>

theorem release_unknown_lease_disconnects:
  assumes "rc_type m = ''lease.release''" "messageLeaseScope m = Some sc" "leaseMutationPayload (rc_payload m) = Some (i, n)"
    and "leaseSelect (hb_db h) sc = None" "su_store su AtLease = live_env"
    and "validLeaseScope sc" "validLeaseText (hc_subject source) 128" "validLeaseText i 128" "\<not> IsZero (su_clock su AtLease)"
    and "handleServerControl c su source m h = (h', effects, ok)"
  shows "h' = h \<and> \<not> ok \<and> AtResult \<notin> sent_at effects"
proof -
  let ?r = "zero_lease\<lparr>le_scope := sc, le_state := StReleased\<rparr>"
  have n: "1 \<le> n" using assms(3) by (auto simp: leaseMutationPayload_def split: option.splits json.splits if_splits)
  have op: "lease_operation su source m sc (hb_db h) = Inr (hb_db h, ?r, None)"
    using assms n by (simp add: lease_operation_def Let_def ReleaseLease_def scanLeaseRow_def)
  obtain change ok' where change: "broadcastLeaseChange c su ?r (rc_message m) h = (change, ok')" by fastforce
  have "\<not> ok'"
    using change by (auto simp: broadcastLeaseChange_def Let_def zero_lease_def zero_sequence_refused split: option.splits)
  moreover have "AtResult \<notin> sent_at change"
    using sent_at_change [of c su ?r "rc_message m" h] change by auto
  ultimately show ?thesis
    using assms(10) op change assms(1,2) by (auto simp: handleServerControl_def)
qed

theorem release_unknown_lease_disconnects_witness:
  "fst (handleServerControl demo_codec demo_world (demo_source ''a'') demo_release (demo_hub demo_db)) = demo_hub demo_db \<and>
   \<not> snd (snd (handleServerControl demo_codec demo_world (demo_source ''a'') demo_release (demo_hub demo_db)))"
proof -
  have m: "rc_type demo_release = ''lease.release''" "messageLeaseScope demo_release = Some demo_scope"
    "leaseMutationPayload (rc_payload demo_release) = Some (''aL'', 1)"
    "leaseSelect demo_db demo_scope = None" "validLeaseScope demo_scope" "validLeaseText (hc_subject (demo_source ''a'')) 128"
    "validLeaseText ''aL'' 128"
    by code_simp+
  obtain h' effects ok where r: "handleServerControl demo_codec demo_world (demo_source ''a'') demo_release (demo_hub demo_db) = (h', effects, ok)"
    by (metis prod_cases3)
  have "leaseSelect (hb_db (demo_hub demo_db)) demo_scope = None" using m(4) by (simp add: demo_hub_def)
  moreover have "su_store demo_world AtLease = live_env" "\<not> IsZero (su_clock demo_world AtLease)"
    by (simp_all add: demo_world_def IsZero_def demo_now_def)
  ultimately show ?thesis
    using release_unknown_lease_disconnects [OF m(1-3) _ _ m(5-7) _ r] r by simp
qed

end
