(* ===== verification/Go_Regexp.thy ===== *)
theory Go_Regexp
  imports Go_Text
begin

text \<open>
  What the sources use of the Go package \<^verbatim>\<open>regexp\<close>: the leftmost match of a pattern, among the
  matches at one place the one a backtracking search finds first, and the replacement of all matches from
  left to right. A pattern repeats single runes only, and every pattern of the sources matches at least one rune.
  The text is a list of cells, a rune with the bytes it was read from; a byte that starts no rune is
  U+FFFD.
\<close>

section \<open>Cells\<close>

type_synonym cell = "int \<times> string"

function cells :: "string \<Rightarrow> cell list" where
  "cells [] = []"
| "cells (c # cs) =
     (case decode_rune c cs of
        (r, n) \<Rightarrow> (case r of None \<Rightarrow> 65533 | Some x \<Rightarrow> x, c # take n cs) # cells (drop n cs))"
  by pat_completeness auto
termination
  by (relation "measure length") auto

definition cell_text :: "cell list \<Rightarrow> string" where
  "cell_text w = concat (map snd w)"

definition slice :: "cell list \<Rightarrow> nat \<Rightarrow> nat \<Rightarrow> string" where
  "slice w i j = cell_text (take (j - i) (drop i w))"

lemma cell_text_cells [simp]: "cell_text (cells s) = s"
  by (induction s rule: cells.induct) (auto simp: cell_text_def split: prod.splits)

lemma cell_text_append: "cell_text (u @ v) = cell_text u @ cell_text v"
  by (simp add: cell_text_def)

section \<open>Patterns\<close>

text \<open>\<open>Runes p lo hi\<close> takes between \<open>lo\<close> and \<open>hi\<close> runes of the class \<open>p\<close>, as many as it can.\<close>

datatype re =
    Runes "int \<Rightarrow> bool" nat "nat option"
  | Boundary
  | Then re re
  | Either re re
  | Group nat re

record cursor =
  cu_before :: "int option"
  cu_pos :: nat
  cu_rest :: "cell list"
  cu_groups :: "(nat \<times> nat \<times> nat) list"

definition cursor_at :: "cell list \<Rightarrow> cursor" where
  "cursor_at w = \<lparr>cu_before = None, cu_pos = 0, cu_rest = w, cu_groups = []\<rparr>"

definition advance :: "nat \<Rightarrow> cursor \<Rightarrow> cursor" where
  "advance n c =
     (if n = 0 then c
      else c\<lparr>cu_before := Some (fst (last (take n (cu_rest c)))), cu_pos := cu_pos c + n, cu_rest := drop n (cu_rest c)\<rparr>)"

definition is_word :: "int \<Rightarrow> bool" where
  "is_word r = (48 \<le> r \<and> r \<le> 57 \<or> 65 \<le> r \<and> r \<le> 90 \<or> r = 95 \<or> 97 \<le> r \<and> r \<le> 122)"

definition at_boundary :: "cursor \<Rightarrow> bool" where
  "at_boundary c =
     ((case cu_before c of None \<Rightarrow> False | Some r \<Rightarrow> is_word r) \<noteq> (case cu_rest c of [] \<Rightarrow> False | x # _ \<Rightarrow> is_word (fst x)))"

text \<open>Where a pattern can end, the preferred place first.\<close>

fun ends :: "re \<Rightarrow> cursor \<Rightarrow> cursor list" where
  "ends (Runes p lo hi) c =
     (let most = length (takeWhile (\<lambda>x. p (fst x)) (cu_rest c));
          top = (case hi of None \<Rightarrow> most | Some h \<Rightarrow> min h most)
      in map (\<lambda>n. advance n c) (rev [lo..<Suc top]))"
| "ends Boundary c = (if at_boundary c then [c] else [])"
| "ends (Then a b) c = concat (map (ends b) (ends a c))"
| "ends (Either a b) c = ends a c @ ends b c"
| "ends (Group i a) c = map (\<lambda>d. d\<lparr>cu_groups := (i, cu_pos c, cu_pos d) # cu_groups d\<rparr>) (ends a c)"

type_synonym found = "nat \<times> nat \<times> (nat \<times> nat \<times> nat) list"

text \<open>\<^verbatim>\<open>FindAllStringSubmatchIndex\<close>: the matches from left to right with their groups.\<close>

function find_all :: "re \<Rightarrow> cursor \<Rightarrow> found list" where
  "find_all r c =
     (case cu_rest c of
        [] \<Rightarrow> []
      | _ # _ \<Rightarrow>
          (case ends r c of
             d # _ \<Rightarrow>
               if length (cu_rest d) < length (cu_rest c)
               then (cu_pos c, cu_pos d, cu_groups d) # find_all r (d\<lparr>cu_groups := []\<rparr>)
               else find_all r (advance 1 c)
           | [] \<Rightarrow> find_all r (advance 1 c)))"
  by pat_completeness auto
termination
  by (relation "measure (\<lambda>(r, c). length (cu_rest c))") (auto simp: advance_def)

declare find_all.simps [simp del]

definition group_of :: "found \<Rightarrow> nat \<Rightarrow> nat \<times> nat" where
  "group_of m i = (case map_of (snd (snd m)) i of None \<Rightarrow> (0, 0) | Some x \<Rightarrow> x)"

fun replace_found :: "cell list \<Rightarrow> (found \<Rightarrow> string) \<Rightarrow> nat \<Rightarrow> found list \<Rightarrow> string" where
  "replace_found w f start [] = cell_text (drop start w)"
| "replace_found w f start (m # ms) = slice w start (fst m) @ f m @ replace_found w f (fst (snd m)) ms"

text \<open>\<^verbatim>\<open>ReplaceAllString\<close>; the replacement starts with the texts of the groups \<open>gs\<close>.\<close>

definition ReplaceAllString :: "re \<Rightarrow> nat list \<Rightarrow> string \<Rightarrow> string \<Rightarrow> string" where
  "ReplaceAllString r gs text s =
     (let w = cells s
      in replace_found w (\<lambda>m. concat (map (\<lambda>i. slice w (fst (group_of m i)) (snd (group_of m i))) gs) @ text) 0
           (find_all r (cursor_at w)))"

section \<open>Classes\<close>

text \<open>\<open>(?i)\<close>: a class takes a rune when it holds a rune of the same case orbit. Beside the letters of ASCII
  the orbits of K and S have the Kelvin sign and the long s.\<close>

definition orbit :: "int \<Rightarrow> int list" where
  "orbit r =
     (if r = 75 \<or> r = 107 \<or> r = 8490 then [75, 107, 8490]
      else if r = 83 \<or> r = 115 \<or> r = 383 then [83, 115, 383]
      else if 65 \<le> r \<and> r \<le> 90 then [r, r + 32]
      else if 97 \<le> r \<and> r \<le> 122 then [r - 32, r]
      else [r])"

definition any_case :: "(int \<Rightarrow> bool) \<Rightarrow> int \<Rightarrow> bool" where
  "any_case p r = list_ex p (orbit r)"

definition one_of :: "string \<Rightarrow> int \<Rightarrow> bool" where
  "one_of s r = list_ex (\<lambda>c. byte c = r) s"

definition alnum :: "int \<Rightarrow> bool" where
  "alnum r = (48 \<le> r \<and> r \<le> 57 \<or> 97 \<le> r \<and> r \<le> 122)"

text \<open>A letter or digit in any case, or one of the characters.\<close>

definition token_class :: "string \<Rightarrow> int \<Rightarrow> bool" where
  "token_class extra = any_case (\<lambda>r. alnum r \<or> one_of extra r)"

definition white :: "int \<Rightarrow> bool" where
  "white r = (r = 9 \<or> r = 10 \<or> r = 12 \<or> r = 13 \<or> r = 32)"

text \<open>A letters of the pattern, and a sequence of patterns.\<close>

definition single :: "(int \<Rightarrow> bool) \<Rightarrow> re" where
  "single p = Runes p 1 (Some 1)"

fun letters :: "string \<Rightarrow> re" where
  "letters [] = Runes (\<lambda>_. False) 0 None"
| "letters [c] = single (any_case (\<lambda>r. r = byte c))"
| "letters (c # d # cs) = Then (single (any_case (\<lambda>r. r = byte c))) (letters (d # cs))"

fun chain :: "re list \<Rightarrow> re" where
  "chain [] = Runes (\<lambda>_. False) 0 None"
| "chain [r] = r"
| "chain (r # q # rs) = Then r (chain (q # rs))"

fun alternatives :: "re list \<Rightarrow> re" where
  "alternatives [] = Runes (\<lambda>_. False) 1 None"
| "alternatives [r] = r"
| "alternatives (r # q # rs) = Either r (alternatives (q # rs))"

section \<open>Laws\<close>

lemma slice_drop: "i \<le> j \<Longrightarrow> slice w i j @ cell_text (drop j w) = cell_text (drop i w)"
  using append_take_drop_id [of "j - i" "drop i w"] by (simp add: slice_def flip: cell_text_append)

text \<open>A text without a match stays as it is.\<close>

lemma ReplaceAllString_none: "find_all r (cursor_at (cells s)) = [] \<Longrightarrow> ReplaceAllString r gs text s = s"
  by (simp add: ReplaceAllString_def)

end
