(* ===== verification/Redaction.thy ===== *)
theory Redaction
  imports Go_Regexp
begin

text \<open>
  \<^verbatim>\<open>internal/security/credential/redact.go\<close>: what may leave the Node in the payload of an
  event. The values are those of Go's \<^verbatim>\<open>any\<close> that the sources put into a payload; a number
  is given by the literal \<^verbatim>\<open>json.Marshal\<close> writes for it, a map by its entries.
\<close>

section \<open>Dynamic values\<close>

datatype dyn =
    DNil
  | DBool bool
  | DNumber string
  | DText string
  | DBytes string
  | DSlice "dyn list"
  | DStrings "string list"
  | DMap "(string \<times> dyn) list"
  | DTexts "(string \<times> string) list"
  | DMaps "(string \<times> dyn) list list"

type_synonym fields = "(string \<times> dyn) list"

definition put_field :: "string \<Rightarrow> dyn \<Rightarrow> fields \<Rightarrow> fields" where
  "put_field k v m = (k, v) # filter (\<lambda>x. fst x \<noteq> k) m"

definition delete_field :: "string \<Rightarrow> fields \<Rightarrow> fields" where
  "delete_field k m = filter (\<lambda>x. fst x \<noteq> k) m"

lemma map_of_filter_key: "map_of (filter (\<lambda>x. fst x \<noteq> k) m) k' = (if k' = k then None else map_of m k')"
  by (induction m) auto

lemma map_of_put_field [simp]: "map_of (put_field k v m) k' = (if k' = k then Some v else map_of m k')"
  by (simp add: put_field_def map_of_filter_key)

lemma map_of_delete_field [simp]: "map_of (delete_field k m) k' = (if k' = k then None else map_of m k')"
  by (simp add: delete_field_def map_of_filter_key)

section \<open>Sensitive keys\<close>

definition trim_cells :: "(int \<Rightarrow> bool) \<Rightarrow> string \<Rightarrow> string" where
  "trim_cells p s =
     cell_text (rev (dropWhile (\<lambda>x. p (fst x)) (rev (dropWhile (\<lambda>x. p (fst x)) (cells s)))))"

text \<open>\<^verbatim>\<open>strings.ToLower\<close> as far as a comparison with ASCII texts sees it: the letters of ASCII and the
  two runes beyond ASCII whose lower case is in ASCII. Other runes stay beyond ASCII.\<close>

definition lower_cell :: "cell \<Rightarrow> string" where
  "lower_cell x =
     (if 65 \<le> fst x \<and> fst x \<le> 90 then [char_of (nat (fst x + 32))]
      else if fst x = 8490 then ''k'' else if fst x = 304 then ''i'' else snd x)"

definition ToLower :: "string \<Rightarrow> string" where
  "ToLower s = concat (map lower_cell (cells s))"

fun has_double :: "string \<Rightarrow> bool" where
  "has_double (c # d # cs) = (c = CHR ''_'' \<and> d = CHR ''_'' \<or> has_double (d # cs))"
| "has_double _ = False"

text \<open>\<^verbatim>\<open>strings.ReplaceAll(key, "__", "_")\<close>\<close>

fun halve_doubles :: "string \<Rightarrow> string" where
  "halve_doubles (c # d # cs) =
     (if c = CHR ''_'' \<and> d = CHR ''_'' then CHR ''_'' # halve_doubles cs else c # halve_doubles (d # cs))"
| "halve_doubles s = s"

lemma halve_doubles_length: "length (halve_doubles s) \<le> length s"
  by (induction s rule: halve_doubles.induct) auto

lemma halve_doubles_shorter: "has_double s \<Longrightarrow> length (halve_doubles s) < length s"
proof (induction s rule: halve_doubles.induct)
  case (1 c d cs)
  show ?case using 1 halve_doubles_length [of cs] by auto
qed auto

function squeeze :: "string \<Rightarrow> string" where
  "squeeze key = (if has_double key then squeeze (halve_doubles key) else key)"
  by pat_completeness auto
termination
  by (relation "measure length") (auto dest: halve_doubles_shorter)

declare squeeze.simps [simp del]

definition normalizeKey :: "string \<Rightarrow> string" where
  "normalizeKey key =
     squeeze (map (\<lambda>c. if c = CHR ''-'' \<or> c = CHR ''.'' \<or> c = CHR '' '' then CHR ''_'' else c)
       (trim_cells (one_of [CHR 0x22, CHR 0x27]) (ToLower (trim_cells IsSpace key))))"

definition HasSuffix :: "string \<Rightarrow> string \<Rightarrow> bool" where
  "HasSuffix s t = (length t \<le> length s \<and> drop (length s - length t) s = t)"

definition sensitive_names :: "string list" where
  "sensitive_names =
     [''apikey'', ''api_key'', ''authorization'', ''proxy_authorization'', ''cookie'', ''set_cookie'', ''accesstoken'',
      ''access_token'', ''refreshtoken'', ''refresh_token'', ''idtoken'', ''id_token'', ''password'', ''secret'',
      ''clientsecret'', ''client_secret'', ''credential'', ''credentials'', ''auth_json'', ''awssecretaccesskey'',
      ''aws_secret_access_key'', ''awssessiontoken'', ''aws_session_token'']"

definition sensitive_suffixes :: "string list" where
  "sensitive_suffixes =
     [''_api_key'', ''_access_token'', ''_refresh_token'', ''_id_token'', ''_secret'', ''_password'', ''_credential'',
      ''_credentials'', ''_cookie'', ''_authorization'', ''_secret_access_key'', ''_session_token'', ''apikey'',
      ''accesstoken'', ''refreshtoken'', ''clientsecret'', ''sessiontoken'']"

definition isSensitiveKey :: "string \<Rightarrow> bool" where
  "isSensitiveKey key =
     (let n = normalizeKey key in n \<in> set sensitive_names \<or> list_ex (HasSuffix n) sensitive_suffixes)"

section \<open>Credential-shaped text\<close>

definition redactedSecret :: string where
  "redactedSecret = ''<REDACTED_SECRET>''"

abbreviation not_newline :: "int \<Rightarrow> bool" where
  "not_newline r \<equiv> r \<noteq> 13 \<and> r \<noteq> 10"

abbreviation spaces :: re where
  "spaces \<equiv> Runes white 0 None"

definition header_pattern :: "string list \<Rightarrow> string \<Rightarrow> re" where
  "header_pattern names separators =
     chain [Boundary, Group 1 (alternatives (map letters names)),
       Group 2 (chain [spaces, single (one_of separators), spaces]), Runes not_newline 1 None]"

definition authorizationHeaderPattern :: re where
  "authorizationHeaderPattern = header_pattern [''authorization'', ''proxy-authorization''] '':''"

definition cookieHeaderPattern :: re where
  "cookieHeaderPattern = header_pattern [''cookie'', ''set-cookie''] '':''"

definition authJSONPattern :: re where
  "authJSONPattern = header_pattern [''auth.json''] '':=''"

definition credentialSchemePattern :: re where
  "credentialSchemePattern =
     chain [Boundary, alternatives [letters ''bearer'', letters ''basic''], Runes white 1 None,
       Runes (token_class ''._~+/=:-'') 4 None]"

definition letter_class :: "int \<Rightarrow> bool" where
  "letter_class = any_case (\<lambda>r. 97 \<le> r \<and> r \<le> 122)"

definition assignmentPattern :: re where
  "assignmentPattern =
     (let quote_mark = one_of [CHR 0x22, CHR 0x27] in
      chain [Group 1 (Runes quote_mark 0 (Some 1)), Group 2 (Then (single letter_class) (Runes (token_class ''_.-'') 0 None)),
        Group 3 (Runes quote_mark 0 (Some 1)), Group 4 (chain [spaces, single (one_of '':=''), spaces]),
        alternatives
          [chain [single (\<lambda>r. r = 34), Runes (\<lambda>r. r \<noteq> 34 \<and> not_newline r) 0 None, single (\<lambda>r. r = 34)],
           chain [single (\<lambda>r. r = 39), Runes (\<lambda>r. r \<noteq> 39 \<and> not_newline r) 0 None, single (\<lambda>r. r = 39)],
           Runes (\<lambda>r. \<not> white r \<and> \<not> one_of '',;}]'' r \<and> not_newline r) 1 None]])"

definition tokenShapePattern :: re where
  "tokenShapePattern =
     alternatives
       [chain [Boundary, alternatives [letters ''sk'', letters ''sess''], letters ''-'', single (token_class []), Runes (token_class ''_-'') 3 None],
        chain [Boundary, letters ''github_pat_'', Runes (token_class ''_'') 8 None],
        chain [Boundary, letters ''gh'', single (any_case (one_of ''pousr'')), letters ''_'', Runes (token_class []) 8 None],
        chain [Boundary, letters ''xox'', single (any_case (one_of ''baprs'')), letters ''-'', Runes (token_class ''-'') 8 None],
        chain [Boundary, letters ''AIza'', Runes (token_class ''_-'') 12 None],
        chain [Boundary, alternatives [letters ''AKIA'', letters ''ASIA''], Runes (token_class []) 12 None],
        chain [Boundary, letters ''eyJ'', Runes (token_class ''_-'') 8 None, letters ''.'', Runes (token_class ''_-'') 8 None, letters ''.'',
          Runes (token_class ''_-'') 8 None]]"

text \<open>The assignments whose key is sensitive; the quotes around the value are kept.\<close>

definition assignment_text :: "cell list \<Rightarrow> found \<Rightarrow> string" where
  "assignment_text w m =
     (let separatorEnd = snd (group_of m 4);
          head = slice w separatorEnd (Suc separatorEnd)
      in slice w (fst m) separatorEnd @
         (if separatorEnd < fst (snd m) \<and> (head = [CHR 0x22] \<or> head = [CHR 0x27])
          then head @ redactedSecret @ head else redactedSecret))"

definition redactAssignments :: "string \<Rightarrow> string" where
  "redactAssignments s =
     (let w = cells s
      in replace_found w (assignment_text w) 0
           (filter (\<lambda>m. isSensitiveKey (slice w (fst (group_of m 2)) (snd (group_of m 2)))) (find_all assignmentPattern (cursor_at w))))"

definition RedactText :: "string \<Rightarrow> string" where
  "RedactText s0 =
     (let s1 = ReplaceAllString authorizationHeaderPattern [1, 2] redactedSecret s0;
          s2 = ReplaceAllString cookieHeaderPattern [1, 2] redactedSecret s1;
          s3 = ReplaceAllString authJSONPattern [1, 2] redactedSecret s2;
          s4 = ReplaceAllString credentialSchemePattern [] redactedSecret s3
      in ReplaceAllString tokenShapePattern [] redactedSecret (redactAssignments s4))"

section \<open>Fields\<close>

fun redactValue :: "string \<Rightarrow> dyn \<Rightarrow> dyn" where
  "redactValue key v =
     (if isSensitiveKey key then DText redactedSecret
      else case v of
        DText s \<Rightarrow> DText (RedactText s)
      | DBytes s \<Rightarrow> DText (RedactText s)
      | DMap m \<Rightarrow> DMap (map (\<lambda>x. (fst x, redactValue (fst x) (snd x))) m)
      | DTexts m \<Rightarrow> DTexts (map (\<lambda>x. (fst x, if isSensitiveKey (fst x) then redactedSecret else RedactText (snd x))) m)
      | DSlice vs \<Rightarrow> DSlice (map (redactValue []) vs)
      | DStrings ss \<Rightarrow> DStrings (map RedactText ss)
      | _ \<Rightarrow> v)"

declare redactValue.simps [simp del]

definition RedactFields :: "fields \<Rightarrow> fields" where
  "RedactFields m = map (\<lambda>x. (fst x, redactValue (fst x) (snd x))) m"

text \<open>Evaluation goes through a map and a slice entry by entry.\<close>

definition redact_items :: "dyn list \<Rightarrow> dyn list" where
  "redact_items vs = map (redactValue []) vs"

lemma redact_entries_code [code]:
  "RedactFields [] = []" "RedactFields (x # m) = (fst x, redactValue (fst x) (snd x)) # RedactFields m"
  "redact_items [] = []" "redact_items (v # vs) = redactValue [] v # redact_items vs"
  by (simp_all add: RedactFields_def redact_items_def)

lemma redactValue_code [code]:
  "redactValue key v =
     (if isSensitiveKey key then DText redactedSecret
      else case v of
        DText s \<Rightarrow> DText (RedactText s)
      | DBytes s \<Rightarrow> DText (RedactText s)
      | DMap m \<Rightarrow> DMap (RedactFields m)
      | DTexts m \<Rightarrow> DTexts (map (\<lambda>x. (fst x, if isSensitiveKey (fst x) then redactedSecret else RedactText (snd x))) m)
      | DSlice vs \<Rightarrow> DSlice (redact_items vs)
      | DStrings ss \<Rightarrow> DStrings (map RedactText ss)
      | _ \<Rightarrow> v)"
  unfolding RedactFields_def redact_items_def by (rule redactValue.simps)

end
