(* ===== verification/Go_Float.thy ===== *)
theory Go_Float
  imports Go_Format
begin

text \<open>
  The literal \<^verbatim>\<open>encoding/json\<close> writes for a float64: the shortest digits that read back as the
  same float64, the closest ones if there are two, with an exponent below 1e-6 and from 1e21 on
  (\<^verbatim>\<open>floatEncoder\<close> with \<^verbatim>\<open>strconv.AppendFloat\<close>).
\<close>

text \<open>The number as a fraction, and the place of its decimal point: \<open>10 ^ (p - 1) \<le> n / d < 10 ^ p\<close>.\<close>

definition as_fraction :: "int \<times> int \<Rightarrow> int \<times> int" where
  "as_fraction f = (case f of (m, k) \<Rightarrow> if 0 \<le> k then (m * 2 ^ nat k, 1) else (m, 2 ^ nat (- k)))"

definition point_of :: "int \<Rightarrow> int \<Rightarrow> int" where
  "point_of n d =
     (if d \<le> n then int (length (itoa (n div d)))
      else case find (\<lambda>j. d \<le> n * 10 ^ j) [1..<400] of None \<Rightarrow> - 400 | Some j \<Rightarrow> 1 - int j)"

text \<open>\<open>D * 10 ^ e\<close> as a fraction.\<close>

definition scaled :: "int \<Rightarrow> int \<Rightarrow> int \<times> int" where
  "scaled D e = (if 0 \<le> e then (D * 10 ^ nat e, 1) else (D, 10 ^ nat (- e)))"

definition distance :: "int \<times> int \<Rightarrow> int \<times> int \<Rightarrow> int" where
  "distance a b = abs (fst a * snd b - fst b * snd a)"

text \<open>The best decimal with \<open>w\<close> digits, if one reads back as \<open>f\<close>.\<close>

definition digits_of :: "int \<times> int \<Rightarrow> nat \<Rightarrow> int option" where
  "digits_of f w =
     (let v = as_fraction f; e = point_of (fst v) (snd v) - int w;
          low = (if 0 \<le> e then fst v div (snd v * 10 ^ nat e) else fst v * 10 ^ nat (- e) div snd v);
          good = filter (\<lambda>D. let q = scaled D e in nearest_float64 (fst q) (snd q) = f) [low, low + 1]
      in case good of
           [] \<Rightarrow> None
         | [D] \<Rightarrow> Some D
         | D # D' # _ \<Rightarrow> Some (if distance (scaled D' e) v < distance (scaled D e) v then D' else D))"

definition shortest :: "int \<times> int \<Rightarrow> string \<times> int" where
  "shortest f =
     (let v = as_fraction f; p = point_of (fst v) (snd v)
      in case List.find (\<lambda>w. digits_of f w \<noteq> None) [1..<18] of
           None \<Rightarrow> ([], p)
         | Some w \<Rightarrow>
             let s = itoa (the (digits_of f w))
             in (rev (dropWhile (\<lambda>c. c = CHR ''0'') (rev s)), p + int (length s) - int w))"

definition exponent_text :: "int \<Rightarrow> string" where
  "exponent_text e = (if e < 0 then ''e-'' @ itoa (- e) else ''e+'' @ pad 2 e)"

definition plain_text :: "string \<Rightarrow> int \<Rightarrow> string" where
  "plain_text ds p =
     (if p \<le> 0 then ''0.'' @ replicate (nat (- p)) CHR ''0'' @ ds
      else if int (length ds) \<le> p then ds @ replicate (nat p - length ds) CHR ''0''
      else take (nat p) ds @ ''.'' @ drop (nat p) ds)"

definition float_literal :: "bool \<times> int \<times> int \<Rightarrow> string" where
  "float_literal x =
     (case x of
        (neg, f) \<Rightarrow>
          (if neg then ''-'' else []) @
          (if fst f = 0 then ''0''
           else case shortest f of
             (ds, p) \<Rightarrow>
               if p - 1 < - 6 \<or> 21 \<le> p - 1
               then take 1 ds @ (if length ds = 1 then [] else CHR ''.'' # drop 1 ds) @ exponent_text (p - 1)
               else plain_text ds p))"

text \<open>What becomes of a literal that is read into a float64 and written again.\<close>

definition reprint :: "string \<Rightarrow> string" where
  "reprint l = float_literal (float64 l)"

end
