(* ===== verification/Event_Payload.thy ===== *)
theory Event_Payload
  imports Redaction Go_Float Json_Plain Protocol_Codec
begin

text \<open>
  The payloads of events: the part of \<^verbatim>\<open>internal/node/eventlog/manager.go\<close> that redacts, cuts and
  encodes them (\<^verbatim>\<open>clonePayload\<close>, \<^verbatim>\<open>sanitizeMap\<close>, \<^verbatim>\<open>truncateUTF8\<close>,
  \<^verbatim>\<open>boundedJSON\<close>), and what \<^verbatim>\<open>encoding/json\<close> makes of a payload and back.
\<close>

section \<open>Encoding\<close>

text \<open>A byte slice is written in standard base64.\<close>

definition std_base64 :: "string \<Rightarrow> string" where
  "std_base64 s =
     map (\<lambda>c. if c = CHR ''-'' then CHR ''+'' else if c = CHR ''_'' then CHR ''/'' else c) (EncodeToString s) @
     replicate ((3 - length s mod 3) mod 3) CHR ''=''"

fun to_json :: "dyn \<Rightarrow> json" where
  "to_json DNil = JNull"
| "to_json (DBool b) = JBool b"
| "to_json (DNumber l) = JNumber l"
| "to_json (DText s) = JString s"
| "to_json (DBytes s) = JString (std_base64 s)"
| "to_json (DSlice vs) = JArray (map to_json vs)"
| "to_json (DStrings ss) = JArray (map JString ss)"
| "to_json (DMap m) = JObject (map (\<lambda>x. (fst x, to_json (snd x))) m)"
| "to_json (DTexts m) = JObject (map (\<lambda>x. (fst x, JString (snd x))) m)"
| "to_json (DMaps ms) = JArray (map (\<lambda>m. JObject (map (\<lambda>x. (fst x, to_json (snd x))) m)) ms)"

definition fields_json :: "fields \<Rightarrow> (string \<times> json) list" where
  "fields_json m = map (\<lambda>x. (fst x, to_json (snd x))) m"

text \<open>\<^verbatim>\<open>json.Unmarshal\<close> into an \<^verbatim>\<open>any\<close>: of two members with one name the later one counts.\<close>

fun of_json :: "json \<Rightarrow> dyn" where
  "of_json JNull = DNil"
| "of_json (JBool b) = DBool b"
| "of_json (JNumber l) = DNumber (reprint l)"
| "of_json (JString s) = DText s"
| "of_json (JArray vs) = DSlice (map of_json vs)"
| "of_json (JObject kvs) = DMap (foldl (\<lambda>m x. put_field (fst x) (snd x) m) [] (map (\<lambda>x. (fst x, of_json (snd x))) kvs))"

text \<open>\<^verbatim>\<open>json.Unmarshal\<close> into a \<^verbatim>\<open>map[string]any\<close>: the document \<^verbatim>\<open>null\<close> gives a
  nil map and no error.\<close>

datatype unmarshalled = Malformed | NilMap | Fields fields

definition unmarshal_fields :: "bytes \<Rightarrow> unmarshalled" where
  "unmarshal_fields raw =
     (case read_json raw of
        None \<Rightarrow> Malformed
      | Some doc \<Rightarrow>
          if 10000 < json_depth doc \<or> \<not> numbers_fit doc then Malformed
          else (case of_json doc of DNil \<Rightarrow> NilMap | DMap m \<Rightarrow> Fields m | _ \<Rightarrow> Malformed))"

text \<open>\<^verbatim>\<open>json.Marshal\<close> of a payload.\<close>

definition marshal_fields :: "fields \<Rightarrow> bytes" where
  "marshal_fields m = Marshal (map_value (JObject (fields_json m)))"

definition field_or_nil :: "fields \<Rightarrow> string \<Rightarrow> dyn" where
  "field_or_nil m k = (case map_of m k of None \<Rightarrow> DNil | Some v \<Rightarrow> v)"

definition boundedJSON :: "fields \<Rightarrow> int \<Rightarrow> bytes option" where
  "boundedJSON value limit =
     (if int (length (marshal_fields value)) \<le> limit then Some (marshal_fields value)
      else
        let minimal = [(''status'', field_or_nil value ''status''), (''latestSequence'', field_or_nil value ''latestSequence''),
              (''truncated'', DBool True)]
        in if limit < int (length (marshal_fields minimal)) then None else Some (marshal_fields minimal))"

section \<open>Cutting\<close>

definition maxTextBytes :: nat where
  "maxTextBytes = 256 * 1024"

text \<open>The loop of \<^verbatim>\<open>truncateUTF8\<close>; the empty text is valid.\<close>

function strip_invalid :: "string \<Rightarrow> string" where
  "strip_invalid s = (if ValidString s then s else strip_invalid (butlast s))"
  by pat_completeness auto

lemma ValidString_Nil [simp]: "ValidString []"
  by (simp add: ValidString_def)

lemma butlast_shorter: "\<not> ValidString s \<Longrightarrow> length (butlast s) < length s"
  by (cases s) auto

termination strip_invalid
  by (relation "measure length") (auto dest: butlast_shorter)

declare strip_invalid.simps [simp del]

definition truncateUTF8 :: "string \<Rightarrow> nat \<Rightarrow> string" where
  "truncateUTF8 s limit = (if length s \<le> limit then s else strip_invalid (take limit s))"

section \<open>Sanitizing\<close>

text \<open>The number of values in a value; redaction never adds one.\<close>

fun dyn_nodes :: "dyn \<Rightarrow> nat" where
  "dyn_nodes (DSlice vs) = Suc (sum_list (map (\<lambda>v. Suc (dyn_nodes v)) vs))"
| "dyn_nodes (DMap m) = Suc (sum_list (map (\<lambda>x. Suc (dyn_nodes (snd x))) m))"
| "dyn_nodes _ = 1"

definition fields_nodes :: "fields \<Rightarrow> nat" where
  "fields_nodes m = sum_list (map (\<lambda>x. Suc (dyn_nodes (snd x))) m)"

lemma sum_list_le: "(\<And>x. x \<in> set xs \<Longrightarrow> f x \<le> (g x :: nat)) \<Longrightarrow> sum_list (map f xs) \<le> sum_list (map g xs)"
  by (rule sum_list_mono)

lemma nodes_pos [simp]: "Suc 0 \<le> dyn_nodes v"
  by (cases v) simp_all

lemma dyn_nodes_redact: "dyn_nodes (redactValue k v) \<le> dyn_nodes v"
proof (induction v arbitrary: k)
  case (DSlice vs)
  then show ?case by (subst redactValue.simps) (auto simp: comp_def intro!: sum_list_le)
next
  case (DMap m)
  then show ?case by (subst redactValue.simps) (auto simp: comp_def intro!: sum_list_le)
qed (subst redactValue.simps; simp)+

lemma fields_nodes_redact: "fields_nodes (RedactFields m) \<le> fields_nodes m"
  by (auto simp: fields_nodes_def RedactFields_def comp_def dyn_nodes_redact intro!: sum_list_le)

function sanitizeMap :: "fields \<Rightarrow> fields"
  and sanitizeValueFlag :: "dyn \<Rightarrow> bool \<Rightarrow> dyn \<times> bool"
  and sanitize_entries :: "fields \<Rightarrow> bool \<Rightarrow> fields \<times> bool"
  and sanitize_items :: "dyn list \<Rightarrow> bool \<Rightarrow> dyn list \<times> bool" where
  "sanitizeMap m =
     (case sanitize_entries (RedactFields m) False of
        (result, truncated) \<Rightarrow> if truncated then put_field ''truncated'' (DBool True) result else result)"
| "sanitizeValueFlag v truncated =
     (case v of
        DText s \<Rightarrow> (DText (truncateUTF8 s maxTextBytes), truncated \<or> maxTextBytes < length s)
      | DMap m \<Rightarrow>
          (let mapped = sanitizeMap m in (DMap mapped, truncated \<or> map_of mapped ''truncated'' = Some (DBool True)))
      | DSlice vs \<Rightarrow> (case sanitize_items vs truncated of (result, t) \<Rightarrow> (DSlice result, t))
      | _ \<Rightarrow> (v, truncated))"
| "sanitize_entries [] truncated = ([], truncated)"
| "sanitize_entries (x # xs) truncated =
     (case sanitizeValueFlag (snd x) truncated of
        (v, t) \<Rightarrow> (case sanitize_entries xs t of (result, t') \<Rightarrow> ((fst x, v) # result, t')))"
| "sanitize_items [] truncated = ([], truncated)"
| "sanitize_items (y # ys) truncated =
     (case sanitizeValueFlag y truncated of
        (v, t) \<Rightarrow> (case sanitize_items ys t of (result, t') \<Rightarrow> (v # result, t')))"
  by pat_completeness auto
termination
  by (relation "measure (\<lambda>a. case a of
      Inl (Inl m) \<Rightarrow> Suc (2 * fields_nodes m)
    | Inl (Inr (v, _)) \<Rightarrow> 2 * dyn_nodes v
    | Inr (Inl (m, _)) \<Rightarrow> 2 * fields_nodes m
    | Inr (Inr (vs, _)) \<Rightarrow> 2 * sum_list (map (\<lambda>v. Suc (dyn_nodes v)) vs))")
    (auto simp: fields_nodes_def less_Suc_eq_le intro: fields_nodes_redact [unfolded fields_nodes_def])

declare sanitizeMap.simps [simp del] sanitizeValueFlag.simps [simp del]

definition clonePayload :: "fields \<Rightarrow> fields" where
  "clonePayload m = sanitizeMap m"

definition sanitizeValue :: "dyn \<Rightarrow> dyn" where
  "sanitizeValue v = fst (sanitizeValueFlag v False)"

text \<open>Evaluation compares the length with the limit as integers.\<close>

lemma sanitizeValueFlag_code [code]:
  "sanitizeValueFlag v truncated =
     (case v of
        DText s \<Rightarrow> if int (length s) \<le> 262144 then (DText s, truncated) else (DText (truncateUTF8 s maxTextBytes), True)
      | DMap m \<Rightarrow>
          (let mapped = sanitizeMap m in (DMap mapped, truncated \<or> map_of mapped ''truncated'' = Some (DBool True)))
      | DSlice vs \<Rightarrow> (case sanitize_items vs truncated of (result, t) \<Rightarrow> (DSlice result, t))
      | _ \<Rightarrow> (v, truncated))"
proof -
  have cut: "(DText (truncateUTF8 s maxTextBytes), truncated \<or> maxTextBytes < length s) =
      (if int (length s) \<le> 262144 then (DText s, truncated) else (DText (truncateUTF8 s maxTextBytes), True))" for s
    by (auto simp: truncateUTF8_def maxTextBytes_def)

  show ?thesis unfolding cut [symmetric] by (rule sanitizeValueFlag.simps)
qed

end
