(* ===== verification/Event_Normalize.thy ===== *)
theory Event_Normalize
  imports Event_Payload Event_Store
begin

text \<open>
  \<^verbatim>\<open>internal/node/eventlog/normalize.go\<close> and \<^verbatim>\<open>normalize_v11.go\<close>: from the events an Agent's
  runtime emits (\<^verbatim>\<open>internal/adapter/adapter.go\<close>) to the events of Protocol v1 and v1.1. A map that
  the code changes in place is passed on changed. A nil slice of \<^verbatim>\<open>any\<close> is the empty
  slice, which is what cloning makes of it.
\<close>

section \<open>Data\<close>

record approval =
  ar_id :: string
  ar_kind :: string
  ar_summary :: string
  ar_operation :: dyn
  ar_expires :: gotime

record agent_event =
  ae_type :: string
  ae_agent :: string
  ae_correlation :: string
  ae_workspace :: string
  ae_thread :: string
  ae_turn :: string
  ae_item :: string
  ae_payload :: dyn
  ae_approval :: "approval option"
  ae_ambiguous :: bool

record event_spec =
  sc_kind :: string
  sc_agent :: string
  sc_interaction :: string
  sc_target :: event_target
  sc_correlation :: string
  sc_payload :: fields

text \<open>The errors of the package, the raw errors of the store, and a panic.\<close>

datatype log_error =
    LogInvalid | LogHistoryGap | LogSequenceExhausted | LogControlFinalized
  | LogUnsupported string | LogStorage | LogContext | LogRaw store_error | LogRuntime string | LogPanic

section \<open>Helpers\<close>

definition as_fields :: "dyn \<Rightarrow> fields" where
  "as_fields v = (case v of DMap m \<Rightarrow> m | _ \<Rightarrow> [])"

definition firstString :: "fields \<Rightarrow> string \<Rightarrow> string \<Rightarrow> string" where
  "firstString values key fallback = (case map_of values key of Some (DText s) \<Rightarrow> s | _ \<Rightarrow> fallback)"

definition validID :: "string \<Rightarrow> bool" where
  "validID s = (\<not> blank s \<and> length s \<le> 128 \<and> ValidString s)"

definition set_default :: "string \<Rightarrow> dyn \<Rightarrow> fields \<Rightarrow> fields" where
  "set_default k v m = (if map_of m k = None then put_field k v m else m)"

definition eventTarget :: "agent_event \<Rightarrow> event_target" where
  "eventTarget e = \<lparr>et_workspace = ae_workspace e, et_thread = ae_thread e, et_turn = ae_turn e, et_item = ae_item e\<rparr>"

fun dyn_map :: "dyn \<Rightarrow> fields option" where
  "dyn_map (DMap m) = Some m"
| "dyn_map _ = None"

definition changeMaps :: "dyn option \<Rightarrow> fields list" where
  "changeMaps v =
     (case v of
        Some (DMaps ms) \<Rightarrow> ms
      | Some (DSlice vs) \<Rightarrow> List.map_filter dyn_map vs
      | _ \<Rightarrow> [])"

definition mapChangeKind :: "string \<Rightarrow> string" where
  "mapChangeKind value =
     (let k = ToLower value
      in if k \<in> {''add'', ''added'', ''create'', ''created''} then ''created''
         else if k \<in> {''delete'', ''deleted'', ''remove'', ''removed''} then ''deleted''
         else if k \<in> {''rename'', ''renamed'', ''move'', ''moved''} then ''renamed''
         else ''modified'')"

definition diffPayload :: "codec \<Rightarrow> fields \<Rightarrow> fields" where
  "diffPayload c payload =
     (let diff = firstString payload ''diff'' [];
          p1 = put_field ''diff'' (DText (truncateUTF8 diff (64 * 1024))) payload;
          p2 = (if 64 * 1024 < length diff then put_field ''truncated'' (DBool True) p1 else p1);
          p3 = put_field ''totalBytes'' (DNumber (itoa (int (length diff)))) p2
      in put_field ''digest'' (DText (EncodeToString (cd_sha256 c diff))) p3)"

definition requiredPayloadKeys :: "string \<Rightarrow> string list" where
  "requiredPayloadKeys kind =
     (if kind \<in> {''device.status'', ''runtime.status'', ''thread.snapshot'', ''control.result''} then [''status'']
      else if kind \<in> {''agent.message.delta'', ''agent.message.completed''} then [''text'']
      else if kind \<in> {''command.started'', ''command.completed''} then [''commandId'']
      else if kind = ''command.output.delta'' then [''commandId'', ''stream'', ''text'']
      else if kind \<in> {''tool.started'', ''tool.completed''} then [''toolName'']
      else if kind = ''file.changed'' then [''path'', ''changeType'']
      else if kind = ''diff.updated'' then [''path'', ''diff'']
      else if kind = ''approval.requested'' then [''approvalId'', ''kind'']
      else if kind = ''approval.resolved'' then [''approvalId'', ''decision'']
      else if kind = ''history.gap'' then [''afterSequence'', ''earliestSequence'']
      else if kind = ''error'' then [''code'', ''message'']
      else [])"

text \<open>\<^verbatim>\<open>fmt.Sprint\<close> of a value is empty for the empty text only.\<close>

definition present :: "dyn option \<Rightarrow> bool" where
  "present v = (v \<noteq> None \<and> v \<noteq> Some DNil \<and> v \<noteq> Some (DText []))"

definition ensureRequiredPayload :: "string \<Rightarrow> fields \<Rightarrow> bool" where
  "ensureRequiredPayload kind payload = list_all (\<lambda>k. present (map_of payload k)) (requiredPayloadKeys kind)"

section \<open>Protocol v1\<close>

definition command_payload :: "string \<Rightarrow> fields \<Rightarrow> fields" where
  "command_payload item payload =
     (let p1 = put_field ''commandId'' (DText item) payload;
          command = firstString p1 ''displayText'' (firstString p1 ''command'' []);
          p2 = (if command = [] then p1
                else put_field ''displayText'' (DText (truncateUTF8 command 4096))
                       (if 4096 < length command then put_field ''truncated'' (DBool True) p1 else p1))
      in delete_field ''command'' p2)"

definition output_payload :: "string \<Rightarrow> fields \<Rightarrow> fields" where
  "output_payload item payload =
     [(''commandId'', DText item), (''stream'', DText ''stdout''), (''sourceStream'', DText ''combined''),
      (''text'', DText (firstString payload ''text'' (firstString payload ''delta'' [])))]"

definition change_payload :: "codec \<Rightarrow> fields \<Rightarrow> fields" where
  "change_payload c change =
     diffPayload c [(''path'', DText (firstString change ''path'' [])),
       (''changeType'', DText (mapChangeKind (firstString change ''kind'' ''modified''))),
       (''diff'', DText (firstString change ''diff'' []))]"

definition approval_payload :: "approval \<Rightarrow> fields" where
  "approval_payload a =
     [(''approvalId'', DText (ar_id a)), (''kind'', DText (ar_kind a)), (''summary'', DText (ar_summary a)),
      (''operation'', sanitizeValue (ar_operation a)), (''expiresAt'', DText (format_RFC3339Nano (ar_expires a)))]"

definition resolved_payload :: "fields \<Rightarrow> fields" where
  "resolved_payload payload =
     (let decision = firstString payload ''decision'' []
      in if decision \<noteq> ''accept'' \<and> decision \<noteq> ''decline''
         then put_field ''resolution'' (DText ''runtime_cleared'') (put_field ''decision'' (DText ''decline'') payload)
         else payload)"

definition error_payload :: "bool \<Rightarrow> fields \<Rightarrow> fields" where
  "error_payload ambiguous payload =
     (let p1 = (if ambiguous then put_field ''code'' (DText ''ambiguous'') payload else payload);
          p2 = (if firstString p1 ''code'' [] = [] then put_field ''code'' (DText ''runtime_failed'') p1 else p1)
      in if firstString p2 ''message'' [] = []
         then put_field ''message'' (DText ''Agent runtime reported a sanitized failure.'') p2 else p2)"

text \<open>The payload of an event that stays one event.\<close>

definition normal_payload :: "codec \<Rightarrow> agent_event \<Rightarrow> fields \<Rightarrow> log_error + fields" where
  "normal_payload c e payload =
     (let kind = ae_type e
      in if kind \<in> {''device.status'', ''runtime.status''} then
           Inr (set_default ''status'' (DText (firstString payload ''state'' ''unknown'')) payload)
         else if kind \<in> {''thread.started'', ''turn.started'', ''turn.completed'', ''turn.failed'', ''turn.interrupted''} then Inr payload
         else if kind = ''agent.message.delta'' then
           Inr (delete_field ''delta'' (put_field ''text'' (DText (firstString payload ''text'' (firstString payload ''delta'' []))) payload))
         else if kind = ''agent.message.completed'' then Inr (put_field ''text'' (DText (firstString payload ''text'' [])) payload)
         else if kind \<in> {''command.started'', ''command.completed''} then
           (if ae_item e = [] then Inl LogInvalid else Inr (command_payload (ae_item e) payload))
         else if kind = ''command.output.delta'' then
           (if ae_item e = [] then Inl LogInvalid else Inr (output_payload (ae_item e) payload))
         else if kind \<in> {''tool.started'', ''tool.completed''} then
           Inr (put_field ''toolName'' (DText (firstString payload ''toolName'' (firstString payload ''kind'' ''codex-tool''))) payload)
         else if kind = ''file.changed'' then
           Inr (put_field ''changeType''
             (DText (mapChangeKind (firstString payload ''changeType'' (firstString payload ''kind'' ''modified''))))
             (put_field ''path'' (DText (firstString payload ''path'' [])) payload))
         else if kind = ''diff.updated'' then Inr (diffPayload c (put_field ''path'' (DText (firstString payload ''path'' ''.'')) payload))
         else if kind = ''approval.requested'' then
           (case ae_approval e of
              None \<Rightarrow> Inl LogInvalid
            | Some a \<Rightarrow> if validID (ar_id a) then Inr (approval_payload a) else Inl LogInvalid)
         else if kind = ''approval.resolved'' then
           (if firstString payload ''approvalId'' [] = [] then Inl LogInvalid else Inr (resolved_payload payload))
         else if kind = ''control.result'' then
           (if firstString payload ''status'' [] = [] then Inl LogInvalid else Inr payload)
         else if kind = ''history.gap'' then
           (if map_of payload ''afterSequence'' = None then Inl LogInvalid else Inr payload)
         else if kind = ''error'' then Inr (error_payload (ae_ambiguous e) payload)
         else if kind = ''thread.snapshot'' then
           Inr (if firstString payload ''status'' [] = [] then put_field ''status'' (DText ''unknown'') payload else payload)
         else Inl (LogUnsupported ''node event mapping is unsupported''))"

definition spec_of :: "agent_event \<Rightarrow> fields \<Rightarrow> event_spec" where
  "spec_of e payload =
     \<lparr>sc_kind = ae_type e, sc_agent = ae_agent e, sc_interaction = [], sc_target = eventTarget e,
      sc_correlation = ae_correlation e, sc_payload = payload\<rparr>"

definition normalizeEvent :: "codec \<Rightarrow> agent_event \<Rightarrow> log_error + event_spec list" where
  "normalizeEvent c e =
     (if \<not> IsKnownEvent (ae_type e) then Inl LogInvalid
      else
        let payload = clonePayload (as_fields (ae_payload e)); changes = changeMaps (map_of payload ''changes'')
        in if ae_type e = ''file.changed'' \<and> changes \<noteq> [] then
             (let result = map (\<lambda>x. spec_of e (change_payload c x)) (filter (\<lambda>x. firstString x ''path'' [] \<noteq> []) changes)
              in if result = [] then Inl LogInvalid else Inr result)
           else (case normal_payload c e payload of
                   Inl x \<Rightarrow> Inl x
                 | Inr p \<Rightarrow> if ensureRequiredPayload (ae_type e) p then Inr [spec_of e p] else Inl LogInvalid))"

end
