(* ===== verification/Event_Normalize11.thy ===== *)
theory Event_Normalize11
  imports Event_Normalize
begin

text \<open>
  \<^verbatim>\<open>internal/node/eventlog/normalize_v11.go\<close>: the events of Protocol v1.1. An event whose type
  v1.1 knows is taken over with its payload cloned; any other is normalized for v1 and projected.
\<close>

section \<open>Payloads\<close>

definition interactionPayloadV11 :: "fields \<Rightarrow> string \<Rightarrow> fields" where
  "interactionPayloadV11 payload item =
     (let r0 = clonePayload payload;
          r1 = delete_field ''approvalId'' (put_field ''id'' (DText (firstString r0 ''approvalId'' item)) r0);
          k = firstString r1 ''kind'' ''permission'';
          kind = (if k \<in> {''command'', ''command_execution''} then ''command_approval''
                  else if k \<in> {''file'', ''file_change'', ''file-change''} then ''file_approval'' else k);
          r2 = put_field ''kind'' (DText kind) r1;
          r3 = (case map_of r2 ''operation'' of
                  None \<Rightarrow> r2 | Some operation \<Rightarrow> delete_field ''operation'' (put_field ''details'' operation r2))
      in if map_of r3 ''status'' \<noteq> None then r3
         else if map_of r3 ''decision'' \<noteq> None then
           (let decision = firstString r3 ''decision'' ''decline''
            in put_field ''status''
                 (DText (if decision = ''accept'' then ''accepted'' else if decision = ''decline'' then ''declined'' else [])) r3)
         else put_field ''status'' (DText ''pending'') r3)"

definition activityPayloadV11 :: "string \<Rightarrow> string \<Rightarrow> fields \<Rightarrow> string \<Rightarrow> fields" where
  "activityPayloadV11 kind status payload item =
     (let r0 = delete_field ''activityKind'' (clonePayload payload);
          r1 = put_field ''status'' (DText status) (put_field ''kind'' (DText kind) (put_field ''id'' (DText item) r0));
          title = firstString r1 ''displayText'' (firstString r1 ''toolName'' []);
          r2 = (if title = [] then r1 else put_field ''title'' (DText title) r1);
          text = firstString r2 ''text'' [];
          r3 = (if text = [] then r2 else put_field ''text'' (DText text) r2)
      in fold delete_field [''commandId'', ''displayText'', ''toolName'', ''stream'', ''sourceStream''] r3)"

text \<open>The entries of a map under some of its keys.\<close>

definition copied :: "string list \<Rightarrow> fields \<Rightarrow> fields" where
  "copied keys m = List.map_filter (\<lambda>k. map_option (Pair k) (map_of m k)) keys"

definition item_kinds :: "string list" where
  "item_kinds = [''user_message'', ''agent_message'', ''reasoning_summary'', ''plan'', ''command'', ''command_output'', ''tool'',
     ''file_change'', ''diff'', ''error'', ''unknown'']"

definition item_keys :: "string list" where
  "item_keys = [''status'', ''text'', ''command'', ''output'', ''toolName'', ''path'', ''changeType'', ''diff'', ''exitCode'',
     ''errorCode'', ''errorMessage'', ''partial'', ''truncated'', ''totalBytes'', ''digest'']"

definition run_item :: "dyn \<Rightarrow> dyn option" where
  "run_item v =
     (case v of
        DMap item \<Rightarrow>
          let i = firstString item ''id'' []; kind = firstString item ''kind'' ''unknown''
          in if i = [] then None
             else Some (DMap (set_default ''status'' (DText ''unknown'')
               ((''id'', DText i) # (''kind'', DText (if kind \<in> set item_kinds then kind else ''unknown'')) # copied item_keys item)))
      | _ \<Rightarrow> None)"

definition runItemsPayloadV11 :: "dyn \<Rightarrow> dyn list" where
  "runItemsPayloadV11 v = (case v of DSlice items \<Rightarrow> List.map_filter run_item items | _ \<Rightarrow> [])"

definition run_summary :: "dyn \<Rightarrow> dyn option" where
  "run_summary v =
     (case v of
        DMap turn \<Rightarrow>
          let i = firstString turn ''id'' []
          in if i = [] then None
             else Some (DMap ((''id'', DText i) # (''status'', DText (firstString turn ''status'' ''unknown'')) #
               copied [''startedAt'', ''completedAt''] turn @
               (case map_of turn ''items'' of None \<Rightarrow> [] | Some items \<Rightarrow> [(''items'', DSlice (runItemsPayloadV11 items))])))
      | _ \<Rightarrow> None)"

definition runSummariesPayloadV11 :: "dyn \<Rightarrow> dyn list" where
  "runSummariesPayloadV11 v = (case v of DSlice turns \<Rightarrow> List.map_filter run_summary turns | _ \<Rightarrow> [])"

definition placed :: "agent_event \<Rightarrow> fields \<Rightarrow> fields" where
  "placed e task =
     put_field ''workspaceId'' (DText (ae_workspace e)) (put_field ''agentInstanceId'' (DText (ae_agent e)) task)"

definition listed_task :: "agent_event \<Rightarrow> dyn \<Rightarrow> dyn option" where
  "listed_task e v = map_option (\<lambda>task. DMap (placed e (clonePayload task))) (dyn_map v)"

definition pending_interaction :: "dyn \<Rightarrow> dyn option" where
  "pending_interaction v =
     (case v of
        DMap m \<Rightarrow>
          let entry0 = clonePayload m;
              runID = firstString entry0 ''turnId'' []; activityID = firstString entry0 ''itemId'' [];
              entry1 = delete_field ''itemId'' (delete_field ''turnId'' entry0);
              entry2 = (if map_of entry1 ''id'' = None then interactionPayloadV11 entry1 activityID else entry1);
              entry3 = (if runID = [] then entry2 else put_field ''runId'' (DText runID) entry2)
          in Some (DMap (if activityID = [] then entry3 else put_field ''activityId'' (DText activityID) entry3))
      | _ \<Rightarrow> None)"

definition snapshot_task :: "agent_event \<Rightarrow> fields \<Rightarrow> fields \<times> fields" where
  "snapshot_task e result =
     (case map_of result ''thread'' of
        Some (DMap m) \<Rightarrow> (clonePayload m, delete_field ''thread'' result)
      | _ \<Rightarrow>
          ((''id'', DText (firstString result ''id'' (ae_thread e))) # (''status'', DText (firstString result ''status'' ''unknown'')) #
             copied [''title'', ''preview'', ''createdAt'', ''updatedAt'', ''historyState''] result, result))"

definition taskSnapshotPayloadV11 :: "fields \<Rightarrow> agent_event \<Rightarrow> fields" where
  "taskSnapshotPayloadV11 payload e =
     (let result = clonePayload payload
      in case map_of result ''threads'' of
           Some (DSlice threads) \<Rightarrow>
             put_field ''tasks'' (DSlice (List.map_filter (listed_task e) threads)) (delete_field ''threads'' result)
         | _ \<Rightarrow>
             (case snapshot_task e result of
                (task, r0) \<Rightarrow>
                  let r1 = put_field ''task'' (DMap (placed e task)) r0;
                      r2 = (case map_of r1 ''turns'' of
                              None \<Rightarrow> r1
                            | Some turns \<Rightarrow> delete_field ''turns'' (put_field ''runs'' (DSlice (runSummariesPayloadV11 turns)) r1))
                  in case map_of r2 ''pendingApprovals'' of
                       Some (DSlice pending) \<Rightarrow>
                         delete_field ''pendingApprovals''
                           (put_field ''interactions'' (DSlice (List.map_filter pending_interaction pending)) r2)
                     | _ \<Rightarrow> r2))"

section \<open>Projection\<close>

definition projectLegacyEventV11 :: "string \<Rightarrow> fields \<Rightarrow> agent_event \<Rightarrow> log_error + string \<times> fields" where
  "projectLegacyEventV11 kind payload e =
     (if kind \<in> {''device.status'', ''runtime.status'', ''file.changed'', ''diff.updated'', ''control.result'', ''lease.changed'',
          ''history.gap'', ''error''} then Inr (kind, payload)
      else if kind = ''thread.snapshot'' then Inr (''task.snapshot'', taskSnapshotPayloadV11 payload e)
      else if kind = ''thread.started'' then Inr (''task.started'', payload)
      else if kind = ''turn.started'' then Inr (''run.started'', payload)
      else if kind = ''turn.completed'' then Inr (''run.completed'', payload)
      else if kind = ''turn.failed'' then Inr (''run.failed'', payload)
      else if kind = ''turn.interrupted'' then Inr (''run.interrupted'', payload)
      else if kind = ''agent.message.delta'' then Inr (''message.delta'', payload)
      else if kind = ''agent.message.completed'' then Inr (''message.completed'', payload)
      else if kind = ''command.started'' then Inr (''activity.started'', activityPayloadV11 ''command'' ''running'' payload (ae_item e))
      else if kind = ''command.output.delta'' then Inr (''activity.updated'', activityPayloadV11 ''command'' ''running'' payload (ae_item e))
      else if kind = ''command.completed'' then Inr (''activity.completed'', activityPayloadV11 ''command'' ''completed'' payload (ae_item e))
      else if kind = ''tool.started'' then
        Inr (''activity.started'', activityPayloadV11 (firstString payload ''activityKind'' ''tool'') ''running'' payload (ae_item e))
      else if kind = ''tool.completed'' then
        Inr (''activity.completed'', activityPayloadV11 (firstString payload ''activityKind'' ''tool'') ''completed'' payload (ae_item e))
      else if kind = ''approval.requested'' then Inr (''interaction.requested'', interactionPayloadV11 payload (ae_item e))
      else if kind = ''approval.resolved'' then Inr (''interaction.resolved'', interactionPayloadV11 payload (ae_item e))
      else Inl (LogUnsupported ''Protocol 1.1 event projection is unsupported''))"

definition is_interaction :: "string \<Rightarrow> bool" where
  "is_interaction kind = (kind = ''interaction.requested'' \<or> kind = ''interaction.resolved'')"

definition project_spec :: "agent_event \<Rightarrow> event_spec \<Rightarrow> log_error + event_spec" where
  "project_spec e spec =
     (case projectLegacyEventV11 (sc_kind spec) (sc_payload spec) e of
        Inl x \<Rightarrow> Inl x
      | Inr (kind, payload) \<Rightarrow>
          Inr (spec\<lparr>sc_kind := kind, sc_payload := payload, sc_agent := ae_agent e,
                 sc_interaction := if is_interaction kind then firstString payload ''id'' [] else sc_interaction spec\<rparr>))"

fun project_all :: "agent_event \<Rightarrow> event_spec list \<Rightarrow> log_error + event_spec list" where
  "project_all e [] = Inr []"
| "project_all e (spec # specs) =
     (case project_spec e spec of
        Inl x \<Rightarrow> Inl x
      | Inr s \<Rightarrow> (case project_all e specs of Inl x \<Rightarrow> Inl x | Inr ss \<Rightarrow> Inr (s # ss)))"

definition normalizeEventV11 :: "codec \<Rightarrow> agent_event \<Rightarrow> log_error + event_spec list" where
  "normalizeEventV11 c e =
     (if IsKnownEvent11 (ae_type e) then
        let payload = as_fields (ae_payload e)
        in Inr [(spec_of e (clonePayload payload))
             \<lparr>sc_interaction := if is_interaction (ae_type e) then firstString payload ''id'' [] else []\<rparr>]
      else (case normalizeEvent c e of Inl x \<Rightarrow> Inl x | Inr legacy \<Rightarrow> project_all e legacy))"

end
