(* ===== verification/Event_Manager.thy ===== *)
theory Event_Manager
  imports Event_Normalize11 Node_Records Node_Resources
begin

text \<open>
  The Node's event log manager, \<^verbatim>\<open>manager.go\<close> and \<^verbatim>\<open>operations.go\<close> of
  \<^verbatim>\<open>internal/node/eventlog\<close>: publishing the events of an Agent, the snapshots and approvals that
  follow them, replay and recovery, reconciliation of the runtime's threads after a restart, and the lifecycle of a
  control request. The store is the Node database; the manager's lock makes each call one step. The Agent runtime is a
  parameter.
\<close>

section \<open>Data\<close>

record manager =
  mg_binding :: event_binding
  mg_retention :: event_retention
  mg_version :: string

record log_options =
  lo_owner :: string
  lo_node :: string
  lo_stream :: string
  lo_version :: string
  lo_max_age :: duration
  lo_max_bytes :: int

text \<open>What one append and the writes that follow it meet: the manager's clock and random source, the clock of the
  store, and the faults of each store call.\<close>

record append_world =
  aw_clock :: gotime
  aw_random :: "bytes option"
  aw_store_clock :: gotime
  aw_append :: env
  aw_snapshot_read :: env
  aw_snapshot_write :: env
  aw_approval_read :: env
  aw_approval_write :: env

record replay_batch =
  rb_records :: "event_record list"
  rb_earliest :: int
  rb_latest :: int
  rb_gap :: bool
  rb_more :: bool

record thread_item =
  ti_id :: string
  ti_kind :: string
  ti_status :: string
  ti_text :: string
  ti_command :: string
  ti_output :: string
  ti_tool :: string
  ti_path :: string
  ti_change :: string
  ti_diff :: string
  ti_exit :: "int option"
  ti_error_code :: string
  ti_error_message :: string
  ti_partial :: bool
  ti_truncated :: bool

record turn =
  tu_id :: string
  tu_status :: string
  tu_history :: string
  tu_items :: "thread_item list"

record agent_thread =
  th_id :: string
  th_status :: string
  th_title :: string
  th_preview :: string
  th_history :: string
  th_created :: gotime
  th_updated :: gotime

record thread_snapshot =
  ts_thread :: agent_thread
  ts_turns :: "turn list"

definition DefaultReplayLimit :: int where
  "DefaultReplayLimit = 256"

definition maxSnapshotItems :: nat where
  "maxSnapshotItems = 50"

definition NewManager :: "log_options \<Rightarrow> manager option" where
  "NewManager o1 =
     (if \<not> validID (lo_owner o1) \<or> \<not> validID (lo_node o1) \<or> lo_max_age o1 \<le> 0 \<or> lo_max_bytes o1 < MaxEventFrameBytes then None
      else
        let stream = (if lo_stream o1 \<noteq> [] then lo_stream o1
                      else if lo_version o1 = CurrentVersion11 then ''node-events-v1.1'' else ''node-events-v1'');
            version = (if lo_version o1 = [] then CurrentVersion else lo_version o1)
        in if version \<noteq> CurrentVersion \<and> version \<noteq> CurrentVersion11 then None
           else if \<not> validID stream then None
           else Some \<lparr>mg_binding = \<lparr>eb_owner = lo_owner o1, eb_node = lo_node o1, eb_stream = stream\<rparr>,
                  mg_retention = \<lparr>ret_max_age = lo_max_age o1, ret_max_bytes = lo_max_bytes o1\<rparr>, mg_version = version\<rparr>)"

definition UpdateRetention :: "manager \<Rightarrow> duration \<Rightarrow> int \<Rightarrow> manager \<times> log_error option" where
  "UpdateRetention m maxAge maxBytes =
     (if maxAge \<le> 0 \<or> maxBytes < MaxEventFrameBytes then (m, Some LogInvalid)
      else (m\<lparr>mg_retention := \<lparr>ret_max_age = maxAge, ret_max_bytes = maxBytes\<rparr>\<rparr>, None))"

definition classifyStore :: "store_error \<Rightarrow> log_error" where
  "classifyStore x =
     (if x = CtxCanceled \<or> x = CtxDeadlineExceeded then LogContext
      else if x = ErrInvalid then LogInvalid
      else if x = ErrConflict then LogSequenceExhausted
      else LogStorage)"

section \<open>Building frames\<close>

definition pointer_to :: "string \<Rightarrow> string option" where
  "pointer_to s = (if s = [] then None else Some s)"

definition new_message_id :: "bytes option \<Rightarrow> string option" where
  "new_message_id random =
     (case random of
        None \<Rightarrow> None
      | Some bs \<Rightarrow> if length bs < 16 then None else Some (''evt_'' @ EncodeToString (take 16 bs)))"

definition event_v1 :: "manager \<Rightarrow> event_spec \<Rightarrow> gotime \<Rightarrow> string \<Rightarrow> int \<Rightarrow> fields \<Rightarrow> v1_message" where
  "event_v1 m spec created i sequence payload =
     \<lparr>ms_correlation = (if sc_correlation spec = [] then i else sc_correlation spec), ms_expires = None, ms_message = i,
      ms_node = eb_node (mg_binding m), ms_nonce = None, ms_owner = eb_owner (mg_binding m),
      ms_payload = Some (fields_json payload), ms_version = CurrentVersion, ms_sent = format_RFC3339Nano created,
      ms_sequence = sequence, ms_signature = None, ms_signer = None, ms_stream = eb_stream (mg_binding m),
      ms_type = sc_kind spec, ms_workspace = pointer_to (et_workspace (sc_target spec)),
      ms_item = pointer_to (et_item (sc_target spec)), ms_thread = pointer_to (et_thread (sc_target spec)),
      ms_turn = pointer_to (et_turn (sc_target spec))\<rparr>"

definition event_v11 :: "manager \<Rightarrow> event_spec \<Rightarrow> gotime \<Rightarrow> string \<Rightarrow> int \<Rightarrow> fields \<Rightarrow> v11_message" where
  "event_v11 m spec created i sequence payload =
     \<lparr>ms_correlation = (if sc_correlation spec = [] then i else sc_correlation spec), ms_expires = None, ms_message = i,
      ms_node = eb_node (mg_binding m), ms_nonce = None, ms_owner = eb_owner (mg_binding m),
      ms_payload = Some (fields_json payload), ms_version = CurrentVersion11, ms_sent = format_RFC3339Nano created,
      ms_sequence = sequence, ms_signature = None, ms_signer = None, ms_stream = eb_stream (mg_binding m),
      ms_type = sc_kind spec, ms_workspace = pointer_to (et_workspace (sc_target spec)),
      ms_activity = pointer_to (et_item (sc_target spec)), ms_agent = pointer_to (sc_agent spec),
      ms_interaction = (if is_interaction (sc_kind spec) then pointer_to (sc_interaction spec) else None),
      ms_run = pointer_to (et_turn (sc_target spec)), ms_task = pointer_to (et_thread (sc_target spec))\<rparr>"

text \<open>The entries the builder adds to the payload of the message and, in place, to that of the event: the digest of an
  approval and the sequence of a snapshot. \<open>None\<close> when there is no digest.\<close>

definition builder_fields :: "codec \<Rightarrow> manager \<Rightarrow> event_spec \<Rightarrow> gotime \<Rightarrow> string \<Rightarrow> int \<Rightarrow> fields \<Rightarrow> fields option" where
  "builder_fields c m spec created i sequence payload =
     (if mg_version m = CurrentVersion11 then
        if sc_kind spec = ''interaction.requested'' then
          map_option (\<lambda>digest. [(''operationDigest'', DText digest)])
            (InteractionOperationDigest c (event_v11 m spec created i sequence payload))
        else if sc_kind spec = ''task.snapshot'' then Some [(''latestSequence'', DNumber (itoa sequence))]
        else Some []
      else
        if sc_kind spec = ''approval.requested'' then
          map_option (\<lambda>digest. [(''operationDigest'', DText digest)])
            (ApprovalOperationDigest c (event_v1 m spec created i sequence payload))
        else if sc_kind spec = ''thread.snapshot'' then Some [(''latestSequence'', DNumber (itoa sequence))]
        else Some [])"

definition put_fields :: "fields \<Rightarrow> fields \<Rightarrow> fields" where
  "put_fields added payload = fold (\<lambda>x. put_field (fst x) (snd x)) added payload"

definition marshal_spec :: "codec \<Rightarrow> manager \<Rightarrow> event_spec \<Rightarrow> gotime \<Rightarrow> string \<Rightarrow> int \<Rightarrow> fields \<Rightarrow> bytes option" where
  "marshal_spec c m spec created i sequence payload =
     (case (if mg_version m = CurrentVersion11 then MarshalEvent11 c (event_v11 m spec created i sequence payload)
            else MarshalEvent c (event_v1 m spec created i sequence payload)) of
        Inl _ \<Rightarrow> None | Inr raw \<Rightarrow> Some raw)"

text \<open>The builder: the identifier, the frame and the payload of the event after the call.\<close>

definition build_frame ::
  "codec \<Rightarrow> manager \<Rightarrow> append_world \<Rightarrow> event_spec \<Rightarrow> int \<Rightarrow> (string \<times> bytes \<times> fields) option" where
  "build_frame c m w spec sequence =
     (case new_message_id (aw_random w) of
        None \<Rightarrow> None
      | Some i \<Rightarrow>
          let payload = clonePayload (sc_payload spec)
          in (case builder_fields c m spec (aw_clock w) i sequence payload of
                None \<Rightarrow> None
              | Some added \<Rightarrow>
                  (case marshal_spec c m spec (aw_clock w) i sequence (put_fields added payload) of
                     None \<Rightarrow> None
                   | Some raw \<Rightarrow> Some (i, raw, put_fields added (sc_payload spec)))))"

definition frame_of :: "(string \<times> bytes \<times> fields) option \<Rightarrow> (string \<times> bytes) option" where
  "frame_of r = map_option (\<lambda>(i, raw, _). (i, raw)) r"

definition appendWithControl ::
  "codec \<Rightarrow> manager \<Rightarrow> append_world \<Rightarrow> control_event_mutation option \<Rightarrow> node_db \<Rightarrow> event_spec \<Rightarrow>
   node_db \<times> (store_error + event_record \<times> fields)" where
  "appendWithControl c m w mutation db spec =
     (let build = build_frame c m w spec; builder = Some (\<lambda>sequence. frame_of (build sequence))
      in case (case mutation of
                 Some mu \<Rightarrow> AppendControlEvent (aw_append w) (aw_store_clock w) db (mg_binding m) (sc_target spec) (sc_kind spec)
                   (aw_clock w) (mg_retention m) mu builder
               | None \<Rightarrow> AppendEvent (aw_append w) (aw_store_clock w) db (mg_binding m) (sc_target spec) (sc_kind spec)
                   (aw_clock w) (mg_retention m) builder) of
           (db', Inl x) \<Rightarrow> (db', Inl x)
         | (db', Inr r) \<Rightarrow>
             (db', Inr (r, case build (er_sequence r) of None \<Rightarrow> sc_payload spec | Some (_, _, payload) \<Rightarrow> payload)))"

text \<open>Evaluation builds the frame of the next sequence once.\<close>

definition append_built_frame ::
  "(string \<times> bytes \<times> fields) option \<Rightarrow> int \<Rightarrow> codec \<Rightarrow> manager \<Rightarrow> append_world \<Rightarrow> control_event_mutation option \<Rightarrow> node_db \<Rightarrow>
   event_spec \<Rightarrow> node_db \<times> (store_error + event_record \<times> fields)" where
  "append_built_frame built n c m w mutation db spec =
     (let build = (\<lambda>sequence. if sequence = n then built else build_frame c m w spec sequence);
          builder = Some (\<lambda>sequence. frame_of (build sequence))
      in case (case mutation of
                 Some mu \<Rightarrow> AppendControlEvent (aw_append w) (aw_store_clock w) db (mg_binding m) (sc_target spec) (sc_kind spec)
                   (aw_clock w) (mg_retention m) mu builder
               | None \<Rightarrow> AppendEvent (aw_append w) (aw_store_clock w) db (mg_binding m) (sc_target spec) (sc_kind spec)
                   (aw_clock w) (mg_retention m) builder) of
           (db', Inl x) \<Rightarrow> (db', Inl x)
         | (db', Inr r) \<Rightarrow>
             (db', Inr (r, case build (er_sequence r) of None \<Rightarrow> sc_payload spec | Some (_, _, payload) \<Rightarrow> payload)))"

definition append_next :: "int \<Rightarrow> codec \<Rightarrow> manager \<Rightarrow> append_world \<Rightarrow> control_event_mutation option \<Rightarrow> node_db \<Rightarrow>
   event_spec \<Rightarrow> node_db \<times> (store_error + event_record \<times> fields)" where
  "append_next n c m w mutation db spec = append_built_frame (build_frame c m w spec n) n c m w mutation db spec"

lemma appendWithControl_code [code]:
  "appendWithControl c m w mutation db spec =
     append_next (case sql_row (\<lambda>r. stream_key r = binding_key (mg_binding m)) (event_streams db) of
       None \<Rightarrow> 1 | Some st \<Rightarrow> es_latest_sequence st + 1) c m w mutation db spec"
proof -
  have "(\<lambda>sequence. if sequence = n then build_frame c m w spec n else build_frame c m w spec sequence) = build_frame c m w spec" for n
    by auto
  then show ?thesis unfolding append_next_def append_built_frame_def appendWithControl_def by presburger
qed

section \<open>Snapshots and approvals\<close>

definition eventStatus :: "string \<Rightarrow> fields \<Rightarrow> string" where
  "eventStatus kind payload =
     (let value = firstString payload ''status'' []
      in if value \<noteq> [] then value
         else if kind = ''turn.completed'' then ''completed''
         else if kind = ''turn.failed'' then ''failed''
         else if kind = ''turn.interrupted'' then ''interrupted''
         else if kind = ''approval.requested'' then ''waiting_approval''
         else ''running'')"

definition recent_entry :: "event_record \<Rightarrow> fields \<Rightarrow> dyn" where
  "recent_entry r payload =
     DMap [(''type'', DText (er_type r)), (''turnId'', DText (et_turn (er_target r))), (''itemId'', DText (et_item (er_target r))),
       (''payload'', DMap (clonePayload payload))]"

definition slice_of :: "dyn option \<Rightarrow> dyn list" where
  "slice_of v = (case v of Some (DSlice vs) \<Rightarrow> vs | _ \<Rightarrow> [])"

text \<open>The state of a thread after an event: a new one, or the stored one with the event at the end of the recent
  events, of which the last fifty are kept.\<close>

definition new_state :: "event_record \<Rightarrow> string \<Rightarrow> dyn \<Rightarrow> fields" where
  "new_state r status entry =
     [(''status'', DText status), (''latestSequence'', DNumber (itoa (er_sequence r))), (''recent'', DSlice [entry])]"

definition next_state :: "event_record \<Rightarrow> string \<Rightarrow> dyn \<Rightarrow> fields \<Rightarrow> fields" where
  "next_state r status entry previous =
     (let s1 = put_field ''latestSequence'' (DNumber (itoa (er_sequence r))) (put_field ''status'' (DText status) previous);
          recent = slice_of (map_of s1 ''recent'') @ [entry]
      in if maxSnapshotItems < length recent
         then put_field ''recent'' (DSlice (drop (length recent - maxSnapshotItems) recent)) (put_field ''truncated'' (DBool True) s1)
         else put_field ''recent'' (DSlice recent) s1)"

definition updateSnapshot :: "append_world \<Rightarrow> node_db \<Rightarrow> event_record \<Rightarrow> fields \<Rightarrow> node_db \<times> log_error option" where
  "updateSnapshot w db r payload =
     (if et_thread (er_target r) = [] then (db, None)
      else
        let status = eventStatus (er_type r) payload; entry = recent_entry r payload
        in case (case Snapshot (aw_snapshot_read w) db (et_thread (er_target r)) of
                   Inl _ \<Rightarrow> Some (new_state r status entry)
                 | Inr existing \<Rightarrow>
                     (case unmarshal_fields (sp_payload existing) of
                        Malformed \<Rightarrow> Some (new_state r status entry)
                      | NilMap \<Rightarrow> None
                      | Fields previous \<Rightarrow> Some (next_state r status entry previous))) of
             None \<Rightarrow> (db, Some LogPanic)
           | Some state \<Rightarrow>
               (case boundedJSON state MaxSnapshotBytes of
                  None \<Rightarrow> (db, Some LogInvalid)
                | Some raw \<Rightarrow>
                    (case SaveSnapshot (aw_snapshot_write w) (aw_store_clock w) db
                       \<lparr>sp_workspace = et_workspace (er_target r), sp_thread = et_thread (er_target r), sp_status = status,
                        sp_latest_sequence = er_sequence r, sp_payload = raw, sp_updated_at = er_created_at r\<rparr> of
                       (db', x) \<Rightarrow> (db', map_option LogRaw x))))"

definition parse_or_zero :: "string \<Rightarrow> gotime" where
  "parse_or_zero s = (case parse_RFC3339Nano s of None \<Rightarrow> 0 | Some t \<Rightarrow> t)"

definition updateApproval :: "append_world \<Rightarrow> node_db \<Rightarrow> event_record \<Rightarrow> fields \<Rightarrow> node_db \<times> log_error option" where
  "updateApproval w db r payload =
     (let requested = (er_type r = ''approval.requested'' \<or> er_type r = ''interaction.requested'');
          resolved = (er_type r = ''approval.resolved'' \<or> er_type r = ''interaction.resolved'');
          approvalID = firstString payload ''approvalId'' (firstString payload ''id'' [])
      in if \<not> requested \<and> \<not> resolved then (db, None)
         else if \<not> validID approvalID then (db, Some LogInvalid)
         else case boundedJSON payload MaxSnapshotBytes of
           None \<Rightarrow> (db, Some LogInvalid)
         | Some raw \<Rightarrow>
             if requested then
               (case SaveApproval (aw_approval_write w) (aw_store_clock w) db
                  \<lparr>av_approval_id = approvalID, av_workspace = et_workspace (er_target r), av_thread = et_thread (er_target r),
                   av_turn = et_turn (er_target r), av_item = et_item (er_target r), av_status = ApprovalPending,
                   av_operation_digest = firstString payload ''operationDigest'' [], av_payload = raw,
                   av_expires_at = parse_or_zero (firstString payload ''expiresAt'' []), av_updated_at = er_created_at r\<rparr> of
                  (db', x) \<Rightarrow> (db', map_option LogRaw x))
             else
               (case Approval (aw_approval_read w) db approvalID of
                  Inl x \<Rightarrow> (db, Some (LogRaw x))
                | Inr existing \<Rightarrow>
                    let decision = firstString payload ''decision'' [];
                        status = (if decision = ''accept'' then ''accepted'' else if decision = ''decline'' then ''declined'' else ''resolved'')
                    in (case SaveApproval (aw_approval_write w) (aw_store_clock w) db
                          (existing\<lparr>av_status := status, av_payload := raw, av_updated_at := er_created_at r\<rparr>) of
                          (db', x) \<Rightarrow> (db', map_option LogRaw x))))"

section \<open>Publishing\<close>

definition normalize :: "codec \<Rightarrow> manager \<Rightarrow> agent_event \<Rightarrow> log_error + event_spec list" where
  "normalize c m e = (if mg_version m = CurrentVersion then normalizeEvent c e else normalizeEventV11 c e)"

text \<open>What follows an append; only a panic is not ignored.\<close>

definition follow_up :: "manager \<Rightarrow> append_world \<Rightarrow> node_db \<Rightarrow> event_record \<Rightarrow> fields \<Rightarrow> node_db \<times> bool" where
  "follow_up m w db r payload =
     (case (if mg_version m = CurrentVersion then updateSnapshot w db r payload else (db, None)) of
        (db1, x) \<Rightarrow> if x = Some LogPanic then (db1, False) else (fst (updateApproval w db1 r payload), True))"

fun publish_specs ::
  "codec \<Rightarrow> manager \<Rightarrow> (nat \<Rightarrow> append_world) \<Rightarrow> nat \<Rightarrow> node_db \<Rightarrow> event_spec list \<Rightarrow> node_db \<times> (log_error + event_record list)" where
  "publish_specs c m ws n db [] = (db, Inr [])"
| "publish_specs c m ws n db (spec # specs) =
     (case appendWithControl c m (ws n) None db spec of
        (db1, Inl x) \<Rightarrow> (db1, Inl (LogRaw x))
      | (db1, Inr (r, payload)) \<Rightarrow>
          (case follow_up m (ws n) db1 r payload of
             (db2, False) \<Rightarrow> (db2, Inl LogPanic)
           | (db2, True) \<Rightarrow>
               (case publish_specs c m ws (Suc n) db2 specs of
                  (db3, Inl x) \<Rightarrow> (db3, Inl x)
                | (db3, Inr rs) \<Rightarrow> (db3, Inr (r # rs)))))"

definition Publish ::
  "codec \<Rightarrow> manager \<Rightarrow> bool \<Rightarrow> (nat \<Rightarrow> append_world) \<Rightarrow> node_db \<Rightarrow> agent_event \<Rightarrow> node_db \<times> (log_error + event_record list)" where
  "Publish c m live ws db e =
     (if \<not> live then (db, Inl LogContext)
      else case normalize c m e of
        Inl x \<Rightarrow> (db, Inl x)
      | Inr specs \<Rightarrow> publish_specs c m ws 0 db specs)"

end
