(* ===== verification/Event_Operations.thy ===== *)
theory Event_Operations
  imports Event_Manager
begin

text \<open>
  The rest of the event log manager: replay and acknowledgement, snapshots read from the Agent runtime, recovery of a
  client that missed events, reconciliation after a restart, and the requests of \<^verbatim>\<open>operations.go\<close>.
\<close>

section \<open>Replay\<close>

definition Replay :: "manager \<Rightarrow> env \<Rightarrow> node_db \<Rightarrow> int \<Rightarrow> int \<Rightarrow> log_error + replay_batch" where
  "Replay m e db afterSequence limit =
     (case ReplayEvents e db (mg_binding m) afterSequence (if limit = 0 then DefaultReplayLimit else limit) of
        Inl x \<Rightarrow> Inl (classifyStore x)
      | Inr (records, head) \<Rightarrow>
          Inr \<lparr>rb_records = records, rb_earliest = eh_earliest head, rb_latest = eh_latest head,
               rb_gap = (0 < eh_earliest head \<and> afterSequence + 1 < eh_earliest head),
               rb_more = (records \<noteq> [] \<and> er_sequence (last records) < eh_latest head)\<rparr>)"

definition AcknowledgeLog :: "manager \<Rightarrow> env \<Rightarrow> gotime \<Rightarrow> gotime \<Rightarrow> node_db \<Rightarrow> int \<Rightarrow> node_db \<times> log_error option" where
  "AcknowledgeLog m e clock1 clock2 db n =
     (case AcknowledgeEvents e clock1 clock2 db (mg_binding m) n of (db', x) \<Rightarrow> (db', map_option classifyStore x))"

section \<open>Snapshots\<close>

definition text_entry :: "string \<Rightarrow> string \<Rightarrow> fields" where
  "text_entry k s = (if s = [] then [] else [(k, DText s)])"

definition flag_entry :: "string \<Rightarrow> bool \<Rightarrow> fields" where
  "flag_entry k b = (if b then [(k, DBool True)] else [])"

definition time_entry :: "string \<Rightarrow> gotime \<Rightarrow> fields" where
  "time_entry k t = (if IsZero t then [] else [(k, DText (format_RFC3339Nano t))])"

definition item_payload :: "thread_item \<Rightarrow> dyn" where
  "item_payload i =
     DMap ([(''id'', DText (ti_id i)), (''kind'', DText (ti_kind i)), (''status'', DText (ti_status i))] @
       text_entry ''text'' (ti_text i) @ text_entry ''command'' (ti_command i) @ text_entry ''output'' (ti_output i) @
       text_entry ''toolName'' (ti_tool i) @ text_entry ''path'' (ti_path i) @ text_entry ''changeType'' (ti_change i) @
       text_entry ''diff'' (ti_diff i) @
       (case ti_exit i of None \<Rightarrow> [] | Some n \<Rightarrow> [(''exitCode'', DNumber (itoa n))]) @
       text_entry ''errorCode'' (ti_error_code i) @ text_entry ''errorMessage'' (ti_error_message i) @
       flag_entry ''partial'' (ti_partial i) @ flag_entry ''truncated'' (ti_truncated i))"

definition turn_payload :: "turn \<Rightarrow> dyn" where
  "turn_payload t =
     DMap ([(''id'', DText (tu_id t)), (''status'', DText (tu_status t)), (''items'', DSlice (map item_payload (tu_items t)))] @
       text_entry ''historyState'' (tu_history t))"

definition snapshotPayload :: "thread_snapshot \<Rightarrow> string \<Rightarrow> fields" where
  "snapshotPayload s override =
     (let t = ts_thread s
      in [(''status'', DText (if override = [] then th_status t else override)),
          (''thread'', DMap ([(''id'', DText (th_id t)), (''status'', DText (th_status t))] @ text_entry ''title'' (th_title t) @
             text_entry ''preview'' (th_preview t) @ time_entry ''createdAt'' (th_created t) @ time_entry ''updatedAt'' (th_updated t))),
          (''turns'', DSlice (map turn_payload (ts_turns s)))] @ text_entry ''historyState'' (th_history t))"

text \<open>The payloads of the pending approvals of a thread; \<open>None\<close> is the panic on a stored \<^verbatim>\<open>null\<close>.\<close>

fun pending_payloads :: "approval_record list \<Rightarrow> dyn list option" where
  "pending_payloads [] = Some []"
| "pending_payloads (r # rs) =
     (case unmarshal_fields (av_payload r) of
        Malformed \<Rightarrow> pending_payloads rs
      | NilMap \<Rightarrow> None
      | Fields payload \<Rightarrow>
          map_option (Cons (DMap (put_field ''itemId'' (DText (av_item r)) (put_field ''turnId'' (DText (av_turn r)) payload))))
            (pending_payloads rs))"

definition pendingApprovalPayloads :: "env \<Rightarrow> node_db \<Rightarrow> string \<Rightarrow> dyn list option" where
  "pendingApprovalPayloads e db threadID =
     (case PendingApprovals e db threadID of Inl _ \<Rightarrow> Some [] | Inr rs \<Rightarrow> pending_payloads rs)"

record read_request =
  rq_workspace :: string
  rq_agent :: string
  rq_thread :: string

text \<open>The Agent runtime as far as the manager calls it: \<^verbatim>\<open>ReadThread\<close> with all turns.\<close>

type_synonym runtime = "read_request \<Rightarrow> string + thread_snapshot"

definition snapshot_event :: "string \<Rightarrow> string \<Rightarrow> string \<Rightarrow> string \<Rightarrow> fields \<Rightarrow> bool \<Rightarrow> agent_event" where
  "snapshot_event agent workspace thread turn payload ambiguous =
     \<lparr>ae_type = ''thread.snapshot'', ae_agent = agent, ae_correlation = [], ae_workspace = workspace, ae_thread = thread, ae_turn = turn,
      ae_item = [], ae_payload = DMap payload, ae_approval = None, ae_ambiguous = ambiguous\<rparr>"

definition ManagerSnapshot ::
  "codec \<Rightarrow> manager \<Rightarrow> runtime \<Rightarrow> env \<Rightarrow> bool \<Rightarrow> (nat \<Rightarrow> append_world) \<Rightarrow> node_db \<Rightarrow> string \<Rightarrow> string \<Rightarrow>
   node_db \<times> (log_error + event_record)" where
  "ManagerSnapshot c m rt e live ws db workspace thread =
     (if \<not> validID workspace \<or> \<not> validID thread then (db, Inl LogInvalid)
      else case rt \<lparr>rq_workspace = workspace, rq_agent = [], rq_thread = thread\<rparr> of
        Inl x \<Rightarrow> (db, Inl (LogRuntime x))
      | Inr snapshot \<Rightarrow>
          (case pendingApprovalPayloads e db thread of
             None \<Rightarrow> (db, Inl LogPanic)
           | Some pending \<Rightarrow>
               (case Publish c m live ws db
                  (snapshot_event [] workspace thread [] (put_field ''pendingApprovals'' (DSlice pending) (snapshotPayload snapshot [])) False) of
                  (db', Inl x) \<Rightarrow> (db', Inl x)
                | (db', Inr [r]) \<Rightarrow> (db', Inr r)
                | (db', Inr _) \<Rightarrow> (db', Inl LogInvalid))))"

section \<open>Recovery\<close>

definition gap_event :: "string \<Rightarrow> string \<Rightarrow> int \<Rightarrow> int \<Rightarrow> agent_event" where
  "gap_event workspace thread afterSequence earliest =
     \<lparr>ae_type = ''history.gap'', ae_agent = [], ae_correlation = [], ae_workspace = workspace, ae_thread = thread, ae_turn = [],
      ae_item = [], ae_payload = DMap [(''afterSequence'', DNumber (itoa afterSequence)), (''earliestSequence'', DNumber (itoa earliest))],
      ae_approval = None, ae_ambiguous = False\<rparr>"

definition Recover ::
  "codec \<Rightarrow> manager \<Rightarrow> runtime \<Rightarrow> env \<Rightarrow> env \<Rightarrow> bool \<Rightarrow> (nat \<Rightarrow> append_world) \<Rightarrow> (nat \<Rightarrow> append_world) \<Rightarrow> node_db \<Rightarrow> string \<Rightarrow> string \<Rightarrow>
   int \<Rightarrow> int \<Rightarrow> node_db \<times> (log_error + replay_batch)" where
  "Recover c m rt e1 e2 live ws1 ws2 db workspace thread afterSequence limit =
     (case Replay m e1 db afterSequence limit of
        Inl x \<Rightarrow> (db, Inl x)
      | Inr batch \<Rightarrow>
          if \<not> rb_gap batch then (db, Inr batch)
          else (case Publish c m live ws1 db (gap_event workspace thread afterSequence (rb_earliest batch)) of
                  (db1, Inl x) \<Rightarrow> (db1, Inl x)
                | (db1, Inr gaps) \<Rightarrow>
                    (case ManagerSnapshot c m rt e2 live ws2 db1 workspace thread of
                       (db2, Inl x) \<Rightarrow> (db2, Inl x)
                     | (db2, Inr r) \<Rightarrow>
                         (db2, Inr (batch\<lparr>rb_records := gaps @ [r], rb_latest := er_sequence r, rb_more := False\<rparr>)))))"

section \<open>Reconciliation\<close>

definition terminal_status :: "string \<Rightarrow> bool" where
  "terminal_status s = (s = ''completed'' \<or> s = ''failed'' \<or> s = ''interrupted'')"

definition terminalStatus :: "turn list \<Rightarrow> string \<Rightarrow> string" where
  "terminalStatus turns i =
     (if i = [] then []
      else case List.find (\<lambda>t. tu_id t = i \<and> terminal_status (tu_status t)) turns of None \<Rightarrow> [] | Some t \<Rightarrow> tu_status t)"

definition terminalEvent :: "string \<Rightarrow> string" where
  "terminalEvent status =
     (if status = ''failed'' then ''turn.failed'' else if status = ''interrupted'' then ''turn.interrupted'' else ''turn.completed'')"

definition snapshotHasTerminal :: "env \<Rightarrow> node_db \<Rightarrow> string \<Rightarrow> string \<Rightarrow> string \<Rightarrow> bool" where
  "snapshotHasTerminal e db threadID turnID eventType =
     (case Snapshot e db threadID of
        Inl _ \<Rightarrow> False
      | Inr r \<Rightarrow>
          (case unmarshal_fields (sp_payload r) of
             Fields payload \<Rightarrow>
               list_ex (\<lambda>v. firstString (as_fields v) ''type'' [] = eventType \<and> firstString (as_fields v) ''turnId'' [] = turnID)
                 (slice_of (map_of payload ''recent''))
           | _ \<Rightarrow> False))"

record reconcile_report =
  rc_confirmed :: nat
  rc_ambiguous :: nat
  rc_deferred :: nat

text \<open>What the reconciliation of one thread meets.\<close>

record reconcile_world =
  rw_runtime :: runtime
  rw_live :: bool
  rw_appends :: "nat \<Rightarrow> append_world"
  rw_terminal :: env
  rw_mark :: env
  rw_save :: env
  rw_clock :: gotime

definition terminal_event :: "runtime_thread_record \<Rightarrow> string \<Rightarrow> string \<Rightarrow> agent_event" where
  "terminal_event t task status =
     \<lparr>ae_type = terminalEvent status, ae_agent = rr_agent_instance_id t, ae_correlation = [], ae_workspace = rr_workspace t,
      ae_thread = task, ae_turn = rr_active_turn_id t, ae_item = [],
      ae_payload = DMap [(''status'', DText status), (''reconciled'', DBool True)], ae_approval = None, ae_ambiguous = False\<rparr>"

definition lost_payload :: "thread_snapshot \<Rightarrow> fields" where
  "lost_payload s =
     put_field ''reason'' (DText ''runtime_confirmation_lost'') (put_field ''pendingApprovals'' (DSlice []) (snapshotPayload s ''ambiguous''))"

datatype thread_outcome = Confirmed | AmbiguousThread | Deferred

text \<open>The events published for one thread that is not idle.\<close>

definition settle_thread ::
  "codec \<Rightarrow> manager \<Rightarrow> reconcile_world \<Rightarrow> node_db \<Rightarrow> runtime_thread_record \<Rightarrow> node_db \<times> (log_error + thread_outcome)" where
  "settle_thread c m w db t =
     (case rw_runtime w \<lparr>rq_workspace = rr_workspace t, rq_agent = rr_agent_instance_id t, rq_thread = rr_thread t\<rparr> of
        Inl _ \<Rightarrow> (db, Inr Deferred)
      | Inr s \<Rightarrow>
          if th_status (ts_thread s) = ''active'' \<or> th_status (ts_thread s) = ''systemError'' then (db, Inr Deferred)
          else
            let status = terminalStatus (ts_turns s) (rr_active_turn_id t);
                task = (if th_id (ts_thread s) = [] then rr_thread t else th_id (ts_thread s))
            in if status \<noteq> [] then
                 (if snapshotHasTerminal (rw_terminal w) db task (rr_active_turn_id t) (terminalEvent status) then (db, Inr Confirmed)
                  else (case Publish c m (rw_live w) (rw_appends w) db (terminal_event t task status) of
                          (db', Inl x) \<Rightarrow> (db', Inl x) | (db', Inr _) \<Rightarrow> (db', Inr Confirmed)))
               else
                 (let db1 = fst (MarkThreadApprovalsAmbiguous (rw_mark w) (rw_clock w) db task)
                  in case Publish c m (rw_live w) (rw_appends w) db1
                       (snapshot_event (rr_agent_instance_id t) (rr_workspace t) task (rr_active_turn_id t) (lost_payload s) True) of
                       (db', Inl x) \<Rightarrow> (db', Inl x) | (db', Inr _) \<Rightarrow> (db', Inr AmbiguousThread)))"

definition count_outcome :: "thread_outcome \<Rightarrow> reconcile_report \<Rightarrow> reconcile_report" where
  "count_outcome x r =
     (case x of
        Confirmed \<Rightarrow> r\<lparr>rc_confirmed := Suc (rc_confirmed r)\<rparr>
      | AmbiguousThread \<Rightarrow> r\<lparr>rc_ambiguous := Suc (rc_ambiguous r)\<rparr>
      | Deferred \<Rightarrow> r\<lparr>rc_deferred := Suc (rc_deferred r)\<rparr>)"

fun reconcile_threads ::
  "codec \<Rightarrow> manager \<Rightarrow> (nat \<Rightarrow> reconcile_world) \<Rightarrow> nat \<Rightarrow> node_db \<Rightarrow> reconcile_report \<Rightarrow> runtime_thread_record list \<Rightarrow>
   node_db \<times> reconcile_report \<times> log_error option" where
  "reconcile_threads c m ws n db report [] = (db, report, None)"
| "reconcile_threads c m ws n db report (t # ts) =
     (if rr_state t = RuntimeThreadIdle then reconcile_threads c m ws (Suc n) db report ts
      else case settle_thread c m (ws n) db t of
        (db1, Inl x) \<Rightarrow> (db1, report, Some x)
      | (db1, Inr Deferred) \<Rightarrow> reconcile_threads c m ws (Suc n) db1 (count_outcome Deferred report) ts
      | (db1, Inr x) \<Rightarrow>
          (case SaveRuntimeThread (rw_save (ws n)) (rw_clock (ws n)) db1 (t\<lparr>rr_state := RuntimeThreadIdle, rr_active_turn_id := []\<rparr>) of
             (db2, Some y) \<Rightarrow> (db2, count_outcome x report, Some (classifyStore y))
           | (db2, None) \<Rightarrow> reconcile_threads c m ws (Suc n) db2 (count_outcome x report) ts))"

definition Reconcile ::
  "codec \<Rightarrow> manager \<Rightarrow> env \<Rightarrow> (nat \<Rightarrow> reconcile_world) \<Rightarrow> node_db \<Rightarrow> node_db \<times> reconcile_report \<times> log_error option" where
  "Reconcile c m e ws db =
     (let zero = \<lparr>rc_confirmed = 0, rc_ambiguous = 0, rc_deferred = 0\<rparr>
      in case RuntimeThreads e db of
           Inl x \<Rightarrow> (db, zero, Some (classifyStore x))
         | Inr records \<Rightarrow> reconcile_threads c m ws 0 db zero records)"

section \<open>Control requests\<close>

definition dereference :: "string option \<Rightarrow> string" where
  "dereference x = (case x of None \<Rightarrow> [] | Some s \<Rightarrow> s)"

definition new_control :: "codec \<Rightarrow> string \<Rightarrow> bytes \<Rightarrow> string \<Rightarrow> string \<Rightarrow> event_target \<Rightarrow> control_record" where
  "new_control c i input signature kind target =
     \<lparr>ct_message_id = i, ct_request_digest = cd_sha256 c (input @ signature), ct_type = kind, ct_target = target,
      ct_state = ControlValidated, ct_error_code = [], ct_result_stream_id = [], ct_result_sequence = 0, ct_created_at = 0,
      ct_updated_at = 0\<rparr>"

definition create_control ::
  "env \<Rightarrow> gotime \<Rightarrow> node_db \<Rightarrow> control_record option \<Rightarrow> node_db \<times> (log_error + control_record)" where
  "create_control e clock db r =
     (case r of
        None \<Rightarrow> (db, Inl LogInvalid)
      | Some new \<Rightarrow>
          (case CreateControl e clock db new of
             (db', Inl x) \<Rightarrow> (db', Inl (classifyStore x)) | (db', Inr created) \<Rightarrow> (db', Inr created)))"

definition control_of :: "codec \<Rightarrow> v1_message \<Rightarrow> control_record option" where
  "control_of c m =
     (case (ControlSigningInput c m, ms_signature m) of
        (Some input, Some signature) \<Rightarrow>
          Some (new_control c (ms_message m) input signature (ms_type m)
            \<lparr>et_workspace = dereference (ms_workspace m), et_thread = dereference (ms_thread m), et_turn = dereference (ms_turn m),
             et_item = dereference (ms_item m)\<rparr>)
      | _ \<Rightarrow> None)"

definition control_of11 :: "codec \<Rightarrow> v11_message \<Rightarrow> control_record option" where
  "control_of11 c m =
     (case (ControlSigningInput11 c m, ms_signature m) of
        (Some input, Some signature) \<Rightarrow>
          Some (new_control c (ms_message m) input signature (ms_type m)
            \<lparr>et_workspace = dereference (ms_workspace m), et_thread = dereference (ms_task m), et_turn = dereference (ms_run m),
             et_item = dereference (ms_interaction m)\<rparr>)
      | _ \<Rightarrow> None)"

definition BeginControl :: "codec \<Rightarrow> env \<Rightarrow> gotime \<Rightarrow> node_db \<Rightarrow> v1_message \<Rightarrow> node_db \<times> (log_error + control_record)" where
  "BeginControl c e clock db m = create_control e clock db (control_of c m)"

definition BeginControlV11 :: "codec \<Rightarrow> env \<Rightarrow> gotime \<Rightarrow> node_db \<Rightarrow> v11_message \<Rightarrow> node_db \<times> (log_error + control_record)" where
  "BeginControlV11 c e clock db m = create_control e clock db (control_of11 c m)"

definition MarkDispatching :: "env \<Rightarrow> gotime \<Rightarrow> node_db \<Rightarrow> string \<Rightarrow> node_db \<times> (log_error + control_record)" where
  "MarkDispatching e clock db i =
     (case TransitionControl e clock db i ControlDispatching [] [] 0 of
        (db', Inl x) \<Rightarrow> (db', Inl (classifyStore x)) | (db', Inr r) \<Rightarrow> (db', Inr r))"

definition result_keys :: "string list" where
  "result_keys = [''config'', ''pending'', ''applied'', ''requiresLocalConfirmation'', ''changeId'', ''revision'']"

definition control_payload :: "string \<Rightarrow> string \<Rightarrow> string \<Rightarrow> fields \<Rightarrow> fields" where
  "control_payload status errorCode message extra =
     (let p0 = [(''status'', DText status)];
          p1 = (if errorCode = [] then p0 else put_field ''errorCode'' (DText errorCode) p0);
          p2 = (if message = [] then p1 else put_field ''message'' (DText (truncateUTF8 message 4096)) p1)
      in put_fields (filter (\<lambda>x. fst x \<in> set result_keys) extra) p2)"

definition adapterEventForControl :: "control_record \<Rightarrow> string \<Rightarrow> fields \<Rightarrow> agent_event" where
  "adapterEventForControl r correlation payload =
     \<lparr>ae_type = ''control.result'', ae_agent = [], ae_correlation = correlation, ae_workspace = et_workspace (ct_target r),
      ae_thread = et_thread (ct_target r), ae_turn = et_turn (ct_target r), ae_item = et_item (ct_target r),
      ae_payload = DMap payload, ae_approval = None, ae_ambiguous = False\<rparr>"

text \<open>The result that is already in the log.\<close>

definition stored_result :: "manager \<Rightarrow> env \<Rightarrow> node_db \<Rightarrow> int \<Rightarrow> log_error + event_record" where
  "stored_result m e db n =
     (case ReplayEvents e db (mg_binding m) (n - 1) 1 of
        Inl x \<Rightarrow> Inl (classifyStore x)
      | Inr ([r], _) \<Rightarrow> if er_sequence r = n then Inr r else Inl LogHistoryGap
      | Inr _ \<Rightarrow> Inl LogHistoryGap)"

text \<open>\<open>e\<close> and \<open>e'\<close> are the surroundings of the two reads.\<close>

definition CompleteControlWithPayload ::
  "codec \<Rightarrow> manager \<Rightarrow> env \<Rightarrow> env \<Rightarrow> append_world \<Rightarrow> node_db \<Rightarrow> string \<Rightarrow> string \<Rightarrow> string \<Rightarrow> string \<Rightarrow> fields \<Rightarrow>
   node_db \<times> (log_error + event_record)" where
  "CompleteControlWithPayload c m e e' w db i status errorCode message extra =
     (if \<not> IsTerminalControlResult status then (db, Inl LogInvalid)
      else case Control e db i of
        Inl x \<Rightarrow> (db, Inl (classifyStore x))
      | Inr r \<Rightarrow>
          if ct_state r = status \<and> 0 < ct_result_sequence r then (db, stored_result m e' db (ct_result_sequence r))
          else if isTerminalControlState (ct_state r) then (db, Inl LogControlFinalized)
          else (case normalize c m (adapterEventForControl r i (control_payload status errorCode message extra)) of
                  Inr [spec] \<Rightarrow>
                    (case appendWithControl c m w
                       (Some \<lparr>cm_message_id = i, cm_state = status, cm_error_code = errorCode\<rparr>) db spec of
                       (db1, Inl x) \<Rightarrow> (db1, Inl (classifyStore x))
                     | (db1, Inr (result, payload)) \<Rightarrow>
                         if mg_version m = CurrentVersion then
                           (case updateSnapshot w db1 result payload of
                              (db2, x) \<Rightarrow> (db2, if x = Some LogPanic then Inl LogPanic else Inr result))
                         else (db1, Inr result))
                | _ \<Rightarrow> (db, Inl LogInvalid)))"

definition CompleteControl where
  "CompleteControl c m e e' w db i status errorCode message = CompleteControlWithPayload c m e e' w db i status errorCode message []"

end
