(* ===== verification/Event_Payload_Contract.thy ===== *)
theory Event_Payload_Contract
  imports Event_Payload
begin

text \<open>
  What cutting and redaction guarantee: a cut text is the longest valid prefix within the limit and loses at most three
  bytes of a valid text, and no entry of a cloned payload keeps a value under a credential-bearing key.
\<close>

section \<open>Cutting\<close>

lemma strip_invalid_prefix: "\<exists>n. strip_invalid s = take n s"
proof (induction s rule: strip_invalid.induct)
  case (1 s)
  show ?case
  proof (cases "ValidString s")
    case True
    then have "strip_invalid s = take (length s) s" by (subst strip_invalid.simps) simp
    then show ?thesis ..
  next
    case False
    then obtain n where "strip_invalid (butlast s) = take n (butlast s)" using 1 by blast
    then have "strip_invalid s = take (min n (length s - 1)) s"
      using False by (subst strip_invalid.simps) (simp add: butlast_conv_take)
    then show ?thesis ..
  qed
qed

lemma strip_invalid_valid: "ValidString (strip_invalid s)"
  by (induction s rule: strip_invalid.induct) (subst strip_invalid.simps, simp)

lemma strip_invalid_longest: "ValidString (take n s) \<Longrightarrow> n \<le> length s \<Longrightarrow> n \<le> length (strip_invalid s)"
proof (induction s rule: strip_invalid.induct)
  case (1 s)
  show ?case
  proof (cases "ValidString s")
    case True
    then show ?thesis using 1(3) by (subst strip_invalid.simps) simp
  next
    case False
    with 1(2,3) have "n \<le> length s - 1" by (cases "n = length s") auto
    then have "take n (butlast s) = take n s" "n \<le> length (butlast s)" by (auto simp: butlast_conv_take min_def)
    with 1 False show ?thesis by (subst strip_invalid.simps) simp
  qed
qed

text \<open>A valid text has a rune boundary in any four consecutive places.\<close>

lemma decode_rune_width: "snd (decode_rune c cs) \<le> 3"
  by (auto simp: decode_rune_def Let_def split: list.splits)

lemma decode_rune_take:
  assumes "fst (decode_rune c cs) \<noteq> None" "snd (decode_rune c cs) \<le> n"
  shows "decode_rune c (take n cs) = decode_rune c cs"
proof -
  have "decode_rune c (take n cs) = decode_rune c cs"
    if "n = 0 \<longrightarrow> byte c < 128" "n = 1 \<longrightarrow> byte c < 224" "n = 2 \<longrightarrow> byte c < 240"
  proof (cases "n \<le> 2")
    case True
    then consider "n = 0" | "n = 1" | "n = 2" by linarith
    then show ?thesis using that by cases (auto simp: decode_rune_def Let_def take_Suc numeral_2_eq_2 split: list.splits)
  next
    case False
    then obtain k where "n = Suc (Suc (Suc k))" by (metis less_iff_Suc_add add_Suc not_le numeral_2_eq_2 plus_nat.add_0)
    then show ?thesis by (auto simp: decode_rune_def Let_def split: list.splits)
  qed
  moreover have "n = 0 \<longrightarrow> byte c < 128" "n = 1 \<longrightarrow> byte c < 224" "n = 2 \<longrightarrow> byte c < 240"
    using assms by (auto simp: decode_rune_def Let_def not_less split: if_splits list.splits)
  ultimately show ?thesis by blast
qed

lemma valid_cut:
  assumes "ValidString s" "n \<le> length s"
  shows "\<exists>k. k \<le> n \<and> n \<le> k + 3 \<and> ValidString (take k s)"
  using assms
proof (induction s arbitrary: n rule: runes.induct)
  case 1
  then show ?case by auto
next
  case (2 c cs)
  let ?w = "snd (decode_rune c cs)"
  have v: "fst (decode_rune c cs) \<noteq> None" "ValidString (drop ?w cs)" using 2(2) by (auto simp: ValidString_Cons)
  show ?case
  proof (cases "n \<le> ?w")
    case True
    then have "n \<le> 0 + 3" using decode_rune_width [of c cs] by linarith
    then show ?thesis by (intro exI [of _ 0]) simp
  next
    case False
    then obtain k where k: "k \<le> n - Suc ?w" "n - Suc ?w \<le> k + 3" "ValidString (take k (drop ?w cs))"
      using 2(1) [OF v(2), of "n - Suc ?w"] 2(3) by fastforce
    have "take (Suc (?w + k)) (c # cs) = c # take (?w + k) cs" by simp
    moreover have "ValidString (c # take (?w + k) cs)"
      using v(1) k(3) decode_rune_take [OF v(1), of "?w + k"] by (simp add: ValidString_Cons take_drop add.commute)
    ultimately show ?thesis using False k by (intro exI [of _ "Suc (?w + k)"]) auto
  qed
qed

lemma truncate_within: "length (truncateUTF8 s limit) \<le> limit"
proof (cases "length s \<le> limit")
  case False
  obtain n where "strip_invalid (take limit s) = take n (take limit s)" using strip_invalid_prefix by blast
  with False show ?thesis by (simp add: truncateUTF8_def)
qed (simp add: truncateUTF8_def)

lemma truncate_spec:
  assumes "ValidString s"
  shows "ValidString (truncateUTF8 s limit)" "\<exists>n. truncateUTF8 s limit = take n s"
    "min (length s) (limit - 3) \<le> length (truncateUTF8 s limit)"
proof -
  show "ValidString (truncateUTF8 s limit)" using assms by (simp add: truncateUTF8_def strip_invalid_valid)
  obtain n where "strip_invalid (take limit s) = take n (take limit s)" using strip_invalid_prefix by blast
  then show "\<exists>n. truncateUTF8 s limit = take n s" by (auto simp: truncateUTF8_def take_all intro: exI [of _ "length s"])
  show "min (length s) (limit - 3) \<le> length (truncateUTF8 s limit)"
  proof (cases "length s \<le> limit")
    case False
    then obtain k where k: "k \<le> limit" "limit \<le> k + 3" "ValidString (take k s)" using valid_cut [OF assms, of limit] by auto
    then have "ValidString (take k (take limit s))" by (simp add: min_def)
    from strip_invalid_longest [OF this] k False show ?thesis by (auto simp: truncateUTF8_def)
  qed (simp add: truncateUTF8_def)
qed

section \<open>Redaction\<close>

text \<open>No entry under a credential-bearing key has a value, in all maps that maps and slices of \<^verbatim>\<open>any\<close> lead
  to. What is inside a \<^verbatim>\<open>[]map[string]any\<close> is not looked at.\<close>

fun clean :: "dyn \<Rightarrow> bool" where
  "clean (DSlice vs) = list_all clean vs"
| "clean (DMap m) = list_all (\<lambda>x. (isSensitiveKey (fst x) \<longrightarrow> snd x = DText redactedSecret) \<and> clean (snd x)) m"
| "clean (DTexts m) = list_all (\<lambda>x. isSensitiveKey (fst x) \<longrightarrow> snd x = redactedSecret) m"
| "clean _ = True"

definition clean_fields :: "fields \<Rightarrow> bool" where
  "clean_fields m = clean (DMap m)"

lemma redact_sensitive: "isSensitiveKey k \<Longrightarrow> redactValue k v = DText redactedSecret"
  by (subst redactValue.simps) simp

lemma clean_redact: "clean (redactValue k v)"
proof (induction v arbitrary: k)
  case (DSlice vs)
  then show ?case by (subst redactValue.simps) (auto simp: list_all_iff)
next
  case (DMap m)
  then show ?case by (subst redactValue.simps) (auto simp: list_all_iff redact_sensitive)
next
  case (DTexts m)
  then show ?case by (subst redactValue.simps) (auto simp: list_all_iff)
qed (subst redactValue.simps; simp)+

lemma clean_RedactFields: "clean_fields (RedactFields m)"
  by (auto simp: clean_fields_def RedactFields_def list_all_iff clean_redact redact_sensitive)

lemma not_sensitive:
  "\<not> isSensitiveKey ''truncated''" "\<not> isSensitiveKey ''operationDigest''" "\<not> isSensitiveKey ''latestSequence''"
  by code_simp+

lemma clean_put: "clean_fields m \<Longrightarrow> \<not> isSensitiveKey k \<Longrightarrow> clean v \<Longrightarrow> clean_fields (put_field k v m)"
  by (auto simp: clean_fields_def put_field_def list_all_iff)

lemma marker_kept: "truncateUTF8 redactedSecret maxTextBytes = redactedSecret"
  by (simp add: truncateUTF8_def redactedSecret_def maxTextBytes_def)

lemma sanitize_text [simp]:
  "sanitizeValueFlag (DText s) t = (DText (truncateUTF8 s maxTextBytes), t \<or> maxTextBytes < length s)"
  by (simp add: sanitizeValueFlag.simps)

lemma clean_sanitize:
  "clean_fields (sanitizeMap m)"
  "clean v \<Longrightarrow> clean (fst (sanitizeValueFlag v t))"
  "clean_fields n \<Longrightarrow> clean_fields (fst (sanitize_entries n t))"
  "list_all clean vs \<Longrightarrow> list_all clean (fst (sanitize_items vs t))"
proof (induction m and v t and n t and vs t rule: sanitizeMap_sanitizeValueFlag_sanitize_entries_sanitize_items.induct)
  case (1 m)
  have "clean_fields (fst (sanitize_entries (RedactFields m) False))" using 1 clean_RedactFields by blast
  then show ?case
    by (subst sanitizeMap.simps) (auto intro: clean_put simp: not_sensitive case_prod_beta)
next
  case (2 v t)
  then show ?case
    by (cases v) (simp_all add: sanitizeValueFlag.simps [of "DSlice _"] sanitizeValueFlag.simps [of "DMap _"] clean_fields_def Let_def case_prod_beta,
      simp_all add: sanitizeValueFlag.simps)
next
  case (4 x xs t)
  then show ?case by (cases "sanitizeValueFlag (snd x) t") (auto simp: clean_fields_def marker_kept case_prod_beta)
next
  case (6 y ys t)
  then show ?case by (cases "sanitizeValueFlag y t") (auto simp: case_prod_beta)
qed (simp_all add: clean_fields_def)

lemma clone_clean: "clean_fields (clonePayload m)"
  by (simp add: clonePayload_def clean_sanitize)

section \<open>Texts\<close>

text \<open>A text that went through the redaction, and one that was cut after it.\<close>

definition redacted :: "string \<Rightarrow> bool" where
  "redacted s = (s = redactedSecret \<or> (\<exists>t. s = RedactText t))"

lemma redacted_texts [simp]: "redacted redactedSecret" "redacted (RedactText t)"
  by (auto simp: redacted_def)

definition filtered :: "string \<Rightarrow> bool" where
  "filtered s = (\<exists>t. redacted t \<and> s = truncateUTF8 t maxTextBytes)"

fun texts_are :: "(string \<Rightarrow> bool) \<Rightarrow> dyn \<Rightarrow> bool" where
  "texts_are P (DText s) = P s"
| "texts_are P (DSlice vs) = list_all (texts_are P) vs"
| "texts_are P (DMap m) = list_all (\<lambda>x. texts_are P (snd x)) m"
| "texts_are P (DStrings ss) = list_all redacted ss"
| "texts_are P (DTexts m) = list_all (\<lambda>x. redacted (snd x)) m"
| "texts_are P (DBytes s) = False"
| "texts_are P _ = True"

lemma redactValue_texts: "texts_are redacted (redactValue k v)"
proof (induction v arbitrary: k)
  case (DSlice vs)
  then show ?case by (subst redactValue.simps) (auto simp: list_all_iff)
next
  case (DMap m)
  then show ?case by (subst redactValue.simps) (auto simp: list_all_iff)
qed (subst redactValue.simps; auto simp: list_all_iff)+

lemma RedactFields_texts: "texts_are redacted (DMap (RedactFields m))"
  by (simp add: RedactFields_def list_all_iff redactValue_texts)

lemma texts_put: "texts_are P (DMap m) \<Longrightarrow> texts_are P v \<Longrightarrow> texts_are P (DMap (put_field k v m))"
  by (auto simp: put_field_def list_all_iff)

lemma sanitize_texts:
  "texts_are filtered (DMap (sanitizeMap m))"
  "texts_are redacted v \<Longrightarrow> texts_are filtered (fst (sanitizeValueFlag v t))"
  "texts_are redacted (DMap n) \<Longrightarrow> texts_are filtered (DMap (fst (sanitize_entries n t)))"
  "texts_are redacted (DSlice vs) \<Longrightarrow> texts_are filtered (DSlice (fst (sanitize_items vs t)))"
proof (induction m and v t and n t and vs t rule: sanitizeMap_sanitizeValueFlag_sanitize_entries_sanitize_items.induct)
  case (1 m)
  have "texts_are filtered (DMap (fst (sanitize_entries (RedactFields m) False)))" using 1 RedactFields_texts by blast
  then show ?case by (subst sanitizeMap.simps) (auto simp del: texts_are.simps intro: texts_put simp: texts_are.simps(7-) case_prod_beta)
next
  case (2 v t)
  then show ?case
    by (cases v) (auto simp: filtered_def sanitizeValueFlag.simps [of "DSlice _"] sanitizeValueFlag.simps [of "DMap _"] Let_def case_prod_beta,
      simp_all add: sanitizeValueFlag.simps)
next
  case (4 x xs t)
  then show ?case by (cases "sanitizeValueFlag (snd x) t") (auto simp: case_prod_beta)
next
  case (6 y ys t)
  then show ?case by (cases "sanitizeValueFlag y t") (auto simp: case_prod_beta)
qed simp_all

lemma clone_texts: "texts_are filtered (DMap (clonePayload m))"
  unfolding clonePayload_def by (rule sanitize_texts)

text \<open>A payload that may leave the Node. The digest of the operation is added to it at the end.\<close>

definition cleared :: "fields \<Rightarrow> bool" where
  "cleared p = (clean_fields p \<and> texts_are filtered (DMap (delete_field ''operationDigest'' p)))"

lemma filtered_within: "filtered s \<Longrightarrow> length s \<le> maxTextBytes"
  by (auto simp: filtered_def truncate_within)

section \<open>Lists of maps\<close>

text \<open>A list of maps passes as it is.\<close>

lemma sanitize_entries_maps:
  assumes "map_of m k = Some (DMaps ms)"
  shows "map_of (fst (sanitize_entries m t)) k = Some (DMaps ms)"
  using assms
proof (induction m arbitrary: t)
  case (Cons x xs)
  show ?case
  proof (cases "fst x = k")
    case True
    with Cons.prems have "snd x = DMaps ms" by simp
    with True show ?thesis by (simp add: sanitizeValueFlag.simps case_prod_beta)
  next
    case False
    with Cons show ?thesis by (auto simp: case_prod_beta)
  qed
qed simp

lemma redact_fields_maps:
  assumes "map_of m k = Some (DMaps ms)" "\<not> isSensitiveKey k"
  shows "map_of (RedactFields m) k = Some (DMaps ms)"
  using assms by (induction m) (auto simp: RedactFields_def redactValue.simps)

lemma clone_maps:
  assumes "map_of m k = Some (DMaps ms)" "\<not> isSensitiveKey k" "k \<noteq> ''truncated''"
  shows "map_of (clonePayload m) k = Some (DMaps ms)"
  using sanitize_entries_maps [OF redact_fields_maps [OF assms(1,2)], of False] assms(3)
  unfolding clonePayload_def by (subst sanitizeMap.simps) (auto simp: case_prod_beta)

end
