(* ===== verification/Event_Manager_Contract.thy ===== *)
theory Event_Manager_Contract
  imports Event_Operations Event_Payload_Contract Event_Contract
begin

text \<open>
  What the event log manager keeps: the store's append as the manager uses it, the parts of the Node database each
  operation leaves alone, and the payload a published record carries.
\<close>

section \<open>The record of an append\<close>

lemma write_event_record:
  "write_event e db b t ty at0 ret mut n tot mid frame = Inr (db', r) \<Longrightarrow> r = stored_event b t n mid ty frame at0"
  by (auto simp: write_event_def Let_def split: if_splits sum.splits)

lemma append_built:
  assumes "appendEvent e clock db b t ty at0 ret mut (Some build) = (db', Inr r)"
  shows "build (er_sequence r) = Some (er_message_id r, er_frame r)" "er_target r = t" "er_type r = ty" "er_binding r = b"
    "validEventBinding b"
proof -
  have g: "store_guard e (\<not> (\<not> validEventBinding b \<or> \<not> validOptionalEventTarget t \<or> \<not> validWorkspaceText ty 128 \<or>
      ret_max_age ret \<le> 0 \<or> ret_max_bytes ret < MaxEventFrameBytes)) = None"
    using assms by (auto simp: appendEvent_def split: option.splits)
  then show "validEventBinding b" by (auto dest: store_guard_NoneD)
  let ?at = "if IsZero at0 then clock else at0"
  from assms g obtain st :: event_stream_row and mid frame where "build (es_latest_sequence st + 1) = Some (mid, frame)"
    and w: "write_event e (db\<lparr>event_streams := ensure_stream b (timestamp ?at) (event_streams db)\<rparr>) b t ty ?at ret mut
      (es_latest_sequence st + 1) (es_total_bytes st) mid frame = Inr (db', r)"
    by (auto simp: appendEvent_def transact_val_Inr_iff Let_def split: if_splits option.splits)
  with write_event_record [OF w]
  show "build (er_sequence r) = Some (er_message_id r, er_frame r)" "er_target r = t" "er_type r = ty" "er_binding r = b"
    by (simp_all add: stored_event_def)
qed

lemma append_with_control_ok:
  assumes "appendWithControl c m w mut db spec = (db', Inr (r, payload))"
  shows "build_frame c m w spec (er_sequence r) = Some (er_message_id r, er_frame r, payload)"
    "er_target r = sc_target spec" "er_type r = sc_kind spec" "validEventBinding (mg_binding m)"
    "\<exists>mut'. appendEvent (aw_append w) (aw_store_clock w) db (mg_binding m) (sc_target spec) (sc_kind spec) (aw_clock w) (mg_retention m) mut'
      (Some (\<lambda>n. frame_of (build_frame c m w spec n))) = (db', Inr r)"
proof -
  let ?build = "\<lambda>n. frame_of (build_frame c m w spec n)"
  obtain mut' where app: "appendEvent (aw_append w) (aw_store_clock w) db (mg_binding m) (sc_target spec) (sc_kind spec) (aw_clock w)
      (mg_retention m) mut' (Some ?build) = (db', Inr r)"
    and p: "payload = (case build_frame c m w spec (er_sequence r) of None \<Rightarrow> sc_payload spec | Some (_, _, q) \<Rightarrow> q)"
    using assms
    by (auto simp: appendWithControl_def AppendEvent_def AppendControlEvent_def Let_def split: option.splits prod.splits sum.splits if_splits)
  note b = append_built [OF app]
  from b(1) p show "build_frame c m w spec (er_sequence r) = Some (er_message_id r, er_frame r, payload)"
    by (auto simp: frame_of_def)
  from b(2,3,5) show "er_target r = sc_target spec" "er_type r = sc_kind spec" "validEventBinding (mg_binding m)" by simp_all
  from app show "\<exists>mut'. appendEvent (aw_append w) (aw_store_clock w) db (mg_binding m) (sc_target spec) (sc_kind spec) (aw_clock w) (mg_retention m) mut'
      (Some ?build) = (db', Inr r)" ..
qed

lemma append_with_control_error: "appendWithControl c m w mut db spec = (db', Inl x) \<Longrightarrow> db' = db"
  by (auto simp: appendWithControl_def AppendEvent_def AppendControlEvent_def Let_def
      split: option.splits prod.splits sum.splits if_splits dest: append_error_same)

section \<open>What is left alone\<close>

text \<open>\<open>same_log db db'\<close>: the events and streams are the same; \<open>same_threads\<close>: the runtime's threads are.\<close>

definition same_log :: "node_db \<Rightarrow> node_db \<Rightarrow> bool" where
  "same_log db db' =
     (event_streams db' = event_streams db \<and> event_log db' = event_log db \<and> control_requests db' = control_requests db \<and>
      runtime_threads db' = runtime_threads db)"

lemma same_log_refl [simp]: "same_log db db"
  by (simp add: same_log_def)

lemma same_log_trans: "same_log a b \<Longrightarrow> same_log b d \<Longrightarrow> same_log a d"
  by (simp add: same_log_def)

lemma same_log_inv: "same_log db db' \<Longrightarrow> event_inv db' = event_inv db" "same_log db db' \<Longrightarrow> latest_sequence db' b = latest_sequence db b"
  by (simp_all add: same_log_def event_inv_def latest_sequence_def stream_exists_def)

lemma save_snapshot_log: "SaveSnapshot e clock db r = (db', x) \<Longrightarrow> same_log db db'"
  by (auto simp: SaveSnapshot_def Let_def same_log_def split: option.splits if_splits)

lemma save_approval_log: "SaveApproval e clock db r = (db', x) \<Longrightarrow> same_log db db'"
  by (auto simp: SaveApproval_def Let_def same_log_def split: option.splits if_splits)

lemma update_snapshot_log: "updateSnapshot w db r payload = (db', x) \<Longrightarrow> same_log db db'"
  by (auto simp: updateSnapshot_def Let_def split: if_splits option.splits sum.splits prod.splits unmarshalled.splits dest: save_snapshot_log)

lemma update_approval_log: "updateApproval w db r payload = (db', x) \<Longrightarrow> same_log db db'"
  by (auto simp: updateApproval_def Let_def split: if_splits option.splits sum.splits prod.splits dest: save_approval_log)

lemma follow_up_log: "follow_up m w db r payload = (db', ok) \<Longrightarrow> same_log db db'"
  unfolding follow_up_def
  by (auto split: if_splits prod.splits dest: update_snapshot_log intro: same_log_trans update_approval_log [OF prod.collapse [symmetric]])

lemma mark_ambiguous_log: "same_log db (fst (MarkThreadApprovalsAmbiguous e clock db t))"
  by (auto simp: MarkThreadApprovalsAmbiguous_def same_log_def split: option.splits)

lemma append_threads:
  assumes "appendEvent e clock db b t ty at0 ret mut build = (db', res)"
  shows "runtime_threads db' = runtime_threads db"
proof (cases res)
  case (Inl x)
  with assms append_error_same show ?thesis by blast
next
  case (Inr r)
  from assms [unfolded Inr] show ?thesis
    by (rule append_cases) (auto simp: write_event_def Let_def split: if_splits sum.splits)
qed

lemma append_with_control_threads:
  "appendWithControl c m w mut db spec = (db', res) \<Longrightarrow> runtime_threads db' = runtime_threads db"
  by (auto simp: appendWithControl_def AppendEvent_def AppendControlEvent_def Let_def
      split: option.splits prod.splits sum.splits if_splits dest: append_threads)

lemma publish_specs_threads: "publish_specs c m ws n db specs = (db', res) \<Longrightarrow> runtime_threads db' = runtime_threads db"
proof (induction specs arbitrary: n db db' res)
  case (Cons spec specs)
  then show ?case
    by (fastforce simp: same_log_def dest: append_with_control_threads follow_up_log split: prod.splits sum.splits bool.splits)
qed simp

lemma publish_threads: "Publish c m live ws db e = (db', res) \<Longrightarrow> runtime_threads db' = runtime_threads db"
  by (auto simp: Publish_def split: if_splits sum.splits dest: publish_specs_threads)

section \<open>The payload of a published record\<close>

definition frame_text :: "manager \<Rightarrow> event_spec \<Rightarrow> gotime \<Rightarrow> string \<Rightarrow> int \<Rightarrow> fields \<Rightarrow> bytes" where
  "frame_text m spec created i n p =
     (if mg_version m = CurrentVersion11 then Marshal (JObject (members_v11 (event_v11 m spec created i n p)))
      else Marshal (JObject (members_v1 (event_v1 m spec created i n p))))"

text \<open>The frame of the record is the message with the payload \<open>p\<close>.\<close>

definition carries :: "manager \<Rightarrow> event_record \<Rightarrow> fields \<Rightarrow> bool" where
  "carries m r p =
     (\<exists>spec created. er_frame r = frame_text m spec created (er_message_id r) (er_sequence r) p \<and> sc_kind spec = er_type r \<and>
        sc_target spec = er_target r)"

lemma marshal_spec_text: "marshal_spec c m spec created i n p = Some raw \<Longrightarrow> raw = frame_text m spec created i n p"
  by (auto simp: marshal_spec_def frame_text_def MarshalEvent_def MarshalEvent11_def Let_def split: if_splits sum.splits)

lemma builder_fields_cases:
  "builder_fields c m spec created i n p = Some added \<Longrightarrow>
    added = [] \<or> (\<exists>d. added = [(''operationDigest'', DText d)]) \<or> added = [(''latestSequence'', DNumber (itoa n))]"
  by (auto simp: builder_fields_def split: if_splits)

lemma build_frame_payload:
  assumes "build_frame c m w spec n = Some (i, raw, payload)"
  obtains added where "raw = frame_text m spec (aw_clock w) i n (put_fields added (clonePayload (sc_payload spec)))"
    "payload = put_fields added (sc_payload spec)"
    "added = [] \<or> (\<exists>d. added = [(''operationDigest'', DText d)]) \<or> added = [(''latestSequence'', DNumber (itoa n))]"
  using assms
  by (auto simp: build_frame_def Let_def split: option.splits dest!: marshal_spec_text dest: builder_fields_cases)

lemma built_clean:
  assumes "added = [] \<or> (\<exists>d. added = [(''operationDigest'', DText d)]) \<or> added = [(''latestSequence'', DNumber l)]"
  shows "cleared (put_fields added (clonePayload p))"
proof -
  have "clean_fields (put_fields added (clonePayload p))"
    using assms clone_clean [of p] by (auto simp: put_fields_def not_sensitive intro!: clean_put)
  moreover have "texts_are filtered (DMap (delete_field ''operationDigest'' (put_fields added (clonePayload p))))"
    using assms clone_texts [of p] by (fastforce simp: put_fields_def put_field_def delete_field_def list_all_iff)
  ultimately show ?thesis by (simp add: cleared_def)
qed

lemma append_carries:
  assumes "appendWithControl c m w mut db spec = (db', Inr (r, payload))"
  shows "\<exists>p. carries m r p \<and> cleared p"
proof -
  note a = append_with_control_ok [OF assms]
  obtain added where "er_frame r = frame_text m spec (aw_clock w) (er_message_id r) (er_sequence r) (put_fields added (clonePayload (sc_payload spec)))"
    "added = [] \<or> (\<exists>d. added = [(''operationDigest'', DText d)]) \<or> added = [(''latestSequence'', DNumber (itoa (er_sequence r)))]"
    using build_frame_payload [OF a(1)] by metis
  with a(2,3) built_clean show ?thesis unfolding carries_def by metis
qed

lemma publish_specs_carry:
  "publish_specs c m ws n db specs = (db', Inr rs) \<Longrightarrow> r \<in> set rs \<Longrightarrow> \<exists>p. carries m r p \<and> cleared p"
proof (induction specs arbitrary: n db rs)
  case (Cons spec specs)
  then show ?case by (auto split: prod.splits sum.splits bool.splits dest: append_carries)
qed simp

section \<open>The sequences of published records\<close>

lemma append_with_control_event:
  assumes "event_inv db" "ret_max_bytes (mg_retention m) \<le> 2 ^ 62" "appendWithControl c m w mut db spec = (db', Inr (r, payload))"
  shows "event_inv db' \<and> append_post db (mg_binding m) (mg_retention m) db' r"
  using append_with_control_ok(5) [OF assms(3)] append_event_ok [OF assms(1,2)] by blast

lemma publish_specs_sequence:
  assumes "event_inv db" "ret_max_bytes (mg_retention m) \<le> 2 ^ 62" "publish_specs c m ws n db specs = (db', res)"
  shows "event_inv db'"
    "res = Inr rs \<Longrightarrow> latest_sequence db' (mg_binding m) = latest_sequence db (mg_binding m) + int (length rs) \<and>
      map er_sequence rs = [latest_sequence db (mg_binding m) + 1..latest_sequence db (mg_binding m) + int (length rs)]"
  using assms(1,3)
proof (induction specs arbitrary: n db res rs)
  case (Cons spec specs)
  { case (1 n db res)
    obtain db1 y where a: "appendWithControl c m (ws n) None db spec = (db1, y)" by fastforce
    show ?case
    proof (cases y)
      case (Inl x)
      then have "publish_specs c m ws n db (spec # specs) = (db, Inl (LogRaw x))"
        using a append_with_control_error [OF a [unfolded Inl]] by simp
      with 1 show ?thesis by simp
    next
      case (Inr z)
      obtain r payload where z: "z = (r, payload)" by fastforce
      note ev = append_with_control_event [OF 1(1) assms(2) a [unfolded Inr z]]
      obtain db2 ok where f: "follow_up m (ws n) db1 r payload = (db2, ok)" by fastforce
      have inv: "event_inv db2" using ev same_log_inv(1) [OF follow_up_log [OF f]] by simp
      with 1(2) a Inr z f Cons.IH(1) [OF inv] show ?thesis by (auto split: bool.splits prod.splits sum.splits)
    qed
  next
    case (2 n db res rs)
    then obtain r payload db1 db2 rs' where a: "appendWithControl c m (ws n) None db spec = (db1, Inr (r, payload))"
      and f: "follow_up m (ws n) db1 r payload = (db2, True)"
      and p: "publish_specs c m ws (Suc n) db2 specs = (db', Inr rs')" and rs: "rs = r # rs'"
      by (auto split: prod.splits sum.splits bool.splits)
    note ev = append_with_control_event [OF 2(2) assms(2) a]
    have s: "er_sequence r = latest_sequence db (mg_binding m) + 1" "latest_sequence db1 (mg_binding m) = er_sequence r"
      using ev by (auto simp: append_post_def)
    have inv: "event_inv db2" and l: "latest_sequence db2 (mg_binding m) = latest_sequence db (mg_binding m) + 1"
      using ev s same_log_inv [OF follow_up_log [OF f]] by simp_all
    from Cons.IH(2) [OF refl inv p] show ?case by (simp add: rs l s upto_rec1 algebra_simps)
  }
qed simp_all

end
