(* ===== verification/Event_Results.thy ===== *)
theory Event_Results
  imports Event_Manager_Contract
begin

text \<open>
  The result of a control request: completing a request appends its event and finishes the request, and completing it
  again finds the event that is already in the log.
\<close>

section \<open>The first completion\<close>

lemma write_event_bound:
  "write_event e db b t ty at0 ret mut n tot mid frame = Inr (db', r) \<Longrightarrow> 1 \<le> er_sequence r \<and> er_sequence r \<le> max_js_sequence"
  by (auto simp: write_event_def Let_def event_log_insert_ok_def event_log_check_def event_row_def stored_event_def
      split: if_splits sum.splits)

lemma append_sequence_bound:
  assumes "appendEvent e clock db b t ty at0 ret mut build = (db', Inr r)"
  shows "1 \<le> er_sequence r \<and> er_sequence r \<le> max_js_sequence"
  using assms by (rule append_cases) (rule write_event_bound)

lemma append_with_control_result:
  assumes "appendWithControl c m w (Some mu) db spec = (db', Inr (r, payload))"
  obtains build where "AppendControlEvent (aw_append w) (aw_store_clock w) db (mg_binding m) (sc_target spec) (sc_kind spec)
    (aw_clock w) (mg_retention m) mu build = (db', Inr r)"
  using assms by (auto simp: appendWithControl_def Let_def split: prod.splits sum.splits)

lemma Control_InrD:
  assumes "Control e db i = Inr r" "control_select db i = Some row"
  shows "ct_state r = cr_state row" "ct_result_sequence r = nint (cr_result_sequence row)" "validWorkspaceText i 128"
    "parse_rfc3339 (cr_created_at row) \<noteq> None"
  using assms by (auto simp: Control_def scanControl_def split: option.splits if_splits dest: store_guard_NoneD)

lemma complete_first:
  assumes "CompleteControlWithPayload c m e e' w db i s code msg extra = (db', Inr r)"
    and "control_select db i = Some row" "\<not> isTerminalControlState (cr_state row)"
  obtains spec db1 payload where
    "appendWithControl c m w (Some \<lparr>cm_message_id = i, cm_state = s, cm_error_code = code\<rparr>) db spec = (db1, Inr (r, payload))"
    "same_log db1 db'" "validWorkspaceText i 128" "parse_rfc3339 (cr_created_at row) \<noteq> None"
proof -
  from assms(1) obtain r0 where c: "Control e db i = Inr r0" and t: "IsTerminalControlResult s"
    by (auto simp: CompleteControlWithPayload_def split: if_splits sum.splits)
  note d = Control_InrD [OF c assms(2)]
  have "ct_state r0 \<noteq> s" "\<not> isTerminalControlState (ct_state r0)"
    using d(1) assms(3) t by (auto simp: isTerminalControlState_def IsTerminalControlResult_def)
  with assms(1) c t obtain spec db1 payload where
    a: "appendWithControl c m w (Some \<lparr>cm_message_id = i, cm_state = s, cm_error_code = code\<rparr>) db spec = (db1, Inr (r, payload))"
    and f: "db' = db1 \<or> (\<exists>x. updateSnapshot w db1 r payload = (db', x))"
    by (auto simp: CompleteControlWithPayload_def split: sum.splits list.splits prod.splits if_splits)
  from f have "same_log db1 db'" by (auto dest: update_snapshot_log)
  from that [OF a this d(3,4)] show ?thesis .
qed

section \<open>The event that is in the log\<close>

lemma gapless_newest:
  assumes "gapless rows n" "rows \<noteq> []"
  shows "filter (\<lambda>r. n - 1 < ev_sequence r) rows = [last rows]"
proof -
  have split: "rows = butlast rows @ [last rows]" using assms(2) by simp
  have seqs: "map ev_sequence rows = [n + 1 - int (length rows)..n]" using assms(1) by (simp add: gapless_def)
  have "1 \<le> length rows" using assms(2) by (cases rows) auto
  then have "[n + 1 - int (length rows)..n] = [n + 1 - int (length rows)..n - 1] @ [n]" by (intro upto_rec2) simp
  with seqs split have "map ev_sequence (butlast rows) = [n + 1 - int (length rows)..n - 1]" "ev_sequence (last rows) = n"
    by (metis map_butlast butlast_snoc, metis last_map assms(2) last_snoc)
  then have "ev_sequence x \<le> n - 1" if "x \<in> set (butlast rows)" for x
    using that by (metis atLeastAtMost_iff image_eqI list.set_map set_upto)
  then have "filter (\<lambda>r. n - 1 < ev_sequence r) (butlast rows) = []" by (fastforce simp: filter_empty_conv)
  with \<open>ev_sequence (last rows) = n\<close> show ?thesis by (subst split, subst filter_append) simp
qed

lemma stored_result_found:
  assumes "event_inv db" "validEventBinding (mg_binding m)" "latest_sequence db (mg_binding m) = n" "1 \<le> n" "n \<le> max_js_sequence"
    and rows: "stream_rows (binding_key (mg_binding m)) (event_log db) \<noteq> []"
  shows "\<exists>r. stored_result m live_env db n = Inr r \<and> er_sequence r = n \<and>
    er_message_id r = ev_message_id (last (stream_rows (binding_key (mg_binding m)) (event_log db))) \<and>
    er_frame r = ev_frame (last (stream_rows (binding_key (mg_binding m)) (event_log db)))"
proof -
  let ?b = "mg_binding m" let ?rows = "stream_rows (binding_key ?b) (event_log db)"
  obtain st where st: "sql_row (\<lambda>r. stream_key r = binding_key ?b) (event_streams db) = Some st" "es_latest_sequence st = n"
    using assms(3,4) by (auto simp: latest_sequence_def split: option.splits)
  have "st \<in> set (event_streams db)" "stream_key st = binding_key ?b" using sql_row_SomeD [OF st(1)] by auto
  then have g: "gapless ?rows n" using assms(1) st(2) by (auto simp: event_inv_def list_all_iff stream_ok_def)
  have "last ?rows \<in> set (event_log db)" using last_in_set [OF rows] by (simp add: stream_rows_def)
  then obtain t where t: "parse_rfc3339 (ev_created_at (last ?rows)) = Some t"
    using assms(1) by (auto simp: event_inv_def list_all_iff log_row_ok_def)
  obtain h where head: "readEventHead False db ?b = Inr h" "eh_latest h = n" using st by (auto simp: readEventHead_def)
  have seq: "ev_sequence (last ?rows) = n"
    using gapless_newest [OF g rows] gapless_bound [OF g last_in_set [OF rows]]
    by (metis (no_types, lifting) filter_eq_Cons_iff zle_diff1_eq order_antisym not_le)
  let ?r = "stored_event ?b \<lparr>et_workspace = nstring (ev_workspace_id (last ?rows)), et_thread = nstring (ev_thread_id (last ?rows)),
      et_turn = nstring (ev_turn_id (last ?rows)), et_item = nstring (ev_item_id (last ?rows))\<rparr> n (ev_message_id (last ?rows))
      (ev_event_type (last ?rows)) (ev_frame (last ?rows)) t"
  have "ReplayEvents live_env db ?b (n - 1) 1 = Inr ([?r], h)"
    using assms(2,4,5) head t seq gapless_newest [OF g rows]
    by (simp add: ReplayEvents_def order_by_def row_event_def)
  then show ?thesis by (auto simp: stored_result_def stored_event_def)
qed

lemma complete_again:
  assumes "control_select db i = Some row" "isTerminalControlState (cr_state row)" "cr_result_sequence row = Some n" "0 < n"
    and "validWorkspaceText i 128" "parse_rfc3339 (cr_created_at row) \<noteq> None" "parse_rfc3339 (cr_updated_at row) \<noteq> None"
    and "IsTerminalControlResult s"
  shows "CompleteControlWithPayload c m live_env e w db i s code msg extra =
    (db, if cr_state row = s then stored_result m e db n else Inl LogControlFinalized)"
proof -
  obtain r where "Control live_env db i = Inr r" "ct_state r = cr_state row" "ct_result_sequence r = n"
    using assms(1,3,5-7) by (auto simp: Control_def scanControl_def nint_def)
  with assms(2,4,8) show ?thesis by (auto simp: CompleteControlWithPayload_def)
qed

end
