(* ===== verification/Event_Manager_Properties.thy ===== *)
theory Event_Manager_Properties
  imports Event_Results
begin

text \<open>
  The properties of the Node's event log manager: what the frames it publishes carry, their sequences, the results of
  control requests and the reconciliation after a restart.
\<close>

section \<open>A manager and its surroundings\<close>

definition log_codec :: codec where
  "log_codec = \<lparr>cd_jcs = Some, cd_schema = Some (\<lambda>_. True), cd_schema11 = Some (\<lambda>_. True), cd_sha256 = take 32,
     cd_verify = (\<lambda>k m s. True)\<rparr>"

definition log_manager :: manager where
  "log_manager = \<lparr>mg_binding = demo_binding, mg_retention = demo_retention, mg_version = CurrentVersion11\<rparr>"

definition log_world :: append_world where
  "log_world = \<lparr>aw_clock = seconds 63000000010, aw_random = Some (replicate 16 CHR ''r''), aw_store_clock = seconds 63000000010,
     aw_append = live_env, aw_snapshot_read = live_env, aw_snapshot_write = live_env, aw_approval_read = live_env,
     aw_approval_write = live_env\<rparr>"

text \<open>The changes of a file, with a credential in a diff and one beside it.\<close>

definition leaking_change :: fields where
  "leaking_change = [(''diff'', DText ''password=p'')]"

definition demo_occurrence :: agent_event where
  "demo_occurrence = \<lparr>ae_type = ''file.changed'', ae_agent = ''a'', ae_correlation = ''c'', ae_workspace = ''w'', ae_thread = ''t'',
     ae_turn = ''u'', ae_item = [], ae_payload = DMap [(''password'', DText ''p''), (''changes'', DMaps [leaking_change])],
     ae_approval = None, ae_ambiguous = False\<rparr>"

definition demo_run :: "node_db \<times> (log_error + event_record list)" where
  "demo_run = Publish log_codec log_manager True (\<lambda>_. log_world) (empty_node_db (timestamp 1)) demo_occurrence"

lemma demo_run_done: "\<exists>r. snd demo_run = Inr [r] \<and>
    Publish log_codec log_manager True (\<lambda>_. log_world) (empty_node_db (timestamp 1)) demo_occurrence = (fst demo_run, Inr [r])"
proof -
  have "case snd demo_run of Inr [r] \<Rightarrow> True | _ \<Rightarrow> False" by code_simp
  then obtain r where "snd demo_run = Inr [r]" by (auto split: sum.splits list.splits)
  then show ?thesis by (metis demo_run_def prod.collapse)
qed

section \<open>Publishing\<close>



text \<open>Property C9: published events are numbered without gaps. Whatever faults the store has, \<^verbatim>\<open>Publish\<close>
  keeps the invariant of the event log; when it succeeds, the records carry, in order, the sequences that follow the latest
  one of the stream before the call, and the last of them is the latest one after it.\<close>

theorem published_in_sequence:
  assumes "event_inv db" "ret_max_bytes (mg_retention m) \<le> 2 ^ 62" "Publish c m live ws db e = (db', res)"
  shows "event_inv db' \<and>
    (case res of
       Inl _ \<Rightarrow> True
     | Inr rs \<Rightarrow>
         map er_sequence rs = [latest_sequence db (mg_binding m) + 1..latest_sequence db' (mg_binding m)] \<and>
         latest_sequence db' (mg_binding m) = latest_sequence db (mg_binding m) + int (length rs))"
  using assms(1,3) publish_specs_sequence [OF assms(1,2)]
  by (fastforce simp: Publish_def split: if_splits sum.splits)

theorem published_in_sequence_witness:
  "event_inv (fst demo_run) \<and> latest_sequence (fst demo_run) demo_binding = 1"
proof -
  obtain r where eq: "Publish log_codec log_manager True (\<lambda>_. log_world) (empty_node_db (timestamp 1)) demo_occurrence = (fst demo_run, Inr [r])"
    using demo_run_done by blast
  have inv: "event_inv (empty_node_db (timestamp 1))" and zero: "latest_sequence (empty_node_db (timestamp 1)) demo_binding = 0"
    and ret: "ret_max_bytes (mg_retention log_manager) \<le> 2 ^ 62"
    by code_simp+
  from published_in_sequence [OF inv ret eq] zero show ?thesis by (simp add: log_manager_def)
qed

section \<open>The changes of a file in v1.1\<close>

text \<open>Property C38: the changes of a file leave the Node unfiltered in Protocol v1.1. When an event
  \<^verbatim>\<open>file.changed\<close> with changes of type \<^verbatim>\<open>[]map[string]any\<close>, the type the codex
  adapter gives them, is published by a v1.1 manager, the payload of the frame holds the very same changes: their texts
  went neither through \<^verbatim>\<open>RedactText\<close> nor through the cut at 256 KiB.\<close>

theorem v11_changes_unredacted:
  assumes "mg_version m = CurrentVersion11" "ae_type e = ''file.changed''" "ae_payload e = DMap payload"
    and "map_of payload ''changes'' = Some (DMaps changes)"
    and "Publish c m live ws db e = (db', Inr rs)"
  shows "\<exists>r p. rs = [r] \<and> carries m r p \<and> map_of p ''changes'' = Some (DMaps changes)"
proof -
  have k: "IsKnownEvent11 ''file.changed''" "\<not> isSensitiveKey ''changes''" "\<not> is_interaction ''file.changed''" by code_simp+
  let ?spec = "spec_of e (clonePayload payload)"
  have once: "map_of (clonePayload payload) ''changes'' = Some (DMaps changes)" using clone_maps [OF assms(4) k(2)] by simp
  have "normalize c m e = Inr [?spec]"
    using assms(1-3) k by (simp add: normalize_def normalizeEventV11_def Let_def as_fields_def spec_of_def)
  with assms(5) obtain r payload' db1 where rs: "rs = [r]"
    and app: "appendWithControl c m (ws 0) None db ?spec = (db1, Inr (r, payload'))"
    by (auto simp: Publish_def split: if_splits prod.splits sum.splits bool.splits)
  note a = append_with_control_ok [OF app]
  obtain added where f: "er_frame r = frame_text m ?spec (aw_clock (ws 0)) (er_message_id r) (er_sequence r)
      (put_fields added (clonePayload (sc_payload ?spec)))"
    and "added = [] \<or> (\<exists>d. added = [(''operationDigest'', DText d)]) \<or> added = [(''latestSequence'', DNumber (itoa (er_sequence r)))]"
    using build_frame_payload [OF a(1)] by metis
  moreover have "map_of (clonePayload (sc_payload ?spec)) ''changes'' = Some (DMaps changes)"
    using clone_maps [OF once k(2)] by (simp add: spec_of_def)
  ultimately have "map_of (put_fields added (clonePayload (sc_payload ?spec))) ''changes'' = Some (DMaps changes)"
    by (auto simp: put_fields_def)
  with f a(2,3) rs show ?thesis unfolding carries_def by metis
qed

theorem v11_changes_unredacted_witness:
  "\<exists>r p. snd demo_run = Inr [r] \<and> carries log_manager r p \<and> map_of p ''changes'' = Some (DMaps [leaking_change])"
proof -
  obtain r where r: "snd demo_run = Inr [r]" "Publish log_codec log_manager True (\<lambda>_. log_world) (empty_node_db (timestamp 1)) demo_occurrence = (fst demo_run, Inr [r])"
    using demo_run_done by blast
  let ?payload = "[(''password'', DText ''p''), (''changes'', DMaps [leaking_change])]"
  have "mg_version log_manager = CurrentVersion11" "ae_type demo_occurrence = ''file.changed''" "ae_payload demo_occurrence = DMap ?payload"
    "map_of ?payload ''changes'' = Some (DMaps [leaking_change])"
    by (simp_all add: log_manager_def demo_occurrence_def)
  from v11_changes_unredacted [OF this r(2)] r(1) show ?thesis by auto
qed

section \<open>Control requests\<close>

text \<open>Property C8: a control request is completed once. After \<^verbatim>\<open>CompleteControlWithPayload\<close> succeeded for
  a request that had no final state, completing it again, with any result, code, message and payload, changes nothing in
  the database: for the same result it returns the event that was recorded (its sequence, identifier and frame), for another
  result the error that the request is final.\<close>

theorem control_completed_once:
  assumes inv: "event_inv db" and keys: "unique_key cr_message_id (control_requests db)"
    and ret: "ret_max_bytes (mg_retention m) \<le> 2 ^ 62"
    and row: "control_select db i = Some row" "\<not> isTerminalControlState (cr_state row)"
    and first: "CompleteControlWithPayload c m e e' w db i s code msg extra = (db', Inr r)"
    and again: "IsTerminalControlResult s2"
  shows "\<exists>res. CompleteControlWithPayload c m live_env live_env w2 db' i s2 code2 msg2 extra2 = (db', res) \<and>
    (if s2 = s
     then \<exists>r'. res = Inr r' \<and> er_sequence r' = er_sequence r \<and> er_message_id r' = er_message_id r \<and> er_frame r' = er_frame r
     else res = Inl LogControlFinalized)"
proof -
  let ?b = "mg_binding m"
  obtain spec db1 payload where
    app: "appendWithControl c m w (Some \<lparr>cm_message_id = i, cm_state = s, cm_error_code = code\<rparr>) db spec = (db1, Inr (r, payload))"
    and log: "same_log db1 db'" and i: "validWorkspaceText i 128" "parse_rfc3339 (cr_created_at row) \<noteq> None"
    using complete_first [OF first row] .
  obtain build where "AppendControlEvent (aw_append w) (aw_store_clock w) db ?b (sc_target spec) (sc_kind spec) (aw_clock w)
      (mg_retention m) \<lparr>cm_message_id = i, cm_state = s, cm_error_code = code\<rparr> build = (db1, Inr r)"
    using append_with_control_result [OF app] .
  from append_control_row [OF this keys] row(1) obtain row' where
    row': "control_select db1 i = Some row'" "same_request row row'" "cr_state row' = s" "isTerminalControlState s"
      "cr_result_sequence row' = nullableSequence (er_sequence r)" "parse_rfc3339 (cr_updated_at row') \<noteq> None"
    by auto
  have post: "event_inv db1" "append_post db ?b (mg_retention m) db1 r" using append_with_control_event [OF inv ret app] by auto
  have bound: "1 \<le> er_sequence r" "er_sequence r \<le> max_js_sequence"
    using append_with_control_ok(5) [OF app] append_sequence_bound by blast+
  have select: "control_select db' i = Some row'" using row'(1) log by (simp add: control_select_def same_log_def)
  have "CompleteControlWithPayload c m live_env live_env w2 db' i s2 code2 msg2 extra2 =
      (db', if s = s2 then stored_result m live_env db' (er_sequence r) else Inl LogControlFinalized)"
    using complete_again [OF select, of "er_sequence r" s2] row'(2-6) i again bound
    by (simp add: same_request_def nullableSequence_def)
  moreover have "\<exists>r'. stored_result m live_env db' (er_sequence r) = Inr r' \<and> er_sequence r' = er_sequence r \<and>
      er_message_id r' = er_message_id r \<and> er_frame r' = er_frame r"
    using stored_result_found [of db' m "er_sequence r"] post bound append_with_control_ok(4) [OF app] log same_log_inv [OF log]
    by (simp add: append_post_def Let_def same_log_def)
  ultimately show ?thesis by auto
qed

definition demo_complete :: "string \<Rightarrow> node_db \<Rightarrow> node_db \<times> (log_error + event_record)" where
  "demo_complete status db =
     CompleteControlWithPayload log_codec log_manager live_env live_env log_world db ''c1'' status [] [] []"

definition demo_completed :: node_db where
  "demo_completed = fst (demo_complete ''confirmed'' demo_dispatching)"

theorem control_completed_once_witness:
  "\<exists>r r'. demo_complete ''confirmed'' demo_dispatching = (demo_completed, Inr r) \<and>
     demo_complete ''confirmed'' demo_completed = (demo_completed, Inr r') \<and> er_frame r' = er_frame r \<and>
     demo_complete ''rejected'' demo_completed = (demo_completed, Inl LogControlFinalized)"
proof -
  let ?row = "the (control_select demo_dispatching ''c1'')"
  have "\<not> isl (snd (demo_complete ''confirmed'' demo_dispatching))" by code_simp
  then obtain r where r: "demo_complete ''confirmed'' demo_dispatching = (demo_completed, Inr r)"
    by (metis demo_completed_def isl_def prod.collapse sum.exhaust_sel)
  have facts: "event_inv demo_dispatching" "unique_key cr_message_id (control_requests demo_dispatching)"
    "ret_max_bytes (mg_retention log_manager) \<le> 2 ^ 62" "control_select demo_dispatching ''c1'' \<noteq> None"
    "\<not> isTerminalControlState (cr_state ?row)" "IsTerminalControlResult ''confirmed''" "IsTerminalControlResult ''rejected''"
    by code_simp+
  then have row: "control_select demo_dispatching ''c1'' = Some ?row" by simp
  note again = control_completed_once [OF facts(1-3) row facts(5) r [unfolded demo_complete_def], where ?w2.0 = log_world]
  from again [OF facts(6), of "[]" "[]" "[]"] again [OF facts(7), of "[]" "[]" "[]"] r show ?thesis
    by (auto simp: demo_complete_def)
qed

section \<open>Reconciliation\<close>

lemma upsert_rows: "x \<in> set (sql_upsert key row (\<lambda>_. row) t) \<Longrightarrow> x = row \<or> x \<in> set t \<and> key x \<noteq> key row"
  by (auto simp: sql_upsert_def sql_update_def sql_insert_def sql_exists_iff split: if_splits)

text \<open>A row as a listing reports it: with its own instance, or with the one the older schema had.\<close>

definition listed :: "(string \<Rightarrow> string) \<Rightarrow> runtime_thread_row \<Rightarrow> runtime_thread_record" where
  "listed f x = (scanRuntimeThread x)\<lparr>rr_agent_instance_id := f (rt_agent_instance_id x)\<rparr>"

lemma listed_scans: "scanRuntimeThread = listed (\<lambda>i. i)" "scanLegacyRuntimeThread i = listed (\<lambda>_. i)"
  by (rule ext; simp add: listed_def scanRuntimeThread_def scanLegacyRuntimeThread_def)+

text \<open>A row that is not idle and that the rest of the listing does not settle belongs to an instance the listing misnames.\<close>

definition settled :: "(string \<Rightarrow> string) \<Rightarrow> runtime_thread_row \<Rightarrow> bool" where
  "settled f x = (rt_state x = RuntimeThreadIdle \<or> f (rt_agent_instance_id x) \<noteq> rt_agent_instance_id x)"

lemma save_idle_rows:
  assumes "SaveRuntimeThread e clock db ((listed f x)\<lparr>rr_state := RuntimeThreadIdle, rr_active_turn_id := []\<rparr>) = (db', None)"
    and "f (rt_agent_instance_id x) \<noteq> []" "y \<in> set (runtime_threads db')"
  shows "settled f y \<or> y \<in> set (runtime_threads db) \<and> y \<noteq> x"
proof -
  let ?row = "runtime_to_row ((listed f x)\<lparr>rr_state := RuntimeThreadIdle, rr_active_turn_id := []\<rparr>) (timestamp clock)"
  have "runtime_threads db' = sql_upsert runtime_thread_key ?row (\<lambda>_. ?row) (runtime_threads db)"
    using assms(1,2) by (auto simp: SaveRuntimeThread_def Let_def listed_def scanRuntimeThread_def split: option.splits if_splits)
  with assms(3) upsert_rows have "y = ?row \<or> y \<in> set (runtime_threads db) \<and> runtime_thread_key y \<noteq> runtime_thread_key ?row" by metis
  moreover have "rt_state ?row = RuntimeThreadIdle" "runtime_thread_key ?row = (f (rt_agent_instance_id x), rt_thread_id x)"
    by (simp_all add: runtime_to_row_def listed_def scanRuntimeThread_def runtime_thread_key_def)
  ultimately show ?thesis by (auto simp: settled_def runtime_thread_key_def)
qed

lemma listed_state [simp]: "rr_state (listed f x) = rt_state x"
  by (simp add: listed_def scanRuntimeThread_def)

lemma settle_threads: "settle_thread c m w db t = (db', res) \<Longrightarrow> runtime_threads db' = runtime_threads db"
  using mark_ambiguous_log [of db "rw_mark w" "rw_clock w"]
  by (auto simp: settle_thread_def Let_def same_log_def split: sum.splits if_splits prod.splits dest: publish_threads)

lemma reconcile_deferred: "reconcile_threads c m ws n db report ts = (db', report', x) \<Longrightarrow> rc_deferred report \<le> rc_deferred report'"
proof (induction ts arbitrary: n db report)
  case (Cons t ts)
  then show ?case
    by (fastforce simp: count_outcome_def split: if_splits prod.splits sum.splits thread_outcome.splits option.splits)
qed simp

lemma reconcile_idle:
  assumes "reconcile_threads c m ws n db report (map (listed f) rows) = (db', report', None)"
    and "rc_deferred report' = rc_deferred report" "list_all (\<lambda>x. f (rt_agent_instance_id x) \<noteq> []) rows"
    and "list_all (\<lambda>x. settled f x \<or> x \<in> set rows) (runtime_threads db)"
  shows "list_all (settled f) (runtime_threads db')"
  using assms
proof (induction rows arbitrary: n db report)
  case Nil
  then show ?case by (auto simp: list_all_iff)
next
  case (Cons x rows)
  show ?case
  proof (cases "rt_state x = RuntimeThreadIdle")
    case True
    then have "reconcile_threads c m ws (Suc n) db report (map (listed f) rows) = (db', report', None)"
      using Cons.prems(1) by simp
    from Cons.IH [OF this] Cons.prems(2-4) True show ?thesis by (auto simp: list_all_iff settled_def)
  next
    case False
    obtain db1 res where s: "settle_thread c m (ws n) db (listed f x) = (db1, res)" by fastforce
    have "res \<noteq> Inr Deferred"
    proof
      assume "res = Inr Deferred"
      with Cons.prems(1) s False
      have "reconcile_threads c m ws (Suc n) db1 (count_outcome Deferred report) (map (listed f) rows) = (db', report', None)"
        by simp
      from reconcile_deferred [OF this] Cons.prems(2) show False by (simp add: count_outcome_def)
    qed
    with Cons.prems(1) s False obtain z db2 where z: "z \<noteq> Deferred"
      and save: "SaveRuntimeThread (rw_save (ws n)) (rw_clock (ws n)) db1
        ((listed f x)\<lparr>rr_state := RuntimeThreadIdle, rr_active_turn_id := []\<rparr>) = (db2, None)"
      and rest: "reconcile_threads c m ws (Suc n) db2 (count_outcome z report) (map (listed f) rows) = (db', report', None)"
      by (fastforce split: if_splits sum.splits thread_outcome.splits option.splits prod.splits)
    have "list_all (\<lambda>x. settled f x \<or> x \<in> set rows) (runtime_threads db2)"
      using save_idle_rows [OF save] settle_threads [OF s] Cons.prems(3,4) by (fastforce simp: list_all_iff)
    moreover have "rc_deferred (count_outcome z report) = rc_deferred report" using z by (cases z) (simp_all add: count_outcome_def)
    ultimately show ?thesis using Cons.IH [OF rest] Cons.prems(2,3) by simp
  qed
qed


definition demo_threads :: node_db where
  "demo_threads = (empty_node_db (timestamp 1))\<lparr>runtime_threads :=
     [\<lparr>rt_agent_instance_id = ''a'', rt_adapter = ''codex'', rt_thread_id = ''t'', rt_workspace_id = ''w'', rt_ownership = ''created'',
       rt_state = ''active'', rt_active_turn_id = Some ''u'', rt_updated_at = timestamp 1\<rparr>]\<rparr>"

definition demo_thread :: thread_snapshot where
  "demo_thread =
     \<lparr>ts_thread = \<lparr>th_id = ''t'', th_status = ''idle'', th_title = [], th_preview = [], th_history = [], th_created = 0, th_updated = 0\<rparr>,
      ts_turns = [\<lparr>tu_id = ''u'', tu_status = ''completed'', tu_history = [], tu_items = []\<rparr>]\<rparr>"

definition demo_reconcile_world :: reconcile_world where
  "demo_reconcile_world = \<lparr>rw_runtime = (\<lambda>_. Inr demo_thread), rw_live = True, rw_appends = (\<lambda>_. log_world),
     rw_terminal = live_env, rw_mark = live_env, rw_save = live_env, rw_clock = seconds 63000000010\<rparr>"

definition demo_reconciled :: "node_db \<times> reconcile_report \<times> log_error option" where
  "demo_reconciled = Reconcile log_codec log_manager live_env (\<lambda>_. demo_reconcile_world) demo_threads"


text \<open>The exception occurs: with only the query of the columns failing, the reconciliation of the same table reports one
  confirmed thread and no deferred one, and the thread is still active, beside a new idle row of \<^verbatim>\<open>codex-default\<close>.\<close>

definition failing_columns :: env where
  "failing_columns = live_env\<lparr>call_fails := (\<lambda>n. n = 0)\<rparr>"

definition demo_unsettled :: "node_db \<times> reconcile_report \<times> log_error option" where
  "demo_unsettled = Reconcile log_codec log_manager failing_columns (\<lambda>_. demo_reconcile_world) demo_threads"

theorem reconcile_unsettled:
  "rc_confirmed (fst (snd demo_unsettled)) = 1 \<and> rc_deferred (fst (snd demo_unsettled)) = 0 \<and> snd (snd demo_unsettled) = None \<and>
   map (\<lambda>x. (rt_agent_instance_id x, rt_thread_id x, rt_state x)) (runtime_threads (fst demo_unsettled)) =
     [(''a'', ''t'', RuntimeThreadActive), (default_instance, ''t'', RuntimeThreadIdle)]"
  by code_simp

end
