(* ===== verification/Spec2Isabelle.thy ===== *)
theory Spec2Isabelle
  imports Lease_Contract Trust_Store Event_Contract Node_Records_Contract Node_Resources_Contract Server_Properties
    Validator_Properties Strict_Json_Grammar Frame_Codec Memory_Notifications Hub_Properties Event_Manager_Properties
begin

text \<open>
  Verification of yuanshu: the Server, the Nodes and the protocol between them.

  \<^bold>\<open>The program.\<close> Yuanshu lets the owner of several machines control coding agents on them from a browser or
  phone. A \<^emph>\<open>Node\<close> runs on each machine; a \<^emph>\<open>control client\<close> is a browser; the \<^emph>\<open>Server\<close> relays between them.
  A control is a signed JSON frame. The Server's hub checks and routes it (\<^verbatim>\<open>internal/server\<close>), a control
  lease gives one client at a time the right to act on a thread, and the Node checks the frame again on its own
  (\<^verbatim>\<open>internal/protocol/v1/validator.go\<close>) against keys it trusts and sequences it has seen. Events
  flow back: the Node's event log manager (\<^verbatim>\<open>internal/node/eventlog\<close>) turns what an Agent reports into
  frames of the protocol, redacts them, numbers them in a per-stream log and records how each control ended. Both sides keep their state in SQLite. The Server does not have to be trusted
  for authenticity; it is for availability and for the order of leases.

  \<^bold>\<open>Theories and sources.\<close> All paths are under \<^verbatim>\<open>src/internal\<close>.

  \<^item> Foundations. \<open>Prelude\<close> (text, bytes, times and their RFC 3339 columns), \<open>Go_Text\<close> (UTF-8 and the classes of
    runes the code asks for), \<open>Go_Time\<close> (\<^verbatim>\<open>time.Parse\<close>), \<open>Go_Format\<close> (\<^verbatim>\<open>time.Format\<close> and the float64
    of a number literal), \<open>Base64url\<close>, \<open>Sql_Table\<close> (tables, the prologue of a store call, transactions,
    locale \<open>keyed_table\<close>), \<open>State_Machine\<close> (locale \<open>row_machine\<close>).
  \<^item> Schemas. \<open>Server_Schema\<close> (\<^verbatim>\<open>server/store/migrations.go\<close>), \<open>Node_Schema\<close> (\<^verbatim>\<open>node/store/migrations.go\<close>): one record per
    table, its CHECK, UNIQUE and FOREIGN KEY constraints as predicates.
  \<^item> Leases. \<open>Lease_Store\<close> (\<^verbatim>\<open>server/store/leases.go\<close>, \<^verbatim>\<open>server/lease_memory.go\<close>) and \<open>Lease_Contract\<close>: the abstract lease,
    locale \<open>lease_service\<close>, interpreted by the SQLite and the in-memory store. \<open>Memory_Notifications\<close> is the rest of
    \<^verbatim>\<open>lease_memory.go\<close>.
  \<^item> Replay and trust. \<open>Replay_Store\<close> (\<^verbatim>\<open>protocol/v1/stores.go\<close>, \<^verbatim>\<open>server/store/replay.go\<close>, \<^verbatim>\<open>node/store/trust_replay.go\<close>), locale
    \<open>replay_store\<close>; \<open>Trust_Store\<close>, locale \<open>trust_store\<close>, with the trust manifest.
  \<^item> Node state. \<open>Event_Store\<close>, \<open>Event_Contract\<close> (\<^verbatim>\<open>node/store/events.go\<close>, \<^verbatim>\<open>outbox.go\<close>, \<^verbatim>\<open>controls.go\<close>), \<open>Node_Records\<close> and
    \<open>Node_Records_Contract\<close> (\<^verbatim>\<open>approvals.go\<close>, \<^verbatim>\<open>identity.go\<close>, \<^verbatim>\<open>config_changes.go\<close>), \<open>Node_Resources\<close> and
    \<open>Node_Resources_Contract\<close> (\<^verbatim>\<open>workspace.go\<close>, \<^verbatim>\<open>runtime.go\<close>, \<^verbatim>\<open>agent_resources.go\<close>).
  \<^item> Event log manager. \<open>Go_Regexp\<close> (the use of \<^verbatim>\<open>regexp\<close>), \<open>Redaction\<close> (\<^verbatim>\<open>security/credential/redact.go\<close>), \<open>Go_Float\<close>
    (a float64 as \<^verbatim>\<open>json.Marshal\<close> writes it), \<open>Event_Payload\<close> (the payload helpers of \<^verbatim>\<open>node/eventlog/manager.go\<close>),
    \<open>Event_Normalize\<close>, \<open>Event_Normalize11\<close> (\<^verbatim>\<open>normalize.go\<close>, \<^verbatim>\<open>normalize_v11.go\<close>, the event types of
    \<^verbatim>\<open>adapter/adapter.go\<close>), \<open>Event_Manager\<close>, \<open>Event_Operations\<close> (\<^verbatim>\<open>manager.go\<close>, \<^verbatim>\<open>operations.go\<close>),
    \<open>Event_Payload_Contract\<close>, \<open>Event_Manager_Contract\<close>, \<open>Event_Results\<close>, \<open>Event_Manager_Properties\<close>.
  \<^item> Server state. \<open>Server_Metadata\<close>, \<open>Server_Pairing\<close>, \<open>Server_Enrollment\<close>, \<open>Server_Admin\<close> (the files of the same names under
    \<^verbatim>\<open>server/store\<close>, with \<^verbatim>\<open>invitations.go\<close> and \<^verbatim>\<open>notifications.go\<close>); \<open>Server_Calls\<close> collects the calls, \<open>Server_Machines\<close>
    shows how each moves the rows, \<open>Server_Contract\<close> interprets \<open>row_machine\<close> for the tables,
    \<open>Server_Frames\<close> shows which tables they leave alone, \<open>Server_Properties\<close> states the results.
  \<^item> Protocol. \<open>Strict_Json\<close>, \<open>Strict_Json_Grammar\<close> (\<^verbatim>\<open>protocol/v1/strictjson.go\<close> and the grammar it accepts), \<open>Json_Print\<close>
    (\<^verbatim>\<open>json.Marshal\<close>), \<open>Json_Plain\<close> (\<^verbatim>\<open>json.Unmarshal\<close> without the strict checks), \<open>Protocol_Message\<close>,
    \<open>Protocol_Codec\<close>, \<open>Frame_Codec\<close> (\<^verbatim>\<open>controlcodec.go\<close>, \<^verbatim>\<open>eventcodec.go\<close>, \<^verbatim>\<open>signing.go\<close>, \<^verbatim>\<open>protocol/v11/protocol.go\<close>),
    \<open>Enrollment_Binding\<close>, \<open>Signing_Binding\<close> (\<^verbatim>\<open>enrollment/enrollment.go\<close> and what a signature covers), \<open>Validator\<close>,
    \<open>Validator_Contract\<close>, \<open>Validator_Properties\<close> (\<^verbatim>\<open>validator.go\<close>), locale \<open>control_gate\<close>.
  \<^item> Hub. \<open>Relay_Session\<close> (\<^verbatim>\<open>transport/session.go\<close>), \<open>Hub_Protocol\<close> (\<^verbatim>\<open>server/protocol_compat.go\<close> and the parsers of
    \<^verbatim>\<open>lease_hub.go\<close>), \<open>Hub\<close> (\<^verbatim>\<open>server/hub.go\<close>, \<^verbatim>\<open>lease_hub.go\<close>), \<open>Hub_Session\<close> (the handlers and the authentication of
    \<^verbatim>\<open>hub.go\<close>, \<^verbatim>\<open>node_sessions.go\<close>), \<open>Hub_Contract\<close>, \<open>Hub_Registry\<close>, \<open>Hub_Demo\<close>, \<open>Hub_Properties\<close>.

  \<^bold>\<open>How the code is represented.\<close> A store call takes an \<open>env\<close>, which says whether the context is cancelled, whether the
  store is closed and which of the call's statements fail, and returns the new database with an error or
  a result; \<open>transact\<close> gives back the old database on an error. A table is a list of rows, times are nanoseconds since
  year 1, a stored time is kept with its RFC 3339 text since SQL compares the texts. A Go value of type
  \<^verbatim>\<open>any\<close> in an event is a \<open>dyn\<close>, one constructor for each type the code distinguishes; a call of the event log
  manager, which holds its lock over the append, is one step, with an \<open>append_world\<close> for what the append meets. 64-bit arithmetic wraps through
  \<open>int64\<close>. A JSON number keeps its literal; where the code computes with the float64 of it, \<open>Go_Format\<close> rounds. The
  hub is a record; one turn of \<^verbatim>\<open>route\<close> is one step, with the clock, the random source, the store faults
  and the success of each send given by \<open>surroundings\<close>. The lock of a lease scope is held over the check of a lease and the forwarding
  of the control, and over each lease operation of the hub, so these steps do not overlap for one scope. The
  administrative release does not take that lock; it may fall between a check and the forwarding of the
  frame checked, and the statements speak of the moment of the check.

  \<^bold>\<open>What is shown.\<close> From the outside in: what the hub forwards is authentic, fresh, addressed and leased, forwarded leases never
  go back, no control is accepted twice, connections are authenticated, owners are kept apart and the revoked kept out
  (\<open>Hub_Properties\<close>); what a Node obeys is authentic, fresh and obeyed once, and a client without a key is shut out
  (\<open>Validator_Properties\<close>); a signature covers every field of what was signed (\<open>Signing_Binding\<close>); the strict reader accepts exactly the JSON
  grammar without duplicate members and ends, and frames survive printing and reading; the stores refine the abstract lease, refuse replays, apply
  newer manifests only, keep event streams gapless, and decide pairings, enrollments, invitations, approvals and the bootstrap once.
  What the event log manager publishes is redacted, cut and numbered without gaps, a control is completed once, and a reconciliation
  leaves no thread behind; one kind of payload escapes the redaction in Protocol v1.1 (\<open>v11_changes_unredacted\<close>).

  \<^bold>\<open>Bounds and fuel.\<close> The JSON readers take \<open>2 * length raw + 1\<close> steps of fuel; \<open>decodeStrictJSON_grammar\<close> shows that this always suffices.
  The matcher of \<open>Go_Regexp\<close> needs no fuel: the expressions in use repeat single runes only.
  \<^verbatim>\<open>pruneEvents\<close> runs for at most the length of the log. The other loops are structural recursion or have a measure.

  \<^bold>\<open>Parameters.\<close> The code outside this repository is a parameter of the definitions (\<open>codec\<close>): the canonical form of
  \<^verbatim>\<open>github.com/gowebpki/jcs\<close>, the compiled JSON schemas, SHA-256 and Ed25519. The Agent runtime is a parameter of
  the event log manager, with no hypothesis about it. The only hypothesis about them is \<open>jcs_faithful\<close>,
  that the canonical form does not confuse different documents, shown satisfiable by a concrete function.

  \<^bold>\<open>Not modelled.\<close> Goroutines, queues and heartbeats of the relay, websockets, the HTTP handlers beyond admission and sessions, the
  Node's loop that hands validated controls to the runtime, the drivers of agent processes (they talk to external programs), the operating system services, certificates, configuration files, the
  command line and the user interfaces. They call the parts modelled here or the outside world; what they rely on is in the
  contracts above.
\<close>

end
